(* ===== verification/Catomicals_Prelude.thy ===== *)
theory Catomicals_Prelude
  imports Main "HOL-Library.Word" "HOL-Library.List_Lexorder"
begin

text \<open>
  Shared vocabulary of the development: machine integers, byte strings, the
  \<open>Result\<close> type of the Rust sources with its \<open>?\<close> operator, fixed-width
  integer encodings (\<open>to_le_bytes\<close>, \<open>to_be_bytes\<close>, \<open>from_le_bytes\<close>), checked and
  saturating arithmetic, and ordered maps (\<open>BTreeMap\<close>) as sorted association
  lists.  The collections \<open>result_simps\<close>, \<open>wire_simps\<close> and \<open>btree_simps\<close> hold
  the rewrite rules the component proofs share.
\<close>

named_theorems result_simps \<open>inversion of successful Result computations\<close>
named_theorems wire_simps \<open>lengths and inverses of byte encodings\<close>
named_theorems btree_simps \<open>lookups in ordered maps\<close>

section \<open>Machine types\<close>

type_synonym byte = "8 word"
type_synonym bytes = "byte list"
type_synonym u8 = "8 word"
type_synonym u16 = "16 word"
type_synonym u32 = "32 word"
type_synonym u64 = "64 word"
type_synonym i64 = int

text \<open>A Rust \<open>[u8; N]\<close> is a byte list whose length is \<open>N\<close>.\<close>

abbreviation is_array :: "nat \<Rightarrow> bytes \<Rightarrow> bool" where
  "is_array n bs \<equiv> length bs = n"

text \<open>ASCII literals (\<open>b"..."\<close>) as bytes.\<close>

definition ascii :: "string \<Rightarrow> bytes" where
  "ascii s = map of_char s"

lemma length_ascii [simp, wire_simps]: "length (ascii s) = length s"
  by (simp add: ascii_def)

lemma unat_of_char: "unat (of_char c :: byte) = of_char c"
proof -
  have "(of_char c :: byte) = word_of_nat (of_char c)" by (simp only: of_nat_of_char)
  then have "unat (of_char c :: byte) = of_char c mod 256" by (simp add: unat_of_nat)
  then show ?thesis using nat_of_char_less_256 [of c] by simp
qed

lemma ascii_inject: "ascii s = ascii t \<longleftrightarrow> s = t"
proof -
  have "inj (of_char :: char \<Rightarrow> byte)"
  proof (rule injI)
    fix c d assume "(of_char c :: byte) = of_char d"
    then have "(of_char c :: nat) = of_char d" by (metis unat_of_char)
    then show "c = d" by (simp only: of_char_eq_iff)
  qed
  then show ?thesis by (simp add: ascii_def inj_map_eq_map)
qed

section \<open>Results\<close>

text \<open>\<open>Result<A, E>\<close> is \<open>'e + 'a\<close>; \<open>rbind\<close> is the \<open>?\<close> operator.\<close>

type_synonym ('e, 'a) rresult = "'e + 'a"

definition rbind :: "('e, 'a) rresult \<Rightarrow> ('a \<Rightarrow> ('e, 'b) rresult) \<Rightarrow> ('e, 'b) rresult" where
  "rbind m f = (case m of Inl e \<Rightarrow> Inl e | Inr x \<Rightarrow> f x)"

text \<open>
  A Rust panic (an index out of range, a failed \<open>assert!\<close>) aborts the computation:
  it is the error value of a result, or a constructor of the operation's error type.
\<close>

datatype panic = Panic

lemma panic_eq [simp]: "e = Panic"
  by (cases e)

definition ok_or :: "'e \<Rightarrow> 'a option \<Rightarrow> ('e, 'a) rresult" where
  "ok_or e x = (case x of None \<Rightarrow> Inl e | Some v \<Rightarrow> Inr v)"

definition require :: "bool \<Rightarrow> 'e \<Rightarrow> ('e, unit) rresult" where
  "require c e = (if c then Inr () else Inl e)"

definition map_err :: "('e \<Rightarrow> 'f) \<Rightarrow> ('e, 'a) rresult \<Rightarrow> ('f, 'a) rresult" where
  "map_err f m = (case m of Inl e \<Rightarrow> Inl (f e) | Inr x \<Rightarrow> Inr x)"

definition is_ok :: "('e, 'a) rresult \<Rightarrow> bool" where
  "is_ok m = (case m of Inl _ \<Rightarrow> False | Inr _ \<Rightarrow> True)"

lemma rbind_simps [simp]: "rbind (Inl e) f = Inl e" "rbind (Inr x) f = f x"
  by (simp_all add: rbind_def)

lemma rbind_Inr [result_simps]:
  "rbind m f = Inr y \<longleftrightarrow> (\<exists>x. m = Inr x \<and> f x = Inr y)"
  by (cases m) auto

lemma rbind_Inl:
  "rbind m f = Inl e \<longleftrightarrow> m = Inl e \<or> (\<exists>x. m = Inr x \<and> f x = Inl e)"
  by (cases m) auto

lemma ok_or_simps [simp]: "ok_or e None = Inl e" "ok_or e (Some v) = Inr v"
  by (simp_all add: ok_or_def)

lemma ok_or_Inr [result_simps]: "ok_or e x = Inr v \<longleftrightarrow> x = Some v"
  by (cases x) auto

lemma require_simps [simp]: "require True e = Inr ()" "require False e = Inl e"
  by (simp_all add: require_def)

lemma require_Inr [result_simps]: "require c e = Inr u \<longleftrightarrow> c"
  by (cases c) auto

lemma require_Inl: "require c e = Inl e' \<longleftrightarrow> \<not> c \<and> e' = e"
  by (cases c) auto

lemma map_err_simps [simp]: "map_err f (Inl e) = Inl (f e)" "map_err f (Inr x) = Inr x"
  by (simp_all add: map_err_def)

lemma map_err_Inr [result_simps]: "map_err f m = Inr x \<longleftrightarrow> m = Inr x"
  by (cases m) auto

lemma guard_Inr: "(if c then Inl e else m) = Inr v \<longleftrightarrow> \<not> c \<and> m = Inr v"
  by simp

lemma is_ok_simps [simp]: "\<not> is_ok (Inl e)" "is_ok (Inr x)"
  by (simp_all add: is_ok_def)

lemma is_ok_iff: "is_ok m \<longleftrightarrow> (\<exists>x. m = Inr x)"
  by (cases m) auto

text \<open>
  A method that mutates its receiver also when it fails returns the error together with the
  new state; \<open>and_then\<close> is the \<open>?\<close> operator for such methods.
\<close>

definition and_then ::
    "('e, 'a) rresult \<times> 's \<Rightarrow> ('a \<Rightarrow> 's \<Rightarrow> ('e, 'b) rresult \<times> 's) \<Rightarrow> ('e, 'b) rresult \<times> 's" where
  "and_then m f = (case m of (Inl e, s) \<Rightarrow> (Inl e, s) | (Inr x, s) \<Rightarrow> f x s)"

lemma and_then_simps [simp]: "and_then (Inl e, s) f = (Inl e, s)" "and_then (Inr x, s) f = f x s"
  by (simp_all add: and_then_def)

lemma and_then_Inr:
  "and_then m f = (Inr y, s') \<longleftrightarrow> (\<exists>x s. m = (Inr x, s) \<and> f x s = (Inr y, s'))"
  by (cases m; cases "fst m") auto

lemma and_then_state:
  assumes "and_then m f = (r, s')"
  obtains (err) e where "m = (Inl e, s')" "r = Inl e" | (ok) x s where "m = (Inr x, s)" "f x s = (r, s')"
  using assms by (cases m; cases "fst m") auto

text \<open>A loop that stops at the first error: \<open>iter().map(f).collect::<Result<_, _>>()\<close>.\<close>

primrec rmap :: "('a \<Rightarrow> ('e, 'b) rresult) \<Rightarrow> 'a list \<Rightarrow> ('e, 'b list) rresult" where
  "rmap f [] = Inr []"
| "rmap f (x # xs) = rbind (f x) (\<lambda>y. rbind (rmap f xs) (\<lambda>ys. Inr (y # ys)))"

lemma rmap_Inr [result_simps]: "rmap f xs = Inr ys \<longleftrightarrow> list_all2 (\<lambda>x y. f x = Inr y) xs ys"
  by (induction xs arbitrary: ys) (auto simp: rbind_Inr list_all2_Cons1)

lemma rmap_ok: "(\<And>x. x \<in> set xs \<Longrightarrow> f x = Inr (g x)) \<Longrightarrow> rmap f xs = Inr (map g xs)"
  by (induction xs) simp_all

section \<open>Searching lists\<close>

text \<open>\<open>iter().position(p)\<close>, and the indices selected by \<open>enumerate().filter(p)\<close>.\<close>

primrec position :: "('a \<Rightarrow> bool) \<Rightarrow> 'a list \<Rightarrow> nat option" where
  "position p [] = None"
| "position p (x # xs) = (if p x then Some 0 else map_option Suc (position p xs))"

definition indices_where :: "('a \<Rightarrow> bool) \<Rightarrow> 'a list \<Rightarrow> nat list" where
  "indices_where p xs = map fst (filter (\<lambda>(i, x). p x) (enumerate 0 xs))"

lemma position_Some:
  "position p xs = Some i \<longleftrightarrow> i < length xs \<and> p (xs ! i) \<and> (\<forall>j < i. \<not> p (xs ! j))"
proof (induction xs arbitrary: i)
  case (Cons x xs)
  then show ?case by (cases i) (auto simp: All_less_Suc2)
qed simp

lemma position_None: "position p xs = None \<longleftrightarrow> (\<forall>x \<in> set xs. \<not> p x)"
  by (induction xs) auto

lemma set_indices_where: "set (indices_where p xs) = {i. i < length xs \<and> p (xs ! i)}"
  by (force simp: indices_where_def in_set_enumerate_eq image_iff)

lemma distinct_indices_where: "distinct (indices_where p xs)"
  unfolding indices_where_def by (rule distinct_map_filter) simp

lemma indices_where_single:
  "indices_where p xs = [i] \<longleftrightarrow> i < length xs \<and> p (xs ! i) \<and> (\<forall>j < length xs. p (xs ! j) \<longrightarrow> j = i)"
proof
  assume "indices_where p xs = [i]"
  then have "{j. j < length xs \<and> p (xs ! j)} = {i}" by (simp flip: set_indices_where)
  then show "i < length xs \<and> p (xs ! i) \<and> (\<forall>j < length xs. p (xs ! j) \<longrightarrow> j = i)" by blast
next
  assume "i < length xs \<and> p (xs ! i) \<and> (\<forall>j < length xs. p (xs ! j) \<longrightarrow> j = i)"
  then have "set (indices_where p xs) = {i}" by (auto simp: set_indices_where)
  then have "length (indices_where p xs) = 1"
    using distinct_card [OF distinct_indices_where [of p xs]] by simp
  then show "indices_where p xs = [i]"
    using \<open>set (indices_where p xs) = {i}\<close> by (auto simp: length_Suc_conv)
qed

section \<open>Fixed-width integer encodings\<close>

text \<open>
  \<open>le_bytes n x\<close> is the little-endian encoding of the value \<open>x\<close> in \<open>n\<close> bytes and
  \<open>of_le_bytes\<close> its decoder; \<open>be_bytes\<close> is the big-endian encoding.
\<close>

primrec le_bytes :: "nat \<Rightarrow> nat \<Rightarrow> bytes" where
  "le_bytes 0 x = []"
| "le_bytes (Suc n) x = word_of_nat (x mod 256) # le_bytes n (x div 256)"

primrec of_le_bytes :: "bytes \<Rightarrow> nat" where
  "of_le_bytes [] = 0"
| "of_le_bytes (b # bs) = unat b + 256 * of_le_bytes bs"

definition be_bytes :: "nat \<Rightarrow> nat \<Rightarrow> bytes" where
  "be_bytes n x = rev (le_bytes n x)"

lemma unat_bound: "unat w < 2 ^ LENGTH('a)" for w :: "'a::len word"
  by (rule unsigned_less)

lemma length_le_bytes [simp, wire_simps]: "length (le_bytes n x) = n"
  by (induction n arbitrary: x) simp_all

lemma length_be_bytes [simp, wire_simps]: "length (be_bytes n x) = n"
  by (simp add: be_bytes_def)

lemma le_bytes_zero: "le_bytes n 0 = replicate n 0"
  by (induction n) simp_all

lemma unat_byte_of_nat [simp]: "unat (word_of_nat (x mod 256) :: byte) = x mod 256"
  by (simp add: unat_of_nat)

lemma of_le_bytes_le_bytes: "of_le_bytes (le_bytes n x) = x mod 256 ^ n"
proof (induction n arbitrary: x)
  case 0
  show ?case by simp
next
  case (Suc n)
  have "x mod 256 ^ Suc n = x mod 256 + 256 * (x div 256 mod 256 ^ n)"
    by (simp add: mod_mult2_eq)
  with Suc show ?case by simp
qed

lemma of_le_bytes_bound: "of_le_bytes bs < 256 ^ length bs"
proof (induction bs)
  case Nil
  show ?case by simp
next
  case (Cons b bs)
  have "unat b < 256" using unat_bound [of b] by simp
  with Cons show ?case by simp
qed

lemma le_bytes_of_le_bytes: "length bs = n \<Longrightarrow> le_bytes n (of_le_bytes bs) = bs"
proof (induction bs arbitrary: n)
  case Nil
  then show ?case by simp
next
  case (Cons b bs)
  then obtain m where m: "n = Suc m" "length bs = m" by (cases n) auto
  have b: "unat b < 256" using unat_bound [of b] by simp
  have "word_of_nat ((unat b + 256 * of_le_bytes bs) mod 256) = b"
    using b by (simp add: mod_mult_self1 flip: unat_of_nat)
  moreover have "(unat b + 256 * of_le_bytes bs) div 256 = of_le_bytes bs"
    using b by simp
  ultimately show ?case using Cons.IH [OF m(2)] m by simp
qed

lemma le_bytes_inject: "x < 256 ^ n \<Longrightarrow> y < 256 ^ n \<Longrightarrow> le_bytes n x = le_bytes n y \<longleftrightarrow> x = y"
  by (metis of_le_bytes_le_bytes mod_less)

lemma be_bytes_inject: "x < 256 ^ n \<Longrightarrow> y < 256 ^ n \<Longrightarrow> be_bytes n x = be_bytes n y \<longleftrightarrow> x = y"
  by (simp add: be_bytes_def le_bytes_inject)

text \<open>The encodings of the machine integers the sources serialise.\<close>

definition u16_be :: "u16 \<Rightarrow> bytes" where "u16_be w = be_bytes 2 (unat w)"
definition u32_be :: "u32 \<Rightarrow> bytes" where "u32_be w = be_bytes 4 (unat w)"
definition u64_be :: "u64 \<Rightarrow> bytes" where "u64_be w = be_bytes 8 (unat w)"
definition u32_le :: "u32 \<Rightarrow> bytes" where "u32_le w = le_bytes 4 (unat w)"
definition u64_le :: "u64 \<Rightarrow> bytes" where "u64_le w = le_bytes 8 (unat w)"
definition i64_be :: "i64 \<Rightarrow> bytes" where "i64_be x = u64_be (word_of_int x)"

definition u32_from_le :: "bytes \<Rightarrow> u32" where "u32_from_le bs = word_of_nat (of_le_bytes bs)"
definition u64_from_le :: "bytes \<Rightarrow> u64" where "u64_from_le bs = word_of_nat (of_le_bytes bs)"

lemma length_int_bytes [simp, wire_simps]:
  "length (u16_be a) = 2" "length (u32_be b) = 4" "length (u64_be c) = 8"
  "length (u32_le b) = 4" "length (u64_le c) = 8" "length (i64_be i) = 8"
  by (simp_all add: u16_be_def u32_be_def u64_be_def u32_le_def u64_le_def i64_be_def)

lemma u16_be_inject [simp, wire_simps]: "u16_be a = u16_be b \<longleftrightarrow> a = b"
  using unat_bound [of a] unat_bound [of b] by (simp add: u16_be_def be_bytes_inject word_unat_eq_iff)

lemma u32_be_inject [simp, wire_simps]: "u32_be a = u32_be b \<longleftrightarrow> a = b"
  using unat_bound [of a] unat_bound [of b] by (simp add: u32_be_def be_bytes_inject word_unat_eq_iff)

lemma u64_be_inject [simp, wire_simps]: "u64_be a = u64_be b \<longleftrightarrow> a = b"
  using unat_bound [of a] unat_bound [of b] by (simp add: u64_be_def be_bytes_inject word_unat_eq_iff)

lemma i64_be_inject:
  assumes "- (2 ^ 63) \<le> x" "x < 2 ^ 63" "- (2 ^ 63) \<le> y" "y < 2 ^ 63"
  shows "i64_be x = i64_be y \<longleftrightarrow> x = y"
proof -
  have "take_bit 64 x = take_bit 64 y \<longleftrightarrow> x = y"
    using assms signed_take_bit_int_eq_self [of 63 x] signed_take_bit_int_eq_self [of 63 y]
      signed_take_bit_eq_iff_take_bit_eq [of 63 x y] by auto
  then show ?thesis by (simp add: i64_be_def word_of_int_eq_iff)
qed

lemma u32_from_le_u32_le [simp, wire_simps]: "u32_from_le (u32_le w) = w"
  using unat_bound [of w] by (simp add: u32_from_le_def u32_le_def of_le_bytes_le_bytes)

lemma u64_from_le_u64_le [simp, wire_simps]: "u64_from_le (u64_le w) = w"
  using unat_bound [of w] by (simp add: u64_from_le_def u64_le_def of_le_bytes_le_bytes)

lemma u32_le_u32_from_le: "length bs = 4 \<Longrightarrow> u32_le (u32_from_le bs) = bs"
  using of_le_bytes_bound [of bs]
  by (simp add: u32_le_def u32_from_le_def unat_of_nat le_bytes_of_le_bytes)

lemma u64_le_u64_from_le: "length bs = 8 \<Longrightarrow> u64_le (u64_from_le bs) = bs"
  using of_le_bytes_bound [of bs]
  by (simp add: u64_le_def u64_from_le_def unat_of_nat le_bytes_of_le_bytes)

lemma u32_le_inject [simp, wire_simps]: "u32_le a = u32_le b \<longleftrightarrow> a = b"
  by (metis u32_from_le_u32_le)

lemma u64_le_inject [simp, wire_simps]: "u64_le a = u64_le b \<longleftrightarrow> a = b"
  by (metis u64_from_le_u64_le)

text \<open>
  Parsing a concatenation from the front: equal byte strings whose first fields have
  the same width agree on the field and on the rest.
\<close>

lemma field_split:
  assumes "a @ xs = b @ ys" and "length a = length b"
  shows "a = b \<and> xs = ys"
  using assms by simp

text \<open>A field prefixed by its length as a big-endian \<open>u64\<close>.\<close>

definition len_prefixed :: "bytes \<Rightarrow> bytes" where
  "len_prefixed bs = u64_be (word_of_nat (length bs)) @ bs"

lemma len_prefixed_split:
  assumes "len_prefixed a @ xs = len_prefixed b @ ys"
    and "length a < 2 ^ 64" and "length b < 2 ^ 64"
  shows "a = b \<and> xs = ys"
proof -
  have "u64_be (word_of_nat (length a)) = u64_be (word_of_nat (length b))"
    and rest: "a @ xs = b @ ys"
    using assms(1) by (auto simp: len_prefixed_def)
  then have eq: "(word_of_nat (length a) :: u64) = word_of_nat (length b)" by simp
  have "length a = unat (word_of_nat (length a) :: u64)"
    using assms(2) by (simp add: of_nat_inverse [OF refl])
  also have "\<dots> = unat (word_of_nat (length b) :: u64)"
    by (simp only: eq)
  also have "\<dots> = length b"
    using assms(3) by (simp add: of_nat_inverse [OF refl])
  finally have "length a = length b" .
  with rest show ?thesis by simp
qed

section \<open>Checked arithmetic\<close>

definition checked_add :: "'a::len word \<Rightarrow> 'a word \<Rightarrow> 'a word option" where
  "checked_add a b = (if unat a + unat b < 2 ^ LENGTH('a) then Some (a + b) else None)"

definition checked_sub :: "'a::len word \<Rightarrow> 'a word \<Rightarrow> 'a word option" where
  "checked_sub a b = (if b \<le> a then Some (a - b) else None)"

definition saturating_add :: "'a::len word \<Rightarrow> 'a word \<Rightarrow> 'a word" where
  "saturating_add a b = (if unat a + unat b < 2 ^ LENGTH('a) then a + b else - 1)"

definition saturating_sub :: "'a::len word \<Rightarrow> 'a word \<Rightarrow> 'a word" where
  "saturating_sub a b = (if b \<le> a then a - b else 0)"

definition checked_add_i64 :: "i64 \<Rightarrow> i64 \<Rightarrow> i64 option" where
  "checked_add_i64 a b = (if - (2 ^ 63) \<le> a + b \<and> a + b < 2 ^ 63 then Some (a + b) else None)"

lemma checked_add_Some: "checked_add a b = Some c \<longleftrightarrow> unat c = unat a + unat b"
  for a b c :: "'a::len word"
proof
  assume "checked_add a b = Some c"
  then show "unat c = unat a + unat b"
    by (auto simp: checked_add_def unat_word_ariths split: if_splits)
next
  assume c: "unat c = unat a + unat b"
  then have "unat a + unat b < 2 ^ LENGTH('a)" using unat_bound [of c] by simp
  moreover have "c = a + b" using c by (simp add: word_unat_eq_iff unat_word_ariths calculation)
  ultimately show "checked_add a b = Some c" by (simp add: checked_add_def)
qed

lemma checked_sub_Some: "checked_sub a b = Some c \<longleftrightarrow> unat a = unat c + unat b"
  for a b c :: "'a::len word"
proof
  assume "checked_sub a b = Some c"
  then show "unat a = unat c + unat b"
    by (auto simp: checked_sub_def unat_sub word_le_nat_alt split: if_splits)
next
  assume a: "unat a = unat c + unat b"
  then have "a = c + b"
    using unat_bound [of a] by (simp add: word_unat_eq_iff unat_word_ariths)
  with a show "checked_sub a b = Some c" by (simp add: checked_sub_def word_le_nat_alt)
qed

section \<open>Ordered maps\<close>

text \<open>
  A \<open>BTreeMap\<close> is an association list sorted by strictly increasing keys, so that
  iteration visits the keys in order; \<open>map_of\<close> is \<open>get\<close>.
\<close>

type_synonym ('k, 'v) btree = "('k \<times> 'v) list"

fun bt_insert :: "'k::linorder \<Rightarrow> 'v \<Rightarrow> ('k, 'v) btree \<Rightarrow> ('k, 'v) btree" where
  "bt_insert k v [] = [(k, v)]"
| "bt_insert k v ((k', v') # m) =
     (if k < k' then (k, v) # (k', v') # m
      else if k = k' then (k, v) # m
      else (k', v') # bt_insert k v m)"

definition bt_remove :: "'k \<Rightarrow> ('k, 'v) btree \<Rightarrow> ('k, 'v) btree" where
  "bt_remove k m = filter (\<lambda>(k', _). k' \<noteq> k) m"

definition bt_contains :: "'k \<Rightarrow> ('k, 'v) btree \<Rightarrow> bool" where
  "bt_contains k m = (k \<in> fst ` set m)"

definition bt_collect :: "('k::linorder \<times> 'v) list \<Rightarrow> ('k, 'v) btree" where
  "bt_collect kvs = fold (\<lambda>(k, v) m. bt_insert k v m) kvs []"

definition bt_ok :: "('k::linorder, 'v) btree \<Rightarrow> bool" where
  "bt_ok m = sorted_wrt (<) (map fst m)"

lemma map_of_bt_insert [simp, btree_simps]: "map_of (bt_insert k v m) = (map_of m)(k \<mapsto> v)"
  by (induction k v m rule: bt_insert.induct) auto

lemma keys_bt_insert [simp, btree_simps]: "fst ` set (bt_insert k v m) = insert k (fst ` set m)"
  by (induction k v m rule: bt_insert.induct) auto

lemma bt_contains_iff [btree_simps]: "bt_contains k m \<longleftrightarrow> map_of m k \<noteq> None"
  by (simp add: bt_contains_def map_of_eq_None_iff)

lemma map_of_bt_remove [simp, btree_simps]: "map_of (bt_remove k m) = (map_of m)(k := None)"
  by (induction m) (auto simp: bt_remove_def)

lemma bt_ok_Nil [simp]: "bt_ok []"
  by (simp add: bt_ok_def)

lemma bt_ok_insert [simp]: "bt_ok m \<Longrightarrow> bt_ok (bt_insert k v m)"
proof (induction k v m rule: bt_insert.induct)
  case (1 k v)
  show ?case by (simp add: bt_ok_def)
next
  case (2 k v k' v' m)
  have keys: "set (map fst (bt_insert k v m)) = insert k (set (map fst m))"
    using keys_bt_insert [of k v m] by (simp only: set_map)
  from 2 keys show ?case by (fastforce simp: bt_ok_def)
qed

lemma bt_ok_remove [simp]: "bt_ok m \<Longrightarrow> bt_ok (bt_remove k m)"
  by (simp add: bt_ok_def bt_remove_def sorted_wrt_map sorted_wrt_filter)

lemma bt_ok_collect [simp]: "bt_ok (bt_collect kvs)"
proof -
  have "bt_ok m \<Longrightarrow> bt_ok (fold (\<lambda>(k, v) m. bt_insert k v m) kvs m)" for m
    by (induction kvs arbitrary: m) auto
  then show ?thesis by (simp add: bt_collect_def)
qed

lemma bt_ok_distinct: "bt_ok m \<Longrightarrow> distinct (map fst m)"
  by (simp add: bt_ok_def strict_sorted_iff)

lemma length_bt: "bt_ok m \<Longrightarrow> length m = card (dom (map_of m))"
  by (metis bt_ok_distinct distinct_card dom_map_of_conv_image_fst length_map set_map)

lemma length_bt_insert_new:
  "bt_ok m \<Longrightarrow> map_of m k = None \<Longrightarrow> length (bt_insert k v m) = Suc (length m)"
  by (simp add: length_bt finite_dom_map_of domIff)

lemma map_of_entry: "bt_ok m \<Longrightarrow> (k, v) \<in> set m \<longleftrightarrow> map_of m k = Some v"
  by (simp add: bt_ok_distinct map_of_eq_Some_iff)

end
