(* ===== verification/Bitcoin_Env.thy ===== *)
theory Bitcoin_Env
  imports Catomicals_Prelude
begin

text \<open>
  The Bitcoin data the sources pass around (\<open>Transaction\<close>, \<open>TxIn\<close>, \<open>TxOut\<close>,
  \<open>OutPoint\<close>) and the functions of third-party crates they call.  The functions are
  not part of the repository, so they are fields of the parameter \<open>bitcoin_env\<close>;
  what the sources rely on is stated as named hypotheses
  (\<open>sha256_32\<close>, \<open>xonly_sound\<close>, \<dots>).
  \<open>sample_env\<close> is an instantiation on which those hypotheses hold; the witnesses of
  later theories evaluate on it.
\<close>

section \<open>Transactions\<close>

record out_point =
  op_txid :: bytes
  op_vout :: u32

record tx_out =
  out_value :: u64
  script_pubkey :: bytes

record tx_in =
  previous_output :: out_point
  script_sig :: bytes
  sequence :: u32
  witness :: "bytes list"

record transaction =
  tx_version :: int
  lock_time :: u32
  tx_input :: "tx_in list"
  tx_output :: "tx_out list"

record block =
  prev_blockhash :: bytes
  txdata :: "transaction list"

text \<open>Constants of the \<open>bitcoin\<close> crate.\<close>

definition version_two :: int where "version_two = 2"
definition sequence_max :: u32 where "sequence_max = - 1"

definition null_outpoint :: out_point where
  "null_outpoint = \<lparr>op_txid = replicate 32 0, op_vout = - 1\<rparr>"

definition null_txout :: tx_out where
  "null_txout = \<lparr>out_value = - 1, script_pubkey = []\<rparr>"

definition all_zeros :: bytes where "all_zeros = replicate 32 0"

abbreviation mk_outpoint :: "bytes \<Rightarrow> u32 \<Rightarrow> out_point" where
  "mk_outpoint t v \<equiv> \<lparr>op_txid = t, op_vout = v\<rparr>"

abbreviation mk_txout :: "u64 \<Rightarrow> bytes \<Rightarrow> tx_out" where
  "mk_txout v s \<equiv> \<lparr>out_value = v, script_pubkey = s\<rparr>"

lemma mk_outpoint_eta [simp]: "mk_outpoint (op_txid op) (op_vout op) = op"
  by (cases op) simp

text \<open>The transaction with its witnesses removed.\<close>

definition strip_witness :: "transaction \<Rightarrow> transaction" where
  "strip_witness tx = tx\<lparr>tx_input := map (\<lambda>i. i\<lparr>witness := []\<rparr>) (tx_input tx)\<rparr>"

section \<open>Third-party functions\<close>

record bitcoin_env =
  sha256 :: "bytes \<Rightarrow> bytes"
  compute_txid :: "transaction \<Rightarrow> bytes"
  block_hash :: "block \<Rightarrow> bytes"
  xonly_from_slice :: "bytes \<Rightarrow> bytes option"
  taproot_single_leaf_key :: "bytes \<Rightarrow> bytes \<Rightarrow> bytes"
  control_block_verify :: "bytes \<Rightarrow> bytes \<Rightarrow> bytes \<Rightarrow> bool option"
  hex_decode :: "string \<Rightarrow> bytes option"
  tx_deserialize :: "bytes \<Rightarrow> transaction option"
  tx_serialize :: "transaction \<Rightarrow> bytes"
  txout_serialize :: "tx_out \<Rightarrow> bytes"
  push_int :: "int \<Rightarrow> bytes"
  push_slice :: "bytes \<Rightarrow> bytes"
  taproot_pair_key :: "bytes \<Rightarrow> bytes \<Rightarrow> bytes \<Rightarrow> bytes option"
  taproot_pair_control :: "bytes \<Rightarrow> bytes \<Rightarrow> bytes \<Rightarrow> bytes \<Rightarrow> bytes option"
  new_p2tr_tweaked :: "bytes \<Rightarrow> bytes"
  taproot_sighash :: "transaction \<Rightarrow> tx_out list \<Rightarrow> bytes option \<Rightarrow> bytes option"
  schnorr_from_slice :: "bytes \<Rightarrow> bytes option"
  schnorr_verify :: "bytes \<Rightarrow> bytes \<Rightarrow> bytes \<Rightarrow> bool"
  weight_vbytes :: "transaction \<Rightarrow> u64"
  taproot_single_leaf_control :: "bytes \<Rightarrow> bytes \<Rightarrow> bytes"
  xonly_of_secret :: "bytes \<Rightarrow> bytes"
  block_serialize :: "block \<Rightarrow> bytes"
  hex_encode :: "bytes \<Rightarrow> string"

text \<open>
  \<^item> \<open>control_block_verify control key script\<close> is \<open>None\<close> when
    \<open>ControlBlock::decode\<close> fails and otherwise \<open>verify_taproot_commitment\<close>.
  \<^item> \<open>taproot_pair_key internal l1 l2\<close> is the output key of the two-leaf tree built by
    \<open>TaprootBuilder\<close>, and \<open>taproot_pair_control internal l1 l2 s\<close> the serialised
    control block of leaf \<open>s\<close>.
  \<^item> \<open>taproot_sighash tx prevouts leaf\<close> is the \<open>SIGHASH_DEFAULT\<close> digest of input 0,
    on the script path of \<open>leaf\<close> or, without a leaf, on the key path.
  \<^item> \<open>weight_vbytes\<close> is \<open>weight().to_vbytes_ceil()\<close>, \<open>taproot_single_leaf_control internal s\<close>
    the serialised control block of the only leaf \<open>s\<close>, and \<open>xonly_of_secret\<close> the x-only public
    key of a secret key.
\<close>

subsection \<open>Documented behaviour the sources rely on\<close>

text \<open>SHA-256 digests have 32 bytes.\<close>

definition sha256_32 :: "bitcoin_env \<Rightarrow> bool" where
  "sha256_32 E = (\<forall>bs. length (sha256 E bs) = 32)"

text \<open>Two given strings are a SHA-256 collision.\<close>

definition sha_collision :: "bitcoin_env \<Rightarrow> bytes \<Rightarrow> bytes \<Rightarrow> bool" where
  "sha_collision E x y = (x \<noteq> y \<and> sha256 E x = sha256 E y)"

text \<open>
  \<open>XOnlyPublicKey::from_slice\<close> accepts 32-byte strings only, and \<open>serialize\<close> returns
  the bytes it was parsed from, so a key is represented by its serialisation.
\<close>

definition xonly_sound :: "bitcoin_env \<Rightarrow> bool" where
  "xonly_sound E = (\<forall>bs k. xonly_from_slice E bs = Some k \<longrightarrow> k = bs \<and> length bs = 32)"

text \<open>Output keys computed by \<open>TaprootBuilder\<close> are valid x-only keys.\<close>

definition taproot_keys_valid :: "bitcoin_env \<Rightarrow> bool" where
  "taproot_keys_valid E =
     (\<forall>ik s. xonly_from_slice E (taproot_single_leaf_key E ik s) = Some (taproot_single_leaf_key E ik s))"

text \<open>BIP 141 and BIP 341: neither the txid nor the taproot digest covers witnesses.\<close>

definition txid_ignores_witness :: "bitcoin_env \<Rightarrow> bool" where
  "txid_ignores_witness E = (\<forall>tx. compute_txid E (strip_witness tx) = compute_txid E tx)"

definition sighash_ignores_witness :: "bitcoin_env \<Rightarrow> bool" where
  "sighash_ignores_witness E =
     (\<forall>tx ps l. taproot_sighash E (strip_witness tx) ps l = taproot_sighash E tx ps l)"

text \<open>A Schnorr signature is any 64-byte string, represented by its bytes.\<close>

definition schnorr_parse_64 :: "bitcoin_env \<Rightarrow> bool" where
  "schnorr_parse_64 E = (\<forall>s. length s = 64 \<longrightarrow> schnorr_from_slice E s = Some s)"

lemma sha256_length: "sha256_32 E \<Longrightarrow> length (sha256 E bs) = 32"
  by (simp add: sha256_32_def)

lemma xonly_soundD: "xonly_sound E \<Longrightarrow> xonly_from_slice E bs = Some k \<Longrightarrow> k = bs \<and> length bs = 32"
  by (simp add: xonly_sound_def)

lemma xonly_idem: "xonly_sound E \<Longrightarrow> xonly_from_slice E bs = Some k \<Longrightarrow> xonly_from_slice E k = Some k"
  by (metis xonly_soundD)

section \<open>A sample instantiation\<close>

text \<open>
  The digest is 32 bytes of \<open>0x01\<close>, so that every nonce meets every proof-of-work
  target; keys are accepted by length.  \<open>sample_env_with\<close> adds a table of raw transactions.
\<close>

definition sample_env :: bitcoin_env where
  "sample_env = \<lparr>
     sha256 = (\<lambda>_. replicate 32 1),
     compute_txid = (\<lambda>tx. replicate 31 0 @ [word_of_nat (length (tx_output tx))]),
     block_hash = (\<lambda>b. replicate 31 0 @ [word_of_nat (Suc (\<Sum>tx\<leftarrow>txdata b. length (tx_output tx)))]),
     xonly_from_slice = (\<lambda>bs. if length bs = 32 then Some bs else None),
     taproot_single_leaf_key = (\<lambda>ik s. replicate 32 5),
     control_block_verify = (\<lambda>c k s. Some True),
     hex_decode = (\<lambda>_. None),
     tx_deserialize = (\<lambda>_. None),
     tx_serialize = (\<lambda>_. []),
     txout_serialize = (\<lambda>_. []),
     push_int = (\<lambda>_. [0x52]),
     push_slice = (\<lambda>bs. word_of_nat (length bs) # bs),
     taproot_pair_key = (\<lambda>ik a b. Some (replicate 32 6)),
     taproot_pair_control = (\<lambda>ik a b s. Some [0xc0]),
     new_p2tr_tweaked = (\<lambda>k. [0x51, 0x20] @ k),
     taproot_sighash = (\<lambda>tx ps l. Some (replicate 32 7)),
     schnorr_from_slice = (\<lambda>s. if length s = 64 then Some s else None),
     schnorr_verify = (\<lambda>s m k. True),
     weight_vbytes = (\<lambda>tx. 100),
     taproot_single_leaf_control = (\<lambda>ik s. [0xc0]),
     xonly_of_secret = (\<lambda>sk. sk),
     block_serialize = (\<lambda>b. []),
     hex_encode = (\<lambda>bs. [])\<rparr>"

definition sample_env_with ::
    "(string \<rightharpoonup> bytes) \<Rightarrow> (bytes \<rightharpoonup> transaction) \<Rightarrow> (transaction \<Rightarrow> bytes) \<Rightarrow> bitcoin_env" where
  "sample_env_with hex de se =
     sample_env\<lparr>hex_decode := hex, tx_deserialize := de, tx_serialize := se\<rparr>"

lemma sample_env_hyps [simp]:
  "sha256_32 sample_env" "xonly_sound sample_env" "taproot_keys_valid sample_env"
  "schnorr_parse_64 sample_env"
  by (simp_all add: sample_env_def sha256_32_def xonly_sound_def taproot_keys_valid_def
      schnorr_parse_64_def)

lemma sample_env_ignores_witness [simp]:
  "txid_ignores_witness sample_env" "sighash_ignores_witness sample_env"
  by (simp_all add: sample_env_def txid_ignores_witness_def sighash_ignores_witness_def
      strip_witness_def)

end
