(* ===== verification/Issuance_Terms.thy ===== *)
theory Issuance_Terms
  imports Bitcoin_Env
begin

text \<open>
  \<open>crates/issuance/src/terms.rs\<close>: creator-defined issuance terms, their canonical
  encoding and commitment, and the split of the supply over the mint lanes.
\<close>

section \<open>Terms\<close>

definition TERMS_TAG :: bytes where "TERMS_TAG = ascii ''catomicals-issuance-v1''"
definition ITEM_TAG :: bytes where "ITEM_TAG = ascii ''catomicals-item-v1''"

datatype successor_rule = RecursiveIssuer | ShardedLanes

definition successor_rule_u8 :: "successor_rule \<Rightarrow> u8" where
  "successor_rule_u8 r = (case r of RecursiveIssuer \<Rightarrow> 1 | ShardedLanes \<Rightarrow> 2)"

definition successor_rule_from_u8 :: "u8 \<Rightarrow> successor_rule option" where
  "successor_rule_from_u8 v =
     (if v = 1 then Some RecursiveIssuer else if v = 2 then Some ShardedLanes else None)"

record issuance_terms =
  item_id :: bytes
  it_target_prefix :: u8
  total_supply :: u32
  it_successor_rule :: successor_rule
  lane_count :: u8
  salt :: bytes
  metadata :: bytes

definition wf_terms :: "issuance_terms \<Rightarrow> bool" where
  "wf_terms t = (is_array 32 (item_id t) \<and> is_array 32 (salt t))"

definition terms_canonical_bytes :: "issuance_terms \<Rightarrow> bytes" where
  "terms_canonical_bytes t =
     TERMS_TAG @ item_id t @ [it_target_prefix t] @ u32_le (total_supply t) @
     [successor_rule_u8 (it_successor_rule t)] @ [lane_count t] @ salt t @
     u64_le (word_of_nat (length (metadata t))) @ metadata t"

definition terms_hash_of :: "bitcoin_env \<Rightarrow> issuance_terms \<Rightarrow> bytes" where
  "terms_hash_of E t = sha256 E (terms_canonical_bytes t)"

definition materialized_lanes :: "issuance_terms \<Rightarrow> u8" where
  "materialized_lanes t =
     (case it_successor_rule t of
        RecursiveIssuer \<Rightarrow> 1
      | ShardedLanes \<Rightarrow> max (lane_count t) 1)"

definition lane_supply :: "issuance_terms \<Rightarrow> u8 \<Rightarrow> u32" where
  "lane_supply t lane =
     (let lanes = ucast (materialized_lanes t) :: u32;
          base = total_supply t div lanes;
          extra = total_supply t mod lanes
      in if ucast lane < extra then base + 1 else base)"

definition item_preimage :: "bytes \<Rightarrow> u8 \<Rightarrow> u32 \<Rightarrow> bytes \<Rightarrow> bytes \<Rightarrow> bytes" where
  "item_preimage terms_hash lane seq owner_key payload =
     ITEM_TAG @ terms_hash @ [lane] @ u32_le seq @ owner_key @ payload"

definition item_commitment_of ::
    "bitcoin_env \<Rightarrow> bytes \<Rightarrow> u8 \<Rightarrow> u32 \<Rightarrow> bytes \<Rightarrow> bytes \<Rightarrow> bytes" where
  "item_commitment_of E terms_hash lane seq owner_key payload =
     sha256 E (item_preimage terms_hash lane seq owner_key payload)"

section \<open>Properties\<close>

lemma successor_rule_roundtrip [simp]: "successor_rule_from_u8 (successor_rule_u8 r) = Some r"
  by (cases r) (simp_all add: successor_rule_from_u8_def successor_rule_u8_def)

lemma successor_rule_u8_inject [simp]: "successor_rule_u8 r = successor_rule_u8 s \<longleftrightarrow> r = s"
  by (metis successor_rule_roundtrip option.inject)

lemma materialized_lanes_pos: "0 < unat (materialized_lanes t)"
  by (cases "it_successor_rule t")
    (auto simp: materialized_lanes_def max_def word_le_nat_alt unat_gt_0)

lemma unat_lane_up: "unat (ucast w :: u32) = unat w" for w :: u8
  using unat_bound [of w] by (simp add: unsigned_ucast_eq take_bit_nat_eq_self)

lemma unat_lane_supply:
  fixes t :: issuance_terms and lane :: u8
  defines "T \<equiv> unat (total_supply t)" and "L \<equiv> unat (materialized_lanes t)"
  shows "unat (lane_supply t lane) = T div L + (if unat lane < T mod L then 1 else 0)"
proof -
  let ?L = "ucast (materialized_lanes t) :: u32"
  have base: "unat (total_supply t div ?L) = T div L" and extra: "unat (total_supply t mod ?L) = T mod L"
    by (simp_all add: unat_div unat_mod unat_lane_up T_def L_def)
  show ?thesis
  proof (cases "unat lane < T mod L")
    case True
    have pos: "0 < L" by (simp add: L_def materialized_lanes_pos)
    have "T mod L < L" using pos by simp
    with True have "1 < L" by linarith
    moreover have "T \<noteq> 0" using True by (cases "T = 0") simp_all
    ultimately have "T div L < T" by (intro div_less_dividend) auto
    then have "Suc (T div L) < 2 ^ LENGTH(32)"
      using unat_bound [of "total_supply t"] by (simp add: T_def)
    then have "unat (total_supply t div ?L + 1) = T div L + 1"
      using base by (simp add: unat_word_ariths)
    moreover have "ucast lane < total_supply t mod ?L"
      using True extra by (simp add: word_less_nat_alt unat_lane_up)
    ultimately show ?thesis using True by (simp add: lane_supply_def Let_def)
  next
    case False
    then have "\<not> ucast lane < total_supply t mod ?L"
      using extra by (simp add: word_less_nat_alt unat_lane_up)
    with False base show ?thesis by (simp add: lane_supply_def Let_def)
  qed
qed

lemma sum_even_split:
  fixes T L :: nat
  assumes "0 < L"
  shows "(\<Sum>i<L. T div L + (if i < T mod L then 1 else 0)) = T"
proof -
  have "{i. i < L \<and> i < T mod L} = {..<T mod L}"
    using mod_less_divisor [OF assms, of T] by auto
  then have "(\<Sum>i<L. if i < T mod L then 1 else 0 :: nat) = T mod L"
    by (simp add: sum.If_cases Int_def)
  then show ?thesis by (simp add: sum.distrib mult.commute)
qed

lemma lane_supply_sum:
  "(\<Sum>i<unat (materialized_lanes t). unat (lane_supply t (word_of_nat i))) = unat (total_supply t)"
proof -
  let ?T = "unat (total_supply t)" and ?L = "unat (materialized_lanes t)"
  have "(\<Sum>i<?L. unat (lane_supply t (word_of_nat i)))
      = (\<Sum>i<?L. ?T div ?L + (if i < ?T mod ?L then 1 else 0))"
  proof (rule sum.cong [OF refl])
    fix i assume "i \<in> {..<?L}"
    then have "unat (word_of_nat i :: u8) = i"
      using unat_bound [of "materialized_lanes t"] by (simp add: of_nat_inverse [OF refl])
    then show "unat (lane_supply t (word_of_nat i)) = ?T div ?L + (if i < ?T mod ?L then 1 else 0)"
      by (simp add: unat_lane_supply)
  qed
  then show ?thesis by (simp add: sum_even_split [OF materialized_lanes_pos])
qed

text \<open>
  The lanes of an issuance partition its supply: whatever the number of lanes, the
  supplies of the materialised lanes add up to \<open>total_supply\<close> exactly, without any
  wrap-around, and two lanes differ by at most one item.
\<close>

theorem lane_supply_partitions_total:
  "(\<Sum>i<unat (materialized_lanes t). unat (lane_supply t (word_of_nat i))) = unat (total_supply t)
   \<and> unat (lane_supply t a) \<le> unat (lane_supply t b) + 1"
  by (rule conjI, rule lane_supply_sum, simp add: unat_lane_supply)

lemma terms_canonical_bytes_inject:
  assumes "wf_terms t" and "wf_terms u"
    and "terms_canonical_bytes t = terms_canonical_bytes u"
  shows "t = u"
  using assms by (auto simp: wf_terms_def terms_canonical_bytes_def)

lemma item_preimage_inject:
  assumes "length h = 32" "length h' = 32" "length k = 32" "length k' = 32"
  shows "item_preimage h l q k p = item_preimage h' l' q' k' p' \<longleftrightarrow>
    h = h' \<and> l = l' \<and> q = q' \<and> k = k' \<and> p = p'"
  using assms by (auto simp: item_preimage_def)

text \<open>
  C18: the commitments bind what they commit to.  Two well-typed terms have the same
  \<open>terms_hash\<close> only when they agree on every creator term (target, supply, successor
  rule, lanes, salt, metadata), or when their own canonical encodings are a SHA-256
  collision; two item commitments agree only when terms, lane, sequence number, owner
  key and payload agree, or when the two preimages are a collision.
\<close>

theorem commitments_bind:
  assumes "wf_terms t" and "wf_terms u"
    and "length h = 32" "length h' = 32" "length k = 32" "length k' = 32"
  shows "(terms_hash_of E t = terms_hash_of E u \<longleftrightarrow>
      t = u \<or> sha_collision E (terms_canonical_bytes t) (terms_canonical_bytes u)) \<and>
    (item_commitment_of E h l q k p = item_commitment_of E h' l' q' k' p' \<longleftrightarrow>
      (h, l, q, k, p) = (h', l', q', k', p') \<or>
      sha_collision E (item_preimage h l q k p) (item_preimage h' l' q' k' p'))"
  using terms_canonical_bytes_inject [OF assms(1,2)] item_preimage_inject [OF assms(3-6)]
  unfolding terms_hash_of_def item_commitment_of_def sha_collision_def by auto

definition sample_terms :: issuance_terms where
  "sample_terms = \<lparr>item_id = replicate 32 0x42, it_target_prefix = 1, total_supply = 4,
     it_successor_rule = RecursiveIssuer, lane_count = 1, salt = replicate 32 0x7a,
     metadata = ascii ''catomicals demo item''\<rparr>"

theorem commitments_bind_witness:
  "wf_terms sample_terms \<and> wf_terms (sample_terms\<lparr>total_supply := 5\<rparr>) \<and>
   (terms_hash_of sample_env sample_terms = terms_hash_of sample_env (sample_terms\<lparr>total_supply := 5\<rparr>) \<longleftrightarrow>
      sha_collision sample_env (terms_canonical_bytes sample_terms)
        (terms_canonical_bytes (sample_terms\<lparr>total_supply := 5\<rparr>)))"
proof -
  have wf: "wf_terms sample_terms" "wf_terms (sample_terms\<lparr>total_supply := 5\<rparr>)"
    by (simp_all add: wf_terms_def sample_terms_def)
  have len: "length (replicate 32 (1 :: byte)) = 32" by simp
  have "sample_terms \<noteq> sample_terms\<lparr>total_supply := 5\<rparr>" by (simp add: sample_terms_def)
  then show ?thesis
    using wf commitments_bind [OF wf len len len len, of sample_env] by blast
qed

end
