(* ===== verification/Issuance_State.thy ===== *)
theory Issuance_State
  imports Issuance_Terms
begin

text \<open>
  \<open>crates/issuance/src/state.rs\<close>: the issuer state machine of one mint lane and the
  constants its tapscript commits to.
\<close>

section \<open>State\<close>

definition STATE_FIELD_TAG :: u8 where "STATE_FIELD_TAG = 0x01"
definition STATE_INT_LEN :: nat where "STATE_INT_LEN = 5"
definition STATE_BYTE_LEN :: nat where "STATE_BYTE_LEN = 2"

definition encode_u32 :: "u32 \<Rightarrow> bytes" where
  "encode_u32 v = STATE_FIELD_TAG # u32_le v"

definition encode_u8 :: "u8 \<Rightarrow> bytes" where
  "encode_u8 v = [STATE_FIELD_TAG, v]"

record issuer_state =
  terms_hash :: bytes
  lane :: u8
  seq :: u32
  remaining :: u32
  target_prefix :: u8

definition wf_state :: "issuer_state \<Rightarrow> bool" where
  "wf_state s = is_array 32 (terms_hash s)"

datatype state_error =
    TargetPrefixOutOfRange u8
  | LaneOutOfRange u8
  | SeqOverflow

definition initial :: "bitcoin_env \<Rightarrow> issuance_terms \<Rightarrow> u8 \<Rightarrow> (state_error, issuer_state) rresult" where
  "initial E t l =
     (if it_target_prefix t > 32 then Inl (TargetPrefixOutOfRange (it_target_prefix t))
      else if l \<ge> materialized_lanes t then Inl (LaneOutOfRange l)
      else Inr \<lparr>terms_hash = terms_hash_of E t, lane = l, seq = 0,
                remaining = lane_supply t l, target_prefix = it_target_prefix t\<rparr>)"

definition successor :: "issuer_state \<Rightarrow> (state_error, issuer_state option) rresult" where
  "successor s =
     (if remaining s = 0 then Inr None
      else let next_remaining = remaining s - 1 in
        rbind (ok_or SeqOverflow (checked_add (seq s) 1)) (\<lambda>next_seq.
          if next_remaining = 0 then Inr None
          else Inr (Some \<lparr>terms_hash = terms_hash s, lane = lane s, seq = next_seq,
                          remaining = next_remaining, target_prefix = target_prefix s\<rparr>)))"

definition to_script_constants :: "issuer_state \<Rightarrow> bytes list" where
  "to_script_constants s =
     [terms_hash s, encode_u32 (seq s), encode_u32 (remaining s),
      encode_u8 (target_prefix s), encode_u8 (lane s)]"

definition from_script_constants ::
    "bytes \<Rightarrow> bytes \<Rightarrow> bytes \<Rightarrow> bytes \<Rightarrow> bytes \<Rightarrow> issuer_state option" where
  "from_script_constants h q r tp l =
     (if length h \<noteq> 32 \<or> length q \<noteq> STATE_INT_LEN \<or> length r \<noteq> STATE_INT_LEN
         \<or> length tp \<noteq> STATE_BYTE_LEN \<or> length l \<noteq> STATE_BYTE_LEN
         \<or> q ! 0 \<noteq> STATE_FIELD_TAG \<or> r ! 0 \<noteq> STATE_FIELD_TAG
         \<or> tp ! 0 \<noteq> STATE_FIELD_TAG \<or> l ! 0 \<noteq> STATE_FIELD_TAG
      then None
      else Some \<lparr>terms_hash = h, lane = l ! 1, seq = u32_from_le (drop 1 q),
                 remaining = u32_from_le (drop 1 r), target_prefix = tp ! 1\<rparr>)"

definition rule_for :: "issuance_terms \<Rightarrow> successor_rule" where
  "rule_for t = it_successor_rule t"

section \<open>Encoding\<close>

lemma length_state_fields [simp, wire_simps]:
  "length (encode_u32 v) = 5" "length (encode_u8 b) = 2"
  by (simp_all add: encode_u32_def encode_u8_def)

lemma encode_u32_inject [simp]: "encode_u32 a = encode_u32 b \<longleftrightarrow> a = b"
  by (simp add: encode_u32_def)

lemma from_to_script_constants:
  assumes "wf_state s"
  shows "from_script_constants (terms_hash s) (encode_u32 (seq s)) (encode_u32 (remaining s))
           (encode_u8 (target_prefix s)) (encode_u8 (lane s)) = Some s"
  using assms
  by (simp add: from_script_constants_def wf_state_def STATE_INT_LEN_def STATE_BYTE_LEN_def
      encode_u32_def encode_u8_def)

lemma from_script_constants_Some:
  assumes "from_script_constants h q r tp l = Some s"
  shows "wf_state s \<and> to_script_constants s = [h, q, r, tp, l]"
proof -
  have lens: "length h = 32" "length q = 5" "length r = 5" "length tp = 2" "length l = 2"
    and tags: "q ! 0 = 1" "r ! 0 = 1" "tp ! 0 = 1" "l ! 0 = 1"
    and s: "s = \<lparr>terms_hash = h, lane = l ! 1, seq = u32_from_le (drop 1 q),
                 remaining = u32_from_le (drop 1 r), target_prefix = tp ! 1\<rparr>"
    using assms by (auto simp: from_script_constants_def STATE_INT_LEN_def STATE_BYTE_LEN_def
        STATE_FIELD_TAG_def split: if_splits)
  have int: "encode_u32 (u32_from_le (drop 1 xs)) = xs" if "length xs = 5" "xs ! 0 = 1" for xs
    using that by (cases xs) (simp_all add: encode_u32_def STATE_FIELD_TAG_def u32_le_u32_from_le)
  have byte: "encode_u8 (xs ! 1) = xs" if "length xs = 2" "xs ! 0 = 1" for xs
    using that by (auto simp: encode_u8_def STATE_FIELD_TAG_def length_Suc_conv numeral_2_eq_2)
  show ?thesis
    using lens int [OF lens(2) tags(1)] int [OF lens(3) tags(2)] byte [OF lens(4) tags(3)]
      byte [OF lens(5) tags(4)]
    by (simp add: s to_script_constants_def wf_state_def)
qed

section \<open>The lane as a state machine\<close>

text \<open>
  \<open>lane_reachable E t l s\<close>: the mints of lane \<open>l\<close> of the issuance \<open>t\<close> can reach the
  state \<open>s\<close>.
\<close>

inductive lane_reachable :: "bitcoin_env \<Rightarrow> issuance_terms \<Rightarrow> u8 \<Rightarrow> issuer_state \<Rightarrow> bool"
  for E t l where
  lane_start: "initial E t l = Inr s \<Longrightarrow> lane_reachable E t l s"
| lane_mint: "lane_reachable E t l s \<Longrightarrow> successor s = Inr (Some s') \<Longrightarrow> lane_reachable E t l s'"

inductive_cases lane_reachableE: "lane_reachable E t l s"

lemma initial_Inr:
  "initial E t l = Inr s \<longleftrightarrow>
     it_target_prefix t \<le> 32 \<and> l < materialized_lanes t \<and>
     s = \<lparr>terms_hash = terms_hash_of E t, lane = l, seq = 0,
          remaining = lane_supply t l, target_prefix = it_target_prefix t\<rparr>"
  by (auto simp: initial_def not_less not_le)

lemma successor_Some:
  assumes "successor s = Inr (Some s')"
  shows "unat (remaining s) = unat (remaining s') + 1 \<and> unat (remaining s') > 0
    \<and> unat (seq s') = unat (seq s) + 1 \<and> terms_hash s' = terms_hash s \<and> lane s' = lane s
    \<and> target_prefix s' = target_prefix s"
proof -
  from assms have nz: "remaining s \<noteq> 0" and nz': "remaining s - 1 \<noteq> 0"
    and q: "checked_add (seq s) 1 = Some (seq s')"
    and s': "s' = \<lparr>terms_hash = terms_hash s, lane = lane s, seq = seq s',
               remaining = remaining s - 1, target_prefix = target_prefix s\<rparr>"
    by (auto simp: successor_def Let_def result_simps split: if_splits)
  have r: "unat (remaining s - 1) = unat (remaining s) - 1" using nz by (simp add: unat_minus_one)
  have "unat (remaining s) \<noteq> 0" "unat (remaining s - 1) \<noteq> 0" using nz nz' by (simp_all add: unat_eq_zero)
  moreover have "unat (seq s') = unat (seq s) + 1" using q by (simp add: checked_add_Some)
  ultimately show ?thesis using r by (subst (1 2 4 5 6) s') simp_all
qed

text \<open>
  In every reachable state the sequence number and the remaining supply add up to the
  lane's supply, and the commitments are those of the terms.
\<close>

lemma lane_reachable_inv:
  assumes "lane_reachable E t l s"
  shows "unat (seq s) + unat (remaining s) = unat (lane_supply t l)
    \<and> terms_hash s = terms_hash_of E t \<and> lane s = l \<and> target_prefix s = it_target_prefix t
    \<and> target_prefix s \<le> 32 \<and> l < materialized_lanes t"
  using assms
proof (induction rule: lane_reachable.induct)
  case (lane_start s)
  then show ?case by (auto simp: initial_Inr)
next
  case (lane_mint s s')
  then show ?case using successor_Some [OF lane_mint.hyps(2)] by auto
qed

lemma successor_cases:
  assumes "unat (seq s) + unat (remaining s) < 2 ^ 32"
  shows "successor s =
    (if unat (remaining s) \<le> 1 then Inr None
     else Inr (Some (s\<lparr>seq := seq s + 1, remaining := remaining s - 1\<rparr>)))"
proof (cases "remaining s = 0")
  case True
  then show ?thesis by (simp add: successor_def)
next
  case False
  then have r: "unat (remaining s - 1) = unat (remaining s) - 1" by (simp add: unat_minus_one)
  have pos: "0 < unat (remaining s)" using False by (simp add: unat_gt_0)
  then have add: "checked_add (seq s) 1 = Some (seq s + 1)" using assms by (simp add: checked_add_def)
  have "remaining s - 1 = 0 \<longleftrightarrow> unat (remaining s) \<le> 1"
    using r pos by (simp add: unat_eq_zero [symmetric])
  with False add show ?thesis by (cases s) (simp add: successor_def Let_def)
qed

text \<open>The states a lane goes through from \<open>s\<close>, one per mint.\<close>

function lane_states :: "issuer_state \<Rightarrow> issuer_state list" where
  "lane_states s =
     s # (case successor s of Inr (Some s') \<Rightarrow> lane_states s' | _ \<Rightarrow> [])"
  by pat_completeness auto
termination
  by (relation "measure (\<lambda>s. unat (remaining s))") (auto dest: successor_Some)

declare lane_states.simps [simp del]

lemma lane_states_run:
  assumes "unat (seq s) + unat (remaining s) < 2 ^ 32" and "0 < unat (remaining s)"
  shows "map (\<lambda>x. unat (seq x)) (lane_states s) = [unat (seq s) ..< unat (seq s) + unat (remaining s)]
    \<and> successor (last (lane_states s)) = Inr None"
  using assms
proof (induction s rule: lane_states.induct)
  case (1 s)
  show ?case
  proof (cases "unat (remaining s) \<le> 1")
    case True
    with 1 have "successor s = Inr None" "unat (remaining s) = 1" by (simp_all add: successor_cases)
    then show ?thesis by (simp add: lane_states.simps)
  next
    case False
    define s' where "s' = s\<lparr>seq := seq s + 1, remaining := remaining s - 1\<rparr>"
    have succ: "successor s = Inr (Some s')" using False 1(2) by (simp add: successor_cases s'_def)
    note facts = successor_Some [OF succ]
    have IH: "map (\<lambda>x. unat (seq x)) (lane_states s') = [unat (seq s') ..< unat (seq s') + unat (remaining s')]
      \<and> successor (last (lane_states s')) = Inr None"
      using facts 1(2) by (intro "1.IH" [OF succ refl]) linarith+
    have ne: "lane_states s' \<noteq> []" by (simp add: lane_states.simps)
    have "lane_states s = s # lane_states s'" using succ by (subst lane_states.simps) simp
    then show ?thesis using IH facts ne by (simp add: upt_rec)
  qed
qed

text \<open>
  C17: a lane mints exactly its supply.  From the initial state of a lane with supply
  \<open>n > 0\<close> the successor function passes through exactly \<open>n\<close> states with sequence
  numbers \<open>0, \<dots>, n - 1\<close>, ends in a state without successor, and never overflows the
  sequence counter; every reachable state keeps \<open>seq + remaining = n\<close> and the creator's
  commitment, lane and target.
\<close>

theorem lane_mints_exactly_its_supply:
  assumes "initial E t l = Inr s\<^sub>0"
  shows "(0 < lane_supply t l \<longrightarrow>
      map (\<lambda>x. unat (seq x)) (lane_states s\<^sub>0) = [0 ..< unat (lane_supply t l)]
      \<and> successor (last (lane_states s\<^sub>0)) = Inr None)
    \<and> (\<forall>s. lane_reachable E t l s \<longrightarrow>
      successor s \<noteq> Inl SeqOverflow
      \<and> unat (seq s) + unat (remaining s) = unat (lane_supply t l)
      \<and> terms_hash s = terms_hash_of E t \<and> lane s = l \<and> target_prefix s = it_target_prefix t)"
proof (intro conjI impI allI)
  have s0: "seq s\<^sub>0 = 0" "remaining s\<^sub>0 = lane_supply t l" using assms by (simp_all add: initial_Inr)
  have bound: "unat (lane_supply t l) < 2 ^ 32" using unat_bound [of "lane_supply t l"] by simp
  assume "0 < lane_supply t l"
  then have "0 < unat (remaining s\<^sub>0)" by (simp add: s0 unat_gt_0 word_gt_0)
  then show "map (\<lambda>x. unat (seq x)) (lane_states s\<^sub>0) = [0 ..< unat (lane_supply t l)]"
    and "successor (last (lane_states s\<^sub>0)) = Inr None"
    using lane_states_run [of s\<^sub>0] bound by (simp_all add: s0)
next
  fix s assume "lane_reachable E t l s"
  note inv = lane_reachable_inv [OF this]
  have "unat (seq s) + unat (remaining s) < 2 ^ 32" using inv unat_bound [of "lane_supply t l"] by simp
  then show "successor s \<noteq> Inl SeqOverflow" by (simp add: successor_cases)
qed (use lane_reachable_inv in blast)+

theorem lane_mints_exactly_its_supply_witness:
  "\<exists>s\<^sub>0. initial sample_env sample_terms 0 = Inr s\<^sub>0
    \<and> map (\<lambda>x. unat (seq x)) (lane_states s\<^sub>0) = [0, 1, 2, 3]"
proof -
  obtain s\<^sub>0 where s0: "initial sample_env sample_terms 0 = Inr s\<^sub>0"
    by (simp add: initial_def sample_terms_def materialized_lanes_def)
  have "lane_supply sample_terms 0 = 4"
    by (simp add: lane_supply_def sample_terms_def materialized_lanes_def)
  then show ?thesis using lane_mints_exactly_its_supply [OF s0] s0
    by (auto simp: upt_rec)
qed

definition sample_state :: issuer_state where
  "sample_state = \<lparr>terms_hash = replicate 32 1, lane = 0, seq = 0, remaining = 4, target_prefix = 1\<rparr>"

end
