(* ===== verification/Issuance_Pow.thy ===== *)
theory Issuance_Pow
  imports Issuance_State
begin

text \<open>
  \<open>crates/issuance/src/pow.rs\<close>: the proof-of-work challenge of a mint and the two
  nonce searches.  \<open>hash_tail\<close> slices the digest and panics past its end; the unbounded search may not return, so its model is a partial
  function whose value \<open>None\<close> means that it does not.
\<close>

section \<open>Challenge\<close>

definition NONCE_LEN :: nat where "NONCE_LEN = 8"
definition POW_PREFIX_BYTE :: u8 where "POW_PREFIX_BYTE = 0x01"

definition pow_input :: "bytes \<Rightarrow> u8 \<Rightarrow> u32 \<Rightarrow> bytes \<Rightarrow> u64 \<Rightarrow> bytes" where
  "pow_input th l q ic nonce =
     th @ [STATE_FIELD_TAG] @ [l] @ [STATE_FIELD_TAG] @ u32_le q @ ic @ u64_le nonce"

definition pow_hash :: "bitcoin_env \<Rightarrow> bytes \<Rightarrow> u8 \<Rightarrow> u32 \<Rightarrow> bytes \<Rightarrow> u64 \<Rightarrow> bytes" where
  "pow_hash E th l q ic nonce = sha256 E (pow_input th l q ic nonce)"

definition meets_target :: "bytes \<Rightarrow> u8 \<Rightarrow> bool" where
  "meets_target digest tp =
     (let k = unat tp in
      if k = 0 then True
      else if k > 32 then False
      else list_all (\<lambda>b. b = POW_PREFIX_BYTE) (take k digest))"

definition hash_tail :: "bytes \<Rightarrow> u8 \<Rightarrow> (panic, bytes) rresult" where
  "hash_tail digest tp =
     (if unat tp \<le> length digest then Inr (drop (unat tp) digest) else Inl Panic)"

section \<open>Nonce searches\<close>

partial_function (option) find_nonce ::
    "bitcoin_env \<Rightarrow> bytes \<Rightarrow> u8 \<Rightarrow> u32 \<Rightarrow> bytes \<Rightarrow> u8 \<Rightarrow> u64 \<Rightarrow> u64 option" where
  "find_nonce E th l q ic tp start =
     (if meets_target (pow_hash E th l q ic start) tp then Some start
      else find_nonce E th l q ic tp (start + 1))"

function find_nonce_loop ::
    "bitcoin_env \<Rightarrow> bytes \<Rightarrow> u8 \<Rightarrow> u32 \<Rightarrow> bytes \<Rightarrow> u8 \<Rightarrow> u64 \<Rightarrow> u64 \<Rightarrow> u64 \<Rightarrow> (u64 \<times> u64) option" where
  "find_nonce_loop E th l q ic tp max_attempts nonce attempts =
     (if attempts < max_attempts then
        if meets_target (pow_hash E th l q ic nonce) tp then Some (nonce, attempts + 1)
        else find_nonce_loop E th l q ic tp max_attempts (nonce + 1) (attempts + 1)
      else None)"
  by pat_completeness auto
termination
proof (relation "measure (\<lambda>(E, th, l, q, ic, tp, m, n, a). unat m - unat a)")
  fix E :: bitcoin_env and th ic :: bytes and l tp :: u8 and q :: u32 and m n a :: u64
  assume less: "a < m"
  then have "unat (a + 1) = unat a + 1"
    using unat_bound [of m] by (simp add: word_less_nat_alt unat_word_ariths)
  with less show "((E, th, l, q, ic, tp, m, n + 1, a + 1), E, th, l, q, ic, tp, m, n, a)
      \<in> measure (\<lambda>(E, th, l, q, ic, tp, m, n, a). unat m - unat a)"
    by (simp add: word_less_nat_alt)
qed simp

declare find_nonce_loop.simps [simp del]

definition find_nonce_bounded ::
    "bitcoin_env \<Rightarrow> bytes \<Rightarrow> u8 \<Rightarrow> u32 \<Rightarrow> bytes \<Rightarrow> u8 \<Rightarrow> u64 \<Rightarrow> (u64 \<times> u64) option" where
  "find_nonce_bounded E th l q ic tp max_attempts = find_nonce_loop E th l q ic tp max_attempts 0 0"

section \<open>Properties\<close>

lemma length_pow_input [simp]:
  "length th = 32 \<Longrightarrow> length ic = 32 \<Longrightarrow> length (pow_input th l q ic n) = 79"
  by (simp add: pow_input_def)

text \<open>The target and the revealed tail together say that the digest is the padded tail.\<close>

lemma meets_target_iff:
  assumes "length digest = 32" and "unat tp \<le> 32"
  shows "meets_target digest tp \<longleftrightarrow> take (unat tp) digest = replicate (unat tp) POW_PREFIX_BYTE"
proof -
  have "list_all (\<lambda>b. b = POW_PREFIX_BYTE) (take (unat tp) digest) \<longleftrightarrow>
      take (unat tp) digest = replicate (unat tp) POW_PREFIX_BYTE"
    using assms by (auto simp: list_all_iff intro!: replicate_eqI)
  then show ?thesis using assms by (auto simp: meets_target_def Let_def)
qed

lemma pow_checks_iff:
  assumes "length digest = 32"
  shows "meets_target digest tp \<and> hash_tail digest tp = Inr tail \<longleftrightarrow>
    unat tp \<le> 32 \<and> digest = replicate (unat tp) POW_PREFIX_BYTE @ tail"
proof (cases "unat tp \<le> 32")
  case True
  then show ?thesis
    using assms meets_target_iff [OF assms True]
    by (auto simp: hash_tail_def) (metis append_take_drop_id)
next
  case False
  then show ?thesis by (auto simp: meets_target_def Let_def)
qed

lemma meets_target_no_panic: "length digest = 32 \<Longrightarrow> meets_target digest tp \<Longrightarrow> \<exists>tail. hash_tail digest tp = Inr tail"
  by (auto simp: meets_target_def hash_tail_def Let_def split: if_splits)

lemma find_nonce_loop_Some:
  "find_nonce_loop E th l q ic tp m n n = Some (x, k) \<longleftrightarrow>
     n \<le> x \<and> x < m \<and> k = x + 1 \<and> meets_target (pow_hash E th l q ic x) tp
     \<and> (\<forall>i. n \<le> i \<and> i < x \<longrightarrow> \<not> meets_target (pow_hash E th l q ic i) tp)"
proof (induction "unat m - unat n" arbitrary: n)
  case 0
  then have "\<not> n < m" by (simp add: word_less_nat_alt)
  then show ?case by (subst find_nonce_loop.simps) auto
next
  case (Suc d)
  then have less: "n < m" by (simp add: word_less_nat_alt)
  then have up: "unat (n + 1) = unat n + 1"
    using unat_bound [of m] by (simp add: word_less_nat_alt unat_word_ariths)
  have step: "n + 1 \<le> y \<longleftrightarrow> n < y" for y
    using up by (simp add: word_le_nat_alt word_less_nat_alt Suc_le_eq)
  show ?case
  proof (cases "meets_target (pow_hash E th l q ic n) tp")
    case True
    then show ?thesis using less by (subst find_nonce_loop.simps) (auto simp: order_le_less)
  next
    case False
    have "d = unat m - unat (n + 1)" using Suc.hyps(2) up by simp
    note IH = Suc.hyps(1) [OF this]
    have "find_nonce_loop E th l q ic tp m n n = find_nonce_loop E th l q ic tp m (n + 1) (n + 1)"
      using less False by (subst find_nonce_loop.simps) simp
    then show ?thesis using IH False less unfolding step by (metis order_le_less)
  qed
qed

lemma find_nonce_reaches:
  assumes "meets_target (pow_hash E th l q ic x) tp" and "start \<le> x"
    and "\<forall>i. start \<le> i \<and> i < x \<longrightarrow> \<not> meets_target (pow_hash E th l q ic i) tp"
  shows "find_nonce E th l q ic tp start = Some x"
  using assms
proof (induction "unat x - unat start" arbitrary: start)
  case 0
  then have "start = x" by (simp add: word_le_nat_alt word_unat_eq_iff)
  with 0 show ?case by (subst find_nonce.simps) simp
next
  case (Suc d)
  then have less: "start < x" by (simp add: word_less_nat_alt)
  then have up: "unat (start + 1) = unat start + 1"
    using unat_bound [of x] by (simp add: word_less_nat_alt unat_word_ariths)
  have step: "start + 1 \<le> y \<longleftrightarrow> start < y" for y
    using up by (simp add: word_le_nat_alt word_less_nat_alt Suc_le_eq)
  have "find_nonce E th l q ic tp (start + 1) = Some x"
    using Suc.prems Suc.hyps(2) up less by (intro Suc.hyps(1)) (auto simp: step)
  moreover have "\<not> meets_target (pow_hash E th l q ic start) tp" using Suc.prems(3) less by simp
  ultimately show ?case by (subst find_nonce.simps) simp
qed

lemma least_word:
  fixes P :: "'a::len word \<Rightarrow> bool"
  assumes "P x"
  shows "\<exists>y \<le> x. P y \<and> (\<forall>i < y. \<not> P i)"
proof -
  define y where "y = (LEAST n. P n)"
  have "P y" unfolding y_def using assms by (rule LeastI)
  moreover have "y \<le> x" unfolding y_def using assms by (rule Least_le)
  moreover have "\<forall>i < y. \<not> P i" unfolding y_def using not_less_Least by blast
  ultimately show ?thesis by blast
qed

text \<open>
  Both nonce searches are exact.  \<open>find_nonce_bounded\<close> with a budget of \<open>m\<close>
  hashes returns \<open>Some (n, n + 1)\<close> for the least \<open>n < m\<close> that meets the target, after
  \<open>n + 1\<close> hashes, and \<open>None\<close> exactly when no nonce below \<open>m\<close> does.  The unbounded
  \<open>find_nonce\<close> returns, with the least valid nonce from \<open>start\<close> on, whenever one exists.
\<close>

theorem nonce_searches_exact:
  "(find_nonce_bounded E th l q ic tp m = Some (n, k) \<longleftrightarrow>
      n < m \<and> k = n + 1 \<and> meets_target (pow_hash E th l q ic n) tp
      \<and> (\<forall>i < n. \<not> meets_target (pow_hash E th l q ic i) tp))
   \<and> (find_nonce_bounded E th l q ic tp m = None \<longleftrightarrow>
      (\<forall>i < m. \<not> meets_target (pow_hash E th l q ic i) tp))
   \<and> ((\<exists>x \<ge> start. meets_target (pow_hash E th l q ic x) tp) \<longrightarrow>
      (\<exists>x \<ge> start. find_nonce E th l q ic tp start = Some x
        \<and> meets_target (pow_hash E th l q ic x) tp
        \<and> (\<forall>i. start \<le> i \<and> i < x \<longrightarrow> \<not> meets_target (pow_hash E th l q ic i) tp)))"
proof (intro conjI)
  let ?P = "\<lambda>i. meets_target (pow_hash E th l q ic i) tp"
  have some: "find_nonce_bounded E th l q ic tp m = Some (n, k) \<longleftrightarrow>
      n < m \<and> k = n + 1 \<and> ?P n \<and> (\<forall>i < n. \<not> ?P i)" for n k
    unfolding find_nonce_bounded_def using find_nonce_loop_Some [of E th l q ic tp m 0 n k] by auto
  show "find_nonce_bounded E th l q ic tp m = Some (n, k) \<longleftrightarrow>
      n < m \<and> k = n + 1 \<and> ?P n \<and> (\<forall>i < n. \<not> ?P i)"
    by (rule some)
  show "find_nonce_bounded E th l q ic tp m = None \<longleftrightarrow> (\<forall>i < m. \<not> ?P i)"
  proof
    assume none: "find_nonce_bounded E th l q ic tp m = None"
    show "\<forall>i < m. \<not> ?P i"
    proof (intro allI impI notI)
      fix i assume "i < m" "?P i"
      then obtain y where "y < m" "?P y" "\<forall>j < y. \<not> ?P j"
        using least_word [of ?P i] by (metis order_le_less_trans)
      then show False using none some [of y "y + 1"] by simp
    qed
  next
    assume "\<forall>i < m. \<not> ?P i"
    then show "find_nonce_bounded E th l q ic tp m = None" using some by (metis option.exhaust prod.exhaust)
  qed
  show "(\<exists>x \<ge> start. ?P x) \<longrightarrow> (\<exists>x \<ge> start. find_nonce E th l q ic tp start = Some x
        \<and> ?P x \<and> (\<forall>i. start \<le> i \<and> i < x \<longrightarrow> \<not> ?P i))"
  proof
    assume "\<exists>x \<ge> start. ?P x"
    then obtain y where y: "start \<le> y" "?P y" "\<forall>i < y. \<not> (start \<le> i \<and> ?P i)"
      using least_word [of "\<lambda>i. start \<le> i \<and> ?P i"] by metis
    then show "\<exists>x \<ge> start. find_nonce E th l q ic tp start = Some x
        \<and> ?P x \<and> (\<forall>i. start \<le> i \<and> i < x \<longrightarrow> \<not> ?P i)"
      using find_nonce_reaches [of E th l q ic y tp start] by blast
  qed
qed

theorem nonce_searches_exact_witness:
  "find_nonce_bounded sample_env (replicate 32 0x11) 0 3 (replicate 32 0x22) 2 100 = Some (0, 1)"
proof -
  have "meets_target (pow_hash sample_env (replicate 32 0x11) 0 3 (replicate 32 0x22) 0) 2"
    by (simp add: sample_env_def pow_hash_def meets_target_def POW_PREFIX_BYTE_def list_all_iff)
  then show ?thesis
    using nonce_searches_exact [of sample_env "replicate 32 0x11" 0 3 "replicate 32 0x22" 2 100 0 1]
    by simp
qed

end
