(* ===== verification/Issuance_Script.thy ===== *)
theory Issuance_Script
  imports Issuance_Pow
begin

text \<open>
  \<open>crates/issuance/src/script.rs\<close>: the byte-level construction of the issuer
  tapscript and the parser that recovers the committed state from a revealed script.
  The parser indexes the script without a bound check at the start of each constant,
  so its result type has the panic.
\<close>

section \<open>Construction\<close>

definition TAPSCRIPT_LEAF_VERSION :: u8 where "TAPSCRIPT_LEAF_VERSION = 0xc0"

definition OP_0 :: u8 where "OP_0 = 0x00"
definition OP_1NEGATE :: u8 where "OP_1NEGATE = 0x4f"
definition OP_1 :: u8 where "OP_1 = 0x51"
definition OP_VERIFY :: u8 where "OP_VERIFY = 0x69"
definition OP_DROP :: u8 where "OP_DROP = 0x75"
definition OP_PICK :: u8 where "OP_PICK = 0x79"
definition OP_CAT :: u8 where "OP_CAT = 0x7e"
definition OP_EQUAL :: u8 where "OP_EQUAL = 0x87"
definition OP_NOT :: u8 where "OP_NOT = 0x91"
definition OP_SHA256 :: u8 where "OP_SHA256 = 0xa8"

lemmas opcode_defs = OP_0_def OP_1NEGATE_def OP_1_def OP_VERIFY_def OP_DROP_def OP_PICK_def
  OP_CAT_def OP_EQUAL_def OP_NOT_def OP_SHA256_def

text \<open>\<open>push_pick\<close> asserts \<open>n \<le> 16\<close>; \<open>issuer_script\<close> calls it with the constants below only.\<close>

definition push_pick :: "u8 \<Rightarrow> bytes" where
  "push_pick n = [0x50 + n, OP_PICK]"

definition push_data :: "bytes \<Rightarrow> bytes" where
  "push_data data =
     (let n = length data in
      if n = 0 then [OP_0]
      else if n = 1 \<and> 1 \<le> data ! 0 \<and> data ! 0 \<le> 16 then [0x50 + data ! 0]
      else if n = 1 \<and> data ! 0 = 0x81 then [OP_1NEGATE]
      else if n \<le> 75 then word_of_nat n # data
      else if n \<le> 255 then 0x4c # word_of_nat n # data
      else if n \<le> 65535 then 0x4d # le_bytes 2 n @ data
      else 0x4e # le_bytes 4 n @ data)"

text \<open>The opcodes after the five constants.\<close>

definition issuer_program :: "u8 \<Rightarrow> bytes" where
  "issuer_program tp =
     push_pick 4 @ push_pick 1 @ push_pick 5 @ push_pick 11 @ push_pick 13 @
     [OP_CAT, OP_CAT, OP_CAT, OP_CAT] @ [OP_SHA256] @
     push_data (replicate (unat tp) POW_PREFIX_BYTE) @
     push_pick 9 @ [OP_CAT] @ [OP_EQUAL] @ [OP_VERIFY] @
     push_pick 2 @ push_data [STATE_FIELD_TAG, 0, 0, 0, 0] @ [OP_EQUAL] @ [OP_NOT] @ [OP_VERIFY] @
     replicate 10 OP_DROP @ [OP_1]"

definition issuer_script :: "issuer_state \<Rightarrow> bytes" where
  "issuer_script s = concat (map push_data (to_script_constants s)) @ issuer_program (target_prefix s)"

section \<open>Parsing\<close>

definition expected_const_len :: nat where
  "expected_const_len = (1 + 32) + (1 + 5) + (1 + 5) + (1 + 2) + (1 + 2)"

fun parse_consts :: "nat \<Rightarrow> bytes \<Rightarrow> nat \<Rightarrow> bytes list \<Rightarrow> (panic, bytes list option) rresult" where
  "parse_consts 0 script pos consts = Inr (Some consts)"
| "parse_consts (Suc k) script pos consts =
     (if length script \<le> pos then Inl Panic
      else let plen = unat (script ! pos) in
        if plen = 0 \<or> plen > 75 \<or> pos + 1 + plen > length script then Inr None
        else parse_consts k script (pos + 1 + plen) (consts @ [take plen (drop (pos + 1) script)]))"

definition parse_issuer_script :: "bytes \<Rightarrow> (panic, issuer_state option) rresult" where
  "parse_issuer_script script =
     (if length script < expected_const_len then Inr None
      else rbind (parse_consts 5 script 0 []) (\<lambda>r. case r of
        None \<Rightarrow> Inr None
      | Some consts \<Rightarrow>
          (case from_script_constants (consts ! 0) (consts ! 1) (consts ! 2) (consts ! 3) (consts ! 4) of
             None \<Rightarrow> Inr None
           | Some state \<Rightarrow> if script = issuer_script state then Inr (Some state) else Inr None)))"

definition witness_hash_tail :: "bitcoin_env \<Rightarrow> issuer_state \<Rightarrow> bytes \<Rightarrow> u64 \<Rightarrow> (panic, bytes) rresult" where
  "witness_hash_tail E s ic nonce =
     hash_tail (pow_hash E (terms_hash s) (lane s) (seq s) ic nonce) (target_prefix s)"

definition nums_internal_key :: bytes where
  "nums_internal_key =
     [0x50, 0x92, 0x9b, 0x74, 0xc1, 0xa0, 0x49, 0x54, 0xb7, 0x8b, 0x4b, 0x60, 0x35, 0xe9, 0x7a,
      0x5e, 0x07, 0x8a, 0x5a, 0x0f, 0x28, 0xec, 0x96, 0xd5, 0x47, 0xbf, 0xee, 0x9a, 0xce, 0x80,
      0x3a, 0xc0]"

definition issuer_output_key :: "bitcoin_env \<Rightarrow> issuer_state \<Rightarrow> bytes" where
  "issuer_output_key E s = taproot_single_leaf_key E nums_internal_key (issuer_script s)"

section \<open>Round trip\<close>

lemma push_data_direct: "2 \<le> length d \<Longrightarrow> length d \<le> 75 \<Longrightarrow> push_data d = word_of_nat (length d) # d"
  by (auto simp: push_data_def Let_def)

lemma issuer_script_layout:
  assumes "wf_state s"
  shows "issuer_script s =
    (32 # terms_hash s) @ (5 # encode_u32 (seq s)) @ (5 # encode_u32 (remaining s)) @
    (2 # encode_u8 (target_prefix s)) @ (2 # encode_u8 (lane s)) @ issuer_program (target_prefix s)"
  using assms by (simp add: issuer_script_def to_script_constants_def push_data_direct wf_state_def)

lemma parse_consts_step:
  assumes "unat n = length d" and "1 \<le> length d" and "length d \<le> 75" and "pos = length pre"
  shows "parse_consts (Suc k) (pre @ (n # d) @ rest) pos acc =
    parse_consts k ((pre @ n # d) @ rest) (length (pre @ n # d)) (acc @ [d])"
  using assms by (auto simp: Let_def nth_append)

declare parse_consts.simps(2) [simp del]

lemma parse_consts_issuer:
  assumes "length h = 32" "length q = 5" "length r = 5" "length t = 2" "length l = 2"
  shows "parse_consts 5 ((32 # h) @ (5 # q) @ (5 # r) @ (2 # t) @ (2 # l) @ rest) 0 [] =
    Inr (Some [h, q, r, t, l])"
proof -
  note step = parse_consts_step [OF _ _ _ refl]
  have "parse_consts (Suc (Suc (Suc (Suc (Suc 0))))) ([] @ (32 # h) @ (5 # q) @ (5 # r) @ (2 # t) @ (2 # l) @ rest) 0 [] =
      parse_consts (Suc (Suc (Suc (Suc 0)))) (([] @ 32 # h) @ (5 # q) @ (5 # r) @ (2 # t) @ (2 # l) @ rest)
        (length ([] @ 32 # h)) ([] @ [h])"
    using assms by (subst parse_consts_step) simp_all
  also have "\<dots> = parse_consts (Suc (Suc (Suc 0))) ((([] @ 32 # h) @ 5 # q) @ (5 # r) @ (2 # t) @ (2 # l) @ rest)
        (length (([] @ 32 # h) @ 5 # q)) (([] @ [h]) @ [q])"
    using assms by (subst step) simp_all
  also have "\<dots> = parse_consts (Suc (Suc 0)) (((([] @ 32 # h) @ 5 # q) @ 5 # r) @ (2 # t) @ (2 # l) @ rest)
        (length ((([] @ 32 # h) @ 5 # q) @ 5 # r)) ((([] @ [h]) @ [q]) @ [r])"
    using assms by (subst step) simp_all
  also have "\<dots> = parse_consts (Suc 0) ((((([] @ 32 # h) @ 5 # q) @ 5 # r) @ 2 # t) @ (2 # l) @ rest)
        (length (((([] @ 32 # h) @ 5 # q) @ 5 # r) @ 2 # t)) (((([] @ [h]) @ [q]) @ [r]) @ [t])"
    using assms by (subst step) simp_all
  also have "\<dots> = Inr (Some [h, q, r, t, l])"
    using assms by (subst step) simp_all
  finally show ?thesis by (simp add: eval_nat_numeral)
qed

lemma wf_script_length: "wf_state s \<Longrightarrow> expected_const_len \<le> length (issuer_script s)"
  by (simp add: issuer_script_layout expected_const_len_def wf_state_def)

lemma parse_issuer_script_sound:
  assumes "parse_issuer_script x = Inr (Some s)"
  shows "wf_state s \<and> x = issuer_script s"
proof -
  from assms obtain cs where
    "from_script_constants (cs ! 0) (cs ! 1) (cs ! 2) (cs ! 3) (cs ! 4) = Some s"
    and "x = issuer_script s"
    by (auto simp: parse_issuer_script_def result_simps split: if_split_asm option.split_asm)
  then show ?thesis by (auto dest: from_script_constants_Some)
qed

lemma parse_issuer_script_complete:
  assumes wf: "wf_state s"
  shows "parse_issuer_script (issuer_script s) = Inr (Some s)"
proof -
  have "parse_consts 5 (issuer_script s) 0 [] = Inr (Some [terms_hash s, encode_u32 (seq s),
      encode_u32 (remaining s), encode_u8 (target_prefix s), encode_u8 (lane s)])"
    using wf by (simp only: issuer_script_layout) (rule parse_consts_issuer; simp add: wf_state_def)
  with wf show ?thesis
    by (simp add: parse_issuer_script_def wf_script_length not_less from_to_script_constants)
qed

text \<open>Distinct states have distinct scripts.\<close>

lemma issuer_script_inject:
  "wf_state s \<Longrightarrow> wf_state s' \<Longrightarrow> issuer_script s = issuer_script s' \<Longrightarrow> s = s'"
  by (metis parse_issuer_script_complete sum.inject(2) option.inject)

text \<open>
  C15: the parser is the exact inverse of the script builder: it returns a state exactly
  for the canonical issuer script of that state, so the committed state is recovered
  from a revealed script and no other script is taken for an issuer script.
\<close>

theorem parse_issuer_script_exact:
  "parse_issuer_script x = Inr (Some s) \<longleftrightarrow> wf_state s \<and> x = issuer_script s"
  using parse_issuer_script_sound parse_issuer_script_complete by blast

section \<open>Panics of the parser\<close>

definition direct_push :: "bytes \<Rightarrow> bytes" where
  "direct_push c = word_of_nat (length c) # c"

definition pushable :: "bytes \<Rightarrow> bool" where
  "pushable c = (1 \<le> length c \<and> length c \<le> 75)"

lemma unat_push_len: "pushable c \<Longrightarrow> unat (word_of_nat (length c) :: byte) = length c"
  by (simp add: pushable_def of_nat_inverse [OF refl])

lemma parse_consts_panic:
  assumes "pos \<le> length script"
  shows "parse_consts k script pos acc = Inl Panic \<longleftrightarrow>
    (\<exists>cs. length cs < k \<and> list_all pushable cs \<and> drop pos script = concat (map direct_push cs))"
  using assms
proof (induction k arbitrary: pos acc)
  case 0
  show ?case by simp
next
  case (Suc k)
  show ?case
  proof (cases "pos = length script")
    case True
    then show ?thesis by (auto simp: parse_consts.simps(2) intro: exI [of _ "[]"])
  next
    case False
    with Suc.prems obtain b xs where d: "drop pos script = b # xs"
      by (metis drop_eq_Nil le_antisym neq_Nil_conv)
    have b: "b = script ! pos" and xs: "xs = drop (pos + 1) script" "pos < length script"
      using d False Suc.prems by (simp_all add: Cons_nth_drop_Suc [symmetric])
    have len: "length xs = length script - pos - 1" by (simp add: xs)
    have cons: "drop pos script = concat (map direct_push cs) \<and> list_all pushable cs \<longleftrightarrow>
        (\<exists>cs'. cs = take (unat b) xs # cs' \<and> 1 \<le> unat b \<and> unat b \<le> 75 \<and> unat b \<le> length xs
          \<and> list_all pushable cs' \<and> drop (unat b) xs = concat (map direct_push cs'))" for cs
    proof (cases cs)
      case Nil
      then show ?thesis by (simp add: d)
    next
      case (Cons c cs')
      show ?thesis
      proof
        assume "drop pos script = concat (map direct_push cs) \<and> list_all pushable cs"
        then have "b = word_of_nat (length c)" "xs = c @ concat (map direct_push cs')" "pushable c"
          "list_all pushable cs'" by (simp_all add: d Cons direct_push_def)
        then show "\<exists>cs'. cs = take (unat b) xs # cs' \<and> 1 \<le> unat b \<and> unat b \<le> 75
          \<and> unat b \<le> length xs \<and> list_all pushable cs' \<and> drop (unat b) xs = concat (map direct_push cs')"
          by (simp add: Cons unat_push_len) (simp add: pushable_def)
      next
        assume "\<exists>cs'. cs = take (unat b) xs # cs' \<and> 1 \<le> unat b \<and> unat b \<le> 75
          \<and> unat b \<le> length xs \<and> list_all pushable cs' \<and> drop (unat b) xs = concat (map direct_push cs')"
        then show "drop pos script = concat (map direct_push cs) \<and> list_all pushable cs"
          by (auto simp: d direct_push_def pushable_def min_def) (metis append_take_drop_id)
      qed
    qed
    show ?thesis
    proof (cases "1 \<le> unat b \<and> unat b \<le> 75 \<and> unat b \<le> length xs")
      case True
      have "pos + 1 + unat b \<le> length script" using True len xs(2) by linarith
      note IH = Suc.IH [OF this]
      have "parse_consts (Suc k) script pos acc =
          parse_consts k script (pos + 1 + unat b) (acc @ [take (unat b) xs])"
        using True len xs by (auto simp: parse_consts.simps(2) b Let_def)
      moreover have "drop (pos + 1 + unat b) script = drop (unat b) xs"
        by (simp add: xs add.commute)
      ultimately show ?thesis using IH cons True by (metis Suc_less_eq length_Cons)
    next
      case False
      then have "parse_consts (Suc k) script pos acc = Inr None"
        using len xs(2) by (auto simp: parse_consts.simps(2) b Let_def)
      with cons False show ?thesis by auto
    qed
  qed
qed

text \<open>
  C16: the parser panics exactly on the scripts of at least 51 bytes that are a
  sequence of fewer than five direct pushes and then end: the length byte of the next
  constant is read without checking that it exists.
\<close>

theorem parse_issuer_script_panics_iff:
  "parse_issuer_script x = Inl Panic \<longleftrightarrow>
     51 \<le> length x \<and>
     (\<exists>cs. length cs < 5 \<and> list_all pushable cs \<and> x = concat (map direct_push cs))"
proof -
  have "parse_issuer_script x = Inl Panic \<longleftrightarrow> 51 \<le> length x \<and> parse_consts 5 x 0 [] = Inl Panic"
  proof (cases "parse_consts 5 x 0 []")
    case (Inr r)
    then show ?thesis
      by (auto simp: parse_issuer_script_def split: option.splits)
  qed (simp add: parse_issuer_script_def expected_const_len_def panic.exhaust)
  then show ?thesis by (simp add: parse_consts_panic)
qed

end
