(* ===== verification/Tapscript.thy ===== *)
theory Tapscript
  imports Issuance_Script
begin

text \<open>
  What the issuer tapscript enforces.  The script interpreter is Bitcoin consensus code
  and not part of the repository: the locale \<open>tapscript\<close> states the documented behaviour
  of the opcodes the builder emits (BIP 342 and BIP 347) for an arbitrary evaluator
  \<open>exec\<close> over a stack with its top first, \<open>None\<close> being a failed script.  The gate is
  verified against those laws; \<open>run_script\<close> is an evaluator that satisfies them.
\<close>

section \<open>Documented opcode behaviour\<close>

locale tapscript =
  fixes sha :: "bytes \<Rightarrow> bytes"
    and exec :: "bytes \<Rightarrow> bytes list \<Rightarrow> bytes list option"
  assumes exec_end: "exec [] st = Some st"
    and exec_0: "exec (OP_0 # r) st = exec r ([] # st)"
    and exec_1negate: "exec (OP_1NEGATE # r) st = exec r ([0x81] # st)"
    and exec_pushnum: "1 \<le> n \<Longrightarrow> n \<le> 16 \<Longrightarrow> exec ((0x50 + n) # r) st = exec r ([n] # st)"
    and exec_direct: "1 \<le> length d \<Longrightarrow> length d \<le> 75 \<Longrightarrow>
      exec (word_of_nat (length d) # d @ r) st = exec r (d # st)"
    and exec_pushdata1: "76 \<le> length d \<Longrightarrow> length d \<le> 255 \<Longrightarrow>
      exec (0x4c # word_of_nat (length d) # d @ r) st = exec r (d # st)"
    and exec_pick: "1 \<le> n \<Longrightarrow> n \<le> 16 \<Longrightarrow>
      exec (OP_PICK # r) ([n] # st) = (if unat n < length st then exec r (st ! unat n # st) else None)"
    and exec_cat: "exec (OP_CAT # r) (b # a # st) =
      (if length (a @ b) \<le> 520 then exec r ((a @ b) # st) else None)"
    and exec_sha256: "exec (OP_SHA256 # r) (a # st) = exec r (sha a # st)"
    and exec_equal: "exec (OP_EQUAL # r) (b # a # st) = exec r ((if a = b then [1] else []) # st)"
    and exec_not: "exec (OP_NOT # r) ((if c then [1] else []) # st) =
      exec r ((if c then [] else [1]) # st)"
    and exec_verify: "exec (OP_VERIFY # r) ((if c then [1] else []) # st) =
      (if c then exec r st else None)"
    and exec_drop: "exec (OP_DROP # r) (a # st) = exec r st"
begin

lemmas exec_branch = exec_verify [where c = True, simplified] exec_verify [where c = False, simplified]

lemma exec_push_data:
  assumes "length d \<le> 255"
  shows "exec (push_data d @ r) st = exec r (d # st)"
proof -
  have one: "d = [d ! 0]" if "length d = 1" using that by (cases d) auto
  consider "d = []" | "length d = 1" "1 \<le> d ! 0" "d ! 0 \<le> 16" | "length d = 1" "d ! 0 = 0x81"
    | "d \<noteq> []" "\<not> (length d = 1 \<and> 1 \<le> d ! 0 \<and> d ! 0 \<le> 16)"
        "\<not> (length d = 1 \<and> d ! 0 = 0x81)" "length d \<le> 75"
    | "76 \<le> length d"
    by fastforce
  then show ?thesis
  proof cases
    case 1
    then show ?thesis by (simp add: push_data_def exec_0)
  next
    case 2
    then show ?thesis using one exec_pushnum [of "d ! 0" r st] by (simp add: push_data_def)
  next
    case 3
    then show ?thesis using one exec_1negate [of r st] by (simp add: push_data_def)
  next
    case 4
    have "push_data d = word_of_nat (length d) # d" using 4 by (auto simp: push_data_def Let_def)
    then show ?thesis using 4 exec_direct [of d r st] by (simp add: Suc_le_eq)
  next
    case 5
    have "push_data d = 0x4c # word_of_nat (length d) # d"
      using 5 assms by (auto simp: push_data_def Let_def)
    then show ?thesis using 5 assms exec_pushdata1 [of d r st] by simp
  qed
qed

lemma exec_push_pick:
  assumes "1 \<le> n" "n \<le> 16" "unat n < length st"
  shows "exec (push_pick n @ r) st = exec r (st ! unat n # st)"
  using assms by (simp add: push_pick_def exec_pushnum exec_pick)

lemma exec_drops: "length xs = n \<Longrightarrow> exec (replicate n OP_DROP @ r) (xs @ st) = exec r st"
  by (induction n arbitrary: xs) (auto simp: exec_drop length_Suc_conv)

lemma exec_true: "exec [OP_1] st = Some ([1] # st)"
  using exec_pushnum [of 1 "[]" st] by (simp add: OP_1_def exec_end)

lemma exec_push_consts:
  "list_all (\<lambda>d. length d \<le> 255) ds \<Longrightarrow>
   exec (concat (map push_data ds) @ r) st = exec r (rev ds @ st)"
  by (induction ds arbitrary: st) (simp_all add: exec_push_data)

text \<open>The concatenation part: copies the five fields and hashes their concatenation.\<close>

lemma exec_hash_part:
  assumes "length th = 32" "length l = 2" "length q = 5"
  shows "exec (push_pick 4 @ push_pick 1 @ push_pick 5 @ push_pick 11 @ push_pick 13 @
      [OP_CAT, OP_CAT, OP_CAT, OP_CAT] @ [OP_SHA256] @ r)
      [l, t, rm, q, th, payload, owner, tail, ic, nonce] =
    (if 39 + length ic + length nonce \<le> 520
     then exec r (sha (th @ l @ q @ ic @ nonce) # [l, t, rm, q, th, payload, owner, tail, ic, nonce])
     else None)"
  using assms by (simp add: exec_push_pick exec_cat exec_sha256)

lemma exec_check_part:
  fixes tp :: u8
  assumes "length h = 32"
  shows "exec (push_data (replicate (unat tp) POW_PREFIX_BYTE) @ push_pick 9 @ [OP_CAT] @ [OP_EQUAL] @ [OP_VERIFY] @ r)
      (h # [l, t, rm, q, th, payload, owner, tail, ic, nonce]) =
    (if h = replicate (unat tp) POW_PREFIX_BYTE @ tail
     then exec r [l, t, rm, q, th, payload, owner, tail, ic, nonce] else None)"
proof -
  have tp: "unat tp \<le> 255" using unat_bound [of tp] by simp
  have short: "length (replicate (unat tp) POW_PREFIX_BYTE @ tail) = 32"
    if "h = replicate (unat tp) POW_PREFIX_BYTE @ tail" using that assms by simp
  show ?thesis
    using short by (auto simp: exec_push_data tp exec_push_pick exec_cat exec_equal exec_branch)
qed

lemma exec_remaining_part:
  "exec (push_pick 2 @ push_data z @ [OP_EQUAL] @ [OP_NOT] @ [OP_VERIFY] @ replicate 10 OP_DROP @ [OP_1])
      [l, t, rm, q, th, payload, owner, tail, ic, nonce] =
    (if rm \<noteq> z then Some [[1]] else None)" if "length z \<le> 255"
proof -
  have drops: "exec (replicate 10 OP_DROP @ [OP_1]) [l, t, rm, q, th, payload, owner, tail, ic, nonce] = Some [[1]]"
    using exec_drops [of "[l, t, rm, q, th, payload, owner, tail, ic, nonce]" 10 "[OP_1]" "[]"]
    by (simp add: exec_true)
  have not_verify: "exec (OP_NOT # OP_VERIFY # rest) ((if c then [1] else []) # st) =
      (if c then None else exec rest st)" for c rest st
    using exec_not [of "OP_VERIFY # rest" c st] exec_verify [of rest "\<not> c" st] by (cases c) simp_all
  show ?thesis
    using that drops by (simp add: exec_push_pick exec_push_data exec_equal not_verify)
qed

lemma exec_issuer_script:
  assumes "\<And>x. length (sha x) = 32" and "wf_state s"
  shows "exec (issuer_script s) [payload, owner, tail, ic, nonce] =
    (if 39 + length ic + length nonce \<le> 520
        \<and> sha (terms_hash s @ encode_u8 (lane s) @ encode_u32 (seq s) @ ic @ nonce) =
            replicate (unat (target_prefix s)) POW_PREFIX_BYTE @ tail
        \<and> remaining s \<noteq> 0
     then Some [[1]] else None)"
proof -
  have zero: "encode_u32 (remaining s) \<noteq> [STATE_FIELD_TAG, 0, 0, 0, 0] \<longleftrightarrow> remaining s \<noteq> 0"
  proof -
    have "[STATE_FIELD_TAG, 0, 0, 0, 0] = encode_u32 0"
      by (simp add: encode_u32_def u32_le_def le_bytes_zero eval_nat_numeral)
    then show ?thesis by (simp only: encode_u32_inject)
  qed
  have "list_all (\<lambda>d. length d \<le> 255) (to_script_constants s)"
    using assms(2) by (simp add: to_script_constants_def wf_state_def)
  then have "exec (issuer_script s) [payload, owner, tail, ic, nonce] =
      exec (issuer_program (target_prefix s))
        [encode_u8 (lane s), encode_u8 (target_prefix s), encode_u32 (remaining s), encode_u32 (seq s),
         terms_hash s, payload, owner, tail, ic, nonce]"
    by (simp add: issuer_script_def exec_push_consts) (simp add: to_script_constants_def)
  also have "\<dots> = (if 39 + length ic + length nonce \<le> 520
        \<and> sha (terms_hash s @ encode_u8 (lane s) @ encode_u32 (seq s) @ ic @ nonce) =
            replicate (unat (target_prefix s)) POW_PREFIX_BYTE @ tail
        \<and> encode_u32 (remaining s) \<noteq> [STATE_FIELD_TAG, 0, 0, 0, 0]
     then Some [[1]] else None)"
  proof -
    have h32: "length (terms_hash s) = 32" using assms(2) by (simp add: wf_state_def)
    show ?thesis
      unfolding issuer_program_def
      by (subst exec_hash_part [OF h32], simp, simp, subst exec_check_part, rule assms(1),
          subst exec_remaining_part, simp, simp)
  qed
  finally show ?thesis by (simp only: zero)
qed

end

section \<open>A reference evaluator\<close>

function run_script :: "(bytes \<Rightarrow> bytes) \<Rightarrow> bytes \<Rightarrow> bytes list \<Rightarrow> bytes list option" where
  "run_script sha [] st = Some st"
| "run_script sha (c # r) st =
     (if c = OP_0 then run_script sha r ([] # st)
      else if c \<le> 75 then
        (if length r < unat c then None
         else run_script sha (drop (unat c) r) (take (unat c) r # st))
      else if c = 0x4c then
        (case r of [] \<Rightarrow> None
         | n # r' \<Rightarrow> if length r' < unat n then None
             else run_script sha (drop (unat n) r') (take (unat n) r' # st))
      else if c = OP_1NEGATE then run_script sha r ([0x81] # st)
      else if 0x51 \<le> c \<and> c \<le> 0x60 then run_script sha r ([c - 0x50] # st)
      else if c = OP_VERIFY then
        (case st of a # st' \<Rightarrow> if a = [] then None else run_script sha r st' | _ \<Rightarrow> None)
      else if c = OP_DROP then (case st of a # st' \<Rightarrow> run_script sha r st' | _ \<Rightarrow> None)
      else if c = OP_PICK then
        (case st of [n] # st' \<Rightarrow>
           if unat n < length st' then run_script sha r (st' ! unat n # st') else None
         | _ \<Rightarrow> None)
      else if c = OP_CAT then
        (case st of b # a # st' \<Rightarrow>
           if length (a @ b) \<le> 520 then run_script sha r ((a @ b) # st') else None
         | _ \<Rightarrow> None)
      else if c = OP_EQUAL then
        (case st of b # a # st' \<Rightarrow> run_script sha r ((if a = b then [1] else []) # st') | _ \<Rightarrow> None)
      else if c = OP_NOT then
        (case st of a # st' \<Rightarrow> run_script sha r ((if a = [] then [1] else []) # st') | _ \<Rightarrow> None)
      else if c = OP_SHA256 then
        (case st of a # st' \<Rightarrow> run_script sha r (sha a # st') | _ \<Rightarrow> None)
      else None)"
  by pat_completeness auto
termination
  by (relation "measure (\<lambda>(sha, r, st). length r)") auto

declare run_script.simps(2) [simp del]

lemma run_script_direct:
  assumes "1 \<le> length d" "length d \<le> 75"
  shows "run_script sha (word_of_nat (length d) # d @ r) st = run_script sha r (d # st)"
proof -
  have u: "unat (word_of_nat (length d) :: byte) = length d"
    using assms by (simp add: of_nat_inverse [OF refl])
  have "(word_of_nat (length d) :: byte) \<noteq> 0" using u assms by (metis not_one_le_zero unat_0)
  moreover have "(word_of_nat (length d) :: byte) \<le> 75" using u assms by (simp add: word_le_nat_alt)
  ultimately show ?thesis using u by (simp add: run_script.simps(2) OP_0_def)
qed

lemma run_script_pushnum:
  assumes "1 \<le> n" "n \<le> 16"
  shows "run_script sha ((0x50 + n) # r) st = run_script sha r ([n] # st)"
proof -
  have u: "unat (0x50 + n) = 80 + unat n" using assms by (simp add: word_le_nat_alt unat_word_ariths)
  have "0x50 + n \<noteq> 0" using u by (metis add_is_0 unat_0 zero_neq_numeral)
  moreover have "\<not> 0x50 + n \<le> 75" "0x50 + n \<noteq> 0x4c" "0x50 + n \<noteq> 0x4f" "0x51 \<le> 0x50 + n" "0x50 + n \<le> 0x60"
    using u assms by (auto simp: word_le_nat_alt word_unat_eq_iff)
  ultimately show ?thesis by (simp add: run_script.simps(2) OP_0_def OP_1NEGATE_def)
qed

interpretation ref: tapscript sha "run_script sha" for sha
proof (unfold_locales, goal_cases)
  case (4 n r st)
  then show ?case by (rule run_script_pushnum)
next
  case (5 d r st)
  then show ?case by (rule run_script_direct)
next
  case (6 d r st)
  then have "unat (word_of_nat (length d) :: byte) = length d" by (simp add: of_nat_inverse [OF refl])
  then show ?case by (simp add: run_script.simps(2) OP_0_def)
qed (simp_all add: run_script.simps(2) opcode_defs)

section \<open>The gate\<close>

text \<open>
  C11: the issuer tapscript enforces exactly the proof-of-work gate.  For every
  evaluator that obeys the documented opcode behaviour, the script of a state accepts a
  witness, leaving the single element \<open>0x01\<close>, exactly when the supply is not exhausted
  and the digest that the wallet verifier recomputes meets the target with the revealed
  tail; every other witness fails the script.
\<close>

theorem issuer_gate_exact:
  assumes "tapscript (sha256 E) exec" and "sha256_32 E" and "wf_state s"
    and "target_prefix s \<le> 32" and "length ic = 32"
  shows "exec (issuer_script s) [payload, owner, tail, ic, u64_le nonce] =
    (let digest = pow_hash E (terms_hash s) (lane s) (seq s) ic nonce in
     if remaining s \<noteq> 0 \<and> meets_target digest (target_prefix s)
        \<and> hash_tail digest (target_prefix s) = Inr tail
     then Some [[1]] else None)"
proof -
  have sha: "\<And>x. length (sha256 E x) = 32" using assms(2) by (simp add: sha256_32_def)
  let ?d = "pow_hash E (terms_hash s) (lane s) (seq s) ic nonce"
  have "?d = sha256 E (terms_hash s @ encode_u8 (lane s) @ encode_u32 (seq s) @ ic @ u64_le nonce)"
    by (simp add: pow_hash_def pow_input_def encode_u8_def encode_u32_def)
  moreover have "length ?d = 32" by (simp add: pow_hash_def sha)
  moreover have "unat (target_prefix s) \<le> 32" using assms(4) by (simp add: word_le_nat_alt)
  ultimately show ?thesis
    using tapscript.exec_issuer_script [OF assms(1) sha assms(3), of payload owner tail ic "u64_le nonce"]
      assms(5) pow_checks_iff [of ?d "target_prefix s" tail]
    by (simp add: Let_def)
qed

theorem issuer_gate_exact_witness:
  "run_script (sha256 sample_env) (issuer_script sample_state)
     [[], replicate 32 3, replicate 31 1, replicate 32 1, u64_le 0] = Some [[1]]"
proof -
  let ?ic = "replicate 32 1 :: bytes"
  have "wf_state sample_state" "target_prefix sample_state \<le> 32" "length ?ic = 32"
    by (simp_all add: wf_state_def sample_state_def)
  note gate = issuer_gate_exact [OF ref.tapscript_axioms sample_env_hyps(1) this,
      of "[]" "replicate 32 3" "replicate 31 1" 0]
  show ?thesis unfolding gate
    by (simp add: sample_env_def sample_state_def pow_hash_def meets_target_def hash_tail_def
        POW_PREFIX_BYTE_def list_all_iff)
qed

end
