(* ===== verification/Issuance_Verify.thy ===== *)
theory Issuance_Verify
  imports Issuance_Script
begin

text \<open>
  \<open>crates/issuance/src/verify.rs\<close>: the wallet-side verification of a whole mint
  transaction, split into the numbered phases of the source, and the builder of the
  canonical mint transaction.  Output values are summed with \<open>Iterator::sum\<close> on
  \<open>u64\<close>, which wraps in a release build; the model sums in \<open>u64\<close>.  The error type has
  one more constructor than the source, \<open>MintPanic\<close>, for the panics of the functions
  it calls.
\<close>

section \<open>Data\<close>

record mint_witness =
  mw_nonce :: u64
  mw_item_commitment :: bytes
  mw_hash_tail :: bytes
  mw_owner_key :: bytes
  mw_payload :: bytes

record verified_mint =
  issuer_input_index :: nat
  vm_issuer_state :: issuer_state
  vm_witness :: mint_witness
  item_output_index :: nat
  item_output :: tx_out
  successor_output_index :: "nat option"
  successor_state :: "issuer_state option"
  vm_fee :: u64

datatype mint_verify_error =
    NoIssuerInput out_point
  | InvalidIssuerSpend nat
  | MalformedIssuerScript nat
  | TermsMismatch string
  | SupplyExhausted
  | MalformedWitness
  | InvalidOwnerKey
  | PowNotSatisfied
  | HashTailMismatch
  | ItemCommitmentMismatch
  | ItemOutputCount nat
  | ItemOutputCommitment nat
  | SuccessorOutputCount nat
  | SuccessorOutputMismatch nat
  | UnexpectedSuccessor
  | ValueNotConserved u64 u64
  | NonPositiveFee u64
  | StateErr state_error
  | OutputCount nat
  | MintPanic

section \<open>Scripts\<close>

definition p2tr_output_script :: "bytes \<Rightarrow> bytes" where
  "p2tr_output_script key = [0x51, 0x20] @ key"

definition item_owner_script :: "bytes \<Rightarrow> bytes" where
  "item_owner_script owner_key = p2tr_output_script owner_key"

definition canonical_issuer_spk :: "bitcoin_env \<Rightarrow> issuer_state \<Rightarrow> bytes" where
  "canonical_issuer_spk E s = p2tr_output_script (issuer_output_key E s)"

definition taproot_output_key :: "bitcoin_env \<Rightarrow> bytes \<Rightarrow> bytes option" where
  "taproot_output_key E spk =
     (if length spk = 34 \<and> spk ! 0 = 0x51 \<and> spk ! 1 = 0x20
      then xonly_from_slice E (take 32 (drop 2 spk)) else None)"

section \<open>Verification\<close>

definition parse_mint_witness :: "bitcoin_env \<Rightarrow> bytes list \<Rightarrow> (mint_verify_error, mint_witness) rresult" where
  "parse_mint_witness E stack =
     (if length stack \<noteq> 5 then Inl MalformedWitness
      else if length (stack ! 0) \<noteq> 8 then Inl MalformedWitness
      else if length (stack ! 1) \<noteq> 32 then Inl MalformedWitness
      else rbind (ok_or InvalidOwnerKey (xonly_from_slice E (stack ! 3))) (\<lambda>owner.
        Inr \<lparr>mw_nonce = u64_from_le (stack ! 0), mw_item_commitment = stack ! 1,
             mw_hash_tail = stack ! 2, mw_owner_key = owner, mw_payload = stack ! 4\<rparr>))"

definition check_terms :: "bitcoin_env \<Rightarrow> issuer_state \<Rightarrow> issuance_terms \<Rightarrow> (mint_verify_error, unit) rresult" where
  "check_terms E s t =
     (if terms_hash s \<noteq> terms_hash_of E t then Inl (TermsMismatch ''terms_hash'')
      else if target_prefix s \<noteq> it_target_prefix t then Inl (TermsMismatch ''target_prefix'')
      else if lane s \<ge> materialized_lanes t then Inl (TermsMismatch ''lane'')
      else if remaining s = 0 then Inl SupplyExhausted
      else Inr ())"

text \<open>Phase 2: recover the committed state from the witness and bind it to the spent output.\<close>

definition bind_issuer_spend ::
    "bitcoin_env \<Rightarrow> nat \<Rightarrow> bytes list \<Rightarrow> tx_out \<Rightarrow> (mint_verify_error, issuer_state) rresult" where
  "bind_issuer_spend E idx ws utxo =
     (if length ws \<noteq> 7 then Inl MalformedWitness
      else let script = ws ! (length ws - 2); control = ws ! (length ws - 1) in
        rbind (map_err (\<lambda>_. MintPanic) (parse_issuer_script script)) (\<lambda>parsed.
        rbind (ok_or (MalformedIssuerScript idx) parsed) (\<lambda>s.
          if script \<noteq> issuer_script s then Inl (InvalidIssuerSpend idx)
          else if script_pubkey utxo \<noteq> canonical_issuer_spk E s then Inl (MalformedIssuerScript idx)
          else rbind (ok_or (InvalidIssuerSpend idx) (taproot_output_key E (script_pubkey utxo))) (\<lambda>key.
            rbind (ok_or (InvalidIssuerSpend idx) (control_block_verify E control key script)) (\<lambda>good.
              if \<not> good then Inl (InvalidIssuerSpend idx) else Inr s)))))"

text \<open>Phases 5 and 6: proof of work, revealed tail and item identity.\<close>

definition check_work_and_item :: "bitcoin_env \<Rightarrow> issuer_state \<Rightarrow> mint_witness \<Rightarrow> (mint_verify_error, unit) rresult" where
  "check_work_and_item E s mw =
     (let digest = pow_hash E (terms_hash s) (lane s) (seq s) (mw_item_commitment mw) (mw_nonce mw) in
      if \<not> meets_target digest (target_prefix s) then Inl PowNotSatisfied
      else rbind (map_err (\<lambda>_. MintPanic) (hash_tail digest (target_prefix s))) (\<lambda>tail.
        if mw_hash_tail mw \<noteq> tail then Inl HashTailMismatch
        else if item_commitment_of E (terms_hash s) (lane s) (seq s) (mw_owner_key mw) (mw_payload mw)
                \<noteq> mw_item_commitment mw then Inl ItemCommitmentMismatch
        else Inr ()))"

text \<open>Phases 7 to 9: the item output, the successor output, and nothing else.\<close>

definition classify_outputs ::
    "bitcoin_env \<Rightarrow> transaction \<Rightarrow> issuer_state \<Rightarrow> mint_witness \<Rightarrow>
     (mint_verify_error, nat \<times> nat option \<times> issuer_state option) rresult" where
  "classify_outputs E tx s mw =
     (let items = indices_where (\<lambda>out. script_pubkey out = item_owner_script (mw_owner_key mw)) (tx_output tx) in
      if length items \<noteq> 1 then Inl (ItemOutputCount (length items))
      else rbind (map_err StateErr (successor s)) (\<lambda>succ.
        rbind (case succ of
            Some nxt \<Rightarrow>
              (let idxs = indices_where (\<lambda>out. script_pubkey out = canonical_issuer_spk E nxt) (tx_output tx) in
               if length idxs \<noteq> 1 then Inl (SuccessorOutputCount (length idxs))
               else Inr (Some (idxs ! 0)))
          | None \<Rightarrow> Inr None) (\<lambda>succ_idx.
          if succ = None \<and> succ_idx \<noteq> None then Inl UnexpectedSuccessor
          else let expected = (if succ \<noteq> None then 2 else 1) in
            if length (tx_output tx) \<noteq> expected then Inl (OutputCount (length (tx_output tx)))
            else Inr (items ! 0, succ_idx, succ))))"

definition output_sum :: "tx_out list \<Rightarrow> u64" where
  "output_sum outs = sum_list (map out_value outs)"

text \<open>Phase 10: value conservation with a positive fee.\<close>

definition check_value :: "tx_out \<Rightarrow> tx_out list \<Rightarrow> (mint_verify_error, u64) rresult" where
  "check_value utxo outs =
     (let inputs = out_value utxo; outputs = output_sum outs in
      if outputs > inputs then Inl (ValueNotConserved inputs outputs)
      else let fee = inputs - outputs in
        if fee = 0 then Inl (NonPositiveFee fee) else Inr fee)"

definition verify_mint ::
    "bitcoin_env \<Rightarrow> transaction \<Rightarrow> out_point \<Rightarrow> tx_out \<Rightarrow> issuance_terms \<Rightarrow>
     (mint_verify_error, verified_mint) rresult" where
  "verify_mint E tx op utxo terms =
     rbind (ok_or (NoIssuerInput op) (position (\<lambda>i. previous_output i = op) (tx_input tx))) (\<lambda>idx.
     let ws = witness (tx_input tx ! idx) in
     rbind (bind_issuer_spend E idx ws utxo) (\<lambda>s.
     rbind (check_terms E s terms) (\<lambda>_.
     rbind (parse_mint_witness E (take (length ws - 2) ws)) (\<lambda>mw.
     rbind (check_work_and_item E s mw) (\<lambda>_.
     rbind (classify_outputs E tx s mw) (\<lambda>(item_idx, succ_idx, succ).
     rbind (check_value utxo (tx_output tx)) (\<lambda>fee.
       Inr \<lparr>issuer_input_index = idx, vm_issuer_state = s, vm_witness = mw,
            item_output_index = item_idx, item_output = tx_output tx ! item_idx,
            successor_output_index = succ_idx, successor_state = succ, vm_fee = fee\<rparr>)))))))"

definition build_mint_tx ::
    "out_point \<Rightarrow> tx_out \<Rightarrow> issuer_state \<Rightarrow> mint_witness \<Rightarrow> u64 \<Rightarrow> tx_out option \<Rightarrow> bytes \<Rightarrow>
     (mint_verify_error, transaction) rresult" where
  "build_mint_tx op utxo s mw item_value successor_utxo control =
     (let stack = [u64_le (mw_nonce mw), mw_item_commitment mw, mw_hash_tail mw, mw_owner_key mw,
                   mw_payload mw, issuer_script s, control];
          outputs = mk_txout item_value (item_owner_script (mw_owner_key mw)) #
            (case successor_utxo of None \<Rightarrow> [] | Some out \<Rightarrow> [out]);
          total_out = output_sum outputs;
          input_value = out_value utxo
      in if total_out > input_value then Inl (ValueNotConserved input_value total_out)
      else Inr \<lparr>tx_version = version_two, lock_time = 0,
                tx_input = [\<lparr>previous_output = op, script_sig = [], sequence = sequence_max,
                             witness = stack\<rparr>],
                tx_output = outputs\<rparr>)"

section \<open>Specification\<close>

text \<open>The witness stack of a mint, and a script that occurs in exactly one output.\<close>

definition mint_stack :: "issuer_state \<Rightarrow> mint_witness \<Rightarrow> bytes \<Rightarrow> bytes list" where
  "mint_stack s mw control =
     [u64_le (mw_nonce mw), mw_item_commitment mw, mw_hash_tail mw, mw_owner_key mw, mw_payload mw,
      issuer_script s, control]"

definition unique_output :: "tx_out list \<Rightarrow> bytes \<Rightarrow> nat \<Rightarrow> bool" where
  "unique_output outs spk i \<longleftrightarrow>
     i < length outs \<and> script_pubkey (outs ! i) = spk
     \<and> (\<forall>j < length outs. script_pubkey (outs ! j) = spk \<longrightarrow> j = i)"

definition spend_spec :: "bitcoin_env \<Rightarrow> bytes list \<Rightarrow> tx_out \<Rightarrow> issuer_state \<Rightarrow> bytes \<Rightarrow> bool" where
  "spend_spec E ws utxo s control \<longleftrightarrow>
     length ws = 7 \<and> ws ! 5 = issuer_script s \<and> ws ! 6 = control \<and> wf_state s
     \<and> script_pubkey utxo = canonical_issuer_spk E s
     \<and> control_block_verify E control (issuer_output_key E s) (issuer_script s) = Some True"

definition terms_spec :: "bitcoin_env \<Rightarrow> issuer_state \<Rightarrow> issuance_terms \<Rightarrow> bool" where
  "terms_spec E s t \<longleftrightarrow>
     terms_hash s = terms_hash_of E t \<and> target_prefix s = it_target_prefix t
     \<and> lane s < materialized_lanes t \<and> remaining s \<noteq> 0"

definition work_spec :: "bitcoin_env \<Rightarrow> issuer_state \<Rightarrow> mint_witness \<Rightarrow> bool" where
  "work_spec E s mw \<longleftrightarrow>
     unat (target_prefix s) \<le> 32
     \<and> pow_hash E (terms_hash s) (lane s) (seq s) (mw_item_commitment mw) (mw_nonce mw) =
         replicate (unat (target_prefix s)) POW_PREFIX_BYTE @ mw_hash_tail mw
     \<and> mw_item_commitment mw =
         item_commitment_of E (terms_hash s) (lane s) (seq s) (mw_owner_key mw) (mw_payload mw)"

definition outputs_spec ::
    "bitcoin_env \<Rightarrow> tx_out list \<Rightarrow> issuer_state \<Rightarrow> mint_witness \<Rightarrow> nat \<Rightarrow> nat option \<Rightarrow> issuer_state option \<Rightarrow> bool" where
  "outputs_spec E outs s mw item succ_idx succ \<longleftrightarrow>
     unique_output outs (item_owner_script (mw_owner_key mw)) item \<and> successor s = Inr succ
     \<and> (case succ of
          None \<Rightarrow> succ_idx = None \<and> length outs = 1
        | Some nxt \<Rightarrow> length outs = 2
            \<and> (\<exists>j. succ_idx = Some j \<and> unique_output outs (canonical_issuer_spk E nxt) j))"

definition value_spec :: "tx_out \<Rightarrow> tx_out list \<Rightarrow> u64 \<Rightarrow> bool" where
  "value_spec utxo outs fee \<longleftrightarrow> unat (out_value utxo) = unat (output_sum outs) + unat fee \<and> 0 < fee"

definition mint_spec ::
    "bitcoin_env \<Rightarrow> transaction \<Rightarrow> out_point \<Rightarrow> tx_out \<Rightarrow> issuance_terms \<Rightarrow> verified_mint \<Rightarrow> bool" where
  "mint_spec E tx op utxo terms vm \<longleftrightarrow>
     position (\<lambda>i. previous_output i = op) (tx_input tx) = Some (issuer_input_index vm)
     \<and> (\<exists>control.
          spend_spec E (mint_stack (vm_issuer_state vm) (vm_witness vm) control) utxo (vm_issuer_state vm) control
          \<and> witness (tx_input tx ! issuer_input_index vm)
              = mint_stack (vm_issuer_state vm) (vm_witness vm) control)
     \<and> terms_spec E (vm_issuer_state vm) terms
     \<and> length (mw_item_commitment (vm_witness vm)) = 32
     \<and> xonly_from_slice E (mw_owner_key (vm_witness vm)) = Some (mw_owner_key (vm_witness vm))
     \<and> work_spec E (vm_issuer_state vm) (vm_witness vm)
     \<and> outputs_spec E (tx_output tx) (vm_issuer_state vm) (vm_witness vm)
          (item_output_index vm) (successor_output_index vm) (successor_state vm)
     \<and> item_output vm = tx_output tx ! item_output_index vm
     \<and> value_spec utxo (tx_output tx) (vm_fee vm)"

section \<open>Each phase meets its specification\<close>

lemma seven_split: "length xs = 7 \<Longrightarrow> take 5 xs = [a, b, c, d, e] \<Longrightarrow> xs = [a, b, c, d, e, xs ! 5, xs ! 6]"
  by (auto simp: eval_nat_numeral length_Suc_conv)

lemma issuer_output_key_valid:
  "taproot_keys_valid E \<Longrightarrow> xonly_from_slice E (issuer_output_key E s) = Some (issuer_output_key E s)"
  by (simp add: taproot_keys_valid_def issuer_output_key_def)

lemma taproot_output_key_canonical:
  assumes "xonly_sound E" "taproot_keys_valid E"
  shows "taproot_output_key E (canonical_issuer_spk E s) = Some (issuer_output_key E s)"
  using issuer_output_key_valid [OF assms(2), of s] xonly_soundD [OF assms(1)]
  by (fastforce simp: taproot_output_key_def canonical_issuer_spk_def p2tr_output_script_def)

lemma bind_issuer_spend_Inr:
  assumes "xonly_sound E" "taproot_keys_valid E"
  shows "bind_issuer_spend E idx ws utxo = Inr s \<longleftrightarrow> (\<exists>control. spend_spec E ws utxo s control)"
proof
  assume "bind_issuer_spend E idx ws utxo = Inr s"
  then show "\<exists>control. spend_spec E ws utxo s control"
    using taproot_output_key_canonical [OF assms]
    by (auto simp: bind_issuer_spend_def spend_spec_def Let_def result_simps
        dest!: parse_issuer_script_sound split: if_split_asm)
next
  assume "\<exists>control. spend_spec E ws utxo s control"
  then show "bind_issuer_spend E idx ws utxo = Inr s"
    using taproot_output_key_canonical [OF assms]
    by (auto simp: bind_issuer_spend_def spend_spec_def Let_def parse_issuer_script_complete)
qed

lemma check_terms_Inr: "check_terms E s t = Inr u \<longleftrightarrow> terms_spec E s t"
  by (auto simp: check_terms_def terms_spec_def)

lemma parse_mint_witness_Inr:
  assumes "xonly_sound E"
  shows "parse_mint_witness E stack = Inr mw \<longleftrightarrow>
    stack = [u64_le (mw_nonce mw), mw_item_commitment mw, mw_hash_tail mw, mw_owner_key mw, mw_payload mw]
    \<and> length (mw_item_commitment mw) = 32 \<and> xonly_from_slice E (mw_owner_key mw) = Some (mw_owner_key mw)"
proof
  assume *: "parse_mint_witness E stack = Inr mw"
  then obtain a b c d e where "stack = [a, b, c, d, e]"
    by (auto simp: parse_mint_witness_def eval_nat_numeral length_Suc_conv split: if_split_asm)
  with * show "stack = [u64_le (mw_nonce mw), mw_item_commitment mw, mw_hash_tail mw, mw_owner_key mw, mw_payload mw]
    \<and> length (mw_item_commitment mw) = 32 \<and> xonly_from_slice E (mw_owner_key mw) = Some (mw_owner_key mw)"
    by (auto simp: parse_mint_witness_def result_simps u64_le_u64_from_le split: if_split_asm
        dest: xonly_soundD [OF assms] xonly_idem [OF assms])
next
  assume "stack = [u64_le (mw_nonce mw), mw_item_commitment mw, mw_hash_tail mw, mw_owner_key mw, mw_payload mw]
    \<and> length (mw_item_commitment mw) = 32 \<and> xonly_from_slice E (mw_owner_key mw) = Some (mw_owner_key mw)"
  then show "parse_mint_witness E stack = Inr mw" by (simp add: parse_mint_witness_def)
qed

lemma check_work_and_item_Inr:
  assumes "sha256_32 E"
  shows "check_work_and_item E s mw = Inr u \<longleftrightarrow> work_spec E s mw"
proof -
  let ?d = "pow_hash E (terms_hash s) (lane s) (seq s) (mw_item_commitment mw) (mw_nonce mw)"
  have "length ?d = 32" using assms by (simp add: pow_hash_def sha256_length)
  note pow = pow_checks_iff [OF this, of "target_prefix s" "mw_hash_tail mw"]
  have "check_work_and_item E s mw = Inr u \<longleftrightarrow>
      (meets_target ?d (target_prefix s) \<and> hash_tail ?d (target_prefix s) = Inr (mw_hash_tail mw))
      \<and> mw_item_commitment mw = item_commitment_of E (terms_hash s) (lane s) (seq s) (mw_owner_key mw) (mw_payload mw)"
    by (auto simp: check_work_and_item_def Let_def result_simps)
  then show ?thesis by (simp only: pow work_spec_def conj_assoc)
qed

lemma unique_output_indices:
  "unique_output outs spk i \<longleftrightarrow> indices_where (\<lambda>out. script_pubkey out = spk) outs = [i]"
  by (simp add: unique_output_def indices_where_single)

lemma classify_outputs_Inr:
  "classify_outputs E tx s mw = Inr (item, succ_idx, succ) \<longleftrightarrow>
     outputs_spec E (tx_output tx) s mw item succ_idx succ"
proof -
  have single: "length xs = 1 \<and> xs ! 0 = i \<longleftrightarrow> xs = [i]" for xs :: "nat list" and i
    by (cases xs) auto
  show ?thesis
    by (cases "successor s")
      (auto simp: classify_outputs_def outputs_spec_def Let_def unique_output_indices result_simps
        single [symmetric] split: option.split if_split_asm)
qed

lemma check_value_Inr: "check_value utxo outs = Inr fee \<longleftrightarrow> value_spec utxo outs fee"
proof -
  have "output_sum outs \<le> out_value utxo \<and> fee = out_value utxo - output_sum outs \<longleftrightarrow>
      unat (out_value utxo) = unat (output_sum outs) + unat fee"
    using checked_sub_Some [of "out_value utxo" "output_sum outs" fee]
    by (auto simp: checked_sub_def split: if_split_asm)
  then show ?thesis
    by (auto simp: check_value_def value_spec_def Let_def word_gt_0)
qed

section \<open>The verifier\<close>

lemma verify_mint_Inr:
  assumes E: "sha256_32 E" "xonly_sound E" "taproot_keys_valid E"
  shows "verify_mint E tx op utxo terms = Inr vm \<longleftrightarrow> mint_spec E tx op utxo terms vm"
proof
  assume "verify_mint E tx op utxo terms = Inr vm"
  then obtain idx s mw item succ_idx succ fee control
    where idx: "position (\<lambda>i. previous_output i = op) (tx_input tx) = Some idx"
      and spend: "spend_spec E (witness (tx_input tx ! idx)) utxo s control"
      and terms: "terms_spec E s terms"
      and mw: "parse_mint_witness E (take 5 (witness (tx_input tx ! idx))) = Inr mw"
      and work: "work_spec E s mw"
      and outs: "outputs_spec E (tx_output tx) s mw item succ_idx succ"
      and fee: "value_spec utxo (tx_output tx) fee"
      and vm: "vm = \<lparr>issuer_input_index = idx, vm_issuer_state = s, vm_witness = mw,
            item_output_index = item, item_output = tx_output tx ! item,
            successor_output_index = succ_idx, successor_state = succ, vm_fee = fee\<rparr>"
    by (auto simp: verify_mint_def Let_def result_simps bind_issuer_spend_Inr [OF E(2,3)] check_terms_Inr
        check_work_and_item_Inr [OF E(1)] classify_outputs_Inr check_value_Inr spend_spec_def)
  have "witness (tx_input tx ! idx) = mint_stack s mw control"
    using spend mw seven_split
    by (fastforce simp: mint_stack_def parse_mint_witness_Inr [OF E(2)] spend_spec_def)
  with idx spend terms mw work outs fee show "mint_spec E tx op utxo terms vm"
    by (auto simp: mint_spec_def vm parse_mint_witness_Inr [OF E(2)])
next
  assume spec: "mint_spec E tx op utxo terms vm"
  then obtain control where
    ws: "witness (tx_input tx ! issuer_input_index vm) = mint_stack (vm_issuer_state vm) (vm_witness vm) control"
    and spend: "spend_spec E (mint_stack (vm_issuer_state vm) (vm_witness vm) control) utxo (vm_issuer_state vm) control"
    by (auto simp: mint_spec_def)
  have bound: "bind_issuer_spend E i (mint_stack (vm_issuer_state vm) (vm_witness vm) control) utxo
      = Inr (vm_issuer_state vm)" for i
    using spend bind_issuer_spend_Inr [OF E(2,3)] by blast
  have "parse_mint_witness E (take 5 (mint_stack (vm_issuer_state vm) (vm_witness vm) control))
      = Inr (vm_witness vm)"
    using spec by (simp add: parse_mint_witness_Inr [OF E(2)] mint_spec_def mint_stack_def)
  moreover have "length (mint_stack (vm_issuer_state vm) (vm_witness vm) control) = 7"
    by (simp add: mint_stack_def)
  ultimately show "verify_mint E tx op utxo terms = Inr vm"
    using spec ws bound unfolding mint_spec_def
    by (cases vm) (auto simp: verify_mint_def Let_def result_simps check_terms_Inr
        check_work_and_item_Inr [OF E(1)] classify_outputs_Inr check_value_Inr)
qed

text \<open>
  C1: the mint verifier accepts exactly the mints of its specification \<open>mint_spec\<close>: the
  first input that spends the issuer output reveals, with a control block that verifies,
  the canonical script of a state whose output is the one spent; the state matches the
  terms and has supply left; the digest is the proof-of-work prefix followed by the
  revealed tail; the item commitment is that of the revealed owner and payload; the
  outputs are one owner output and, exactly when supply is left after this mint, one
  output of the successor state; and the fee is positive.  The returned
  record describes that mint, so no field of it is unconstrained.
\<close>

theorem verify_mint_exact:
  assumes "sha256_32 E" "xonly_sound E" "taproot_keys_valid E"
  shows "verify_mint E tx op utxo terms = Inr vm \<longleftrightarrow> mint_spec E tx op utxo terms vm"
  by (rule verify_mint_Inr [OF assms])

section \<open>Value conservation\<close>

lemma unat_output_sum:
  "(\<Sum>out\<leftarrow>outs. unat (out_value out)) < 2 ^ 64 \<Longrightarrow>
   unat (output_sum outs) = (\<Sum>out\<leftarrow>outs. unat (out_value out))"
proof (induction outs)
  case (Cons out outs)
  then have "unat (output_sum outs) = (\<Sum>out\<leftarrow>outs. unat (out_value out))" by simp
  with Cons.prems show ?case by (simp add: output_sum_def unat_word_ariths)
qed (simp add: output_sum_def)

definition MAX_MONEY :: u64 where "MAX_MONEY = 2100000000000000"

lemma unat_output_sum_money:
  assumes "length outs \<le> 2" and "\<forall>out \<in> set outs. out_value out \<le> MAX_MONEY"
  shows "unat (output_sum outs) = (\<Sum>out\<leftarrow>outs. unat (out_value out))"
proof (rule unat_output_sum)
  have "(\<Sum>out\<leftarrow>outs. unat (out_value out)) \<le> length outs * 2100000000000000"
    using assms(2)
    by (induction outs) (auto simp: MAX_MONEY_def word_le_nat_alt)
  also have "\<dots> \<le> 2 * 2100000000000000" using assms(1) by (intro mult_right_mono) auto
  finally show "(\<Sum>out\<leftarrow>outs. unat (out_value out)) < 2 ^ 64" by simp
qed

lemma outputs_spec_length: "outputs_spec E outs s mw i j succ \<Longrightarrow> length outs \<le> 2"
  by (auto simp: outputs_spec_def split: option.splits)

lemma unat_output_sum_mod: "unat (output_sum outs) = (\<Sum>out\<leftarrow>outs. unat (out_value out)) mod 2 ^ 64"
  by (induction outs) (simp_all add: output_sum_def unat_word_ariths mod_simps)

text \<open>
  C14: an accepted mint pays a positive fee and conserves value modulo \<open>2 ^ 64\<close>, the width in which the verifier adds the outputs;
  when every output respects the consensus limit of 21 million coins, value is conserved over the natural
  numbers.  In all cases the committed supply drops by exactly one, either in the successor state with the next
  sequence number under the same terms, lane and target, or to zero without a successor.
\<close>

theorem verify_mint_conserves:
  assumes "sha256_32 E" "xonly_sound E" "taproot_keys_valid E"
    and "verify_mint E tx op utxo terms = Inr vm"
  shows "unat (out_value utxo) = (\<Sum>out\<leftarrow>tx_output tx. unat (out_value out)) mod 2 ^ 64 + unat (vm_fee vm)
    \<and> 0 < unat (vm_fee vm)
    \<and> ((\<forall>out \<in> set (tx_output tx). out_value out \<le> MAX_MONEY) \<longrightarrow>
         unat (out_value utxo) = (\<Sum>out\<leftarrow>tx_output tx. unat (out_value out)) + unat (vm_fee vm))
    \<and> (case successor_state vm of
         None \<Rightarrow> unat (remaining (vm_issuer_state vm)) = 1
       | Some nxt \<Rightarrow>
           unat (remaining (vm_issuer_state vm)) = unat (remaining nxt) + 1
           \<and> unat (seq nxt) = unat (seq (vm_issuer_state vm)) + 1
           \<and> terms_hash nxt = terms_hash_of E terms \<and> lane nxt = lane (vm_issuer_state vm)
           \<and> target_prefix nxt = it_target_prefix terms)"
proof -
  have spec: "mint_spec E tx op utxo terms vm" using assms by (simp add: verify_mint_Inr)
  then have val: "value_spec utxo (tx_output tx) (vm_fee vm)"
    and outs: "outputs_spec E (tx_output tx) (vm_issuer_state vm) (vm_witness vm)
      (item_output_index vm) (successor_output_index vm) (successor_state vm)"
    and terms: "terms_spec E (vm_issuer_state vm) terms"
    by (simp_all add: mint_spec_def)
  have succ: "successor (vm_issuer_state vm) = Inr (successor_state vm)"
    using outs by (simp add: outputs_spec_def)
  have last_one: "unat (remaining (vm_issuer_state vm)) = 1" if "successor_state vm = None"
    using succ terms that by (auto simp: successor_def terms_spec_def Let_def result_simps split: if_split_asm)
  have step: "case successor_state vm of
       None \<Rightarrow> unat (remaining (vm_issuer_state vm)) = 1
     | Some nxt \<Rightarrow>
         unat (remaining (vm_issuer_state vm)) = unat (remaining nxt) + 1
         \<and> unat (seq nxt) = unat (seq (vm_issuer_state vm)) + 1
         \<and> terms_hash nxt = terms_hash_of E terms \<and> lane nxt = lane (vm_issuer_state vm)
         \<and> target_prefix nxt = it_target_prefix terms"
  proof (cases "successor_state vm")
    case None
    then show ?thesis by (simp add: last_one)
  next
    case (Some nxt)
    with succ have "successor (vm_issuer_state vm) = Inr (Some nxt)" by simp
    from successor_Some [OF this] terms show ?thesis by (simp add: Some terms_spec_def)
  qed
  have "unat (output_sum (tx_output tx)) = (\<Sum>out\<leftarrow>tx_output tx. unat (out_value out))"
    if "\<forall>out \<in> set (tx_output tx). out_value out \<le> MAX_MONEY"
    using outputs_spec_length [OF outs] that by (rule unat_output_sum_money)
  with val step show ?thesis by (simp add: value_spec_def word_less_nat_alt unat_output_sum_mod)
qed

section \<open>Building a mint\<close>

definition next_output :: "bitcoin_env \<Rightarrow> issuer_state option \<Rightarrow> u64 \<Rightarrow> tx_out option" where
  "next_output E succ v = map_option (\<lambda>nxt. mk_txout v (canonical_issuer_spk E nxt)) succ"

definition next_value :: "issuer_state option \<Rightarrow> u64 \<Rightarrow> u64" where
  "next_value succ v = (case succ of None \<Rightarrow> 0 | Some _ \<Rightarrow> v)"

definition mintable :: "bitcoin_env \<Rightarrow> tx_out \<Rightarrow> issuer_state \<Rightarrow> mint_witness \<Rightarrow> bytes \<Rightarrow> bool" where
  "mintable E utxo s mw control \<longleftrightarrow>
     wf_state s \<and> script_pubkey utxo = canonical_issuer_spk E s
     \<and> control_block_verify E control (issuer_output_key E s) (issuer_script s) = Some True
     \<and> xonly_from_slice E (mw_owner_key mw) = Some (mw_owner_key mw) \<and> work_spec E s mw"

lemma built_mint_accepted:
  assumes E: "sha256_32 E" "xonly_sound E" "taproot_keys_valid E"
    and mint: "mintable E utxo s mw control" and terms: "terms_spec E s terms"
    and succ: "successor s = Inr succ"
    and distinct: "\<forall>nxt. succ = Some nxt \<longrightarrow> canonical_issuer_spk E nxt \<noteq> item_owner_script (mw_owner_key mw)"
    and vals: "item_value + next_value succ v < out_value utxo"
  shows "\<exists>tx vm. build_mint_tx op utxo s mw item_value (next_output E succ v) control = Inr tx
    \<and> verify_mint E tx op utxo terms = Inr vm
    \<and> vm_issuer_state vm = s \<and> vm_witness vm = mw \<and> successor_state vm = succ
    \<and> item_output vm = mk_txout item_value (item_owner_script (mw_owner_key mw))
    \<and> vm_fee vm = out_value utxo - (item_value + next_value succ v)"
proof -
  define outs where "outs = mk_txout item_value (item_owner_script (mw_owner_key mw)) #
    (case next_output E succ v of None \<Rightarrow> [] | Some out \<Rightarrow> [out])"
  define tx where "tx = \<lparr>tx_version = version_two, lock_time = 0,
    tx_input = [\<lparr>previous_output = op, script_sig = [], sequence = sequence_max, witness = mint_stack s mw control\<rparr>],
    tx_output = outs\<rparr>"
  define vm where "vm = \<lparr>issuer_input_index = 0, vm_issuer_state = s, vm_witness = mw, item_output_index = 0,
    item_output = outs ! 0, successor_output_index = map_option (\<lambda>_. 1) succ, successor_state = succ,
    vm_fee = out_value utxo - output_sum outs\<rparr>"
  have sum: "output_sum outs = item_value + next_value succ v"
    by (simp add: outs_def output_sum_def next_output_def next_value_def split: option.split)
  have build: "build_mint_tx op utxo s mw item_value (next_output E succ v) control = Inr tx"
    using vals sum by (simp add: build_mint_tx_def tx_def outs_def mint_stack_def Let_def)
  have "check_value utxo outs = Inr (out_value utxo - output_sum outs)"
    using vals sum by (auto simp: check_value_def Let_def)
  then have val: "value_spec utxo outs (vm_fee vm)" by (simp add: check_value_Inr vm_def)
  have spec_outs: "outputs_spec E outs s mw 0 (map_option (\<lambda>_. 1) succ) succ"
    using succ distinct
    by (auto simp: outputs_spec_def unique_output_def outs_def next_output_def less_Suc_eq split: option.split)
  have "length (mw_item_commitment mw) = 32"
    using mint E(1) by (simp add: mintable_def work_spec_def item_commitment_of_def sha256_length)
  then have "mint_spec E tx op utxo terms vm"
    using mint terms val spec_outs
    by (simp add: mint_spec_def tx_def mintable_def spend_spec_def mint_stack_def) (simp add: vm_def)
  then have "verify_mint E tx op utxo terms = Inr vm" by (simp add: verify_mint_Inr [OF E])
  with build show ?thesis by (auto simp: vm_def outs_def sum [unfolded outs_def])
qed

lemma verify_mint_fee:
  assumes "sha256_32 E" "xonly_sound E" "taproot_keys_valid E" and "verify_mint E tx op utxo terms = Inr vm"
  shows "output_sum (tx_output tx) < out_value utxo"
  using assms by (auto simp: verify_mint_Inr mint_spec_def value_spec_def word_less_nat_alt)

lemma build_mint_tx_outputs:
  "build_mint_tx op utxo s mw iv succ control = Inr tx \<Longrightarrow>
   length (tx_input tx) = 1 \<and> tx_output tx = mk_txout iv (item_owner_script (mw_owner_key mw)) # (case succ of None \<Rightarrow> [] | Some out \<Rightarrow> [out])"
  by (auto simp: build_mint_tx_def Let_def split: if_split_asm)

lemma build_mint_tx_sum:
  "build_mint_tx op utxo s mw iv (next_output E succ v) control = Inr tx \<Longrightarrow> output_sum (tx_output tx) = iv + next_value succ v"
  by (cases succ) (auto simp: output_sum_def next_output_def next_value_def dest!: build_mint_tx_outputs)

lemma build_mint_tx_value:
  "build_mint_tx op utxo s mw item_value (next_output E succ v) control =
     (if item_value + next_value succ v > out_value utxo
      then Inl (ValueNotConserved (out_value utxo) (item_value + next_value succ v))
      else Inr \<lparr>tx_version = version_two, lock_time = 0,
        tx_input = [\<lparr>previous_output = op, script_sig = [], sequence = sequence_max, witness = mint_stack s mw control\<rparr>],
        tx_output = mk_txout item_value (item_owner_script (mw_owner_key mw)) #
          (case next_output E succ v of None \<Rightarrow> [] | Some out \<Rightarrow> [out])\<rparr>)"
  by (simp add: build_mint_tx_def mint_stack_def output_sum_def next_output_def next_value_def Let_def split: option.split)

text \<open>
  C9: when the builder and the verifier agree.  Take a well-formed state whose canonical output is spent, with a valid
  control block, a valid owner key, a solved witness and matching terms; let the successor output be the canonical
  output of the successor state, when there is one, and let it differ from the owner's script; and let the two values not overflow.
  If they are less than the input, \<open>build_mint_tx\<close> succeeds and \<open>verify_mint\<close>
  accepts its transaction, returning the given state, witness and successor, the item output it built, and the fee
  that is left.  If they equal the input, the builder still succeeds and the verifier refuses the transaction, which pays no fee.
  If they are more, the builder refuses.
\<close>

theorem build_mint_tx_verifies:
  assumes "sha256_32 E" "xonly_sound E" "taproot_keys_valid E"
    and "mintable E utxo s mw control" and "terms_spec E s terms"
    and "successor s = Inr succ"
    and "\<forall>nxt. succ = Some nxt \<longrightarrow> canonical_issuer_spk E nxt \<noteq> item_owner_script (mw_owner_key mw)"
    and fits: "unat item_value + unat (next_value succ v) < 2 ^ 64"
  shows "(unat item_value + unat (next_value succ v) < unat (out_value utxo) \<longrightarrow>
      (\<exists>tx vm. build_mint_tx op utxo s mw item_value (next_output E succ v) control = Inr tx
        \<and> verify_mint E tx op utxo terms = Inr vm
        \<and> vm_issuer_state vm = s \<and> vm_witness vm = mw \<and> successor_state vm = succ
        \<and> item_output vm = mk_txout item_value (item_owner_script (mw_owner_key mw))
        \<and> unat (vm_fee vm) = unat (out_value utxo) - (unat item_value + unat (next_value succ v))))
    \<and> (unat item_value + unat (next_value succ v) = unat (out_value utxo) \<longrightarrow>
      (\<exists>tx. build_mint_tx op utxo s mw item_value (next_output E succ v) control = Inr tx \<and> \<not> is_ok (verify_mint E tx op utxo terms)))
    \<and> (unat item_value + unat (next_value succ v) > unat (out_value utxo) \<longrightarrow>
      build_mint_tx op utxo s mw item_value (next_output E succ v) control
        = Inl (ValueNotConserved (out_value utxo) (item_value + next_value succ v)))"
proof (intro conjI impI)
  have sum: "unat (item_value + next_value succ v) = unat item_value + unat (next_value succ v)"
    using fits by (simp add: unat_word_ariths)
  {
    assume l: "unat item_value + unat (next_value succ v) < unat (out_value utxo)"
    then have less: "item_value + next_value succ v < out_value utxo" using sum by (simp add: word_less_nat_alt)
    then have "unat (out_value utxo - (item_value + next_value succ v))
        = unat (out_value utxo) - (unat item_value + unat (next_value succ v))"
      using sum by (simp add: unat_sub order.strict_implies_order)
    then show "\<exists>tx vm. build_mint_tx op utxo s mw item_value (next_output E succ v) control = Inr tx
        \<and> verify_mint E tx op utxo terms = Inr vm
        \<and> vm_issuer_state vm = s \<and> vm_witness vm = mw \<and> successor_state vm = succ
        \<and> item_output vm = mk_txout item_value (item_owner_script (mw_owner_key mw))
        \<and> unat (vm_fee vm) = unat (out_value utxo) - (unat item_value + unat (next_value succ v))"
      using built_mint_accepted [OF assms(1-7) less, of op] by auto
  next
    assume "unat item_value + unat (next_value succ v) = unat (out_value utxo)"
    then have eq: "item_value + next_value succ v = out_value utxo" using sum by (simp add: word_unat_eq_iff)
    then obtain tx where tx: "build_mint_tx op utxo s mw item_value (next_output E succ v) control = Inr tx"
      by (simp add: build_mint_tx_value)
    then have "output_sum (tx_output tx) = item_value + next_value succ v" by (rule build_mint_tx_sum)
    then have "\<not> is_ok (verify_mint E tx op utxo terms)"
      using verify_mint_fee [OF assms(1-3), of tx op utxo terms] eq by (auto simp: is_ok_iff)
    with tx show "\<exists>tx. build_mint_tx op utxo s mw item_value (next_output E succ v) control = Inr tx \<and> \<not> is_ok (verify_mint E tx op utxo terms)"
      by blast
  next
    assume "unat item_value + unat (next_value succ v) > unat (out_value utxo)"
    then show "build_mint_tx op utxo s mw item_value (next_output E succ v) control
        = Inl (ValueNotConserved (out_value utxo) (item_value + next_value succ v))"
      using sum by (simp add: build_mint_tx_value word_less_nat_alt)
  }
qed

section \<open>Sample mints\<close>

definition sample_mint_witness :: mint_witness where
  "sample_mint_witness = \<lparr>mw_nonce = 0, mw_item_commitment = replicate 32 1, mw_hash_tail = replicate 31 1,
     mw_owner_key = replicate 32 3, mw_payload = []\<rparr>"

definition sample_issuer_utxo :: tx_out where
  "sample_issuer_utxo = mk_txout 10000 (p2tr_output_script (replicate 32 5))"

lemma sample_canonical_spk: "canonical_issuer_spk sample_env s = p2tr_output_script (replicate 32 5)"
  by (simp add: canonical_issuer_spk_def issuer_output_key_def sample_env_def)

lemma sample_mintable:
  assumes "terms_hash s = replicate 32 1" "target_prefix s = 1" "script_pubkey utxo = script_pubkey sample_issuer_utxo"
  shows "mintable sample_env utxo s sample_mint_witness []"
proof -
  have "replicate 32 (1 :: byte) = 1 # replicate 31 1" by (simp add: eval_nat_numeral)
  with assms show ?thesis
    by (simp add: mintable_def sample_canonical_spk sample_issuer_utxo_def wf_state_def work_spec_def
        sample_mint_witness_def pow_hash_def item_commitment_of_def POW_PREFIX_BYTE_def)
      (simp add: sample_env_def)
qed

lemma sample_terms_spec:
  "terms_hash s = replicate 32 1 \<Longrightarrow> target_prefix s = 1 \<Longrightarrow> lane s = 0 \<Longrightarrow> remaining s \<noteq> 0 \<Longrightarrow>
   terms_spec sample_env s sample_terms"
  by (simp add: terms_spec_def sample_terms_def materialized_lanes_def terms_hash_of_def)
    (simp add: sample_env_def)

lemma sample_owner_distinct:
  "\<forall>nxt. succ = Some nxt \<longrightarrow>
     canonical_issuer_spk sample_env nxt \<noteq> item_owner_script (mw_owner_key sample_mint_witness)"
  by (simp add: sample_canonical_spk item_owner_script_def p2tr_output_script_def sample_mint_witness_def)

lemma sample_successor:
  "successor sample_state = Inr (Some (sample_state\<lparr>seq := 1, remaining := 3\<rparr>))"
  by (simp add: sample_state_def successor_def checked_add_def)

lemma sample_state_mintable:
  "mintable sample_env sample_issuer_utxo sample_state sample_mint_witness []"
  "terms_spec sample_env sample_state sample_terms"
  by (rule sample_mintable; simp add: sample_state_def) (rule sample_terms_spec; simp add: sample_state_def)

lemma sample_mint_accepted:
  obtains tx vm where "verify_mint sample_env tx null_outpoint sample_issuer_utxo sample_terms = Inr vm"
    and "map out_value (tx_output tx) = [1000, 8000]" and "length (tx_input tx) = 1"
proof -
  have "1000 + next_value (Some (sample_state\<lparr>seq := 1, remaining := 3\<rparr>)) 8000 < out_value sample_issuer_utxo"
    by (simp add: next_value_def sample_issuer_utxo_def)
  from built_mint_accepted [OF sample_env_hyps(1-3) sample_state_mintable sample_successor
      sample_owner_distinct this, of null_outpoint] that
  show thesis by (auto simp: next_output_def dest: build_mint_tx_outputs)
qed

definition sample_mint_tx :: "out_point \<Rightarrow> transaction" where
  "sample_mint_tx op = \<lparr>tx_version = version_two, lock_time = 0,
     tx_input = [\<lparr>previous_output = op, script_sig = [], sequence = sequence_max,
       witness = mint_stack sample_state sample_mint_witness []\<rparr>],
     tx_output = [mk_txout 1000 (p2tr_output_script (replicate 32 3)),
       mk_txout 8000 (p2tr_output_script (replicate 32 5))]\<rparr>"

lemma sample_mint_tx_accepted:
  obtains vm where "verify_mint sample_env (sample_mint_tx op) op sample_issuer_utxo sample_terms = Inr vm"
    and "vm_issuer_state vm = sample_state"
proof -
  let ?succ = "Some (sample_state\<lparr>seq := 1, remaining := 3\<rparr>)"
  have v: "1000 + next_value ?succ 8000 < out_value sample_issuer_utxo"
    by (simp add: next_value_def sample_issuer_utxo_def)
  have "build_mint_tx op sample_issuer_utxo sample_state sample_mint_witness 1000
      (next_output sample_env ?succ 8000) [] = Inr (sample_mint_tx op)"
    by (simp add: build_mint_tx_def next_output_def sample_canonical_spk output_sum_def sample_issuer_utxo_def
        sample_mint_tx_def mint_stack_def item_owner_script_def) (simp add: sample_mint_witness_def)
  with built_mint_accepted [OF sample_env_hyps(1-3) sample_state_mintable sample_successor
      sample_owner_distinct v, of op] that
  show thesis by auto
qed

theorem build_mint_tx_verifies_witness:
  "(\<exists>tx vm. build_mint_tx null_outpoint sample_issuer_utxo sample_state sample_mint_witness 1000
       (next_output sample_env (Some (sample_state\<lparr>seq := 1, remaining := 3\<rparr>)) 8000) [] = Inr tx
     \<and> verify_mint sample_env tx null_outpoint sample_issuer_utxo sample_terms = Inr vm
     \<and> unat (vm_fee vm) = 1000)
   \<and> (\<exists>tx. build_mint_tx null_outpoint sample_issuer_utxo sample_state sample_mint_witness 1000
       (next_output sample_env (Some (sample_state\<lparr>seq := 1, remaining := 3\<rparr>)) 9000) [] = Inr tx
     \<and> \<not> is_ok (verify_mint sample_env tx null_outpoint sample_issuer_utxo sample_terms))"
  using build_mint_tx_verifies [OF sample_env_hyps(1-3) sample_state_mintable sample_successor
      sample_owner_distinct, of 1000 8000 null_outpoint]
    build_mint_tx_verifies [OF sample_env_hyps(1-3) sample_state_mintable sample_successor
      sample_owner_distinct, of 1000 9000 null_outpoint]
  by (auto simp: sample_issuer_utxo_def next_value_def)

theorem verify_mint_exact_witness:
  "\<exists>tx vm. verify_mint sample_env tx null_outpoint sample_issuer_utxo sample_terms = Inr vm
     \<and> mint_spec sample_env tx null_outpoint sample_issuer_utxo sample_terms vm"
  by (rule sample_mint_accepted) (use verify_mint_exact [OF sample_env_hyps(1-3)] in blast)

theorem verify_mint_conserves_witness:
  "\<exists>tx vm. verify_mint sample_env tx null_outpoint sample_issuer_utxo sample_terms = Inr vm
     \<and> unat (out_value sample_issuer_utxo)
         = (\<Sum>out\<leftarrow>tx_output tx. unat (out_value out)) + unat (vm_fee vm)"
proof -
  obtain tx vm where ok: "verify_mint sample_env tx null_outpoint sample_issuer_utxo sample_terms = Inr vm"
    and vals: "map out_value (tx_output tx) = [1000, 8000]" by (rule sample_mint_accepted)
  have "\<forall>out \<in> set (tx_output tx). out_value out \<le> MAX_MONEY"
    using vals by (auto simp: MAX_MONEY_def map_eq_Cons_conv)
  with verify_mint_conserves [OF sample_env_hyps(1-3) ok] ok show ?thesis by blast
qed

section \<open>What the verifier does not check\<close>

text \<open>
  The terms check does not relate \<open>seq\<close> and \<open>remaining\<close> to the supply of the lane: under
  terms with a supply of four, a mint from a state with any non-zero remaining supply
  passes.
\<close>

lemma verify_mint_supply_unchecked:
  "\<exists>tx utxo vm. verify_mint sample_env tx null_outpoint utxo sample_terms = Inr vm
     \<and> unat (total_supply sample_terms) = 4 \<and> unat (remaining (vm_issuer_state vm)) = 4294967295"
proof -
  let ?s = "sample_state\<lparr>remaining := 0xFFFFFFFF\<rparr>"
  have succ: "successor ?s = Inr (Some (?s\<lparr>seq := 1, remaining := 0xFFFFFFFE\<rparr>))"
    by (simp add: sample_state_def successor_def checked_add_def)
  have m: "mintable sample_env sample_issuer_utxo ?s sample_mint_witness []"
    and t: "terms_spec sample_env ?s sample_terms"
    by (rule sample_mintable; simp add: sample_state_def) (rule sample_terms_spec; simp add: sample_state_def)
  have "1000 + next_value (Some (?s\<lparr>seq := 1, remaining := 0xFFFFFFFE\<rparr>)) 8000 < out_value sample_issuer_utxo"
    by (simp add: next_value_def sample_issuer_utxo_def)
  from built_mint_accepted [OF sample_env_hyps(1-3) m t succ sample_owner_distinct this, of null_outpoint]
  obtain tx vm where "verify_mint sample_env tx null_outpoint sample_issuer_utxo sample_terms = Inr vm"
    and "vm_issuer_state vm = ?s" by blast
  moreover have "unat (remaining ?s) = 4294967295" "unat (total_supply sample_terms) = 4"
    by (simp_all add: sample_terms_def)
  ultimately show ?thesis by metis
qed

text \<open>
  The output sum wraps: outputs of 18446744073709551615 and 2 satoshi pass the value check
  against an issuer output of 10000 satoshi.
\<close>

lemma verify_mint_value_wraps:
  "\<exists>tx vm. verify_mint sample_env tx null_outpoint sample_issuer_utxo sample_terms = Inr vm
     \<and> unat (out_value sample_issuer_utxo) < (\<Sum>out\<leftarrow>tx_output tx. unat (out_value out))"
proof -
  have "0xFFFFFFFFFFFFFFFF + next_value (Some (sample_state\<lparr>seq := 1, remaining := 3\<rparr>)) 2 < out_value sample_issuer_utxo"
    by (simp add: next_value_def sample_issuer_utxo_def)
  from built_mint_accepted [OF sample_env_hyps(1-3) sample_state_mintable sample_successor
      sample_owner_distinct this, of null_outpoint]
  obtain tx vm where ok: "verify_mint sample_env tx null_outpoint sample_issuer_utxo sample_terms = Inr vm"
    and vals: "map out_value (tx_output tx) = [0xFFFFFFFFFFFFFFFF, 2]"
    by (auto simp: next_output_def dest: build_mint_tx_outputs)
  have "(\<Sum>out\<leftarrow>tx_output tx. unat (out_value out)) = sum_list (map unat (map out_value (tx_output tx)))"
    by (simp add: comp_def)
  also have "\<dots> = 18446744073709551617" by (simp only: vals) simp
  finally have "unat (out_value sample_issuer_utxo) < (\<Sum>out\<leftarrow>tx_output tx. unat (out_value out))"
    by (simp add: sample_issuer_utxo_def)
  with ok show ?thesis by blast
qed

end
