(* ===== verification/Issuance_Models.thy ===== *)
theory Issuance_Models
  imports Issuance_Verify
begin

text \<open>
  \<open>crates/issuance/src/models.rs\<close>: the issuance transaction of both issuance structures
  and the metrics that compare them.  Sizes come from the \<open>bitcoin\<close> crate
  (\<open>weight_vbytes\<close>); \<open>expect\<close> and the subtraction of amounts panic.  The descriptive
  strings of the comparison and its JSON summary are not modelled.
\<close>

section \<open>Issuance transactions\<close>

definition tx_vbytes :: "bitcoin_env \<Rightarrow> transaction \<Rightarrow> u64" where
  "tx_vbytes E tx = weight_vbytes E tx"

definition funding_input :: tx_in where
  "funding_input = \<lparr>previous_output = null_outpoint, script_sig = [], sequence = sequence_max,
     witness = [replicate 72 0x55, replicate 33 0x33]\<rparr>"

definition expect :: "('e, 'a) rresult \<Rightarrow> (panic, 'a) rresult" where
  "expect m = map_err (\<lambda>_. Panic) m"

definition issuer_output :: "bitcoin_env \<Rightarrow> issuance_terms \<Rightarrow> u64 \<Rightarrow> u8 \<Rightarrow> (panic, tx_out) rresult" where
  "issuer_output E terms issuer_value l =
     rbind (expect (initial E terms l)) (\<lambda>s. Inr (mk_txout issuer_value (canonical_issuer_spk E s)))"

definition build_issuance_tx :: "bitcoin_env \<Rightarrow> issuance_terms \<Rightarrow> u64 \<Rightarrow> (panic, transaction) rresult" where
  "build_issuance_tx E terms issuer_value =
     (let lanes = materialized_lanes terms in
      rbind (rmap (issuer_output E terms issuer_value) (map word_of_nat [0 ..< unat lanes])) (\<lambda>outputs.
        Inr \<lparr>tx_version = version_two, lock_time = 0, tx_input = [funding_input], tx_output = outputs\<rparr>))"

section \<open>Metrics\<close>

record model_metrics =
  mm_lanes :: u8
  issuance_outputs :: u32
  issuance_tx_vbytes :: u64
  mm_mint_tx_vbytes :: u64
  supply_latency_blocks :: u64
  concurrent_chains :: u32
  expected_nonce_attempts :: u64

record model_comparison =
  model_a :: model_metrics
  model_b :: model_metrics
  chosen_model :: string

definition expected_attempts :: "u8 \<Rightarrow> u64" where
  "expected_attempts tp =
     (if 256 ^ unat tp < (2 ^ 64 :: nat) then word_of_nat (256 ^ unat tp) else - 1)"

definition amount_sub :: "u64 \<Rightarrow> u64 \<Rightarrow> (panic, u64) rresult" where
  "amount_sub a b = ok_or Panic (checked_sub a b)"

definition mint_successor_output ::
    "bitcoin_env \<Rightarrow> issuer_state \<Rightarrow> u64 \<Rightarrow> u64 \<Rightarrow> (panic, tx_out option) rresult" where
  "mint_successor_output E s issuer_value item_value =
     (case successor s of
        Inr (Some nxt) \<Rightarrow>
          rbind (amount_sub issuer_value item_value) (\<lambda>v. rbind (amount_sub v 500) (\<lambda>v'.
            Inr (Some (mk_txout v' (canonical_issuer_spk E nxt)))))
      | _ \<Rightarrow> Inr None)"

definition mint_tx_vbytes :: "bitcoin_env \<Rightarrow> issuance_terms \<Rightarrow> u64 \<Rightarrow> u64 \<Rightarrow> (panic, u64) rresult" where
  "mint_tx_vbytes E terms issuer_value item_value =
     rbind (expect (initial E terms 0)) (\<lambda>s.
     let owner_key = xonly_of_secret E (replicate 32 3);
         payload = ascii ''payload'';
         ic = item_commitment_of E (terms_hash s) (lane s) (seq s) owner_key payload;
         nonce = (case find_nonce_bounded E (terms_hash s) (lane s) (seq s) ic (target_prefix s) 1000000 of
                    Some (n, _) \<Rightarrow> n | None \<Rightarrow> 0);
         digest = pow_hash E (terms_hash s) (lane s) (seq s) ic nonce;
         issuer_utxo = mk_txout issuer_value (canonical_issuer_spk E s)
     in rbind (hash_tail digest (target_prefix s)) (\<lambda>tail.
        rbind (mint_successor_output E s issuer_value item_value) (\<lambda>succ.
        let mw = \<lparr>mw_nonce = nonce, mw_item_commitment = ic, mw_hash_tail = tail,
                  mw_owner_key = owner_key, mw_payload = payload\<rparr>;
            control = taproot_single_leaf_control E nums_internal_key (issuer_script s)
        in rbind (expect (build_mint_tx null_outpoint issuer_utxo s mw item_value succ control)) (\<lambda>tx.
          Inr (tx_vbytes E tx)))))"

definition max_lane_supply :: "issuance_terms \<Rightarrow> u32 \<Rightarrow> u64" where
  "max_lane_supply terms lanes =
     fold max (map (\<lambda>l. ucast (lane_supply terms (word_of_nat l))) [0 ..< unat lanes]) 0"

definition compare_models :: "bitcoin_env \<Rightarrow> issuance_terms \<Rightarrow> u64 \<Rightarrow> u64 \<Rightarrow> (panic, model_comparison) rresult" where
  "compare_models E terms issuer_value item_value =
     (let terms_a = terms\<lparr>it_successor_rule := RecursiveIssuer, lane_count := 1\<rparr> in
      rbind (build_issuance_tx E terms_a issuer_value) (\<lambda>issuance_a.
      rbind (mint_tx_vbytes E terms_a issuer_value item_value) (\<lambda>mint_a.
      let terms_b = terms\<lparr>it_successor_rule := ShardedLanes, lane_count := max (lane_count terms) 2\<rparr> in
      rbind (build_issuance_tx E terms_b issuer_value) (\<lambda>issuance_b.
      rbind (mint_tx_vbytes E terms_b issuer_value item_value) (\<lambda>mint_b.
      let lanes = ucast (lane_count terms_b) :: u32 in
      Inr \<lparr>model_a = \<lparr>mm_lanes = 1, issuance_outputs = 1, issuance_tx_vbytes = tx_vbytes E issuance_a,
             mm_mint_tx_vbytes = mint_a, supply_latency_blocks = ucast (total_supply terms_a),
             concurrent_chains = 1, expected_nonce_attempts = expected_attempts (it_target_prefix terms_a)\<rparr>,
           model_b = \<lparr>mm_lanes = lane_count terms_b, issuance_outputs = lanes,
             issuance_tx_vbytes = tx_vbytes E issuance_b, mm_mint_tx_vbytes = mint_b,
             supply_latency_blocks = max_lane_supply terms_b lanes,
             concurrent_chains = lanes, expected_nonce_attempts = expected_attempts (it_target_prefix terms_b)\<rparr>,
           chosen_model = ''A''\<rparr>)))))"

section \<open>Properties\<close>

lemma expect_Inr [result_simps]: "expect m = Inr x \<longleftrightarrow> m = Inr x"
  by (simp add: expect_def result_simps)

definition initial_lane_state :: "bitcoin_env \<Rightarrow> issuance_terms \<Rightarrow> u8 \<Rightarrow> issuer_state" where
  "initial_lane_state E t l = \<lparr>terms_hash = terms_hash_of E t, lane = l, seq = 0,
     remaining = lane_supply t l, target_prefix = it_target_prefix t\<rparr>"

lemma initial_ok:
  "it_target_prefix t \<le> 32 \<Longrightarrow> l < materialized_lanes t \<Longrightarrow> initial E t l = Inr (initial_lane_state E t l)"
  by (simp add: initial_Inr initial_lane_state_def)

lemma lane_index_less: "i < unat (materialized_lanes t) \<Longrightarrow> word_of_nat i < materialized_lanes t"
  using unat_bound [of "materialized_lanes t"]
  by (simp add: word_less_nat_alt of_nat_inverse [OF refl])

lemma build_issuance_tx_ok:
  assumes "it_target_prefix t \<le> 32"
  shows "build_issuance_tx E t v = Inr \<lparr>tx_version = version_two, lock_time = 0, tx_input = [funding_input],
    tx_output = map (\<lambda>i. mk_txout v (canonical_issuer_spk E (initial_lane_state E t (word_of_nat i))))
      [0 ..< unat (materialized_lanes t)]\<rparr>"
proof -
  have "rmap (issuer_output E t v) (map word_of_nat [0 ..< unat (materialized_lanes t)]) =
      Inr (map (\<lambda>l. mk_txout v (canonical_issuer_spk E (initial_lane_state E t l)))
        (map word_of_nat [0 ..< unat (materialized_lanes t)]))"
    by (rule rmap_ok) (auto simp: issuer_output_def expect_def initial_ok [OF assms lane_index_less])
  then show ?thesis by (simp add: build_issuance_tx_def Let_def comp_def)
qed

lemma build_issuance_tx_panics:
  assumes "32 < it_target_prefix t"
  shows "build_issuance_tx E t v = Inl Panic"
proof -
  obtain k where "unat (materialized_lanes t) = Suc k"
    using materialized_lanes_pos [of t] gr0_implies_Suc by blast
  then have "map word_of_nat [0 ..< unat (materialized_lanes t)] = (0 :: u8) # map word_of_nat [1 ..< Suc k]"
    by (simp add: upt_conv_Cons del: upt_Suc)
  with assms show ?thesis
    by (simp add: build_issuance_tx_def Let_def issuer_output_def expect_def initial_def)
qed

lemma initial_remaining_sum:
  "(\<Sum>i<unat (materialized_lanes t). unat (remaining (initial_lane_state E t (word_of_nat i)))) = unat (total_supply t)"
  by (simp add: initial_lane_state_def lane_supply_sum)

text \<open>
  The issuance transaction commits to the whole supply.  It is built exactly when the
  target is at most 32 bytes and panics otherwise; its outputs are the canonical outputs
  of the initial state of every lane in order, and the supplies committed there add up
  to \<open>total_supply\<close>.
\<close>

theorem build_issuance_tx_commits_supply:
  "build_issuance_tx E t v =
     (if it_target_prefix t \<le> 32 then
        Inr \<lparr>tx_version = version_two, lock_time = 0, tx_input = [funding_input],
          tx_output = map (\<lambda>i. mk_txout v (canonical_issuer_spk E (initial_lane_state E t (word_of_nat i))))
            [0 ..< unat (materialized_lanes t)]\<rparr>
      else Inl Panic)
   \<and> (\<Sum>i<unat (materialized_lanes t). unat (remaining (initial_lane_state E t (word_of_nat i))))
        = unat (total_supply t)"
  using build_issuance_tx_ok [of t E v] build_issuance_tx_panics [of t E v]
  by (simp add: initial_remaining_sum)

lemma fold_max_unat:
  "fold max (map f xs) (a :: u64) = b \<longleftrightarrow> (b = a \<or> b \<in> f ` set xs) \<and> a \<le> b \<and> (\<forall>x \<in> set xs. f x \<le> b)"
proof -
  have "fold max (map f xs) a = Max (insert a (f ` set xs))"
    by (simp flip: Max.set_eq_fold)
  then show ?thesis by (subst eq_commute) (simp add: Max_eq_iff, blast)
qed

lemma unat_ucast_64: "unat (ucast w :: u64) = unat w" for w :: u32
  using unat_bound [of w] by (simp add: unsigned_ucast_eq take_bit_nat_eq_self)

lemma max_lane_supply_first:
  assumes "lanes = ucast (materialized_lanes t)"
  shows "max_lane_supply t lanes = ucast (lane_supply t 0)"
  unfolding max_lane_supply_def fold_max_unat
proof (intro conjI ballI)
  have pos: "0 < unat lanes" using assms materialized_lanes_pos [of t] by (simp add: unat_lane_up)
  then show "(ucast (lane_supply t 0) :: u64) = 0
      \<or> ucast (lane_supply t 0) \<in> (\<lambda>l. ucast (lane_supply t (word_of_nat l))) ` set [0..<unat lanes]"
    by force
  show "ucast (lane_supply t (word_of_nat x)) \<le> (ucast (lane_supply t 0) :: u64)" for x
    by (auto simp: word_le_nat_alt unat_ucast_64 unat_lane_supply)
qed simp

lemma ceil_div:
  fixes T L :: nat
  assumes "0 < L"
  shows "T div L + (if 0 < T mod L then 1 else 0) = (T + L - 1) div L"
proof -
  have "T + L - 1 = (T mod L + (L - 1)) + T div L * L"
    using assms div_mult_mod_eq [of T L] by linarith
  then have *: "(T + L - 1) div L = T div L + (T mod L + (L - 1)) div L"
    using assms by (metis add.commute div_mult_self1 less_not_refl)
  have "T mod L < L" using assms by simp
  then have "(T mod L + (L - 1)) div L = (if 0 < T mod L then 1 else 0)"
    using assms by (auto simp: le_div_geq less_imp_diff_less)
  with * show ?thesis by simp
qed

text \<open>
  The comparison measures what it says.  When it does not panic, the shared issuer
  needs one block per item, the sharded lanes need the supply divided by the number of
  lanes, rounded up, and therefore never more; the sharded model reports one output and one chain
  per lane and at least two lanes.
\<close>

theorem compare_models_latency:
  assumes "compare_models E t issuer_value item_value = Inr c"
  shows "unat (supply_latency_blocks (model_a c)) = unat (total_supply t)
    \<and> unat (supply_latency_blocks (model_b c)) =
        (unat (total_supply t) + unat (mm_lanes (model_b c)) - 1) div unat (mm_lanes (model_b c))
    \<and> supply_latency_blocks (model_b c) \<le> supply_latency_blocks (model_a c)
    \<and> 2 \<le> mm_lanes (model_b c) \<and> unat (issuance_outputs (model_b c)) = unat (mm_lanes (model_b c))"
proof -
  let ?b = "t\<lparr>it_successor_rule := ShardedLanes, lane_count := max (lane_count t) 2\<rparr>"
  let ?L = "max (lane_count t) 2"
  have L: "materialized_lanes ?b = ?L"
    by (auto simp: materialized_lanes_def max_def word_le_nat_alt)
  have c: "mm_lanes (model_b c) = ?L" "issuance_outputs (model_b c) = ucast ?L"
    "supply_latency_blocks (model_a c) = ucast (total_supply t)"
    "supply_latency_blocks (model_b c) = max_lane_supply ?b (ucast ?L)"
    using assms by (auto simp: compare_models_def Let_def result_simps)
  have two: "2 \<le> unat ?L" by (auto simp: max_def word_le_nat_alt)
  have "max_lane_supply ?b (ucast ?L) = ucast (lane_supply ?b 0)"
    by (rule max_lane_supply_first) (simp only: L)
  then have b: "unat (supply_latency_blocks (model_b c)) =
      (unat (total_supply t) + unat ?L - 1) div unat ?L"
    using unat_lane_supply [of ?b 0] two ceil_div [of "unat ?L" "unat (total_supply t)"]
    by (simp only: c L unat_ucast_64) simp
  also have "\<dots> \<le> unat (total_supply t)"
  proof (cases "unat (total_supply t) = 0")
    case False
    then have "unat (total_supply t) + unat ?L - 1 \<le> unat (total_supply t) * unat ?L"
      using two by (cases "unat (total_supply t)") (auto simp: algebra_simps)
    then show ?thesis using two by (metis div_le_mono nonzero_mult_div_cancel_right not_numeral_le_zero)
  qed (use two in simp)
  finally show ?thesis
    using b two by (simp add: c word_le_nat_alt unat_ucast_64 unat_lane_up)
qed

lemma sample_mint_tx_vbytes:
  assumes "it_target_prefix t \<le> 32"
  shows "\<exists>n. mint_tx_vbytes sample_env t 100000 1000 = Inr n"
proof -
  have lane0: "0 < materialized_lanes t" using materialized_lanes_pos [of t] by (simp add: word_less_nat_alt)
  have tail: "unat (it_target_prefix t) \<le> 32" using assms by (simp add: word_le_nat_alt)
  have "\<exists>out. mint_successor_output sample_env s 100000 1000 = Inr out
      \<and> (case out of None \<Rightarrow> True | Some x \<Rightarrow> out_value x = 98500)" for s
    by (auto simp: mint_successor_output_def amount_sub_def checked_sub_def split: sum.split option.split)
  then obtain out where "mint_successor_output sample_env (initial_lane_state sample_env t 0) 100000 1000 = Inr out"
    "case out of None \<Rightarrow> True | Some x \<Rightarrow> out_value x = 98500" by blast
  then show ?thesis
    using tail
    by (auto simp: mint_tx_vbytes_def initial_ok [OF assms lane0] expect_def hash_tail_def pow_hash_def
        sha256_length initial_lane_state_def build_mint_tx_def output_sum_def Let_def split: option.splits)
qed

theorem compare_models_latency_witness:
  "\<exists>c. compare_models sample_env sample_terms 100000 1000 = Inr c
     \<and> unat (supply_latency_blocks (model_b c)) =
        (4 + unat (mm_lanes (model_b c)) - 1) div unat (mm_lanes (model_b c))"
proof -
  have "it_target_prefix sample_terms = 1" "total_supply sample_terms = 4" by (simp_all add: sample_terms_def)
  then have "\<exists>c. compare_models sample_env sample_terms 100000 1000 = Inr c"
    using sample_mint_tx_vbytes [of "sample_terms\<lparr>it_successor_rule := RecursiveIssuer, lane_count := 1\<rparr>"]
      sample_mint_tx_vbytes [of "sample_terms\<lparr>it_successor_rule := ShardedLanes,
        lane_count := max (lane_count sample_terms) 2\<rparr>"]
    by (auto simp: compare_models_def Let_def build_issuance_tx_ok)
  then show ?thesis using compare_models_latency [of sample_env sample_terms 100000 1000]
      \<open>total_supply sample_terms = 4\<close> by auto
qed

end
