(* ===== verification/Issuance_Discovery.thy ===== *)
theory Issuance_Discovery
  imports Issuance_Verify
begin

text \<open>
  \<open>crates/issuance/src/indexer.rs\<close>: structural discovery of issuer-leaf reveals and P2TR
  candidates in one transaction.  \<open>parse_issuer_script\<close> may panic, so discovery may.
\<close>

section \<open>Discovery\<close>

record discovered_issuer_spend =
  ds_outpoint :: out_point
  ds_input_index :: nat
  ds_state :: issuer_state

record discovered_p2tr_candidate =
  dc_output_index :: nat
  dc_value :: u64
  dc_output_key :: bytes

record tx_discovery =
  td_txid :: bytes
  consumed_issuers :: "discovered_issuer_spend list"
  p2tr_candidates :: "discovered_p2tr_candidate list"

definition p2tr_output_key_bytes :: "tx_out \<Rightarrow> bytes option" where
  "p2tr_output_key_bytes out =
     (let bs = script_pubkey out in
      if length bs = 34 \<and> bs ! 0 = 0x51 \<and> bs ! 1 = 0x20 then Some (take 32 (drop 2 bs)) else None)"

fun discover_inputs :: "nat \<Rightarrow> tx_in list \<Rightarrow> (panic, discovered_issuer_spend list) rresult" where
  "discover_inputs i [] = Inr []"
| "discover_inputs i (inp # rest) =
     (let stack = witness inp in
      if length stack < 2 then discover_inputs (Suc i) rest
      else rbind (parse_issuer_script (stack ! (length stack - 2))) (\<lambda>parsed.
        case parsed of
          None \<Rightarrow> discover_inputs (Suc i) rest
        | Some s \<Rightarrow> rbind (discover_inputs (Suc i) rest) (\<lambda>found.
            Inr (\<lparr>ds_outpoint = previous_output inp, ds_input_index = i, ds_state = s\<rparr> # found))))"

fun discover_outputs :: "nat \<Rightarrow> tx_out list \<Rightarrow> discovered_p2tr_candidate list" where
  "discover_outputs i [] = []"
| "discover_outputs i (out # rest) =
     (case p2tr_output_key_bytes out of
        None \<Rightarrow> discover_outputs (Suc i) rest
      | Some key \<Rightarrow> \<lparr>dc_output_index = i, dc_value = out_value out, dc_output_key = key\<rparr>
          # discover_outputs (Suc i) rest)"

definition discover :: "bitcoin_env \<Rightarrow> transaction \<Rightarrow> (panic, tx_discovery) rresult" where
  "discover E tx =
     rbind (discover_inputs 0 (tx_input tx)) (\<lambda>found.
       Inr \<lparr>td_txid = compute_txid E tx, consumed_issuers = found,
            p2tr_candidates = (if found \<noteq> [] then discover_outputs 0 (tx_output tx) else [])\<rparr>)"

section \<open>Properties\<close>

text \<open>What an input reveals, as the parser sees it.\<close>

definition reveals :: "tx_in \<Rightarrow> issuer_state \<Rightarrow> bool" where
  "reveals inp s \<longleftrightarrow> 2 \<le> length (witness inp) \<and> wf_state s
     \<and> witness inp ! (length (witness inp) - 2) = issuer_script s"

lemma set_discover_inputs:
  "discover_inputs i ins = Inr found \<Longrightarrow>
   d \<in> set found \<longleftrightarrow>
     (\<exists>k < length ins. reveals (ins ! k) (ds_state d)
       \<and> d = \<lparr>ds_outpoint = previous_output (ins ! k), ds_input_index = i + k, ds_state = ds_state d\<rparr>)"
proof (induction ins arbitrary: i found)
  case (Cons inp rest)
  have ex: "(\<exists>k < length (inp # rest). P k) \<longleftrightarrow> P 0 \<or> (\<exists>k < length rest. P (Suc k))" for P
    by (auto simp: less_Suc_eq_0_disj)
  let ?D = "\<lambda>k. reveals ((inp # rest) ! k) (ds_state d)
       \<and> d = \<lparr>ds_outpoint = previous_output ((inp # rest) ! k), ds_input_index = i + k, ds_state = ds_state d\<rparr>"
  obtain parsed found' where rest: "discover_inputs (Suc i) rest = Inr found'"
    and new: "set found = (if parsed = None then {} else
        {\<lparr>ds_outpoint = previous_output inp, ds_input_index = i, ds_state = the parsed\<rparr>}) \<union> set found'"
    and parsed: "\<And>s. parsed = Some s \<longleftrightarrow> reveals inp s"
  proof (cases "length (witness inp) < 2")
    case True
    with Cons.prems that [of found None] show thesis by (simp add: reveals_def)
  next
    case False
    with Cons.prems obtain p where
      p: "parse_issuer_script (witness inp ! (length (witness inp) - 2)) = Inr p"
      by (auto simp: Let_def result_simps)
    have "p = Some s \<longleftrightarrow> reveals inp s" for s
      using p False parse_issuer_script_sound parse_issuer_script_complete
      by (force simp: reveals_def)
    with Cons.prems False p that [of _ p] show thesis
      by (cases p) (auto simp: Let_def result_simps)
  qed
  have "d \<in> set found' \<longleftrightarrow> (\<exists>k < length rest. ?D (Suc k))"
    using Cons.IH [OF rest] by simp
  moreover have "d \<in> (if parsed = None then {} else
      {\<lparr>ds_outpoint = previous_output inp, ds_input_index = i, ds_state = the parsed\<rparr>}) \<longleftrightarrow> ?D 0"
    using parsed [of "ds_state d"] by (cases parsed) auto
  ultimately show ?case unfolding ex [of ?D] new by (simp only: Un_iff)
qed simp

lemma set_discover_outputs:
  "c \<in> set (discover_outputs i outs) \<longleftrightarrow>
     (\<exists>k < length outs. p2tr_output_key_bytes (outs ! k) = Some (dc_output_key c)
       \<and> dc_output_index c = i + k \<and> dc_value c = out_value (outs ! k))"
proof (induction outs arbitrary: i)
  case (Cons out rest)
  have ex: "(\<exists>k < length (out # rest). P k) \<longleftrightarrow> P 0 \<or> (\<exists>k < length rest. P (Suc k))" for P
    by (auto simp: less_Suc_eq_0_disj)
  show ?case unfolding ex using Cons.IH [of "Suc i"]
    by (cases c) (auto split: option.split)
qed simp

lemma discover_Inr:
  assumes "discover E tx = Inr d"
  shows "discover_inputs 0 (tx_input tx) = Inr (consumed_issuers d)"
    and "p2tr_candidates d = (if consumed_issuers d \<noteq> [] then discover_outputs 0 (tx_output tx) else [])"
  using assms by (auto simp: discover_def result_simps)

lemma p2tr_script_key: "length k = 32 \<Longrightarrow> p2tr_output_key_bytes (mk_txout v (p2tr_output_script k)) = Some k"
  by (simp add: p2tr_output_key_bytes_def p2tr_output_script_def)

lemma discover_inputs_panics:
  "discover_inputs i ins = Inl Panic \<longleftrightarrow>
     (\<exists>inp \<in> set ins. 2 \<le> length (witness inp)
       \<and> parse_issuer_script (witness inp ! (length (witness inp) - 2)) = Inl Panic)"
proof (induction ins arbitrary: i)
  case (Cons inp rest)
  have "discover_inputs i (inp # rest) = Inl Panic \<longleftrightarrow>
      (2 \<le> length (witness inp)
        \<and> parse_issuer_script (witness inp ! (length (witness inp) - 2)) = Inl Panic)
      \<or> discover_inputs (Suc i) rest = Inl Panic"
  proof (cases "length (witness inp) < 2")
    case False
    then show ?thesis
      by (cases "parse_issuer_script (witness inp ! (length (witness inp) - 2))")
        (auto simp: Let_def rbind_Inl split: option.split)
  qed simp
  with Cons.IH show ?case by simp
qed simp

text \<open>
  Discovery reports exactly the inputs whose witness reveals a canonical issuer
  script, with the state it commits to, and exactly the P2TR outputs when there is such
  an input; it aborts exactly when the script parser panics on some input.
\<close>

theorem discover_exact:
  "(case discover E tx of
      Inl Panic \<Rightarrow> \<exists>inp \<in> set (tx_input tx). 2 \<le> length (witness inp)
        \<and> parse_issuer_script (witness inp ! (length (witness inp) - 2)) = Inl Panic
    | Inr d \<Rightarrow>
        set (consumed_issuers d) =
          {\<lparr>ds_outpoint = previous_output (tx_input tx ! k), ds_input_index = k, ds_state = s\<rparr> | k s.
             k < length (tx_input tx) \<and> reveals (tx_input tx ! k) s}
        \<and> set (p2tr_candidates d) =
          {\<lparr>dc_output_index = k, dc_value = out_value (tx_output tx ! k), dc_output_key = key\<rparr> | k key.
             consumed_issuers d \<noteq> [] \<and> k < length (tx_output tx)
             \<and> p2tr_output_key_bytes (tx_output tx ! k) = Some key})"
proof (cases "discover E tx")
  case (Inl e)
  then have "discover_inputs 0 (tx_input tx) = Inl Panic"
    by (auto simp: discover_def rbind_Inl)
  with Inl show ?thesis by (simp add: discover_inputs_panics split: panic.split)
next
  case (Inr d)
  note d = discover_Inr [OF Inr]
  have "set (consumed_issuers d) =
      {\<lparr>ds_outpoint = previous_output (tx_input tx ! k), ds_input_index = k, ds_state = s\<rparr> | k s.
         k < length (tx_input tx) \<and> reveals (tx_input tx ! k) s}"
    using set_discover_inputs [OF d(1)] by (auto simp: set_eq_iff)
  moreover have "set (p2tr_candidates d) =
      {\<lparr>dc_output_index = k, dc_value = out_value (tx_output tx ! k), dc_output_key = key\<rparr> | k key.
         consumed_issuers d \<noteq> [] \<and> k < length (tx_output tx)
         \<and> p2tr_output_key_bytes (tx_output tx ! k) = Some key}"
    unfolding d(2) by (rule set_eqI, rename_tac c, case_tac c) (auto simp: set_discover_outputs)
  ultimately show ?thesis by (simp add: Inr)
qed

lemma verified_mint_reveals:
  assumes "mint_spec E tx op utxo terms vm"
  shows "issuer_input_index vm < length (tx_input tx)"
    and "previous_output (tx_input tx ! issuer_input_index vm) = op"
    and "reveals (tx_input tx ! issuer_input_index vm) (vm_issuer_state vm)"
  using assms
  by (auto simp: mint_spec_def reveals_def position_Some spend_spec_def)

text \<open>
  Discovery misses no mint.  Whatever transaction the wallet verifier accepts,
  discovery either aborts in the script parser or reports the accepted issuer input with
  its state, and the item output with the owner key, among the candidates.
\<close>

theorem verified_mints_are_discovered:
  assumes E: "sha256_32 E" "xonly_sound E" "taproot_keys_valid E"
    and ok: "verify_mint E tx op utxo terms = Inr vm"
    and found: "discover E tx = Inr d"
  shows "\<lparr>ds_outpoint = op, ds_input_index = issuer_input_index vm, ds_state = vm_issuer_state vm\<rparr>
      \<in> set (consumed_issuers d)
    \<and> \<lparr>dc_output_index = item_output_index vm, dc_value = out_value (item_output vm),
        dc_output_key = mw_owner_key (vm_witness vm)\<rparr> \<in> set (p2tr_candidates d)"
proof -
  have spec: "mint_spec E tx op utxo terms vm" using ok by (simp add: verify_mint_Inr [OF E])
  note d = discover_Inr [OF found]
  let ?ds = "\<lparr>ds_outpoint = op, ds_input_index = issuer_input_index vm, ds_state = vm_issuer_state vm\<rparr>"
  have ds: "?ds \<in> set (consumed_issuers d)"
    unfolding set_discover_inputs [OF d(1), of ?ds]
    using verified_mint_reveals [OF spec] by (auto intro: exI [of _ "issuer_input_index vm"])
  then have ne: "consumed_issuers d \<noteq> []" by auto
  have out: "item_output_index vm < length (tx_output tx)"
    "script_pubkey (item_output vm) = p2tr_output_script (mw_owner_key (vm_witness vm))"
    "item_output vm = tx_output tx ! item_output_index vm"
    and key: "length (mw_owner_key (vm_witness vm)) = 32"
    using spec xonly_soundD [OF E(2)]
    by (auto simp: mint_spec_def outputs_spec_def unique_output_def item_owner_script_def)
  have "p2tr_output_key_bytes (item_output vm) = Some (mw_owner_key (vm_witness vm))"
    using p2tr_script_key [OF key] out(2) by (simp add: p2tr_output_key_bytes_def)
  with ds ne out show ?thesis by (simp add: d(2) set_discover_outputs)
qed

lemma reveals_no_panic:
  assumes "\<forall>inp \<in> set (tx_input tx). \<exists>s. reveals inp s"
  shows "\<exists>d. discover E tx = Inr d"
proof (cases "discover_inputs 0 (tx_input tx)")
  case (Inl e)
  then have "discover_inputs 0 (tx_input tx) = Inl Panic" by simp
  with assms show ?thesis
    by (auto simp: discover_inputs_panics reveals_def) (metis Inl_Inr_False parse_issuer_script_complete)
qed (auto simp: discover_def)

theorem verified_mints_are_discovered_witness:
  "\<exists>tx vm d. verify_mint sample_env tx null_outpoint sample_issuer_utxo sample_terms = Inr vm
     \<and> discover sample_env tx = Inr d
     \<and> \<lparr>ds_outpoint = null_outpoint, ds_input_index = issuer_input_index vm,
         ds_state = vm_issuer_state vm\<rparr> \<in> set (consumed_issuers d)"
proof -
  obtain tx vm where ok: "verify_mint sample_env tx null_outpoint sample_issuer_utxo sample_terms = Inr vm"
    and one: "length (tx_input tx) = 1" by (rule sample_mint_accepted)
  have "mint_spec sample_env tx null_outpoint sample_issuer_utxo sample_terms vm"
    using ok by (simp add: verify_mint_Inr)
  from verified_mint_reveals [OF this] one
  have "\<forall>inp \<in> set (tx_input tx). \<exists>s. reveals inp s" by (auto simp: length_Suc_conv)
  then obtain d where "discover sample_env tx = Inr d" using reveals_no_panic by blast
  with ok verified_mints_are_discovered [OF sample_env_hyps(1-3) ok] show ?thesis by blast
qed

end
