(* ===== verification/Index_Types.thy ===== *)
theory Index_Types
  imports Issuance_Discovery
begin

text \<open>
  \<open>crates/indexer/src/types.rs\<close> and the configuration and error types of
  \<open>crates/indexer/src/store.rs\<close>.  RocksDB is not part of the repository: a column family
  is a partial map from key bytes to records, the meta column family is its two entries,
  and a write batch is a list of operations applied in order.  Serialisation failures
  and I/O errors of the database are not modelled, so the constructors of
  \<open>index_error\<close> that report them are never produced; \<open>IndexPanic\<close> is added.
\<close>

section \<open>Records\<close>

definition SCHEMA_VERSION :: u32 where "SCHEMA_VERSION = 1"

datatype confirmation_status = Confirmed

datatype observation_kind = DiscoveryOnly | WalletPolicyVerified

record raw_evidence_ref =
  re_block_hash :: bytes
  re_tx_index :: u32

record provenance =
  pv_block_hash :: bytes
  pv_block_height :: u32
  pv_txid :: bytes
  pv_tx_index :: u32
  pv_input_index :: "u32 option"
  pv_output_index :: "u32 option"
  raw_evidence :: raw_evidence_ref
  pv_verifier_version :: string
  pv_confirmation :: confirmation_status
  observation :: observation_kind

record tip =
  tip_hash :: bytes
  tip_height :: u32

record block_record =
  br_hash :: bytes
  br_height :: u32
  br_previous_hash :: bytes
  transaction_count :: u32
  raw_block :: bytes
  br_confirmation :: confirmation_status

record transaction_record =
  tr_txid :: bytes
  tr_provenance :: provenance

record utxo_record =
  ur_outpoint :: out_point
  value_sat :: u64
  ur_script_pubkey :: bytes
  ur_provenance :: provenance

record issuance_transition_record =
  itr_terms_hash :: bytes
  itr_lane :: u8
  itr_sequence :: u32
  remaining_before :: u32
  issuer_outpoint :: out_point
  item_outpoint :: out_point
  successor_outpoint :: "out_point option"
  itr_item_commitment :: bytes
  itr_owner_key :: bytes
  fee_sat :: u64
  itr_provenance :: provenance

record checkpoint_manifest =
  ck_label :: string
  schema_version :: u32
  ck_tip :: tip

record apply_stats =
  transactions :: u32
  created_outputs :: u32
  spent_outputs :: u32
  issuance_transitions :: u32

definition apply_stats_default :: apply_stats where
  "apply_stats_default =
     \<lparr>transactions = 0, created_outputs = 0, spent_outputs = 0, issuance_transitions = 0\<rparr>"

record undo_record =
  un_block_hash :: bytes
  un_height :: u32
  previous_tip :: "tip option"
  un_created_txids :: "bytes list"
  un_created_outpoints :: "out_point list"
  un_restored_utxos :: "utxo_record list"
  un_created_transitions :: "(bytes \<times> u32) list"

section \<open>Configuration and errors\<close>

record index_config =
  verifier_version :: string
  ic_issuance_terms :: "(bytes, issuance_terms) btree"
  durable_writes :: bool

definition index_config_new :: "bitcoin_env \<Rightarrow> string \<Rightarrow> issuance_terms list \<Rightarrow> index_config" where
  "index_config_new E version ts =
     \<lparr>verifier_version = version,
      ic_issuance_terms = bt_collect (map (\<lambda>t. (terms_hash_of E t, t)) ts),
      durable_writes = True\<rparr>"

definition with_durable_writes :: "index_config \<Rightarrow> bool \<Rightarrow> index_config" where
  "with_durable_writes cfg d = cfg\<lparr>durable_writes := d\<rparr>"

datatype index_error =
    Rocks
  | Encode
  | Decode
  | TrailingBytes nat
  | MissingColumnFamily string
  | Schema u32 u32
  | HeightMismatch u32 u32
  | ParentMismatch bytes bytes
  | DuplicateBlock bytes
  | DuplicateTransaction bytes
  | MissingPrevout out_point
  | DuplicateInput out_point
  | Empty
  | UnknownAncestor bytes
  | InvalidReplacement u32
  | EmptyCheckpointLabel
  | WriterPoisoned
  | IndexPanic

section \<open>The database\<close>

record index_db =
  cf_blocks :: "bytes \<rightharpoonup> block_record"
  cf_heights :: "bytes \<rightharpoonup> bytes"
  cf_transactions :: "bytes \<rightharpoonup> transaction_record"
  cf_utxos :: "bytes \<rightharpoonup> utxo_record"
  cf_transitions :: "bytes \<rightharpoonup> issuance_transition_record"
  cf_undo :: "bytes \<rightharpoonup> undo_record"
  cf_checkpoints :: "string \<rightharpoonup> checkpoint_manifest"
  meta_tip :: "tip option"
  meta_schema :: "u32 option"

datatype batch_op =
    PutBlock bytes block_record | DelBlock bytes
  | PutHeight bytes bytes | DelHeight bytes
  | PutTransaction bytes transaction_record | DelTransaction bytes
  | PutUtxo bytes utxo_record | DelUtxo bytes
  | PutTransition bytes issuance_transition_record | DelTransition bytes
  | PutUndo bytes undo_record | DelUndo bytes
  | PutCheckpoint string checkpoint_manifest
  | PutTip tip | DelTip

fun batch_step :: "batch_op \<Rightarrow> index_db \<Rightarrow> index_db" where
  "batch_step (PutBlock k v) db = db\<lparr>cf_blocks := (cf_blocks db)(k \<mapsto> v)\<rparr>"
| "batch_step (DelBlock k) db = db\<lparr>cf_blocks := (cf_blocks db)(k := None)\<rparr>"
| "batch_step (PutHeight k v) db = db\<lparr>cf_heights := (cf_heights db)(k \<mapsto> v)\<rparr>"
| "batch_step (DelHeight k) db = db\<lparr>cf_heights := (cf_heights db)(k := None)\<rparr>"
| "batch_step (PutTransaction k v) db = db\<lparr>cf_transactions := (cf_transactions db)(k \<mapsto> v)\<rparr>"
| "batch_step (DelTransaction k) db = db\<lparr>cf_transactions := (cf_transactions db)(k := None)\<rparr>"
| "batch_step (PutUtxo k v) db = db\<lparr>cf_utxos := (cf_utxos db)(k \<mapsto> v)\<rparr>"
| "batch_step (DelUtxo k) db = db\<lparr>cf_utxos := (cf_utxos db)(k := None)\<rparr>"
| "batch_step (PutTransition k v) db = db\<lparr>cf_transitions := (cf_transitions db)(k \<mapsto> v)\<rparr>"
| "batch_step (DelTransition k) db = db\<lparr>cf_transitions := (cf_transitions db)(k := None)\<rparr>"
| "batch_step (PutUndo k v) db = db\<lparr>cf_undo := (cf_undo db)(k \<mapsto> v)\<rparr>"
| "batch_step (DelUndo k) db = db\<lparr>cf_undo := (cf_undo db)(k := None)\<rparr>"
| "batch_step (PutCheckpoint k v) db = db\<lparr>cf_checkpoints := (cf_checkpoints db)(k \<mapsto> v)\<rparr>"
| "batch_step (PutTip t) db = db\<lparr>meta_tip := Some t\<rparr>"
| "batch_step DelTip db = db\<lparr>meta_tip := None\<rparr>"

definition write_batch :: "batch_op list \<Rightarrow> index_db \<Rightarrow> index_db" where
  "write_batch ops db = fold batch_step ops db"

definition empty_db :: index_db where
  "empty_db = \<lparr>cf_blocks = Map.empty, cf_heights = Map.empty, cf_transactions = Map.empty,
     cf_utxos = Map.empty, cf_transitions = Map.empty, cf_undo = Map.empty,
     cf_checkpoints = Map.empty, meta_tip = None, meta_schema = None\<rparr>"

lemma write_batch_Nil [simp]: "write_batch [] db = db"
  by (simp add: write_batch_def)

lemma write_batch_append: "write_batch (xs @ ys) db = write_batch ys (write_batch xs db)"
  by (simp add: write_batch_def)

lemma write_batch_Cons: "write_batch (x # xs) db = write_batch xs (batch_step x db)"
  by (simp add: write_batch_def)

end
