(* ===== verification/Index_Store.thy ===== *)
theory Index_Store
  imports Index_Types
begin

text \<open>
  \<open>crates/indexer/src/store.rs\<close>: attaching a block, detaching the tip, rolling back to an
  ancestor, reorganising and checkpointing.  Attaching a block builds one write batch; the
  loop over its transactions carries the local variables of the source in
  \<open>apply_acc\<close>.  The writer mutex is the flag \<open>poisoned\<close> of the indexer: a panic while
  it is held poisons it.
\<close>

section \<open>Keys and provenance\<close>

definition height_key :: "u32 \<Rightarrow> bytes" where
  "height_key h = u32_be h"

definition outpoint_key :: "out_point \<Rightarrow> bytes" where
  "outpoint_key op = op_txid op @ u32_be (op_vout op)"

definition transition_key :: "bytes \<Rightarrow> u32 \<Rightarrow> bytes" where
  "transition_key txid i = txid @ u32_be i"

definition mk_provenance ::
    "bytes \<Rightarrow> u32 \<Rightarrow> bytes \<Rightarrow> u32 \<Rightarrow> u32 option \<Rightarrow> u32 option \<Rightarrow> string \<Rightarrow> observation_kind \<Rightarrow> provenance" where
  "mk_provenance bh height txid tx_index input_index output_index version obs =
     \<lparr>pv_block_hash = bh, pv_block_height = height, pv_txid = txid, pv_tx_index = tx_index,
      pv_input_index = input_index, pv_output_index = output_index,
      raw_evidence = \<lparr>re_block_hash = bh, re_tx_index = tx_index\<rparr>,
      pv_verifier_version = version, pv_confirmation = Confirmed, observation = obs\<rparr>"

section \<open>Queries\<close>

definition index_tip :: "index_db \<Rightarrow> tip option" where
  "index_tip db = meta_tip db"

definition block_of :: "index_db \<Rightarrow> bytes \<Rightarrow> block_record option" where
  "block_of db hash = cf_blocks db hash"

definition block_by_height :: "index_db \<Rightarrow> u32 \<Rightarrow> block_record option" where
  "block_by_height db h =
     (case cf_heights db (height_key h) of None \<Rightarrow> None | Some hash \<Rightarrow> cf_blocks db hash)"

definition transaction_of :: "index_db \<Rightarrow> bytes \<Rightarrow> transaction_record option" where
  "transaction_of db txid = cf_transactions db txid"

definition utxo_of :: "index_db \<Rightarrow> out_point \<Rightarrow> utxo_record option" where
  "utxo_of db op = cf_utxos db (outpoint_key op)"

definition utxos_of :: "index_db \<Rightarrow> out_point list \<Rightarrow> utxo_record option list" where
  "utxos_of db ops = map (\<lambda>op. cf_utxos db (outpoint_key op)) ops"

definition issuance_transition :: "index_db \<Rightarrow> bytes \<Rightarrow> u32 \<Rightarrow> issuance_transition_record option" where
  "issuance_transition db txid i = cf_transitions db (transition_key txid i)"

definition checkpoint_of :: "index_db \<Rightarrow> string \<Rightarrow> checkpoint_manifest option" where
  "checkpoint_of db label = cf_checkpoints db label"

section \<open>Attaching a block\<close>

record apply_acc =
  batch :: "batch_op list"
  overlay :: "out_point \<rightharpoonup> utxo_record option"
  created_in_block :: "out_point set"
  restored_utxos :: "utxo_record list"
  created_outpoints :: "out_point list"
  created_txids :: "bytes list"
  created_transitions :: "(bytes \<times> u32) list"
  stats :: apply_stats

definition apply_acc_init :: apply_acc where
  "apply_acc_init = \<lparr>batch = [], overlay = Map.empty, created_in_block = {}, restored_utxos = [],
     created_outpoints = [], created_txids = [], created_transitions = [], stats = apply_stats_default\<rparr>"

definition is_null_outpoint :: "out_point \<Rightarrow> bool" where
  "is_null_outpoint op = (op = null_outpoint)"

fun check_unique_txids :: "bytes list \<Rightarrow> bytes list \<Rightarrow> (index_error, unit) rresult" where
  "check_unique_txids seen [] = Inr ()"
| "check_unique_txids seen (txid # rest) =
     (if txid \<in> set seen then Inl (DuplicateTransaction txid) else check_unique_txids (txid # seen) rest)"

fun check_new_txids :: "index_db \<Rightarrow> bytes list \<Rightarrow> (index_error, unit) rresult" where
  "check_new_txids db [] = Inr ()"
| "check_new_txids db (txid # rest) =
     (if cf_transactions db txid \<noteq> None then Inl (DuplicateTransaction txid) else check_new_txids db rest)"

fun check_unique_inputs :: "out_point list \<Rightarrow> tx_in list \<Rightarrow> (index_error, unit) rresult" where
  "check_unique_inputs seen [] = Inr ()"
| "check_unique_inputs seen (i # rest) =
     (if \<not> is_null_outpoint (previous_output i) \<and> previous_output i \<in> set seen
      then Inl (DuplicateInput (previous_output i))
      else check_unique_inputs
        (if is_null_outpoint (previous_output i) then seen else previous_output i # seen) rest)"

definition resolve_overlay_utxo ::
    "index_db \<Rightarrow> (out_point \<rightharpoonup> utxo_record option) \<Rightarrow> out_point \<Rightarrow> (index_error, utxo_record) rresult" where
  "resolve_overlay_utxo db ov op =
     (case ov op of
        Some (Some r) \<Rightarrow> Inr r
      | Some None \<Rightarrow> Inl (MissingPrevout op)
      | None \<Rightarrow> ok_or (MissingPrevout op) (utxo_of db op))"

definition resolve_input ::
    "index_db \<Rightarrow> (out_point \<rightharpoonup> utxo_record option) \<Rightarrow> tx_in \<Rightarrow> (index_error, utxo_record option) rresult" where
  "resolve_input db ov i =
     (if is_null_outpoint (previous_output i) then Inr None
      else rbind (resolve_overlay_utxo db ov (previous_output i)) (\<lambda>r. Inr (Some r)))"

definition transition_record ::
    "index_config \<Rightarrow> bytes \<Rightarrow> u32 \<Rightarrow> bytes \<Rightarrow> u32 \<Rightarrow> out_point \<Rightarrow> verified_mint \<Rightarrow> issuance_transition_record" where
  "transition_record cfg bh height txid tx_index op vm =
     (let input_index = word_of_nat (issuer_input_index vm);
          item_index = word_of_nat (item_output_index vm)
      in \<lparr>itr_terms_hash = terms_hash (vm_issuer_state vm), itr_lane = lane (vm_issuer_state vm),
          itr_sequence = seq (vm_issuer_state vm), remaining_before = remaining (vm_issuer_state vm),
          issuer_outpoint = op, item_outpoint = mk_outpoint txid item_index,
          successor_outpoint =
            map_option (\<lambda>i. mk_outpoint txid (word_of_nat i)) (successor_output_index vm),
          itr_item_commitment = mw_item_commitment (vm_witness vm),
          itr_owner_key = mw_owner_key (vm_witness vm), fee_sat = vm_fee vm,
          itr_provenance = mk_provenance bh height txid tx_index (Some input_index) (Some item_index)
            (verifier_version cfg) WalletPolicyVerified\<rparr>)"

text \<open>The loop over the discovered issuer spends of one transaction.\<close>

fun index_transitions ::
    "bitcoin_env \<Rightarrow> index_config \<Rightarrow> bytes \<Rightarrow> u32 \<Rightarrow> transaction \<Rightarrow> bytes \<Rightarrow> u32 \<Rightarrow> utxo_record option list \<Rightarrow>
     discovered_issuer_spend list \<Rightarrow> apply_acc \<Rightarrow> (index_error, apply_acc) rresult" where
  "index_transitions E cfg bh height tx txid tx_index recs [] acc = Inr acc"
| "index_transitions E cfg bh height tx txid tx_index recs (d # ds) acc =
     (case map_of (ic_issuance_terms cfg) (terms_hash (ds_state d)) of
        None \<Rightarrow> index_transitions E cfg bh height tx txid tx_index recs ds acc
      | Some terms \<Rightarrow>
         (case (if ds_input_index d < length recs then recs ! ds_input_index d else None) of
            None \<Rightarrow> index_transitions E cfg bh height tx txid tx_index recs ds acc
          | Some prev \<Rightarrow>
             (case verify_mint E tx (ds_outpoint d) (mk_txout (value_sat prev) (ur_script_pubkey prev)) terms of
                Inl MintPanic \<Rightarrow> Inl IndexPanic
              | Inl _ \<Rightarrow> index_transitions E cfg bh height tx txid tx_index recs ds acc
              | Inr vm \<Rightarrow>
                  let input_index = word_of_nat (issuer_input_index vm) in
                  index_transitions E cfg bh height tx txid tx_index recs ds
                    (acc\<lparr>batch := batch acc @ [PutTransition (transition_key txid input_index)
                           (transition_record cfg bh height txid tx_index (ds_outpoint d) vm)],
                         created_transitions := created_transitions acc @ [(txid, input_index)],
                         stats := (stats acc)\<lparr>issuance_transitions := issuance_transitions (stats acc) + 1\<rparr>\<rparr>))))"

fun spend_inputs :: "(tx_in \<times> utxo_record option) list \<Rightarrow> apply_acc \<Rightarrow> (index_error, apply_acc) rresult" where
  "spend_inputs [] acc = Inr acc"
| "spend_inputs ((i, rec) # rest) acc =
     (let op = previous_output i in
      if is_null_outpoint op then spend_inputs rest acc
      else case rec of
        None \<Rightarrow> Inl (MissingPrevout op)
      | Some r \<Rightarrow>
          spend_inputs rest
            (acc\<lparr>restored_utxos :=
                   (if op \<notin> created_in_block acc then restored_utxos acc @ [r] else restored_utxos acc),
                 overlay := (overlay acc)(op \<mapsto> None),
                 batch := batch acc @ [DelUtxo (outpoint_key op)],
                 stats := (stats acc)\<lparr>spent_outputs := spent_outputs (stats acc) + 1\<rparr>\<rparr>))"

definition utxo_record_of ::
    "index_config \<Rightarrow> bytes \<Rightarrow> u32 \<Rightarrow> bytes \<Rightarrow> u32 \<Rightarrow> u32 \<Rightarrow> tx_out \<Rightarrow> utxo_record" where
  "utxo_record_of cfg bh height txid tx_index i out =
     \<lparr>ur_outpoint = mk_outpoint txid i, value_sat = out_value out, ur_script_pubkey = script_pubkey out,
      ur_provenance = mk_provenance bh height txid tx_index None (Some i) (verifier_version cfg) DiscoveryOnly\<rparr>"

fun create_outputs ::
    "index_config \<Rightarrow> bytes \<Rightarrow> u32 \<Rightarrow> bytes \<Rightarrow> u32 \<Rightarrow> nat \<Rightarrow> tx_out list \<Rightarrow> apply_acc \<Rightarrow> apply_acc" where
  "create_outputs cfg bh height txid tx_index k [] acc = acc"
| "create_outputs cfg bh height txid tx_index k (out # outs) acc =
     (let op = mk_outpoint txid (word_of_nat k);
          r = utxo_record_of cfg bh height txid tx_index (word_of_nat k) out
      in create_outputs cfg bh height txid tx_index (Suc k) outs
        (acc\<lparr>batch := batch acc @ [PutUtxo (outpoint_key op) r],
             overlay := (overlay acc)(op \<mapsto> Some r),
             created_in_block := insert op (created_in_block acc),
             created_outpoints := created_outpoints acc @ [op],
             stats := (stats acc)\<lparr>created_outputs := created_outputs (stats acc) + 1\<rparr>\<rparr>))"

definition put_transaction :: "index_config \<Rightarrow> bytes \<Rightarrow> u32 \<Rightarrow> bytes \<Rightarrow> u32 \<Rightarrow> apply_acc \<Rightarrow> apply_acc" where
  "put_transaction cfg bh height txid tx_index acc =
     acc\<lparr>batch := batch acc @ [PutTransaction txid
            \<lparr>tr_txid = txid, tr_provenance = mk_provenance bh height txid tx_index None None
               (verifier_version cfg) DiscoveryOnly\<rparr>],
         created_txids := created_txids acc @ [txid],
         stats := (stats acc)\<lparr>transactions := transactions (stats acc) + 1\<rparr>\<rparr>"

definition apply_tx ::
    "bitcoin_env \<Rightarrow> index_config \<Rightarrow> index_db \<Rightarrow> bytes \<Rightarrow> u32 \<Rightarrow> u32 \<Rightarrow> transaction \<Rightarrow> apply_acc \<Rightarrow>
     (index_error, apply_acc) rresult" where
  "apply_tx E cfg db bh height tx_index tx acc =
     (let txid = compute_txid E tx in
      rbind (check_unique_inputs [] (tx_input tx)) (\<lambda>_.
      rbind (rmap (resolve_input db (overlay acc)) (tx_input tx)) (\<lambda>recs.
      rbind (map_err (\<lambda>_. IndexPanic) (discover E tx)) (\<lambda>disc.
      rbind (index_transitions E cfg bh height tx txid tx_index recs (consumed_issuers disc) acc) (\<lambda>acc1.
      rbind (spend_inputs (zip (tx_input tx) recs) acc1) (\<lambda>acc2.
        Inr (create_outputs cfg bh height txid tx_index 0 (tx_output tx)
          (put_transaction cfg bh height txid tx_index acc2))))))))"

fun apply_txs ::
    "bitcoin_env \<Rightarrow> index_config \<Rightarrow> index_db \<Rightarrow> bytes \<Rightarrow> u32 \<Rightarrow> nat \<Rightarrow> transaction list \<Rightarrow> apply_acc \<Rightarrow>
     (index_error, apply_acc) rresult" where
  "apply_txs E cfg db bh height k [] acc = Inr acc"
| "apply_txs E cfg db bh height k (tx # txs) acc =
     rbind (apply_tx E cfg db bh height (word_of_nat k) tx acc)
       (apply_txs E cfg db bh height (Suc k) txs)"

definition check_attach :: "bitcoin_env \<Rightarrow> index_db \<Rightarrow> u32 \<Rightarrow> block \<Rightarrow> (index_error, unit) rresult" where
  "check_attach E db height b =
     (let (expected_height, expected_parent) = (case index_tip db of
            Some t \<Rightarrow> (saturating_add (tip_height t) 1, tip_hash t)
          | None \<Rightarrow> (0, all_zeros))
      in if height \<noteq> expected_height then Inl (HeightMismatch expected_height height)
      else if prev_blockhash b \<noteq> expected_parent then Inl (ParentMismatch expected_parent (prev_blockhash b))
      else if block_of db (block_hash E b) \<noteq> None then Inl (DuplicateBlock (block_hash E b))
      else let txids = map (compute_txid E) (txdata b) in
        rbind (check_unique_txids [] txids) (\<lambda>_. check_new_txids db txids))"

definition finish_batch :: "bitcoin_env \<Rightarrow> index_db \<Rightarrow> u32 \<Rightarrow> block \<Rightarrow> apply_acc \<Rightarrow> batch_op list" where
  "finish_batch E db height b acc =
     (let bh = block_hash E b in
      batch acc @
      [PutBlock bh \<lparr>br_hash = bh, br_height = height, br_previous_hash = prev_blockhash b,
         transaction_count = word_of_nat (length (txdata b)), raw_block = block_serialize E b,
         br_confirmation = Confirmed\<rparr>,
       PutHeight (height_key height) bh,
       PutTip \<lparr>tip_hash = bh, tip_height = height\<rparr>,
       PutUndo bh \<lparr>un_block_hash = bh, un_height = height, previous_tip = index_tip db,
         un_created_txids = created_txids acc, un_created_outpoints = created_outpoints acc,
         un_restored_utxos = restored_utxos acc, un_created_transitions = created_transitions acc\<rparr>])"

definition apply_block_locked ::
    "bitcoin_env \<Rightarrow> index_config \<Rightarrow> u32 \<Rightarrow> block \<Rightarrow> index_db \<Rightarrow> (index_error, index_db \<times> apply_stats) rresult" where
  "apply_block_locked E cfg height b db =
     rbind (check_attach E db height b) (\<lambda>_.
     rbind (apply_txs E cfg db (block_hash E b) height 0 (txdata b) apply_acc_init) (\<lambda>acc.
       Inr (write_batch (finish_batch E db height b acc) db, stats acc)))"

section \<open>Detaching blocks\<close>

definition undo_batch :: "tip \<Rightarrow> undo_record \<Rightarrow> batch_op list" where
  "undo_batch t u =
     [DelBlock (tip_hash t), DelHeight (height_key (tip_height t)), DelUndo (tip_hash t)]
     @ map DelTransaction (un_created_txids u)
     @ map (\<lambda>op. DelUtxo (outpoint_key op)) (un_created_outpoints u)
     @ map (\<lambda>r. PutUtxo (outpoint_key (ur_outpoint r)) r) (un_restored_utxos u)
     @ map (\<lambda>(txid, i). DelTransition (transition_key txid i)) (un_created_transitions u)
     @ [case previous_tip u of Some p \<Rightarrow> PutTip p | None \<Rightarrow> DelTip]"

definition rollback_tip_locked :: "index_db \<Rightarrow> (index_error, index_db \<times> tip) rresult" where
  "rollback_tip_locked db =
     rbind (ok_or Empty (index_tip db)) (\<lambda>t.
     rbind (ok_or (UnknownAncestor (tip_hash t)) (cf_undo db (tip_hash t))) (\<lambda>u.
       Inr (write_batch (undo_batch t u) db, t)))"

text \<open>
  The loop of \<open>rollback_to_locked\<close> detaches blocks until the ancestor is the tip.  Every
  iteration is a batch of its own, so an error leaves the blocks detached so far detached;
  the result carries the database in both cases, and \<open>None\<close> is a loop that never ends.
\<close>

partial_function (option) rollback_loop ::
    "bytes \<Rightarrow> u32 \<Rightarrow> index_db \<Rightarrow> ((index_error, unit) rresult \<times> index_db) option" where
  "rollback_loop ancestor ancestor_height db =
     (case index_tip db of
        None \<Rightarrow> Some (Inl Empty, db)
      | Some t \<Rightarrow>
          if tip_hash t = ancestor then Some (Inr (), db)
          else if tip_height t \<le> ancestor_height then Some (Inl (UnknownAncestor ancestor), db)
          else case rollback_tip_locked db of
            Inl e \<Rightarrow> Some (Inl e, db)
          | Inr (db', _) \<Rightarrow> rollback_loop ancestor ancestor_height db')"

definition canonical_ancestor :: "index_db \<Rightarrow> bytes \<Rightarrow> (index_error, block_record) rresult" where
  "canonical_ancestor db ancestor =
     rbind (ok_or (UnknownAncestor ancestor) (block_of db ancestor)) (\<lambda>r.
       if map_option br_hash (block_by_height db (br_height r)) \<noteq> Some ancestor
       then Inl (UnknownAncestor ancestor) else Inr r)"

definition rollback_to_locked :: "bytes \<Rightarrow> index_db \<Rightarrow> ((index_error, unit) rresult \<times> index_db) option" where
  "rollback_to_locked ancestor db =
     (case canonical_ancestor db ancestor of
        Inl e \<Rightarrow> Some (Inl e, db)
      | Inr r \<Rightarrow> rollback_loop ancestor (br_height r) db)"

section \<open>Reorganisation\<close>

fun check_replacement ::
    "bitcoin_env \<Rightarrow> u32 \<Rightarrow> bytes \<Rightarrow> (u32 \<times> block) list \<Rightarrow> (index_error, unit) rresult" where
  "check_replacement E expected_height expected_parent [] = Inr ()"
| "check_replacement E expected_height expected_parent ((height, b) # rest) =
     (if height \<noteq> expected_height \<or> prev_blockhash b \<noteq> expected_parent then Inl (InvalidReplacement height)
      else check_replacement E (saturating_add expected_height 1) (block_hash E b) rest)"

fun apply_blocks ::
    "bitcoin_env \<Rightarrow> index_config \<Rightarrow> (u32 \<times> block) list \<Rightarrow> index_db \<Rightarrow> (index_error, unit) rresult \<times> index_db" where
  "apply_blocks E cfg [] db = (Inr (), db)"
| "apply_blocks E cfg ((height, b) # rest) db =
     (case apply_block_locked E cfg height b db of
        Inl e \<Rightarrow> (Inl e, db)
      | Inr (db', _) \<Rightarrow> apply_blocks E cfg rest db')"

definition reorganize_locked ::
    "bitcoin_env \<Rightarrow> index_config \<Rightarrow> bytes \<Rightarrow> (u32 \<times> block) list \<Rightarrow> index_db \<Rightarrow>
     ((index_error, unit) rresult \<times> index_db) option" where
  "reorganize_locked E cfg ancestor replacement db =
     (case canonical_ancestor db ancestor of
        Inl e \<Rightarrow> Some (Inl e, db)
      | Inr r \<Rightarrow>
         (case check_replacement E (br_height r + 1) ancestor replacement of
            Inl e \<Rightarrow> Some (Inl e, db)
          | Inr _ \<Rightarrow>
             (case rollback_to_locked ancestor db of
                None \<Rightarrow> None
              | Some (Inl e, db') \<Rightarrow> Some (Inl e, db')
              | Some (Inr _, db') \<Rightarrow> Some (apply_blocks E cfg replacement db'))))"

section \<open>The indexer\<close>

record indexer =
  ix_db :: index_db
  ix_config :: index_config
  poisoned :: bool

definition initialize_schema :: "index_db \<Rightarrow> (index_error, index_db) rresult" where
  "initialize_schema db =
     (case meta_schema db of
        Some found \<Rightarrow> if found \<noteq> SCHEMA_VERSION then Inl (Schema found SCHEMA_VERSION) else Inr db
      | None \<Rightarrow> Inr (db\<lparr>meta_schema := Some SCHEMA_VERSION\<rparr>))"

definition index_open :: "index_db \<Rightarrow> index_config \<Rightarrow> (index_error, indexer) rresult" where
  "index_open db cfg =
     rbind (initialize_schema db) (\<lambda>db'. Inr \<lparr>ix_db = db', ix_config = cfg, poisoned = False\<rparr>)"

text \<open>Leaving the critical section: a panic poisons the mutex, any other result does not.\<close>

definition release :: "indexer \<Rightarrow> (index_error, 'a) rresult \<Rightarrow> index_db \<Rightarrow> (index_error, 'a) rresult \<times> indexer" where
  "release ix r db' = (r, ix\<lparr>ix_db := db', poisoned := (case r of Inl IndexPanic \<Rightarrow> True | _ \<Rightarrow> False)\<rparr>)"

definition apply_block ::
    "bitcoin_env \<Rightarrow> u32 \<Rightarrow> block \<Rightarrow> indexer \<Rightarrow> (index_error, apply_stats) rresult \<times> indexer" where
  "apply_block E height b ix =
     (if poisoned ix then (Inl WriterPoisoned, ix)
      else case apply_block_locked E (ix_config ix) height b (ix_db ix) of
        Inl e \<Rightarrow> release ix (Inl e) (ix_db ix)
      | Inr (db', st) \<Rightarrow> release ix (Inr st) db')"

definition rollback_tip :: "indexer \<Rightarrow> (index_error, tip) rresult \<times> indexer" where
  "rollback_tip ix =
     (if poisoned ix then (Inl WriterPoisoned, ix)
      else case rollback_tip_locked (ix_db ix) of
        Inl e \<Rightarrow> release ix (Inl e) (ix_db ix)
      | Inr (db', t) \<Rightarrow> release ix (Inr t) db')"

definition rollback_to :: "bytes \<Rightarrow> indexer \<Rightarrow> ((index_error, unit) rresult \<times> indexer) option" where
  "rollback_to ancestor ix =
     (if poisoned ix then Some (Inl WriterPoisoned, ix)
      else map_option (\<lambda>(r, db'). release ix r db') (rollback_to_locked ancestor (ix_db ix)))"

definition reorganize ::
    "bitcoin_env \<Rightarrow> bytes \<Rightarrow> (u32 \<times> block) list \<Rightarrow> indexer \<Rightarrow> ((index_error, unit) rresult \<times> indexer) option" where
  "reorganize E ancestor replacement ix =
     (if poisoned ix then Some (Inl WriterPoisoned, ix)
      else map_option (\<lambda>(r, db'). release ix r db')
        (reorganize_locked E (ix_config ix) ancestor replacement (ix_db ix)))"

definition put_checkpoint :: "checkpoint_manifest \<Rightarrow> index_db \<Rightarrow> index_db" where
  "put_checkpoint m db = write_batch [PutCheckpoint (ck_label m) m] db"

text \<open>The second component of a successful result is the indexer opened on the copied database.\<close>

definition create_checkpoint ::
    "string \<Rightarrow> indexer \<Rightarrow> (index_error, checkpoint_manifest \<times> indexer) rresult \<times> indexer" where
  "create_checkpoint label ix =
     (if poisoned ix then (Inl WriterPoisoned, ix)
      else if label = [] then (Inl EmptyCheckpointLabel, ix)
      else case index_tip (ix_db ix) of
        None \<Rightarrow> (Inl Empty, ix)
      | Some t \<Rightarrow>
          let m = \<lparr>ck_label = label, schema_version = SCHEMA_VERSION, ck_tip = t\<rparr> in
          (case index_open (ix_db ix) (ix_config ix) of
             Inl e \<Rightarrow> (Inl e, ix)
           | Inr copy \<Rightarrow>
               (Inr (m, copy\<lparr>ix_db := put_checkpoint m (ix_db copy)\<rparr>),
                ix\<lparr>ix_db := put_checkpoint m (ix_db ix)\<rparr>)))"

end
