(* ===== verification/Index_Rollback.thy ===== *)
theory Index_Rollback
  imports Index_Store
begin

text \<open>
  Detaching a block is the exact inverse of attaching it.  The proof follows the local
  variables of the attach loop: \<open>acc_inv\<close> relates the batch collected so far to the undo
  information collected beside it.
\<close>

section \<open>Effect of homogeneous batches\<close>

lemma write_DelTransaction:
  "write_batch (map DelTransaction xs) db =
     db\<lparr>cf_transactions := (\<lambda>k. if k \<in> set xs then None else cf_transactions db k)\<rparr>"
  by (induction xs arbitrary: db) (auto simp: write_batch_Cons fun_eq_iff)

lemma write_DelUtxo:
  "write_batch (map (\<lambda>op. DelUtxo (outpoint_key op)) ops) db =
     db\<lparr>cf_utxos := (\<lambda>k. if k \<in> outpoint_key ` set ops then None else cf_utxos db k)\<rparr>"
  by (induction ops arbitrary: db) (auto simp: write_batch_Cons fun_eq_iff)

lemma write_DelTransition:
  "write_batch (map (\<lambda>(t, i). DelTransition (transition_key t i)) xs) db =
     db\<lparr>cf_transitions := (\<lambda>k. if k \<in> (\<lambda>(t, i). transition_key t i) ` set xs then None else cf_transitions db k)\<rparr>"
  by (induction xs arbitrary: db) (auto simp: write_batch_Cons fun_eq_iff)

lemma write_PutUtxo:
  "\<forall>r \<in> set rs. g (outpoint_key (ur_outpoint r)) = Some r \<Longrightarrow>
   write_batch (map (\<lambda>r. PutUtxo (outpoint_key (ur_outpoint r)) r) rs) db =
     db\<lparr>cf_utxos := (\<lambda>k. if k \<in> (outpoint_key \<circ> ur_outpoint) ` set rs then g k else cf_utxos db k)\<rparr>"
  by (induction rs arbitrary: db) (auto simp: write_batch_Cons fun_eq_iff)

section \<open>Invariant of the database\<close>

definition wf_outpoint :: "out_point \<Rightarrow> bool" where
  "wf_outpoint op = is_array 32 (op_txid op)"

definition index_inv :: "index_db \<Rightarrow> bool" where
  "index_inv db \<longleftrightarrow>
     (\<forall>k r. cf_utxos db k = Some r \<longrightarrow>
        k = outpoint_key (ur_outpoint r) \<and> wf_outpoint (ur_outpoint r)
        \<and> cf_transactions db (op_txid (ur_outpoint r)) \<noteq> None)
     \<and> (\<forall>k. cf_transitions db k \<noteq> None \<longrightarrow>
        (\<exists>txid i. k = transition_key txid i \<and> is_array 32 txid \<and> cf_transactions db txid \<noteq> None))
     \<and> (\<forall>h. cf_heights db (height_key h) \<noteq> None \<longrightarrow> (\<exists>t. meta_tip db = Some t \<and> h \<le> tip_height t))
     \<and> (\<forall>k. cf_undo db k \<noteq> None \<longrightarrow> cf_blocks db k \<noteq> None)"

lemma outpoint_key_inject:
  "wf_outpoint a \<Longrightarrow> wf_outpoint b \<Longrightarrow> outpoint_key a = outpoint_key b \<longleftrightarrow> a = b"
  by (auto simp: wf_outpoint_def outpoint_key_def)

lemma transition_key_inject:
  "is_array 32 a \<Longrightarrow> is_array 32 b \<Longrightarrow> transition_key a i = transition_key b j \<longleftrightarrow> a = b \<and> i = j"
  by (auto simp: transition_key_def)

lemma height_key_inject [simp]: "height_key a = height_key b \<longleftrightarrow> a = b"
  by (simp add: height_key_def)

lemma index_inv_empty [simp]: "index_inv empty_db"
  by (simp add: index_inv_def empty_db_def)

lemma utxo_key:
  "index_inv db \<Longrightarrow> cf_utxos db k = Some r \<Longrightarrow> outpoint_key (ur_outpoint r) = k"
  by (simp add: index_inv_def)

text \<open>Nothing is keyed by a transaction id that is not indexed.\<close>

lemma fresh_utxo:
  assumes "index_inv db" "cf_transactions db txid = None" "is_array 32 txid"
  shows "cf_utxos db (outpoint_key (mk_outpoint txid v)) = None"
proof (rule ccontr)
  assume "cf_utxos db (outpoint_key (mk_outpoint txid v)) \<noteq> None"
  then obtain r where r: "cf_utxos db (outpoint_key (mk_outpoint txid v)) = Some r" by blast
  with assms(1) have "outpoint_key (mk_outpoint txid v) = outpoint_key (ur_outpoint r)"
    "wf_outpoint (ur_outpoint r)" "cf_transactions db (op_txid (ur_outpoint r)) \<noteq> None"
    by (auto simp: index_inv_def)
  moreover from this have "mk_outpoint txid v = ur_outpoint r"
    using assms(3) outpoint_key_inject [of "mk_outpoint txid v" "ur_outpoint r"]
    by (simp add: wf_outpoint_def)
  ultimately show False using assms(2) by (metis out_point.select_convs(1))
qed

lemma fresh_transition:
  assumes "index_inv db" "cf_transactions db txid = None" "is_array 32 txid"
  shows "cf_transitions db (transition_key txid i) = None"
  using assms by (fastforce simp: index_inv_def transition_key_inject)

section \<open>Invariant of the attach loop\<close>

abbreviation restored_keys :: "apply_acc \<Rightarrow> bytes set" where
  "restored_keys acc \<equiv> (outpoint_key \<circ> ur_outpoint) ` set (restored_utxos acc)"

abbreviation transition_keys :: "apply_acc \<Rightarrow> bytes set" where
  "transition_keys acc \<equiv> (\<lambda>(t, i). transition_key t i) ` set (created_transitions acc)"

definition batch_frame :: "index_db \<Rightarrow> apply_acc \<Rightarrow> bool" where
  "batch_frame db acc \<longleftrightarrow>
     (let d = write_batch (batch acc) db in
      (cf_blocks d, cf_heights d, cf_undo d, cf_checkpoints d, meta_tip d, meta_schema d)
        = (cf_blocks db, cf_heights db, cf_undo db, cf_checkpoints db, meta_tip db, meta_schema db)
      \<and> (\<forall>k. k \<notin> set (created_txids acc) \<longrightarrow> cf_transactions d k = cf_transactions db k)
      \<and> (\<forall>k. k \<notin> transition_keys acc \<longrightarrow> cf_transitions d k = cf_transitions db k)
      \<and> (\<forall>k. k \<notin> outpoint_key ` set (created_outpoints acc) \<and> k \<notin> restored_keys acc \<longrightarrow>
            cf_utxos d k = cf_utxos db k))"

definition undo_info :: "index_db \<Rightarrow> bytes set \<Rightarrow> apply_acc \<Rightarrow> bool" where
  "undo_info db txids acc \<longleftrightarrow>
     (\<forall>r \<in> set (restored_utxos acc). cf_utxos db (outpoint_key (ur_outpoint r)) = Some r)
     \<and> created_in_block acc = set (created_outpoints acc)
     \<and> (\<forall>op r. overlay acc op = Some (Some r) \<longrightarrow> op \<in> created_in_block acc)
     \<and> op_txid ` set (created_outpoints acc) \<subseteq> txids
     \<and> fst ` set (created_transitions acc) \<subseteq> txids
     \<and> set (created_txids acc) \<subseteq> txids"

definition acc_inv :: "index_db \<Rightarrow> bytes set \<Rightarrow> apply_acc \<Rightarrow> bool" where
  "acc_inv db txids acc \<longleftrightarrow> batch_frame db acc \<and> undo_info db txids acc"

lemma acc_inv_init: "acc_inv db txids apply_acc_init"
  by (simp add: acc_inv_def batch_frame_def undo_info_def apply_acc_init_def)

lemma acc_inv_put_transition:
  assumes "acc_inv db txids acc" "txid \<in> txids"
  shows "acc_inv db txids (acc\<lparr>batch := batch acc @ [PutTransition (transition_key txid i) v],
      created_transitions := created_transitions acc @ [(txid, i)], stats := st\<rparr>)"
  using assms
  by (auto simp: acc_inv_def batch_frame_def undo_info_def Let_def write_batch_append write_batch_Cons)

lemma acc_inv_index_transitions:
  assumes "index_transitions E cfg bh height tx txid tx_index recs ds acc = Inr acc'"
    and "acc_inv db txids acc" "txid \<in> txids"
  shows "acc_inv db txids acc' \<and> created_in_block acc' = created_in_block acc \<and> overlay acc' = overlay acc"
  using assms
proof (induction ds arbitrary: acc)
  case (Cons d ds)
  then show ?case
    by (auto split: option.split_asm sum.split_asm mint_verify_error.split_asm if_split_asm
        simp: Let_def intro!: acc_inv_put_transition dest!: Cons.IH)
qed simp

lemma acc_inv_spend:
  assumes inv: "acc_inv db txids acc" and k: "outpoint_key (ur_outpoint r) = outpoint_key op"
    and r: "op \<notin> created_in_block acc \<Longrightarrow> cf_utxos db (outpoint_key op) = Some r"
  shows "acc_inv db txids (acc\<lparr>restored_utxos :=
        (if op \<notin> created_in_block acc then restored_utxos acc @ [r] else restored_utxos acc),
      overlay := (overlay acc)(op \<mapsto> None), batch := batch acc @ [DelUtxo (outpoint_key op)], stats := st\<rparr>)"
proof (cases "op \<in> created_in_block acc")
  case True
  then have "outpoint_key op \<in> outpoint_key ` set (created_outpoints acc)"
    using inv by (simp add: acc_inv_def undo_info_def)
  with True inv show ?thesis
    by (auto simp: acc_inv_def batch_frame_def undo_info_def Let_def write_batch_append write_batch_Cons)
next
  case False
  with inv k r show ?thesis
    by (auto simp: acc_inv_def batch_frame_def undo_info_def Let_def write_batch_append write_batch_Cons)
qed

lemma acc_inv_spend_inputs:
  assumes "spend_inputs irs acc = Inr acc'" "acc_inv db txids acc"
    and "\<forall>(i, rec) \<in> set irs. \<forall>r. \<not> is_null_outpoint (previous_output i) \<and> rec = Some r
      \<and> previous_output i \<notin> created_in_block acc \<longrightarrow>
      outpoint_key (ur_outpoint r) = outpoint_key (previous_output i)
      \<and> cf_utxos db (outpoint_key (previous_output i)) = Some r"
  shows "acc_inv db txids acc' \<and> created_in_block acc' = created_in_block acc"
  using assms
proof (induction irs arbitrary: acc)
  case (Cons ir irs)
  obtain i rec where ir: "ir = (i, rec)" by (cases ir)
  show ?case
  proof (cases "is_null_outpoint (previous_output i)")
    case True
    with Cons ir show ?thesis by (auto simp: Let_def)
  next
    case False
    with Cons.prems(1) ir obtain r where r: "rec = Some r" by (auto simp: Let_def split: option.split_asm)
    let ?op = "previous_output i"
    let ?acc = "acc\<lparr>restored_utxos :=
        (if ?op \<notin> created_in_block acc then restored_utxos acc @ [r] else restored_utxos acc),
      overlay := (overlay acc)(?op \<mapsto> None), batch := batch acc @ [DelUtxo (outpoint_key ?op)],
      stats := (stats acc)\<lparr>spent_outputs := spent_outputs (stats acc) + 1\<rparr>\<rparr>"
    have "acc_inv db txids ?acc"
    proof (cases "?op \<in> created_in_block acc")
      case True
      then have "outpoint_key ?op \<in> outpoint_key ` set (created_outpoints acc)"
        using Cons.prems(2) by (simp add: acc_inv_def undo_info_def)
      with True Cons.prems(2) show ?thesis
        by (auto simp: acc_inv_def batch_frame_def undo_info_def Let_def write_batch_append write_batch_Cons)
    next
      case nc: False
      then show ?thesis using Cons.prems(2,3) False ir r
        by (intro acc_inv_spend) auto
    qed
    moreover have "spend_inputs irs ?acc = Inr acc'"
      using Cons.prems(1) False by (simp add: ir r Let_def)
    ultimately show ?thesis using Cons.IH [of ?acc] Cons.prems(3) by simp
  qed
qed simp

lemma acc_inv_put_transaction:
  assumes "acc_inv db txids acc" "txid \<in> txids"
  shows "acc_inv db txids (put_transaction cfg bh height txid tx_index acc)"
  using assms
  by (auto simp: acc_inv_def batch_frame_def undo_info_def Let_def write_batch_append write_batch_Cons
      put_transaction_def)

lemma acc_inv_create_outputs:
  assumes "acc_inv db txids acc" "txid \<in> txids"
  shows "acc_inv db txids (create_outputs cfg bh height txid tx_index k outs acc)"
  using assms
proof (induction outs arbitrary: k acc)
  case (Cons out outs)
  let ?op = "mk_outpoint txid (word_of_nat k)"
  let ?r = "utxo_record_of cfg bh height txid tx_index (word_of_nat k) out"
  have "acc_inv db txids (acc\<lparr>batch := batch acc @ [PutUtxo (outpoint_key ?op) ?r],
      overlay := (overlay acc)(?op \<mapsto> Some ?r), created_in_block := insert ?op (created_in_block acc),
      created_outpoints := created_outpoints acc @ [?op], stats := st\<rparr>)" for st
    using Cons.prems
    by (auto simp: acc_inv_def batch_frame_def undo_info_def Let_def write_batch_append write_batch_Cons)
  then show ?case using Cons.IH Cons.prems(2) by (simp add: Let_def)
qed simp

lemma resolve_input_db:
  assumes "resolve_input db ov i = Inr (Some r)" "\<forall>op r. ov op = Some (Some r) \<longrightarrow> op \<in> S"
    and "previous_output i \<notin> S"
  shows "cf_utxos db (outpoint_key (previous_output i)) = Some r"
  using assms by (auto simp: resolve_input_def resolve_overlay_utxo_def utxo_of_def result_simps
      split: if_split_asm option.split_asm)

lemma apply_tx_Inr:
  "apply_tx E cfg db bh height tx_index tx acc = Inr acc' \<longleftrightarrow>
     (\<exists>recs disc acc1 acc2.
        check_unique_inputs [] (tx_input tx) = Inr () \<and>
        list_all2 (\<lambda>i rec. resolve_input db (overlay acc) i = Inr rec) (tx_input tx) recs \<and>
        discover E tx = Inr disc \<and>
        index_transitions E cfg bh height tx (compute_txid E tx) tx_index recs (consumed_issuers disc) acc = Inr acc1 \<and>
        spend_inputs (zip (tx_input tx) recs) acc1 = Inr acc2 \<and>
        create_outputs cfg bh height (compute_txid E tx) tx_index 0 (tx_output tx)
          (put_transaction cfg bh height (compute_txid E tx) tx_index acc2) = acc')"
  by (simp add: apply_tx_def Let_def result_simps)

lemma acc_inv_apply_tx:
  assumes db: "index_inv db" and step: "apply_tx E cfg db bh height tx_index tx acc = Inr acc'"
    and inv: "acc_inv db txids acc" and txid: "compute_txid E tx \<in> txids"
  shows "acc_inv db txids acc'"
proof -
  from step obtain recs acc1 acc2 and disc :: tx_discovery where
    recs: "list_all2 (\<lambda>i rec. resolve_input db (overlay acc) i = Inr rec) (tx_input tx) recs"
    and t: "index_transitions E cfg bh height tx (compute_txid E tx) tx_index recs (consumed_issuers disc) acc = Inr acc1"
    and s: "spend_inputs (zip (tx_input tx) recs) acc1 = Inr acc2"
    and acc': "create_outputs cfg bh height (compute_txid E tx) tx_index 0 (tx_output tx)
      (put_transaction cfg bh height (compute_txid E tx) tx_index acc2) = acc'"
    unfolding apply_tx_Inr by blast
  from acc_inv_index_transitions [OF t inv txid]
  have 1: "acc_inv db txids acc1" "created_in_block acc1 = created_in_block acc" "overlay acc1 = overlay acc" by auto
  have ov: "\<forall>op r. overlay acc op = Some (Some r) \<longrightarrow> op \<in> created_in_block acc"
    using inv by (auto simp: acc_inv_def undo_info_def)
  have "\<forall>(i, rec) \<in> set (zip (tx_input tx) recs). resolve_input db (overlay acc) i = Inr rec"
    using recs by (simp add: list_all2_iff)
  then have "\<forall>(i, rec) \<in> set (zip (tx_input tx) recs). \<forall>r. \<not> is_null_outpoint (previous_output i) \<and> rec = Some r
      \<and> previous_output i \<notin> created_in_block acc1 \<longrightarrow>
      outpoint_key (ur_outpoint r) = outpoint_key (previous_output i)
      \<and> cf_utxos db (outpoint_key (previous_output i)) = Some r"
    using resolve_input_db [OF _ ov] utxo_key [OF db] unfolding 1(2) by (fastforce split: prod.splits)
  from acc_inv_spend_inputs [OF s 1(1) this]
  show ?thesis unfolding acc' [symmetric] using txid by (intro acc_inv_create_outputs acc_inv_put_transaction) auto
qed

lemma acc_inv_apply_txs:
  assumes "index_inv db" "apply_txs E cfg db bh height k txs acc = Inr acc'" "acc_inv db txids acc"
    and "compute_txid E ` set txs \<subseteq> txids"
  shows "acc_inv db txids acc'"
  using assms
  by (induction txs arbitrary: k acc) (auto simp: result_simps dest: acc_inv_apply_tx)

section \<open>Rolling back\<close>

lemma check_new_txids_Inr: "check_new_txids db txids = Inr u \<longleftrightarrow> (\<forall>t \<in> set txids. cf_transactions db t = None)"
  by (induction txids) auto

lemma check_unique_txids_Inr:
  "check_unique_txids seen txids = Inr u \<longleftrightarrow> distinct txids \<and> set txids \<inter> set seen = {}"
  by (induction txids arbitrary: seen) auto

lemma check_attach_Inr:
  assumes "check_attach E db height b = Inr u"
  shows "cf_blocks db (block_hash E b) = None"
    and "\<forall>t \<in> compute_txid E ` set (txdata b). cf_transactions db t = None"
    and "distinct (map (compute_txid E) (txdata b))"
    and "case meta_tip db of
        None \<Rightarrow> height = 0 \<and> prev_blockhash b = all_zeros
      | Some t \<Rightarrow> height = saturating_add (tip_height t) 1 \<and> prev_blockhash b = tip_hash t"
  using assms
  by (auto simp: check_attach_def Let_def index_tip_def block_of_def result_simps
      check_new_txids_Inr check_unique_txids_Inr split: option.split_asm if_split_asm)

text \<open>Batches of the detach step, field by field.\<close>

lemma undo_batch_write:
  assumes "\<forall>r \<in> set (un_restored_utxos u). g (outpoint_key (ur_outpoint r)) = Some r"
  shows "write_batch (undo_batch t u) db = db\<lparr>
    cf_blocks := (cf_blocks db)(tip_hash t := None),
    cf_heights := (cf_heights db)(height_key (tip_height t) := None),
    cf_undo := (cf_undo db)(tip_hash t := None),
    cf_transactions := (\<lambda>k. if k \<in> set (un_created_txids u) then None else cf_transactions db k),
    cf_utxos := (\<lambda>k. if k \<in> (outpoint_key \<circ> ur_outpoint) ` set (un_restored_utxos u) then g k
      else if k \<in> outpoint_key ` set (un_created_outpoints u) then None else cf_utxos db k),
    cf_transitions := (\<lambda>k. if k \<in> (\<lambda>(t, i). transition_key t i) ` set (un_created_transitions u) then None
      else cf_transitions db k),
    meta_tip := previous_tip u\<rparr>"
  unfolding undo_batch_def
  by (simp add: write_batch_append write_DelTransaction write_DelUtxo write_PutUtxo [OF assms]
      write_DelTransition write_batch_Cons split: option.split) (auto simp: fun_eq_iff)

lemma finish_batch_write:
  "write_batch (finish_batch E db height b acc) d = (let d' = write_batch (batch acc) d; bh = block_hash E b in
     d'\<lparr>cf_blocks := (cf_blocks d')(bh \<mapsto> \<lparr>br_hash = bh, br_height = height,
          br_previous_hash = prev_blockhash b, transaction_count = word_of_nat (length (txdata b)),
          raw_block = block_serialize E b, br_confirmation = Confirmed\<rparr>),
        cf_heights := (cf_heights d')(height_key height \<mapsto> bh),
        meta_tip := Some \<lparr>tip_hash = bh, tip_height = height\<rparr>,
        cf_undo := (cf_undo d')(bh \<mapsto> \<lparr>un_block_hash = bh, un_height = height, previous_tip = meta_tip db,
          un_created_txids = created_txids acc, un_created_outpoints = created_outpoints acc,
          un_restored_utxos = restored_utxos acc, un_created_transitions = created_transitions acc\<rparr>)\<rparr>)"
  by (simp add: finish_batch_def Let_def write_batch_append write_batch_Cons index_tip_def)

lemma apply_block_locked_Inr:
  "apply_block_locked E cfg height b db = Inr (db', st) \<longleftrightarrow>
     check_attach E db height b = Inr () \<and>
     (\<exists>acc. apply_txs E cfg db (block_hash E b) height 0 (txdata b) apply_acc_init = Inr acc
       \<and> db' = write_batch (finish_batch E db height b acc) db \<and> st = stats acc)"
  by (auto simp: apply_block_locked_def result_simps)

definition txid_32 :: "bitcoin_env \<Rightarrow> bool" where
  "txid_32 E = (\<forall>tx. is_array 32 (compute_txid E tx))"

lemma created_keys_fresh:
  assumes db: "index_inv db" and E: "txid_32 E"
    and new: "\<forall>t \<in> compute_txid E ` set txs. cf_transactions db t = None"
    and inv: "acc_inv db (compute_txid E ` set txs) acc"
  shows "k \<in> outpoint_key ` set (created_outpoints acc) \<Longrightarrow> cf_utxos db k = None"
    and "k \<in> transition_keys acc \<Longrightarrow> cf_transitions db k = None"
    and "k \<in> set (created_txids acc) \<Longrightarrow> cf_transactions db k = None"
proof -
  have sub: "op_txid ` set (created_outpoints acc) \<subseteq> compute_txid E ` set txs"
    "fst ` set (created_transitions acc) \<subseteq> compute_txid E ` set txs"
    "set (created_txids acc) \<subseteq> compute_txid E ` set txs"
    using inv by (simp_all add: acc_inv_def undo_info_def)
  have len: "t \<in> compute_txid E ` set txs \<Longrightarrow> is_array 32 t" for t using E by (auto simp: txid_32_def)
  show "cf_utxos db k = None" if "k \<in> outpoint_key ` set (created_outpoints acc)"
  proof -
    from that obtain op where op: "op \<in> set (created_outpoints acc)" "k = outpoint_key op" by blast
    from imageI [OF op(1), of op_txid] sub(1) have "op_txid op \<in> compute_txid E ` set txs" by blast
    with new len have "cf_transactions db (op_txid op) = None" "is_array 32 (op_txid op)" by blast+
    from fresh_utxo [OF db this, of "op_vout op"] show ?thesis by (simp add: op(2))
  qed
  show "cf_transitions db k = None" if "k \<in> transition_keys acc"
  proof -
    from that obtain t i where ti: "(t, i) \<in> set (created_transitions acc)" "k = transition_key t i" by auto
    from imageI [OF ti(1), of fst] sub(2) have t: "t \<in> compute_txid E ` set txs" by auto
    show ?thesis by (simp only: ti(2)) (rule fresh_transition [OF db bspec [OF new t] len [OF t]])
  qed
  show "cf_transactions db k = None" if "k \<in> set (created_txids acc)" by (rule bspec [OF new subsetD [OF sub(3) that]])
qed

lemma new_height_fresh:
  assumes "index_inv db" "check_attach E db height b = Inr u" "height \<noteq> - 1"
  shows "cf_heights db (height_key height) = None"
proof (cases "meta_tip db")
  case None
  with assms(1) show ?thesis by (auto simp: index_inv_def)
next
  case (Some t)
  then have h: "height = saturating_add (tip_height t) 1" using check_attach_Inr(4) [OF assms(2)] by simp
  with assms(3) have "tip_height t < height"
    by (auto simp: saturating_add_def word_less_nat_alt unat_word_ariths split: if_split_asm)
  with assms(1) Some show ?thesis by (force simp: index_inv_def)
qed

lemma rollback_apply:
  assumes db: "index_inv db" and E: "txid_32 E" and top: "height \<noteq> - 1"
    and step: "apply_block_locked E cfg height b db = Inr (db', st)"
  shows "rollback_tip_locked db' = Inr (db, \<lparr>tip_hash = block_hash E b, tip_height = height\<rparr>)"
proof -
  from step obtain acc where att: "check_attach E db height b = Inr ()"
    and txs: "apply_txs E cfg db (block_hash E b) height 0 (txdata b) apply_acc_init = Inr acc"
    and db': "db' = write_batch (finish_batch E db height b acc) db"
    by (auto simp: apply_block_locked_Inr)
  note att = check_attach_Inr [OF att] new_height_fresh [OF db att top]
  have inv: "acc_inv db (compute_txid E ` set (txdata b)) acc"
    using acc_inv_apply_txs [OF db txs acc_inv_init] by simp
  note fresh = created_keys_fresh [OF db E att(2) inv]
  have frame: "batch_frame db acc" and undo: "\<forall>r \<in> set (restored_utxos acc). cf_utxos db (outpoint_key (ur_outpoint r)) = Some r"
    using inv by (simp_all add: acc_inv_def undo_info_def)
  have undo_none: "cf_undo db (block_hash E b) = None" using db att(1) by (auto simp: index_inv_def)
  let ?t = "\<lparr>tip_hash = block_hash E b, tip_height = height\<rparr>"
  let ?u = "\<lparr>un_block_hash = block_hash E b, un_height = height, previous_tip = meta_tip db,
    un_created_txids = created_txids acc, un_created_outpoints = created_outpoints acc,
    un_restored_utxos = restored_utxos acc, un_created_transitions = created_transitions acc\<rparr>"
  have "\<forall>r \<in> set (un_restored_utxos ?u). cf_utxos db (outpoint_key (ur_outpoint r)) = Some r"
    using undo by simp
  note w = undo_batch_write [OF this, of ?t db']
  have "write_batch (undo_batch ?t ?u) db' = db"
    unfolding w
    using frame fresh att(1) att(5) undo_none
    by (intro index_db.equality)
      (auto simp: db' finish_batch_write batch_frame_def Let_def fun_eq_iff)
  then show ?thesis
    by (simp add: rollback_tip_locked_def index_tip_def db' finish_batch_write Let_def)
qed

end
