(* ===== verification/Index_Chain.thy ===== *)
theory Index_Chain
  imports Index_Rollback
begin

text \<open>
  The index as a function of the canonical chain: every operation keeps the
  database equal to the replay of a list of blocks from the empty database, whatever was
  attached and detached in between, and rolling back to an ancestor always returns.
\<close>

section \<open>The invariant is preserved\<close>

definition acc_wf :: "index_db \<Rightarrow> bytes set \<Rightarrow> apply_acc \<Rightarrow> bool" where
  "acc_wf db txids acc \<longleftrightarrow>
     (let d = write_batch (batch acc) db in
      (\<forall>k r. cf_utxos d k = Some r \<longrightarrow> cf_utxos db k = Some r \<or>
         (k = outpoint_key (ur_outpoint r) \<and> wf_outpoint (ur_outpoint r)
          \<and> op_txid (ur_outpoint r) \<in> txids))
      \<and> (\<forall>k. cf_transitions d k \<noteq> None \<longrightarrow> cf_transitions db k \<noteq> None \<or>
         (\<exists>t i. k = transition_key t i \<and> is_array 32 t \<and> t \<in> txids))
      \<and> (\<forall>k. cf_transactions d k \<noteq> None \<longleftrightarrow> cf_transactions db k \<noteq> None \<or> k \<in> set (created_txids acc)))"

lemma acc_wf_init: "acc_wf db txids apply_acc_init"
  by (simp add: acc_wf_def apply_acc_init_def)

lemma acc_wf_index_transitions:
  assumes "index_transitions E cfg bh height tx txid tx_index recs ds acc = Inr acc'"
    and "acc_wf db txids acc" "txid \<in> txids" "is_array 32 txid"
  shows "acc_wf db txids acc' \<and> created_txids acc' = created_txids acc"
  using assms
proof (induction ds arbitrary: acc)
  case (Cons d ds)
  have put: "acc_wf db txids (acc\<lparr>batch := batch acc @ [PutTransition (transition_key txid i) v],
      created_transitions := created_transitions acc @ [(txid, i)], stats := st\<rparr>)" for i v st
    using Cons.prems by (auto simp: acc_wf_def Let_def write_batch_append write_batch_Cons)
  from Cons.prems show ?case
    by (auto split: option.split_asm sum.split_asm mint_verify_error.split_asm if_split_asm
        simp: Let_def dest!: Cons.IH intro: put)
qed simp

lemma acc_wf_spend_inputs:
  assumes "spend_inputs irs acc = Inr acc'" "acc_wf db txids acc"
  shows "acc_wf db txids acc' \<and> created_txids acc' = created_txids acc"
  using assms
proof (induction irs arbitrary: acc)
  case (Cons ir irs)
  obtain i rec where ir: "ir = (i, rec)" by (cases ir)
  have del: "acc_wf db txids (acc\<lparr>restored_utxos := rs, overlay := ov, batch := batch acc @ [DelUtxo k], stats := st\<rparr>)"
    for rs ov k st
    using Cons.prems by (auto simp: acc_wf_def Let_def write_batch_append write_batch_Cons)
  from Cons.prems show ?case
    by (auto simp: ir Let_def split: option.split_asm if_split_asm dest!: Cons.IH
        intro: del del [where rs = "restored_utxos acc", simplified])
qed simp

lemma acc_wf_create_outputs:
  assumes "acc_wf db txids acc" "txid \<in> txids" "is_array 32 txid"
  shows "acc_wf db txids (create_outputs cfg bh height txid tx_index k outs acc)
    \<and> created_txids (create_outputs cfg bh height txid tx_index k outs acc) = created_txids acc"
  using assms
proof (induction outs arbitrary: k acc)
  case (Cons out outs)
  let ?op = "mk_outpoint txid (word_of_nat k)"
  let ?r = "utxo_record_of cfg bh height txid tx_index (word_of_nat k) out"
  have "acc_wf db txids (acc\<lparr>batch := batch acc @ [PutUtxo (outpoint_key ?op) ?r],
      overlay := ov, created_in_block := cb, created_outpoints := co, stats := st\<rparr>)" for ov cb co st
    using Cons.prems
    by (auto simp: acc_wf_def Let_def write_batch_append write_batch_Cons utxo_record_of_def wf_outpoint_def)
  then show ?case using Cons.IH Cons.prems(2,3) by (simp add: Let_def)
qed simp

lemma acc_wf_apply_tx:
  assumes step: "apply_tx E cfg db bh height tx_index tx acc = Inr acc'" and E: "txid_32 E"
    and inv: "acc_wf db txids acc" and txid: "compute_txid E tx \<in> txids"
  shows "acc_wf db txids acc' \<and> created_txids acc' = created_txids acc @ [compute_txid E tx]"
proof -
  let ?t = "compute_txid E tx"
  have len: "is_array 32 ?t" using E by (simp add: txid_32_def)
  from step obtain recs acc1 acc2 and disc :: tx_discovery where
    t: "index_transitions E cfg bh height tx ?t tx_index recs (consumed_issuers disc) acc = Inr acc1"
    and s: "spend_inputs (zip (tx_input tx) recs) acc1 = Inr acc2"
    and acc': "create_outputs cfg bh height ?t tx_index 0 (tx_output tx)
      (put_transaction cfg bh height ?t tx_index acc2) = acc'"
    unfolding apply_tx_Inr by blast
  have 1: "acc_wf db txids acc1" "created_txids acc1 = created_txids acc"
    using acc_wf_index_transitions [OF t inv txid len] by auto
  have 2: "acc_wf db txids acc2" "created_txids acc2 = created_txids acc"
    using acc_wf_spend_inputs [OF s 1(1)] 1(2) by auto
  have "acc_wf db txids (put_transaction cfg bh height ?t tx_index acc2)"
    using 2(1) by (auto simp: acc_wf_def put_transaction_def Let_def write_batch_append write_batch_Cons)
  from acc_wf_create_outputs [OF this txid len] 2(2) show ?thesis
    unfolding acc' [symmetric] by (simp add: put_transaction_def)
qed

lemma acc_wf_apply_txs:
  assumes "apply_txs E cfg db bh height k txs acc = Inr acc'" "txid_32 E" "acc_wf db txids acc"
    and "compute_txid E ` set txs \<subseteq> txids"
  shows "acc_wf db txids acc' \<and> created_txids acc' = created_txids acc @ map (compute_txid E) txs"
  using assms
proof (induction txs arbitrary: k acc)
  case (Cons tx txs)
  then obtain acc1 where 1: "apply_tx E cfg db bh height (word_of_nat k) tx acc = Inr acc1"
    and 2: "apply_txs E cfg db bh height (Suc k) txs acc1 = Inr acc'" by (auto simp: result_simps)
  from acc_wf_apply_tx [OF 1] Cons.prems Cons.IH [OF 2] show ?case by auto
qed simp

lemma saturating_succ: "h \<noteq> - 1 \<Longrightarrow> h = saturating_add t 1 \<Longrightarrow> unat h = unat t + 1" for t :: u32
  by (auto simp: saturating_add_def unat_word_ariths split: if_split_asm)

lemma index_inv_apply:
  assumes db: "index_inv db" and E: "txid_32 E" and top: "height \<noteq> - 1"
    and step: "apply_block_locked E cfg height b db = Inr (db', st)"
  shows "index_inv db'"
proof -
  from step obtain acc where att: "check_attach E db height b = Inr ()"
    and txs: "apply_txs E cfg db (block_hash E b) height 0 (txdata b) apply_acc_init = Inr acc"
    and db': "db' = write_batch (finish_batch E db height b acc) db"
    by (auto simp: apply_block_locked_Inr)
  let ?T = "compute_txid E ` set (txdata b)"
  have wf: "acc_wf db ?T acc" and ids: "set (created_txids acc) = ?T"
    using acc_wf_apply_txs [OF txs E acc_wf_init order_refl] by (auto simp: apply_acc_init_def)
  have frame: "batch_frame db acc"
    using acc_inv_apply_txs [OF db txs acc_inv_init, of ?T] by (simp add: acc_inv_def)
  let ?d = "write_batch (batch acc) db"
  have low: "h \<le> height" if "cf_heights db (height_key h) \<noteq> None" for h
  proof -
    from that db obtain t where t: "meta_tip db = Some t" "h \<le> tip_height t" by (auto simp: index_inv_def)
    with check_attach_Inr(4) [OF att] have "unat height = unat (tip_height t) + 1"
      using saturating_succ [OF top] by simp
    with t(2) show ?thesis by (simp add: word_le_nat_alt)
  qed
  have ts: "cf_transactions ?d k \<noteq> None \<longleftrightarrow> cf_transactions db k \<noteq> None \<or> k \<in> ?T" for k
    using wf ids by (simp add: acc_wf_def Let_def)
  have u: "k = outpoint_key (ur_outpoint r) \<and> wf_outpoint (ur_outpoint r)
      \<and> cf_transactions ?d (op_txid (ur_outpoint r)) \<noteq> None" if k: "cf_utxos ?d k = Some r" for k r
  proof -
    have "cf_utxos db k = Some r \<or> (k = outpoint_key (ur_outpoint r) \<and> wf_outpoint (ur_outpoint r)
        \<and> op_txid (ur_outpoint r) \<in> ?T)"
      using wf k unfolding acc_wf_def Let_def by simp
    then show ?thesis unfolding ts using db by (auto simp: index_inv_def)
  qed
  have tr: "\<exists>t i. k = transition_key t i \<and> is_array 32 t \<and> cf_transactions ?d t \<noteq> None"
    if k: "cf_transitions ?d k \<noteq> None" for k
  proof -
    have "cf_transitions db k \<noteq> None \<or> (\<exists>t i. k = transition_key t i \<and> is_array 32 t \<and> t \<in> ?T)"
      using wf k unfolding acc_wf_def Let_def by simp
    then show ?thesis unfolding ts using db unfolding index_inv_def by metis
  qed
  have "cf_undo ?d = cf_undo db" "cf_blocks ?d = cf_blocks db" "cf_heights ?d = cf_heights db"
    using frame by (auto simp: batch_frame_def Let_def)
  with db u tr low show ?thesis
    unfolding db' finish_batch_write Let_def index_inv_def by simp
qed

section \<open>Replaying a chain\<close>

inductive chain_of :: "bitcoin_env \<Rightarrow> index_config \<Rightarrow> index_db \<Rightarrow> (u32 \<times> block) list \<Rightarrow> bool"
  for E :: bitcoin_env and cfg :: index_config where
  chain_start: "initialize_schema empty_db = Inr db \<Longrightarrow> chain_of E cfg db []"
| chain_attach: "chain_of E cfg db bs \<Longrightarrow> height \<noteq> - 1 \<Longrightarrow>
    apply_block_locked E cfg height b db = Inr (db', st) \<Longrightarrow> chain_of E cfg db' (bs @ [(height, b)])"
| chain_checkpoint: "chain_of E cfg db bs \<Longrightarrow> chain_of E cfg (put_checkpoint m db) bs"

lemma put_checkpoint_eq: "put_checkpoint m db = db\<lparr>cf_checkpoints := (cf_checkpoints db)(ck_label m \<mapsto> m)\<rparr>"
  by (simp add: put_checkpoint_def write_batch_Cons)

lemma index_inv_checkpoint [simp]: "index_inv (put_checkpoint m db) \<longleftrightarrow> index_inv db"
  by (simp add: put_checkpoint_eq index_inv_def)

lemma chain_of_inv: "chain_of E cfg db bs \<Longrightarrow> txid_32 E \<Longrightarrow> index_inv db"
proof (induction rule: chain_of.induct)
  case (chain_start db)
  then show ?case by (auto simp: initialize_schema_def index_inv_def empty_db_def)
qed (auto dest: index_inv_apply)

text \<open>Operations that do not write checkpoints commute with writing one.\<close>

fun no_checkpoint :: "batch_op \<Rightarrow> bool" where
  "no_checkpoint (PutCheckpoint k v) = False"
| "no_checkpoint _ = True"

lemma batch_step_checkpoint:
  "no_checkpoint op \<Longrightarrow> batch_step op (db\<lparr>cf_checkpoints := c\<rparr>) = (batch_step op db)\<lparr>cf_checkpoints := c\<rparr>
     \<and> cf_checkpoints (batch_step op db) = cf_checkpoints db"
  by (cases op) simp_all

lemma write_batch_checkpoint:
  "list_all no_checkpoint ops \<Longrightarrow>
   write_batch ops (db\<lparr>cf_checkpoints := c\<rparr>) = (write_batch ops db)\<lparr>cf_checkpoints := c\<rparr>
     \<and> cf_checkpoints (write_batch ops db) = cf_checkpoints db"
  by (induction ops arbitrary: db) (simp_all add: write_batch_Cons batch_step_checkpoint)

lemma undo_no_checkpoint: "list_all no_checkpoint (undo_batch t u)"
  by (auto simp: undo_batch_def list_all_iff split: option.split)

lemma rollback_checkpoint:
  assumes "rollback_tip_locked db = Inr (db0, t)"
  shows "rollback_tip_locked (put_checkpoint m db) = Inr (put_checkpoint m db0, t)"
  using assms write_batch_checkpoint [OF undo_no_checkpoint]
  by (auto simp: rollback_tip_locked_def index_tip_def put_checkpoint_eq result_simps)

lemma chain_of_rollback:
  assumes "chain_of E cfg db bs" "txid_32 E" "bs \<noteq> []"
  shows "\<exists>db0. rollback_tip_locked db
      = Inr (db0, \<lparr>tip_hash = block_hash E (snd (last bs)), tip_height = fst (last bs)\<rparr>)
    \<and> chain_of E cfg db0 (butlast bs)"
  using assms
proof (induction rule: chain_of.induct)
  case (chain_attach db bs height b db' st)
  then show ?case using rollback_apply [OF chain_of_inv] by auto
next
  case (chain_checkpoint db bs m)
  then show ?case using rollback_checkpoint chain_of.chain_checkpoint by blast
qed simp

text \<open>What the chain determines.\<close>

definition block_record_of :: "bitcoin_env \<Rightarrow> u32 \<Rightarrow> block \<Rightarrow> block_record" where
  "block_record_of E height b = \<lparr>br_hash = block_hash E b, br_height = height,
     br_previous_hash = prev_blockhash b, transaction_count = word_of_nat (length (txdata b)),
     raw_block = block_serialize E b, br_confirmation = Confirmed\<rparr>"

definition chain_tip :: "bitcoin_env \<Rightarrow> (u32 \<times> block) list \<Rightarrow> tip option" where
  "chain_tip E bs = (if bs = [] then None
     else Some \<lparr>tip_hash = block_hash E (snd (last bs)), tip_height = fst (last bs)\<rparr>)"

lemma apply_block_fields:
  assumes "index_inv db" "apply_block_locked E cfg height b db = Inr (db', st)"
  shows "cf_blocks db' = (cf_blocks db)(block_hash E b \<mapsto> block_record_of E height b)"
    and "cf_heights db' = (cf_heights db)(height_key height \<mapsto> block_hash E b)"
    and "meta_tip db' = Some \<lparr>tip_hash = block_hash E b, tip_height = height\<rparr>"
    and "cf_checkpoints db' = cf_checkpoints db"
proof -
  from assms(2) obtain acc where
    txs: "apply_txs E cfg db (block_hash E b) height 0 (txdata b) apply_acc_init = Inr acc"
    and db': "db' = write_batch (finish_batch E db height b acc) db"
    by (auto simp: apply_block_locked_Inr)
  have "batch_frame db acc"
    using acc_inv_apply_txs [OF assms(1) txs acc_inv_init order_refl] by (simp add: acc_inv_def)
  then show "cf_blocks db' = (cf_blocks db)(block_hash E b \<mapsto> block_record_of E height b)"
    "cf_heights db' = (cf_heights db)(height_key height \<mapsto> block_hash E b)"
    "meta_tip db' = Some \<lparr>tip_hash = block_hash E b, tip_height = height\<rparr>"
    "cf_checkpoints db' = cf_checkpoints db"
    by (simp_all add: db' finish_batch_write batch_frame_def Let_def block_record_of_def)
qed

definition chain_shape :: "bitcoin_env \<Rightarrow> index_db \<Rightarrow> (u32 \<times> block) list \<Rightarrow> bool" where
  "chain_shape E db bs \<longleftrightarrow>
     meta_tip db = chain_tip E bs
     \<and> (\<forall>i < length bs. unat (fst (bs ! i)) = i)
     \<and> distinct (map (\<lambda>(h, b). block_hash E b) bs)
     \<and> (\<forall>k r. cf_blocks db k = Some r \<longleftrightarrow> (\<exists>(h, b) \<in> set bs. k = block_hash E b \<and> r = block_record_of E h b))
     \<and> (\<forall>h. cf_heights db (height_key h) =
          (if unat h < length bs then Some (block_hash E (snd (bs ! unat h))) else None))"

lemma chain_shape_blocks:
  assumes "chain_shape E db bs"
  shows "cf_blocks db k = Some r \<longleftrightarrow> (\<exists>(h, b) \<in> set bs. k = block_hash E b \<and> r = block_record_of E h b)"
    and "cf_blocks db k = None \<longleftrightarrow> k \<notin> (\<lambda>(h, b). block_hash E b) ` set bs"
proof -
  show some: "cf_blocks db k = Some r \<longleftrightarrow> (\<exists>(h, b) \<in> set bs. k = block_hash E b \<and> r = block_record_of E h b)" for r
    using assms by (simp add: chain_shape_def)
  show "cf_blocks db k = None \<longleftrightarrow> k \<notin> (\<lambda>(h, b). block_hash E b) ` set bs"
    by (subst not_Some_eq [symmetric], unfold some) auto
qed

lemma attach_height:
  assumes "chain_shape E db bs" "height \<noteq> - 1" "check_attach E db height b = Inr u"
  shows "unat height = length bs"
proof (cases "bs = []")
  case True
  with assms check_attach_Inr(4) [OF assms(3)] show ?thesis by (simp add: chain_shape_def chain_tip_def)
next
  case False
  then obtain t where t: "meta_tip db = Some t" "tip_height t = fst (last bs)"
    using assms(1) by (simp add: chain_shape_def chain_tip_def)
  have "unat (fst (last bs)) = length bs - 1"
    using assms(1) False by (simp add: chain_shape_def last_conv_nth)
  moreover have "unat height = unat (tip_height t) + 1"
    using check_attach_Inr(4) [OF assms(3)] t(1) saturating_succ [OF assms(2)] by simp
  ultimately show ?thesis using t(2) False by (cases bs) simp_all
qed

lemma chain_shape_attach:
  assumes shape: "chain_shape E db bs" and inv: "index_inv db" and top: "height \<noteq> - 1"
    and step: "apply_block_locked E cfg height b db = Inr (db', st)"
  shows "chain_shape E db' (bs @ [(height, b)])"
proof -
  from step have att: "check_attach E db height b = Inr ()" by (simp add: apply_block_locked_Inr)
  have h: "unat height = length bs" by (rule attach_height [OF shape top att])
  have new: "cf_blocks db (block_hash E b) = None" by (rule check_attach_Inr(1) [OF att])
  then have fresh: "block_hash E b \<notin> (\<lambda>(h, b). block_hash E b) ` set bs"
    using chain_shape_blocks(2) [OF shape] by simp
  note f = apply_block_fields [OF inv step]
  have "cf_blocks db' k = Some r \<longleftrightarrow>
      (\<exists>(h, b) \<in> set (bs @ [(height, b)]). k = block_hash E b \<and> r = block_record_of E h b)" for k r
  proof (cases "k = block_hash E b")
    case True
    with fresh show ?thesis by (auto simp: f(1) image_iff)
  next
    case False
    then show ?thesis by (simp add: f(1) chain_shape_blocks(1) [OF shape])
  qed
  moreover have "cf_heights db' (height_key h') =
      (if unat h' < length (bs @ [(height, b)]) then Some (block_hash E (snd ((bs @ [(height, b)]) ! unat h'))) else None)" for h'
    using shape h by (auto simp: f(2) chain_shape_def nth_append less_Suc_eq word_unat_eq_iff)
  moreover have "distinct (map (\<lambda>(h, b). block_hash E b) (bs @ [(height, b)]))"
    using shape fresh by (auto simp: chain_shape_def)
  moreover have "unat (fst ((bs @ [(height, b)]) ! i)) = i" if "i < length (bs @ [(height, b)])" for i
    using shape h that by (auto simp: chain_shape_def nth_append less_Suc_eq)
  ultimately show ?thesis by (simp add: chain_shape_def f(3) chain_tip_def)
qed

lemma chain_of_shape: "chain_of E cfg db bs \<Longrightarrow> txid_32 E \<Longrightarrow> chain_shape E db bs"
proof (induction rule: chain_of.induct)
  case (chain_start db)
  then show ?case by (auto simp: initialize_schema_def chain_shape_def empty_db_def chain_tip_def)
next
  case (chain_attach db bs height b db' st)
  then show ?case using chain_shape_attach chain_of_inv by blast
next
  case (chain_checkpoint db bs m)
  then show ?case by (simp add: chain_shape_def put_checkpoint_eq)
qed

section \<open>Rolling back to an ancestor\<close>

lemma canonical_ancestor_chain:
  assumes "chain_shape E db bs" "i < length bs"
  shows "canonical_ancestor db (block_hash E (snd (bs ! i))) = Inr (block_record_of E (fst (bs ! i)) (snd (bs ! i)))"
proof -
  have blk: "cf_blocks db (block_hash E (snd (bs ! i))) = Some (block_record_of E (fst (bs ! i)) (snd (bs ! i)))"
    unfolding chain_shape_blocks(1) [OF assms(1)] using nth_mem [OF assms(2)] by (auto intro!: bexI [of _ "bs ! i"])
  moreover have "cf_heights db (height_key (fst (bs ! i))) = Some (block_hash E (snd (bs ! i)))"
    using assms by (simp add: chain_shape_def)
  ultimately show ?thesis
    by (simp add: canonical_ancestor_def block_of_def block_by_height_def block_record_of_def)
qed

lemma canonical_ancestor_unknown:
  assumes "chain_shape E db bs" "a \<notin> (\<lambda>(h, b). block_hash E b) ` set bs"
  shows "canonical_ancestor db a = Inl (UnknownAncestor a)"
proof -
  have "cf_blocks db a = None"
    using assms(2) unfolding chain_shape_blocks(2) [OF assms(1)] .
  then show ?thesis by (simp add: canonical_ancestor_def block_of_def)
qed

lemma rollback_loop_chain:
  assumes "chain_of E cfg db bs" "txid_32 E" "i < length bs"
  shows "\<exists>db'. rollback_loop (block_hash E (snd (bs ! i))) (fst (bs ! i)) db = Some (Inr (), db')
    \<and> chain_of E cfg db' (take (Suc i) bs)"
  using assms
proof (induction "length bs" arbitrary: db bs)
  case (Suc n)
  let ?a = "block_hash E (snd (bs ! i))"
  have shape: "chain_shape E db bs" using Suc.prems(1,2) by (rule chain_of_shape)
  have ne: "bs \<noteq> []" using Suc.hyps(2) by auto
  have tip: "index_tip db = Some \<lparr>tip_hash = block_hash E (snd (last bs)), tip_height = fst (last bs)\<rparr>"
    using shape ne by (simp add: index_tip_def chain_shape_def chain_tip_def)
  show ?case
  proof (cases "i = n")
    case True
    then have "last bs = bs ! i" using Suc.hyps(2) ne by (simp add: last_conv_nth flip: Suc.hyps(2))
    then have "rollback_loop ?a (fst (bs ! i)) db = Some (Inr (), db)"
      by (subst rollback_loop.simps) (simp add: tip)
    with Suc.prems(1) True Suc.hyps(2) show ?thesis by auto
  next
    case False
    then have i: "i < n" using Suc.prems(3) Suc.hyps(2) by simp
    have last: "last bs = bs ! n" using Suc.hyps(2) ne by (simp add: last_conv_nth flip: Suc.hyps(2))
    have "map (\<lambda>(h, b). block_hash E b) bs ! i \<noteq> map (\<lambda>(h, b). block_hash E b) bs ! n"
      using shape i Suc.hyps(2) by (subst nth_eq_iff_index_eq) (auto simp: chain_shape_def)
    then have neq: "block_hash E (snd (last bs)) \<noteq> ?a"
      using i Suc.hyps(2) by (simp add: last case_prod_beta)
    have higher: "\<not> fst (last bs) \<le> fst (bs ! i)"
      using shape i Suc.hyps(2) by (simp add: last chain_shape_def word_le_nat_alt)
    from chain_of_rollback [OF Suc.prems(1,2) ne] obtain db0 where
      db0: "rollback_tip_locked db = Inr (db0, \<lparr>tip_hash = block_hash E (snd (last bs)), tip_height = fst (last bs)\<rparr>)"
      "chain_of E cfg db0 (butlast bs)" by blast
    have nth: "butlast bs ! i = bs ! i" using i Suc.hyps(2) by (simp add: nth_butlast flip: Suc.hyps(2))
    have "rollback_loop ?a (fst (bs ! i)) db = rollback_loop ?a (fst (bs ! i)) db0"
      using neq higher by (subst rollback_loop.simps) (simp add: tip db0(1))
    moreover have "take (Suc i) (butlast bs) = take (Suc i) bs"
      using i Suc.hyps(2) by (simp add: take_butlast flip: Suc.hyps(2))
    moreover have "n = length (butlast bs)" using Suc.hyps(2) by (simp flip: Suc.hyps(2))
    ultimately show ?thesis
      using Suc.hyps(1) [of "butlast bs" db0] db0(2) Suc.prems(2) i nth by simp
  qed
qed simp

lemma rollback_to_ancestor:
  assumes "chain_of E cfg db bs" "txid_32 E" "i < length bs"
  shows "\<exists>db'. rollback_to_locked (block_hash E (snd (bs ! i))) db = Some (Inr (), db')
    \<and> chain_of E cfg db' (take (Suc i) bs)"
  using rollback_loop_chain [OF assms] canonical_ancestor_chain [OF chain_of_shape [OF assms(1,2)] assms(3)]
  by (simp add: rollback_to_locked_def block_record_of_def)

lemma rollback_to_unknown:
  assumes "chain_of E cfg db bs" "txid_32 E" "a \<notin> (\<lambda>(h, b). block_hash E b) ` set bs"
  shows "rollback_to_locked a db = Some (Inl (UnknownAncestor a), db)"
  using canonical_ancestor_unknown [OF chain_of_shape [OF assms(1,2)] assms(3)]
  by (simp add: rollback_to_locked_def)

lemma apply_blocks_chain:
  assumes "chain_of E cfg db bs" "apply_blocks E cfg rep db = (r, db')" "\<forall>(h, b) \<in> set rep. h \<noteq> - 1"
  shows "\<exists>n \<le> length rep. chain_of E cfg db' (bs @ take n rep) \<and> (r = Inr () \<longrightarrow> n = length rep)"
  using assms
proof (induction rep arbitrary: db bs)
  case (Cons hb rep)
  obtain h b where hb: "hb = (h, b)" by (cases hb)
  show ?case
  proof (cases "apply_block_locked E cfg h b db")
    case (Inl e)
    with Cons.prems hb show ?thesis by (intro exI [of _ 0]) auto
  next
    case (Inr p)
    then obtain db1 st where 1: "apply_block_locked E cfg h b db = Inr (db1, st)" by (cases p) auto
    with Cons.prems(2) hb have rest: "apply_blocks E cfg rep db1 = (r, db')" by simp
    have "chain_of E cfg db1 (bs @ [hb])"
      unfolding hb using chain_of.chain_attach [OF Cons.prems(1) _ 1] Cons.prems(3) hb by simp
    from Cons.IH [OF this rest] Cons.prems(3) obtain n where
      "n \<le> length rep" "chain_of E cfg db' ((bs @ [hb]) @ take n rep)" "r = Inr () \<longrightarrow> n = length rep" by auto
    then show ?thesis by (intro exI [of _ "Suc n"]) simp
  qed
qed simp

lemma reorganize_chain:
  assumes ch: "chain_of E cfg db bs" and E: "txid_32 E" and top: "\<forall>(h, b) \<in> set rep. h \<noteq> - 1"
  shows "\<exists>r db' bs'. reorganize_locked E cfg a rep db = Some (r, db') \<and> chain_of E cfg db' bs'
    \<and> (r = Inr () \<longrightarrow> (\<exists>i < length bs. a = block_hash E (snd (bs ! i)) \<and> bs' = take (Suc i) bs @ rep))"
proof (cases "a \<in> (\<lambda>(h, b). block_hash E b) ` set bs")
  case False
  then have "reorganize_locked E cfg a rep db = Some (Inl (UnknownAncestor a), db)"
    using canonical_ancestor_unknown [OF chain_of_shape [OF ch E]] by (simp add: reorganize_locked_def)
  with ch show ?thesis by blast
next
  case True
  then obtain i where i: "i < length bs" "a = block_hash E (snd (bs ! i))"
    by (auto simp: in_set_conv_nth split: prod.splits)
  note anc = canonical_ancestor_chain [OF chain_of_shape [OF ch E] i(1)]
  obtain db1 where db1: "rollback_to_locked a db = Some (Inr (), db1)" "chain_of E cfg db1 (take (Suc i) bs)"
    using rollback_to_ancestor [OF ch E i(1)] i(2) by auto
  obtain r db' where ap: "apply_blocks E cfg rep db1 = (r, db')" by (cases "apply_blocks E cfg rep db1")
  from apply_blocks_chain [OF db1(2) ap top] obtain n where
    n: "chain_of E cfg db' (take (Suc i) bs @ take n rep)" "r = Inr () \<longrightarrow> n = length rep" by blast
  show ?thesis
  proof (cases "check_replacement E (br_height (block_record_of E (fst (bs ! i)) (snd (bs ! i))) + 1) a rep")
    case (Inl e)
    then have "reorganize_locked E cfg a rep db = Some (Inl e, db)"
      using anc by (simp add: reorganize_locked_def i(2))
    with ch show ?thesis by blast
  next
    case (Inr u)
    then have "reorganize_locked E cfg a rep db = Some (r, db')"
      using anc db1(1) ap by (simp add: reorganize_locked_def i(2))
    with n i show ?thesis by (intro exI [of _ r] exI [of _ db'] exI [of _ "take (Suc i) bs @ take n rep"]) auto
  qed
qed

section \<open>Runs of the indexer\<close>

text \<open>
  Every sequence of calls on an indexer that starts with an empty database; \<open>hs\<close> collects the heights at which
  blocks were handed to it.
\<close>

inductive index_run :: "bitcoin_env \<Rightarrow> u32 list \<Rightarrow> indexer \<Rightarrow> bool" for E :: bitcoin_env where
  run_open: "index_open empty_db cfg = Inr ix \<Longrightarrow> index_run E [] ix"
| run_apply: "index_run E hs ix \<Longrightarrow> apply_block E height b ix = (r, ix') \<Longrightarrow> index_run E (height # hs) ix'"
| run_rollback: "index_run E hs ix \<Longrightarrow> rollback_tip ix = (r, ix') \<Longrightarrow> index_run E hs ix'"
| run_rollback_to: "index_run E hs ix \<Longrightarrow> rollback_to a ix = Some (r', ix') \<Longrightarrow> index_run E hs ix'"
| run_reorganize: "index_run E hs ix \<Longrightarrow> reorganize E a rep ix = Some (r', ix') \<Longrightarrow> index_run E (map fst rep @ hs) ix'"
| run_checkpoint: "index_run E hs ix \<Longrightarrow> create_checkpoint l ix = (c, ix') \<Longrightarrow> index_run E hs ix'"

lemma release_fields [simp]:
  "ix_db (snd (release ix r db)) = db" "ix_config (snd (release ix r db)) = ix_config ix"
  by (simp_all add: release_def)

lemma rollback_step_chain:
  assumes "chain_of E cfg db bs" "txid_32 E" "rollback_tip_locked db = Inr (db', t)"
  shows "chain_of E cfg db' (butlast bs)"
proof (cases "bs = []")
  case True
  with chain_of_shape [OF assms(1,2)] assms(3) show ?thesis
    by (simp add: rollback_tip_locked_def index_tip_def chain_shape_def chain_tip_def)
next
  case False
  with chain_of_rollback [OF assms(1,2)] assms(3) show ?thesis by auto
qed

lemma rollback_to_chain_step:
  assumes "chain_of E cfg db bs" "txid_32 E" "rollback_to_locked a db = Some (r, db')"
  shows "\<exists>bs'. chain_of E cfg db' bs'"
proof (cases "a \<in> (\<lambda>(h, b). block_hash E b) ` set bs")
  case False
  with rollback_to_unknown [OF assms(1,2)] assms show ?thesis by auto
next
  case True
  then obtain i where "i < length bs" "a = block_hash E (snd (bs ! i))"
    by (auto simp: in_set_conv_nth split: prod.splits)
  with rollback_to_ancestor [OF assms(1,2)] assms(3) show ?thesis by fastforce
qed

lemma index_run_chain:
  "index_run E hs ix \<Longrightarrow> txid_32 E \<Longrightarrow> - 1 \<notin> set hs \<Longrightarrow> \<exists>bs. chain_of E (ix_config ix) (ix_db ix) bs"
proof (induction rule: index_run.induct)
  case (run_open cfg ix)
  then show ?case by (auto simp: index_open_def result_simps intro!: exI [of _ "[]"] chain_start)
next
  case (run_apply hs ix height b r ix')
  then have top: "height \<noteq> - 1" and "\<exists>bs. chain_of E (ix_config ix) (ix_db ix) bs" by auto
  with run_apply.hyps(2) show ?case
    by (auto simp: apply_block_def release_def split: if_split_asm sum.split_asm prod.split_asm)
      (blast intro: chain_attach)
next
  case (run_rollback hs ix r ix')
  then show ?case
    by (auto simp: rollback_tip_def release_def split: if_split_asm sum.split_asm prod.split_asm)
      (blast dest: rollback_step_chain)
next
  case (run_rollback_to hs ix a r' ix')
  then show ?case
    by (auto simp: rollback_to_def release_def split: if_split_asm dest: rollback_to_chain_step)
next
  case (run_reorganize hs ix a rep r' ix')
  then obtain bs where bs: "chain_of E (ix_config ix) (ix_db ix) bs" by auto
  have "\<forall>(h, b) \<in> set rep. h \<noteq> - 1" using run_reorganize.prems(2) by force
  from reorganize_chain [OF bs run_reorganize.prems(1) this, of a] run_reorganize.hyps(2) bs
  show ?case by (auto simp: reorganize_def release_def split: if_split_asm)
next
  case (run_checkpoint hs ix l c ix')
  then show ?case
    by (auto simp: create_checkpoint_def Let_def split: if_split_asm option.split_asm sum.split_asm)
      (blast intro: chain_checkpoint)
qed

end
