(* ===== verification/Index_Utxo.thy ===== *)
theory Index_Utxo
  imports Index_Chain
begin

text \<open>
  What an attached block does to the indexed outputs, against an abstract ledger: a partial
  map from outpoints to outputs from which a transaction removes its inputs and to which
  it adds its outputs.  The indexer implements that ledger, through its overlay and its
  write batch, and every issuance transition it records was accepted by the mint verifier.
\<close>

section \<open>The abstract ledger\<close>

type_synonym ledger = "out_point \<rightharpoonup> tx_out"

definition tx_prevouts :: "transaction \<Rightarrow> out_point list" where
  "tx_prevouts tx = filter (\<lambda>op. \<not> is_null_outpoint op) (map previous_output (tx_input tx))"

definition ledger_tx :: "bitcoin_env \<Rightarrow> transaction \<Rightarrow> ledger \<Rightarrow> ledger option" where
  "ledger_tx E tx U =
     (if distinct (tx_prevouts tx) \<and> (\<forall>op \<in> set (tx_prevouts tx). U op \<noteq> None)
      then Some (\<lambda>op. if op_txid op = compute_txid E tx \<and> unat (op_vout op) < length (tx_output tx)
                      then Some (tx_output tx ! unat (op_vout op))
                      else if op \<in> set (tx_prevouts tx) then None else U op)
      else None)"

fun ledger_txs :: "bitcoin_env \<Rightarrow> transaction list \<Rightarrow> ledger \<Rightarrow> ledger option" where
  "ledger_txs E [] U = Some U"
| "ledger_txs E (tx # txs) U = Option.bind (ledger_tx E tx U) (ledger_txs E txs)"

definition output_of :: "utxo_record \<Rightarrow> tx_out" where
  "output_of r = mk_txout (value_sat r) (ur_script_pubkey r)"

definition ledger_of :: "index_db \<Rightarrow> ledger" where
  "ledger_of db op = (if wf_outpoint op then map_option output_of (utxo_of db op) else None)"

text \<open>Types of the source: outpoints have 32-byte transaction ids, output indices fit in \<open>u32\<close>.\<close>

definition wf_tx :: "transaction \<Rightarrow> bool" where
  "wf_tx tx \<longleftrightarrow> (\<forall>i \<in> set (tx_input tx). wf_outpoint (previous_output i)) \<and> length (tx_output tx) \<le> 2 ^ 32"

section \<open>The overlay implements the ledger\<close>

definition current :: "index_db \<Rightarrow> apply_acc \<Rightarrow> out_point \<Rightarrow> utxo_record option" where
  "current db acc op = (case overlay acc op of Some x \<Rightarrow> x | None \<Rightarrow> utxo_of db op)"

definition overlay_ok :: "index_db \<Rightarrow> apply_acc \<Rightarrow> bool" where
  "overlay_ok db acc \<longleftrightarrow>
     (\<forall>op. wf_outpoint op \<longrightarrow> utxo_of (write_batch (batch acc) db) op = current db acc op)
     \<and> (\<forall>op. overlay acc op \<noteq> None \<longrightarrow> wf_outpoint op)"

definition acc_ledger :: "index_db \<Rightarrow> apply_acc \<Rightarrow> ledger" where
  "acc_ledger db acc op = (if wf_outpoint op then map_option output_of (current db acc op) else None)"

lemma overlay_ok_init: "overlay_ok db apply_acc_init"
  by (simp add: overlay_ok_def apply_acc_init_def current_def)

lemma acc_ledger_init: "acc_ledger db apply_acc_init = ledger_of db"
  by (simp add: acc_ledger_def ledger_of_def current_def apply_acc_init_def fun_eq_iff)

lemma utxo_put:
  "wf_outpoint op \<Longrightarrow> wf_outpoint op' \<Longrightarrow>
   utxo_of (db\<lparr>cf_utxos := (cf_utxos db)(outpoint_key op := x)\<rparr>) op' = (if op' = op then x else utxo_of db op')"
  by (auto simp: utxo_of_def outpoint_key_inject)

lemma overlay_ok_index_transitions:
  assumes "index_transitions E cfg bh height tx txid tx_index recs ds acc = Inr acc'" "overlay_ok db acc"
  shows "overlay_ok db acc' \<and> overlay acc' = overlay acc"
  using assms
proof (induction ds arbitrary: acc)
  case (Cons d ds)
  have put: "overlay_ok db (acc\<lparr>batch := batch acc @ [PutTransition k v], created_transitions := ct, stats := st\<rparr>)"
    for k v ct st
    using Cons.prems(2)
    by (simp add: overlay_ok_def write_batch_append write_batch_Cons current_def utxo_of_def)
  from Cons.prems show ?case
    by (auto split: option.split_asm sum.split_asm mint_verify_error.split_asm if_split_asm
        simp: Let_def dest!: Cons.IH intro: put)
qed simp

lemma overlay_ok_spend_inputs:
  assumes "spend_inputs irs acc = Inr acc'" "overlay_ok db acc"
    and "\<forall>(i, rec) \<in> set irs. wf_outpoint (previous_output i)"
  shows "overlay_ok db acc' \<and> overlay acc' = (\<lambda>op.
    if op \<in> {previous_output i | i rec. (i, rec) \<in> set irs \<and> \<not> is_null_outpoint (previous_output i)}
    then Some None else overlay acc op)"
  using assms
proof (induction irs arbitrary: acc)
  case (Cons ir irs)
  obtain i rec where ir: "ir = (i, rec)" by (cases ir)
  let ?op = "previous_output i"
  have del: "overlay_ok db (acc\<lparr>restored_utxos := rs, overlay := (overlay acc)(?op \<mapsto> None),
      batch := batch acc @ [DelUtxo (outpoint_key ?op)], stats := st\<rparr>)" for rs st
    using Cons.prems(2,3) ir
    by (auto simp: overlay_ok_def write_batch_append write_batch_Cons current_def utxo_put)
  show ?case
  proof (cases "is_null_outpoint ?op")
    case True
    with Cons.prems ir Cons.IH [of acc] show ?thesis by (auto simp: Let_def fun_eq_iff)
  next
    case False
    with Cons.prems(1) ir obtain r where r: "rec = Some r" by (auto simp: Let_def split: option.split_asm)
    let ?acc = "acc\<lparr>restored_utxos :=
        (if ?op \<notin> created_in_block acc then restored_utxos acc @ [r] else restored_utxos acc),
      overlay := (overlay acc)(?op \<mapsto> None), batch := batch acc @ [DelUtxo (outpoint_key ?op)],
      stats := (stats acc)\<lparr>spent_outputs := spent_outputs (stats acc) + 1\<rparr>\<rparr>"
    have "spend_inputs irs ?acc = Inr acc'" using Cons.prems(1) False by (simp add: ir r Let_def)
    from Cons.IH [OF this del] Cons.prems(3) ir False show ?thesis by (auto simp: fun_eq_iff)
  qed
qed simp

lemma overlay_ok_create_outputs:
  assumes "overlay_ok db acc" "is_array 32 txid" "k + length outs \<le> 2 ^ 32"
  shows "overlay_ok db (create_outputs cfg bh height txid tx_index k outs acc)
    \<and> overlay (create_outputs cfg bh height txid tx_index k outs acc) = (\<lambda>op.
      if op_txid op = txid \<and> k \<le> unat (op_vout op) \<and> unat (op_vout op) < k + length outs
      then Some (Some (utxo_record_of cfg bh height txid tx_index (op_vout op) (outs ! (unat (op_vout op) - k))))
      else overlay acc op)"
  using assms
proof (induction outs arbitrary: k acc)
  case (Cons out outs)
  let ?op = "mk_outpoint txid (word_of_nat k)"
  let ?r = "utxo_record_of cfg bh height txid tx_index (word_of_nat k) out"
  let ?acc = "acc\<lparr>batch := batch acc @ [PutUtxo (outpoint_key ?op) ?r],
      overlay := (overlay acc)(?op \<mapsto> Some ?r), created_in_block := insert ?op (created_in_block acc),
      created_outpoints := created_outpoints acc @ [?op],
      stats := (stats acc)\<lparr>created_outputs := created_outputs (stats acc) + 1\<rparr>\<rparr>"
  have wf: "wf_outpoint ?op" using Cons.prems(2) by (simp add: wf_outpoint_def)
  have ok: "overlay_ok db ?acc"
    using Cons.prems(1) wf
    by (auto simp: overlay_ok_def write_batch_append write_batch_Cons current_def utxo_put)
  have k: "unat (word_of_nat k :: u32) = k"
    using Cons.prems(3) by (simp add: of_nat_inverse [OF refl])
  have op: "op = ?op \<longleftrightarrow> op_txid op = txid \<and> unat (op_vout op) = k" for op
    using k by (cases op) (auto simp: word_unat_eq_iff)
  have "create_outputs cfg bh height txid tx_index k (out # outs) acc =
      create_outputs cfg bh height txid tx_index (Suc k) outs ?acc" by (simp add: Let_def)
  moreover note Cons.IH [OF ok Cons.prems(2), of "Suc k"] Cons.prems(3)
  ultimately show ?case
    by (auto simp: fun_eq_iff op nth_Cons' le_Suc_eq)
qed (auto simp: fun_eq_iff)

lemma check_unique_inputs_Inr:
  "check_unique_inputs seen ins = Inr u \<longleftrightarrow>
     distinct (filter (\<lambda>op. \<not> is_null_outpoint op) (map previous_output ins))
     \<and> set (filter (\<lambda>op. \<not> is_null_outpoint op) (map previous_output ins)) \<inter> set seen = {}"
  by (induction ins arbitrary: seen) auto

lemma resolve_input_current:
  "resolve_input db (overlay acc) i = Inr rec \<Longrightarrow>
   rec = (if is_null_outpoint (previous_output i) then None else current db acc (previous_output i))
   \<and> (\<not> is_null_outpoint (previous_output i) \<longrightarrow> current db acc (previous_output i) \<noteq> None)"
  by (auto simp: resolve_input_def resolve_overlay_utxo_def current_def result_simps
      split: if_split_asm option.split_asm)

lemma zip_prevouts:
  assumes "length recs = length ins"
  shows "{previous_output i | i rec. (i, rec) \<in> set (zip ins recs) \<and> \<not> is_null_outpoint (previous_output i)}
    = set (filter (\<lambda>op. \<not> is_null_outpoint op) (map previous_output ins))"
proof -
  have "i \<in> set ins \<longleftrightarrow> (\<exists>rec. (i, rec) \<in> set (zip ins recs))" for i
    using assms by (metis in_set_impl_in_set_zip1 in_set_zipE)
  then show ?thesis by auto
qed

lemma apply_tx_ledger:
  assumes step: "apply_tx E cfg db bh height tx_index tx acc = Inr acc'" and E: "txid_32 E"
    and ok: "overlay_ok db acc" and wf: "wf_tx tx"
  shows "overlay_ok db acc' \<and> ledger_tx E tx (acc_ledger db acc) = Some (acc_ledger db acc')"
proof -
  let ?t = "compute_txid E tx"
  from step obtain recs acc1 acc2 and disc :: tx_discovery where
    uniq: "check_unique_inputs [] (tx_input tx) = Inr ()"
    and recs: "list_all2 (\<lambda>i rec. resolve_input db (overlay acc) i = Inr rec) (tx_input tx) recs"
    and t: "index_transitions E cfg bh height tx ?t tx_index recs (consumed_issuers disc) acc = Inr acc1"
    and s: "spend_inputs (zip (tx_input tx) recs) acc1 = Inr acc2"
    and acc': "create_outputs cfg bh height ?t tx_index 0 (tx_output tx)
      (put_transaction cfg bh height ?t tx_index acc2) = acc'"
    unfolding apply_tx_Inr by blast
  have 1: "overlay_ok db acc1" "overlay acc1 = overlay acc"
    using overlay_ok_index_transitions [OF t ok] by auto
  have len: "length recs = length (tx_input tx)" using recs by (simp add: list_all2_lengthD)
  have wfi: "\<forall>(i, rec) \<in> set (zip (tx_input tx) recs). wf_outpoint (previous_output i)"
    using wf by (auto simp: wf_tx_def dest: set_zip_leftD)
  have 2: "overlay_ok db acc2" "overlay acc2 = (\<lambda>op. if op \<in> set (tx_prevouts tx) then Some None else overlay acc op)"
    using overlay_ok_spend_inputs [OF s 1(1) wfi]
    unfolding zip_prevouts [OF len] tx_prevouts_def 1(2) by blast+
  have "overlay_ok db (put_transaction cfg bh height ?t tx_index acc2)"
    using 2(1) by (simp add: overlay_ok_def put_transaction_def write_batch_append write_batch_Cons current_def utxo_of_def)
  moreover have "overlay (put_transaction cfg bh height ?t tx_index acc2) = overlay acc2" by (simp add: put_transaction_def)
  moreover have t32: "is_array 32 ?t" and "0 + length (tx_output tx) \<le> 2 ^ 32"
    using E wf by (simp_all add: txid_32_def wf_tx_def)
  ultimately have 3: "overlay_ok db acc'" "overlay acc' = (\<lambda>op.
      if op_txid op = ?t \<and> unat (op_vout op) < length (tx_output tx)
      then Some (Some (utxo_record_of cfg bh height ?t tx_index (op_vout op) (tx_output tx ! unat (op_vout op))))
      else overlay acc2 op)"
    using overlay_ok_create_outputs [of db "put_transaction cfg bh height ?t tx_index acc2" ?t 0 "tx_output tx"
        cfg bh height tx_index]
    unfolding acc' by auto
  have res: "\<forall>op \<in> set (tx_prevouts tx). acc_ledger db acc op \<noteq> None"
    using recs wf resolve_input_current
    by (fastforce simp: tx_prevouts_def acc_ledger_def list_all2_conv_all_nth in_set_conv_nth wf_tx_def)
  have "distinct (tx_prevouts tx)" using uniq by (simp add: check_unique_inputs_Inr tx_prevouts_def)
  moreover have "acc_ledger db acc' = (\<lambda>op.
      if op_txid op = ?t \<and> unat (op_vout op) < length (tx_output tx) then Some (tx_output tx ! unat (op_vout op))
      else if op \<in> set (tx_prevouts tx) then None else acc_ledger db acc op)"
    using t32 by (auto simp: fun_eq_iff acc_ledger_def current_def 2(2) 3(2) wf_outpoint_def output_of_def
        utxo_record_of_def)
  ultimately show ?thesis using res 3(1) by (simp add: ledger_tx_def)
qed

lemma apply_txs_ledger:
  assumes "apply_txs E cfg db bh height k txs acc = Inr acc'" "txid_32 E" "overlay_ok db acc"
    and "\<forall>tx \<in> set txs. wf_tx tx"
  shows "overlay_ok db acc' \<and> ledger_txs E txs (acc_ledger db acc) = Some (acc_ledger db acc')"
  using assms
proof (induction txs arbitrary: k acc)
  case (Cons tx txs)
  then obtain acc1 where 1: "apply_tx E cfg db bh height (word_of_nat k) tx acc = Inr acc1"
    and 2: "apply_txs E cfg db bh height (Suc k) txs acc1 = Inr acc'" by (auto simp: result_simps)
  from apply_tx_ledger [OF 1] Cons.prems Cons.IH [OF 2] show ?case by simp
qed simp

lemma apply_block_ledger:
  assumes step: "apply_block_locked E cfg height b db = Inr (db', st)" and E: "txid_32 E"
    and wf: "\<forall>tx \<in> set (txdata b). wf_tx tx"
  shows "ledger_txs E (txdata b) (ledger_of db) = Some (ledger_of db')"
proof -
  from step obtain acc where
    txs: "apply_txs E cfg db (block_hash E b) height 0 (txdata b) apply_acc_init = Inr acc"
    and db': "db' = write_batch (finish_batch E db height b acc) db"
    by (auto simp: apply_block_locked_Inr)
  note ok = apply_txs_ledger [OF txs E overlay_ok_init wf]
  have "cf_utxos db' = cf_utxos (write_batch (batch acc) db)" by (simp add: db' finish_batch_write Let_def)
  then have "ledger_of db' = acc_ledger db acc"
    using ok by (auto simp: fun_eq_iff ledger_of_def acc_ledger_def overlay_ok_def utxo_of_def)
  with ok show ?thesis by (simp add: acc_ledger_init)
qed

section \<open>Recorded transitions\<close>

lemma write_batch_transition:
  "cf_transitions (write_batch ops db) k = Some rec \<Longrightarrow>
   cf_transitions db k = Some rec \<or> PutTransition k rec \<in> set ops"
proof (induction ops arbitrary: db)
  case (Cons op ops)
  then have "cf_transitions (batch_step op db) k = Some rec \<or> PutTransition k rec \<in> set ops"
    by (simp add: write_batch_Cons)
  then show ?case by (cases op) (auto split: if_split_asm)
qed simp

text \<open>The justification of one recorded transition.\<close>

definition verified_transition ::
    "bitcoin_env \<Rightarrow> index_config \<Rightarrow> bytes \<Rightarrow> u32 \<Rightarrow> ledger \<Rightarrow> transaction \<Rightarrow> bytes \<Rightarrow> issuance_transition_record \<Rightarrow> bool" where
  "verified_transition E cfg bh height U tx k rec \<longleftrightarrow>
     (\<exists>op utxo terms vm tx_index. U op = Some utxo
       \<and> terms \<in> snd ` set (ic_issuance_terms cfg)
       \<and> verify_mint E tx op utxo terms = Inr vm
       \<and> k = transition_key (compute_txid E tx) (word_of_nat (issuer_input_index vm))
       \<and> rec = transition_record cfg bh height (compute_txid E tx) tx_index op vm)"

lemma index_transitions_puts:
  assumes "index_transitions E cfg bh height tx (compute_txid E tx) tx_index recs ds acc = Inr acc'"
    and "PutTransition k rec \<in> set (batch acc')"
    and "\<forall>d \<in> set ds. \<forall>prev. ds_input_index d < length recs \<and> recs ! ds_input_index d = Some prev \<longrightarrow>
      U (ds_outpoint d) = Some (output_of prev)"
  shows "PutTransition k rec \<in> set (batch acc) \<or> verified_transition E cfg bh height U tx k rec"
  using assms
proof (induction ds arbitrary: acc)
  case (Cons d ds)
  note IH = Cons.IH [OF _ Cons.prems(2)]
  show ?case
  proof (cases "\<exists>terms prev vm. map_of (ic_issuance_terms cfg) (terms_hash (ds_state d)) = Some terms
      \<and> ds_input_index d < length recs \<and> recs ! ds_input_index d = Some prev
      \<and> verify_mint E tx (ds_outpoint d) (output_of prev) terms = Inr vm")
    case False
    with Cons.prems(1) have "index_transitions E cfg bh height tx (compute_txid E tx) tx_index recs ds acc = Inr acc'"
      by (auto simp: Let_def output_of_def
          split: option.split_asm sum.split_asm mint_verify_error.split_asm if_split_asm)
    from IH [OF this] Cons.prems(3) show ?thesis by simp
  next
    case True
    then obtain terms prev vm where t: "map_of (ic_issuance_terms cfg) (terms_hash (ds_state d)) = Some terms"
      and p: "ds_input_index d < length recs" "recs ! ds_input_index d = Some prev"
      and vm: "verify_mint E tx (ds_outpoint d) (output_of prev) terms = Inr vm" by blast
    let ?k = "transition_key (compute_txid E tx) (word_of_nat (issuer_input_index vm))"
    let ?rec = "transition_record cfg bh height (compute_txid E tx) tx_index (ds_outpoint d) vm"
    obtain acc1 where "index_transitions E cfg bh height tx (compute_txid E tx) tx_index recs ds acc1 = Inr acc'"
      and b: "batch acc1 = batch acc @ [PutTransition ?k ?rec]"
      using Cons.prems(1) t p vm by (auto simp: output_of_def Let_def)
    from IH [OF this(1)] Cons.prems(3)
    have "PutTransition k rec \<in> set (batch acc1) \<or> verified_transition E cfg bh height U tx k rec" by simp
    moreover have "verified_transition E cfg bh height U tx ?k ?rec"
      using vm p Cons.prems(3) map_of_SomeD [OF t] unfolding verified_transition_def by force
    ultimately show ?thesis using b by auto
  qed
qed simp

lemma spend_inputs_puts:
  "spend_inputs irs acc = Inr acc' \<Longrightarrow> PutTransition k rec \<in> set (batch acc') \<Longrightarrow> PutTransition k rec \<in> set (batch acc)"
  by (induction irs acc rule: spend_inputs.induct) (auto simp: Let_def split: if_split_asm option.split_asm)

lemma create_outputs_puts:
  "PutTransition k rec \<in> set (batch (create_outputs cfg bh height txid ti n outs acc)) \<longleftrightarrow>
   PutTransition k rec \<in> set (batch acc)"
  by (induction cfg bh height txid ti n outs acc rule: create_outputs.induct) (simp_all add: Let_def)

lemma apply_tx_puts:
  assumes step: "apply_tx E cfg db bh height tx_index tx acc = Inr acc'" and wf: "wf_tx tx"
    and put: "PutTransition k rec \<in> set (batch acc')"
  shows "PutTransition k rec \<in> set (batch acc) \<or> verified_transition E cfg bh height (acc_ledger db acc) tx k rec"
proof -
  let ?t = "compute_txid E tx"
  from step obtain recs acc1 acc2 and disc :: tx_discovery where
    recs: "list_all2 (\<lambda>i rec. resolve_input db (overlay acc) i = Inr rec) (tx_input tx) recs"
    and disc: "discover E tx = Inr disc"
    and t: "index_transitions E cfg bh height tx ?t tx_index recs (consumed_issuers disc) acc = Inr acc1"
    and s: "spend_inputs (zip (tx_input tx) recs) acc1 = Inr acc2"
    and acc': "create_outputs cfg bh height ?t tx_index 0 (tx_output tx)
      (put_transaction cfg bh height ?t tx_index acc2) = acc'"
    unfolding apply_tx_Inr by blast
  have "PutTransition k rec \<in> set (batch acc1)"
    using put spend_inputs_puts [OF s] unfolding acc' [symmetric] create_outputs_puts
    by (auto simp: put_transaction_def)
  moreover have "acc_ledger db acc (ds_outpoint d) = Some (output_of prev)"
    if d: "d \<in> set (consumed_issuers disc)"
      and p: "ds_input_index d < length recs" "recs ! ds_input_index d = Some prev" for d prev
  proof -
    from d obtain n where n: "n < length (tx_input tx)" "ds_outpoint d = previous_output (tx_input tx ! n)"
      "ds_input_index d = n"
      unfolding set_discover_inputs [OF discover_Inr(1) [OF disc]]
      by (metis add_0 discovered_issuer_spend.select_convs(1,2))
    then have "resolve_input db (overlay acc) (tx_input tx ! n) = Inr (Some prev)"
      using recs p by (simp add: list_all2_conv_all_nth)
    from resolve_input_current [OF this] n wf show ?thesis
      by (auto simp: acc_ledger_def wf_tx_def split: if_split_asm)
  qed
  ultimately show ?thesis using index_transitions_puts [OF t] by blast
qed

lemma apply_txs_puts:
  assumes "apply_txs E cfg db bh height k txs acc = Inr acc'" "txid_32 E" "overlay_ok db acc"
    and "\<forall>tx \<in> set txs. wf_tx tx" "PutTransition key rec \<in> set (batch acc')"
  shows "PutTransition key rec \<in> set (batch acc) \<or>
    (\<exists>n < length txs. \<exists>U. ledger_txs E (take n txs) (acc_ledger db acc) = Some U
      \<and> verified_transition E cfg bh height U (txs ! n) key rec)"
  using assms
proof (induction txs arbitrary: k acc)
  case (Cons tx txs)
  then obtain acc1 where 1: "apply_tx E cfg db bh height (word_of_nat k) tx acc = Inr acc1"
    and 2: "apply_txs E cfg db bh height (Suc k) txs acc1 = Inr acc'" by (auto simp: result_simps)
  have wf: "wf_tx tx" using Cons.prems(4) by simp
  note led = apply_tx_ledger [OF 1 Cons.prems(2,3) wf]
  have "PutTransition key rec \<in> set (batch acc1) \<or>
      (\<exists>n < length txs. \<exists>U. ledger_txs E (take n txs) (acc_ledger db acc1) = Some U
        \<and> verified_transition E cfg bh height U (txs ! n) key rec)"
    using Cons.IH [OF 2 Cons.prems(2)] led Cons.prems(4,5) by simp
  then show ?case
  proof (elim disjE exE conjE)
    assume "PutTransition key rec \<in> set (batch acc1)"
    from apply_tx_puts [OF 1 wf this] show ?case by (auto intro!: exI [of _ 0])
  next
    fix n U
    assume "n < length txs" "ledger_txs E (take n txs) (acc_ledger db acc1) = Some U"
      "verified_transition E cfg bh height U (txs ! n) key rec"
    then show ?case using led by (intro disjI2 exI [of _ "Suc n"]) simp
  qed
qed simp

end
