(* ===== verification/Index_Properties.thy ===== *)
theory Index_Properties
  imports Index_Utxo
begin

text \<open>
  The properties of the block index, and the interface a client of it relies on: attaching
  blocks is undone by detaching as many (locale \<open>undoable\<close>).
\<close>

section \<open>Undoable attachment\<close>

locale undoable =
  fixes ok :: "'s \<Rightarrow> bool"
    and admissible :: "'b \<Rightarrow> bool"
    and attach :: "'b \<Rightarrow> 's \<Rightarrow> 's option"
    and detach :: "'s \<Rightarrow> 's option"
  assumes attach_ok: "ok s \<Longrightarrow> admissible b \<Longrightarrow> attach b s = Some s' \<Longrightarrow> ok s'"
    and detach_attach: "ok s \<Longrightarrow> admissible b \<Longrightarrow> attach b s = Some s' \<Longrightarrow> detach s' = Some s"
begin

lemma attach_none: "fold (\<lambda>b m. Option.bind m (attach b)) bs None = None"
  by (induction bs) simp_all

lemma detach_all:
  "ok s \<Longrightarrow> \<forall>b \<in> set bs. admissible b \<Longrightarrow> fold (\<lambda>b m. Option.bind m (attach b)) bs (Some s) = Some s' \<Longrightarrow>
   ((\<lambda>m. Option.bind m detach) ^^ length bs) (Some s') = Some s"
proof (induction bs arbitrary: s)
  case (Cons b bs)
  then obtain s1 where s1: "attach b s = Some s1"
    by (cases "attach b s") (simp_all add: attach_none)
  with Cons.prems have "((\<lambda>m. Option.bind m detach) ^^ length bs) (Some s') = Some s1"
    using Cons.IH attach_ok [OF Cons.prems(1) _ s1] by simp
  then show ?case using detach_attach [OF Cons.prems(1) _ s1] Cons.prems(2) by simp
qed simp

end

text \<open>
  One call of \<open>apply_block_locked\<close> or \<open>rollback_tip_locked\<close>, with only the database that it leaves when it succeeds.
  A block is admissible below the height \<open>u32::MAX\<close>: the expected height saturates there, so that a second
  block is accepted at the same height, and detaching it removes the height entry of the first.
\<close>

definition attach_block :: "bitcoin_env \<Rightarrow> index_config \<Rightarrow> u32 \<times> block \<Rightarrow> index_db \<Rightarrow> index_db option" where
  "attach_block E cfg hb db =
     (case apply_block_locked E cfg (fst hb) (snd hb) db of Inr (db', _) \<Rightarrow> Some db' | Inl _ \<Rightarrow> None)"

definition detach_block :: "index_db \<Rightarrow> index_db option" where
  "detach_block db = (case rollback_tip_locked db of Inr (db', _) \<Rightarrow> Some db' | Inl _ \<Rightarrow> None)"

lemma attach_block_Some:
  "attach_block E cfg hb db = Some db' \<longleftrightarrow> (\<exists>st. apply_block_locked E cfg (fst hb) (snd hb) db = Inr (db', st))"
  by (auto simp: attach_block_def split: sum.split)

interpretation idx: undoable "\<lambda>db. index_inv db \<and> txid_32 E" "\<lambda>hb. fst hb \<noteq> - 1" "attach_block E cfg" detach_block for E cfg
proof (unfold_locales, goal_cases)
  case (1 s b s')
  then show ?case by (auto simp: attach_block_Some dest: index_inv_apply)
next
  case (2 s b s')
  then show ?case by (auto simp: attach_block_Some detach_block_def dest: rollback_apply)
qed

section \<open>Properties\<close>

text \<open>
  Detaching undoes attaching.  On an index that satisfies its invariant, every column
  family, the tip and the undo log are exactly what they were once the attached block has
  been detached again, and \<open>rollback_tip\<close> reports the block that was attached; the
  invariant holds after the attachment, so this extends to any number of blocks.
\<close>

theorem rollback_inverts_apply:
  assumes "index_inv db" and "txid_32 E" and "height \<noteq> - 1"
    and "apply_block_locked E cfg height b db = Inr (db', st)"
  shows "rollback_tip_locked db' = Inr (db, \<lparr>tip_hash = block_hash E b, tip_height = height\<rparr>)
    \<and> index_inv db'"
  using rollback_apply [OF assms] index_inv_apply [OF assms] by simp

text \<open>
  C3: attaching any list of blocks at heights below \<open>u32::MAX\<close> and then detaching as many restores the database
  exactly.
\<close>

theorem detach_undoes_attached_blocks:
  assumes "index_inv db" and "txid_32 E" and "\<forall>hb \<in> set bs. fst hb \<noteq> - 1"
    and "fold (\<lambda>hb m. Option.bind m (attach_block E cfg hb)) bs (Some db) = Some db'"
  shows "((\<lambda>m. Option.bind m detach_block) ^^ length bs) (Some db') = Some db"
  using idx.detach_all [where E = E and cfg = cfg] assms by blast

text \<open>
  C19: the index depends on the canonical chain only.  After any sequence of opening,
  attaching, detaching, rolling back, reorganising and checkpointing, including calls that
  fail half-way, in which no block is handed in at the height \<open>u32::MAX\<close>, the database is the one obtained by attaching some list of blocks to the
  empty index: the tip is the last of them, blocks are found by hash and by height exactly
  when they are in the list, and their hashes are distinct.
\<close>

theorem index_is_replay_of_chain:
  assumes "index_run E hs ix" and "txid_32 E" and "- 1 \<notin> set hs"
  shows "\<exists>bs. chain_of E (ix_config ix) (ix_db ix) bs \<and> chain_shape E (ix_db ix) bs"
  using index_run_chain [OF assms] chain_of_shape assms(2) by blast

text \<open>
  C20: rolling back to an ancestor returns, although its loop has no bound of its own: for
  a block of the chain it succeeds and leaves the replay of the chain up to that block, and
  for any other hash it reports an unknown ancestor and changes nothing.
\<close>

theorem rollback_to_exact:
  assumes "chain_of E cfg db bs" and "txid_32 E"
  shows "(\<forall>i < length bs. \<exists>db'. rollback_to_locked (block_hash E (snd (bs ! i))) db = Some (Inr (), db')
      \<and> chain_of E cfg db' (take (Suc i) bs))
    \<and> (\<forall>a. a \<notin> (\<lambda>(h, b). block_hash E b) ` set bs \<longrightarrow>
      rollback_to_locked a db = Some (Inl (UnknownAncestor a), db))"
  using rollback_to_ancestor [OF assms] rollback_to_unknown [OF assms] by blast

text \<open>
  C21: a reorganisation to a branch of blocks below the height \<open>u32::MAX\<close> always returns and leaves the replay of some chain; when it
  succeeds, that chain is the old one up to the ancestor followed by the whole replacement
  branch.
\<close>

theorem reorganize_exact:
  assumes "chain_of E cfg db bs" and "txid_32 E" and "\<forall>(h, b) \<in> set rep. h \<noteq> - 1"
  shows "\<exists>r db' bs'. reorganize_locked E cfg a rep db = Some (r, db') \<and> chain_of E cfg db' bs'
    \<and> (r = Inr () \<longrightarrow> (\<exists>i < length bs. a = block_hash E (snd (bs ! i)) \<and> bs' = take (Suc i) bs @ rep))"
  by (rule reorganize_chain [OF assms])

text \<open>
  C7: attaching a block moves the abstract ledger by its transactions in order: each
  spends outputs that are unspent at that point, without repetition, and adds its own.
\<close>

theorem apply_block_refines_ledger:
  assumes "apply_block_locked E cfg height b db = Inr (db', st)" and "txid_32 E"
    and "\<forall>tx \<in> set (txdata b). wf_tx tx"
  shows "ledger_txs E (txdata b) (ledger_of db) = Some (ledger_of db')"
  by (rule apply_block_ledger [OF assms])

text \<open>
  C22: every issuance transition that a block adds was accepted by the mint verifier under
  configured terms, against the output that the ledger holds at that point of the block for
  the spent outpoint, and the stored record is the one derived from that verification.
\<close>

theorem indexed_transitions_are_verified:
  assumes "apply_block_locked E cfg height b db = Inr (db', st)" and "txid_32 E"
    and "\<forall>tx \<in> set (txdata b). wf_tx tx"
    and "cf_transitions db' k = Some rec" and "cf_transitions db k \<noteq> Some rec"
  shows "\<exists>n < length (txdata b). \<exists>U. ledger_txs E (take n (txdata b)) (ledger_of db) = Some U
    \<and> verified_transition E cfg (block_hash E b) height U (txdata b ! n) k rec"
proof -
  from assms(1) obtain acc where
    txs: "apply_txs E cfg db (block_hash E b) height 0 (txdata b) apply_acc_init = Inr acc"
    and db': "db' = write_batch (finish_batch E db height b acc) db"
    by (auto simp: apply_block_locked_Inr)
  from write_batch_transition [OF assms(4) [unfolded db']] assms(5)
  have "PutTransition k rec \<in> set (batch acc)" by (simp add: finish_batch_def Let_def)
  from apply_txs_puts [OF txs assms(2) overlay_ok_init assms(3) this] show ?thesis
    by (simp add: acc_ledger_init) (simp add: apply_acc_init_def)
qed

lemma apply_txs_append:
  "apply_txs E cfg db bh height k (xs @ ys) acc =
     rbind (apply_txs E cfg db bh height k xs acc) (apply_txs E cfg db bh height (k + length xs) ys)"
proof (induction xs arbitrary: k acc)
  case (Cons x xs)
  then show ?case by (cases "apply_tx E cfg db bh height (word_of_nat k) x acc") simp_all
qed simp

lemma ledger_txs_snoc: "ledger_txs E (txs @ [tx]) U = Option.bind (ledger_txs E txs U) (ledger_tx E tx)"
  by (induction txs arbitrary: U) (simp_all split: Option.bind_split)

lemma apply_tx_panics:
  assumes "ledger_tx E tx (acc_ledger db acc) \<noteq> None" and "discover E tx = Inl Panic"
  shows "apply_tx E cfg db bh height k tx acc = Inl IndexPanic"
proof -
  have "\<exists>r. resolve_input db (overlay acc) j = Inr r" if j: "j \<in> set (tx_input tx)" for j
  proof (cases "is_null_outpoint (previous_output j)")
    case False
    with j have "previous_output j \<in> set (tx_prevouts tx)" by (simp add: tx_prevouts_def)
    with assms(1) have "acc_ledger db acc (previous_output j) \<noteq> None" by (simp add: ledger_tx_def split: if_split_asm)
    then have "current db acc (previous_output j) \<noteq> None" by (simp add: acc_ledger_def split: if_split_asm)
    with False show ?thesis
      by (auto simp: current_def resolve_input_def resolve_overlay_utxo_def ok_or_def split: option.splits)
  qed (simp add: resolve_input_def)
  then obtain f where "\<And>j. j \<in> set (tx_input tx) \<Longrightarrow> resolve_input db (overlay acc) j = Inr (f j)"
    by metis
  then have "rmap (resolve_input db (overlay acc)) (tx_input tx) = Inr (map f (tx_input tx))"
    by (rule rmap_ok)
  moreover have "check_unique_inputs [] (tx_input tx) = Inr ()"
    using assms(1) by (auto simp: check_unique_inputs_Inr ledger_tx_def tx_prevouts_def split: if_split_asm)
  ultimately show ?thesis using assms(2) by (simp add: apply_tx_def Let_def)
qed

text \<open>
  C23: a witness on which the script parser panics stops the indexer for good.  Take a block that extends the
  tip and any transaction of it, the coinbase or a later one, that spends outputs unspent at its place in the block and whose
  predecessors in the block are indexed without error.  If one of its inputs reveals such a script, attaching the block aborts
  and poisons the writer lock, and every later write is refused.
\<close>

theorem panicking_witness_poisons_indexer:
  assumes "\<not> poisoned ix" and "check_attach E (ix_db ix) height b = Inr ()"
    and b: "txdata b = pre @ tx # rest" and "txid_32 E" and "\<forall>t \<in> set pre. wf_tx t"
    and pre: "is_ok (apply_txs E (ix_config ix) (ix_db ix) (block_hash E b) height 0 pre apply_acc_init)"
    and "ledger_txs E (pre @ [tx]) (ledger_of (ix_db ix)) \<noteq> None"
    and "i \<in> set (tx_input tx)" "2 \<le> length (witness i)"
    and "parse_issuer_script (witness i ! (length (witness i) - 2)) = Inl Panic"
  shows "\<exists>ix'. apply_block E height b ix = (Inl IndexPanic, ix') \<and> ix_db ix' = ix_db ix
    \<and> apply_block E h c ix' = (Inl WriterPoisoned, ix') \<and> rollback_tip ix' = (Inl WriterPoisoned, ix')
    \<and> rollback_to a ix' = Some (Inl WriterPoisoned, ix')
    \<and> reorganize E a rep ix' = Some (Inl WriterPoisoned, ix')
    \<and> create_checkpoint l ix' = (Inl WriterPoisoned, ix')"
proof -
  obtain acc where acc: "apply_txs E (ix_config ix) (ix_db ix) (block_hash E b) height 0 pre apply_acc_init = Inr acc"
    using pre by (auto simp: is_ok_iff)
  have "ledger_txs E pre (ledger_of (ix_db ix)) = Some (acc_ledger (ix_db ix) acc)"
    using apply_txs_ledger [OF acc assms(4) overlay_ok_init assms(5)] by (simp add: acc_ledger_init)
  then have "ledger_tx E tx (acc_ledger (ix_db ix) acc) \<noteq> None"
    using assms(7) by (simp add: ledger_txs_snoc)
  moreover have "discover E tx = Inl Panic"
    using assms(8,9,10) discover_inputs_panics [of 0 "tx_input tx"] by (auto simp: discover_def)
  ultimately have "apply_tx E (ix_config ix) (ix_db ix) (block_hash E b) height k tx acc = Inl IndexPanic" for k
    by (rule apply_tx_panics)
  then have "apply_block_locked E (ix_config ix) height b (ix_db ix) = Inl IndexPanic"
    using assms(2) by (simp add: apply_block_locked_def b apply_txs_append acc)
  then have "apply_block E height b ix = (Inl IndexPanic, ix\<lparr>poisoned := True\<rparr>)"
    using assms(1) by (simp add: apply_block_def release_def)
  then show ?thesis
    by (intro exI [of _ "ix\<lparr>poisoned := True\<rparr>"])
      (simp add: apply_block_def rollback_tip_def rollback_to_def reorganize_def create_checkpoint_def)
qed

section \<open>Sample blocks\<close>

definition sample_config :: index_config where
  "sample_config = index_config_new sample_env ''wallet-policy-v1'' [sample_terms]"

definition sample_open_db :: index_db where
  "sample_open_db = empty_db\<lparr>meta_schema := Some SCHEMA_VERSION\<rparr>"

definition sample_coinbase :: "bytes list \<Rightarrow> transaction" where
  "sample_coinbase w = \<lparr>tx_version = version_two, lock_time = 0,
     tx_input = [\<lparr>previous_output = null_outpoint, script_sig = [], sequence = sequence_max, witness = w\<rparr>],
     tx_output = [sample_issuer_utxo]\<rparr>"

definition sample_genesis :: "bytes list \<Rightarrow> block" where
  "sample_genesis w = \<lparr>prev_blockhash = all_zeros, txdata = [sample_coinbase w]\<rparr>"

lemma sample_txid_32 [simp]: "txid_32 sample_env"
  by (simp add: txid_32_def sample_env_def)

lemma sample_chain_start: "chain_of sample_env sample_config sample_open_db []"
  by (rule chain_start) (simp add: initialize_schema_def sample_open_db_def empty_db_def)

lemma sample_open_inv [simp]: "index_inv sample_open_db"
  by (rule chain_of_inv [OF sample_chain_start sample_txid_32])

lemma sample_check_attach: "check_attach E sample_open_db 0 (sample_genesis w) = Inr ()"
  by (simp add: check_attach_def sample_open_db_def empty_db_def index_tip_def block_of_def sample_genesis_def)

lemma sample_coinbase_inputs:
  "check_unique_inputs [] (tx_input (sample_coinbase w)) = Inr ()"
  "rmap (resolve_input db ov) (tx_input (sample_coinbase w)) = Inr [None]"
  by (simp_all add: sample_coinbase_def is_null_outpoint_def resolve_input_def)

lemma sample_coinbase_applies:
  "\<exists>acc. apply_tx sample_env sample_config sample_open_db bh 0 0 (sample_coinbase []) apply_acc_init = Inr acc"
proof -
  have "discover sample_env (sample_coinbase []) = Inr \<lparr>td_txid = compute_txid sample_env (sample_coinbase []),
      consumed_issuers = [], p2tr_candidates = []\<rparr>"
    by (simp add: discover_def sample_coinbase_def)
  then show ?thesis
    by (simp add: apply_tx_def Let_def sample_coinbase_inputs)
      (simp add: sample_coinbase_def is_null_outpoint_def)
qed

lemma sample_genesis_applies:
  "\<exists>db' st. apply_block_locked sample_env sample_config 0 (sample_genesis []) sample_open_db = Inr (db', st)"
proof -
  obtain acc where "apply_tx sample_env sample_config sample_open_db
      (block_hash sample_env (sample_genesis [])) 0 0 (sample_coinbase []) apply_acc_init = Inr acc"
    using sample_coinbase_applies by blast
  then have "apply_txs sample_env sample_config sample_open_db (block_hash sample_env (sample_genesis [])) 0 0
      (txdata (sample_genesis [])) apply_acc_init = Inr acc"
    by (simp add: sample_genesis_def)
  then show ?thesis by (simp add: apply_block_locked_def sample_check_attach)
qed

theorem rollback_inverts_apply_witness:
  "\<exists>db' st. apply_block_locked sample_env sample_config 0 (sample_genesis []) sample_open_db = Inr (db', st)
     \<and> rollback_tip_locked db' = Inr (sample_open_db,
         \<lparr>tip_hash = block_hash sample_env (sample_genesis []), tip_height = 0\<rparr>)"
  using sample_genesis_applies rollback_inverts_apply [OF sample_open_inv sample_txid_32, of 0] by fastforce

theorem detach_undoes_attached_blocks_witness:
  "\<exists>db'. fold (\<lambda>hb m. Option.bind m (attach_block sample_env sample_config hb)) [(0, sample_genesis [])]
       (Some sample_open_db) = Some db'
     \<and> ((\<lambda>m. Option.bind m detach_block) ^^ 1) (Some db') = Some sample_open_db"
proof -
  obtain db' where "fold (\<lambda>hb m. Option.bind m (attach_block sample_env sample_config hb)) [(0, sample_genesis [])]
       (Some sample_open_db) = Some db'"
    using sample_genesis_applies by (auto simp: attach_block_def)
  with detach_undoes_attached_blocks [OF sample_open_inv sample_txid_32 _ this] show ?thesis by simp
qed

lemma sample_open: "index_open empty_db sample_config = Inr \<lparr>ix_db = sample_open_db, ix_config = sample_config, poisoned = False\<rparr>"
  by (simp add: index_open_def initialize_schema_def sample_open_db_def empty_db_def)

theorem index_is_replay_of_chain_witness:
  "\<exists>ix bs hs. index_run sample_env hs ix \<and> index_tip (ix_db ix) \<noteq> None
     \<and> chain_of sample_env (ix_config ix) (ix_db ix) bs \<and> chain_shape sample_env (ix_db ix) bs"
proof -
  let ?ix = "\<lparr>ix_db = sample_open_db, ix_config = sample_config, poisoned = False\<rparr>"
  obtain db' st where
    ok: "apply_block_locked sample_env sample_config 0 (sample_genesis []) sample_open_db = Inr (db', st)"
    using sample_genesis_applies by blast
  have run: "index_run sample_env [] ?ix" by (rule run_open [OF sample_open])
  have "apply_block sample_env 0 (sample_genesis []) ?ix = (Inr st, ?ix\<lparr>ix_db := db'\<rparr>)"
    by (simp add: apply_block_def ok release_def)
  from run_apply [OF run this] have "index_run sample_env [0] (?ix\<lparr>ix_db := db'\<rparr>)" .
  moreover from this have "\<exists>bs. chain_of sample_env (ix_config (?ix\<lparr>ix_db := db'\<rparr>)) (ix_db (?ix\<lparr>ix_db := db'\<rparr>)) bs
      \<and> chain_shape sample_env (ix_db (?ix\<lparr>ix_db := db'\<rparr>)) bs"
    by (rule index_is_replay_of_chain) simp_all
  moreover have "index_tip db' \<noteq> None" using apply_block_fields(3) [OF sample_open_inv ok] by (simp add: index_tip_def)
  ultimately show ?thesis by (metis indexer.update_convs(1) indexer.select_convs(1))
qed

lemma sample_chain_one:
  obtains db where "chain_of sample_env sample_config db [(0, sample_genesis [])]"
proof -
  obtain db' st where
    ok: "apply_block_locked sample_env sample_config 0 (sample_genesis []) sample_open_db = Inr (db', st)"
    using sample_genesis_applies by blast
  from chain_attach [OF sample_chain_start _ ok] show thesis by (intro that [of db']) simp
qed

theorem rollback_to_exact_witness:
  "\<exists>db db'. chain_of sample_env sample_config db [(0, sample_genesis [])]
     \<and> rollback_to_locked (block_hash sample_env (sample_genesis [])) db = Some (Inr (), db')
     \<and> rollback_to_locked [] db = Some (Inl (UnknownAncestor []), db)"
proof -
  obtain db where db: "chain_of sample_env sample_config db [(0, sample_genesis [])]" by (rule sample_chain_one)
  have "block_hash sample_env (sample_genesis []) \<noteq> []" by (simp add: sample_env_def)
  then have "rollback_to_locked [] db = Some (Inl (UnknownAncestor []), db)"
    using rollback_to_exact [OF db sample_txid_32] by simp
  moreover obtain db' where "rollback_to_locked (block_hash sample_env (sample_genesis [])) db = Some (Inr (), db')"
    using conjunct1 [OF rollback_to_exact [OF db sample_txid_32]] by auto
  ultimately show ?thesis using db by blast
qed

theorem reorganize_exact_witness:
  "\<exists>db r db'. chain_of sample_env sample_config db [(0, sample_genesis [])]
     \<and> reorganize_locked sample_env sample_config (block_hash sample_env (sample_genesis [])) [] db = Some (r, db')"
proof -
  obtain db where db: "chain_of sample_env sample_config db [(0, sample_genesis [])]" by (rule sample_chain_one)
  have "\<forall>(h, b) \<in> set []. h \<noteq> (- 1 :: u32)" by simp
  from reorganize_exact [OF db sample_txid_32 this, of "block_hash sample_env (sample_genesis [])"] db
  show ?thesis by blast
qed

lemma sample_genesis_wf: "\<forall>tx \<in> set (txdata (sample_genesis w)). wf_tx tx"
  by (simp add: sample_genesis_def sample_coinbase_def wf_tx_def wf_outpoint_def null_outpoint_def)

theorem apply_block_refines_ledger_witness:
  "\<exists>db' st. apply_block_locked sample_env sample_config 0 (sample_genesis []) sample_open_db = Inr (db', st)
     \<and> ledger_txs sample_env (txdata (sample_genesis [])) (ledger_of sample_open_db) = Some (ledger_of db')"
  using sample_genesis_applies apply_block_refines_ledger [OF _ sample_txid_32 sample_genesis_wf] by blast

text \<open>A block whose second transaction spends the coinbase output and reveals a script on which the parser panics.\<close>

definition sample_panic_tx :: transaction where
  "sample_panic_tx = \<lparr>tx_version = version_two, lock_time = 0,
     tx_input = [\<lparr>previous_output = mk_outpoint (compute_txid sample_env (sample_coinbase [])) 0, script_sig = [],
       sequence = sequence_max, witness = [0x32 # replicate 50 0, []]\<rparr>],
     tx_output = []\<rparr>"

definition sample_panic_block :: block where
  "sample_panic_block = \<lparr>prev_blockhash = all_zeros, txdata = [sample_coinbase [], sample_panic_tx]\<rparr>"

lemma sample_panic_script: "parse_issuer_script (0x32 # replicate 50 0) = Inl Panic"
proof -
  have "parse_consts 5 (0x32 # replicate 50 0) 0 [] = Inl Panic"
    unfolding parse_consts_panic [OF le0]
    by (intro exI [of _ "[replicate 50 0]"]) (simp add: pushable_def direct_push_def)
  then show ?thesis by (simp add: parse_issuer_script_def expected_const_len_def)
qed

lemma sample_panic_ledger: "ledger_txs sample_env [sample_coinbase [], sample_panic_tx] U \<noteq> None"
proof -
  have "tx_prevouts (sample_coinbase []) = []" "length (tx_output (sample_coinbase [])) = 1"
    by (simp_all add: tx_prevouts_def sample_coinbase_def is_null_outpoint_def)
  moreover have "set (tx_prevouts sample_panic_tx) \<subseteq> {mk_outpoint (compute_txid sample_env (sample_coinbase [])) 0}"
    "distinct (tx_prevouts sample_panic_tx)"
    by (auto simp: tx_prevouts_def sample_panic_tx_def)
  ultimately show ?thesis by (auto simp: ledger_tx_def)
qed

lemma sample_panic_attach: "check_attach sample_env sample_open_db 0 sample_panic_block = Inr ()"
  by (simp add: check_attach_def sample_open_db_def empty_db_def index_tip_def block_of_def sample_panic_block_def
      sample_panic_tx_def sample_coinbase_def) (simp add: sample_env_def)

theorem panicking_witness_poisons_indexer_witness:
  "\<exists>ix'. apply_block sample_env 0 sample_panic_block
       \<lparr>ix_db = sample_open_db, ix_config = sample_config, poisoned = False\<rparr> = (Inl IndexPanic, ix')
     \<and> rollback_tip ix' = (Inl WriterPoisoned, ix')"
proof -
  let ?ix = "\<lparr>ix_db = sample_open_db, ix_config = sample_config, poisoned = False\<rparr>"
  define i where "i = hd (tx_input sample_panic_tx)"
  then have i: "i \<in> set (tx_input sample_panic_tx)" "2 \<le> length (witness i)"
    "parse_issuer_script (witness i ! (length (witness i) - 2)) = Inl Panic"
    using sample_panic_script by (simp_all add: sample_panic_tx_def)
  have wf: "\<forall>t \<in> set [sample_coinbase []]. wf_tx t"
    by (simp add: sample_coinbase_def wf_tx_def wf_outpoint_def null_outpoint_def)
  have pre: "is_ok (apply_txs sample_env (ix_config ?ix) (ix_db ?ix) (block_hash sample_env sample_panic_block) 0 0
      [sample_coinbase []] apply_acc_init)"
    using sample_coinbase_applies [of "block_hash sample_env sample_panic_block"] by auto
  have "\<not> poisoned ?ix" "check_attach sample_env (ix_db ?ix) 0 sample_panic_block = Inr ()"
    "txdata sample_panic_block = [sample_coinbase []] @ sample_panic_tx # []"
    using sample_panic_attach by (simp_all, simp add: sample_panic_block_def)
  from panicking_witness_poisons_indexer [OF this sample_txid_32 wf pre _ i] sample_panic_ledger
  show ?thesis by simp blast
qed

text \<open>A block whose only transaction mints from an issuer output that is already indexed.\<close>

definition sample_issuer_outpoint :: out_point where
  "sample_issuer_outpoint = mk_outpoint (replicate 32 9) 0"

definition sample_issuer_record :: utxo_record where
  "sample_issuer_record = utxo_record_of sample_config (replicate 32 8) 0 (replicate 32 9) 0 0 sample_issuer_utxo"

definition sample_issuer_db :: index_db where
  "sample_issuer_db = sample_open_db\<lparr>cf_utxos := [outpoint_key sample_issuer_outpoint \<mapsto> sample_issuer_record]\<rparr>"

definition sample_mint_block :: block where
  "sample_mint_block = \<lparr>prev_blockhash = all_zeros, txdata = [sample_mint_tx sample_issuer_outpoint]\<rparr>"

lemma sample_mint_discovered:
  "\<exists>cands. discover sample_env (sample_mint_tx op) =
     Inr \<lparr>td_txid = compute_txid sample_env (sample_mint_tx op),
          consumed_issuers = [\<lparr>ds_outpoint = op, ds_input_index = 0, ds_state = sample_state\<rparr>],
          p2tr_candidates = cands\<rparr>"
proof -
  have "wf_state sample_state" by (simp add: wf_state_def sample_state_def)
  then show ?thesis
    by (simp add: discover_def sample_mint_tx_def mint_stack_def parse_issuer_script_complete)
qed

lemma sample_mint_block_applies:
  "\<exists>db' st k rec. apply_block_locked sample_env sample_config 0 sample_mint_block sample_issuer_db = Inr (db', st)
     \<and> cf_transitions db' k = Some rec"
proof -
  let ?op = sample_issuer_outpoint and ?tx = "sample_mint_tx sample_issuer_outpoint"
  obtain vm where vm: "verify_mint sample_env ?tx ?op sample_issuer_utxo sample_terms = Inr vm"
    by (rule sample_mint_tx_accepted)
  have nn: "\<not> is_null_outpoint ?op" by (simp add: is_null_outpoint_def sample_issuer_outpoint_def null_outpoint_def)
  have ins: "tx_input ?tx = [\<lparr>previous_output = ?op, script_sig = [], sequence = sequence_max,
      witness = mint_stack sample_state sample_mint_witness []\<rparr>]" by (simp add: sample_mint_tx_def)
  have utxo: "utxo_of sample_issuer_db ?op = Some sample_issuer_record"
    by (simp add: sample_issuer_db_def utxo_of_def)
  have out: "mk_txout (value_sat sample_issuer_record) (ur_script_pubkey sample_issuer_record) = sample_issuer_utxo"
    by (simp add: sample_issuer_record_def utxo_record_of_def)
  have terms: "map_of (ic_issuance_terms sample_config) (terms_hash sample_state) = Some sample_terms"
    by (simp add: sample_config_def index_config_new_def bt_collect_def terms_hash_of_def sample_state_def)
      (simp add: sample_env_def)
  obtain cands where disc: "discover sample_env ?tx = Inr \<lparr>td_txid = compute_txid sample_env ?tx,
      consumed_issuers = [\<lparr>ds_outpoint = ?op, ds_input_index = 0, ds_state = sample_state\<rparr>],
      p2tr_candidates = cands\<rparr>" using sample_mint_discovered by blast
  have att: "check_attach sample_env sample_issuer_db 0 sample_mint_block = Inr ()"
    by (simp add: check_attach_def sample_issuer_db_def sample_open_db_def empty_db_def index_tip_def
        block_of_def sample_mint_block_def)
  have tr: "\<exists>acc1 k rec. index_transitions sample_env sample_config bh 0 ?tx (compute_txid sample_env ?tx) 0
      [Some sample_issuer_record] [\<lparr>ds_outpoint = ?op, ds_input_index = 0, ds_state = sample_state\<rparr>]
      apply_acc_init = Inr acc1 \<and> batch acc1 = [PutTransition k rec]" for bh
    by (simp add: terms out vm Let_def apply_acc_init_def)
  have "\<exists>acc. apply_tx sample_env sample_config sample_issuer_db bh 0 0 ?tx apply_acc_init = Inr acc
      \<and> (\<exists>k rec. cf_transitions (write_batch (batch acc) sample_issuer_db) k = Some rec)" for bh
  proof -
    obtain acc1 k rec where acc1: "index_transitions sample_env sample_config bh 0 ?tx (compute_txid sample_env ?tx) 0
      [Some sample_issuer_record] [\<lparr>ds_outpoint = ?op, ds_input_index = 0, ds_state = sample_state\<rparr>]
      apply_acc_init = Inr acc1" "batch acc1 = [PutTransition k rec]" using tr by blast
    have rm: "check_unique_inputs [] (tx_input ?tx) = Inr ()"
      "rmap (resolve_input sample_issuer_db (overlay apply_acc_init)) (tx_input ?tx) = Inr [Some sample_issuer_record]"
      using nn utxo by (simp_all add: ins resolve_input_def resolve_overlay_utxo_def apply_acc_init_def)
    have "apply_tx sample_env sample_config sample_issuer_db bh 0 0 ?tx apply_acc_init =
        rbind (spend_inputs (zip (tx_input ?tx) [Some sample_issuer_record]) acc1) (\<lambda>acc2.
          Inr (create_outputs sample_config bh 0 (compute_txid sample_env ?tx) 0 0 (tx_output ?tx)
            (put_transaction sample_config bh 0 (compute_txid sample_env ?tx) 0 acc2)))"
      by (simp add: apply_tx_def Let_def disc acc1(1) rm del: index_transitions.simps spend_inputs.simps)
    moreover have "tx_output ?tx = [mk_txout 1000 (p2tr_output_script (replicate 32 3)),
        mk_txout 8000 (p2tr_output_script (replicate 32 5))]" by (simp add: sample_mint_tx_def)
    ultimately show ?thesis
      using nn acc1(2) by (simp add: ins Let_def put_transaction_def write_batch_Cons) blast
  qed
  then obtain acc k rec where acc: "apply_tx sample_env sample_config sample_issuer_db
      (block_hash sample_env sample_mint_block) 0 0 ?tx apply_acc_init = Inr acc"
    and rec: "cf_transitions (write_batch (batch acc) sample_issuer_db) k = Some rec" by blast
  have "apply_block_locked sample_env sample_config 0 sample_mint_block sample_issuer_db =
      Inr (write_batch (finish_batch sample_env sample_issuer_db 0 sample_mint_block acc) sample_issuer_db, stats acc)"
    by (simp add: apply_block_locked_def att) (simp add: sample_mint_block_def acc [unfolded sample_mint_block_def])
  moreover have "cf_transitions (write_batch (finish_batch sample_env sample_issuer_db 0 sample_mint_block acc)
      sample_issuer_db) k = Some rec" by (simp add: finish_batch_write Let_def rec)
  ultimately show ?thesis by blast
qed

theorem indexed_transitions_are_verified_witness:
  "\<exists>db' st k rec U. apply_block_locked sample_env sample_config 0 sample_mint_block sample_issuer_db = Inr (db', st)
     \<and> cf_transitions db' k = Some rec
     \<and> verified_transition sample_env sample_config (block_hash sample_env sample_mint_block) 0 U
         (sample_mint_tx sample_issuer_outpoint) k rec"
proof -
  obtain db' st k rec where
    ok: "apply_block_locked sample_env sample_config 0 sample_mint_block sample_issuer_db = Inr (db', st)"
    and rec: "cf_transitions db' k = Some rec" using sample_mint_block_applies by blast
  have wf: "\<forall>tx \<in> set (txdata sample_mint_block). wf_tx tx"
    by (simp add: sample_mint_block_def sample_mint_tx_def wf_tx_def wf_outpoint_def sample_issuer_outpoint_def)
  have new: "cf_transitions sample_issuer_db k \<noteq> Some rec"
    by (simp add: sample_issuer_db_def sample_open_db_def empty_db_def)
  from indexed_transitions_are_verified [OF ok sample_txid_32 wf rec new] ok rec
  show ?thesis by (auto simp: sample_mint_block_def)
qed

end
