(* ===== verification/Trading_Listing.thy ===== *)
theory Trading_Listing
  imports Issuance_Discovery
begin

text \<open>
  \<open>crates/trading/src/lib.rs\<close>, first part: item receipts, listing terms with their
  validation, canonical encoding and commitment, the two Taproot leaves of an order and the
  requests.  \<open>TradePanic\<close> is added to the error type for the panics the mint verifier and
  the \<open>unwrap\<close> calls may raise.
\<close>

section \<open>Errors and receipts\<close>

definition LISTING_TAG :: bytes where "LISTING_TAG = ascii ''catomicals/fixed-price-listing/v1'' @ [0]"
definition BUYER_TAG :: bytes where "BUYER_TAG = ascii ''catomicals/buyer-ownership/v1'' @ [0]"

datatype network = Signet

datatype trade_error =
    UnsupportedVersion
  | WrongNetwork
  | InvalidAmount
  | InvalidRule
  | InvalidScript
  | ReceiptOwnerMismatch
  | InvalidReceipt
  | InvalidListingLineage
  | InvalidRawTransaction
  | PartiallySigned
  | InvalidTransactionHeader
  | InvalidInputs
  | InvalidPrevouts
  | InvalidOutputs
  | InvalidFee
  | Expired
  | CancelNotMature
  | InvalidBuyerProof
  | Taproot
  | FinalTransactionMismatch
  | InvalidSellerSignature
  | WrongCompetitionOutpoint
  | InvalidCandidateState
  | TradePanic

record item_receipt =
  ir_network :: network
  ir_outpoint :: out_point
  ir_script_pubkey :: bytes
  item_sat_amount :: u64
  ir_terms_hash :: bytes
  ir_item_id :: bytes
  ir_item_commitment :: bytes
  ir_lane :: u8
  ir_sequence :: u32

definition from_verified_mint ::
    "bitcoin_env \<Rightarrow> transaction \<Rightarrow> verified_mint \<Rightarrow> issuance_terms \<Rightarrow> (trade_error, item_receipt) rresult" where
  "from_verified_mint E mint_tx vm terms =
     (if terms_hash (vm_issuer_state vm) \<noteq> terms_hash_of E terms
         \<or> item_output_index vm \<ge> length (tx_output mint_tx)
         \<or> tx_output mint_tx ! item_output_index vm \<noteq> item_output vm
      then Inl InvalidReceipt
      else if item_output_index vm \<ge> 2 ^ 32 then Inl InvalidReceipt
      else Inr \<lparr>ir_network = Signet,
        ir_outpoint = mk_outpoint (compute_txid E mint_tx) (word_of_nat (item_output_index vm)),
        ir_script_pubkey = script_pubkey (item_output vm), item_sat_amount = out_value (item_output vm),
        ir_terms_hash = terms_hash (vm_issuer_state vm), ir_item_id = item_id terms,
        ir_item_commitment = mw_item_commitment (vm_witness vm), ir_lane = lane (vm_issuer_state vm),
        ir_sequence = seq (vm_issuer_state vm)\<rparr>)"

definition receipt_txout :: "item_receipt \<Rightarrow> tx_out" where
  "receipt_txout r = mk_txout (item_sat_amount r) (ir_script_pubkey r)"

section \<open>Listings\<close>

record listing_terms =
  protocol_version :: u16
  lt_network :: network
  receipt :: item_receipt
  seller_key :: bytes
  seller_payout_script :: bytes
  price_sat :: u64
  creator_fee_script :: bytes
  creator_fee_sat :: u64
  cancel_script :: bytes
  expiry_height :: u32
  max_network_fee_sat :: u64

definition LOCK_TIME_THRESHOLD :: u32 where "LOCK_TIME_THRESHOLD = 500000000"

definition validate :: "listing_terms \<Rightarrow> (trade_error, unit) rresult" where
  "validate l =
     (if protocol_version l \<noteq> 1 then Inl UnsupportedVersion
      else if lt_network l \<noteq> Signet \<or> ir_network (receipt l) \<noteq> Signet then Inl WrongNetwork
      else if item_sat_amount (receipt l) = 0 \<or> price_sat l = 0 \<or> creator_fee_sat l = 0 then Inl InvalidAmount
      else if expiry_height l = 0 \<or> expiry_height l \<ge> LOCK_TIME_THRESHOLD \<or> max_network_fee_sat l = 0
      then Inl InvalidRule
      else if seller_payout_script l = [] \<or> creator_fee_script l = [] \<or> cancel_script l = []
         \<or> seller_payout_script l = creator_fee_script l then Inl InvalidScript
      else if ir_script_pubkey (receipt l) \<noteq> item_owner_script (seller_key l) then Inl ReceiptOwnerMismatch
      else Inr ())"

definition listing_canonical_bytes :: "listing_terms \<Rightarrow> (trade_error, bytes) rresult" where
  "listing_canonical_bytes l =
     rbind (validate l) (\<lambda>_. let r = receipt l in
       Inr (LISTING_TAG @ u16_be (protocol_version l) @ (ascii ''signet'' @ [0])
         @ op_txid (ir_outpoint r) @ u32_be (op_vout (ir_outpoint r))
         @ len_prefixed (ir_script_pubkey r) @ u64_be (item_sat_amount r)
         @ ir_terms_hash r @ ir_item_id r @ ir_item_commitment r @ [ir_lane r] @ u32_be (ir_sequence r)
         @ seller_key l @ len_prefixed (seller_payout_script l) @ u64_be (price_sat l)
         @ len_prefixed (creator_fee_script l) @ u64_be (creator_fee_sat l)
         @ len_prefixed (cancel_script l) @ u32_be (expiry_height l) @ u64_be (max_network_fee_sat l)))"

definition listing_commitment_of :: "bitcoin_env \<Rightarrow> listing_terms \<Rightarrow> (trade_error, bytes) rresult" where
  "listing_commitment_of E l = rbind (listing_canonical_bytes l) (\<lambda>bs. Inr (sha256 E bs))"

section \<open>Leaves and order output\<close>

definition OP_CHECKSIG :: u8 where "OP_CHECKSIG = 0xac"
definition OP_CLTV :: u8 where "OP_CLTV = 0xb1"

definition buy_leaf_script :: "bitcoin_env \<Rightarrow> listing_terms \<Rightarrow> (trade_error, bytes) rresult" where
  "buy_leaf_script E l =
     rbind (listing_commitment_of E l) (\<lambda>c.
       Inr (push_slice E c @ [OP_DROP] @ push_slice E (seller_key l) @ [OP_CHECKSIG]))"

definition cancel_leaf_script :: "bitcoin_env \<Rightarrow> listing_terms \<Rightarrow> (trade_error, bytes) rresult" where
  "cancel_leaf_script E l =
     rbind (listing_commitment_of E l) (\<lambda>c.
       Inr (push_int E (uint (expiry_height l)) @ [OP_CLTV, OP_DROP] @ push_slice E c @ [OP_DROP]
         @ push_slice E (seller_key l) @ [OP_CHECKSIG]))"

text \<open>
  \<open>spend_info\<close> is the finished Taproot tree, given by its two leaves; the output key and the
  control blocks are functions of them.
\<close>

definition spend_info :: "bitcoin_env \<Rightarrow> listing_terms \<Rightarrow> (trade_error, bytes \<times> bytes \<times> bytes) rresult" where
  "spend_info E l =
     rbind (validate l) (\<lambda>_.
     rbind (buy_leaf_script E l) (\<lambda>buy.
     rbind (cancel_leaf_script E l) (\<lambda>cancel.
     rbind (ok_or Taproot (taproot_pair_key E nums_internal_key buy cancel)) (\<lambda>key.
       Inr (buy, cancel, key)))))"

definition listing_output_script :: "bitcoin_env \<Rightarrow> listing_terms \<Rightarrow> (trade_error, bytes) rresult" where
  "listing_output_script E l = rbind (spend_info E l) (\<lambda>(_, _, key). Inr (new_p2tr_tweaked E key))"

definition order_txout :: "bitcoin_env \<Rightarrow> listing_terms \<Rightarrow> (trade_error, tx_out) rresult" where
  "order_txout E l =
     rbind (listing_output_script E l) (\<lambda>spk. Inr (mk_txout (item_sat_amount (receipt l)) spk))"

record listing_artifacts =
  la_canonical_bytes :: bytes
  la_commitment :: bytes
  la_buy_leaf :: bytes
  la_cancel_leaf :: bytes
  la_listing_output :: bytes
  la_order_txout :: tx_out

definition listing_artifacts_new :: "bitcoin_env \<Rightarrow> listing_terms \<Rightarrow> (trade_error, listing_artifacts) rresult" where
  "listing_artifacts_new E l =
     rbind (validate l) (\<lambda>_.
     rbind (listing_canonical_bytes l) (\<lambda>bs.
     rbind (listing_commitment_of E l) (\<lambda>c.
     rbind (buy_leaf_script E l) (\<lambda>buy.
     rbind (cancel_leaf_script E l) (\<lambda>cancel.
     rbind (listing_output_script E l) (\<lambda>out.
     rbind (order_txout E l) (\<lambda>tx.
       Inr \<lparr>la_canonical_bytes = bs, la_commitment = c, la_buy_leaf = buy, la_cancel_leaf = cancel,
            la_listing_output = out, la_order_txout = tx\<rparr>)))))))"

section \<open>Requests\<close>

record issuance_proof =
  raw_mint_tx_hex :: string
  ip_issuer_outpoint :: out_point
  ip_issuer_utxo :: tx_out
  ip_terms :: issuance_terms

record list_request =
  lr_listing :: listing_terms
  lr_issuance_proof :: issuance_proof
  lr_raw_tx_hex :: string
  lr_prevouts :: "tx_out list"

record buy_request =
  bu_listing :: listing_terms
  bu_list_request :: list_request
  bu_order_outpoint :: out_point
  buyer_key :: bytes
  proposal_expiry_height :: u32
  bu_raw_tx_hex :: string
  bu_prevouts :: "tx_out list"
  buyer_ownership_signature :: bytes

record cancel_request =
  ca_listing :: listing_terms
  ca_list_request :: list_request
  ca_order_outpoint :: out_point
  ca_raw_tx_hex :: string
  ca_prevouts :: "tx_out list"

datatype trade_signing_request = ListReq list_request | BuyReq buy_request | CancelReq cancel_request

datatype trade_path = PathList | PathBuy | PathCancel

record verified_trade =
  vt_path :: trade_path
  vt_txid :: bytes
  vt_sighash :: bytes
  vt_input_index :: nat
  spent_order_outpoint :: out_point
  vt_fee_sat :: u64
  vt_listing_commitment :: bytes
  vt_transaction :: transaction
  vt_prevouts :: "tx_out list"
  vt_seller_key :: bytes
  vt_witness_script :: "bytes option"
  vt_control_block :: "bytes option"

section \<open>The encoding binds the listing\<close>

definition wf_listing :: "listing_terms \<Rightarrow> bool" where
  "wf_listing l \<longleftrightarrow>
     is_array 32 (op_txid (ir_outpoint (receipt l))) \<and> is_array 32 (ir_terms_hash (receipt l))
     \<and> is_array 32 (ir_item_id (receipt l)) \<and> is_array 32 (ir_item_commitment (receipt l))
     \<and> is_array 32 (seller_key l) \<and> length (ir_script_pubkey (receipt l)) < 2 ^ 64
     \<and> length (seller_payout_script l) < 2 ^ 64 \<and> length (creator_fee_script l) < 2 ^ 64
     \<and> length (cancel_script l) < 2 ^ 64"

lemma network_eq [simp]: "(n :: network) = n'"
  by (cases n, cases n') simp

lemma len_prefixed_append_iff:
  "length a < 2 ^ 64 \<Longrightarrow> length b < 2 ^ 64 \<Longrightarrow> len_prefixed a @ xs = len_prefixed b @ ys \<longleftrightarrow> a = b \<and> xs = ys"
  using len_prefixed_split by blast

lemma listing_canonical_bytes_inject:
  assumes "listing_canonical_bytes l = Inr bs" "listing_canonical_bytes m = Inr bs"
    and "wf_listing l" "wf_listing m"
  shows "l = m"
proof -
  let ?r = "receipt l" and ?q = "receipt m"
  have eq: "u16_be (protocol_version l) = u16_be (protocol_version m)
      \<and> op_txid (ir_outpoint ?r) = op_txid (ir_outpoint ?q)
      \<and> op_vout (ir_outpoint ?r) = op_vout (ir_outpoint ?q)
      \<and> ir_script_pubkey ?r = ir_script_pubkey ?q \<and> item_sat_amount ?r = item_sat_amount ?q
      \<and> ir_terms_hash ?r = ir_terms_hash ?q \<and> ir_item_id ?r = ir_item_id ?q
      \<and> ir_item_commitment ?r = ir_item_commitment ?q \<and> ir_lane ?r = ir_lane ?q
      \<and> ir_sequence ?r = ir_sequence ?q \<and> seller_key l = seller_key m
      \<and> seller_payout_script l = seller_payout_script m \<and> price_sat l = price_sat m
      \<and> creator_fee_script l = creator_fee_script m \<and> creator_fee_sat l = creator_fee_sat m
      \<and> cancel_script l = cancel_script m \<and> expiry_height l = expiry_height m
      \<and> max_network_fee_sat l = max_network_fee_sat m"
    using assms
    by (auto simp: listing_canonical_bytes_def result_simps Let_def wf_listing_def len_prefixed_append_iff
        len_prefixed_append_iff [where xs = "[]" and ys = "[]", simplified])
  then have "ir_outpoint ?r = ir_outpoint ?q" by (intro out_point.equality) auto
  with eq have "?r = ?q" by (intro item_receipt.equality) auto
  with eq show ?thesis by (intro listing_terms.equality) auto
qed

text \<open>
  A listing commitment binds the listing.  Two valid listings have the same
  commitment only when they agree in every field (receipt, seller, payout, price, creator
  fee, cancellation, expiry and fee limit), or when their own canonical encodings are a
  SHA-256 collision.
\<close>

theorem listing_commitment_binds:
  assumes "wf_listing l" and "wf_listing m"
    and "listing_canonical_bytes l = Inr x" and "listing_canonical_bytes m = Inr y"
  shows "listing_commitment_of E l = listing_commitment_of E m \<longleftrightarrow> l = m \<or> sha_collision E x y"
  using assms listing_canonical_bytes_inject [of l x m]
  by (auto simp: listing_commitment_of_def sha_collision_def)

definition sample_receipt :: item_receipt where
  "sample_receipt = \<lparr>ir_network = Signet, ir_outpoint = mk_outpoint (replicate 31 0 @ [2]) 0,
     ir_script_pubkey = p2tr_output_script (replicate 32 3), item_sat_amount = 1000,
     ir_terms_hash = replicate 32 1, ir_item_id = replicate 32 0x42, ir_item_commitment = replicate 32 1,
     ir_lane = 0, ir_sequence = 0\<rparr>"

definition sample_listing :: listing_terms where
  "sample_listing = \<lparr>protocol_version = 1, lt_network = Signet, receipt = sample_receipt,
     seller_key = replicate 32 3, seller_payout_script = [0x51], price_sat = 5000,
     creator_fee_script = [0x52], creator_fee_sat = 100, cancel_script = [0x53], expiry_height = 100,
     max_network_fee_sat = 500\<rparr>"

lemma sample_listing_valid: "validate sample_listing = Inr ()"
  by (simp add: validate_def sample_listing_def sample_receipt_def LOCK_TIME_THRESHOLD_def item_owner_script_def)

lemma wf_sample_listing: "wf_listing sample_listing"
  by (simp add: wf_listing_def sample_listing_def sample_receipt_def p2tr_output_script_def)

theorem listing_commitment_binds_witness:
  "\<exists>x y. listing_canonical_bytes sample_listing = Inr x
     \<and> listing_canonical_bytes (sample_listing\<lparr>price_sat := 5001\<rparr>) = Inr y
     \<and> (listing_commitment_of sample_env sample_listing
          = listing_commitment_of sample_env (sample_listing\<lparr>price_sat := 5001\<rparr>) \<longleftrightarrow> sha_collision sample_env x y)"
proof -
  let ?m = "sample_listing\<lparr>price_sat := 5001\<rparr>"
  have "validate ?m = Inr ()" using sample_listing_valid by (simp add: validate_def sample_listing_def split: if_split_asm)
  then obtain x y where xy: "listing_canonical_bytes sample_listing = Inr x" "listing_canonical_bytes ?m = Inr y"
    using sample_listing_valid by (simp add: listing_canonical_bytes_def Let_def)
  have "wf_listing ?m" using wf_sample_listing by (simp add: wf_listing_def)
  moreover have "sample_listing \<noteq> ?m" by (simp add: sample_listing_def)
  ultimately show ?thesis
    using listing_commitment_binds [OF wf_sample_listing _ xy, of sample_env] xy by blast
qed

end
