(* ===== verification/Trading_Verify.thy ===== *)
theory Trading_Verify
  imports Trading_Listing
begin

text \<open>
  \<open>crates/trading/src/lib.rs\<close>, second part: the agent-facing and the wallet-facing
  verifier of list, buy and cancel requests, signature application and the check of the
  finalised transaction.  The two verifiers perform the same policy in different orders;
  \<open>trade_policy\<close> states that policy once, and the locale \<open>trade_verifier\<close> is the contract
  both implement.
\<close>

section \<open>Shared checks\<close>

definition decode_transaction :: "bitcoin_env \<Rightarrow> string \<Rightarrow> (trade_error, transaction) rresult" where
  "decode_transaction E raw_hex =
     rbind (ok_or InvalidRawTransaction (hex_decode E raw_hex)) (\<lambda>bs.
     rbind (ok_or InvalidRawTransaction (tx_deserialize E bs)) (\<lambda>tx.
       if tx_serialize E tx \<noteq> bs then Inl InvalidRawTransaction else Inr tx))"

definition decode_unsigned :: "bitcoin_env \<Rightarrow> string \<Rightarrow> (trade_error, transaction) rresult" where
  "decode_unsigned E raw_hex =
     rbind (ok_or InvalidRawTransaction (hex_decode E raw_hex)) (\<lambda>bs.
     rbind (ok_or InvalidRawTransaction (tx_deserialize E bs)) (\<lambda>tx.
       if tx_serialize E tx \<noteq> bs then Inl InvalidRawTransaction
       else if list_ex (\<lambda>i. script_sig i \<noteq> [] \<or> witness i \<noteq> []) (tx_input tx) then Inl PartiallySigned
       else Inr tx))"

definition buyer_ownership_message :: "bitcoin_env \<Rightarrow> buy_request \<Rightarrow> (trade_error, bytes) rresult" where
  "buyer_ownership_message E r =
     rbind (decode_unsigned E (bu_raw_tx_hex r)) (\<lambda>tx.
     rbind (listing_commitment_of E (bu_listing r)) (\<lambda>c.
       Inr (sha256 E (BUYER_TAG @ c @ op_txid (bu_order_outpoint r) @ u32_be (op_vout (bu_order_outpoint r))
         @ compute_txid E tx @ buyer_key r @ u32_be (proposal_expiry_height r)
         @ u64_be (word_of_nat (length (bu_prevouts r)))
         @ concat (map (\<lambda>p. len_prefixed (txout_serialize E p)) (bu_prevouts r))))))"

definition verify_buyer :: "bitcoin_env \<Rightarrow> buy_request \<Rightarrow> (trade_error, unit) rresult" where
  "verify_buyer E r =
     rbind (ok_or InvalidBuyerProof (schnorr_from_slice E (buyer_ownership_signature r))) (\<lambda>sig.
     rbind (buyer_ownership_message E r) (\<lambda>m.
       if schnorr_verify E sig m (buyer_key r) then Inr () else Inl InvalidBuyerProof))"

definition verify_issuance_receipt :: "bitcoin_env \<Rightarrow> list_request \<Rightarrow> (trade_error, unit) rresult" where
  "verify_issuance_receipt E r =
     (let p = lr_issuance_proof r in
      rbind (decode_transaction E (raw_mint_tx_hex p)) (\<lambda>mint_tx.
      rbind (map_err (\<lambda>e. if e = MintPanic then TradePanic else InvalidReceipt)
               (verify_mint E mint_tx (ip_issuer_outpoint p) (ip_issuer_utxo p) (ip_terms p))) (\<lambda>vm.
      rbind (from_verified_mint E mint_tx vm (ip_terms p)) (\<lambda>rec.
        if rec \<noteq> receipt (lr_listing r) then Inl InvalidReceipt else Inr ()))))"

definition common_inputs :: "transaction \<Rightarrow> tx_out list \<Rightarrow> (trade_error, unit) rresult" where
  "common_inputs tx prevouts =
     (if length (tx_input tx) < 2 \<or> length (tx_input tx) \<noteq> length prevouts then Inl InvalidPrevouts
      else if \<not> distinct (map previous_output (tx_input tx)) then Inl InvalidInputs
      else Inr ())"

fun try_sum :: "u64 \<Rightarrow> tx_out list \<Rightarrow> u64 option" where
  "try_sum acc [] = Some acc"
| "try_sum acc (out # outs) = Option.bind (checked_add acc (out_value out)) (\<lambda>acc'. try_sum acc' outs)"

definition trade_fee :: "transaction \<Rightarrow> tx_out list \<Rightarrow> u64 \<Rightarrow> (trade_error, u64) rresult" where
  "trade_fee tx prevouts max_fee =
     rbind (ok_or InvalidFee
       (Option.bind (try_sum 0 prevouts) (\<lambda>ins.
        Option.bind (try_sum 0 (tx_output tx)) (\<lambda>outs. checked_sub ins outs)))) (\<lambda>fee.
       if fee = 0 \<or> fee > max_fee then Inl InvalidFee else Inr fee)"

definition valid_header :: "transaction \<Rightarrow> bool \<Rightarrow> bool" where
  "valid_header tx zero_locktime \<longleftrightarrow> tx_version tx = version_two \<and> (\<not> zero_locktime \<or> lock_time tx = 0)"

definition list_outputs :: "bitcoin_env \<Rightarrow> transaction \<Rightarrow> listing_terms \<Rightarrow> bool" where
  "list_outputs E tx l \<longleftrightarrow>
     length (tx_output tx) = 2
     \<and> tx_output tx ! 0 = (case order_txout E l of Inr out \<Rightarrow> out | Inl _ \<Rightarrow> null_txout)
     \<and> script_pubkey (tx_output tx ! 1) = cancel_script l"

definition buy_outputs :: "transaction \<Rightarrow> listing_terms \<Rightarrow> bytes \<Rightarrow> bool" where
  "buy_outputs tx l buyer \<longleftrightarrow>
     (length (tx_output tx) = 3 \<or> length (tx_output tx) = 4)
     \<and> tx_output tx ! 0 = mk_txout (item_sat_amount (receipt l)) (item_owner_script buyer)
     \<and> tx_output tx ! 1 = mk_txout (price_sat l) (seller_payout_script l)
     \<and> tx_output tx ! 2 = mk_txout (creator_fee_sat l) (creator_fee_script l)
     \<and> (length (tx_output tx) = 3 \<or> script_pubkey (tx_output tx ! 3) = item_owner_script buyer)"

definition cancel_outputs :: "transaction \<Rightarrow> listing_terms \<Rightarrow> bool" where
  "cancel_outputs tx l \<longleftrightarrow>
     (length (tx_output tx) = 1 \<or> length (tx_output tx) = 2)
     \<and> tx_output tx ! 0 = mk_txout (item_sat_amount (receipt l)) (cancel_script l)
     \<and> (length (tx_output tx) = 1 \<or> script_pubkey (tx_output tx ! 1) = cancel_script l)"

definition trade_sighash :: "bitcoin_env \<Rightarrow> transaction \<Rightarrow> tx_out list \<Rightarrow> bytes option \<Rightarrow> (trade_error, bytes) rresult" where
  "trade_sighash E tx prevouts leaf = ok_or Taproot (taproot_sighash E tx prevouts leaf)"

definition verified ::
    "bitcoin_env \<Rightarrow> trade_path \<Rightarrow> listing_terms \<Rightarrow> transaction \<Rightarrow> tx_out list \<Rightarrow> out_point \<Rightarrow> u64 \<Rightarrow>
     (trade_error, verified_trade) rresult" where
  "verified E path l tx prevouts spent fee =
     rbind (case path of
         PathList \<Rightarrow> Inr None
       | PathBuy \<Rightarrow> rbind (buy_leaf_script E l) (\<lambda>s. Inr (Some s))
       | PathCancel \<Rightarrow> rbind (cancel_leaf_script E l) (\<lambda>s. Inr (Some s))) (\<lambda>script.
     rbind (case script of
         None \<Rightarrow> Inr None
       | Some s \<Rightarrow> rbind (spend_info E l) (\<lambda>(buy, cancel, _).
           rbind (ok_or Taproot (taproot_pair_control E nums_internal_key buy cancel s)) (\<lambda>c. Inr (Some c)))) (\<lambda>control.
     rbind (trade_sighash E tx prevouts script) (\<lambda>sh.
     rbind (listing_commitment_of E l) (\<lambda>c.
       Inr \<lparr>vt_path = path, vt_txid = compute_txid E tx, vt_sighash = sh, vt_input_index = 0,
            spent_order_outpoint = spent, vt_fee_sat = fee, vt_listing_commitment = c,
            vt_transaction = tx, vt_prevouts = prevouts, vt_seller_key = seller_key l,
            vt_witness_script = script, vt_control_block = control\<rparr>))))"

definition is_final :: "u32 \<Rightarrow> bool" where
  "is_final s \<longleftrightarrow> s = sequence_max"

section \<open>The agent verifier\<close>

definition agent_verify_list :: "bitcoin_env \<Rightarrow> list_request \<Rightarrow> u32 \<Rightarrow> (trade_error, verified_trade) rresult" where
  "agent_verify_list E r height =
     (let l = lr_listing r in
      rbind (validate l) (\<lambda>_.
      rbind (verify_issuance_receipt E r) (\<lambda>_.
      if height \<ge> expiry_height l then Inl Expired else
      rbind (decode_unsigned E (lr_raw_tx_hex r)) (\<lambda>tx.
      rbind (common_inputs tx (lr_prevouts r)) (\<lambda>_.
      if \<not> valid_header tx True then Inl InvalidTransactionHeader
      else if previous_output (tx_input tx ! 0) \<noteq> ir_outpoint (receipt l) then Inl InvalidInputs
      else if lr_prevouts r ! 0 \<noteq> receipt_txout (receipt l) then Inl InvalidPrevouts
      else if \<not> list_outputs E tx l then Inl InvalidOutputs
      else rbind (trade_fee tx (lr_prevouts r) (max_network_fee_sat l)) (\<lambda>fee.
        verified E PathList l tx (lr_prevouts r) (ir_outpoint (receipt l)) fee))))))"

definition agent_verify_buy :: "bitcoin_env \<Rightarrow> buy_request \<Rightarrow> u32 \<Rightarrow> (trade_error, verified_trade) rresult" where
  "agent_verify_buy E r height =
     (let l = bu_listing r in
      rbind (validate l) (\<lambda>_.
      if lr_listing (bu_list_request r) \<noteq> l then Inl InvalidListingLineage else
      rbind (agent_verify_list E (bu_list_request r) height) (\<lambda>listed.
      if bu_order_outpoint r \<noteq> mk_outpoint (vt_txid listed) 0 then Inl InvalidListingLineage
      else if height \<ge> expiry_height l \<or> height > proposal_expiry_height r
           \<or> proposal_expiry_height r > expiry_height l then Inl Expired
      else
      rbind (verify_buyer E r) (\<lambda>_.
      rbind (decode_unsigned E (bu_raw_tx_hex r)) (\<lambda>tx.
      rbind (common_inputs tx (bu_prevouts r)) (\<lambda>_.
      if \<not> valid_header tx True then Inl InvalidTransactionHeader
      else if previous_output (tx_input tx ! 0) \<noteq> bu_order_outpoint r then Inl InvalidInputs
      else
      rbind (order_txout E l) (\<lambda>order.
      if bu_prevouts r ! 0 \<noteq> order then Inl InvalidPrevouts
      else if \<not> buy_outputs tx l (buyer_key r) then Inl InvalidOutputs
      else rbind (trade_fee tx (bu_prevouts r) (max_network_fee_sat l)) (\<lambda>fee.
        verified E PathBuy l tx (bu_prevouts r) (bu_order_outpoint r) fee))))))))"

definition agent_verify_cancel :: "bitcoin_env \<Rightarrow> cancel_request \<Rightarrow> u32 \<Rightarrow> (trade_error, verified_trade) rresult" where
  "agent_verify_cancel E r height =
     (let l = ca_listing r in
      rbind (validate l) (\<lambda>_.
      if lr_listing (ca_list_request r) \<noteq> l then Inl InvalidListingLineage else
      rbind (agent_verify_list E (ca_list_request r) (saturating_sub (expiry_height l) 1)) (\<lambda>listed.
      if ca_order_outpoint r \<noteq> mk_outpoint (vt_txid listed) 0 then Inl InvalidListingLineage
      else if height < expiry_height l then Inl CancelNotMature
      else
      rbind (decode_unsigned E (ca_raw_tx_hex r)) (\<lambda>tx.
      rbind (common_inputs tx (ca_prevouts r)) (\<lambda>_.
      if tx_version tx \<noteq> version_two \<or> lock_time tx < expiry_height l
         \<or> list_ex (\<lambda>i. is_final (sequence i)) (tx_input tx) then Inl InvalidTransactionHeader
      else if previous_output (tx_input tx ! 0) \<noteq> ca_order_outpoint r then Inl InvalidInputs
      else
      rbind (order_txout E l) (\<lambda>order.
      if ca_prevouts r ! 0 \<noteq> order then Inl InvalidPrevouts
      else if \<not> cancel_outputs tx l then Inl InvalidOutputs
      else rbind (trade_fee tx (ca_prevouts r) (max_network_fee_sat l)) (\<lambda>fee.
        verified E PathCancel l tx (ca_prevouts r) (ca_order_outpoint r) fee)))))))"

definition agent_verify :: "bitcoin_env \<Rightarrow> trade_signing_request \<Rightarrow> u32 \<Rightarrow> (trade_error, verified_trade) rresult" where
  "agent_verify E request height =
     (case request of
        ListReq r \<Rightarrow> agent_verify_list E r height
      | BuyReq r \<Rightarrow> agent_verify_buy E r height
      | CancelReq r \<Rightarrow> agent_verify_cancel E r height)"

section \<open>The wallet verifier\<close>

text \<open>\<open>xs.first() != Some(&x)\<close>, which is safe on an empty list.\<close>

definition first_is :: "'a list \<Rightarrow> 'a \<Rightarrow> bool" where
  "first_is xs x \<longleftrightarrow> (case xs of [] \<Rightarrow> False | y # _ \<Rightarrow> y = x)"

definition wallet_verify_list :: "bitcoin_env \<Rightarrow> list_request \<Rightarrow> u32 \<Rightarrow> (trade_error, verified_trade) rresult" where
  "wallet_verify_list E r height =
     (let l = lr_listing r in
      rbind (validate l) (\<lambda>_.
      rbind (verify_issuance_receipt E r) (\<lambda>_.
      rbind (decode_unsigned E (lr_raw_tx_hex r)) (\<lambda>tx.
      if height \<ge> expiry_height l \<or> \<not> valid_header tx True \<or> length (tx_input tx) < 2
         \<or> length (tx_input tx) \<noteq> length (lr_prevouts r)
         \<or> previous_output (tx_input tx ! 0) \<noteq> ir_outpoint (receipt l)
         \<or> \<not> first_is (lr_prevouts r) (receipt_txout (receipt l)) then Inl InvalidInputs
      else
      rbind (common_inputs tx (lr_prevouts r)) (\<lambda>_.
      rbind (order_txout E l) (\<lambda>expected_order.
      if length (tx_output tx) \<noteq> 2 \<or> \<not> first_is (tx_output tx) expected_order
         \<or> script_pubkey (tx_output tx ! 1) \<noteq> cancel_script l then Inl InvalidOutputs
      else rbind (trade_fee tx (lr_prevouts r) (max_network_fee_sat l)) (\<lambda>fee.
        verified E PathList l tx (lr_prevouts r) (ir_outpoint (receipt l)) fee)))))))"

definition wallet_verify_buy :: "bitcoin_env \<Rightarrow> buy_request \<Rightarrow> u32 \<Rightarrow> (trade_error, verified_trade) rresult" where
  "wallet_verify_buy E r height =
     (let l = bu_listing r in
      rbind (validate l) (\<lambda>_.
      if lr_listing (bu_list_request r) \<noteq> l then Inl InvalidListingLineage else
      rbind (wallet_verify_list E (bu_list_request r) height) (\<lambda>listed.
      if bu_order_outpoint r \<noteq> mk_outpoint (vt_txid listed) 0 then Inl InvalidListingLineage
      else
      rbind (decode_unsigned E (bu_raw_tx_hex r)) (\<lambda>tx.
      if height \<ge> expiry_height l \<or> height > proposal_expiry_height r
           \<or> proposal_expiry_height r > expiry_height l then Inl Expired
      else
      rbind (verify_buyer E r) (\<lambda>_.
      if \<not> valid_header tx True \<or> length (tx_input tx) < 2
         \<or> length (tx_input tx) \<noteq> length (bu_prevouts r)
         \<or> previous_output (tx_input tx ! 0) \<noteq> bu_order_outpoint r then Inl InvalidInputs
      else
      rbind (order_txout E l) (\<lambda>order.
      if \<not> first_is (bu_prevouts r) order then Inl InvalidInputs
      else
      rbind (common_inputs tx (bu_prevouts r)) (\<lambda>_.
      let outs = tx_output tx; buyer_script = item_owner_script (buyer_key r) in
      if \<not> (length outs = 3 \<or> length outs = 4)
         \<or> out_value (outs ! 0) \<noteq> item_sat_amount (receipt l) \<or> script_pubkey (outs ! 0) \<noteq> buyer_script
         \<or> out_value (outs ! 1) \<noteq> price_sat l \<or> script_pubkey (outs ! 1) \<noteq> seller_payout_script l
         \<or> out_value (outs ! 2) \<noteq> creator_fee_sat l \<or> script_pubkey (outs ! 2) \<noteq> creator_fee_script l
         \<or> (length outs = 4 \<and> script_pubkey (outs ! 3) \<noteq> buyer_script) then Inl InvalidOutputs
      else rbind (trade_fee tx (bu_prevouts r) (max_network_fee_sat l)) (\<lambda>fee.
        verified E PathBuy l tx (bu_prevouts r) (bu_order_outpoint r) fee))))))))"

definition wallet_verify_cancel :: "bitcoin_env \<Rightarrow> cancel_request \<Rightarrow> u32 \<Rightarrow> (trade_error, verified_trade) rresult" where
  "wallet_verify_cancel E r height =
     (let l = ca_listing r in
      rbind (validate l) (\<lambda>_.
      if lr_listing (ca_list_request r) \<noteq> l then Inl InvalidListingLineage else
      rbind (wallet_verify_list E (ca_list_request r) (saturating_sub (expiry_height l) 1)) (\<lambda>listed.
      if ca_order_outpoint r \<noteq> mk_outpoint (vt_txid listed) 0 then Inl InvalidListingLineage
      else
      rbind (decode_unsigned E (ca_raw_tx_hex r)) (\<lambda>tx.
      if height < expiry_height l then Inl CancelNotMature
      else if tx_version tx \<noteq> version_two \<or> lock_time tx < expiry_height l
         \<or> list_ex (\<lambda>i. is_final (sequence i)) (tx_input tx) \<or> length (tx_input tx) < 2
         \<or> length (tx_input tx) \<noteq> length (ca_prevouts r)
         \<or> previous_output (tx_input tx ! 0) \<noteq> ca_order_outpoint r then Inl InvalidInputs
      else
      rbind (order_txout E l) (\<lambda>order.
      if \<not> first_is (ca_prevouts r) order then Inl InvalidInputs
      else
      rbind (common_inputs tx (ca_prevouts r)) (\<lambda>_.
      let outs = tx_output tx in
      if outs = [] \<or> length outs > 2 \<or> out_value (outs ! 0) \<noteq> item_sat_amount (receipt l)
         \<or> script_pubkey (outs ! 0) \<noteq> cancel_script l
         \<or> (length outs = 2 \<and> script_pubkey (outs ! 1) \<noteq> cancel_script l) then Inl InvalidOutputs
      else rbind (trade_fee tx (ca_prevouts r) (max_network_fee_sat l)) (\<lambda>fee.
        verified E PathCancel l tx (ca_prevouts r) (ca_order_outpoint r) fee)))))))"

definition wallet_verify :: "bitcoin_env \<Rightarrow> trade_signing_request \<Rightarrow> u32 \<Rightarrow> (trade_error, verified_trade) rresult" where
  "wallet_verify E request height =
     (case request of
        ListReq r \<Rightarrow> wallet_verify_list E r height
      | BuyReq r \<Rightarrow> wallet_verify_buy E r height
      | CancelReq r \<Rightarrow> wallet_verify_cancel E r height)"

section \<open>Finalisation\<close>

definition apply_trade_signature :: "verified_trade \<Rightarrow> bytes \<Rightarrow> (trade_error, transaction) rresult" where
  "apply_trade_signature v sig =
     (let tx = vt_transaction v; k = vt_input_index v in
      if length (tx_input tx) \<le> k then Inl TradePanic
      else rbind (case vt_witness_script v of
            None \<Rightarrow> Inr [sig]
          | Some script \<Rightarrow> rbind (ok_or Taproot (vt_control_block v)) (\<lambda>c. Inr [sig, script, c])) (\<lambda>w.
        Inr (tx\<lparr>tx_input := (tx_input tx)[k := (tx_input tx ! k)\<lparr>witness := w\<rparr>]\<rparr>)))"

definition verify_finalized :: "bitcoin_env \<Rightarrow> transaction \<Rightarrow> verified_trade \<Rightarrow> (trade_error, unit) rresult" where
  "verify_finalized E final v =
     (if compute_txid E final \<noteq> vt_txid v \<or> length (tx_input final) \<noteq> length (tx_input (vt_transaction v))
      then Inl FinalTransactionMismatch
      else if length (tx_input final) \<le> vt_input_index v then Inl TradePanic
      else let w = witness (tx_input final ! vt_input_index v) in
        if length w \<noteq> (if vt_path v = PathList then 1 else 3) then Inl FinalTransactionMismatch
        else rbind (if vt_path v = PathList then Inr ()
            else case (vt_witness_script v, vt_control_block v) of
              (None, _) \<Rightarrow> Inl TradePanic
            | (Some s, cb) \<Rightarrow>
                if w ! 1 \<noteq> s then Inl FinalTransactionMismatch
                else case cb of
                  None \<Rightarrow> Inl TradePanic
                | Some c \<Rightarrow> if w ! 2 \<noteq> c then Inl FinalTransactionMismatch else Inr ()) (\<lambda>_.
          rbind (ok_or InvalidSellerSignature (schnorr_from_slice E (w ! 0))) (\<lambda>sig.
          rbind (trade_sighash E final (vt_prevouts v) (vt_witness_script v)) (\<lambda>sh.
            if sh \<noteq> vt_sighash v then Inl FinalTransactionMismatch
            else if schnorr_verify E sig sh (vt_seller_key v) then Inr ()
            else Inl InvalidSellerSignature))))"

section \<open>Fees and inputs\<close>

abbreviation value_sum :: "tx_out list \<Rightarrow> nat" where
  "value_sum outs \<equiv> \<Sum>out\<leftarrow>outs. unat (out_value out)"

lemma try_sum_Some: "try_sum acc outs = Some s \<longleftrightarrow> unat s = unat acc + value_sum outs"
proof (induction outs arbitrary: acc)
  case Nil
  show ?case by (auto simp: word_unat_eq_iff)
next
  case (Cons out outs)
  show ?case
  proof
    assume "try_sum acc (out # outs) = Some s"
    then obtain a where "checked_add acc (out_value out) = Some a" "try_sum a outs = Some s"
      by (auto simp: bind_eq_Some_conv)
    with Cons.IH show "unat s = unat acc + value_sum (out # outs)" by (simp add: checked_add_Some)
  next
    assume s: "unat s = unat acc + value_sum (out # outs)"
    then have "unat acc + unat (out_value out) < 2 ^ 64" using unat_bound [of s] by simp
    then have "checked_add acc (out_value out) = Some (acc + out_value out)" by (simp add: checked_add_def)
    moreover from this have "unat (acc + out_value out) = unat acc + unat (out_value out)"
      by (simp add: checked_add_Some)
    ultimately show "try_sum acc (out # outs) = Some s" using s Cons.IH by simp
  qed
qed

text \<open>An accepted fee is the exact difference of the unbounded sums.\<close>

lemma trade_fee_Inr [result_simps]:
  "trade_fee tx prevouts m = Inr fee \<longleftrightarrow>
     value_sum prevouts < 2 ^ 64 \<and> value_sum prevouts = value_sum (tx_output tx) + unat fee \<and> 0 < fee \<and> fee \<le> m"
proof -
  have word: "(\<exists>w :: u64. unat w = n) \<longleftrightarrow> n < 2 ^ 64" for n
    using unat_bound [where 'a = 64] by (auto intro!: exI [of _ "word_of_nat n"] simp: unat_of_nat)
  have "trade_fee tx prevouts m = Inr fee \<longleftrightarrow>
      (\<exists>ins outs. try_sum 0 prevouts = Some ins \<and> try_sum 0 (tx_output tx) = Some outs \<and> checked_sub ins outs = Some fee)
      \<and> 0 < fee \<and> fee \<le> m"
    by (auto simp: trade_fee_def rbind_Inr ok_or_Inr bind_eq_Some_conv word_gt_0 not_less)
  also have "\<dots> \<longleftrightarrow> (\<exists>ins :: u64. unat ins = value_sum prevouts) \<and> (\<exists>outs :: u64. unat outs = value_sum (tx_output tx))
      \<and> value_sum prevouts = value_sum (tx_output tx) + unat fee \<and> 0 < fee \<and> fee \<le> m"
    by (auto simp: try_sum_Some checked_sub_Some ac_simps) (metis add.commute)
  finally show ?thesis by (auto simp: word)
qed

lemma common_inputs_Inr [result_simps]:
  "common_inputs tx prevouts = Inr u \<longleftrightarrow>
     2 \<le> length (tx_input tx) \<and> length prevouts = length (tx_input tx)
     \<and> distinct (map previous_output (tx_input tx))"
  by (auto simp: common_inputs_def)

lemma first_is_nth: "first_is xs x \<longleftrightarrow> xs \<noteq> [] \<and> xs ! 0 = x"
  by (cases xs) (auto simp: first_is_def)

lemma tx_out_eq: "out = mk_txout v s \<longleftrightarrow> out_value out = v \<and> script_pubkey out = s"
  by (cases out) simp

section \<open>The policy\<close>

text \<open>
  What an accepted request satisfies, as one conjunction per path.  \<open>tx\<close> is the unsigned
  transaction of the request and \<open>fee\<close> the fee it pays.
\<close>

definition list_policy :: "bitcoin_env \<Rightarrow> list_request \<Rightarrow> u32 \<Rightarrow> transaction \<Rightarrow> u64 \<Rightarrow> bool" where
  "list_policy E r height tx fee \<longleftrightarrow>
     (let l = lr_listing r in
      validate l = Inr () \<and> verify_issuance_receipt E r = Inr () \<and> height < expiry_height l
      \<and> decode_unsigned E (lr_raw_tx_hex r) = Inr tx \<and> common_inputs tx (lr_prevouts r) = Inr ()
      \<and> tx_version tx = version_two \<and> lock_time tx = 0
      \<and> previous_output (tx_input tx ! 0) = ir_outpoint (receipt l)
      \<and> lr_prevouts r ! 0 = receipt_txout (receipt l)
      \<and> length (tx_output tx) = 2 \<and> order_txout E l = Inr (tx_output tx ! 0)
      \<and> script_pubkey (tx_output tx ! 1) = cancel_script l
      \<and> trade_fee tx (lr_prevouts r) (max_network_fee_sat l) = Inr fee)"

definition buy_policy :: "bitcoin_env \<Rightarrow> buy_request \<Rightarrow> bytes \<Rightarrow> u32 \<Rightarrow> transaction \<Rightarrow> u64 \<Rightarrow> bool" where
  "buy_policy E r listed_txid height tx fee \<longleftrightarrow>
     (let l = bu_listing r in
      validate l = Inr () \<and> lr_listing (bu_list_request r) = l
      \<and> bu_order_outpoint r = mk_outpoint listed_txid 0
      \<and> height < expiry_height l \<and> height \<le> proposal_expiry_height r
      \<and> proposal_expiry_height r \<le> expiry_height l
      \<and> verify_buyer E r = Inr () \<and> decode_unsigned E (bu_raw_tx_hex r) = Inr tx
      \<and> common_inputs tx (bu_prevouts r) = Inr () \<and> tx_version tx = version_two \<and> lock_time tx = 0
      \<and> previous_output (tx_input tx ! 0) = bu_order_outpoint r
      \<and> order_txout E l = Inr (bu_prevouts r ! 0) \<and> buy_outputs tx l (buyer_key r)
      \<and> trade_fee tx (bu_prevouts r) (max_network_fee_sat l) = Inr fee)"

definition cancel_policy :: "bitcoin_env \<Rightarrow> cancel_request \<Rightarrow> bytes \<Rightarrow> u32 \<Rightarrow> transaction \<Rightarrow> u64 \<Rightarrow> bool" where
  "cancel_policy E r listed_txid height tx fee \<longleftrightarrow>
     (let l = ca_listing r in
      validate l = Inr () \<and> lr_listing (ca_list_request r) = l
      \<and> ca_order_outpoint r = mk_outpoint listed_txid 0 \<and> expiry_height l \<le> height
      \<and> decode_unsigned E (ca_raw_tx_hex r) = Inr tx \<and> common_inputs tx (ca_prevouts r) = Inr ()
      \<and> tx_version tx = version_two \<and> expiry_height l \<le> lock_time tx
      \<and> (\<forall>i \<in> set (tx_input tx). \<not> is_final (sequence i))
      \<and> previous_output (tx_input tx ! 0) = ca_order_outpoint r
      \<and> order_txout E l = Inr (ca_prevouts r ! 0) \<and> cancel_outputs tx l
      \<and> trade_fee tx (ca_prevouts r) (max_network_fee_sat l) = Inr fee)"

locale trade_verifier =
  fixes verify_list :: "bitcoin_env \<Rightarrow> list_request \<Rightarrow> u32 \<Rightarrow> (trade_error, verified_trade) rresult"
    and verify_buy :: "bitcoin_env \<Rightarrow> buy_request \<Rightarrow> u32 \<Rightarrow> (trade_error, verified_trade) rresult"
    and verify_cancel :: "bitcoin_env \<Rightarrow> cancel_request \<Rightarrow> u32 \<Rightarrow> (trade_error, verified_trade) rresult"
  assumes list_law: "verify_list E r height = Inr v \<longleftrightarrow>
      (\<exists>tx fee. list_policy E r height tx fee
        \<and> verified E PathList (lr_listing r) tx (lr_prevouts r) (ir_outpoint (receipt (lr_listing r))) fee = Inr v)"
    and buy_law: "verify_buy E b height = Inr v \<longleftrightarrow>
      (\<exists>listed tx fee. verify_list E (bu_list_request b) height = Inr listed
        \<and> buy_policy E b (vt_txid listed) height tx fee
        \<and> verified E PathBuy (bu_listing b) tx (bu_prevouts b) (bu_order_outpoint b) fee = Inr v)"
    and cancel_law: "verify_cancel E c height = Inr v \<longleftrightarrow>
      (\<exists>listed tx fee. verify_list E (ca_list_request c) (saturating_sub (expiry_height (ca_listing c)) 1) = Inr listed
        \<and> cancel_policy E c (vt_txid listed) height tx fee
        \<and> verified E PathCancel (ca_listing c) tx (ca_prevouts c) (ca_order_outpoint c) fee = Inr v)"

section \<open>Both verifiers implement the policy\<close>

text \<open>
  The agent compares the first output with \<open>TxOut::NULL\<close> when the order output cannot be
  built; a null output has value \<open>2^64 - 1\<close>, which no positive fee leaves room for.
\<close>

lemma null_order_unaffordable:
  assumes "tx_output tx ! 0 = null_txout" and "length (tx_output tx) = 2"
  shows "trade_fee tx prevouts m \<noteq> Inr fee"
proof
  assume fee: "trade_fee tx prevouts m = Inr fee"
  have "unat (out_value null_txout) = 2 ^ 64 - 1" by (simp add: null_txout_def unsigned_minus_1_eq_mask mask_eq_exp_minus_1)
  moreover have "unat (out_value (tx_output tx ! 0)) \<le> value_sum (tx_output tx)"
    using assms(2) by (intro member_le_sum_list) auto
  moreover have "0 < unat fee" using fee by (simp add: trade_fee_Inr word_gt_0 unat_gt_0)
  ultimately show False using fee assms(1) by (simp add: trade_fee_Inr)
qed

lemma list_outputs_iff:
  assumes "trade_fee tx prevouts m = Inr fee"
  shows "list_outputs E tx l \<longleftrightarrow> length (tx_output tx) = 2 \<and> order_txout E l = Inr (tx_output tx ! 0)
     \<and> script_pubkey (tx_output tx ! 1) = cancel_script l"
  using null_order_unaffordable [of tx prevouts m fee] assms
  by (auto simp: list_outputs_def split: sum.split)

lemma agent_verify_list_Inr:
  "agent_verify_list E r height = Inr v \<longleftrightarrow>
      (\<exists>tx fee. list_policy E r height tx fee
        \<and> verified E PathList (lr_listing r) tx (lr_prevouts r) (ir_outpoint (receipt (lr_listing r))) fee = Inr v)"
    (is "?lhs \<longleftrightarrow> ?rhs")
proof -
  have "?lhs \<longleftrightarrow> (\<exists>tx fee. validate (lr_listing r) = Inr () \<and> verify_issuance_receipt E r = Inr ()
      \<and> height < expiry_height (lr_listing r)
      \<and> decode_unsigned E (lr_raw_tx_hex r) = Inr tx \<and> common_inputs tx (lr_prevouts r) = Inr ()
      \<and> valid_header tx True \<and> previous_output (tx_input tx ! 0) = ir_outpoint (receipt (lr_listing r))
      \<and> lr_prevouts r ! 0 = receipt_txout (receipt (lr_listing r)) \<and> list_outputs E tx (lr_listing r)
      \<and> trade_fee tx (lr_prevouts r) (max_network_fee_sat (lr_listing r)) = Inr fee
      \<and> verified E PathList (lr_listing r) tx (lr_prevouts r) (ir_outpoint (receipt (lr_listing r))) fee = Inr v)"
    by (auto simp: agent_verify_list_def Let_def rbind_Inr not_le simp del: split_paired_Ex)
  also have "\<dots> \<longleftrightarrow> ?rhs"
    by (auto simp: list_policy_def Let_def valid_header_def list_outputs_iff)
  finally show ?thesis .
qed

lemma wallet_verify_list_Inr:
  "wallet_verify_list E r height = Inr v \<longleftrightarrow>
      (\<exists>tx fee. list_policy E r height tx fee
        \<and> verified E PathList (lr_listing r) tx (lr_prevouts r) (ir_outpoint (receipt (lr_listing r))) fee = Inr v)"
  unfolding wallet_verify_list_def list_policy_def Let_def rbind_Inr guard_Inr valid_header_def
    common_inputs_Inr first_is_nth
  by (auto simp: not_le not_less)

lemma agent_verify_buy_Inr:
  "agent_verify_buy E b height = Inr v \<longleftrightarrow>
      (\<exists>listed tx fee. agent_verify_list E (bu_list_request b) height = Inr listed
        \<and> buy_policy E b (vt_txid listed) height tx fee
        \<and> verified E PathBuy (bu_listing b) tx (bu_prevouts b) (bu_order_outpoint b) fee = Inr v)"
  unfolding agent_verify_buy_def buy_policy_def Let_def rbind_Inr guard_Inr valid_header_def
  by (auto simp: not_le not_less)

lemma wallet_verify_buy_Inr:
  "wallet_verify_buy E b height = Inr v \<longleftrightarrow>
      (\<exists>listed tx fee. wallet_verify_list E (bu_list_request b) height = Inr listed
        \<and> buy_policy E b (vt_txid listed) height tx fee
        \<and> verified E PathBuy (bu_listing b) tx (bu_prevouts b) (bu_order_outpoint b) fee = Inr v)"
  unfolding wallet_verify_buy_def buy_policy_def Let_def rbind_Inr guard_Inr valid_header_def
    common_inputs_Inr first_is_nth buy_outputs_def tx_out_eq
  by (auto simp: not_le not_less)

lemma agent_verify_cancel_Inr:
  "agent_verify_cancel E c height = Inr v \<longleftrightarrow>
      (\<exists>listed tx fee. agent_verify_list E (ca_list_request c) (saturating_sub (expiry_height (ca_listing c)) 1) = Inr listed
        \<and> cancel_policy E c (vt_txid listed) height tx fee
        \<and> verified E PathCancel (ca_listing c) tx (ca_prevouts c) (ca_order_outpoint c) fee = Inr v)"
  unfolding agent_verify_cancel_def cancel_policy_def Let_def rbind_Inr guard_Inr list_ex_iff
  by (auto simp: not_le not_less)

lemma cancel_outputs_alt:
  "cancel_outputs tx l \<longleftrightarrow> \<not> (tx_output tx = [] \<or> length (tx_output tx) > 2
     \<or> out_value (tx_output tx ! 0) \<noteq> item_sat_amount (receipt l)
     \<or> script_pubkey (tx_output tx ! 0) \<noteq> cancel_script l
     \<or> (length (tx_output tx) = 2 \<and> script_pubkey (tx_output tx ! 1) \<noteq> cancel_script l))"
proof -
  have "(length (tx_output tx) = 1 \<or> length (tx_output tx) = 2)
      \<longleftrightarrow> tx_output tx \<noteq> [] \<and> \<not> length (tx_output tx) > 2"
    by (cases "tx_output tx"; cases "tl (tx_output tx)") auto
  then show ?thesis by (auto simp: cancel_outputs_def tx_out_eq)
qed

lemma wallet_verify_cancel_Inr:
  "wallet_verify_cancel E c height = Inr v \<longleftrightarrow>
      (\<exists>listed tx fee. wallet_verify_list E (ca_list_request c) (saturating_sub (expiry_height (ca_listing c)) 1) = Inr listed
        \<and> cancel_policy E c (vt_txid listed) height tx fee
        \<and> verified E PathCancel (ca_listing c) tx (ca_prevouts c) (ca_order_outpoint c) fee = Inr v)"
  unfolding wallet_verify_cancel_def cancel_policy_def Let_def rbind_Inr guard_Inr list_ex_iff
    common_inputs_Inr first_is_nth cancel_outputs_alt
  by (auto simp: not_le not_less)

interpretation agent: trade_verifier agent_verify_list agent_verify_buy agent_verify_cancel
  by unfold_locales (rule agent_verify_list_Inr agent_verify_buy_Inr agent_verify_cancel_Inr)+

interpretation wallet: trade_verifier wallet_verify_list wallet_verify_buy wallet_verify_cancel
  by unfold_locales (rule wallet_verify_list_Inr wallet_verify_buy_Inr wallet_verify_cancel_Inr)+

section \<open>What acceptance means\<close>

definition trade_script :: "bitcoin_env \<Rightarrow> trade_path \<Rightarrow> listing_terms \<Rightarrow> bytes option \<Rightarrow> bool" where
  "trade_script E path l s \<longleftrightarrow>
     (case path of
        PathList \<Rightarrow> s = None
      | PathBuy \<Rightarrow> (\<exists>b. buy_leaf_script E l = Inr b \<and> s = Some b)
      | PathCancel \<Rightarrow> (\<exists>b. cancel_leaf_script E l = Inr b \<and> s = Some b))"

lemma verified_fields:
  assumes "verified E path l tx prevouts spent fee = Inr v"
  shows "vt_path v = path" "vt_txid v = compute_txid E tx" "vt_input_index v = 0"
    "spent_order_outpoint v = spent" "vt_fee_sat v = fee" "vt_transaction v = tx" "vt_prevouts v = prevouts"
    "vt_seller_key v = seller_key l" "listing_commitment_of E l = Inr (vt_listing_commitment v)"
    "trade_sighash E tx prevouts (vt_witness_script v) = Inr (vt_sighash v)"
    "trade_script E path l (vt_witness_script v)"
    "(vt_witness_script v = None) = (vt_control_block v = None)"
    "(vt_witness_script v = None) = (path = PathList)"
  using assms
  by (auto simp: verified_def result_simps trade_script_def split: trade_path.splits prod.splits)

lemma buy_outputs_split:
  assumes "buy_outputs tx l buyer"
  obtains rest where "tx_output tx = [mk_txout (item_sat_amount (receipt l)) (item_owner_script buyer),
      mk_txout (price_sat l) (seller_payout_script l), mk_txout (creator_fee_sat l) (creator_fee_script l)] @ rest"
    and "rest = [] \<or> (\<exists>v. rest = [mk_txout v (item_owner_script buyer)])"
proof -
  from assms have "length (tx_output tx) = 3 \<or> length (tx_output tx) = 4" by (simp add: buy_outputs_def)
  then obtain a b c rest where abc: "tx_output tx = [a, b, c] @ rest" and rest: "rest = [] \<or> (\<exists>d. rest = [d])"
    by (auto simp: numeral_eq_Suc length_Suc_conv)
  show thesis
    by (rule that [of rest]; use assms abc rest in \<open>auto simp: buy_outputs_def tx_out_eq\<close>)
qed

context trade_verifier
begin

lemma list_accepted:
  assumes "verify_list E r height = Inr v"
  shows "decode_unsigned E (lr_raw_tx_hex r) = Inr (vt_transaction v)"
    and "vt_txid v = compute_txid E (vt_transaction v)"
    and "height < expiry_height (lr_listing r)"
  using assms by (auto simp: list_law list_policy_def Let_def verified_fields)

lemma listed_txid_unique:
  assumes "verify_list E r height = Inr v" and "verify_list E r height' = Inr w"
  shows "vt_txid v = vt_txid w"
  using list_accepted(1,2) [OF assms(1)] list_accepted(1,2) [OF assms(2)] by simp

lemma buy_settles:
  assumes "verify_buy E r height = Inr v"
  obtains rest where
    "tx_output (vt_transaction v) = [mk_txout (item_sat_amount (receipt (bu_listing r))) (item_owner_script (buyer_key r)),
       mk_txout (price_sat (bu_listing r)) (seller_payout_script (bu_listing r)),
       mk_txout (creator_fee_sat (bu_listing r)) (creator_fee_script (bu_listing r))] @ rest"
    "rest = [] \<or> (\<exists>v. rest = [mk_txout v (item_owner_script (buyer_key r))])"
    "value_sum (bu_prevouts r) = unat (item_sat_amount (receipt (bu_listing r))) + unat (price_sat (bu_listing r))
       + unat (creator_fee_sat (bu_listing r)) + value_sum rest + unat (vt_fee_sat v)"
    "0 < vt_fee_sat v" "vt_fee_sat v \<le> max_network_fee_sat (bu_listing r)"
proof -
  from assms obtain listed :: verified_trade and tx fee where p: "buy_policy E r (vt_txid listed) height tx fee"
    and v: "verified E PathBuy (bu_listing r) tx (bu_prevouts r) (bu_order_outpoint r) fee = Inr v"
    by (auto simp: buy_law)
  from p have "buy_outputs tx (bu_listing r) (buyer_key r)"
    and f: "trade_fee tx (bu_prevouts r) (max_network_fee_sat (bu_listing r)) = Inr fee"
    by (auto simp: buy_policy_def Let_def)
  from buy_outputs_split [OF this(1)] obtain rest where
    out: "tx_output tx = [mk_txout (item_sat_amount (receipt (bu_listing r))) (item_owner_script (buyer_key r)),
       mk_txout (price_sat (bu_listing r)) (seller_payout_script (bu_listing r)),
       mk_txout (creator_fee_sat (bu_listing r)) (creator_fee_script (bu_listing r))] @ rest"
    and rest: "rest = [] \<or> (\<exists>v. rest = [mk_txout v (item_owner_script (buyer_key r))])" .
  with f show thesis
    by (intro that [of rest]) (simp_all add: verified_fields [OF v] trade_fee_Inr)
qed

lemma buy_and_cancel_conflict:
  assumes b: "verify_buy E b height = Inr v" and c: "verify_cancel E c height' = Inr w"
    and same: "bu_list_request b = ca_list_request c"
  shows "spent_order_outpoint v = spent_order_outpoint w"
    and "previous_output (tx_input (vt_transaction v) ! 0) = spent_order_outpoint v"
    and "previous_output (tx_input (vt_transaction w) ! 0) = spent_order_outpoint w"
    and "height < height'" and "height < lock_time (vt_transaction w)"
proof -
  from b obtain l1 :: verified_trade and tx fee where l1: "verify_list E (bu_list_request b) height = Inr l1"
    and p1: "buy_policy E b (vt_txid l1) height tx fee"
    and v: "verified E PathBuy (bu_listing b) tx (bu_prevouts b) (bu_order_outpoint b) fee = Inr v"
    by (auto simp: buy_law)
  from c obtain l2 :: verified_trade and tx' fee' where
    l2: "verify_list E (ca_list_request c) (saturating_sub (expiry_height (ca_listing c)) 1) = Inr l2"
    and p2: "cancel_policy E c (vt_txid l2) height' tx' fee'"
    and w: "verified E PathCancel (ca_listing c) tx' (ca_prevouts c) (ca_order_outpoint c) fee' = Inr w"
    by (auto simp: cancel_law)
  have "vt_txid l1 = vt_txid l2" using l1 l2 listed_txid_unique same by metis
  with p1 p2 show "spent_order_outpoint v = spent_order_outpoint w"
    by (simp add: buy_policy_def cancel_policy_def Let_def verified_fields [OF v] verified_fields [OF w])
  have "bu_listing b = ca_listing c" using p1 p2 same by (simp add: buy_policy_def cancel_policy_def Let_def)
  then show "previous_output (tx_input (vt_transaction v) ! 0) = spent_order_outpoint v"
    "previous_output (tx_input (vt_transaction w) ! 0) = spent_order_outpoint w"
    "height < height'" "height < lock_time (vt_transaction w)"
    using p1 p2 by (auto simp: buy_policy_def cancel_policy_def Let_def verified_fields [OF v] verified_fields [OF w])
qed

end

end
