(* ===== verification/Trading_Competition.thy ===== *)
theory Trading_Competition
  imports Trading_Verify
begin

text \<open>
  \<open>crates/trading/src/lib.rs\<close>, last part: the competition tracker, which follows the
  candidates (buy and cancel transactions) that spend one order outpoint.  The invariant says
  that a confirmation is final: there is at most one winner and every other candidate names
  it.
\<close>

section \<open>Operations\<close>

datatype candidate_kind = KindBuy | KindCancel

datatype candidate_status = Submitted | Pending | Confirmed u32 | Conflicted bytes

record candidate_snapshot =
  cs_txid :: bytes
  cs_kind :: candidate_kind
  cs_status :: candidate_status

record competition_snapshot =
  cp_outpoint :: out_point
  ordering :: string
  miner_ordering_fairness :: bool
  cp_candidates :: "candidate_snapshot list"

record competition_tracker =
  ct_outpoint :: out_point
  candidates :: "(bytes, candidate_kind \<times> candidate_status) btree"

definition tracker_new :: "out_point \<Rightarrow> competition_tracker" where
  "tracker_new outpoint = \<lparr>ct_outpoint = outpoint, candidates = []\<rparr>"

fun is_confirmed :: "candidate_status \<Rightarrow> bool" where
  "is_confirmed (Confirmed _) = True"
| "is_confirmed _ = False"

definition find_winner :: "competition_tracker \<Rightarrow> bytes option" where
  "find_winner t = map_option fst (List.find (\<lambda>(_, _, st). is_confirmed st) (candidates t))"

definition tracker_submit ::
    "competition_tracker \<Rightarrow> bytes \<Rightarrow> candidate_kind \<Rightarrow> (trade_error, competition_tracker) rresult" where
  "tracker_submit t txid kind =
     (if bt_contains txid (candidates t) then Inl InvalidCandidateState
      else let st = (case find_winner t of None \<Rightarrow> Submitted | Some winner \<Rightarrow> Conflicted winner)
        in Inr (t\<lparr>candidates := bt_insert txid (kind, st) (candidates t)\<rparr>))"

definition submit_verified ::
    "competition_tracker \<Rightarrow> verified_trade \<Rightarrow> (trade_error, competition_tracker) rresult" where
  "submit_verified t v =
     (if spent_order_outpoint v \<noteq> ct_outpoint t then Inl WrongCompetitionOutpoint
      else case vt_path v of
        PathBuy \<Rightarrow> tracker_submit t (vt_txid v) KindBuy
      | PathCancel \<Rightarrow> tracker_submit t (vt_txid v) KindCancel
      | PathList \<Rightarrow> Inl InvalidCandidateState)"

definition mark_pending :: "competition_tracker \<Rightarrow> bytes \<Rightarrow> (trade_error, competition_tracker) rresult" where
  "mark_pending t txid =
     rbind (ok_or InvalidCandidateState (map_of (candidates t) txid)) (\<lambda>(kind, st).
       if st \<noteq> Submitted then Inl InvalidCandidateState
       else Inr (t\<lparr>candidates := bt_insert txid (kind, Pending) (candidates t)\<rparr>))"

definition confirm :: "competition_tracker \<Rightarrow> bytes \<Rightarrow> u32 \<Rightarrow> (trade_error, competition_tracker) rresult" where
  "confirm t winner height =
     rbind (case map_of (candidates t) winner of
         Some (_, Submitted) \<Rightarrow> Inr ()
       | Some (_, Pending) \<Rightarrow> Inr ()
       | _ \<Rightarrow> Inl InvalidCandidateState) (\<lambda>_.
       Inr (t\<lparr>candidates := map (\<lambda>(txid, kind, st).
         (txid, kind, if txid = winner then Confirmed height else Conflicted winner)) (candidates t)\<rparr>))"

definition tracker_status :: "competition_tracker \<Rightarrow> bytes \<Rightarrow> candidate_status option" where
  "tracker_status t txid = map_option snd (map_of (candidates t) txid)"

definition tracker_snapshot :: "competition_tracker \<Rightarrow> competition_snapshot" where
  "tracker_snapshot t =
     \<lparr>cp_outpoint = ct_outpoint t, ordering = ''one_outpoint_bitcoin_confirmation_order'',
      miner_ordering_fairness = False,
      cp_candidates = map (\<lambda>(txid, kind, st). \<lparr>cs_txid = txid, cs_kind = kind, cs_status = st\<rparr>) (candidates t)\<rparr>"

section \<open>Reachable trackers\<close>

datatype tracker_op = Submit bytes candidate_kind | SubmitVerified verified_trade | MarkPending bytes | Confirm bytes u32

fun tracker_exec :: "competition_tracker \<Rightarrow> tracker_op \<Rightarrow> (trade_error, competition_tracker) rresult" where
  "tracker_exec t (Submit txid kind) = tracker_submit t txid kind"
| "tracker_exec t (SubmitVerified v) = submit_verified t v"
| "tracker_exec t (MarkPending txid) = mark_pending t txid"
| "tracker_exec t (Confirm txid height) = confirm t txid height"

inductive tracker_step :: "competition_tracker \<Rightarrow> competition_tracker \<Rightarrow> bool" where
  tracker_stepI: "tracker_exec t op = Inr t' \<Longrightarrow> tracker_step t t'"

inductive_cases tracker_stepE: "tracker_step t t'"

abbreviation status_map :: "competition_tracker \<Rightarrow> bytes \<rightharpoonup> candidate_status" where
  "status_map t \<equiv> \<lambda>txid. tracker_status t txid"

text \<open>
  Either nobody has won and every candidate is open, or there is one confirmed candidate and
  every other one is marked as conflicting with it.
\<close>

definition undecided :: "competition_tracker \<Rightarrow> bool" where
  "undecided t \<longleftrightarrow> ran (status_map t) \<subseteq> {Submitted, Pending}"

definition decided :: "competition_tracker \<Rightarrow> bytes \<Rightarrow> u32 \<Rightarrow> bool" where
  "decided t winner height \<longleftrightarrow> tracker_status t winner = Some (Confirmed height)
     \<and> (\<forall>txid st. tracker_status t txid = Some st \<longrightarrow> txid \<noteq> winner \<longrightarrow> st = Conflicted winner)"

definition tracker_inv :: "competition_tracker \<Rightarrow> bool" where
  "tracker_inv t \<longleftrightarrow> bt_ok (candidates t) \<and> (undecided t \<or> (\<exists>winner height. decided t winner height))"

lemma find_winner_undecided: "bt_ok (candidates t) \<Longrightarrow> undecided t \<Longrightarrow> find_winner t = None"
  by (force simp: find_winner_def undecided_def tracker_status_def ran_def find_None_iff map_of_entry)

lemma find_winner_decided:
  assumes ok: "bt_ok (candidates t)" and d: "decided t winner height"
  shows "find_winner t = Some winner"
proof (cases "List.find (\<lambda>(_, _, st). is_confirmed st) (candidates t)")
  case None
  with d show ?thesis
    by (force simp: find_None_iff map_of_entry [OF ok] decided_def tracker_status_def)
next
  case (Some c)
  obtain txid kind st where c: "c = (txid, kind, st)" by (cases c)
  have "map_of (candidates t) txid = Some (kind, st)" "is_confirmed st"
    using Some c by (auto simp: find_Some_iff in_set_conv_nth simp flip: map_of_entry [OF ok])
  with d have "txid = winner" by (force simp: decided_def tracker_status_def)
  with Some c show ?thesis by (simp add: find_winner_def)
qed

lemma tracker_status_insert:
  "tracker_status (t\<lparr>candidates := bt_insert k (kind, st) (candidates t)\<rparr>) x
     = (if x = k then Some st else tracker_status t x)"
  by (simp add: tracker_status_def)

lemma map_of_map_confirm:
  "map_of (map (\<lambda>(txid, kind, st). (txid, kind, f txid)) m) x = map_option (\<lambda>(kind, st). (kind, f x)) (map_of m x)"
  by (induction m) auto

lemma tracker_status_confirm:
  assumes "confirm t winner height = Inr t'"
  shows "tracker_status t' x = (if x = winner then Some (Confirmed height)
    else map_option (\<lambda>_. Conflicted winner) (tracker_status t x))"
    and "\<exists>kind st. map_of (candidates t) winner = Some (kind, st) \<and> st \<in> {Submitted, Pending}"
  using assms
  by (auto simp: confirm_def tracker_status_def rbind_Inr option.map_comp comp_def case_prod_beta
      map_of_map_confirm [where f = "\<lambda>txid. if txid = winner then Confirmed height else Conflicted winner"]
      split: option.splits candidate_status.splits)

lemma bt_ok_confirm:
  "confirm t winner height = Inr t' \<Longrightarrow> bt_ok (candidates t) \<Longrightarrow> bt_ok (candidates t')"
  by (auto simp: confirm_def rbind_Inr bt_ok_def comp_def case_prod_beta)

lemma submit_status:
  assumes "tracker_submit t txid kind = Inr t'"
  shows "tracker_status t txid = None"
    and "t' = t\<lparr>candidates := bt_insert txid
      (kind, case find_winner t of None \<Rightarrow> Submitted | Some winner \<Rightarrow> Conflicted winner) (candidates t)\<rparr>"
  using assms
  by (cases "map_of (candidates t) txid";
      auto simp: tracker_submit_def bt_contains_iff tracker_status_def Let_def split: if_split_asm)+

lemma submit_verified_submit:
  "submit_verified t v = Inr t' \<Longrightarrow> \<exists>kind. tracker_submit t (vt_txid v) kind = Inr t'"
  by (auto simp: submit_verified_def split: if_splits trade_path.splits)

lemma mark_pending_status:
  assumes "mark_pending t txid = Inr t'"
  shows "tracker_status t txid = Some Submitted"
    and "\<exists>kind. t' = t\<lparr>candidates := bt_insert txid (kind, Pending) (candidates t)\<rparr>"
  using assms by (auto simp: mark_pending_def tracker_status_def result_simps split: if_splits)

lemma ran_subsetD: "ran f \<subseteq> A \<Longrightarrow> f x = Some y \<Longrightarrow> y \<in> A"
  by (auto simp: ran_def)

lemma undecided_iff: "undecided t \<longleftrightarrow> (\<forall>txid st. tracker_status t txid = Some st \<longrightarrow> st = Submitted \<or> st = Pending)"
  by (auto simp: undecided_def ran_def)

lemma submit_undecided:
  "tracker_submit t txid kind = Inr t' \<Longrightarrow> bt_ok (candidates t) \<Longrightarrow> undecided t \<Longrightarrow> undecided t'"
  by (frule submit_status(2)) (simp add: undecided_iff find_winner_undecided tracker_status_insert)

lemma submit_decided:
  assumes "tracker_submit t txid kind = Inr t'" "bt_ok (candidates t)" "decided t winner height"
  shows "decided t' winner height"
proof -
  have "txid \<noteq> winner" using submit_status(1) [OF assms(1)] assms(3) by (auto simp: decided_def)
  with submit_status(2) [OF assms(1)] find_winner_decided [OF assms(2,3)] assms(3) show ?thesis
    by (simp add: decided_def tracker_status_insert)
qed

lemma mark_pending_decided: "mark_pending t txid = Inr t' \<Longrightarrow> \<not> decided t winner height"
  by (frule mark_pending_status(1)) (force simp: decided_def)

lemma confirm_decided: "confirm t winner height = Inr t' \<Longrightarrow> decided t' winner height"
  by (auto simp: decided_def tracker_status_confirm)

lemma confirm_not_decided: "confirm t txid height' = Inr t' \<Longrightarrow> \<not> decided t winner height"
  by (frule tracker_status_confirm(2)) (force simp: decided_def tracker_status_def)

text \<open>A step keeps the order of the map, keeps an open competition consistent, and never undoes a decision.\<close>

lemma tracker_step_cases:
  assumes "tracker_step t t'" and "tracker_inv t"
  shows "tracker_inv t'" and "decided t winner height \<Longrightarrow> decided t' winner height"
proof -
  have ok: "bt_ok (candidates t)" using assms(2) by (simp add: tracker_inv_def)
  obtain op where e: "tracker_exec t op = Inr t'" using assms(1) by (rule tracker_stepE)
  consider (submit) txid kind where "tracker_submit t txid kind = Inr t'"
    | (pending) txid where "mark_pending t txid = Inr t'"
    | (confirm) txid h where "confirm t txid h = Inr t'"
    using e by (cases op) (auto dest: submit_verified_submit)
  note cases = this
  show dec: "decided t winner height \<Longrightarrow> decided t' winner height" for winner height
    using cases by cases (use ok submit_decided mark_pending_decided confirm_not_decided in blast)+
  from cases show "tracker_inv t'"
  proof cases
    case submit
    from submit_status(2) [OF this] ok have "bt_ok (candidates t')" by simp
    with submit_undecided [OF submit ok] assms(2) dec show ?thesis unfolding tracker_inv_def by blast
  next
    case pending
    then obtain kind where t': "t' = t\<lparr>candidates := bt_insert txid (kind, Pending) (candidates t)\<rparr>"
      using mark_pending_status(2) by blast
    have "undecided t" using assms(2) mark_pending_decided [OF pending] by (simp add: tracker_inv_def)
    then have "undecided t'" by (simp add: undecided_iff t' tracker_status_insert)
    with t' ok show ?thesis by (simp add: tracker_inv_def)
  next
    case confirm
    with bt_ok_confirm [OF confirm ok] confirm_decided [OF confirm] show ?thesis
      by (auto simp: tracker_inv_def)
  qed
qed

lemma tracker_new_inv: "tracker_inv (tracker_new op)"
  by (simp add: tracker_inv_def undecided_iff tracker_new_def tracker_status_def)

lemma tracker_steps_inv: "tracker_step\<^sup>*\<^sup>* t t' \<Longrightarrow> tracker_inv t \<Longrightarrow> tracker_inv t'"
  by (induction rule: rtranclp_induct) (auto intro: tracker_step_cases(1))

lemma tracker_steps_decided:
  assumes "tracker_step\<^sup>*\<^sup>* t t'" and "tracker_inv t" and "decided t winner height"
  shows "decided t' winner height"
  using assms
  by (induction rule: rtranclp_induct) (auto intro: tracker_step_cases(2) tracker_steps_inv)

lemma inv_confirmed_decided: "tracker_inv t \<Longrightarrow> tracker_status t w = Some (Confirmed h) \<Longrightarrow> decided t w h"
  by (simp add: tracker_inv_def undecided_iff decided_def)
    (metis candidate_status.distinct(3,7,11) candidate_status.inject(1) option.inject)

text \<open>
  C27: a confirmation is final.  Along any run of the tracker from its creation, once a
  candidate is confirmed it stays confirmed at the same height, and every other candidate,
  also one submitted later, is marked as conflicting with it.
\<close>

theorem tracker_confirmation_final:
  assumes "tracker_step\<^sup>*\<^sup>* (tracker_new op) t" and "tracker_step\<^sup>*\<^sup>* t t'"
    and "tracker_status t w = Some (Confirmed h)"
  shows "tracker_status t' w = Some (Confirmed h)
    \<and> (\<forall>txid st. tracker_status t' txid = Some st \<longrightarrow> txid \<noteq> w \<longrightarrow> st = Conflicted w)"
proof -
  have "tracker_inv t" using assms(1) tracker_new_inv by (rule tracker_steps_inv)
  with assms(2,3) show ?thesis
    using tracker_steps_decided inv_confirmed_decided unfolding decided_def by metis
qed

theorem tracker_confirmation_final_witness:
  "\<exists>t t'. tracker_step\<^sup>*\<^sup>* (tracker_new null_outpoint) t \<and> tracker_step\<^sup>*\<^sup>* t t'
     \<and> tracker_status t [1] = Some (Confirmed 100) \<and> tracker_status t' [2] = Some (Conflicted [1])"
proof -
  let ?t1 = "(tracker_new null_outpoint)\<lparr>candidates := [([1], KindBuy, Submitted)]\<rparr>"
  let ?t2 = "(tracker_new null_outpoint)\<lparr>candidates := [([1], KindBuy, Confirmed 100)]\<rparr>"
  let ?t3 = "(tracker_new null_outpoint)\<lparr>candidates :=
    [([1], KindBuy, Confirmed 100), ([2], KindCancel, Conflicted [1])]\<rparr>"
  have "tracker_exec (tracker_new null_outpoint) (Submit [1] KindBuy) = Inr ?t1"
    "tracker_exec ?t1 (Confirm [1] 100) = Inr ?t2" "tracker_exec ?t2 (Submit [2] KindCancel) = Inr ?t3"
    by (simp_all add: tracker_submit_def confirm_def bt_contains_def tracker_new_def find_winner_def)
  then have "tracker_step (tracker_new null_outpoint) ?t1" "tracker_step ?t1 ?t2" "tracker_step ?t2 ?t3"
    using tracker_stepI by blast+
  then have r: "tracker_step\<^sup>*\<^sup>* (tracker_new null_outpoint) ?t2" "tracker_step\<^sup>*\<^sup>* ?t2 ?t3" by auto
  have c: "tracker_status ?t2 [1] = Some (Confirmed 100)" by (simp add: tracker_status_def)
  have "tracker_status ?t3 [2] \<noteq> None" "[2] \<noteq> [1 :: byte]" by (simp_all add: tracker_status_def)
  with tracker_confirmation_final [OF r c] have "tracker_status ?t3 [2] = Some (Conflicted [1])" by blast
  with r c show ?thesis by blast
qed

text \<open>
  C28: a competition can always be resolved.  In every reachable tracker, confirming a
  candidate that is still open succeeds and settles all candidates at once; if some candidate
  is not open, the competition has already been settled by a confirmed winner.
\<close>

theorem tracker_resolvable:
  assumes "tracker_step\<^sup>*\<^sup>* (tracker_new op) t" and "tracker_status t txid = Some st"
  shows "if st \<in> {Submitted, Pending}
    then \<exists>t'. confirm t txid height = Inr t' \<and> tracker_status t' txid = Some (Confirmed height)
      \<and> (\<forall>other st'. tracker_status t' other = Some st' \<longrightarrow> other \<noteq> txid \<longrightarrow> st' = Conflicted txid)
    else confirm t txid height = Inl InvalidCandidateState
      \<and> (\<exists>w h. tracker_status t w = Some (Confirmed h) \<and> (st = Confirmed h \<and> txid = w \<or> st = Conflicted w))"
proof (cases "st \<in> {Submitted, Pending}")
  case True
  then obtain t' where "confirm t txid height = Inr t'"
    using assms(2) by (auto simp: confirm_def tracker_status_def)
  with confirm_decided [OF this] True show ?thesis by (auto simp: decided_def)
next
  case False
  have "tracker_inv t" using assms(1) tracker_new_inv by (rule tracker_steps_inv)
  with False assms(2) obtain w h where d: "decided t w h" by (auto simp: tracker_inv_def undecided_iff)
  have "confirm t txid height = Inl InvalidCandidateState"
    using False assms(2) by (auto simp: confirm_def tracker_status_def split: candidate_status.split)
  moreover have "st = Confirmed h \<and> txid = w \<or> st = Conflicted w"
    using d assms(2) by (cases "txid = w") (auto simp: decided_def)
  ultimately show ?thesis using False d by (auto simp: decided_def)
qed

theorem tracker_resolvable_witness:
  "\<exists>t t'. tracker_submit (tracker_new null_outpoint) [1] KindBuy = Inr t \<and> confirm t [1] 100 = Inr t'
     \<and> tracker_status t' [1] = Some (Confirmed 100)"
proof -
  let ?t = "(tracker_new null_outpoint)\<lparr>candidates := [([1], KindBuy, Submitted)]\<rparr>"
  have s: "tracker_submit (tracker_new null_outpoint) [1] KindBuy = Inr ?t"
    by (simp add: tracker_submit_def bt_contains_def tracker_new_def find_winner_def)
  then have "tracker_exec (tracker_new null_outpoint) (Submit [1] KindBuy) = Inr ?t" by simp
  then have r: "tracker_step\<^sup>*\<^sup>* (tracker_new null_outpoint) ?t" using tracker_stepI by blast
  have "tracker_status ?t [1] = Some Submitted" by (simp add: tracker_status_def)
  from tracker_resolvable [OF r this, of 100] s show ?thesis by auto
qed

end
