(* ===== verification/Trading_Properties.thy ===== *)
theory Trading_Properties
  imports Trading_Competition
begin

text \<open>
  The properties of the two trade verifiers and of finalisation, with a sample order (mint,
  list, buy and cancel transactions) on which their hypotheses hold.
\<close>

section \<open>Finalising an accepted trade\<close>

text \<open>What every accepted trade satisfies, whichever path it takes.\<close>

definition trade_wf :: "bitcoin_env \<Rightarrow> verified_trade \<Rightarrow> bool" where
  "trade_wf E v \<longleftrightarrow>
     vt_input_index v = 0 \<and> tx_input (vt_transaction v) \<noteq> []
     \<and> vt_txid v = compute_txid E (vt_transaction v)
     \<and> trade_sighash E (vt_transaction v) (vt_prevouts v) (vt_witness_script v) = Inr (vt_sighash v)
     \<and> (case vt_path v of
          PathList \<Rightarrow> vt_witness_script v = None \<and> vt_control_block v = None
        | _ \<Rightarrow> \<exists>s c. vt_witness_script v = Some s \<and> vt_control_block v = Some c)"

lemma verified_trade_wf:
  assumes "verified E path l tx prevouts spent fee = Inr v" and "common_inputs tx ps = Inr u"
  shows "trade_wf E v"
proof -
  note f = verified_fields [OF assms(1)]
  have "tx_input tx \<noteq> []" using assms(2) by (auto simp: common_inputs_Inr)
  with f(10,12,13) show ?thesis
    by (cases path) (auto simp: trade_wf_def f(1-9))
qed

lemma wallet_trade_wf: "wallet_verify E request height = Inr v \<Longrightarrow> trade_wf E v"
  by (cases request)
    (auto simp: wallet_verify_def wallet.list_law wallet.buy_law wallet.cancel_law list_policy_def
      buy_policy_def cancel_policy_def Let_def intro: verified_trade_wf)

lemma strip_witness_update:
  "strip_witness (tx\<lparr>tx_input := (tx_input tx)[k := (tx_input tx ! k)\<lparr>witness := w\<rparr>]\<rparr>) = strip_witness tx"
proof -
  have "map (\<lambda>i. i\<lparr>witness := []\<rparr>) ((tx_input tx)[k := (tx_input tx ! k)\<lparr>witness := w\<rparr>])
      = map (\<lambda>i. i\<lparr>witness := []\<rparr>) (tx_input tx)"
    by (cases "k < length (tx_input tx)") (simp_all add: map_update list_update_same_conv list_update_beyond)
  then show ?thesis by (simp add: strip_witness_def)
qed

definition final_stack :: "verified_trade \<Rightarrow> bytes \<Rightarrow> bytes list" where
  "final_stack v sig = sig # (case vt_witness_script v of None \<Rightarrow> [] | Some s \<Rightarrow> [s, the (vt_control_block v)])"

lemma apply_trade_signature_wf:
  assumes "trade_wf E v"
  shows "apply_trade_signature v sig = Inr ((vt_transaction v)\<lparr>tx_input :=
    (tx_input (vt_transaction v))[0 := (tx_input (vt_transaction v) ! 0)\<lparr>witness := final_stack v sig\<rparr>]\<rparr>)"
  using assms
  by (cases "vt_path v") (auto simp: apply_trade_signature_def trade_wf_def final_stack_def Let_def)

text \<open>The check of a final transaction against an accepted trade, without the unreachable panics.\<close>

lemma verify_finalized_wf:
  assumes "trade_wf E v"
  shows "verify_finalized E final v =
     (if compute_txid E final \<noteq> vt_txid v \<or> length (tx_input final) \<noteq> length (tx_input (vt_transaction v))
         \<or> (\<forall>s. witness (tx_input final ! 0) \<noteq> final_stack v s)
      then Inl FinalTransactionMismatch
      else rbind (ok_or InvalidSellerSignature (schnorr_from_slice E (witness (tx_input final ! 0) ! 0))) (\<lambda>sig.
        rbind (trade_sighash E final (vt_prevouts v) (vt_witness_script v)) (\<lambda>sh.
          if sh \<noteq> vt_sighash v then Inl FinalTransactionMismatch
          else if schnorr_verify E sig sh (vt_seller_key v) then Inr ()
          else Inl InvalidSellerSignature)))"
proof -
  let ?w = "witness (tx_input final ! 0)"
  have len: "length (tx_input (vt_transaction v)) > 0" and k: "vt_input_index v = 0"
    using assms by (auto simp: trade_wf_def)
  show ?thesis
  proof (cases "vt_witness_script v")
    case None
    with assms have p: "vt_path v = PathList" by (auto simp: trade_wf_def split: trade_path.splits)
    have "(\<forall>s. ?w \<noteq> final_stack v s) \<longleftrightarrow> length ?w \<noteq> 1"
      using None by (cases ?w) (auto simp: final_stack_def)
    then show ?thesis using p len k None by (auto simp: verify_finalized_def Let_def)
  next
    case (Some script)
    with assms obtain c where c: "vt_control_block v = Some c" and p: "vt_path v \<noteq> PathList"
      by (auto simp: trade_wf_def split: trade_path.splits)
    have "(\<forall>s. ?w \<noteq> final_stack v s) \<longleftrightarrow> length ?w \<noteq> 3 \<or> ?w ! 1 \<noteq> script \<or> ?w ! 2 \<noteq> c"
      using Some c by (auto simp: final_stack_def numeral_eq_Suc length_Suc_conv)
    then show ?thesis using p len k Some c by (auto simp: verify_finalized_def Let_def)
  qed
qed

text \<open>
  C12: the agent and the wallet enforce the same policy.  For every request and height the
  two verifiers, which decode and check in different orders, accept the same requests and
  return the same verified trade.
\<close>

theorem agent_and_wallet_agree:
  "agent_verify E request height = Inr v \<longleftrightarrow> wallet_verify E request height = Inr v"
  by (cases request)
    (simp_all add: agent_verify_def wallet_verify_def agent.list_law wallet.list_law agent.buy_law
      wallet.buy_law agent.cancel_law wallet.cancel_law)

text \<open>
  C5: an accepted purchase settles exactly as listed.  The transaction pays the item amount
  to the buyer, the price to the seller and the fee to the creator, in this order, followed at
  most by change to the buyer; over the integers the inputs pay for these outputs and a network
  fee that is positive and at most the committed maximum.
\<close>

theorem accepted_buy_settles:
  assumes "wallet_verify_buy E r height = Inr v"
  shows "\<exists>rest. tx_output (vt_transaction v) =
       [mk_txout (item_sat_amount (receipt (bu_listing r))) (item_owner_script (buyer_key r)),
        mk_txout (price_sat (bu_listing r)) (seller_payout_script (bu_listing r)),
        mk_txout (creator_fee_sat (bu_listing r)) (creator_fee_script (bu_listing r))] @ rest
     \<and> (rest = [] \<or> (\<exists>change. rest = [mk_txout change (item_owner_script (buyer_key r))]))
     \<and> value_sum (bu_prevouts r) = unat (item_sat_amount (receipt (bu_listing r))) + unat (price_sat (bu_listing r))
         + unat (creator_fee_sat (bu_listing r)) + value_sum rest + unat (vt_fee_sat v)
     \<and> 0 < vt_fee_sat v \<and> vt_fee_sat v \<le> max_network_fee_sat (bu_listing r)"
  using wallet.buy_settles [OF assms] by blast

text \<open>
  A purchase and a cancellation of the same order exclude each other.  Whenever both are
  accepted for one list request they spend the same order outpoint with their first input, the
  purchase was accepted at a smaller height than the cancellation, and the cancelling
  transaction is locked beyond the height of the purchase.
\<close>

theorem buy_and_cancel_exclusive:
  assumes "wallet_verify_buy E b height = Inr v" and "wallet_verify_cancel E c height' = Inr w"
    and "bu_list_request b = ca_list_request c"
  shows "previous_output (tx_input (vt_transaction v) ! 0) = previous_output (tx_input (vt_transaction w) ! 0)
    \<and> spent_order_outpoint v = spent_order_outpoint w
    \<and> height < height' \<and> height < lock_time (vt_transaction w)"
  using wallet.buy_and_cancel_conflict [OF assms] by simp

text \<open>
  C25: applying a signature to an accepted trade always succeeds and changes only the witness of
  the protected input, and the final check accepts the result exactly when the signature
  verifies for the approved digest under the seller key.
\<close>

theorem finalize_roundtrip:
  assumes "wallet_verify E request height = Inr v" and "txid_ignores_witness E"
    and "sighash_ignores_witness E" and "schnorr_parse_64 E" and "is_array 64 sig"
  shows "\<exists>final. apply_trade_signature v sig = Inr final
    \<and> strip_witness final = strip_witness (vt_transaction v)
    \<and> verify_finalized E final v =
        (if schnorr_verify E sig (vt_sighash v) (vt_seller_key v) then Inr () else Inl InvalidSellerSignature)"
proof -
  have wf: "trade_wf E v" using assms(1) by (rule wallet_trade_wf)
  let ?tx = "vt_transaction v"
  let ?final = "?tx\<lparr>tx_input := (tx_input ?tx)[0 := (tx_input ?tx ! 0)\<lparr>witness := final_stack v sig\<rparr>]\<rparr>"
  have strip: "strip_witness ?final = strip_witness ?tx" by (rule strip_witness_update)
  have "compute_txid E ?final = compute_txid E ?tx"
    using assms(2) strip by (metis txid_ignores_witness_def)
  moreover have "trade_sighash E ?final ps l = trade_sighash E ?tx ps l" for ps l
    using assms(3) strip unfolding trade_sighash_def by (metis sighash_ignores_witness_def)
  moreover have "witness (tx_input ?final ! 0) = final_stack v sig" using wf by (simp add: trade_wf_def)
  moreover have "final_stack v sig ! 0 = sig" "schnorr_from_slice E sig = Some sig"
    using assms(4,5) by (simp_all add: final_stack_def schnorr_parse_64_def)
  ultimately have "verify_finalized E ?final v =
      (if schnorr_verify E sig (vt_sighash v) (vt_seller_key v) then Inr () else Inl InvalidSellerSignature)"
    using wf unfolding verify_finalized_wf [OF wf] by (auto simp: trade_wf_def)
  with strip apply_trade_signature_wf [OF wf] show ?thesis by blast
qed

text \<open>
  C26: the final check never panics on an accepted trade, whatever transaction it is given, and
  a transaction it accepts has the approved txid and carries, in the witness of its first
  input, a seller signature of the approved digest together with the approved leaf and control
  block.
\<close>

theorem verify_finalized_sound:
  assumes "wallet_verify E request height = Inr v"
  shows "verify_finalized E final v \<noteq> Inl TradePanic
    \<and> (verify_finalized E final v = Inr () \<longrightarrow>
        compute_txid E final = compute_txid E (vt_transaction v)
        \<and> (\<exists>s sig. witness (tx_input final ! 0) = final_stack v s \<and> schnorr_from_slice E s = Some sig
             \<and> schnorr_verify E sig (vt_sighash v) (vt_seller_key v)))"
proof -
  have wf: "trade_wf E v" using assms by (rule wallet_trade_wf)
  have hd: "final_stack v s ! 0 = s" for s by (simp add: final_stack_def)
  have txid: "vt_txid v = compute_txid E (vt_transaction v)" using wf by (simp add: trade_wf_def)
  show ?thesis
    unfolding verify_finalized_wf [OF wf] txid
    by (auto simp: rbind_Inl result_simps hd trade_sighash_def ok_or_def split: option.splits if_splits)
qed

section \<open>A sample order\<close>

definition sample_input :: "out_point \<Rightarrow> tx_in" where
  "sample_input op = \<lparr>previous_output = op, script_sig = [], sequence = 0, witness = []\<rparr>"

definition sample_order_output :: tx_out where
  "sample_order_output = mk_txout 1000 ([0x51, 0x20] @ replicate 32 6)"

definition sample_order_outpoint :: out_point where
  "sample_order_outpoint = mk_outpoint (replicate 31 0 @ [2]) 0"

definition sample_list_tx :: transaction where
  "sample_list_tx = \<lparr>tx_version = version_two, lock_time = 0,
     tx_input = [sample_input (ir_outpoint sample_receipt), sample_input null_outpoint],
     tx_output = [sample_order_output, mk_txout 4700 [0x53]]\<rparr>"

definition sample_buy_tx :: transaction where
  "sample_buy_tx = \<lparr>tx_version = version_two, lock_time = 0,
     tx_input = [sample_input sample_order_outpoint, sample_input null_outpoint],
     tx_output = [mk_txout 1000 (p2tr_output_script (replicate 32 4)), mk_txout 5000 [0x51], mk_txout 100 [0x52]]\<rparr>"

definition sample_cancel_tx :: transaction where
  "sample_cancel_tx = \<lparr>tx_version = version_two, lock_time = 100,
     tx_input = [sample_input sample_order_outpoint, sample_input null_outpoint],
     tx_output = [mk_txout 1000 [0x53]]\<rparr>"

text \<open>The raw transactions are named by their numbers of inputs and outputs.\<close>

definition sample_trade_env :: bitcoin_env where
  "sample_trade_env = sample_env_with
     (map_of [(''mint'', [1, 2]), (''list'', [2, 2]), (''buy'', [2, 3]), (''cancel'', [2, 1])])
     (map_of [([1, 2], sample_mint_tx null_outpoint), ([2, 2], sample_list_tx), ([2, 3], sample_buy_tx),
       ([2, 1], sample_cancel_tx)])
     (\<lambda>tx. [word_of_nat (length (tx_input tx)), word_of_nat (length (tx_output tx))])"

definition sample_list_request :: list_request where
  "sample_list_request = \<lparr>lr_listing = sample_listing,
     lr_issuance_proof = \<lparr>raw_mint_tx_hex = ''mint'', ip_issuer_outpoint = null_outpoint,
       ip_issuer_utxo = sample_issuer_utxo, ip_terms = sample_terms\<rparr>,
     lr_raw_tx_hex = ''list'', lr_prevouts = [receipt_txout sample_receipt, mk_txout 5000 [0x54]]\<rparr>"

definition sample_buy_request :: buy_request where
  "sample_buy_request = \<lparr>bu_listing = sample_listing, bu_list_request = sample_list_request,
     bu_order_outpoint = sample_order_outpoint, buyer_key = replicate 32 4, proposal_expiry_height = 90,
     bu_raw_tx_hex = ''buy'', bu_prevouts = [sample_order_output, mk_txout 5400 [0x54]],
     buyer_ownership_signature = replicate 64 0\<rparr>"

definition sample_cancel_request :: cancel_request where
  "sample_cancel_request = \<lparr>ca_listing = sample_listing, ca_list_request = sample_list_request,
     ca_order_outpoint = sample_order_outpoint, ca_raw_tx_hex = ''cancel'',
     ca_prevouts = [sample_order_output, mk_txout 300 [0x54]]\<rparr>"

lemma sample_trade_env_simps [simp]:
  "sha256 sample_trade_env = sha256 sample_env" "compute_txid sample_trade_env = compute_txid sample_env"
  "xonly_from_slice sample_trade_env = xonly_from_slice sample_env"
  "taproot_single_leaf_key sample_trade_env = taproot_single_leaf_key sample_env"
  "control_block_verify sample_trade_env = control_block_verify sample_env"
  "taproot_pair_key sample_trade_env = taproot_pair_key sample_env"
  "taproot_pair_control sample_trade_env = taproot_pair_control sample_env"
  "new_p2tr_tweaked sample_trade_env = new_p2tr_tweaked sample_env"
  "taproot_sighash sample_trade_env = taproot_sighash sample_env"
  "schnorr_from_slice sample_trade_env = schnorr_from_slice sample_env"
  "schnorr_verify sample_trade_env = schnorr_verify sample_env"
  by (simp_all add: sample_trade_env_def sample_env_with_def)

lemma verify_mint_cong:
  assumes "sha256 E = sha256 F" "xonly_from_slice E = xonly_from_slice F"
    "taproot_single_leaf_key E = taproot_single_leaf_key F" "control_block_verify E = control_block_verify F"
  shows "verify_mint E = verify_mint F"
proof -
  have spk: "canonical_issuer_spk E = canonical_issuer_spk F" "taproot_output_key E = taproot_output_key F"
    "terms_hash_of E = terms_hash_of F" "pow_hash E = pow_hash F" "item_commitment_of E = item_commitment_of F"
    by (intro ext; simp add: canonical_issuer_spk_def issuer_output_key_def taproot_output_key_def
        terms_hash_of_def pow_hash_def item_commitment_of_def assms)+
  have "bind_issuer_spend E = bind_issuer_spend F" "check_terms E = check_terms F"
    "parse_mint_witness E = parse_mint_witness F" "check_work_and_item E = check_work_and_item F"
    "classify_outputs E = classify_outputs F"
    by (intro ext; simp only: bind_issuer_spend_def check_terms_def parse_mint_witness_def
        check_work_and_item_def classify_outputs_def spk assms)+
  then show ?thesis by (intro ext) (simp only: verify_mint_def)
qed

lemma sample_mint_receipt:
  obtains vm where "verify_mint sample_env (sample_mint_tx null_outpoint) null_outpoint sample_issuer_utxo sample_terms = Inr vm"
    and "from_verified_mint sample_env (sample_mint_tx null_outpoint) vm sample_terms = Inr sample_receipt"
proof -
  obtain vm where ok: "verify_mint sample_env (sample_mint_tx null_outpoint) null_outpoint sample_issuer_utxo
      sample_terms = Inr vm" and st: "vm_issuer_state vm = sample_state"
    by (rule sample_mint_tx_accepted)
  from ok have spec: "mint_spec sample_env (sample_mint_tx null_outpoint) null_outpoint sample_issuer_utxo sample_terms vm"
    by (simp add: verify_mint_Inr)
  then obtain c where "witness (tx_input (sample_mint_tx null_outpoint) ! issuer_input_index vm)
      = mint_stack (vm_issuer_state vm) (vm_witness vm) c" and "issuer_input_index vm < 1"
    by (auto simp: mint_spec_def position_Some sample_mint_tx_def)
  then have "mint_stack sample_state sample_mint_witness [] = mint_stack (vm_issuer_state vm) (vm_witness vm) c"
    by (simp add: sample_mint_tx_def)
  then have mw: "mw_item_commitment (vm_witness vm) = replicate 32 1" "mw_owner_key (vm_witness vm) = replicate 32 3"
    by (simp_all add: mint_stack_def sample_mint_witness_def)
  have "unique_output (tx_output (sample_mint_tx null_outpoint)) (item_owner_script (replicate 32 3)) (item_output_index vm)"
    using spec mw by (simp add: mint_spec_def outputs_spec_def)
  then have "item_output_index vm = 0"
    by (simp add: unique_output_def sample_mint_tx_def item_owner_script_def All_less_Suc2)
  moreover have "item_output vm = tx_output (sample_mint_tx null_outpoint) ! item_output_index vm"
    "terms_hash sample_state = terms_hash_of sample_env sample_terms"
    using spec st by (simp_all add: mint_spec_def terms_spec_def)
  ultimately have "from_verified_mint sample_env (sample_mint_tx null_outpoint) vm sample_terms = Inr sample_receipt"
    using st mw
    by (simp add: from_verified_mint_def sample_mint_tx_def sample_receipt_def sample_state_def sample_terms_def)
      (simp add: sample_env_def)
  with ok that show thesis by blast
qed

lemma sample_decode:
  "decode_transaction sample_trade_env ''mint'' = Inr (sample_mint_tx null_outpoint)"
  "decode_unsigned sample_trade_env ''list'' = Inr sample_list_tx"
  "decode_unsigned sample_trade_env ''buy'' = Inr sample_buy_tx"
  "decode_unsigned sample_trade_env ''cancel'' = Inr sample_cancel_tx"
  by (simp_all add: decode_transaction_def decode_unsigned_def sample_trade_env_def sample_env_with_def
      sample_mint_tx_def sample_list_tx_def sample_buy_tx_def sample_cancel_tx_def sample_input_def)

lemma sample_receipt_verified: "verify_issuance_receipt sample_trade_env sample_list_request = Inr ()"
proof -
  obtain vm where "verify_mint sample_env (sample_mint_tx null_outpoint) null_outpoint sample_issuer_utxo sample_terms = Inr vm"
    and "from_verified_mint sample_env (sample_mint_tx null_outpoint) vm sample_terms = Inr sample_receipt"
    by (rule sample_mint_receipt)
  moreover have "verify_mint sample_trade_env = verify_mint sample_env" by (rule verify_mint_cong) simp_all
  moreover have "from_verified_mint sample_trade_env = from_verified_mint sample_env"
    by (intro ext) (simp add: from_verified_mint_def terms_hash_of_def)
  ultimately show ?thesis
    by (simp add: verify_issuance_receipt_def sample_list_request_def sample_decode sample_listing_def)
qed

lemma sample_order:
  "\<exists>c. listing_commitment_of sample_trade_env sample_listing = Inr c"
  "\<exists>c. buy_leaf_script sample_trade_env sample_listing = Inr c"
  "\<exists>c. cancel_leaf_script sample_trade_env sample_listing = Inr c"
  "\<exists>a b. spend_info sample_trade_env sample_listing = Inr (a, b, replicate 32 6)"
  "order_txout sample_trade_env sample_listing = Inr sample_order_output"
proof -
  show c: "\<exists>c. listing_commitment_of sample_trade_env sample_listing = Inr c"
    by (simp add: listing_commitment_of_def listing_canonical_bytes_def sample_listing_valid Let_def)
  then show b: "\<exists>c. buy_leaf_script sample_trade_env sample_listing = Inr c"
    "\<exists>c. cancel_leaf_script sample_trade_env sample_listing = Inr c"
    by (auto simp: buy_leaf_script_def cancel_leaf_script_def)
  then show i: "\<exists>a b. spend_info sample_trade_env sample_listing = Inr (a, b, replicate 32 6)"
    by (auto simp: spend_info_def sample_listing_valid sample_env_def)
  then show "order_txout sample_trade_env sample_listing = Inr sample_order_output"
    by (auto simp: order_txout_def listing_output_script_def sample_listing_def sample_receipt_def
        sample_order_output_def sample_env_def)
qed

lemma sample_verified:
  obtains v where "verified sample_trade_env path sample_listing tx prevouts spent fee = Inr v"
    and "vt_seller_key v = seller_key sample_listing"
proof -
  have "\<exists>v. verified sample_trade_env path sample_listing tx prevouts spent fee = Inr v"
    using sample_order by (cases path) (auto simp: verified_def trade_sighash_def sample_env_def)
  with that show thesis using verified_fields(8) by blast
qed

lemma sample_fields:
  "lr_listing sample_list_request = sample_listing" "receipt sample_listing = sample_receipt"
  "expiry_height sample_listing = 100" "max_network_fee_sat sample_listing = 500"
  "cancel_script sample_listing = [0x53]" "price_sat sample_listing = 5000"
  "seller_payout_script sample_listing = [0x51]" "creator_fee_sat sample_listing = 100"
  "creator_fee_script sample_listing = [0x52]" "item_sat_amount sample_receipt = 1000"
  "ir_outpoint sample_receipt = mk_outpoint (replicate 31 0 @ [2]) 0"
  "lr_raw_tx_hex sample_list_request = ''list''"
  "lr_prevouts sample_list_request = [receipt_txout sample_receipt, mk_txout 5000 [0x54]]"
  by (simp_all add: sample_list_request_def sample_listing_def sample_receipt_def)

lemma sample_list_policy:
  assumes "height < 100"
  shows "list_policy sample_trade_env sample_list_request height sample_list_tx 300"
proof -
  have "tx_version sample_list_tx = version_two" "lock_time sample_list_tx = 0"
    "tx_output sample_list_tx = [sample_order_output, mk_txout 4700 [0x53]]"
    "map previous_output (tx_input sample_list_tx) = [ir_outpoint sample_receipt, null_outpoint]"
    "length (tx_input sample_list_tx) = 2" "previous_output (tx_input sample_list_tx ! 0) = ir_outpoint sample_receipt"
    by (simp_all add: sample_list_tx_def sample_input_def)
  with assms show ?thesis
    by (simp add: list_policy_def Let_def sample_fields sample_listing_valid sample_receipt_verified sample_decode
        sample_order(5) common_inputs_Inr trade_fee_Inr receipt_txout_def sample_order_output_def null_outpoint_def)
qed

lemma sample_list_accepted:
  assumes "height < 100"
  obtains v where "wallet_verify_list sample_trade_env sample_list_request height = Inr v"
    and "mk_outpoint (vt_txid v) 0 = sample_order_outpoint"
proof -
  obtain v where v: "verified sample_trade_env PathList (lr_listing sample_list_request) sample_list_tx
      (lr_prevouts sample_list_request) (ir_outpoint (receipt (lr_listing sample_list_request))) 300 = Inr v"
    using sample_verified [of PathList] by (metis sample_fields(1))
  with sample_list_policy [OF assms] have "wallet_verify_list sample_trade_env sample_list_request height = Inr v"
    by (auto simp: wallet.list_law)
  moreover have "vt_txid v = replicate 31 0 @ [2]"
    by (simp add: verified_fields [OF v]) (simp add: sample_env_def sample_list_tx_def)
  ultimately show thesis using that by (simp add: sample_order_outpoint_def)
qed

lemma sample_buy_policy:
  assumes "mk_outpoint txid 0 = sample_order_outpoint"
  shows "buy_policy sample_trade_env sample_buy_request txid 90 sample_buy_tx 300"
proof -
  have "buyer_ownership_message sample_trade_env sample_buy_request \<noteq> Inl e" for e
    using sample_order(1) by (auto simp: buyer_ownership_message_def sample_buy_request_def sample_decode)
  then obtain m where "buyer_ownership_message sample_trade_env sample_buy_request = Inr m"
    by (cases "buyer_ownership_message sample_trade_env sample_buy_request") auto
  then have "verify_buyer sample_trade_env sample_buy_request = Inr ()"
    by (simp add: verify_buyer_def) (simp add: sample_buy_request_def sample_env_def)
  moreover have "tx_version sample_buy_tx = version_two" "lock_time sample_buy_tx = 0"
    "tx_output sample_buy_tx = [mk_txout 1000 (p2tr_output_script (replicate 32 4)), mk_txout 5000 [0x51], mk_txout 100 [0x52]]"
    "map previous_output (tx_input sample_buy_tx) = [sample_order_outpoint, null_outpoint]"
    "length (tx_input sample_buy_tx) = 2" "previous_output (tx_input sample_buy_tx ! 0) = sample_order_outpoint"
    by (simp_all add: sample_buy_tx_def sample_input_def)
  moreover have "sample_order_outpoint \<noteq> null_outpoint" by (simp add: sample_order_outpoint_def null_outpoint_def)
  ultimately show ?thesis
    using assms
    by (simp add: buy_policy_def Let_def sample_decode common_inputs_Inr)
      (simp add: sample_buy_request_def sample_fields sample_listing_valid sample_decode
        sample_order(5) trade_fee_Inr sample_order_output_def buy_outputs_def item_owner_script_def)
qed

lemma sample_cancel_policy:
  assumes "mk_outpoint txid 0 = sample_order_outpoint"
  shows "cancel_policy sample_trade_env sample_cancel_request txid 100 sample_cancel_tx 300"
proof -
  have "tx_version sample_cancel_tx = version_two" "lock_time sample_cancel_tx = 100"
    "tx_output sample_cancel_tx = [mk_txout 1000 [0x53]]"
    "tx_input sample_cancel_tx = [sample_input sample_order_outpoint, sample_input null_outpoint]"
    by (simp_all add: sample_cancel_tx_def)
  moreover have "sample_order_outpoint \<noteq> null_outpoint" by (simp add: sample_order_outpoint_def null_outpoint_def)
  ultimately show ?thesis
    using assms
    by (simp add: cancel_policy_def Let_def sample_cancel_request_def sample_decode common_inputs_Inr sample_input_def
        is_final_def sequence_max_def sample_fields sample_listing_valid sample_order(5) trade_fee_Inr
        sample_order_output_def cancel_outputs_def)
qed

lemma sample_buy_accepted:
  obtains v where "wallet_verify_buy sample_trade_env sample_buy_request 90 = Inr v"
    and "wallet_verify sample_trade_env (BuyReq sample_buy_request) 90 = Inr v"
proof -
  have r: "bu_list_request sample_buy_request = sample_list_request" "bu_listing sample_buy_request = sample_listing"
    by (simp_all add: sample_buy_request_def)
  obtain listed where l: "wallet_verify_list sample_trade_env sample_list_request 90 = Inr listed"
    "mk_outpoint (vt_txid listed) 0 = sample_order_outpoint"
    by (rule sample_list_accepted [of 90]) simp
  obtain v where "verified sample_trade_env PathBuy sample_listing sample_buy_tx (bu_prevouts sample_buy_request)
      (bu_order_outpoint sample_buy_request) 300 = Inr v"
    by (rule sample_verified)
  with l sample_buy_policy [OF l(2)] r have "wallet_verify_buy sample_trade_env sample_buy_request 90 = Inr v"
    by (auto simp: wallet.buy_law)
  with that show thesis by (simp add: wallet_verify_def)
qed

lemma sample_cancel_accepted:
  obtains v where "wallet_verify_cancel sample_trade_env sample_cancel_request 100 = Inr v"
proof -
  have r: "ca_list_request sample_cancel_request = sample_list_request" "ca_listing sample_cancel_request = sample_listing"
    by (simp_all add: sample_cancel_request_def)
  obtain listed where l: "wallet_verify_list sample_trade_env sample_list_request 99 = Inr listed"
    "mk_outpoint (vt_txid listed) 0 = sample_order_outpoint"
    by (rule sample_list_accepted [of 99]) simp
  obtain v where "verified sample_trade_env PathCancel sample_listing sample_cancel_tx (ca_prevouts sample_cancel_request)
      (ca_order_outpoint sample_cancel_request) 300 = Inr v"
    by (rule sample_verified)
  moreover have "saturating_sub (expiry_height (ca_listing sample_cancel_request)) 1 = 99"
    by (simp add: r sample_fields saturating_sub_def)
  ultimately have "wallet_verify_cancel sample_trade_env sample_cancel_request 100 = Inr v"
    using l sample_cancel_policy [OF l(2)] r by (auto simp: wallet.cancel_law)
  with that show thesis .
qed

theorem accepted_buy_settles_witness:
  "\<exists>v. wallet_verify_buy sample_trade_env sample_buy_request 90 = Inr v \<and> 0 < vt_fee_sat v
     \<and> vt_fee_sat v \<le> max_network_fee_sat (bu_listing sample_buy_request)"
  by (rule sample_buy_accepted) (use accepted_buy_settles in blast)

theorem buy_and_cancel_exclusive_witness:
  "\<exists>v w. wallet_verify_buy sample_trade_env sample_buy_request 90 = Inr v
     \<and> wallet_verify_cancel sample_trade_env sample_cancel_request 100 = Inr w
     \<and> spent_order_outpoint v = spent_order_outpoint w"
proof -
  obtain v w where ok: "wallet_verify_buy sample_trade_env sample_buy_request 90 = Inr v"
    "wallet_verify_cancel sample_trade_env sample_cancel_request 100 = Inr w"
    by (rule sample_buy_accepted, rule sample_cancel_accepted)
  moreover have "bu_list_request sample_buy_request = ca_list_request sample_cancel_request"
    by (simp add: sample_buy_request_def sample_cancel_request_def)
  ultimately show ?thesis using buy_and_cancel_exclusive by blast
qed

theorem finalize_roundtrip_witness:
  "\<exists>v final. wallet_verify sample_trade_env (BuyReq sample_buy_request) 90 = Inr v
     \<and> apply_trade_signature v (replicate 64 1) = Inr final \<and> verify_finalized sample_trade_env final v = Inr ()"
proof -
  obtain v where v: "wallet_verify sample_trade_env (BuyReq sample_buy_request) 90 = Inr v"
    by (rule sample_buy_accepted)
  have "txid_ignores_witness sample_trade_env" "sighash_ignores_witness sample_trade_env" "schnorr_parse_64 sample_trade_env"
    using sample_env_ignores_witness sample_env_hyps(4)
    by (simp_all add: txid_ignores_witness_def sighash_ignores_witness_def schnorr_parse_64_def)
  from finalize_roundtrip [OF v this, of "replicate 64 1"]
  obtain final where "apply_trade_signature v (replicate 64 1) = Inr final"
    and "verify_finalized sample_trade_env final v
      = (if schnorr_verify sample_env (replicate 64 1) (vt_sighash v) (vt_seller_key v) then Inr ()
         else Inl InvalidSellerSignature)" by auto
  with v show ?thesis by (auto simp: sample_env_def)
qed

theorem verify_finalized_sound_witness:
  "\<exists>v. wallet_verify sample_trade_env (BuyReq sample_buy_request) 90 = Inr v
     \<and> verify_finalized sample_trade_env sample_list_tx v \<noteq> Inl TradePanic"
  by (rule sample_buy_accepted) (use verify_finalized_sound in blast)

end
