(* ===== verification/Frost_Session.thy ===== *)
theory Frost_Session
  imports Bitcoin_Env
begin

text \<open>
  \<open>crates/threshold-signer/src\<close>: the nonce guard (\<open>nonce_guard.rs\<close>), signing sessions and the
  authorisation seam (\<open>session.rs\<close>) and the helpers of \<open>lib.rs\<close>.  The FROST implementation is a
  third-party crate; its functions are the fields of \<open>frost_env\<close>, and its opaque values
  (identifiers, nonces, commitments, shares, key packages) are byte strings.  A method that
  mutates its arguments also when it fails returns the error together with the new state.
\<close>

section \<open>The FROST library\<close>

datatype frost_error =
    FrostError string
  | MalformedIdentifier
  | UnknownIdentifier
  | IncorrectPackage
  | InvalidMaxSigners

record signing_package =
  sp_commitments :: "(bytes, bytes) btree"
  sp_message :: bytes

record frost_env =
  identifier_of :: "u16 \<Rightarrow> bytes option"
  nonces_serialize :: "bytes \<Rightarrow> bytes option"
  key_identifier :: "bytes \<Rightarrow> bytes"
  frost_commit :: "bytes \<Rightarrow> bytes \<Rightarrow> bytes \<times> bytes"
  frost_sign :: "signing_package \<Rightarrow> bytes \<Rightarrow> bytes \<Rightarrow> (frost_error, bytes) rresult"
  frost_aggregate :: "signing_package \<Rightarrow> (bytes, bytes) btree \<Rightarrow> bytes \<Rightarrow> (frost_error, bytes) rresult"
  frost_verify :: "bytes \<Rightarrow> bytes \<Rightarrow> bytes \<Rightarrow> (frost_error, unit) rresult"
  verifying_shares :: "bytes \<Rightarrow> bytes \<rightharpoonup> bytes"
  verify_signature_share :: "bytes \<Rightarrow> bytes \<Rightarrow> bytes \<Rightarrow> signing_package \<Rightarrow> bytes \<Rightarrow> bool"
  verifying_key_serialize :: "bytes \<Rightarrow> (frost_error, bytes) rresult"
  signature_serialize :: "bytes \<Rightarrow> (frost_error, bytes) rresult"
  package_deserialize :: "bytes \<Rightarrow> signing_package option"
  commitment_serialize :: "bytes \<Rightarrow> bytes option"
  share_serialize :: "bytes \<Rightarrow> bytes"

text \<open>
  \<^item> \<open>identifier_of\<close> is \<open>Identifier::try_from(u16)\<close> and \<open>key_identifier\<close> the identifier of a key package.
  \<^item> \<open>frost_commit key seed\<close> is \<open>round1::commit\<close> with the randomness it draws, and yields nonces and commitments.
  \<^item> \<open>frost_sign\<close>, \<open>frost_aggregate\<close> and \<open>frost_verify\<close> are \<open>round2::sign\<close>, \<open>aggregate\<close> and
    \<open>VerifyingKey::verify\<close>; the last two and \<open>verifying_shares\<close> take the public key package.
  \<^item> \<open>verify_signature_share id vshare share package public\<close> is \<open>frost_core::verify_signature_share\<close>.
\<close>

definition participant_identifier :: "frost_env \<Rightarrow> u16 \<Rightarrow> (frost_error, bytes) rresult" where
  "participant_identifier F i = ok_or MalformedIdentifier (identifier_of F i)"

text \<open>Distinct signer numbers have distinct identifiers.\<close>

definition identifiers_distinct :: "frost_env \<Rightarrow> bool" where
  "identifiers_distinct F \<longleftrightarrow> (\<forall>i j x. identifier_of F i = Some x \<longrightarrow> identifier_of F j = Some x \<longrightarrow> i = j)"

definition group_pubkey_xonly_of :: "frost_env \<Rightarrow> bytes \<Rightarrow> (frost_error, bytes) rresult" where
  "group_pubkey_xonly_of F pk =
     rbind (verifying_key_serialize F pk) (\<lambda>bs.
       if length bs = 32 then Inr bs
       else if length bs = 33 then Inr (tl bs)
       else Inl MalformedIdentifier)"

definition DEFAULT_MAX_SIGNERS :: u16 where "DEFAULT_MAX_SIGNERS = 3"
definition DEFAULT_MIN_SIGNERS :: u16 where "DEFAULT_MIN_SIGNERS = 2"

section \<open>Nonce guard\<close>

text \<open>\<open>FingerprintPanic\<close> is the \<open>expect\<close> on the serialisation of the nonces.\<close>

datatype nonce_reuse_error = ReusedInOtherSession bytes | ReusedInSameSession | FingerprintPanic

record nonce_guard =
  claims :: "bytes \<rightharpoonup> bytes"

definition nonce_guard_new :: nonce_guard where
  "nonce_guard_new = \<lparr>claims = Map.empty\<rparr>"

definition FINGERPRINT_TAG :: bytes where "FINGERPRINT_TAG = ascii ''catomicals-frost-nonce-v1''"

definition fingerprint :: "bitcoin_env \<Rightarrow> frost_env \<Rightarrow> u16 \<Rightarrow> bytes \<Rightarrow> (nonce_reuse_error, bytes) rresult" where
  "fingerprint E F participant_id nonces =
     rbind (ok_or FingerprintPanic (nonces_serialize F nonces)) (\<lambda>bs.
       Inr (sha256 E (FINGERPRINT_TAG @ u16_be participant_id @ bs)))"

definition claim_fingerprint :: "nonce_guard \<Rightarrow> bytes \<Rightarrow> bytes \<Rightarrow> (nonce_reuse_error, nonce_guard) rresult" where
  "claim_fingerprint g fp session_id =
     (case claims g fp of
        None \<Rightarrow> Inr (g\<lparr>claims := (claims g)(fp \<mapsto> session_id)\<rparr>)
      | Some prior \<Rightarrow>
          if prior = session_id then Inl ReusedInSameSession else Inl (ReusedInOtherSession prior))"

definition claim ::
    "bitcoin_env \<Rightarrow> frost_env \<Rightarrow> nonce_guard \<Rightarrow> u16 \<Rightarrow> bytes \<Rightarrow> bytes \<Rightarrow> (nonce_reuse_error, nonce_guard) rresult" where
  "claim E F g participant_id nonces session_id =
     rbind (fingerprint E F participant_id nonces) (\<lambda>fp. claim_fingerprint g fp session_id)"

lemma claim_fingerprint_Inr:
  "claim_fingerprint g fp s = Inr g' \<longleftrightarrow> claims g fp = None \<and> g' = g\<lparr>claims := (claims g)(fp \<mapsto> s)\<rparr>"
  by (cases "claims g fp") (auto simp: claim_fingerprint_def)

lemma claim_Inr:
  "claim E F g i n s = Inr g' \<longleftrightarrow>
     (\<exists>fp. fingerprint E F i n = Inr fp \<and> claims g fp = None \<and> g' = g\<lparr>claims := (claims g)(fp \<mapsto> s)\<rparr>)"
  by (auto simp: claim_def claim_fingerprint_Inr result_simps)

section \<open>Sessions\<close>

record frost_session =
  fs_id :: bytes
  fs_message :: bytes
  fs_min_signers :: u16
  fs_package :: signing_package
  fs_public :: bytes

definition build_session :: "bytes \<Rightarrow> bytes \<Rightarrow> u16 \<Rightarrow> (bytes, bytes) btree \<Rightarrow> bytes \<Rightarrow> frost_session" where
  "build_session i message min_signers commitments pk =
     \<lparr>fs_id = i, fs_message = message, fs_min_signers = min_signers,
      fs_package = \<lparr>sp_commitments = commitments, sp_message = message\<rparr>, fs_public = pk\<rparr>"

datatype authorization_error =
    AlreadyConsumed
  | WrongSession
  | WrongMessage
  | WrongSigner
  | AuthorizationExpired

datatype signing_error =
    Authorization authorization_error
  | NonceReuse nonce_reuse_error
  | Frost frost_error
  | KeyPackageSignerMismatch
  | RoundOneAlreadyExists
  | RoundOneNotFound
  | RoundBindingMismatch
  | UnexpectedSignatureLength nat

text \<open>
  The trait \<open>SigningAuthorization\<close> has one method; the sources take it as a trait object, so it is an
  argument of the operations below.
\<close>

type_synonym 'a authorizer =
  "'a \<Rightarrow> bytes \<Rightarrow> bytes \<Rightarrow> u16 \<Rightarrow> int \<Rightarrow> (authorization_error, unit) rresult \<times> 'a"

definition sign_share ::
    "bitcoin_env \<Rightarrow> frost_env \<Rightarrow> 'a authorizer \<Rightarrow> frost_session \<Rightarrow> u16 \<Rightarrow> bytes \<Rightarrow> bytes \<Rightarrow>
     nonce_guard \<Rightarrow> 'a \<Rightarrow> int \<Rightarrow> (signing_error, bytes) rresult \<times> nonce_guard \<times> 'a" where
  "sign_share E F authorize session signer_id nonces key_package guard authorization now =
     (case authorize authorization (fs_id session) (fs_message session) signer_id now of
        (Inl e, authorization') \<Rightarrow> (Inl (Authorization e), guard, authorization')
      | (Inr _, authorization') \<Rightarrow>
          (case claim E F guard signer_id nonces (fs_id session) of
             Inl e \<Rightarrow> (Inl (NonceReuse e), guard, authorization')
           | Inr guard' \<Rightarrow>
               (rbind (map_err Frost (participant_identifier F signer_id)) (\<lambda>expected.
                  if key_identifier F key_package \<noteq> expected then Inl KeyPackageSignerMismatch
                  else map_err Frost (frost_sign F (fs_package session) nonces key_package)),
                guard', authorization')))"

definition verify_signature :: "frost_env \<Rightarrow> frost_session \<Rightarrow> bytes \<Rightarrow> (signing_error, unit) rresult" where
  "verify_signature F session signature =
     map_err Frost (frost_verify F (fs_public session) (fs_message session) signature)"

definition aggregate_and_verify ::
    "frost_env \<Rightarrow> frost_session \<Rightarrow> (bytes, bytes) btree \<Rightarrow> (signing_error, bytes) rresult" where
  "aggregate_and_verify F session shares =
     rbind (map_err Frost (frost_aggregate F (fs_package session) shares (fs_public session))) (\<lambda>signature.
     rbind (verify_signature F session signature) (\<lambda>_. Inr signature))"

definition signature_to_bytes :: "frost_env \<Rightarrow> bytes \<Rightarrow> (signing_error, bytes) rresult" where
  "signature_to_bytes F signature =
     rbind (map_err Frost (signature_serialize F signature)) (\<lambda>bs.
       if length bs \<noteq> 64 then Inl (UnexpectedSignatureLength (length bs)) else Inr bs)"

lemma aggregate_and_verify_Inr:
  "aggregate_and_verify F session shares = Inr sig \<Longrightarrow>
     frost_verify F (fs_public session) (fs_message session) sig = Inr ()"
  by (auto simp: aggregate_and_verify_def verify_signature_def result_simps)

section \<open>One-time authorisation\<close>

text \<open>
  The contract of \<open>SigningAuthorization\<close>: a token is spent by the first success, success needs the
  exact session, message and signer and a time within its life, and a refusal does not change it.
\<close>

locale signing_authorization =
  fixes authorize :: "'a authorizer"
    and spent :: "'a \<Rightarrow> bool"
    and binds :: "'a \<Rightarrow> bytes \<Rightarrow> bytes \<Rightarrow> u16 \<Rightarrow> int \<Rightarrow> bool"
  assumes spent_refused: "spent a \<Longrightarrow> authorize a s m i now = (Inl AlreadyConsumed, a)"
    and refused: "authorize a s m i now = (Inl e, a') \<Longrightarrow> a' = a"
    and accepted: "authorize a s m i now = (Inr (), a') \<Longrightarrow> \<not> spent a \<and> binds a s m i now \<and> spent a'"
begin

lemma sign_share_cases:
  assumes "sign_share E F authorize session i n k g a now = (r, g', a')"
  shows "(\<exists>e. r = Inl (Authorization e) \<and> g' = g \<and> a' = a)
    \<or> (\<not> spent a \<and> binds a (fs_id session) (fs_message session) i now \<and> spent a')"
proof (cases "authorize a (fs_id session) (fs_message session) i now")
  case (Pair res a1)
  show ?thesis
  proof (cases res)
    case (Inl e)
    with Pair refused [of a] assms show ?thesis by (auto simp: sign_share_def)
  next
    case (Inr u)
    with Pair accepted [of a "fs_id session" "fs_message session" i now a1]
    have "\<not> spent a \<and> binds a (fs_id session) (fs_message session) i now \<and> spent a1" by simp
    with Pair Inr assms show ?thesis by (auto simp: sign_share_def split: sum.splits)
  qed
qed

lemma sign_share_spent:
  "spent a \<Longrightarrow> sign_share E F authorize session i n k g a now = (Inl (Authorization AlreadyConsumed), g, a)"
  by (simp add: sign_share_def spent_refused)

text \<open>A share is produced only with a fresh, exactly bound token and with nonces never claimed before.\<close>

lemma sign_share_ok:
  assumes "sign_share E F authorize session i n k g a now = (Inr share, g', a')"
  shows "\<not> spent a" "binds a (fs_id session) (fs_message session) i now" "spent a'"
    and "\<exists>fp. fingerprint E F i n = Inr fp \<and> claims g fp = None \<and> claims g' = (claims g)(fp \<mapsto> fs_id session)"
    and "frost_sign F (fs_package session) n k = Inr share"
proof -
  show "\<not> spent a" "binds a (fs_id session) (fs_message session) i now" "spent a'"
    using sign_share_cases [OF assms] by auto
  show "\<exists>fp. fingerprint E F i n = Inr fp \<and> claims g fp = None \<and> claims g' = (claims g)(fp \<mapsto> fs_id session)"
    "frost_sign F (fs_package session) n k = Inr share"
    using assms
    by (auto simp: sign_share_def claim_Inr result_simps split: prod.splits sum.splits if_splits)
qed

end

end
