(* ===== verification/Frost_Participant.thy ===== *)
theory Frost_Participant
  imports Frost_Session
begin

text \<open>
  \<open>crates/threshold-signer/src/participant.rs\<close>: the participant, which keeps the secret nonces of
  its pending rounds, and the coordinator of one session.  The randomness of round one is an
  argument.
\<close>

section \<open>The participant\<close>

record pending_round_one =
  pr_message :: bytes
  pr_nonces :: bytes
  pr_commitments :: bytes

record local_frost_participant =
  pa_signer_id :: u16
  pa_key_package :: bytes
  pa_nonce_guard :: nonce_guard
  pa_pending :: "(bytes, pending_round_one) btree"

definition participant_new ::
    "frost_env \<Rightarrow> u16 \<Rightarrow> bytes \<Rightarrow> nonce_guard \<Rightarrow> (signing_error, local_frost_participant) rresult" where
  "participant_new F signer_id key_package guard =
     rbind (map_err Frost (participant_identifier F signer_id)) (\<lambda>expected.
       if key_identifier F key_package \<noteq> expected then Inl KeyPackageSignerMismatch
       else Inr \<lparr>pa_signer_id = signer_id, pa_key_package = key_package, pa_nonce_guard = guard, pa_pending = []\<rparr>)"

definition round1 ::
    "frost_env \<Rightarrow> local_frost_participant \<Rightarrow> bytes \<Rightarrow> bytes \<Rightarrow> bytes \<Rightarrow>
     (signing_error, bytes \<times> local_frost_participant) rresult" where
  "round1 F p seed session_id message =
     (if bt_contains session_id (pa_pending p) then Inl RoundOneAlreadyExists
      else let (nonces, commitments) = frost_commit F (pa_key_package p) seed in
        Inr (commitments, p\<lparr>pa_pending := bt_insert session_id
          \<lparr>pr_message = message, pr_nonces = nonces, pr_commitments = commitments\<rparr> (pa_pending p)\<rparr>))"

definition pending_nonce_fingerprint ::
    "bitcoin_env \<Rightarrow> frost_env \<Rightarrow> local_frost_participant \<Rightarrow> bytes \<Rightarrow> bytes \<Rightarrow> (signing_error, bytes) rresult" where
  "pending_nonce_fingerprint E F p session_id message =
     rbind (ok_or RoundOneNotFound (map_of (pa_pending p) session_id)) (\<lambda>pending.
       if pr_message pending \<noteq> message then Inl RoundBindingMismatch
       else map_err NonceReuse (fingerprint E F (pa_signer_id p) (pr_nonces pending)))"

definition abort_round :: "local_frost_participant \<Rightarrow> bytes \<Rightarrow> bool \<times> local_frost_participant" where
  "abort_round p session_id =
     (bt_contains session_id (pa_pending p), p\<lparr>pa_pending := bt_remove session_id (pa_pending p)\<rparr>)"

definition round2 ::
    "bitcoin_env \<Rightarrow> frost_env \<Rightarrow> 'a authorizer \<Rightarrow> local_frost_participant \<Rightarrow> frost_session \<Rightarrow> 'a \<Rightarrow> int \<Rightarrow>
     (signing_error, bytes) rresult \<times> local_frost_participant \<times> 'a" where
  "round2 E F authorize p session authorization now =
     (case map_of (pa_pending p) (fs_id session) of
        None \<Rightarrow> (Inl RoundOneNotFound, p, authorization)
      | Some pending \<Rightarrow>
          (case participant_identifier F (pa_signer_id p) of
             Inl e \<Rightarrow> (Inl (Frost e), p, authorization)
           | Inr identifier \<Rightarrow>
               if pr_message pending \<noteq> fs_message session
                  \<or> map_of (sp_commitments (fs_package session)) identifier \<noteq> Some (pr_commitments pending)
               then (Inl RoundBindingMismatch, p, authorization)
               else let p' = p\<lparr>pa_pending := bt_remove (fs_id session) (pa_pending p)\<rparr>;
                        (res, guard', authorization') =
                          sign_share E F authorize session (pa_signer_id p) (pr_nonces pending)
                            (pa_key_package p) (pa_nonce_guard p) authorization now
                    in (res, p'\<lparr>pa_nonce_guard := guard'\<rparr>, authorization')))"

section \<open>Runs of a participant\<close>

text \<open>
  A run is any sequence of calls; the log records, for every share produced, the fingerprint of
  the nonces that signed it and the session it was produced for.
\<close>

datatype 'a participant_op =
    Round1 bytes bytes bytes
  | Round2 frost_session 'a int
  | AbortRound bytes

record share_log =
  sl_fingerprint :: bytes
  sl_session :: frost_session

definition share_fingerprint :: "bitcoin_env \<Rightarrow> frost_env \<Rightarrow> local_frost_participant \<Rightarrow> bytes \<Rightarrow> bytes" where
  "share_fingerprint E F p session_id =
     (case map_of (pa_pending p) session_id of
        None \<Rightarrow> []
      | Some pending \<Rightarrow>
          (case fingerprint E F (pa_signer_id p) (pr_nonces pending) of Inl _ \<Rightarrow> [] | Inr fp \<Rightarrow> fp))"

fun participant_exec ::
    "bitcoin_env \<Rightarrow> frost_env \<Rightarrow> 'a authorizer \<Rightarrow> local_frost_participant \<Rightarrow> 'a participant_op \<Rightarrow>
     share_log list \<times> local_frost_participant" where
  "participant_exec E F authorize p (Round1 seed sid msg) =
     (case round1 F p seed sid msg of Inl _ \<Rightarrow> ([], p) | Inr (_, p') \<Rightarrow> ([], p'))"
| "participant_exec E F authorize p (Round2 session a now) =
     (case round2 E F authorize p session a now of
        (Inl _, p', _) \<Rightarrow> ([], p')
      | (Inr _, p', _) \<Rightarrow>
          ([\<lparr>sl_fingerprint = share_fingerprint E F p (fs_id session), sl_session = session\<rparr>], p'))"
| "participant_exec E F authorize p (AbortRound sid) = ([], snd (abort_round p sid))"

primrec participant_run ::
    "bitcoin_env \<Rightarrow> frost_env \<Rightarrow> 'a authorizer \<Rightarrow> local_frost_participant \<Rightarrow> 'a participant_op list \<Rightarrow>
     share_log list \<times> local_frost_participant" where
  "participant_run E F authorize p [] = ([], p)"
| "participant_run E F authorize p (op # ops) =
     (let (log, p') = participant_exec E F authorize p op;
          (logs, p'') = participant_run E F authorize p' ops in (log @ logs, p''))"

lemma sign_share_guard:
  assumes "sign_share E F authorize session i n k g a now = (r, g', a')"
  shows "claims g \<subseteq>\<^sub>m claims g'"
    and "r = Inr share \<Longrightarrow> \<exists>fp. fingerprint E F i n = Inr fp \<and> claims g fp = None \<and> claims g' fp = Some (fs_id session)"
  using assms
  by (auto simp: sign_share_def claim_Inr map_le_def split: prod.splits sum.splits)

lemma round2_guard:
  assumes "round2 E F authorize p session a now = (r, p', a')"
  shows "claims (pa_nonce_guard p) \<subseteq>\<^sub>m claims (pa_nonce_guard p')"
    and "r = Inr share \<Longrightarrow> claims (pa_nonce_guard p) (share_fingerprint E F p (fs_id session)) = None
      \<and> claims (pa_nonce_guard p') (share_fingerprint E F p (fs_id session)) = Some (fs_id session)"
proof -
  show "claims (pa_nonce_guard p) \<subseteq>\<^sub>m claims (pa_nonce_guard p')"
    using assms by (auto simp: round2_def Let_def dest: sign_share_guard(1) split: option.splits sum.splits if_splits prod.splits)
  show "r = Inr share \<Longrightarrow> claims (pa_nonce_guard p) (share_fingerprint E F p (fs_id session)) = None
      \<and> claims (pa_nonce_guard p') (share_fingerprint E F p (fs_id session)) = Some (fs_id session)"
    using assms
    by (auto simp: round2_def Let_def share_fingerprint_def dest!: sign_share_guard(2)
        split: option.splits sum.splits if_splits prod.splits)
qed

lemma participant_exec_guard:
  assumes "participant_exec E F authorize p op = (log, p')"
  shows "claims (pa_nonce_guard p) \<subseteq>\<^sub>m claims (pa_nonce_guard p')"
    and "length log \<le> 1"
    and "l \<in> set log \<Longrightarrow> claims (pa_nonce_guard p) (sl_fingerprint l) = None
      \<and> claims (pa_nonce_guard p') (sl_fingerprint l) = Some (fs_id (sl_session l))"
  using assms
  by (cases op; auto simp: round1_def abort_round_def Let_def dest: round2_guard split: sum.splits prod.splits if_splits)+

lemma participant_run_guard:
  assumes "participant_run E F authorize p ops = (log, p')"
  shows "claims (pa_nonce_guard p) \<subseteq>\<^sub>m claims (pa_nonce_guard p') \<and> distinct (map sl_fingerprint log)
    \<and> (\<forall>l \<in> set log. claims (pa_nonce_guard p) (sl_fingerprint l) = None
        \<and> claims (pa_nonce_guard p') (sl_fingerprint l) = Some (fs_id (sl_session l)))"
  using assms
proof (induction ops arbitrary: p log)
  case Nil
  then show ?case by simp
next
  case (Cons op ops)
  obtain l1 p1 where e: "participant_exec E F authorize p op = (l1, p1)" by fastforce
  obtain l2 where r: "participant_run E F authorize p1 ops = (l2, p')" and log: "log = l1 @ l2"
    using Cons.prems e by (auto split: prod.splits)
  note g = participant_exec_guard [OF e] and ih = Cons.IH [OF r]
  have old: "claims (pa_nonce_guard p) x = None" if "claims (pa_nonce_guard p1) x = None" for x
    using g(1) that by (metis domIff map_le_def)
  have new: "claims (pa_nonce_guard p') x = Some y" if "claims (pa_nonce_guard p1) x = Some y" for x y
    using ih that by (metis domI map_le_def)
  have "distinct (map sl_fingerprint l1)" using g(2) by (cases l1) auto
  moreover have "sl_fingerprint ` set l1 \<inter> sl_fingerprint ` set l2 = {}" using g(3) ih by fastforce
  ultimately have "distinct (map sl_fingerprint log)" using ih log by simp
  moreover have "claims (pa_nonce_guard p) \<subseteq>\<^sub>m claims (pa_nonce_guard p')" using g(1) ih map_le_trans by blast
  ultimately show ?case using g(3) ih old new log by auto
qed

text \<open>
  C13: a participant never signs twice with the same nonces.  In any sequence of round-one,
  round-two and abort calls, under any authorisation and any randomness (repeated draws
  included), all produced shares used pairwise different nonce fingerprints, none of them was
  claimed before the run, and each is recorded for the session it signed.
\<close>

theorem participant_nonces_single_use:
  assumes "participant_run E F authorize p ops = (log, p')"
  shows "distinct (map sl_fingerprint log)
    \<and> (\<forall>l \<in> set log. claims (pa_nonce_guard p) (sl_fingerprint l) = None
        \<and> claims (pa_nonce_guard p') (sl_fingerprint l) = Some (fs_id (sl_session l)))"
  using participant_run_guard [OF assms] by blast

definition sample_frost :: frost_env where
  "sample_frost = \<lparr>identifier_of = (\<lambda>i. if i = 0 then None else Some (u16_be i)),
     nonces_serialize = (\<lambda>n. Some n), key_identifier = (\<lambda>k. k), frost_commit = (\<lambda>k seed. (seed, seed)),
     frost_sign = (\<lambda>pkg n k. Inr n), frost_aggregate = (\<lambda>pkg shares pk. Inr [0x99]),
     frost_verify = (\<lambda>pk m s. Inr ()), verifying_shares = (\<lambda>pk i. Some i),
     verify_signature_share = (\<lambda>i v s pkg pk. True), verifying_key_serialize = (\<lambda>pk. Inr pk),
     signature_serialize = (\<lambda>s. Inr s),
     package_deserialize = (\<lambda>bs. Some \<lparr>sp_commitments = [(u16_be 1, [0x11])], sp_message = bs\<rparr>),
     commitment_serialize = (\<lambda>c. Some c), share_serialize = (\<lambda>s. s)\<rparr>"

definition sample_session :: frost_session where
  "sample_session = build_session [1] [2] 1 [(u16_be 1, [0x11])] [3]"

lemma sample_frost_simps:
  "participant_identifier sample_frost 1 = Inr (u16_be 1)" "nonces_serialize sample_frost n = Some n"
  "frost_commit sample_frost k seed = (seed, seed)" "key_identifier sample_frost k = k"
  "frost_sign sample_frost pkg n k = Inr n"
  by (simp_all add: participant_identifier_def sample_frost_def)

theorem participant_nonces_single_use_witness:
  "\<exists>p log p'. participant_new sample_frost 1 (u16_be 1) nonce_guard_new = Inr p
     \<and> participant_run sample_env sample_frost (\<lambda>a s m i now. (Inr (), a)) p
         [Round1 [0x11] [1] [2], Round2 sample_session () 0, Round1 [0x11] [1] [2], Round2 sample_session () 0] = (log, p')
     \<and> length log = 1 \<and> distinct (map sl_fingerprint log)"
proof -
  let ?p = "\<lparr>pa_signer_id = 1, pa_key_package = u16_be 1, pa_nonce_guard = nonce_guard_new, pa_pending = []\<rparr>"
  let ?ops = "[Round1 [0x11] [1] [2], Round2 sample_session () 0, Round1 [0x11] [1] [2], Round2 sample_session () 0]"
  obtain log p' where r: "participant_run sample_env sample_frost (\<lambda>a s m i now. (Inr (), a)) ?p ?ops = (log, p')"
    by fastforce
  moreover have "length log = 1"
    using r
    by (auto simp: round1_def round2_def sign_share_def claim_def fingerprint_def claim_fingerprint_def
        sample_session_def build_session_def nonce_guard_new_def bt_contains_def bt_remove_def Let_def
        sample_frost_simps)
  moreover have "participant_new sample_frost 1 (u16_be 1) nonce_guard_new = Inr ?p"
    by (simp add: participant_new_def participant_identifier_def sample_frost_def)
  ultimately show ?thesis using participant_nonces_single_use [OF r] by blast
qed

section \<open>The coordinator\<close>

text \<open>\<open>CoordinatorSigning\<close> carries the signing error instead of its rendered text.\<close>

datatype coordinator_error =
    CoordinatorDuplicate u16
  | InsufficientCommitments u16 nat
  | InsufficientShares u16 nat
  | InvalidParticipant
  | CoordinatorSigning signing_error

record frost_coordinator =
  co_session_id :: bytes
  co_message :: bytes
  co_min_signers :: u16
  co_public_key_package :: bytes
  co_commitments :: "(bytes, bytes) btree"
  co_shares :: "(bytes, bytes) btree"

definition coordinator_new :: "bytes \<Rightarrow> bytes \<Rightarrow> u16 \<Rightarrow> bytes \<Rightarrow> frost_coordinator" where
  "coordinator_new session_id message min_signers pk =
     \<lparr>co_session_id = session_id, co_message = message, co_min_signers = min_signers,
      co_public_key_package = pk, co_commitments = [], co_shares = []\<rparr>"

definition coordinator_add_commitment ::
    "frost_env \<Rightarrow> frost_coordinator \<Rightarrow> u16 \<Rightarrow> bytes \<Rightarrow> (coordinator_error, frost_coordinator) rresult" where
  "coordinator_add_commitment F c signer_id commitment =
     rbind (ok_or InvalidParticipant (identifier_of F signer_id)) (\<lambda>i.
       case map_of (co_commitments c) i of
         None \<Rightarrow> Inr (c\<lparr>co_commitments := bt_insert i commitment (co_commitments c)\<rparr>)
       | Some _ \<Rightarrow> Inl (CoordinatorDuplicate signer_id))"

definition coordinator_signing_session :: "frost_coordinator \<Rightarrow> (coordinator_error, frost_session) rresult" where
  "coordinator_signing_session c =
     (if length (co_commitments c) < unat (co_min_signers c)
      then Inl (InsufficientCommitments (co_min_signers c) (length (co_commitments c)))
      else Inr (build_session (co_session_id c) (co_message c) (co_min_signers c) (co_commitments c)
        (co_public_key_package c)))"

definition coordinator_add_signature_share ::
    "frost_env \<Rightarrow> frost_coordinator \<Rightarrow> u16 \<Rightarrow> bytes \<Rightarrow> (coordinator_error, frost_coordinator) rresult" where
  "coordinator_add_signature_share F c signer_id share =
     rbind (ok_or InvalidParticipant (identifier_of F signer_id)) (\<lambda>i.
       case map_of (co_shares c) i of
         None \<Rightarrow> Inr (c\<lparr>co_shares := bt_insert i share (co_shares c)\<rparr>)
       | Some _ \<Rightarrow> Inl (CoordinatorDuplicate signer_id))"

definition coordinator_finalize :: "frost_env \<Rightarrow> frost_coordinator \<Rightarrow> (coordinator_error, bytes) rresult" where
  "coordinator_finalize F c =
     (if length (co_shares c) < unat (co_min_signers c)
      then Inl (InsufficientShares (co_min_signers c) (length (co_shares c)))
      else rbind (coordinator_signing_session c) (\<lambda>session.
        map_err CoordinatorSigning (aggregate_and_verify F session (co_shares c))))"

text \<open>
  The coordinator returns a signature only with enough commitments and shares, and the signature
  verifies for the message under the group key.
\<close>

lemma coordinator_finalize_Inr:
  assumes "coordinator_finalize F c = Inr sig"
  shows "unat (co_min_signers c) \<le> length (co_commitments c)" "unat (co_min_signers c) \<le> length (co_shares c)"
    "frost_verify F (co_public_key_package c) (co_message c) sig = Inr ()"
  using assms
  by (auto simp: coordinator_finalize_def coordinator_signing_session_def build_session_def result_simps
      dest!: aggregate_and_verify_Inr split: if_splits)

end
