(* ===== verification/Frost_Orchestrator.thy ===== *)
theory Frost_Orchestrator
  imports Frost_Participant
begin

text \<open>
  \<open>crates/threshold-signer/src/orchestrator.rs\<close>: the audited coordinator.  Every operation first
  enforces the deadline, then the phase, then the identity of the device; a failed check may move
  the machine to a terminal phase, so operations return their result with the new machine.  The
  audit stream is a hash chain.
\<close>

section \<open>State\<close>

datatype session_phase = CollectingCommitments | CollectingShares | Finalized | Aborted | Expired | Failed

fun is_terminal :: "session_phase \<Rightarrow> bool" where
  "is_terminal Finalized = True"
| "is_terminal Aborted = True"
| "is_terminal Expired = True"
| "is_terminal Failed = True"
| "is_terminal _ = False"

record bound_participant =
  bp_signer_id :: u16
  bp_device_id :: bytes
  bp_device_generation :: u64
  bp_request_binding_digest :: bytes

datatype audit_event_kind =
    SessionStarted
  | CommitmentAccepted
  | CommitmentsFrozen
  | ShareAccepted
  | SessionFinalized
  | SessionAborted
  | SessionExpired
  | SessionFailed

fun audit_event_kind_u8 :: "audit_event_kind \<Rightarrow> u8" where
  "audit_event_kind_u8 SessionStarted = 0"
| "audit_event_kind_u8 CommitmentAccepted = 1"
| "audit_event_kind_u8 CommitmentsFrozen = 2"
| "audit_event_kind_u8 ShareAccepted = 3"
| "audit_event_kind_u8 SessionFinalized = 4"
| "audit_event_kind_u8 SessionAborted = 5"
| "audit_event_kind_u8 SessionExpired = 6"
| "audit_event_kind_u8 SessionFailed = 7"

record audit_event =
  ae_sequence :: u64
  ae_at :: i64
  ae_kind :: audit_event_kind
  ae_signer_id :: "u16 option"
  ae_code :: "string option"
  ae_previous_digest :: bytes
  ae_event_digest :: bytes

datatype orchestration_error =
    InvalidSignerSet
  | UnknownParticipant
  | IdentityDrift
  | DuplicateParticipant
  | WrongPhase session_phase
  | SessionHasExpired
  | InsufficientParticipants u16 nat
  | InvalidSignatureShare
  | OrchestrationSigning signing_error

record threshold_session_machine =
  tm_session_id :: bytes
  tm_message :: bytes
  tm_policy_digest :: bytes
  tm_min_signers :: u16
  tm_deadline :: i64
  tm_phase :: session_phase
  tm_public_key_package :: bytes
  tm_participants :: "(u16, bound_participant) btree"
  tm_commitments :: "(bytes, bytes) btree"
  tm_frozen_session :: "frost_session option"
  tm_shares :: "(bytes, bytes) btree"
  tm_audit :: "audit_event list"

type_synonym 'a machine_result = "(orchestration_error, 'a) rresult \<times> threshold_session_machine"

section \<open>Audit stream\<close>

definition AUDIT_TAG :: bytes where "AUDIT_TAG = ascii ''catomicals/frost-audit/v1'' @ [0]"

definition audit_preimage ::
    "u64 \<Rightarrow> i64 \<Rightarrow> audit_event_kind \<Rightarrow> u16 option \<Rightarrow> string option \<Rightarrow> bytes \<Rightarrow> bytes" where
  "audit_preimage sqn at kind signer_id code previous_digest =
     (let c = ascii (case code of None \<Rightarrow> [] | Some c \<Rightarrow> c) in
      AUDIT_TAG @ previous_digest @ u64_be sqn @ i64_be at @ [audit_event_kind_u8 kind]
        @ u16_be (case signer_id of None \<Rightarrow> 0 | Some i \<Rightarrow> i) @ u32_be (word_of_nat (length c)) @ c)"

definition audit_digest ::
    "bitcoin_env \<Rightarrow> u64 \<Rightarrow> i64 \<Rightarrow> audit_event_kind \<Rightarrow> u16 option \<Rightarrow> string option \<Rightarrow> bytes \<Rightarrow> bytes" where
  "audit_digest E sqn at kind signer_id code previous_digest =
     sha256 E (audit_preimage sqn at kind signer_id code previous_digest)"

definition audit_head :: "threshold_session_machine \<Rightarrow> bytes" where
  "audit_head m = (if tm_audit m = [] then replicate 32 0 else ae_event_digest (last (tm_audit m)))"

definition record_event ::
    "bitcoin_env \<Rightarrow> threshold_session_machine \<Rightarrow> i64 \<Rightarrow> audit_event_kind \<Rightarrow> u16 option \<Rightarrow> string option \<Rightarrow>
     threshold_session_machine" where
  "record_event E m at kind signer_id code =
     (let sqn = word_of_nat (length (tm_audit m)) + 1; previous_digest = audit_head m in
      m\<lparr>tm_audit := tm_audit m @ [\<lparr>ae_sequence = sqn, ae_at = at, ae_kind = kind,
          ae_signer_id = signer_id, ae_code = code, ae_previous_digest = previous_digest,
          ae_event_digest = audit_digest E sqn at kind signer_id code previous_digest\<rparr>]\<rparr>)"

fun audit_chain_from :: "bitcoin_env \<Rightarrow> bytes \<Rightarrow> audit_event list \<Rightarrow> bool" where
  "audit_chain_from E previous [] = True"
| "audit_chain_from E previous (e # es) =
     (if ae_previous_digest e \<noteq> previous
         \<or> ae_event_digest e \<noteq> audit_digest E (ae_sequence e) (ae_at e) (ae_kind e) (ae_signer_id e) (ae_code e) previous
      then False else audit_chain_from E (ae_event_digest e) es)"

definition verify_audit_chain :: "bitcoin_env \<Rightarrow> threshold_session_machine \<Rightarrow> bool" where
  "verify_audit_chain E m = audit_chain_from E (replicate 32 0) (tm_audit m)"

section \<open>Operations\<close>

definition machine_new ::
    "bitcoin_env \<Rightarrow> frost_env \<Rightarrow> bytes \<Rightarrow> bytes \<Rightarrow> bytes \<Rightarrow> u16 \<Rightarrow> i64 \<Rightarrow> bound_participant list \<Rightarrow> bytes \<Rightarrow> i64 \<Rightarrow>
     (orchestration_error, threshold_session_machine) rresult" where
  "machine_new E F session_id message policy_digest min_signers deadline participants pk now =
     (let participant_map = bt_collect (map (\<lambda>p. (bp_signer_id p, p)) participants) in
      if min_signers = 0 \<or> length participant_map < unat min_signers \<or> deadline \<le> now
         \<or> list_ex (\<lambda>(signer_id, participant). signer_id \<noteq> bp_signer_id participant
             \<or> (case participant_identifier F signer_id of
                  Inl _ \<Rightarrow> True
                | Inr i \<Rightarrow> verifying_shares F pk i = None)) participant_map
      then Inl InvalidSignerSet
      else Inr (record_event E \<lparr>tm_session_id = session_id, tm_message = message, tm_policy_digest = policy_digest,
          tm_min_signers = min_signers, tm_deadline = deadline, tm_phase = CollectingCommitments,
          tm_public_key_package = pk, tm_participants = participant_map, tm_commitments = [],
          tm_frozen_session = None, tm_shares = [], tm_audit = []\<rparr> now SessionStarted None None))"

definition machine_fail ::
    "bitcoin_env \<Rightarrow> threshold_session_machine \<Rightarrow> i64 \<Rightarrow> u16 option \<Rightarrow> string \<Rightarrow> threshold_session_machine" where
  "machine_fail E m now signer_id code =
     record_event E (m\<lparr>tm_phase := Failed\<rparr>) now SessionFailed signer_id (Some code)"

definition expire :: "bitcoin_env \<Rightarrow> threshold_session_machine \<Rightarrow> i64 \<Rightarrow> bool \<times> threshold_session_machine" where
  "expire E m now =
     (if now \<le> tm_deadline m \<or> is_terminal (tm_phase m) then (False, m)
      else (True, record_event E (m\<lparr>tm_phase := Expired\<rparr>) now SessionExpired None (Some ''deadline'')))"

definition check_deadline :: "bitcoin_env \<Rightarrow> threshold_session_machine \<Rightarrow> i64 \<Rightarrow> unit machine_result" where
  "check_deadline E m now =
     (let (expired, m') = expire E m now in
      if expired \<or> tm_phase m' = Expired then (Inl SessionHasExpired, m') else (Inr (), m'))"

definition require_phase ::
    "bitcoin_env \<Rightarrow> threshold_session_machine \<Rightarrow> session_phase \<Rightarrow> i64 \<Rightarrow> unit machine_result" where
  "require_phase E m expected now =
     and_then (check_deadline E m now) (\<lambda>_ m.
       if tm_phase m \<noteq> expected then (Inl (WrongPhase (tm_phase m)), m) else (Inr (), m))"

definition require_identity ::
    "bitcoin_env \<Rightarrow> threshold_session_machine \<Rightarrow> bound_participant \<Rightarrow> i64 \<Rightarrow> unit machine_result" where
  "require_identity E m participant now =
     (if map_of (tm_participants m) (bp_signer_id participant) \<noteq> Some participant
      then (Inl IdentityDrift, machine_fail E m now (Some (bp_signer_id participant)) ''identity_drift'')
      else (Inr (), m))"

definition machine_add_commitment ::
    "bitcoin_env \<Rightarrow> frost_env \<Rightarrow> threshold_session_machine \<Rightarrow> bound_participant \<Rightarrow> bytes \<Rightarrow> i64 \<Rightarrow> unit machine_result" where
  "machine_add_commitment E F m participant commitment now =
     and_then (require_phase E m CollectingCommitments now) (\<lambda>_ m.
     and_then (require_identity E m participant now) (\<lambda>_ m.
     and_then (map_err (\<lambda>_. UnknownParticipant) (participant_identifier F (bp_signer_id participant)), m) (\<lambda>i m.
       if bt_contains i (tm_commitments m) then (Inl DuplicateParticipant, m)
       else (Inr (), record_event E (m\<lparr>tm_commitments := bt_insert i commitment (tm_commitments m)\<rparr>) now
         CommitmentAccepted (Some (bp_signer_id participant)) None))))"

definition freeze_commitments ::
    "bitcoin_env \<Rightarrow> threshold_session_machine \<Rightarrow> i64 \<Rightarrow> frost_session machine_result" where
  "freeze_commitments E m now =
     and_then (require_phase E m CollectingCommitments now) (\<lambda>_ m.
       if length (tm_commitments m) < unat (tm_min_signers m)
       then (Inl (InsufficientParticipants (tm_min_signers m) (length (tm_commitments m))), m)
       else let session = build_session (tm_session_id m) (tm_message m) (tm_min_signers m)
                (tm_commitments m) (tm_public_key_package m)
         in (Inr session, record_event E (m\<lparr>tm_frozen_session := Some session, tm_phase := CollectingShares\<rparr>) now
              CommitmentsFrozen None None))"

definition machine_signing_session ::
    "threshold_session_machine \<Rightarrow> (orchestration_error, frost_session) rresult" where
  "machine_signing_session m = ok_or (WrongPhase (tm_phase m)) (tm_frozen_session m)"

definition machine_add_signature_share ::
    "bitcoin_env \<Rightarrow> frost_env \<Rightarrow> threshold_session_machine \<Rightarrow> bound_participant \<Rightarrow> bytes \<Rightarrow> i64 \<Rightarrow> unit machine_result" where
  "machine_add_signature_share E F m participant share now =
     and_then (require_phase E m CollectingShares now) (\<lambda>_ m.
     and_then (require_identity E m participant now) (\<lambda>_ m.
     and_then (map_err (\<lambda>_. UnknownParticipant) (participant_identifier F (bp_signer_id participant)), m) (\<lambda>i m.
     and_then (machine_signing_session m, m) (\<lambda>session m.
       if \<not> bt_contains i (sp_commitments (fs_package session))
       then (Inl UnknownParticipant,
         machine_fail E m now (Some (bp_signer_id participant)) ''participant_not_in_frozen_package'')
       else if bt_contains i (tm_shares m) then (Inl DuplicateParticipant, m)
       else and_then (ok_or UnknownParticipant (verifying_shares F (tm_public_key_package m) i), m) (\<lambda>vshare m.
         if \<not> verify_signature_share F i vshare share (fs_package session) (tm_public_key_package m)
         then (Inl InvalidSignatureShare,
           machine_fail E m now (Some (bp_signer_id participant)) ''invalid_signature_share'')
         else (Inr (), record_event E (m\<lparr>tm_shares := bt_insert i share (tm_shares m)\<rparr>) now
           ShareAccepted (Some (bp_signer_id participant)) None))))))"

definition machine_finalize ::
    "bitcoin_env \<Rightarrow> frost_env \<Rightarrow> threshold_session_machine \<Rightarrow> i64 \<Rightarrow> bytes machine_result" where
  "machine_finalize E F m now =
     and_then (require_phase E m CollectingShares now) (\<lambda>_ m.
       if length (tm_shares m) < unat (tm_min_signers m)
       then (Inl (InsufficientParticipants (tm_min_signers m) (length (tm_shares m))), m)
       else and_then (machine_signing_session m, m) (\<lambda>session m.
         case aggregate_and_verify F session (tm_shares m) of
           Inr signature \<Rightarrow>
             (Inr signature, record_event E (m\<lparr>tm_phase := Finalized\<rparr>) now SessionFinalized None None)
         | Inl e \<Rightarrow> (Inl (OrchestrationSigning e), machine_fail E m now None ''aggregate_verification_failed'')))"

definition machine_abort ::
    "bitcoin_env \<Rightarrow> threshold_session_machine \<Rightarrow> string \<Rightarrow> i64 \<Rightarrow> unit machine_result" where
  "machine_abort E m reason_code now =
     and_then (check_deadline E m now) (\<lambda>_ m.
       if is_terminal (tm_phase m) then (Inl (WrongPhase (tm_phase m)), m)
       else (Inr (), record_event E (m\<lparr>tm_phase := Aborted\<rparr>) now SessionAborted None (Some reason_code)))"

section \<open>Runs\<close>

inductive machine_step ::
    "bitcoin_env \<Rightarrow> frost_env \<Rightarrow> threshold_session_machine \<Rightarrow> threshold_session_machine \<Rightarrow> bool"
  for E F where
  step_commitment: "machine_add_commitment E F m p c now = (r, m') \<Longrightarrow> machine_step E F m m'"
| step_freeze: "freeze_commitments E m now = (r, m') \<Longrightarrow> machine_step E F m m'"
| step_share: "machine_add_signature_share E F m p s now = (r, m') \<Longrightarrow> machine_step E F m m'"
| step_finalize: "machine_finalize E F m now = (r, m') \<Longrightarrow> machine_step E F m m'"
| step_abort: "machine_abort E m reason now = (r, m') \<Longrightarrow> machine_step E F m m'"
| step_expire: "expire E m now = (b, m') \<Longrightarrow> machine_step E F m m'"

inductive_cases machine_stepE: "machine_step E F m m'"

text \<open>
  The effect of an operation, whatever it returns: nothing, closing the session, or one of the
  four transitions of the protocol.
\<close>

inductive machine_effect ::
    "bitcoin_env \<Rightarrow> frost_env \<Rightarrow> threshold_session_machine \<Rightarrow> threshold_session_machine \<Rightarrow> bool"
  for E F m where
  eff_none: "machine_effect E F m m"
| eff_close: "\<not> is_terminal (tm_phase m) \<Longrightarrow> phase \<in> {Aborted, Expired, Failed} \<Longrightarrow>
    machine_effect E F m (record_event E (m\<lparr>tm_phase := phase\<rparr>) now kind signer code)"
| eff_commit: "tm_phase m = CollectingCommitments \<Longrightarrow>
    map_of (tm_participants m) (bp_signer_id p) = Some p \<Longrightarrow> identifier_of F (bp_signer_id p) = Some i \<Longrightarrow>
    map_of (tm_commitments m) i = None \<Longrightarrow>
    machine_effect E F m (record_event E (m\<lparr>tm_commitments := bt_insert i c (tm_commitments m)\<rparr>) now kind signer code)"
| eff_freeze: "tm_phase m = CollectingCommitments \<Longrightarrow> unat (tm_min_signers m) \<le> length (tm_commitments m) \<Longrightarrow>
    machine_effect E F m (record_event E (m\<lparr>tm_frozen_session := Some (build_session (tm_session_id m) (tm_message m)
      (tm_min_signers m) (tm_commitments m) (tm_public_key_package m)), tm_phase := CollectingShares\<rparr>) now kind signer code)"
| eff_share: "tm_phase m = CollectingShares \<Longrightarrow> tm_frozen_session m = Some session \<Longrightarrow>
    map_of (tm_participants m) (bp_signer_id p) = Some p \<Longrightarrow> identifier_of F (bp_signer_id p) = Some i \<Longrightarrow>
    map_of (tm_shares m) i = None \<Longrightarrow> map_of (sp_commitments (fs_package session)) i = Some c \<Longrightarrow>
    verifying_shares F (tm_public_key_package m) i = Some v \<Longrightarrow>
    verify_signature_share F i v s (fs_package session) (tm_public_key_package m) \<Longrightarrow>
    machine_effect E F m (record_event E (m\<lparr>tm_shares := bt_insert i s (tm_shares m)\<rparr>) now kind signer code)"
| eff_finalize: "tm_phase m = CollectingShares \<Longrightarrow>
    machine_effect E F m (record_event E (m\<lparr>tm_phase := Finalized\<rparr>) now kind signer code)"

lemma eff_fail_shares:
  "tm_phase m = CollectingShares \<Longrightarrow> machine_effect E F m (record_event E (m\<lparr>tm_phase := Failed\<rparr>) now kind signer code)"
  by (rule eff_close) simp_all

lemma check_deadline_cases:
  assumes "check_deadline E m now = (r, m')"
  shows "machine_effect E F m m'" and "r = Inr () \<Longrightarrow> m' = m \<and> (now \<le> tm_deadline m \<or> is_terminal (tm_phase m))"
  using assms
  by (auto simp: check_deadline_def expire_def Let_def intro: eff_none eff_close split: if_splits)

lemma require_phase_cases:
  assumes "require_phase E m ph now = (r, m')"
  shows "machine_effect E F m m'"
    and "r = Inr () \<Longrightarrow> m' = m \<and> tm_phase m = ph \<and> (now \<le> tm_deadline m \<or> is_terminal ph)"
  using assms
  by (auto simp: require_phase_def dest: check_deadline_cases elim!: and_then_state split: if_splits)

lemma require_identity_cases:
  assumes "require_identity E m p now = (r, m')" and "\<not> is_terminal (tm_phase m)"
  shows "machine_effect E F m m'"
    and "r = Inr () \<Longrightarrow> m' = m \<and> map_of (tm_participants m) (bp_signer_id p) = Some p"
  using assms
  by (auto simp: require_identity_def machine_fail_def intro: eff_none eff_close split: if_splits)

lemma identifier_Inr: "participant_identifier F i = Inr x \<longleftrightarrow> identifier_of F i = Some x"
  by (simp add: participant_identifier_def ok_or_Inr)

lemma add_commitment_effect:
  assumes "machine_add_commitment E F m p c now = (r, m')"
  shows "machine_effect E F m m'"
  using assms unfolding machine_add_commitment_def
proof (cases rule: and_then_state)
  case (err e)
  then show ?thesis by (auto dest: require_phase_cases)
next
  case (ok u m1)
  then have m1: "m1 = m" "tm_phase m = CollectingCommitments" by (auto dest: require_phase_cases)
  from ok(2) show ?thesis
  proof (cases rule: and_then_state)
    case (err e)
    with m1 show ?thesis by (auto dest: require_identity_cases)
  next
    case (ok u m2)
    then have "m2 = m" "map_of (tm_participants m) (bp_signer_id p) = Some p"
      using m1 by (auto dest: require_identity_cases)
    with ok m1 show ?thesis
      by (auto simp: identifier_Inr map_err_Inr bt_contains_iff elim!: and_then_state
          intro: eff_none eff_commit split: if_splits)
  qed
qed

lemma freeze_effect:
  assumes "freeze_commitments E m now = (r, m')"
  shows "machine_effect E F m m'"
  using assms unfolding freeze_commitments_def
proof (cases rule: and_then_state)
  case (err e)
  then show ?thesis by (auto dest: require_phase_cases)
next
  case (ok u m1)
  then have "m1 = m" "tm_phase m = CollectingCommitments" by (auto dest: require_phase_cases)
  with ok show ?thesis by (auto simp: Let_def intro: eff_none eff_freeze split: if_splits)
qed

text \<open>The part of \<open>add_signature_share\<close> after the phase and identity checks.\<close>

lemma share_body_effect:
  assumes ph: "tm_phase m = CollectingShares" and p: "map_of (tm_participants m) (bp_signer_id p) = Some p"
    and i: "identifier_of F (bp_signer_id p) = Some i" and f: "tm_frozen_session m = Some session"
    and body: "(if \<not> bt_contains i (sp_commitments (fs_package session))
       then (Inl UnknownParticipant, machine_fail E m now signer code)
       else if bt_contains i (tm_shares m) then (Inl DuplicateParticipant, m)
       else and_then (ok_or UnknownParticipant (verifying_shares F (tm_public_key_package m) i), m) (\<lambda>vshare m.
         if \<not> verify_signature_share F i vshare share (fs_package session) (tm_public_key_package m)
         then (Inl InvalidSignatureShare, machine_fail E m now signer' code')
         else (Inr (), record_event E (m\<lparr>tm_shares := bt_insert i share (tm_shares m)\<rparr>) now kind signer'' code'')))
       = (r, m')"
  shows "machine_effect E F m m'"
proof (cases "map_of (sp_commitments (fs_package session)) i")
  case None
  with body have "m' = machine_fail E m now signer code" by (simp add: bt_contains_iff)
  with eff_fail_shares [OF ph] show ?thesis by (simp add: machine_fail_def)
next
  case (Some c)
  show ?thesis
  proof (cases "map_of (tm_shares m) i = None \<and> verifying_shares F (tm_public_key_package m) i \<noteq> None")
    case False
    with body Some have "m' = m" by (cases "map_of (tm_shares m) i") (auto simp: bt_contains_iff)
    then show ?thesis by (simp add: eff_none)
  next
    case True
    then obtain v where v: "verifying_shares F (tm_public_key_package m) i = Some v" by blast
    show ?thesis
    proof (cases "verify_signature_share F i v share (fs_package session) (tm_public_key_package m)")
      case ok: True
      with body Some True v have "m' = record_event E (m\<lparr>tm_shares := bt_insert i share (tm_shares m)\<rparr>) now kind signer'' code''"
        by (simp add: bt_contains_iff)
      with eff_share [OF ph f p i _ Some v ok] True show ?thesis by simp
    next
      case False
      with body Some True v have "m' = machine_fail E m now signer' code'" by (simp add: bt_contains_iff)
      with eff_fail_shares [OF ph] show ?thesis by (simp add: machine_fail_def)
    qed
  qed
qed

lemma add_share_effect:
  assumes "machine_add_signature_share E F m p s now = (r, m')"
  shows "machine_effect E F m m'"
  using assms unfolding machine_add_signature_share_def
proof (cases rule: and_then_state)
  case (err e)
  then show ?thesis by (auto dest: require_phase_cases)
next
  case (ok u m1)
  then have m1: "m1 = m" "tm_phase m = CollectingShares" by (auto dest: require_phase_cases)
  from ok(2) show ?thesis
  proof (cases rule: and_then_state)
    case (err e)
    with m1 show ?thesis by (auto dest: require_identity_cases)
  next
    case (ok u m2)
    then have m2: "m2 = m" "map_of (tm_participants m) (bp_signer_id p) = Some p"
      using m1 by (auto dest: require_identity_cases)
    show ?thesis
    proof (cases "\<exists>i session. identifier_of F (bp_signer_id p) = Some i \<and> tm_frozen_session m = Some session")
      case True
      then obtain i session where i: "identifier_of F (bp_signer_id p) = Some i" and f: "tm_frozen_session m = Some session"
        by blast
      with ok(2) m2 show ?thesis
        by (intro share_body_effect [OF m1(2) m2(2) i f]) (simp add: participant_identifier_def machine_signing_session_def)
    next
      case False
      then have "m' = m"
        using ok(2) m2
        by (cases "identifier_of F (bp_signer_id p)"; cases "tm_frozen_session m")
          (auto simp: participant_identifier_def machine_signing_session_def)
      then show ?thesis by (simp add: eff_none)
    qed
  qed
qed

lemma finalize_effect:
  assumes "machine_finalize E F m now = (r, m')"
  shows "machine_effect E F m m'"
  using assms unfolding machine_finalize_def
proof (cases rule: and_then_state)
  case (err e)
  then show ?thesis by (auto dest: require_phase_cases)
next
  case (ok u m1)
  then have "m1 = m" "tm_phase m = CollectingShares" by (auto dest: require_phase_cases)
  with ok show ?thesis
    by (auto simp: machine_fail_def elim!: and_then_state intro: eff_none eff_finalize eff_fail_shares
        split: if_splits sum.splits)
qed

lemma abort_effect:
  assumes "machine_abort E m reason now = (r, m')"
  shows "machine_effect E F m m'"
  using assms unfolding machine_abort_def
proof (cases rule: and_then_state)
  case (err e)
  then show ?thesis by (auto dest: check_deadline_cases)
next
  case (ok u m1)
  then have "m1 = m" by (auto dest: check_deadline_cases)
  with ok show ?thesis by (auto intro: eff_none eff_close split: if_splits)
qed

lemma expire_effect: "expire E m now = (b, m') \<Longrightarrow> machine_effect E F m m'"
  by (auto simp: expire_def intro: eff_none eff_close split: if_splits)

lemma machine_step_effect: "machine_step E F m m' \<Longrightarrow> machine_effect E F m m'"
  by (elim machine_stepE)
    (blast intro: add_commitment_effect freeze_effect add_share_effect finalize_effect abort_effect expire_effect)+

section \<open>Invariants\<close>

lemma record_event_fields [simp]:
  "tm_session_id (record_event E m a k i c) = tm_session_id m" "tm_message (record_event E m a k i c) = tm_message m"
  "tm_min_signers (record_event E m a k i c) = tm_min_signers m" "tm_deadline (record_event E m a k i c) = tm_deadline m"
  "tm_phase (record_event E m a k i c) = tm_phase m" "tm_participants (record_event E m a k i c) = tm_participants m"
  "tm_public_key_package (record_event E m a k i c) = tm_public_key_package m"
  "tm_commitments (record_event E m a k i c) = tm_commitments m" "tm_shares (record_event E m a k i c) = tm_shares m"
  "tm_frozen_session (record_event E m a k i c) = tm_frozen_session m"
  by (simp_all add: record_event_def Let_def)

lemma audit_chain_append:
  "audit_chain_from E d (es @ [e]) \<longleftrightarrow> audit_chain_from E d es
     \<and> ae_previous_digest e = (if es = [] then d else ae_event_digest (last es))
     \<and> ae_event_digest e = audit_digest E (ae_sequence e) (ae_at e) (ae_kind e) (ae_signer_id e) (ae_code e) (ae_previous_digest e)"
  by (induction es arbitrary: d) auto

lemma record_event_chain:
  "verify_audit_chain E (record_event E m at kind signer code) \<longleftrightarrow> verify_audit_chain E m"
  by (auto simp: verify_audit_chain_def record_event_def audit_chain_append audit_head_def Let_def)

lemma record_event_update_chain:
  "tm_audit m' = tm_audit m \<Longrightarrow>
     verify_audit_chain E (record_event E m' at kind signer code) \<longleftrightarrow> verify_audit_chain E m"
  unfolding record_event_chain by (simp add: verify_audit_chain_def)

lemma effect_chain: "machine_effect E F m m' \<Longrightarrow> verify_audit_chain E m \<Longrightarrow> verify_audit_chain E m'"
  by (induction rule: machine_effect.induct)
    (simp_all add: record_event_update_chain [where m = m])

lemma effect_audit_prefix: "machine_effect E F m m' \<Longrightarrow> \<exists>es. tm_audit m' = tm_audit m @ es"
  by (induction rule: machine_effect.induct) (auto simp: record_event_def Let_def)

lemma effect_terminal: "machine_effect E F m m' \<Longrightarrow> is_terminal (tm_phase m) \<Longrightarrow> m' = m"
  by (induction rule: machine_effect.induct) auto

text \<open>
  The protocol invariant: commitments and shares come from registered participants, the frozen
  session is the one the commitments determine, and every stored share has been verified against
  the frozen package.
\<close>

definition share_verified :: "frost_env \<Rightarrow> threshold_session_machine \<Rightarrow> frost_session \<Rightarrow> bytes \<Rightarrow> bytes \<Rightarrow> bool" where
  "share_verified F m session i share \<longleftrightarrow>
     (\<exists>signer p. map_of (tm_participants m) signer = Some p \<and> identifier_of F signer = Some i)
     \<and> map_of (tm_commitments m) i \<noteq> None
     \<and> (\<exists>v. verifying_shares F (tm_public_key_package m) i = Some v
          \<and> verify_signature_share F i v share (fs_package session) (tm_public_key_package m))"

definition machine_inv :: "frost_env \<Rightarrow> threshold_session_machine \<Rightarrow> bool" where
  "machine_inv F m \<longleftrightarrow>
     bt_ok (tm_commitments m) \<and> bt_ok (tm_shares m)
     \<and> (\<forall>i c. map_of (tm_commitments m) i = Some c \<longrightarrow>
          (\<exists>signer p. map_of (tm_participants m) signer = Some p \<and> identifier_of F signer = Some i))
     \<and> (case tm_frozen_session m of
          None \<Rightarrow> tm_shares m = [] \<and> tm_phase m \<notin> {CollectingShares, Finalized}
        | Some session \<Rightarrow> tm_phase m \<noteq> CollectingCommitments
            \<and> session = build_session (tm_session_id m) (tm_message m) (tm_min_signers m) (tm_commitments m) (tm_public_key_package m)
            \<and> unat (tm_min_signers m) \<le> length (tm_commitments m)
            \<and> (\<forall>i share. map_of (tm_shares m) i = Some share \<longrightarrow> share_verified F m session i share))"

lemma effect_inv:
  assumes "machine_effect E F m m'" and "machine_inv F m"
  shows "machine_inv F m'"
  using assms
proof (induction rule: machine_effect.induct)
  case (eff_close phase now kind signer code)
  then show ?case
    by (auto simp: machine_inv_def share_verified_def split: option.splits)
next
  case (eff_commit p i c now kind signer code)
  then have "tm_frozen_session m = None" by (auto simp: machine_inv_def split: option.splits)
  with eff_commit show ?case by (auto simp: machine_inv_def split: option.splits if_splits)
next
  case (eff_freeze now kind signer code)
  then have "tm_frozen_session m = None" by (auto simp: machine_inv_def split: option.splits)
  with eff_freeze show ?case by (auto simp: machine_inv_def split: option.splits)
next
  case (eff_share session p i c v s now kind signer code)
  then have "share_verified F m session i s"
    by (auto simp: machine_inv_def share_verified_def build_session_def)
  with eff_share show ?case by (auto simp: machine_inv_def share_verified_def split: if_splits)
next
  case (eff_finalize now kind signer code)
  then show ?case by (auto simp: machine_inv_def share_verified_def split: option.splits)
qed

lemma effect_constants:
  "machine_effect E F m m' \<Longrightarrow> tm_session_id m' = tm_session_id m \<and> tm_message m' = tm_message m
     \<and> tm_min_signers m' = tm_min_signers m \<and> tm_deadline m' = tm_deadline m
     \<and> tm_participants m' = tm_participants m \<and> tm_public_key_package m' = tm_public_key_package m"
  by (induction rule: machine_effect.induct) simp_all

lemma machine_new_start:
  assumes "machine_new E F sid msg pol mn dl ps pk now = Inr m"
  shows "machine_inv F m" "verify_audit_chain E m" "tm_session_id m = sid" "tm_message m = msg"
    "tm_min_signers m = mn" "tm_deadline m = dl" "tm_public_key_package m = pk" "tm_phase m = CollectingCommitments"
  using assms
  by (auto simp: machine_new_def Let_def machine_inv_def record_event_chain split: if_splits)
    (simp add: verify_audit_chain_def)

lemma machine_steps:
  assumes "(machine_step E F)\<^sup>*\<^sup>* m m'"
  shows "machine_inv F m \<Longrightarrow> machine_inv F m'" "verify_audit_chain E m \<Longrightarrow> verify_audit_chain E m'"
    "\<exists>es. tm_audit m' = tm_audit m @ es" "is_terminal (tm_phase m) \<Longrightarrow> m' = m"
    "tm_session_id m' = tm_session_id m \<and> tm_message m' = tm_message m
     \<and> tm_min_signers m' = tm_min_signers m \<and> tm_deadline m' = tm_deadline m
     \<and> tm_participants m' = tm_participants m \<and> tm_public_key_package m' = tm_public_key_package m"
  using assms
proof (induction rule: rtranclp_induct)
  case (step y z)
  note eff = machine_step_effect [OF step(2)]
  {
    case 1
    with step effect_inv [OF eff] show ?case by blast
  next
    case 2
    with step effect_chain [OF eff] show ?case by blast
  next
    case 3
    with step effect_audit_prefix [OF eff] show ?case by auto
  next
    case 4
    with step effect_terminal [OF eff] show ?case by simp
  next
    case 5
    with step effect_constants [OF eff] show ?case by simp
  }
qed auto

text \<open>
  C29: the audit stream of a session is an append-only hash chain.  On every run from the start
  of a session, whatever calls are made and whether they succeed or fail, the chain verifies,
  later machines extend the events of earlier ones, and a session that reached a terminal phase
  never changes again.
\<close>

theorem audit_chain_and_terminal_phases:
  assumes "machine_new E F sid msg pol mn dl ps pk now = Inr m\<^sub>0"
    and "(machine_step E F)\<^sup>*\<^sup>* m\<^sub>0 m" and "(machine_step E F)\<^sup>*\<^sup>* m m'"
  shows "verify_audit_chain E m \<and> (\<exists>es. tm_audit m' = tm_audit m @ es) \<and> (is_terminal (tm_phase m) \<longrightarrow> m' = m)"
  using machine_new_start(2) [OF assms(1)] machine_steps(2) [OF assms(2)] machine_steps(3,4) [OF assms(3)] by blast

lemma finalize_Inr:
  assumes "machine_finalize E F m now = (Inr sig, m')"
  obtains session where "tm_phase m = CollectingShares" "now \<le> tm_deadline m" "tm_frozen_session m = Some session"
    "unat (tm_min_signers m) \<le> length (tm_shares m)" "aggregate_and_verify F session (tm_shares m) = Inr sig"
    "tm_phase m' = Finalized"
proof -
  from assms obtain u m1 where r: "require_phase E m CollectingShares now = (Inr u, m1)"
    and body: "(if length (tm_shares m1) < unat (tm_min_signers m1)
       then (Inl (InsufficientParticipants (tm_min_signers m1) (length (tm_shares m1))), m1)
       else and_then (machine_signing_session m1, m1) (\<lambda>session m.
         case aggregate_and_verify F session (tm_shares m) of
           Inr signature \<Rightarrow>
             (Inr signature, record_event E (m\<lparr>tm_phase := Finalized\<rparr>) now SessionFinalized None None)
         | Inl e \<Rightarrow> (Inl (OrchestrationSigning e), machine_fail E m now None ''aggregate_verification_failed'')))
       = (Inr sig, m')"
    unfolding machine_finalize_def and_then_Inr by blast
  have m1: "m1 = m" "tm_phase m = CollectingShares" "now \<le> tm_deadline m"
    using require_phase_cases(2) [OF r] by auto
  with body obtain session where "tm_frozen_session m = Some session"
    and n: "unat (tm_min_signers m) \<le> length (tm_shares m)"
    by (auto simp: machine_signing_session_def ok_or_Inr and_then_Inr split: if_splits)
  with body m1 that show thesis
    by (cases "aggregate_and_verify F session (tm_shares m)")
      (auto simp: machine_signing_session_def split: if_splits)
qed

definition contributed ::
    "frost_env \<Rightarrow> threshold_session_machine \<Rightarrow> frost_session \<Rightarrow> u16 set" where
  "contributed F m session =
     {signer. \<exists>p i share. map_of (tm_participants m) signer = Some p \<and> identifier_of F signer = Some i
        \<and> map_of (tm_shares m) i = Some share \<and> share_verified F m session i share}"

lemma contributed_card:
  assumes "bt_ok (tm_shares m)"
    and "\<And>i share. map_of (tm_shares m) i = Some share \<Longrightarrow> share_verified F m session i share"
  shows "length (tm_shares m) \<le> card (contributed F m session)"
proof -
  have fin: "finite (contributed F m session)"
    by (rule finite_subset [OF _ finite_dom_map_of [of "tm_participants m"]]) (auto simp: contributed_def)
  have "dom (map_of (tm_shares m)) \<subseteq> (\<lambda>signer. the (identifier_of F signer)) ` contributed F m session"
    using assms(2) by (fastforce simp: contributed_def share_verified_def image_iff)
  then have "card (dom (map_of (tm_shares m))) \<le> card (contributed F m session)"
    using fin by (meson card_image_le card_mono finite_imageI le_trans)
  then show ?thesis using length_bt [OF assms(1)] by simp
qed

text \<open>
  C4: a finalised session has a threshold of verified contributions.  When finalisation returns a
  signature, at least the configured number of registered participants have contributed a share
  that verified against the frozen session (the approved session id, message and group key with
  the collected commitments), the signature verifies for the approved message under the group
  key, and the deadline has not passed.
\<close>

theorem finalize_needs_threshold:
  assumes "machine_new E F sid msg pol mn dl ps pk start = Inr m\<^sub>0"
    and "(machine_step E F)\<^sup>*\<^sup>* m\<^sub>0 m" and "machine_finalize E F m now = (Inr sig, m')"
  shows "unat mn \<le> card (contributed F m (build_session sid msg mn (tm_commitments m) pk))
    \<and> frost_verify F pk msg sig = Inr () \<and> now \<le> dl \<and> tm_phase m' = Finalized"
proof -
  note start = machine_new_start [OF assms(1)]
  note const = machine_steps(5) [OF assms(2)]
  have inv: "machine_inv F m" using machine_steps(1) [OF assms(2)] start(1) by blast
  obtain session where f: "tm_frozen_session m = Some session" and n: "unat (tm_min_signers m) \<le> length (tm_shares m)"
    and sig: "aggregate_and_verify F session (tm_shares m) = Inr sig" and now: "now \<le> tm_deadline m"
    and ph: "tm_phase m' = Finalized"
    by (rule finalize_Inr [OF assms(3)])
  have s: "session = build_session sid msg mn (tm_commitments m) pk"
    using inv f const start by (simp add: machine_inv_def)
  have "length (tm_shares m) \<le> card (contributed F m session)"
    using inv f by (intro contributed_card) (auto simp: machine_inv_def)
  moreover have "frost_verify F pk msg sig = Inr ()"
    using aggregate_and_verify_Inr [OF sig] by (simp add: s build_session_def)
  ultimately show ?thesis using n now ph const start s by auto
qed

section \<open>The audit chain binds the history\<close>

text \<open>What an event commits to: a missing signer is encoded as zero and a missing code as the empty one.\<close>

definition audit_view :: "audit_event \<Rightarrow> u64 \<times> u64 \<times> audit_event_kind \<times> u16 \<times> string" where
  "audit_view e = (ae_sequence e, word_of_int (ae_at e), ae_kind e,
     case ae_signer_id e of None \<Rightarrow> 0 | Some i \<Rightarrow> i, case ae_code e of None \<Rightarrow> [] | Some c \<Rightarrow> c)"

definition event_preimage :: "audit_event \<Rightarrow> bytes" where
  "event_preimage e = audit_preimage (ae_sequence e) (ae_at e) (ae_kind e) (ae_signer_id e) (ae_code e) (ae_previous_digest e)"

lemma audit_event_kind_u8_inject: "audit_event_kind_u8 k = audit_event_kind_u8 k' \<Longrightarrow> k = k'"
  by (cases k; cases k') simp_all

lemma event_preimage_inject:
  assumes "event_preimage e = event_preimage f" and "length (ae_previous_digest e) = length (ae_previous_digest f)"
  shows "ae_previous_digest e = ae_previous_digest f" "audit_view e = audit_view f"
proof -
  from assms have eq: "ae_previous_digest e = ae_previous_digest f" "ae_sequence e = ae_sequence f"
    "i64_be (ae_at e) = i64_be (ae_at f)" "audit_event_kind_u8 (ae_kind e) = audit_event_kind_u8 (ae_kind f)"
    "(case ae_signer_id e of None \<Rightarrow> 0 | Some i \<Rightarrow> i) = (case ae_signer_id f of None \<Rightarrow> 0 | Some i \<Rightarrow> i)"
    "ascii (case ae_code e of None \<Rightarrow> [] | Some c \<Rightarrow> c) = ascii (case ae_code f of None \<Rightarrow> [] | Some c \<Rightarrow> c)"
    by (auto simp: event_preimage_def audit_preimage_def Let_def)
  show "ae_previous_digest e = ae_previous_digest f" by (rule eq)
  show "audit_view e = audit_view f"
    using eq audit_event_kind_u8_inject [OF eq(4)] by (simp add: audit_view_def i64_be_def ascii_inject)
qed

lemma audit_chain_digests:
  assumes "audit_chain_from E d es" and "sha256_32 E" and "length d = 32" and "e \<in> set es"
  shows "length (ae_previous_digest e) = 32" "ae_event_digest e = sha256 E (event_preimage e)"
  using assms
proof (induction es arbitrary: d)
  case (Cons x xs)
  {
    case 1
    with Cons.IH(1) [of "ae_event_digest x"] show ?case by (auto simp: audit_digest_def sha256_length split: if_splits)
  next
    case 2
    with Cons.IH(2) [of "ae_event_digest x"] show ?case
      by (auto simp: audit_digest_def event_preimage_def sha256_length split: if_splits)
  }
qed auto

text \<open>
  The head of an audit chain commits to the whole history.  Two verifying chains of the same
  length with the same head digest contain the same events in the same order (as far as the
  digest encodes them), unless two of their own event encodings are a SHA-256 collision.
\<close>

theorem audit_head_binds_history:
  assumes "sha256_32 E" and "verify_audit_chain E m" and "verify_audit_chain E m'"
    and "length (tm_audit m) = length (tm_audit m')" and "audit_head m = audit_head m'"
  shows "map audit_view (tm_audit m) = map audit_view (tm_audit m')
    \<or> (\<exists>e \<in> set (tm_audit m). \<exists>f \<in> set (tm_audit m'). sha_collision E (event_preimage e) (event_preimage f))"
proof -
  have "map audit_view es = map audit_view fs
      \<or> (\<exists>e \<in> set es. \<exists>f \<in> set fs. sha_collision E (event_preimage e) (event_preimage f))"
    if "length es = length fs" "audit_chain_from E d es" "audit_chain_from E d fs" "length d = 32"
      "es \<noteq> [] \<Longrightarrow> ae_event_digest (last es) = ae_event_digest (last fs)" for es fs and d
    using that
  proof (induction es arbitrary: fs rule: rev_induct)
    case (snoc e es)
    then obtain f gs where fs: "fs = gs @ [f]" "length gs = length es" by (cases fs rule: rev_cases) auto
    have de: "length (ae_previous_digest e) = 32" "ae_event_digest e = sha256 E (event_preimage e)"
      and df: "length (ae_previous_digest f) = 32" "ae_event_digest f = sha256 E (event_preimage f)"
      using audit_chain_digests [OF snoc.prems(2) assms(1) snoc.prems(4)]
        audit_chain_digests [OF snoc.prems(3) assms(1) snoc.prems(4)] fs by auto
    show ?case
    proof (cases "event_preimage e = event_preimage f")
      case True
      note inj = event_preimage_inject [OF True, unfolded de(1) df(1), OF refl]
      have "ae_event_digest (last es) = ae_event_digest (last gs)" if "es \<noteq> []"
        using snoc.prems(2,3) inj(1) fs that by (auto simp: audit_chain_append)
      then have "map audit_view es = map audit_view gs
          \<or> (\<exists>e \<in> set es. \<exists>f \<in> set gs. sha_collision E (event_preimage e) (event_preimage f))"
        using snoc.prems fs by (intro snoc.IH) (auto simp: audit_chain_append)
      with inj(2) fs show ?thesis by auto
    next
      case False
      with de df snoc.prems(5) fs show ?thesis by (auto simp: sha_collision_def)
    qed
  qed simp
  from this [of "tm_audit m" "tm_audit m'" "replicate 32 0"] assms(2-5) show ?thesis
    by (auto simp: verify_audit_chain_def audit_head_def split: if_splits)
qed

section \<open>A sample session\<close>

definition sample_participant :: bound_participant where
  "sample_participant = \<lparr>bp_signer_id = 1, bp_device_id = replicate 16 1, bp_device_generation = 1,
     bp_request_binding_digest = replicate 32 2\<rparr>"

lemma sample_frost_more:
  "identifier_of sample_frost 1 = Some (u16_be 1)" "verifying_shares sample_frost pk i = Some i"
  "verify_signature_share sample_frost i v s pkg pk" "frost_aggregate sample_frost pkg shares pk = Inr [0x99]"
  "frost_verify sample_frost pk m s = Inr ()"
  by (simp_all add: sample_frost_def)

lemma sample_machine_run:
  obtains m\<^sub>0 m\<^sub>1 m\<^sub>2 m\<^sub>3 m\<^sub>4 session where
    "machine_new sample_env sample_frost [1] [2] [3] 1 100 [sample_participant] [4] 0 = Inr m\<^sub>0"
    "machine_add_commitment sample_env sample_frost m\<^sub>0 sample_participant [5] 1 = (Inr (), m\<^sub>1)"
    "freeze_commitments sample_env m\<^sub>1 2 = (Inr session, m\<^sub>2)"
    "machine_add_signature_share sample_env sample_frost m\<^sub>2 sample_participant [6] 3 = (Inr (), m\<^sub>3)"
    "machine_finalize sample_env sample_frost m\<^sub>3 4 = (Inr [0x99], m\<^sub>4)"
proof -
  have i: "bp_signer_id sample_participant = 1" by (simp add: sample_participant_def)
  obtain m0 where m0: "machine_new sample_env sample_frost [1] [2] [3] 1 100 [sample_participant] [4] 0 = Inr m0"
    and f0: "tm_phase m0 = CollectingCommitments" "tm_deadline m0 = 100" "tm_commitments m0 = []" "tm_shares m0 = []"
      "map_of (tm_participants m0) 1 = Some sample_participant" "tm_min_signers m0 = 1"
    by (auto simp: machine_new_def Let_def bt_collect_def i sample_frost_simps sample_frost_more)
  obtain m1 where m1: "machine_add_commitment sample_env sample_frost m0 sample_participant [5] 1 = (Inr (), m1)"
    and f1: "tm_phase m1 = CollectingCommitments" "tm_deadline m1 = 100" "tm_commitments m1 = [(u16_be 1, [5])]"
      "tm_shares m1 = []" "map_of (tm_participants m1) 1 = Some sample_participant" "tm_min_signers m1 = 1"
    by (auto simp: machine_add_commitment_def require_phase_def check_deadline_def expire_def require_identity_def
        i f0 sample_frost_simps bt_contains_def)
  obtain m2 session where m2: "freeze_commitments sample_env m1 2 = (Inr session, m2)"
    and f2: "tm_phase m2 = CollectingShares" "tm_deadline m2 = 100" "tm_frozen_session m2 = Some session"
      "sp_commitments (fs_package session) = [(u16_be 1, [5])]"
      "tm_shares m2 = []" "map_of (tm_participants m2) 1 = Some sample_participant" "tm_min_signers m2 = 1"
    by (auto simp: freeze_commitments_def require_phase_def check_deadline_def expire_def f1 build_session_def Let_def)
  obtain m3 where m3: "machine_add_signature_share sample_env sample_frost m2 sample_participant [6] 3 = (Inr (), m3)"
    and f3: "tm_phase m3 = CollectingShares" "tm_deadline m3 = 100" "tm_frozen_session m3 = Some session"
      "tm_shares m3 = [(u16_be 1, [6])]" "tm_min_signers m3 = 1"
    by (auto simp: machine_add_signature_share_def require_phase_def check_deadline_def expire_def require_identity_def
        machine_signing_session_def i f2 sample_frost_simps sample_frost_more bt_contains_def)
  obtain m4 where "machine_finalize sample_env sample_frost m3 4 = (Inr [0x99], m4)"
    by (auto simp: machine_finalize_def require_phase_def check_deadline_def expire_def machine_signing_session_def f3
        aggregate_and_verify_def verify_signature_def sample_frost_more)
  with m0 m1 m2 m3 that show thesis by blast
qed

lemma sample_machine_steps:
  obtains m\<^sub>0 m m' where
    "machine_new sample_env sample_frost [1] [2] [3] 1 100 [sample_participant] [4] 0 = Inr m\<^sub>0"
    "(machine_step sample_env sample_frost)\<^sup>*\<^sup>* m\<^sub>0 m" "machine_step sample_env sample_frost m m'"
    "machine_finalize sample_env sample_frost m 4 = (Inr [0x99], m')"
proof (rule sample_machine_run)
  fix m0 m1 m2 m3 m4 session
  assume m: "machine_new sample_env sample_frost [1] [2] [3] 1 100 [sample_participant] [4] 0 = Inr m0"
    "machine_add_commitment sample_env sample_frost m0 sample_participant [5] 1 = (Inr (), m1)"
    "freeze_commitments sample_env m1 2 = (Inr session, m2)"
    "machine_add_signature_share sample_env sample_frost m2 sample_participant [6] 3 = (Inr (), m3)"
    "machine_finalize sample_env sample_frost m3 4 = (Inr [0x99], m4)"
  note steps = step_commitment [OF m(2)] step_freeze [OF m(3)] step_share [OF m(4)] step_finalize [OF m(5)]
  have "(machine_step sample_env sample_frost)\<^sup>*\<^sup>* m0 m3"
    using steps(1,2,3) by (meson converse_rtranclp_into_rtranclp r_into_rtranclp)
  from that [OF m(1) this steps(4) m(5)] show thesis .
qed

theorem audit_chain_and_terminal_phases_witness:
  "\<exists>m\<^sub>0 m. machine_new sample_env sample_frost [1] [2] [3] 1 100 [sample_participant] [4] 0 = Inr m\<^sub>0
     \<and> (machine_step sample_env sample_frost)\<^sup>*\<^sup>* m\<^sub>0 m \<and> verify_audit_chain sample_env m"
proof -
  obtain m0 m where r: "machine_new sample_env sample_frost [1] [2] [3] 1 100 [sample_participant] [4] 0 = Inr m0"
    "(machine_step sample_env sample_frost)\<^sup>*\<^sup>* m0 m"
    by (rule sample_machine_steps)
  from audit_chain_and_terminal_phases [OF r rtranclp.rtrancl_refl] r show ?thesis by blast
qed

theorem finalize_needs_threshold_witness:
  "\<exists>m\<^sub>0 m m'. machine_new sample_env sample_frost [1] [2] [3] 1 100 [sample_participant] [4] 0 = Inr m\<^sub>0
     \<and> machine_finalize sample_env sample_frost m 4 = (Inr [0x99], m')
     \<and> 1 \<le> card (contributed sample_frost m (build_session [1] [2] 1 (tm_commitments m) [4]))"
proof -
  obtain m0 m m' where r: "machine_new sample_env sample_frost [1] [2] [3] 1 100 [sample_participant] [4] 0 = Inr m0"
    "(machine_step sample_env sample_frost)\<^sup>*\<^sup>* m0 m" "machine_finalize sample_env sample_frost m 4 = (Inr [0x99], m')"
    by (rule sample_machine_steps)
  have "1 \<le> card (contributed sample_frost m (build_session [1] [2] 1 (tm_commitments m) [4]))"
    using finalize_needs_threshold [OF r] by simp
  with r(1,3) show ?thesis by blast
qed

theorem audit_head_binds_history_witness:
  "\<exists>m m'. machine_new sample_env sample_frost [1] [2] [3] 1 100 [sample_participant] [4] 0 = Inr m
     \<and> machine_new sample_env sample_frost [7] [8] [3] 1 100 [sample_participant] [4] 0 = Inr m'
     \<and> (map audit_view (tm_audit m) = map audit_view (tm_audit m')
       \<or> (\<exists>e \<in> set (tm_audit m). \<exists>f \<in> set (tm_audit m'). sha_collision sample_env (event_preimage e) (event_preimage f)))"
proof -
  have i: "bp_signer_id sample_participant = 1" by (simp add: sample_participant_def)
  have "\<exists>m. machine_new sample_env sample_frost s t [3] 1 100 [sample_participant] [4] 0 = Inr m
      \<and> tm_audit m = [\<lparr>ae_sequence = 1, ae_at = 0, ae_kind = SessionStarted, ae_signer_id = None, ae_code = None,
        ae_previous_digest = replicate 32 0,
        ae_event_digest = audit_digest sample_env 1 0 SessionStarted None None (replicate 32 0)\<rparr>]" for s t
    by (auto simp: machine_new_def Let_def bt_collect_def i sample_frost_simps sample_frost_more record_event_def audit_head_def)
  then obtain m m' where m: "machine_new sample_env sample_frost [1] [2] [3] 1 100 [sample_participant] [4] 0 = Inr m"
    "machine_new sample_env sample_frost [7] [8] [3] 1 100 [sample_participant] [4] 0 = Inr m'"
    and eq: "tm_audit m = tm_audit m'"
    by metis
  have "audit_head m = audit_head m'" by (simp add: audit_head_def eq)
  from audit_head_binds_history [OF sample_env_hyps(1) machine_new_start(2) [OF m(1)] machine_new_start(2) [OF m(2)] _ this] m eq
  show ?thesis by auto
qed

end
