(* ===== verification/Chain_Domain.thy ===== *)
theory Chain_Domain
  imports Catomicals_Prelude
begin

text \<open>
  \<open>crates/chain-domain/src/network.rs\<close>: chain identifiers, concrete networks, chain scopes and RPC
  presets, with their names.  Constructors of different enumerations with the same name carry the
  chain as a prefix.
\<close>

section \<open>Chains and networks\<close>

definition CHAIN_SCOPE_SCHEMA_VERSION :: u16 where "CHAIN_SCOPE_SCHEMA_VERSION = 1"

datatype chain_id = ChainBitcoin | ChainBitcoinCash | ChainBsv | ChainFractalBitcoin | ChainKaspa | ChainChia | ChainErgo

datatype bitcoin_network = BtcMainnet | BtcTestnet3 | BtcTestnet4 | BtcSignet | BtcRegtest

datatype bitcoin_cash_network = BchMainnet | BchTestnet3 | BchTestnet4 | BchChipnet | BchScalenet | BchRegtest

datatype bsv_network = BsvMainnet | BsvTestnet | BsvStn | BsvRegtest

datatype fractal_bitcoin_network = FractalMainnet | FractalTestnet3 | FractalTestnet4 | FractalSignet | FractalRegtest

datatype kaspa_network = KaspaMainnet | KaspaTestnet10 | KaspaTestnet11 | KaspaSimnet | KaspaDevnet

datatype chia_network = ChiaMainnet | ChiaTestnet11

datatype ergo_network = ErgoMainnet | ErgoTestnet

datatype chain_network =
    NetBitcoin bitcoin_network
  | NetBitcoinCash bitcoin_cash_network
  | NetBsv bsv_network
  | NetFractalBitcoin fractal_bitcoin_network
  | NetKaspa kaspa_network
  | NetChia chia_network
  | NetErgo ergo_network

datatype chain_domain_error =
    UnsupportedChainId string
  | UnsupportedChainNetwork string
  | UnsupportedRpcPresetId string
  | UnsupportedSchemaVersion string u16 u16
  | MismatchedChainNetwork chain_id chain_id chain_network

definition chain_id_all :: "chain_id list" where
  "chain_id_all = [ChainBitcoin, ChainBitcoinCash, ChainBsv, ChainFractalBitcoin, ChainKaspa, ChainChia, ChainErgo]"

fun chain_id_as_str :: "chain_id \<Rightarrow> string" where
  "chain_id_as_str ChainBitcoin = ''bitcoin''"
| "chain_id_as_str ChainBitcoinCash = ''bitcoin-cash''"
| "chain_id_as_str ChainBsv = ''bsv''"
| "chain_id_as_str ChainFractalBitcoin = ''fractal-bitcoin''"
| "chain_id_as_str ChainKaspa = ''kaspa''"
| "chain_id_as_str ChainChia = ''chia''"
| "chain_id_as_str ChainErgo = ''ergo''"

definition chain_id_from_str :: "string \<Rightarrow> (chain_domain_error, chain_id) rresult" where
  "chain_id_from_str value =
     (if value = ''bitcoin'' then Inr ChainBitcoin else
      if value = ''bitcoin-cash'' then Inr ChainBitcoinCash else
      if value = ''bsv'' then Inr ChainBsv else
      if value = ''fractal-bitcoin'' then Inr ChainFractalBitcoin else
      if value = ''kaspa'' then Inr ChainKaspa else
      if value = ''chia'' then Inr ChainChia else
      if value = ''ergo'' then Inr ChainErgo else
      Inl (UnsupportedChainId value))"

definition network_all :: "chain_network list" where
  "network_all =
    [NetBitcoin BtcMainnet, NetBitcoin BtcTestnet3, NetBitcoin BtcTestnet4, NetBitcoin BtcSignet,
     NetBitcoin BtcRegtest, NetBitcoinCash BchMainnet, NetBitcoinCash BchTestnet3, NetBitcoinCash BchTestnet4,
     NetBitcoinCash BchChipnet, NetBitcoinCash BchScalenet, NetBitcoinCash BchRegtest, NetBsv BsvMainnet,
     NetBsv BsvTestnet, NetBsv BsvStn, NetBsv BsvRegtest, NetFractalBitcoin FractalMainnet,
     NetFractalBitcoin FractalTestnet3, NetFractalBitcoin FractalTestnet4, NetFractalBitcoin FractalSignet, NetFractalBitcoin FractalRegtest,
     NetKaspa KaspaMainnet, NetKaspa KaspaTestnet10, NetKaspa KaspaTestnet11, NetKaspa KaspaSimnet,
     NetKaspa KaspaDevnet, NetChia ChiaMainnet, NetChia ChiaTestnet11, NetErgo ErgoMainnet,
     NetErgo ErgoTestnet]"

fun network_chain_id :: "chain_network \<Rightarrow> chain_id" where
  "network_chain_id (NetBitcoin _) = ChainBitcoin"
| "network_chain_id (NetBitcoinCash _) = ChainBitcoinCash"
| "network_chain_id (NetBsv _) = ChainBsv"
| "network_chain_id (NetFractalBitcoin _) = ChainFractalBitcoin"
| "network_chain_id (NetKaspa _) = ChainKaspa"
| "network_chain_id (NetChia _) = ChainChia"
| "network_chain_id (NetErgo _) = ChainErgo"

fun network_as_str :: "chain_network \<Rightarrow> string" where
  "network_as_str (NetBitcoin BtcMainnet) = ''bitcoin.mainnet''"
| "network_as_str (NetBitcoin BtcTestnet3) = ''bitcoin.testnet3''"
| "network_as_str (NetBitcoin BtcTestnet4) = ''bitcoin.testnet4''"
| "network_as_str (NetBitcoin BtcSignet) = ''bitcoin.signet''"
| "network_as_str (NetBitcoin BtcRegtest) = ''bitcoin.regtest''"
| "network_as_str (NetBitcoinCash BchMainnet) = ''bitcoin-cash.mainnet''"
| "network_as_str (NetBitcoinCash BchTestnet3) = ''bitcoin-cash.testnet3''"
| "network_as_str (NetBitcoinCash BchTestnet4) = ''bitcoin-cash.testnet4''"
| "network_as_str (NetBitcoinCash BchChipnet) = ''bitcoin-cash.chipnet''"
| "network_as_str (NetBitcoinCash BchScalenet) = ''bitcoin-cash.scalenet''"
| "network_as_str (NetBitcoinCash BchRegtest) = ''bitcoin-cash.regtest''"
| "network_as_str (NetBsv BsvMainnet) = ''bsv.mainnet''"
| "network_as_str (NetBsv BsvTestnet) = ''bsv.testnet''"
| "network_as_str (NetBsv BsvStn) = ''bsv.stn''"
| "network_as_str (NetBsv BsvRegtest) = ''bsv.regtest''"
| "network_as_str (NetFractalBitcoin FractalMainnet) = ''fractal-bitcoin.mainnet''"
| "network_as_str (NetFractalBitcoin FractalTestnet3) = ''fractal-bitcoin.testnet3''"
| "network_as_str (NetFractalBitcoin FractalTestnet4) = ''fractal-bitcoin.testnet4''"
| "network_as_str (NetFractalBitcoin FractalSignet) = ''fractal-bitcoin.signet''"
| "network_as_str (NetFractalBitcoin FractalRegtest) = ''fractal-bitcoin.regtest''"
| "network_as_str (NetKaspa KaspaMainnet) = ''kaspa.mainnet''"
| "network_as_str (NetKaspa KaspaTestnet10) = ''kaspa.testnet10''"
| "network_as_str (NetKaspa KaspaTestnet11) = ''kaspa.testnet11''"
| "network_as_str (NetKaspa KaspaSimnet) = ''kaspa.simnet''"
| "network_as_str (NetKaspa KaspaDevnet) = ''kaspa.devnet''"
| "network_as_str (NetChia ChiaMainnet) = ''chia.mainnet''"
| "network_as_str (NetChia ChiaTestnet11) = ''chia.testnet11''"
| "network_as_str (NetErgo ErgoMainnet) = ''ergo.mainnet''"
| "network_as_str (NetErgo ErgoTestnet) = ''ergo.testnet''"

definition network_from_str :: "string \<Rightarrow> (chain_domain_error, chain_network) rresult" where
  "network_from_str value =
     ok_or (UnsupportedChainNetwork value) (List.find (\<lambda>network. network_as_str network = value) network_all)"

section \<open>Chain scopes\<close>

record chain_scope =
  schema_version :: u16
  scope_chain :: chain_id
  scope_network :: chain_network

definition chain_scope_new :: "chain_id \<Rightarrow> chain_network \<Rightarrow> (chain_domain_error, chain_scope) rresult" where
  "chain_scope_new chain network =
     (let actual = network_chain_id network in
      if chain \<noteq> actual then Inl (MismatchedChainNetwork chain actual network)
      else Inr \<lparr>schema_version = CHAIN_SCOPE_SCHEMA_VERSION, scope_chain = chain, scope_network = network\<rparr>)"

definition chain_scope_for_network :: "chain_network \<Rightarrow> chain_scope" where
  "chain_scope_for_network network =
     \<lparr>schema_version = CHAIN_SCOPE_SCHEMA_VERSION, scope_chain = network_chain_id network, scope_network = network\<rparr>"

text \<open>Deserialisation of a scope from its wire fields.\<close>

definition chain_scope_deserialize :: "u16 \<Rightarrow> string \<Rightarrow> string \<Rightarrow> (chain_domain_error, chain_scope) rresult" where
  "chain_scope_deserialize version chain network =
     rbind (chain_id_from_str chain) (\<lambda>c.
     rbind (network_from_str network) (\<lambda>n.
       if version \<noteq> CHAIN_SCOPE_SCHEMA_VERSION
       then Inl (UnsupportedSchemaVersion ''chain scope'' CHAIN_SCOPE_SCHEMA_VERSION version)
       else chain_scope_new c n))"

section \<open>RPC presets\<close>

datatype rpc_preset_id =
    PresetBitcoinInquisition | PresetBitcoinMainnet | PresetBitcoinTestnet3 | PresetBitcoinTestnet4
  | PresetBitcoinSignet | PresetBitcoinRegtest | PresetFractalBitcoinMainnet | PresetFractalBitcoinTestnet3
  | PresetFractalBitcoinTestnet4 | PresetFractalBitcoinSignet | PresetFractalBitcoinRegtest | PresetBitcoinCashMainnet
  | PresetBitcoinCashTestnet3 | PresetBitcoinCashTestnet4 | PresetBitcoinCashChipnet | PresetBitcoinCashScalenet
  | PresetBitcoinCashRegtest | PresetBsvMainnet | PresetBsvTestnet | PresetBsvStn
  | PresetBsvRegtest | PresetKaspaMainnet | PresetKaspaTestnet10 | PresetKaspaTestnet11
  | PresetKaspaSimnet | PresetKaspaDevnet | PresetChiaMainnet | PresetChiaTestnet11
  | PresetErgoMainnet | PresetErgoTestnet

definition preset_all :: "rpc_preset_id list" where
  "preset_all =
    [PresetBitcoinInquisition, PresetBitcoinMainnet, PresetBitcoinTestnet3, PresetBitcoinTestnet4,
     PresetBitcoinSignet, PresetBitcoinRegtest, PresetFractalBitcoinMainnet, PresetFractalBitcoinTestnet3,
     PresetFractalBitcoinTestnet4, PresetFractalBitcoinSignet, PresetFractalBitcoinRegtest, PresetBitcoinCashMainnet,
     PresetBitcoinCashTestnet3, PresetBitcoinCashTestnet4, PresetBitcoinCashChipnet, PresetBitcoinCashScalenet,
     PresetBitcoinCashRegtest, PresetBsvMainnet, PresetBsvTestnet, PresetBsvStn,
     PresetBsvRegtest, PresetKaspaMainnet, PresetKaspaTestnet10, PresetKaspaTestnet11,
     PresetKaspaSimnet, PresetKaspaDevnet, PresetChiaMainnet, PresetChiaTestnet11,
     PresetErgoMainnet, PresetErgoTestnet]"

fun preset_as_str :: "rpc_preset_id \<Rightarrow> string" where
  "preset_as_str PresetBitcoinInquisition = ''bitcoin-inquisition''"
| "preset_as_str PresetBitcoinMainnet = ''bitcoin-mainnet''"
| "preset_as_str PresetBitcoinTestnet3 = ''bitcoin-testnet3''"
| "preset_as_str PresetBitcoinTestnet4 = ''bitcoin-testnet4''"
| "preset_as_str PresetBitcoinSignet = ''bitcoin-signet''"
| "preset_as_str PresetBitcoinRegtest = ''bitcoin-regtest''"
| "preset_as_str PresetFractalBitcoinMainnet = ''fractal-bitcoin-mainnet''"
| "preset_as_str PresetFractalBitcoinTestnet3 = ''fractal-bitcoin-testnet3''"
| "preset_as_str PresetFractalBitcoinTestnet4 = ''fractal-bitcoin-testnet4''"
| "preset_as_str PresetFractalBitcoinSignet = ''fractal-bitcoin-signet''"
| "preset_as_str PresetFractalBitcoinRegtest = ''fractal-bitcoin-regtest''"
| "preset_as_str PresetBitcoinCashMainnet = ''bitcoin-cash-mainnet''"
| "preset_as_str PresetBitcoinCashTestnet3 = ''bitcoin-cash-testnet3''"
| "preset_as_str PresetBitcoinCashTestnet4 = ''bitcoin-cash-testnet4''"
| "preset_as_str PresetBitcoinCashChipnet = ''bitcoin-cash-chipnet''"
| "preset_as_str PresetBitcoinCashScalenet = ''bitcoin-cash-scalenet''"
| "preset_as_str PresetBitcoinCashRegtest = ''bitcoin-cash-regtest''"
| "preset_as_str PresetBsvMainnet = ''bsv-mainnet''"
| "preset_as_str PresetBsvTestnet = ''bsv-testnet''"
| "preset_as_str PresetBsvStn = ''bsv-stn''"
| "preset_as_str PresetBsvRegtest = ''bsv-regtest''"
| "preset_as_str PresetKaspaMainnet = ''kaspa-mainnet''"
| "preset_as_str PresetKaspaTestnet10 = ''kaspa-testnet-10''"
| "preset_as_str PresetKaspaTestnet11 = ''kaspa-testnet-11''"
| "preset_as_str PresetKaspaSimnet = ''kaspa-simnet''"
| "preset_as_str PresetKaspaDevnet = ''kaspa-devnet''"
| "preset_as_str PresetChiaMainnet = ''chia-mainnet''"
| "preset_as_str PresetChiaTestnet11 = ''chia-testnet11''"
| "preset_as_str PresetErgoMainnet = ''ergo-mainnet''"
| "preset_as_str PresetErgoTestnet = ''ergo-testnet''"

fun preset_chain_network :: "rpc_preset_id \<Rightarrow> chain_network" where
  "preset_chain_network PresetBitcoinInquisition = NetBitcoin BtcSignet"
| "preset_chain_network PresetBitcoinSignet = NetBitcoin BtcSignet"
| "preset_chain_network PresetBitcoinMainnet = NetBitcoin BtcMainnet"
| "preset_chain_network PresetBitcoinTestnet3 = NetBitcoin BtcTestnet3"
| "preset_chain_network PresetBitcoinTestnet4 = NetBitcoin BtcTestnet4"
| "preset_chain_network PresetBitcoinRegtest = NetBitcoin BtcRegtest"
| "preset_chain_network PresetFractalBitcoinMainnet = NetFractalBitcoin FractalMainnet"
| "preset_chain_network PresetFractalBitcoinTestnet3 = NetFractalBitcoin FractalTestnet3"
| "preset_chain_network PresetFractalBitcoinTestnet4 = NetFractalBitcoin FractalTestnet4"
| "preset_chain_network PresetFractalBitcoinSignet = NetFractalBitcoin FractalSignet"
| "preset_chain_network PresetFractalBitcoinRegtest = NetFractalBitcoin FractalRegtest"
| "preset_chain_network PresetBitcoinCashMainnet = NetBitcoinCash BchMainnet"
| "preset_chain_network PresetBitcoinCashTestnet3 = NetBitcoinCash BchTestnet3"
| "preset_chain_network PresetBitcoinCashTestnet4 = NetBitcoinCash BchTestnet4"
| "preset_chain_network PresetBitcoinCashChipnet = NetBitcoinCash BchChipnet"
| "preset_chain_network PresetBitcoinCashScalenet = NetBitcoinCash BchScalenet"
| "preset_chain_network PresetBitcoinCashRegtest = NetBitcoinCash BchRegtest"
| "preset_chain_network PresetBsvMainnet = NetBsv BsvMainnet"
| "preset_chain_network PresetBsvTestnet = NetBsv BsvTestnet"
| "preset_chain_network PresetBsvStn = NetBsv BsvStn"
| "preset_chain_network PresetBsvRegtest = NetBsv BsvRegtest"
| "preset_chain_network PresetKaspaMainnet = NetKaspa KaspaMainnet"
| "preset_chain_network PresetKaspaTestnet10 = NetKaspa KaspaTestnet10"
| "preset_chain_network PresetKaspaTestnet11 = NetKaspa KaspaTestnet11"
| "preset_chain_network PresetKaspaSimnet = NetKaspa KaspaSimnet"
| "preset_chain_network PresetKaspaDevnet = NetKaspa KaspaDevnet"
| "preset_chain_network PresetChiaMainnet = NetChia ChiaMainnet"
| "preset_chain_network PresetChiaTestnet11 = NetChia ChiaTestnet11"
| "preset_chain_network PresetErgoMainnet = NetErgo ErgoMainnet"
| "preset_chain_network PresetErgoTestnet = NetErgo ErgoTestnet"

definition preset_chain_id :: "rpc_preset_id \<Rightarrow> chain_id" where
  "preset_chain_id preset = network_chain_id (preset_chain_network preset)"

definition preset_from_str :: "string \<Rightarrow> (chain_domain_error, rpc_preset_id) rresult" where
  "preset_from_str value =
     ok_or (UnsupportedRpcPresetId value) (List.find (\<lambda>preset. preset_as_str preset = value) preset_all)"

section \<open>Names identify their values\<close>

lemma find_unique:
  assumes "distinct (map f xs)" and "\<And>x. x \<in> set xs"
  shows "List.find (\<lambda>x. f x = s) xs = Some x \<longleftrightarrow> s = f x"
proof
  assume "List.find (\<lambda>x. f x = s) xs = Some x"
  then show "s = f x" by (auto simp: find_Some_iff)
next
  assume s: "s = f x"
  have "List.find (\<lambda>y. f y = f x) xs \<noteq> None" using assms(2) by (auto simp: find_None_iff)
  then obtain y where y: "List.find (\<lambda>y. f y = f x) xs = Some y" by blast
  then have "f y = f x" by (auto simp: find_Some_iff)
  then have "y = x" using assms by (metis distinct_map inj_onD)
  with y s show "List.find (\<lambda>x. f x = s) xs = Some x" by simp
qed

lemma network_all_complete: "n \<in> set network_all"
  unfolding network_all_def
  by (cases n rule: network_as_str.cases) simp_all

lemma network_names_distinct: "distinct (map network_as_str network_all)"
  by (simp add: network_all_def)

lemma preset_all_complete: "p \<in> set preset_all"
  by (cases p) (simp_all add: preset_all_def)

lemma preset_names_distinct: "distinct (map preset_as_str preset_all)"
  by (simp add: preset_all_def)

lemma chain_id_names: "chain_id_from_str s = Inr c \<longleftrightarrow> s = chain_id_as_str c"
  by (cases c) (auto simp: chain_id_from_str_def)

lemma network_names: "network_from_str s = Inr n \<longleftrightarrow> s = network_as_str n"
  using find_unique [OF network_names_distinct network_all_complete] by (simp add: network_from_str_def ok_or_Inr)

lemma preset_names: "preset_from_str s = Inr p \<longleftrightarrow> s = preset_as_str p"
  using find_unique [OF preset_names_distinct preset_all_complete] by (simp add: preset_from_str_def ok_or_Inr)

text \<open>
  A chain scope round-trips through its wire form.  Names of chains, networks and presets are
  parsed to exactly the value that prints them, and a scope is accepted from the wire exactly when
  it has the current schema version, names a known network and names the chain of that network.
\<close>

theorem chain_scope_roundtrip:
  "(chain_scope_deserialize v c n = Inr scope \<longleftrightarrow>
      v = CHAIN_SCOPE_SCHEMA_VERSION \<and> scope = chain_scope_for_network (scope_network scope)
      \<and> c = chain_id_as_str (scope_chain scope) \<and> n = network_as_str (scope_network scope))
   \<and> (preset_from_str s = Inr p \<longleftrightarrow> s = preset_as_str p)"
proof -
  have "chain_scope_new c' n' = Inr scope \<longleftrightarrow> scope = chain_scope_for_network n' \<and> c' = network_chain_id n'" for c' n'
    by (auto simp: chain_scope_new_def chain_scope_for_network_def Let_def)
  then show ?thesis
    by (auto simp: chain_scope_deserialize_def rbind_Inr guard_Inr chain_id_names network_names preset_names
        chain_scope_for_network_def) (metis chain_scope.select_convs(2))
qed

end
