(* ===== verification/Wallet_Intent.thy ===== *)
theory Wallet_Intent
  imports Bitcoin_Env Chain_Domain
begin

text \<open>
  \<open>crates/wallet-core/src/intent.rs\<close> and the intent part of \<open>covhub.rs\<close>: signing intents, their
  canonical encoding and the digest a Passkey approval signs.  Identifiers and digests are byte
  strings of 16 and 32 bytes.  \<open>append_field\<close> panics on a field of \<open>2^32\<close> bytes or more, so the
  encodings are partial.
\<close>

section \<open>Intents\<close>

definition SIGNING_PROTOCOL_VERSION :: u16 where "SIGNING_PROTOCOL_VERSION = 1"

datatype intent_network = IntentSignet | IntentCovhubDelegated

fun network_canonical_name :: "intent_network \<Rightarrow> bytes" where
  "network_canonical_name IntentSignet = ascii ''signet''"
| "network_canonical_name IntentCovhubDelegated = ascii ''covhub_delegated''"

datatype signing_action = SignTaprootTransaction | ActionCovhubDelegated

fun action_canonical_name :: "signing_action \<Rightarrow> bytes" where
  "action_canonical_name SignTaprootTransaction = ascii ''sign_taproot_transaction''"
| "action_canonical_name ActionCovhubDelegated = ascii ''covhub_delegated''"

record personal_signing_policy =
  pp_profile_id :: bytes
  pp_signer_set_id :: bytes
  pp_signer_epoch :: u64
  pp_group_pubkey_xonly :: bytes
  pp_allowed_participants :: "u16 list"
  pp_threshold :: u16
  pp_policy_digest :: bytes
  pp_chain_snapshot_digest :: bytes

datatype intent_status = IntentPending | IntentApproved | IntentSigning | IntentCancelled | IntentExpired | IntentSigned

record covhub_binding =
  cb_version :: u16
  cb_proposal_id :: string
  cb_proposal_digest :: string
  cb_canvas_digest :: string
  cb_code_confirmation_digest :: string
  cb_chain_scope :: chain_scope
  cb_review_digest :: bytes
  cb_signing_message_digest :: bytes
  cb_profile_id :: bytes

record signing_intent =
  si_id :: bytes
  si_network :: intent_network
  si_protocol_version :: u16
  si_action :: signing_action
  si_wallet_id :: bytes
  si_signer_id :: u16
  si_personal_signing_policy :: "personal_signing_policy option"
  si_tx_digest :: bytes
  si_session_id :: bytes
  si_expiry :: i64
  si_nonce :: bytes
  si_status :: intent_status
  si_created_at :: i64
  si_covhub :: "covhub_binding option"

section \<open>Canonical encodings\<close>

definition append_field :: "bytes \<Rightarrow> (panic, bytes) rresult" where
  "append_field field = (if length field < 2 ^ 32 then Inr (u32_be (word_of_nat (length field)) @ field) else Inl Panic)"

definition COVHUB_INTENT_TAG :: bytes where "COVHUB_INTENT_TAG = ascii ''catomicals/covhub-signing-intent'' @ [0]"

definition covhub_canonical_bytes ::
    "u16 \<Rightarrow> bytes \<Rightarrow> string \<Rightarrow> string \<Rightarrow> string \<Rightarrow> string \<Rightarrow> chain_scope \<Rightarrow> bytes \<Rightarrow> bytes \<Rightarrow> bytes \<Rightarrow> bytes \<Rightarrow> i64 \<Rightarrow>
     (panic, bytes) rresult" where
  "covhub_canonical_bytes version intent_id proposal_id proposal_digest canvas_digest code_confirmation_digest
       scope review_digest signing_message_digest session_id profile_id expires_at =
     rbind (rmap append_field [ascii proposal_id, ascii proposal_digest, ascii canvas_digest,
         ascii code_confirmation_digest, ascii (chain_id_as_str (scope_chain scope)),
         ascii (network_as_str (scope_network scope))]) (\<lambda>fields.
       Inr (COVHUB_INTENT_TAG @ u16_be version @ intent_id @ concat fields
         @ review_digest @ signing_message_digest @ session_id @ profile_id @ i64_be expires_at))"

definition policy_bytes :: "personal_signing_policy \<Rightarrow> bytes" where
  "policy_bytes p =
     ascii ''personal-2of3'' @ [0] @ pp_profile_id p @ pp_signer_set_id p @ u64_be (pp_signer_epoch p)
     @ pp_group_pubkey_xonly p @ concat (map u16_be (pp_allowed_participants p)) @ u16_be (pp_threshold p)
     @ pp_policy_digest p @ pp_chain_snapshot_digest p"

definition INTENT_TAG :: bytes where "INTENT_TAG = ascii ''catomicals/signing-intent'' @ [0]"

definition legacy_intent_bytes :: "signing_intent \<Rightarrow> bytes" where
  "legacy_intent_bytes i =
     INTENT_TAG @ u16_be (si_protocol_version i) @ network_canonical_name (si_network i) @ [0]
     @ action_canonical_name (si_action i) @ [0] @ si_id i @ si_wallet_id i @ u16_be (si_signer_id i)
     @ (case si_personal_signing_policy i of None \<Rightarrow> [] | Some p \<Rightarrow> policy_bytes p)
     @ si_tx_digest i @ si_session_id i @ i64_be (si_expiry i) @ si_nonce i"

definition intent_canonical_bytes :: "signing_intent \<Rightarrow> (panic, bytes) rresult" where
  "intent_canonical_bytes i =
     (case si_covhub i of
        Some b \<Rightarrow> covhub_canonical_bytes (cb_version b) (si_id i) (cb_proposal_id b) (cb_proposal_digest b)
          (cb_canvas_digest b) (cb_code_confirmation_digest b) (cb_chain_scope b) (cb_review_digest b)
          (cb_signing_message_digest b) (si_session_id i) (cb_profile_id b) (si_expiry i)
      | None \<Rightarrow> Inr (legacy_intent_bytes i))"

definition intent_digest :: "bitcoin_env \<Rightarrow> signing_intent \<Rightarrow> (panic, bytes) rresult" where
  "intent_digest E i = rbind (intent_canonical_bytes i) (\<lambda>bs. Inr (sha256 E bs))"

definition intent_is_expired :: "signing_intent \<Rightarrow> i64 \<Rightarrow> bool" where
  "intent_is_expired i now \<longleftrightarrow> now > si_expiry i"

definition authoritative_chain_scope :: "signing_intent \<Rightarrow> chain_scope option" where
  "authoritative_chain_scope i = map_option cb_chain_scope (si_covhub i)"

definition covhub_legacy_fields_are_delegated :: "signing_intent \<Rightarrow> bool" where
  "covhub_legacy_fields_are_delegated i =
     (case si_covhub i of
        Some _ \<Rightarrow> si_network i = IntentCovhubDelegated \<and> si_action i = ActionCovhubDelegated
      | None \<Rightarrow> si_network i \<noteq> IntentCovhubDelegated \<and> si_action i \<noteq> ActionCovhubDelegated)"

section \<open>The CovHub view of an intent\<close>

datatype covhub_intent_status = CovhubPending | CovhubApproved | CovhubCancelled | CovhubExpired | CovhubSigned

record covhub_signing_intent =
  ci_version :: u16
  ci_intent_id :: bytes
  ci_proposal_id :: string
  ci_proposal_digest :: string
  ci_canvas_digest :: string
  ci_code_confirmation_digest :: string
  ci_chain_scope :: chain_scope
  ci_review_digest :: bytes
  ci_signing_message_digest :: bytes
  ci_session_id :: bytes
  ci_profile_id :: bytes
  ci_expires_at :: i64
  ci_created_at :: i64
  ci_status :: covhub_intent_status

definition covhub_intent_bytes :: "covhub_signing_intent \<Rightarrow> (panic, bytes) rresult" where
  "covhub_intent_bytes c =
     covhub_canonical_bytes (ci_version c) (ci_intent_id c) (ci_proposal_id c) (ci_proposal_digest c)
       (ci_canvas_digest c) (ci_code_confirmation_digest c) (ci_chain_scope c) (ci_review_digest c)
       (ci_signing_message_digest c) (ci_session_id c) (ci_profile_id c) (ci_expires_at c)"

definition covhub_intent_digest :: "bitcoin_env \<Rightarrow> covhub_signing_intent \<Rightarrow> (panic, bytes) rresult" where
  "covhub_intent_digest E c = rbind (covhub_intent_bytes c) (\<lambda>bs. Inr (sha256 E bs))"

fun covhub_status_of :: "intent_status \<Rightarrow> covhub_intent_status" where
  "covhub_status_of IntentPending = CovhubPending"
| "covhub_status_of IntentApproved = CovhubApproved"
| "covhub_status_of IntentCancelled = CovhubCancelled"
| "covhub_status_of IntentExpired = CovhubExpired"
| "covhub_status_of IntentSigning = CovhubSigned"
| "covhub_status_of IntentSigned = CovhubSigned"

definition from_wallet_intent :: "signing_intent \<Rightarrow> covhub_signing_intent option" where
  "from_wallet_intent i =
     map_option (\<lambda>b. \<lparr>ci_version = cb_version b, ci_intent_id = si_id i, ci_proposal_id = cb_proposal_id b,
       ci_proposal_digest = cb_proposal_digest b, ci_canvas_digest = cb_canvas_digest b,
       ci_code_confirmation_digest = cb_code_confirmation_digest b, ci_chain_scope = cb_chain_scope b,
       ci_review_digest = cb_review_digest b, ci_signing_message_digest = cb_signing_message_digest b,
       ci_session_id = si_session_id i, ci_profile_id = cb_profile_id b, ci_expires_at = si_expiry i,
       ci_created_at = si_created_at i, ci_status = covhub_status_of (si_status i)\<rparr>) (si_covhub i)"

definition from_covhub_intent :: "covhub_signing_intent \<Rightarrow> covhub_binding" where
  "from_covhub_intent c =
     \<lparr>cb_version = ci_version c, cb_proposal_id = ci_proposal_id c, cb_proposal_digest = ci_proposal_digest c,
      cb_canvas_digest = ci_canvas_digest c, cb_code_confirmation_digest = ci_code_confirmation_digest c,
      cb_chain_scope = ci_chain_scope c, cb_review_digest = ci_review_digest c,
      cb_signing_message_digest = ci_signing_message_digest c, cb_profile_id = ci_profile_id c\<rparr>"

section \<open>What a digest binds\<close>

text \<open>Field widths, and the ranges the Rust types enforce.\<close>

definition wf_policy :: "personal_signing_policy \<Rightarrow> bool" where
  "wf_policy p \<longleftrightarrow> is_array 16 (pp_profile_id p) \<and> is_array 16 (pp_signer_set_id p) \<and> is_array 32 (pp_group_pubkey_xonly p)
     \<and> length (pp_allowed_participants p) = 3 \<and> is_array 32 (pp_policy_digest p) \<and> is_array 32 (pp_chain_snapshot_digest p)"

definition wf_binding :: "covhub_binding \<Rightarrow> bool" where
  "wf_binding b \<longleftrightarrow> schema_version (cb_chain_scope b) = CHAIN_SCOPE_SCHEMA_VERSION
     \<and> scope_chain (cb_chain_scope b) = network_chain_id (scope_network (cb_chain_scope b))
     \<and> is_array 32 (cb_review_digest b) \<and> is_array 32 (cb_signing_message_digest b) \<and> is_array 16 (cb_profile_id b)"

definition wf_intent :: "signing_intent \<Rightarrow> bool" where
  "wf_intent i \<longleftrightarrow> is_array 16 (si_id i) \<and> is_array 16 (si_wallet_id i) \<and> is_array 32 (si_tx_digest i)
     \<and> is_array 32 (si_session_id i) \<and> is_array 32 (si_nonce i) \<and> - (2 ^ 63) \<le> si_expiry i \<and> si_expiry i < 2 ^ 63
     \<and> pred_option wf_policy (si_personal_signing_policy i) \<and> pred_option wf_binding (si_covhub i)"

lemma length_policy_bytes: "wf_policy p \<Longrightarrow> length (policy_bytes p) = 158"
  by (auto simp: policy_bytes_def wf_policy_def length_Suc_conv numeral_3_eq_3)

lemma policy_bytes_nonempty: "policy_bytes p \<noteq> []" "[] \<noteq> policy_bytes p"
  by (simp_all add: policy_bytes_def)

lemma policy_bytes_inject:
  assumes "policy_bytes p = policy_bytes q" and "wf_policy p" "wf_policy q"
  shows "p = q"
proof -
  obtain a b c where p: "pp_allowed_participants p = [a, b, c]"
    using assms(2) by (auto simp: wf_policy_def length_Suc_conv numeral_3_eq_3)
  obtain d e f where q: "pp_allowed_participants q = [d, e, f]"
    using assms(3) by (auto simp: wf_policy_def length_Suc_conv numeral_3_eq_3)
  show ?thesis
    using assms by (intro personal_signing_policy.equality) (auto simp: policy_bytes_def wf_policy_def p q)
qed

lemma canonical_name_split:
  "network_canonical_name n @ 0 # xs = network_canonical_name m @ 0 # ys \<longleftrightarrow> n = m \<and> xs = ys"
  "action_canonical_name a @ 0 # xs = action_canonical_name b @ 0 # ys \<longleftrightarrow> a = b \<and> xs = ys"
  by (cases n; cases m; simp add: ascii_def) (cases a; cases b; simp add: ascii_def)

lemma legacy_intent_bytes_inject:
  assumes "legacy_intent_bytes a = legacy_intent_bytes b" and "wf_intent a" "wf_intent b"
    and "si_covhub a = None" "si_covhub b = None"
  shows "b\<lparr>si_status := si_status a, si_created_at := si_created_at a\<rparr> = a"
proof -
  let ?p = "\<lambda>i. case si_personal_signing_policy i of None \<Rightarrow> [] | Some p \<Rightarrow> policy_bytes p"
  have eq: "si_protocol_version a = si_protocol_version b \<and> si_network a = si_network b \<and> si_action a = si_action b
      \<and> si_id a = si_id b \<and> si_wallet_id a = si_wallet_id b \<and> si_signer_id a = si_signer_id b"
    and rest: "?p a @ si_tx_digest a @ si_session_id a @ i64_be (si_expiry a) @ si_nonce a
      = ?p b @ si_tx_digest b @ si_session_id b @ i64_be (si_expiry b) @ si_nonce b"
    using assms(1-3) by (auto simp: legacy_intent_bytes_def canonical_name_split wf_intent_def)
  have "length (?p a) = length (?p b)"
    using arg_cong [OF rest, of length] assms(2,3) by (simp add: wf_intent_def)
  with rest have "?p a = ?p b" and tail: "si_tx_digest a = si_tx_digest b \<and> si_session_id a = si_session_id b
      \<and> i64_be (si_expiry a) = i64_be (si_expiry b) \<and> si_nonce a = si_nonce b"
    using assms(2,3) by (auto simp: wf_intent_def)
  moreover have "si_expiry a = si_expiry b"
    using tail assms(2,3) by (simp add: wf_intent_def i64_be_inject)
  moreover have "si_personal_signing_policy a = si_personal_signing_policy b"
    using \<open>?p a = ?p b\<close> assms(2,3)
    by (cases "si_personal_signing_policy a"; cases "si_personal_signing_policy b")
      (auto simp: wf_intent_def policy_bytes_nonempty dest: policy_bytes_inject)
  ultimately show ?thesis
    using eq assms(4,5) by (intro signing_intent.equality) auto
qed

lemma append_field_split:
  assumes "append_field a = Inr x" "append_field b = Inr y" "x @ xs = y @ ys"
  shows "a = b \<and> xs = ys"
proof -
  have l: "length a < 2 ^ 32" "length b < 2 ^ 32"
    and x: "x = u32_be (word_of_nat (length a)) @ a" and y: "y = u32_be (word_of_nat (length b)) @ b"
    using assms(1,2) by (simp_all add: append_field_def split: if_splits)
  have eq: "(word_of_nat (length a) :: u32) = word_of_nat (length b)" and rest: "a @ xs = b @ ys"
    using assms(3) by (auto simp: x y)
  have "length a = unat (word_of_nat (length a) :: u32)" using l(1) by (simp add: of_nat_inverse [OF refl])
  also have "\<dots> = length b" unfolding eq using l(2) by (simp add: of_nat_inverse [OF refl])
  finally show ?thesis using rest by simp
qed

lemma append_fields_split:
  assumes "rmap append_field fs = Inr xs" "rmap append_field gs = Inr ys" "length fs = length gs"
    and "concat xs @ r = concat ys @ s"
  shows "fs = gs \<and> r = s"
  using assms
proof (induction fs gs arbitrary: xs ys rule: list_induct2')
  case (4 f fs g gs)
  then obtain x xs' y ys' where "append_field f = Inr x" "append_field g = Inr y" "rmap append_field fs = Inr xs'"
    "rmap append_field gs = Inr ys'" "xs = x # xs'" "ys = y # ys'"
    by (auto simp: rbind_Inr)
  with 4 append_field_split [of f x g y "concat xs' @ r" "concat ys' @ s"] show ?case by simp
qed auto

lemma chain_names_inject:
  "chain_id_as_str c = chain_id_as_str d \<longleftrightarrow> c = d" "network_as_str n = network_as_str m \<longleftrightarrow> n = m"
  by (metis chain_id_names Inr_inject) (metis network_names Inr_inject)

lemma covhub_bytes_inject:
  assumes "covhub_canonical_bytes v i p pd cd cc sc rd md s pr e = Inr x"
    and "covhub_canonical_bytes v' i' p' pd' cd' cc' sc' rd' md' s' pr' e' = Inr x"
    and "is_array 16 i" "is_array 16 i'" "is_array 32 rd" "is_array 32 rd'" "is_array 32 md" "is_array 32 md'"
    and "is_array 32 s" "is_array 32 s'" "is_array 16 pr" "is_array 16 pr'"
  shows "v = v' \<and> i = i' \<and> p = p' \<and> pd = pd' \<and> cd = cd' \<and> cc = cc' \<and> scope_chain sc = scope_chain sc'
    \<and> scope_network sc = scope_network sc' \<and> rd = rd' \<and> md = md' \<and> s = s' \<and> pr = pr' \<and> i64_be e = i64_be e'"
proof -
  let ?f = "[ascii p, ascii pd, ascii cd, ascii cc, ascii (chain_id_as_str (scope_chain sc)), ascii (network_as_str (scope_network sc))]"
  let ?g = "[ascii p', ascii pd', ascii cd', ascii cc', ascii (chain_id_as_str (scope_chain sc')), ascii (network_as_str (scope_network sc'))]"
  obtain fs where fs: "rmap append_field ?f = Inr fs"
    and x: "x = COVHUB_INTENT_TAG @ u16_be v @ i @ concat fs @ rd @ md @ s @ pr @ i64_be e"
    using assms(1) unfolding covhub_canonical_bytes_def rbind_Inr by auto
  obtain gs where gs: "rmap append_field ?g = Inr gs"
    and y: "x = COVHUB_INTENT_TAG @ u16_be v' @ i' @ concat gs @ rd' @ md' @ s' @ pr' @ i64_be e'"
    using assms(2) unfolding covhub_canonical_bytes_def rbind_Inr by auto
  have "v = v' \<and> i = i'" and rest: "concat fs @ rd @ md @ s @ pr @ i64_be e = concat gs @ rd' @ md' @ s' @ pr' @ i64_be e'"
    using x y assms(3,4) by auto
  moreover have "?f = ?g \<and> rd @ md @ s @ pr @ i64_be e = rd' @ md' @ s' @ pr' @ i64_be e'"
    by (rule append_fields_split [OF fs gs _ rest]) simp
  ultimately show ?thesis
    using assms(5-12) by (simp add: ascii_inject chain_names_inject)
qed

lemma legacy_bytes_exact:
  assumes "wf_intent a" "wf_intent b" "si_covhub a = None" "si_covhub b = None"
  shows "legacy_intent_bytes a = legacy_intent_bytes b \<longleftrightarrow> b\<lparr>si_status := si_status a, si_created_at := si_created_at a\<rparr> = a"
proof
  assume "legacy_intent_bytes a = legacy_intent_bytes b"
  then show "b\<lparr>si_status := si_status a, si_created_at := si_created_at a\<rparr> = a"
    using assms by (rule legacy_intent_bytes_inject)
next
  assume eq: "b\<lparr>si_status := si_status a, si_created_at := si_created_at a\<rparr> = a"
  have "legacy_intent_bytes (b\<lparr>si_status := si_status a, si_created_at := si_created_at a\<rparr>) = legacy_intent_bytes b"
    by (simp add: legacy_intent_bytes_def)
  then show "legacy_intent_bytes a = legacy_intent_bytes b" by (simp only: eq)
qed

lemma intent_tags_differ: "INTENT_TAG @ u \<noteq> COVHUB_INTENT_TAG @ v" "COVHUB_INTENT_TAG @ v \<noteq> INTENT_TAG @ u"
  by (simp_all add: INTENT_TAG_def COVHUB_INTENT_TAG_def ascii_def)

lemma covhub_bytes_tag:
  "covhub_canonical_bytes v i p pd cd cc sc rd md s pr e = Inr y \<Longrightarrow> \<exists>u. y = COVHUB_INTENT_TAG @ u"
  unfolding covhub_canonical_bytes_def rbind_Inr by blast

lemma legacy_covhub_bytes_differ:
  assumes "si_covhub a = None" "si_covhub b = Some bb" "intent_canonical_bytes a = Inr x" "intent_canonical_bytes b = Inr y"
  shows "x \<noteq> y"
proof -
  obtain v where "y = COVHUB_INTENT_TAG @ v"
    using assms(2,4) covhub_bytes_tag by (force simp: intent_canonical_bytes_def)
  moreover obtain u where "x = INTENT_TAG @ u"
    using assms(1,3) by (auto simp: intent_canonical_bytes_def legacy_intent_bytes_def)
  ultimately show ?thesis using intent_tags_differ by simp
qed

lemma intent_bytes_exact:
  assumes "wf_intent a" "wf_intent b" "intent_canonical_bytes a = Inr x" "intent_canonical_bytes b = Inr y"
  shows "x = y \<longleftrightarrow>
    (case si_covhub a of
       None \<Rightarrow> b\<lparr>si_status := si_status a, si_created_at := si_created_at a\<rparr> = a
     | Some binding \<Rightarrow> si_covhub b = Some binding \<and> si_id b = si_id a \<and> si_session_id b = si_session_id a
         \<and> si_expiry b = si_expiry a)"
proof (cases "si_covhub a"; cases "si_covhub b")
  assume n: "si_covhub a = None" "si_covhub b = None"
  then have bytes: "x = y \<longleftrightarrow> legacy_intent_bytes a = legacy_intent_bytes b"
    using assms(3,4) by (simp add: intent_canonical_bytes_def)
  show ?thesis unfolding n(1) option.case bytes by (rule legacy_bytes_exact [OF assms(1,2) n])
next
  fix bb assume n: "si_covhub a = None" "si_covhub b = Some bb"
  have "b\<lparr>si_status := si_status a, si_created_at := si_created_at a\<rparr> \<noteq> a"
  proof
    assume "b\<lparr>si_status := si_status a, si_created_at := si_created_at a\<rparr> = a"
    from arg_cong [OF this, of si_covhub] n show False by simp
  qed
  with n legacy_covhub_bytes_differ [OF n assms(3,4)] show ?thesis by simp
next
  fix ba assume n: "si_covhub a = Some ba" "si_covhub b = None"
  with legacy_covhub_bytes_differ [OF n(2,1) assms(4,3)] show ?thesis by simp
next
  fix ba bb assume n: "si_covhub a = Some ba" "si_covhub b = Some bb"
  have w: "wf_binding ba" "wf_binding bb" using assms(1,2) n by (simp_all add: wf_intent_def)
  have "bb = ba \<and> si_id b = si_id a \<and> si_session_id b = si_session_id a \<and> si_expiry b = si_expiry a" if "x = y"
  proof -
    have eq: "cb_version ba = cb_version bb \<and> si_id a = si_id b \<and> cb_proposal_id ba = cb_proposal_id bb
        \<and> cb_proposal_digest ba = cb_proposal_digest bb \<and> cb_canvas_digest ba = cb_canvas_digest bb
        \<and> cb_code_confirmation_digest ba = cb_code_confirmation_digest bb
        \<and> scope_chain (cb_chain_scope ba) = scope_chain (cb_chain_scope bb)
        \<and> scope_network (cb_chain_scope ba) = scope_network (cb_chain_scope bb)
        \<and> cb_review_digest ba = cb_review_digest bb \<and> cb_signing_message_digest ba = cb_signing_message_digest bb
        \<and> si_session_id a = si_session_id b \<and> cb_profile_id ba = cb_profile_id bb
        \<and> i64_be (si_expiry a) = i64_be (si_expiry b)"
      using assms that n w
      by (intro covhub_bytes_inject [where x = x]) (simp_all add: intent_canonical_bytes_def wf_intent_def wf_binding_def)
    then have "cb_chain_scope ba = cb_chain_scope bb" using w by (intro chain_scope.equality) (simp_all add: wf_binding_def)
    with eq have "ba = bb" by (intro covhub_binding.equality) auto
    with eq assms(1,2) show ?thesis by (simp add: wf_intent_def i64_be_inject)
  qed
  moreover have "x = y"
    if "bb = ba \<and> si_id b = si_id a \<and> si_session_id b = si_session_id a \<and> si_expiry b = si_expiry a"
  proof -
    have "intent_canonical_bytes b = intent_canonical_bytes a"
      unfolding intent_canonical_bytes_def n option.case by (simp only: that)
    then show ?thesis unfolding assms(3,4) by simp
  qed
  ultimately have "x = y \<longleftrightarrow> bb = ba \<and> si_id b = si_id a \<and> si_session_id b = si_session_id a \<and> si_expiry b = si_expiry a"
    by (rule iffI)
  then show ?thesis unfolding n option.case option.inject .
qed

text \<open>
  C32: an intent digest binds exactly what is approved.  Two well-formed intents have the same
  digest only if their encodings are a SHA-256 collision or they agree: a legacy intent on every
  field but status and creation time, a CovHub intent on its binding, id, session and expiry (and
  on nothing else: not on the nonce, transaction digest, wallet or signer).
\<close>

theorem intent_digest_binds:
  assumes "wf_intent a" "wf_intent b" "intent_canonical_bytes a = Inr x" "intent_canonical_bytes b = Inr y"
  shows "intent_digest E a = intent_digest E b \<longleftrightarrow> sha_collision E x y \<or>
    (case si_covhub a of
       None \<Rightarrow> b\<lparr>si_status := si_status a, si_created_at := si_created_at a\<rparr> = a
     | Some binding \<Rightarrow> si_covhub b = Some binding \<and> si_id b = si_id a \<and> si_session_id b = si_session_id a
         \<and> si_expiry b = si_expiry a)"
  unfolding intent_bytes_exact [OF assms, symmetric]
  using assms(3,4) by (auto simp: intent_digest_def sha_collision_def)

definition sample_intent :: signing_intent where
  "sample_intent = \<lparr>si_id = replicate 16 1, si_network = IntentSignet, si_protocol_version = 1,
     si_action = SignTaprootTransaction, si_wallet_id = replicate 16 2, si_signer_id = 1,
     si_personal_signing_policy = None, si_tx_digest = replicate 32 3, si_session_id = replicate 32 4,
     si_expiry = 100, si_nonce = replicate 32 5, si_status = IntentPending, si_created_at = 0, si_covhub = None\<rparr>"

definition sample_binding :: covhub_binding where
  "sample_binding = \<lparr>cb_version = 1, cb_proposal_id = ''proposal:a'', cb_proposal_digest = ''d'',
     cb_canvas_digest = ''e'', cb_code_confirmation_digest = ''f'',
     cb_chain_scope = chain_scope_for_network (NetKaspa KaspaTestnet11), cb_review_digest = replicate 32 6,
     cb_signing_message_digest = replicate 32 7, cb_profile_id = replicate 16 8\<rparr>"

definition sample_covhub_intent :: signing_intent where
  "sample_covhub_intent = sample_intent\<lparr>si_network := IntentCovhubDelegated, si_action := ActionCovhubDelegated,
     si_covhub := Some sample_binding\<rparr>"

lemma wf_sample_covhub_intent [simp]: "wf_intent sample_covhub_intent" "wf_intent (sample_covhub_intent\<lparr>si_nonce := replicate 32 9\<rparr>)"
  by (simp_all add: wf_intent_def sample_covhub_intent_def sample_intent_def sample_binding_def wf_binding_def
      chain_scope_for_network_def)

lemma sample_covhub_bytes:
  "\<exists>x. intent_canonical_bytes sample_covhub_intent = Inr x
     \<and> intent_canonical_bytes (sample_covhub_intent\<lparr>si_nonce := replicate 32 9\<rparr>) = Inr x"
  by (simp add: intent_canonical_bytes_def sample_covhub_intent_def sample_intent_def sample_binding_def
      covhub_canonical_bytes_def append_field_def chain_scope_for_network_def)

theorem intent_digest_binds_witness:
  "intent_digest sample_env sample_covhub_intent = intent_digest sample_env (sample_covhub_intent\<lparr>si_nonce := replicate 32 9\<rparr>)"
proof -
  obtain x where "intent_canonical_bytes sample_covhub_intent = Inr x"
    "intent_canonical_bytes (sample_covhub_intent\<lparr>si_nonce := replicate 32 9\<rparr>) = Inr x"
    using sample_covhub_bytes by blast
  from intent_digest_binds [OF wf_sample_covhub_intent this, of sample_env] show ?thesis
    by (simp add: sample_covhub_intent_def)
qed

end
