(* ===== verification/Signing_Domain.thy ===== *)
theory Signing_Domain
  imports Wallet_Intent
begin

text \<open>
  \<open>crates/signing-domain\<close> and \<open>crates/chain-domain/src/review.rs\<close>: the registry of signing suites,
  review artifacts and the review binding whose domain separator every chain signer signs under.
  A Rust \<open>String\<close> is a list of bytes here written as a \<open>string\<close>; its \<open>len()\<close> is the length of the list.
\<close>

section \<open>Review artifacts\<close>

definition MAX_REVIEW_SUMMARY_BYTES :: nat where "MAX_REVIEW_SUMMARY_BYTES = 4 * 1024"
definition MAX_REVIEW_MATERIAL_BYTES :: nat where "MAX_REVIEW_MATERIAL_BYTES = 1000000"
definition REVIEW_ARTIFACT_SCHEMA_VERSION :: u16 where "REVIEW_ARTIFACT_SCHEMA_VERSION = 2"

datatype review_contract_error =
    SummaryTooLong nat
  | MissingReviewedMaterial
  | ReviewedMaterialTooLong nat
  | UnsupportedOperation string
  | InvalidFinalizedSignature string
  | UnsupportedReviewSchemaVersion u16 u16

record review_artifact =
  ra_schema_version :: u16
  ra_scope :: chain_scope
  ra_review_digest :: bytes
  ra_signing_message_digest :: bytes
  ra_summary :: string
  ra_reviewed_material :: bytes

definition review_artifact_new ::
    "chain_scope \<Rightarrow> bytes \<Rightarrow> bytes \<Rightarrow> string \<Rightarrow> bytes \<Rightarrow> (review_contract_error, review_artifact) rresult" where
  "review_artifact_new scope review_digest signing_message_digest summary reviewed_material =
     (if length summary > MAX_REVIEW_SUMMARY_BYTES then Inl (SummaryTooLong MAX_REVIEW_SUMMARY_BYTES)
      else if reviewed_material = [] then Inl MissingReviewedMaterial
      else if length reviewed_material > MAX_REVIEW_MATERIAL_BYTES
      then Inl (ReviewedMaterialTooLong MAX_REVIEW_MATERIAL_BYTES)
      else Inr \<lparr>ra_schema_version = REVIEW_ARTIFACT_SCHEMA_VERSION, ra_scope = scope,
        ra_review_digest = review_digest, ra_signing_message_digest = signing_message_digest,
        ra_summary = summary, ra_reviewed_material = reviewed_material\<rparr>)"

text \<open>
  The bounded visitor for \<open>reviewed_material\<close>: \<open>hint\<close> is the size the deserialiser announces, and
  the loop stops before it stores more than the maximum.
\<close>

fun visit_elements :: "bytes \<Rightarrow> bytes \<Rightarrow> (review_contract_error, bytes) rresult" where
  "visit_elements bytes [] = Inr bytes"
| "visit_elements bytes (byte # rest) =
     (if length bytes = MAX_REVIEW_MATERIAL_BYTES then Inl (ReviewedMaterialTooLong MAX_REVIEW_MATERIAL_BYTES)
      else visit_elements (bytes @ [byte]) rest)"

definition visit_seq :: "nat option \<Rightarrow> bytes \<Rightarrow> (review_contract_error, bytes) rresult" where
  "visit_seq hint elements =
     (if (case hint of None \<Rightarrow> False | Some n \<Rightarrow> n > MAX_REVIEW_MATERIAL_BYTES)
      then Inl (ReviewedMaterialTooLong MAX_REVIEW_MATERIAL_BYTES)
      else rbind (visit_elements [] elements) (\<lambda>bytes.
        if bytes = [] then Inl MissingReviewedMaterial else Inr bytes))"

definition validate_deserialized_byte_count :: "bytes \<Rightarrow> (review_contract_error, unit) rresult" where
  "validate_deserialized_byte_count bytes =
     (if bytes = [] then Inl MissingReviewedMaterial
      else if length bytes > MAX_REVIEW_MATERIAL_BYTES then Inl (ReviewedMaterialTooLong MAX_REVIEW_MATERIAL_BYTES)
      else Inr ())"

definition visit_bytes :: "bytes \<Rightarrow> (review_contract_error, bytes) rresult" where
  "visit_bytes bytes = rbind (validate_deserialized_byte_count bytes) (\<lambda>_. Inr bytes)"

text \<open>Deserialisation from the wire fields, the material already visited.\<close>

definition review_artifact_deserialize ::
    "u16 \<Rightarrow> chain_scope \<Rightarrow> bytes \<Rightarrow> bytes \<Rightarrow> string \<Rightarrow> (review_contract_error, bytes) rresult \<Rightarrow>
     (review_contract_error, review_artifact) rresult" where
  "review_artifact_deserialize version scope review_digest signing_message_digest summary visited =
     rbind visited (\<lambda>material.
       if version \<noteq> REVIEW_ARTIFACT_SCHEMA_VERSION
       then Inl (UnsupportedReviewSchemaVersion REVIEW_ARTIFACT_SCHEMA_VERSION version)
       else review_artifact_new scope review_digest signing_message_digest summary material)"

section \<open>Signing suites\<close>

datatype signing_algorithm =
  Bip340TaprootSchnorr | Secp256k1Schnorr | BitcoinCashSchnorr | Secp256k1Ecdsa | Bls12381AugScheme | AlgErgoSigma

definition algorithm_all :: "signing_algorithm list" where
  "algorithm_all =
     [Bip340TaprootSchnorr, Secp256k1Schnorr, BitcoinCashSchnorr, Secp256k1Ecdsa, Bls12381AugScheme, AlgErgoSigma]"

fun algorithm_as_str :: "signing_algorithm \<Rightarrow> string" where
  "algorithm_as_str Bip340TaprootSchnorr = ''bip340-taproot-schnorr''"
| "algorithm_as_str Secp256k1Schnorr = ''secp256k1-schnorr''"
| "algorithm_as_str BitcoinCashSchnorr = ''bitcoin-cash-schnorr''"
| "algorithm_as_str Secp256k1Ecdsa = ''secp256k1-ecdsa''"
| "algorithm_as_str Bls12381AugScheme = ''bls12-381-aug-scheme''"
| "algorithm_as_str AlgErgoSigma = ''ergo-sigma''"

datatype signing_execution_mode =
  ThresholdInteractive | ThresholdNonInteractive | SingleSignerIsolated | NativeChainCoordinator

definition execution_mode_all :: "signing_execution_mode list" where
  "execution_mode_all = [ThresholdInteractive, ThresholdNonInteractive, SingleSignerIsolated, NativeChainCoordinator]"

fun execution_mode_as_str :: "signing_execution_mode \<Rightarrow> string" where
  "execution_mode_as_str ThresholdInteractive = ''threshold-interactive''"
| "execution_mode_as_str ThresholdNonInteractive = ''threshold-non-interactive''"
| "execution_mode_as_str SingleSignerIsolated = ''single-signer-isolated''"
| "execution_mode_as_str NativeChainCoordinator = ''native-chain-coordinator''"

datatype signer_backend_requirement =
    FrostSecp256k1Tr | FrostSecp256k1Kaspa | CbMpcThresholdEcdsa | IsolatedBip340 | IsolatedSecp256k1Ecdsa
  | IsolatedBitcoinCashSchnorr | ChiaBlsAug | ChiaBlsAugThreshold2of3 | BackendErgoSigma | ErgoSigmaP2pk
  | ErgoSigmaP2pkThreshold2of3

definition backend_all :: "signer_backend_requirement list" where
  "backend_all =
     [FrostSecp256k1Tr, FrostSecp256k1Kaspa, CbMpcThresholdEcdsa, IsolatedBip340, IsolatedSecp256k1Ecdsa,
      IsolatedBitcoinCashSchnorr, ChiaBlsAug, ChiaBlsAugThreshold2of3, BackendErgoSigma, ErgoSigmaP2pk,
      ErgoSigmaP2pkThreshold2of3]"

fun backend_as_str :: "signer_backend_requirement \<Rightarrow> string" where
  "backend_as_str FrostSecp256k1Tr = ''frost-secp256k1-tr''"
| "backend_as_str FrostSecp256k1Kaspa = ''frost-secp256k1-kaspa''"
| "backend_as_str CbMpcThresholdEcdsa = ''cb-mpc-threshold-ecdsa''"
| "backend_as_str IsolatedBip340 = ''isolated-bip340''"
| "backend_as_str IsolatedSecp256k1Ecdsa = ''isolated-secp256k1-ecdsa''"
| "backend_as_str IsolatedBitcoinCashSchnorr = ''isolated-bitcoin-cash-schnorr''"
| "backend_as_str ChiaBlsAug = ''chia-bls-aug''"
| "backend_as_str ChiaBlsAugThreshold2of3 = ''chia-bls-aug-threshold-2of3''"
| "backend_as_str BackendErgoSigma = ''ergo-sigma''"
| "backend_as_str ErgoSigmaP2pk = ''ergo-sigma-p2pk''"
| "backend_as_str ErgoSigmaP2pkThreshold2of3 = ''ergo-sigma-p2pk-threshold-2of3''"

datatype signing_availability = DeclarationOnly | Executable

datatype signing_suite_id =
    BitcoinBip340FrostV1 | BitcoinBip340IsolatedV1 | FractalBitcoinBip340FrostV1 | BitcoinCashSchnorrIsolatedV1
  | BitcoinCashEcdsaIsolatedV1 | BitcoinCashEcdsaCbMpcV1 | BsvEcdsaIsolatedV1 | BsvEcdsaCbMpcV1
  | KaspaSchnorrFrostV1 | KaspaEcdsaIsolatedV1 | KaspaEcdsaCbMpcV1 | ChiaBls12381AugNativeV1
  | ChiaBls12381AugThreshold2of3V1 | ErgoSigmaNativeV1 | ErgoSigmaP2pkIsolatedV1 | ErgoSigmaP2pkThreshold2of3V1

definition suite_all :: "signing_suite_id list" where
  "suite_all =
     [BitcoinBip340FrostV1, BitcoinBip340IsolatedV1, FractalBitcoinBip340FrostV1, BitcoinCashSchnorrIsolatedV1,
      BitcoinCashEcdsaIsolatedV1, BitcoinCashEcdsaCbMpcV1, BsvEcdsaIsolatedV1, BsvEcdsaCbMpcV1,
      KaspaSchnorrFrostV1, KaspaEcdsaIsolatedV1, KaspaEcdsaCbMpcV1, ChiaBls12381AugNativeV1,
      ChiaBls12381AugThreshold2of3V1, ErgoSigmaNativeV1, ErgoSigmaP2pkIsolatedV1, ErgoSigmaP2pkThreshold2of3V1]"

fun suite_as_str :: "signing_suite_id \<Rightarrow> string" where
  "suite_as_str BitcoinBip340FrostV1 = ''btc.bip340.frost-secp256k1-tr.v1''"
| "suite_as_str BitcoinBip340IsolatedV1 = ''btc.bip340.isolated.v1''"
| "suite_as_str FractalBitcoinBip340FrostV1 = ''fractal-bitcoin.bip340.frost-secp256k1-tr.v1''"
| "suite_as_str BitcoinCashSchnorrIsolatedV1 = ''bch.schnorr.isolated.v1''"
| "suite_as_str BitcoinCashEcdsaIsolatedV1 = ''bch.ecdsa.isolated.v1''"
| "suite_as_str BitcoinCashEcdsaCbMpcV1 = ''bch.ecdsa.cb-mpc.v1''"
| "suite_as_str BsvEcdsaIsolatedV1 = ''bsv.ecdsa.isolated.v1''"
| "suite_as_str BsvEcdsaCbMpcV1 = ''bsv.ecdsa.cb-mpc.v1''"
| "suite_as_str KaspaSchnorrFrostV1 = ''kaspa.schnorr.frost-secp256k1.v1''"
| "suite_as_str KaspaEcdsaIsolatedV1 = ''kaspa.ecdsa.isolated.v1''"
| "suite_as_str KaspaEcdsaCbMpcV1 = ''kaspa.ecdsa.cb-mpc.v1''"
| "suite_as_str ChiaBls12381AugNativeV1 = ''chia.bls12-381.aug.native.v1''"
| "suite_as_str ChiaBls12381AugThreshold2of3V1 = ''chia.bls12-381.aug.threshold-2of3.v1''"
| "suite_as_str ErgoSigmaNativeV1 = ''ergo.sigma.native.v1''"
| "suite_as_str ErgoSigmaP2pkIsolatedV1 = ''ergo.sigma.p2pk.isolated.v1''"
| "suite_as_str ErgoSigmaP2pkThreshold2of3V1 = ''ergo.sigma.p2pk.threshold-2of3.v1''"

fun suite_chain_id :: "signing_suite_id \<Rightarrow> chain_id" where
  "suite_chain_id BitcoinBip340FrostV1 = ChainBitcoin"
| "suite_chain_id BitcoinBip340IsolatedV1 = ChainBitcoin"
| "suite_chain_id FractalBitcoinBip340FrostV1 = ChainFractalBitcoin"
| "suite_chain_id BitcoinCashSchnorrIsolatedV1 = ChainBitcoinCash"
| "suite_chain_id BitcoinCashEcdsaIsolatedV1 = ChainBitcoinCash"
| "suite_chain_id BitcoinCashEcdsaCbMpcV1 = ChainBitcoinCash"
| "suite_chain_id BsvEcdsaIsolatedV1 = ChainBsv"
| "suite_chain_id BsvEcdsaCbMpcV1 = ChainBsv"
| "suite_chain_id KaspaSchnorrFrostV1 = ChainKaspa"
| "suite_chain_id KaspaEcdsaIsolatedV1 = ChainKaspa"
| "suite_chain_id KaspaEcdsaCbMpcV1 = ChainKaspa"
| "suite_chain_id ChiaBls12381AugNativeV1 = ChainChia"
| "suite_chain_id ChiaBls12381AugThreshold2of3V1 = ChainChia"
| "suite_chain_id ErgoSigmaNativeV1 = ChainErgo"
| "suite_chain_id ErgoSigmaP2pkIsolatedV1 = ChainErgo"
| "suite_chain_id ErgoSigmaP2pkThreshold2of3V1 = ChainErgo"

datatype signing_contract_error =
    UnsupportedSuiteId string
  | UnsupportedCombination chain_scope signing_suite_id
  | SuiteNotExecutable signing_suite_id
  | InvalidSignerSetId nat
  | InvalidReviewSchemaVersion
  | UnsupportedBindingSchemaVersion u16 u16
  | UnsupportedDescriptorSchemaVersion u16 u16

definition suite_from_str :: "string \<Rightarrow> (signing_contract_error, signing_suite_id) rresult" where
  "suite_from_str value = ok_or (UnsupportedSuiteId value) (List.find (\<lambda>suite. suite_as_str suite = value) suite_all)"

record suite_capabilities =
  produces_consensus_signature :: bool
  independently_verifiable :: bool
  interactive_threshold :: bool
  non_interactive_threshold :: bool

record signing_suite_descriptor =
  sd_schema_version :: u16
  sd_id :: signing_suite_id
  sd_algorithm :: signing_algorithm
  sd_execution_mode :: signing_execution_mode
  sd_backend_requirement :: signer_backend_requirement
  sd_capabilities :: suite_capabilities
  sd_availability :: signing_availability

definition descriptor_deserialize ::
    "signing_suite_descriptor \<Rightarrow> (signing_contract_error, signing_suite_descriptor) rresult" where
  "descriptor_deserialize wire =
     (if sd_schema_version wire \<noteq> 2 then Inl (UnsupportedDescriptorSchemaVersion 2 (sd_schema_version wire)) else Inr wire)"

definition CONSENSUS_SINGLE_SIGNER :: suite_capabilities where
  "CONSENSUS_SINGLE_SIGNER = \<lparr>produces_consensus_signature = True, independently_verifiable = True,
     interactive_threshold = False, non_interactive_threshold = False\<rparr>"

definition CONSENSUS_THRESHOLD :: suite_capabilities where
  "CONSENSUS_THRESHOLD = \<lparr>produces_consensus_signature = True, independently_verifiable = True,
     interactive_threshold = True, non_interactive_threshold = False\<rparr>"

definition CONSENSUS_NON_INTERACTIVE_THRESHOLD :: suite_capabilities where
  "CONSENSUS_NON_INTERACTIVE_THRESHOLD = \<lparr>produces_consensus_signature = True, independently_verifiable = True,
     interactive_threshold = False, non_interactive_threshold = True\<rparr>"

definition DECLARATION_ONLY :: suite_capabilities where
  "DECLARATION_ONLY = \<lparr>produces_consensus_signature = False, independently_verifiable = False,
     interactive_threshold = False, non_interactive_threshold = False\<rparr>"

fun suite_profile ::
    "signing_suite_id \<Rightarrow> signing_algorithm \<times> signing_execution_mode \<times> signer_backend_requirement \<times> suite_capabilities" where
  "suite_profile BitcoinBip340FrostV1 = (Bip340TaprootSchnorr, ThresholdInteractive, FrostSecp256k1Tr, CONSENSUS_THRESHOLD)"
| "suite_profile FractalBitcoinBip340FrostV1 = (Bip340TaprootSchnorr, ThresholdInteractive, FrostSecp256k1Tr, CONSENSUS_THRESHOLD)"
| "suite_profile BitcoinBip340IsolatedV1 = (Bip340TaprootSchnorr, SingleSignerIsolated, IsolatedBip340, CONSENSUS_SINGLE_SIGNER)"
| "suite_profile BitcoinCashSchnorrIsolatedV1 =
     (BitcoinCashSchnorr, SingleSignerIsolated, IsolatedBitcoinCashSchnorr, CONSENSUS_SINGLE_SIGNER)"
| "suite_profile BitcoinCashEcdsaIsolatedV1 = (Secp256k1Ecdsa, SingleSignerIsolated, IsolatedSecp256k1Ecdsa, CONSENSUS_SINGLE_SIGNER)"
| "suite_profile BsvEcdsaIsolatedV1 = (Secp256k1Ecdsa, SingleSignerIsolated, IsolatedSecp256k1Ecdsa, CONSENSUS_SINGLE_SIGNER)"
| "suite_profile BitcoinCashEcdsaCbMpcV1 = (Secp256k1Ecdsa, ThresholdInteractive, CbMpcThresholdEcdsa, CONSENSUS_THRESHOLD)"
| "suite_profile BsvEcdsaCbMpcV1 = (Secp256k1Ecdsa, ThresholdInteractive, CbMpcThresholdEcdsa, CONSENSUS_THRESHOLD)"
| "suite_profile KaspaSchnorrFrostV1 = (Secp256k1Schnorr, ThresholdInteractive, FrostSecp256k1Kaspa, CONSENSUS_THRESHOLD)"
| "suite_profile KaspaEcdsaIsolatedV1 = (Secp256k1Ecdsa, SingleSignerIsolated, IsolatedSecp256k1Ecdsa, CONSENSUS_SINGLE_SIGNER)"
| "suite_profile KaspaEcdsaCbMpcV1 = (Secp256k1Ecdsa, ThresholdInteractive, CbMpcThresholdEcdsa, CONSENSUS_THRESHOLD)"
| "suite_profile ChiaBls12381AugNativeV1 = (Bls12381AugScheme, NativeChainCoordinator, ChiaBlsAug, CONSENSUS_SINGLE_SIGNER)"
| "suite_profile ChiaBls12381AugThreshold2of3V1 =
     (Bls12381AugScheme, ThresholdNonInteractive, ChiaBlsAugThreshold2of3, CONSENSUS_NON_INTERACTIVE_THRESHOLD)"
| "suite_profile ErgoSigmaNativeV1 = (AlgErgoSigma, NativeChainCoordinator, BackendErgoSigma, DECLARATION_ONLY)"
| "suite_profile ErgoSigmaP2pkIsolatedV1 = (AlgErgoSigma, SingleSignerIsolated, ErgoSigmaP2pk, CONSENSUS_SINGLE_SIGNER)"
| "suite_profile ErgoSigmaP2pkThreshold2of3V1 = (AlgErgoSigma, ThresholdInteractive, ErgoSigmaP2pkThreshold2of3, CONSENSUS_THRESHOLD)"

definition suite_availability :: "signing_suite_id \<Rightarrow> signing_availability" where
  "suite_availability suite =
     (if suite \<in> {BitcoinBip340FrostV1, FractalBitcoinBip340FrostV1, BitcoinCashEcdsaCbMpcV1, BsvEcdsaCbMpcV1,
        KaspaEcdsaCbMpcV1, ChiaBls12381AugThreshold2of3V1, ErgoSigmaP2pkIsolatedV1, ErgoSigmaP2pkThreshold2of3V1}
      then Executable else DeclarationOnly)"

definition resolve_builtin_suite ::
    "chain_scope \<Rightarrow> signing_suite_id \<Rightarrow> (signing_contract_error, signing_suite_descriptor) rresult" where
  "resolve_builtin_suite scope suite =
     (if scope_chain scope \<noteq> network_chain_id (scope_network scope) \<or> scope_chain scope \<noteq> suite_chain_id suite
      then Inl (UnsupportedCombination scope suite)
      else let (algorithm, mode, backend, capabilities) = suite_profile suite in
        Inr \<lparr>sd_schema_version = 2, sd_id = suite, sd_algorithm = algorithm, sd_execution_mode = mode,
          sd_backend_requirement = backend, sd_capabilities = capabilities, sd_availability = suite_availability suite\<rparr>)"

definition require_executable_suite ::
    "chain_scope \<Rightarrow> signing_suite_id \<Rightarrow> (signing_contract_error, signing_suite_descriptor) rresult" where
  "require_executable_suite scope suite =
     rbind (resolve_builtin_suite scope suite) (\<lambda>descriptor.
       if sd_availability descriptor \<noteq> Executable then Inl (SuiteNotExecutable suite) else Inr descriptor)"

section \<open>Review bindings\<close>

definition MAX_SIGNER_SET_ID_BYTES :: nat where "MAX_SIGNER_SET_ID_BYTES = 128"

definition REVIEW_BINDING_DOMAIN :: bytes where "REVIEW_BINDING_DOMAIN = ascii ''catomicals.review-binding.v1'' @ [0]"

record review_binding =
  rv_schema_version :: u16
  rv_chain_scope :: chain_scope
  rv_signing_suite_id :: signing_suite_id
  rv_signer_set_id :: string
  rv_signer_set_epoch :: u64
  rv_review_schema_version :: u16
  rv_review_digest :: bytes

definition review_binding_new ::
    "chain_scope \<Rightarrow> signing_suite_id \<Rightarrow> string \<Rightarrow> u64 \<Rightarrow> u16 \<Rightarrow> bytes \<Rightarrow> (signing_contract_error, review_binding) rresult" where
  "review_binding_new scope suite signer_set_id epoch review_version review_digest =
     rbind (resolve_builtin_suite scope suite) (\<lambda>_.
       if signer_set_id = [] \<or> length signer_set_id > MAX_SIGNER_SET_ID_BYTES then Inl (InvalidSignerSetId MAX_SIGNER_SET_ID_BYTES)
       else if review_version = 0 then Inl InvalidReviewSchemaVersion
       else Inr \<lparr>rv_schema_version = 1, rv_chain_scope = scope, rv_signing_suite_id = suite,
         rv_signer_set_id = signer_set_id, rv_signer_set_epoch = epoch,
         rv_review_schema_version = review_version, rv_review_digest = review_digest\<rparr>)"

text \<open>
  The wire form: \<open>ReviewBindingWire\<close> with its \<open>chain_scope\<close> field flattened.  Chains, networks and
  suites travel by name, and each field is decoded by its own deserialiser before the checks of the binding run.
\<close>

record review_binding_wire =
  rw_schema_version :: u16
  rw_scope_schema_version :: u16
  rw_chain :: string
  rw_network :: string
  rw_signing_suite_id :: string
  rw_signer_set_id :: string
  rw_signer_set_epoch :: u64
  rw_review_schema_version :: u16
  rw_review_digest :: bytes

datatype binding_wire_error =
    WireScope chain_domain_error
  | WireDigestLength nat
  | WireContract signing_contract_error

definition review_binding_serialize :: "review_binding \<Rightarrow> review_binding_wire" where
  "review_binding_serialize b = \<lparr>rw_schema_version = rv_schema_version b,
     rw_scope_schema_version = schema_version (rv_chain_scope b),
     rw_chain = chain_id_as_str (scope_chain (rv_chain_scope b)),
     rw_network = network_as_str (scope_network (rv_chain_scope b)),
     rw_signing_suite_id = suite_as_str (rv_signing_suite_id b), rw_signer_set_id = rv_signer_set_id b,
     rw_signer_set_epoch = rv_signer_set_epoch b, rw_review_schema_version = rv_review_schema_version b,
     rw_review_digest = rv_review_digest b\<rparr>"

definition review_binding_deserialize :: "review_binding_wire \<Rightarrow> (binding_wire_error, review_binding) rresult" where
  "review_binding_deserialize wire =
     rbind (map_err WireScope (chain_scope_deserialize (rw_scope_schema_version wire) (rw_chain wire) (rw_network wire))) (\<lambda>scope.
     rbind (map_err WireContract (suite_from_str (rw_signing_suite_id wire))) (\<lambda>suite.
       if length (rw_review_digest wire) \<noteq> 32 then Inl (WireDigestLength (length (rw_review_digest wire)))
       else if rw_schema_version wire \<noteq> 1
       then Inl (WireContract (UnsupportedBindingSchemaVersion 1 (rw_schema_version wire)))
       else map_err WireContract (review_binding_new scope suite (rw_signer_set_id wire) (rw_signer_set_epoch wire)
         (rw_review_schema_version wire) (rw_review_digest wire))))"

text \<open>\<open>append_field\<close> of \<open>operation.rs\<close> is the same code as the one of \<open>covhub.rs\<close>.\<close>

definition domain_separator :: "review_binding \<Rightarrow> (panic, bytes) rresult" where
  "domain_separator b =
     rbind (rmap append_field [ascii (chain_id_as_str (scope_chain (rv_chain_scope b))),
         ascii (network_as_str (scope_network (rv_chain_scope b))), ascii (suite_as_str (rv_signing_suite_id b)),
         ascii (rv_signer_set_id b)]) (\<lambda>fields.
       Inr (REVIEW_BINDING_DOMAIN @ u16_be (rv_schema_version b) @ concat fields @ u64_be (rv_signer_set_epoch b)
         @ u16_be (rv_review_schema_version b) @ rv_review_digest b))"

section \<open>Lemmas\<close>

lemma suite_all_complete: "s \<in> set suite_all"
  by (cases s) (simp_all add: suite_all_def)

lemma suite_names_distinct: "distinct (map suite_as_str suite_all)"
  by (simp add: suite_all_def)

lemma suite_names: "suite_from_str n = Inr s \<longleftrightarrow> n = suite_as_str s"
  using find_unique [OF suite_names_distinct suite_all_complete] by (simp add: suite_from_str_def ok_or_Inr)

text \<open>Both visitors accept exactly the non-empty material up to the maximum, and return it.\<close>

lemma visit_elements_Inr:
  "visit_elements acc xs = Inr ys \<longleftrightarrow> ys = acc @ xs \<and> (xs = [] \<or> \<not> (length acc \<le> MAX_REVIEW_MATERIAL_BYTES \<and> MAX_REVIEW_MATERIAL_BYTES < length acc + length xs))"
proof (induction acc xs rule: visit_elements.induct)
  case (2 acc x xs)
  show ?case
  proof (cases "length acc = MAX_REVIEW_MATERIAL_BYTES")
    case True
    then show ?thesis by simp
  next
    case False
    with 2 have IH: "visit_elements (acc @ [x]) xs = Inr ys \<longleftrightarrow> ys = (acc @ [x]) @ xs
        \<and> (xs = [] \<or> \<not> (length (acc @ [x]) \<le> MAX_REVIEW_MATERIAL_BYTES \<and> MAX_REVIEW_MATERIAL_BYTES < length (acc @ [x]) + length xs))"
      by blast
    show ?thesis using False by (cases "xs = []") (auto simp: IH)
  qed
qed auto

lemma visitors_agree:
  assumes "hint = None \<or> hint = Some (length xs)"
  shows "visit_seq hint xs = Inr ys \<longleftrightarrow> visit_bytes xs = Inr ys"
  using assms by (auto simp: visit_seq_def visit_bytes_def validate_deserialized_byte_count_def rbind_Inr visit_elements_Inr
      guard_Inr)

lemma network_as_str_inject: "network_as_str n = network_as_str n' \<longleftrightarrow> n = n'"
  by (metis network_names sum.inject(2))

lemma suite_as_str_inject: "suite_as_str s = suite_as_str s' \<longleftrightarrow> s = s'"
  by (metis suite_names sum.inject(2))

lemma chain_name_bound: "length (chain_id_as_str c) < 2 ^ 32"
  by (cases c) simp_all

lemma network_name_bound: "length (network_as_str n) < 2 ^ 32"
  by (cases n rule: network_as_str.cases) simp_all

lemma suite_name_bound: "length (suite_as_str s) < 2 ^ 32"
  by (cases s) simp_all

lemma review_binding_new_Inr:
  assumes "review_binding_new scope suite i e v d = Inr b"
  shows "b = \<lparr>rv_schema_version = 1, rv_chain_scope = scope, rv_signing_suite_id = suite, rv_signer_set_id = i,
      rv_signer_set_epoch = e, rv_review_schema_version = v, rv_review_digest = d\<rparr>"
    and "length i < 2 ^ 32" and "scope_chain scope = network_chain_id (scope_network scope)"
  using assms
  by (auto simp: review_binding_new_def resolve_builtin_suite_def rbind_Inr guard_Inr MAX_SIGNER_SET_ID_BYTES_def)

lemma chain_scope_deserialize_Inr:
  "chain_scope_deserialize w c n = Inr scope \<longleftrightarrow>
     w = CHAIN_SCOPE_SCHEMA_VERSION \<and> schema_version scope = CHAIN_SCOPE_SCHEMA_VERSION
     \<and> scope_chain scope = network_chain_id (scope_network scope)
     \<and> c = chain_id_as_str (scope_chain scope) \<and> n = network_as_str (scope_network scope)"
  by (cases scope)
    (auto simp: chain_scope_deserialize_def chain_scope_new_def rbind_Inr guard_Inr chain_id_names network_names Let_def)

text \<open>The deserialiser accepts the serialised form of a binding, and only that.\<close>

lemma review_binding_deserialize_Inr:
  assumes b: "review_binding_new scope s i e v d = Inr b" and d: "length d = 32"
  shows "review_binding_deserialize w = Inr b \<longleftrightarrow>
     w = review_binding_serialize b \<and> schema_version scope = CHAIN_SCOPE_SCHEMA_VERSION"
proof
  note B = review_binding_new_Inr [OF b]
  assume "review_binding_deserialize w = Inr b"
  then obtain scope' s' where
    scope: "chain_scope_deserialize (rw_scope_schema_version w) (rw_chain w) (rw_network w) = Inr scope'"
    and suite: "suite_from_str (rw_signing_suite_id w) = Inr s'" and version: "rw_schema_version w = 1"
    and new: "review_binding_new scope' s' (rw_signer_set_id w) (rw_signer_set_epoch w) (rw_review_schema_version w)
      (rw_review_digest w) = Inr b"
    by (auto simp: review_binding_deserialize_def rbind_Inr map_err_Inr guard_Inr)
  show "w = review_binding_serialize b \<and> schema_version scope = CHAIN_SCOPE_SCHEMA_VERSION"
    using scope suite version B(1) review_binding_new_Inr(1) [OF new]
    by (cases w) (simp add: review_binding_serialize_def chain_scope_deserialize_Inr suite_names)
next
  note B = review_binding_new_Inr [OF b]
  assume w: "w = review_binding_serialize b \<and> schema_version scope = CHAIN_SCOPE_SCHEMA_VERSION"
  have "chain_scope_deserialize (rw_scope_schema_version w) (rw_chain w) (rw_network w) = Inr scope"
    and "suite_from_str (rw_signing_suite_id w) = Inr s"
    using w B(1,3) by (simp_all add: review_binding_serialize_def chain_scope_deserialize_Inr suite_names)
  with w b d B(1) show "review_binding_deserialize w = Inr b"
    by (simp add: review_binding_deserialize_def review_binding_serialize_def)
qed

lemma domain_separator_scope_version:
  "domain_separator (b\<lparr>rv_chain_scope := (rv_chain_scope b)\<lparr>schema_version := w\<rparr>\<rparr>) = domain_separator b"
  by (simp add: domain_separator_def)

lemma domain_separator_same:
  assumes b: "review_binding_new scope s i e v d = Inr b" and b': "review_binding_new scope' s' i' e' v' d' = Inr b'"
    and same: "domain_separator b = domain_separator b'"
  shows "scope_network scope = scope_network scope' \<and> s = s' \<and> i = i' \<and> e = e' \<and> v = v' \<and> d = d'"
proof -
  note B = review_binding_new_Inr [OF b] and B' = review_binding_new_Inr [OF b']
  let ?f = "[ascii (chain_id_as_str (scope_chain scope)), ascii (network_as_str (scope_network scope)), ascii (suite_as_str s), ascii i]"
  let ?g = "[ascii (chain_id_as_str (scope_chain scope')), ascii (network_as_str (scope_network scope')), ascii (suite_as_str s'), ascii i']"
  obtain fs where fs: "rmap append_field ?f = Inr fs"
    using B(2) chain_name_bound network_name_bound suite_name_bound by (simp add: append_field_def)
  obtain gs where gs: "rmap append_field ?g = Inr gs"
    using B'(2) chain_name_bound network_name_bound suite_name_bound by (simp add: append_field_def)
  have "domain_separator b = Inr (REVIEW_BINDING_DOMAIN @ u16_be 1 @ concat fs @ u64_be e @ u16_be v @ d)"
    and "domain_separator b' = Inr (REVIEW_BINDING_DOMAIN @ u16_be 1 @ concat gs @ u64_be e' @ u16_be v' @ d')"
    using fs gs B(1) B'(1) by (simp_all add: domain_separator_def)
  with same have rest: "concat fs @ u64_be e @ u16_be v @ d = concat gs @ u64_be e' @ u16_be v' @ d'"
    by simp
  have "?f = ?g \<and> u64_be e @ u16_be v @ d = u64_be e' @ u16_be v' @ d'"
    by (rule append_fields_split [OF fs gs _ rest]) simp
  then show ?thesis
    by (auto simp: ascii_inject network_as_str_inject suite_as_str_inject dest!: field_split)
qed

text \<open>
  C34: what the domain separator of a review binding binds.  For two bindings that the constructor accepts,
  with 32-byte review digests, the separator is always produced; it is the same exactly when the bindings
  agree in everything but the schema version of the chain scope, which the constructor does not check and
  the separator leaves out.  The deserialiser returns a binding only from its own serialised form, and only
  when the scope has the supported schema version, so bindings read from the wire have the same separator only
  when they are equal: network, signing suite, signer set, epoch, review version and review digest.
\<close>

theorem review_binding_binds:
  assumes b: "review_binding_new scope s i e v d = Inr b" "length d = 32"
    and b': "review_binding_new scope' s' i' e' v' d' = Inr b'" "length d' = 32"
  shows "is_ok (domain_separator b)
    \<and> (domain_separator b = domain_separator b' \<longleftrightarrow>
         b' = b\<lparr>rv_chain_scope := (rv_chain_scope b)\<lparr>schema_version := schema_version (rv_chain_scope b')\<rparr>\<rparr>)
    \<and> (review_binding_deserialize w = Inr b \<longleftrightarrow>
         w = review_binding_serialize b \<and> schema_version (rv_chain_scope b) = CHAIN_SCOPE_SCHEMA_VERSION)
    \<and> (review_binding_deserialize w = Inr b \<and> review_binding_deserialize w' = Inr b' \<longrightarrow>
         (domain_separator b = domain_separator b' \<longleftrightarrow> b = b'))"
proof -
  note B = review_binding_new_Inr [OF b(1)] and B' = review_binding_new_Inr [OF b'(1)]
  have "is_ok (domain_separator b)"
    using B(1,2) chain_name_bound network_name_bound suite_name_bound
    by (simp add: domain_separator_def append_field_def)
  moreover have same: "domain_separator b = domain_separator b' \<longleftrightarrow>
      b' = b\<lparr>rv_chain_scope := (rv_chain_scope b)\<lparr>schema_version := schema_version (rv_chain_scope b')\<rparr>\<rparr>"
  proof
    assume "domain_separator b = domain_separator b'"
    from domain_separator_same [OF b(1) b'(1) this] B(1,3) B'(1,3)
    show "b' = b\<lparr>rv_chain_scope := (rv_chain_scope b)\<lparr>schema_version := schema_version (rv_chain_scope b')\<rparr>\<rparr>"
      by simp
  next
    assume "b' = b\<lparr>rv_chain_scope := (rv_chain_scope b)\<lparr>schema_version := schema_version (rv_chain_scope b')\<rparr>\<rparr>"
    then show "domain_separator b = domain_separator b'"
      by (metis domain_separator_scope_version)
  qed
  moreover note wire = review_binding_deserialize_Inr [OF b] review_binding_deserialize_Inr [OF b']
  moreover have "domain_separator b = domain_separator b' \<longleftrightarrow> b = b'"
    if "review_binding_deserialize w = Inr b" "review_binding_deserialize w' = Inr b'"
    using that same wire B(1) B'(1) by auto
  ultimately show ?thesis using B(1) by simp
qed

theorem review_binding_binds_witness:
  "\<exists>b b' w. review_binding_new (chain_scope_for_network (NetBitcoin BtcSignet)) BitcoinBip340FrostV1 ''set-a'' 1 2 (replicate 32 1) = Inr b
    \<and> review_binding_new (chain_scope_for_network (NetBitcoin BtcSignet)) BitcoinBip340FrostV1 ''set-a'' 2 2 (replicate 32 1) = Inr b'
    \<and> is_ok (domain_separator b) \<and> domain_separator b \<noteq> domain_separator b' \<and> review_binding_deserialize w = Inr b"
proof -
  have 1: "review_binding_new (chain_scope_for_network (NetBitcoin BtcSignet)) BitcoinBip340FrostV1 ''set-a'' e 2 (replicate 32 1)
      = Inr \<lparr>rv_schema_version = 1, rv_chain_scope = chain_scope_for_network (NetBitcoin BtcSignet),
          rv_signing_suite_id = BitcoinBip340FrostV1, rv_signer_set_id = ''set-a'', rv_signer_set_epoch = e,
          rv_review_schema_version = 2, rv_review_digest = replicate 32 1\<rparr>" for e
    by (simp add: review_binding_new_def resolve_builtin_suite_def chain_scope_for_network_def MAX_SIGNER_SET_ID_BYTES_def Let_def)
  show ?thesis
    using review_binding_binds [OF 1 [of 1] length_replicate 1 [of 2] length_replicate] 1 [of 1] 1 [of 2]
    by (auto simp: chain_scope_for_network_def)
qed

end
