(* ===== verification/Frost_Provider.thy ===== *)
theory Frost_Provider
  imports Frost_Participant
begin

text \<open>
  \<open>crates/threshold-signer/src/provider.rs\<close>, first part: request contexts and their binding digests,
  the local backend around a participant, and the guarded provider with its replay store.  The HSM
  adapter, which is generic over a hardware driver, is not modelled.  The device registry is in \<open>Frost_Registry\<close>.  Wallet policy is consulted through a trait
  object, which is an argument with its own state.
\<close>

section \<open>Contexts\<close>

definition SIGNER_PROVIDER_PROTOCOL_VERSION :: u16 where "SIGNER_PROVIDER_PROTOCOL_VERSION = 1"
definition MAX_SIGNING_PACKAGE_BYTES :: nat where "MAX_SIGNING_PACKAGE_BYTES = 16 * 1024"
definition MAX_REASON_CODE_BYTES :: nat where "MAX_REASON_CODE_BYTES = 64"

datatype signer_provider_kind = LocalEncrypted | RemoteMtls | HsmAdapter

datatype provider_error =
    ProviderUnknownParticipant
  | Unconfigured
  | Revoked
  | InvalidChallenge
  | InvalidProof
  | RotationAuthorizationRequired
  | InvalidProvider
  | ProviderIdentityDrift
  | SpkiMismatch
  | ProviderExpired
  | SessionLifetimeExceeded
  | WrongSignerSet
  | Replay
  | InvalidEncoding
  | ProviderBindingMismatch
  | BackendUnavailable

record device_health =
  online :: bool
  checked_at :: "i64 option"
  last_success_at :: "i64 option"
  last_error_code :: "string option"

record signer_request_context =
  rc_protocol_version :: u16
  rc_wallet_id :: bytes
  rc_signer_set_id :: bytes
  rc_signer_epoch :: u64
  rc_signer_id :: u16
  rc_device_id :: bytes
  rc_device_generation :: u64
  rc_operation_id :: bytes
  rc_intent_id :: bytes
  rc_session_id :: bytes
  rc_taproot_sighash :: bytes
  rc_policy_digest :: bytes
  rc_group_pubkey_xonly :: bytes
  rc_verifying_share_digest :: bytes
  rc_min_signers :: u16
  rc_max_signers :: u16
  rc_chain_snapshot_digest :: bytes
  rc_request_nonce :: bytes
  rc_expires_at :: i64

definition common_binding :: "signer_request_context \<Rightarrow> bytes" where
  "common_binding c =
     u16_be (rc_protocol_version c) @ rc_wallet_id c @ rc_signer_set_id c @ u64_be (rc_signer_epoch c)
     @ u16_be (rc_signer_id c) @ rc_device_id c @ u64_be (rc_device_generation c) @ rc_operation_id c
     @ rc_intent_id c @ rc_session_id c @ rc_taproot_sighash c @ rc_policy_digest c
     @ rc_group_pubkey_xonly c @ rc_verifying_share_digest c @ u16_be (rc_min_signers c)
     @ u16_be (rc_max_signers c) @ rc_chain_snapshot_digest c @ i64_be (rc_expires_at c)"

definition operation_binding_digest :: "bitcoin_env \<Rightarrow> signer_request_context \<Rightarrow> bytes" where
  "operation_binding_digest E c = sha256 E (ascii ''catomicals/signer-operation/v1'' @ [0] @ common_binding c)"

definition binding_digest :: "bitcoin_env \<Rightarrow> signer_request_context \<Rightarrow> bytes" where
  "binding_digest E c =
     sha256 E (ascii ''catomicals/signer-request/v1'' @ [0] @ common_binding c @ rc_request_nonce c)"

record signer_round_one_response =
  r1_request_binding_digest :: bytes
  r1_commitment_hex :: string

record signer_round_two_request =
  r2_context :: signer_request_context
  r2_signing_package_hex :: string

record signer_round_two_response =
  r2_request_binding_digest :: bytes
  r2_signature_share_hex :: string

record signer_abort_request =
  ab_context :: signer_request_context
  ab_reason_code :: string

record provider_identity =
  pi_wallet_id :: bytes
  pi_signer_set_id :: bytes
  pi_signer_epoch :: u64
  pi_signer_id :: u16
  pi_device_id :: bytes
  pi_device_generation :: u64
  pi_group_pubkey_xonly :: bytes
  pi_verifying_share_digest :: bytes

section \<open>The local backend\<close>

datatype provider_round = RoundOne | RoundTwo

type_synonym 'z request_authorizer =
  "'z \<Rightarrow> signer_request_context \<Rightarrow> provider_round \<Rightarrow> (provider_error, unit) rresult \<times> 'z"

record reservation_binding =
  rb_session_id :: bytes
  rb_taproot_sighash :: bytes
  rb_operation_binding_digest :: bytes

record 'z local_backend =
  lb_participant :: local_frost_participant
  lb_public_key_package :: bytes
  lb_authorizer :: 'z
  lb_reservations :: "(bytes, reservation_binding) btree"

definition backend_new :: "local_frost_participant \<Rightarrow> bytes \<Rightarrow> 'z \<Rightarrow> 'z local_backend" where
  "backend_new participant pk authorizer =
     \<lparr>lb_participant = participant, lb_public_key_package = pk, lb_authorizer = authorizer, lb_reservations = []\<rparr>"

definition backend_health :: "i64 \<Rightarrow> device_health" where
  "backend_health now =
     \<lparr>online = True, checked_at = Some now, last_success_at = Some now, last_error_code = None\<rparr>"

definition reservation_for :: "bitcoin_env \<Rightarrow> signer_request_context \<Rightarrow> reservation_binding" where
  "reservation_for E c =
     \<lparr>rb_session_id = rc_session_id c, rb_taproot_sighash = rc_taproot_sighash c,
      rb_operation_binding_digest = operation_binding_digest E c\<rparr>"

text \<open>
  \<open>ExactContextAuthorization\<close>: the context with a flag.  The \<open>seed\<close> of a reservation is the
  randomness of round one.
\<close>

record exact_context_authorization =
  ec_context :: signer_request_context
  ec_used :: bool

definition exact_authorize :: "exact_context_authorization authorizer" where
  "exact_authorize a session_id message signer_id now =
     (if ec_used a then (Inl AlreadyConsumed, a)
      else if session_id \<noteq> rc_session_id (ec_context a) then (Inl WrongSession, a)
      else if message \<noteq> rc_taproot_sighash (ec_context a) then (Inl WrongMessage, a)
      else if signer_id \<noteq> rc_signer_id (ec_context a) then (Inl WrongSigner, a)
      else if now > rc_expires_at (ec_context a) then (Inl AuthorizationExpired, a)
      else (Inr (), a\<lparr>ec_used := True\<rparr>))"

definition reserve_nonce_and_commit ::
    "bitcoin_env \<Rightarrow> frost_env \<Rightarrow> 'z request_authorizer \<Rightarrow> bytes \<Rightarrow> 'z local_backend \<Rightarrow> signer_request_context \<Rightarrow>
     (provider_error, bytes) rresult \<times> 'z local_backend" where
  "reserve_nonce_and_commit E F policy seed b context =
     (let (res, z) = policy (lb_authorizer b) context RoundOne; b = b\<lparr>lb_authorizer := z\<rparr> in
      and_then (res, b) (\<lambda>_ b.
        if bt_contains (rc_operation_id context) (lb_reservations b) then (Inl Replay, b)
        else case round1 F (lb_participant b) seed (rc_session_id context) (rc_taproot_sighash context) of
          Inl _ \<Rightarrow> (Inl ProviderBindingMismatch, b)
        | Inr (commitment, p) \<Rightarrow>
            (Inr commitment, b\<lparr>lb_participant := p,
               lb_reservations := bt_insert (rc_operation_id context) (reservation_for E context) (lb_reservations b)\<rparr>)))"

definition sign_reserved_share ::
    "bitcoin_env \<Rightarrow> frost_env \<Rightarrow> 'z request_authorizer \<Rightarrow> 'z local_backend \<Rightarrow> signer_request_context \<Rightarrow> signing_package \<Rightarrow>
     (provider_error, bytes) rresult \<times> 'z local_backend" where
  "sign_reserved_share E F policy b context package =
     (if map_of (lb_reservations b) (rc_operation_id context) \<noteq> Some (reservation_for E context)
      then (Inl ProviderBindingMismatch, b)
      else let (res, z) = policy (lb_authorizer b) context RoundTwo; b = b\<lparr>lb_authorizer := z\<rparr> in
      and_then (res, b) (\<lambda>_ b.
        let b = b\<lparr>lb_reservations := bt_remove (rc_operation_id context) (lb_reservations b)\<rparr>;
            session = \<lparr>fs_id = rc_session_id context, fs_message = rc_taproot_sighash context,
              fs_min_signers = rc_min_signers context, fs_package = package, fs_public = lb_public_key_package b\<rparr>;
            (r, p, _) = round2 E F exact_authorize (lb_participant b) session
              \<lparr>ec_context = context, ec_used = False\<rparr> (rc_expires_at context)
        in (map_err (\<lambda>_. ProviderBindingMismatch) r, b\<lparr>lb_participant := p\<rparr>)))"

definition burn_reservation ::
    "'z local_backend \<Rightarrow> bytes \<Rightarrow> bytes \<Rightarrow> (provider_error, unit) rresult \<times> 'z local_backend" where
  "burn_reservation b operation_id session_id =
     (case map_of (lb_reservations b) operation_id of
        None \<Rightarrow> (Inl ProviderBindingMismatch, b)
      | Some reservation \<Rightarrow>
          let b = b\<lparr>lb_reservations := bt_remove operation_id (lb_reservations b)\<rparr> in
          if rb_session_id reservation \<noteq> session_id then (Inl ProviderBindingMismatch, b)
          else (Inr (), b\<lparr>lb_participant := snd (abort_round (lb_participant b) session_id)\<rparr>))"

section \<open>The guarded provider\<close>

record memory_replay_store =
  consumed :: "bytes set"

definition claim_request_nonce ::
    "memory_replay_store \<Rightarrow> signer_request_context \<Rightarrow> (provider_error, unit) rresult \<times> memory_replay_store" where
  "claim_request_nonce r context =
     (if rc_request_nonce context \<notin> consumed r
      then (Inr (), r\<lparr>consumed := insert (rc_request_nonce context) (consumed r)\<rparr>) else (Inl Replay, r))"

record 'z guarded_provider =
  gp_identity :: provider_identity
  gp_backend :: "'z local_backend"
  gp_replay_store :: memory_replay_store
  gp_max_session_lifetime_seconds :: "i64 option"

definition provider_new :: "provider_identity \<Rightarrow> 'z local_backend \<Rightarrow> 'z guarded_provider" where
  "provider_new identity backend =
     \<lparr>gp_identity = identity, gp_backend = backend, gp_replay_store = \<lparr>consumed = {}\<rparr>,
      gp_max_session_lifetime_seconds = None\<rparr>"

text \<open>The timeout is a number of milliseconds, a \<open>u128\<close> in the sources.\<close>

definition new_with_session_timeout ::
    "provider_identity \<Rightarrow> 'z local_backend \<Rightarrow> nat \<Rightarrow> (provider_error, 'z guarded_provider) rresult" where
  "new_with_session_timeout identity backend milliseconds =
     (if milliseconds = 0 then Inl InvalidEncoding
      else if milliseconds + 999 \<ge> 2 ^ 128 then Inl InvalidEncoding
      else let seconds = (milliseconds + 999) div 1000 in
        if seconds \<ge> 2 ^ 63 \<or> seconds = 0 then Inl InvalidEncoding
        else Inr ((provider_new identity backend)\<lparr>gp_max_session_lifetime_seconds := Some (int seconds)\<rparr>))"

definition context_matches :: "provider_identity \<Rightarrow> signer_request_context \<Rightarrow> bool" where
  "context_matches i c \<longleftrightarrow>
     rc_protocol_version c = SIGNER_PROVIDER_PROTOCOL_VERSION \<and> rc_wallet_id c = pi_wallet_id i
     \<and> rc_signer_set_id c = pi_signer_set_id i \<and> rc_signer_epoch c = pi_signer_epoch i
     \<and> rc_signer_id c = pi_signer_id i \<and> rc_device_id c = pi_device_id i
     \<and> rc_device_generation c = pi_device_generation i \<and> rc_group_pubkey_xonly c = pi_group_pubkey_xonly i
     \<and> rc_verifying_share_digest c = pi_verifying_share_digest i
     \<and> rc_min_signers c \<noteq> 0 \<and> rc_min_signers c \<le> rc_max_signers c"

definition authorize_context ::
    "'z guarded_provider \<Rightarrow> signer_request_context \<Rightarrow> i64 \<Rightarrow> (provider_error, unit) rresult \<times> 'z guarded_provider" where
  "authorize_context g context now =
     (if \<not> context_matches (gp_identity g) context then (Inl ProviderIdentityDrift, g)
      else if now > rc_expires_at context then (Inl ProviderExpired, g)
      else and_then (case gp_max_session_lifetime_seconds g of
            None \<Rightarrow> (Inr (), g)
          | Some maximum \<Rightarrow>
              (case checked_add_i64 now maximum of
                 None \<Rightarrow> (Inl SessionLifetimeExceeded, g)
               | Some maximum_expiry \<Rightarrow>
                   if rc_expires_at context > maximum_expiry then (Inl SessionLifetimeExceeded, g) else (Inr (), g))) (\<lambda>_ g.
        let (res, store) = claim_request_nonce (gp_replay_store g) context
        in (res, g\<lparr>gp_replay_store := store\<rparr>)))"

definition round_one ::
    "bitcoin_env \<Rightarrow> frost_env \<Rightarrow> 'z request_authorizer \<Rightarrow> bytes \<Rightarrow> 'z guarded_provider \<Rightarrow> signer_request_context \<Rightarrow> i64 \<Rightarrow>
     (provider_error, signer_round_one_response) rresult \<times> 'z guarded_provider" where
  "round_one E F policy seed g context now =
     and_then (authorize_context g context now) (\<lambda>_ g.
       let (res, b) = reserve_nonce_and_commit E F policy seed (gp_backend g) context; g = g\<lparr>gp_backend := b\<rparr> in
       and_then (res, g) (\<lambda>commitment g.
         (rbind (ok_or InvalidEncoding (commitment_serialize F commitment)) (\<lambda>bs.
            Inr \<lparr>r1_request_binding_digest = binding_digest E context, r1_commitment_hex = hex_encode E bs\<rparr>), g)))"

definition round_two_package ::
    "bitcoin_env \<Rightarrow> frost_env \<Rightarrow> signer_round_two_request \<Rightarrow> (provider_error, signing_package) rresult" where
  "round_two_package E F request =
     (let context = r2_context request in
      rbind (ok_or InvalidEncoding (hex_decode E (r2_signing_package_hex request))) (\<lambda>bs.
      if length bs > MAX_SIGNING_PACKAGE_BYTES then Inl InvalidEncoding
      else rbind (ok_or InvalidEncoding (package_deserialize F bs)) (\<lambda>package.
        rbind (ok_or InvalidEncoding (identifier_of F (rc_signer_id context))) (\<lambda>i.
          if sp_message package \<noteq> rc_taproot_sighash context \<or> \<not> bt_contains i (sp_commitments package)
          then Inl ProviderBindingMismatch else Inr package))))"

definition round_two ::
    "bitcoin_env \<Rightarrow> frost_env \<Rightarrow> 'z request_authorizer \<Rightarrow> 'z guarded_provider \<Rightarrow> signer_round_two_request \<Rightarrow> i64 \<Rightarrow>
     (provider_error, signer_round_two_response) rresult \<times> 'z guarded_provider" where
  "round_two E F policy g request now =
     (let context = r2_context request in
      and_then (authorize_context g context now) (\<lambda>_ g.
      and_then (round_two_package E F request, g) (\<lambda>package g.
        let (res, b) = sign_reserved_share E F policy (gp_backend g) context package; g = g\<lparr>gp_backend := b\<rparr> in
        and_then (res, g) (\<lambda>share g.
          (Inr \<lparr>r2_request_binding_digest = binding_digest E context,
                r2_signature_share_hex = hex_encode E (share_serialize F share)\<rparr>, g)))))"

definition reason_char_ok :: "char \<Rightarrow> bool" where
  "reason_char_ok c =
     (let n = (of_char c :: nat) in
      48 \<le> n \<and> n \<le> 57 \<or> 65 \<le> n \<and> n \<le> 90 \<or> 97 \<le> n \<and> n \<le> 122 \<or> c = CHR ''_'' \<or> c = CHR ''-'')"

definition provider_abort ::
    "'z guarded_provider \<Rightarrow> signer_abort_request \<Rightarrow> i64 \<Rightarrow> (provider_error, unit) rresult \<times> 'z guarded_provider" where
  "provider_abort g request now =
     (let context = ab_context request; code = ab_reason_code request in
      and_then (authorize_context g context now) (\<lambda>_ g.
        if code = [] \<or> length code > MAX_REASON_CODE_BYTES \<or> \<not> list_all reason_char_ok code
        then (Inl InvalidEncoding, g)
        else let (res, b) = burn_reservation (gp_backend g) (rc_operation_id context) (rc_session_id context)
          in (res, g\<lparr>gp_backend := b\<rparr>)))"

section \<open>The exact-context token is one-time\<close>

interpretation exact: signing_authorization exact_authorize ec_used
  "\<lambda>a s m i now. s = rc_session_id (ec_context a) \<and> m = rc_taproot_sighash (ec_context a)
     \<and> i = rc_signer_id (ec_context a) \<and> now \<le> rc_expires_at (ec_context a)"
  by unfold_locales (auto simp: exact_authorize_def split: if_splits)

section \<open>Effects of the operations\<close>

abbreviation reserved :: "'z guarded_provider \<Rightarrow> bytes \<rightharpoonup> reservation_binding" where
  "reserved g \<equiv> map_of (lb_reservations (gp_backend g))"

lemma authorize_context_refused: "authorize_context g c now = (Inl e, g') \<Longrightarrow> g' = g"
  by (cases "gp_max_session_lifetime_seconds g")
    (simp_all add: authorize_context_def claim_request_nonce_def Let_def split: if_split_asm option.split_asm)

lemma authorize_context_accepted:
  "authorize_context g c now = (Inr u, g') \<Longrightarrow>
     context_matches (gp_identity g) c \<and> now \<le> rc_expires_at c \<and> rc_request_nonce c \<notin> consumed (gp_replay_store g)
     \<and> g' = g\<lparr>gp_replay_store := (gp_replay_store g)\<lparr>consumed := insert (rc_request_nonce c) (consumed (gp_replay_store g))\<rparr>\<rparr>"
  by (cases "gp_max_session_lifetime_seconds g")
    (simp_all add: authorize_context_def claim_request_nonce_def Let_def split: if_split_asm option.split_asm)

lemma reserve_effect:
  assumes "reserve_nonce_and_commit E F policy seed b c = (r, b')"
  shows "map_of (lb_reservations b') = map_of (lb_reservations b)
    \<or> map_of (lb_reservations b) (rc_operation_id c) = None
      \<and> map_of (lb_reservations b') = (map_of (lb_reservations b))(rc_operation_id c \<mapsto> reservation_for E c)"
  using assms
  by (auto simp: reserve_nonce_and_commit_def Let_def bt_contains_iff elim!: and_then_state
      split: prod.splits if_splits sum.splits)

lemma sign_effect:
  assumes "sign_reserved_share E F policy b c pkg = (r, b')"
  shows "map_of (lb_reservations b') \<subseteq>\<^sub>m map_of (lb_reservations b)"
    and "r = Inr share \<Longrightarrow> map_of (lb_reservations b) (rc_operation_id c) = Some (reservation_for E c)
      \<and> map_of (lb_reservations b') (rc_operation_id c) = None"
  using assms
  by (auto simp: sign_reserved_share_def Let_def map_le_def elim!: and_then_state split: prod.splits if_splits)

lemma burn_effect:
  assumes "burn_reservation b op sid = (r, b')"
  shows "map_of (lb_reservations b') \<subseteq>\<^sub>m map_of (lb_reservations b)"
  using assms by (auto simp: burn_reservation_def Let_def map_le_def split: option.splits if_splits)

section \<open>Runs of a provider\<close>

text \<open>
  The log of a run has an entry for every reservation made by round one and for every share
  returned by round two.
\<close>

datatype provider_event =
    CommitEv (ev_context: signer_request_context) (ev_time: i64)
  | ShareEv (ev_context: signer_request_context) (ev_time: i64) signing_package

datatype provider_op =
    RoundOneOp bytes signer_request_context i64
  | RoundTwoOp signer_round_two_request i64
  | AbortOp signer_abort_request i64

fun provider_exec ::
    "bitcoin_env \<Rightarrow> frost_env \<Rightarrow> 'z request_authorizer \<Rightarrow> 'z guarded_provider \<Rightarrow> provider_op \<Rightarrow>
     provider_event list \<times> 'z guarded_provider" where
  "provider_exec E F policy g (RoundOneOp seed c now) =
     (let g' = snd (round_one E F policy seed g c now) in
      (if reserved g (rc_operation_id c) = None \<and> reserved g' (rc_operation_id c) \<noteq> None then [CommitEv c now] else [], g'))"
| "provider_exec E F policy g (RoundTwoOp request now) =
     (case round_two E F policy g request now of
        (Inl _, g') \<Rightarrow> ([], g')
      | (Inr _, g') \<Rightarrow>
          (case round_two_package E F request of
             Inl _ \<Rightarrow> ([], g')
           | Inr pkg \<Rightarrow> ([ShareEv (r2_context request) now pkg], g')))"
| "provider_exec E F policy g (AbortOp request now) = ([], snd (provider_abort g request now))"

inductive provider_run ::
    "bitcoin_env \<Rightarrow> frost_env \<Rightarrow> 'z request_authorizer \<Rightarrow> 'z guarded_provider \<Rightarrow> provider_event list \<Rightarrow>
     'z guarded_provider \<Rightarrow> bool" for E F policy g\<^sub>0 where
  run_start: "provider_run E F policy g\<^sub>0 [] g\<^sub>0"
| run_step: "provider_run E F policy g\<^sub>0 log g \<Longrightarrow> provider_exec E F policy g op = (evs, g') \<Longrightarrow>
    provider_run E F policy g\<^sub>0 (log @ evs) g'"

text \<open>One call: silent, a reservation, or a share that uses up its reservation.\<close>

definition exec_silent :: "'z guarded_provider \<Rightarrow> 'z guarded_provider \<Rightarrow> bool" where
  "exec_silent g g' \<longleftrightarrow> gp_identity g' = gp_identity g \<and> reserved g' \<subseteq>\<^sub>m reserved g
     \<and> consumed (gp_replay_store g) \<subseteq> consumed (gp_replay_store g')"

definition exec_accepted :: "'z guarded_provider \<Rightarrow> signer_request_context \<Rightarrow> i64 \<Rightarrow> 'z guarded_provider \<Rightarrow> bool" where
  "exec_accepted g c now g' \<longleftrightarrow> gp_identity g' = gp_identity g \<and> context_matches (gp_identity g) c
     \<and> now \<le> rc_expires_at c \<and> rc_request_nonce c \<notin> consumed (gp_replay_store g)
     \<and> consumed (gp_replay_store g') = insert (rc_request_nonce c) (consumed (gp_replay_store g))"

lemma accepted_step:
  assumes "authorize_context g c now = (Inr u, g1)" and "g' = g1\<lparr>gp_backend := b\<rparr>"
  shows "exec_accepted g c now g'" "gp_backend g1 = gp_backend g"
  using authorize_context_accepted [OF assms(1)] assms(2) by (auto simp: exec_accepted_def)

lemma accepted_silent: "exec_accepted g c now g' \<Longrightarrow> reserved g' \<subseteq>\<^sub>m reserved g \<Longrightarrow> exec_silent g g'"
  by (auto simp: exec_accepted_def exec_silent_def)

lemma silent_refl: "exec_silent g g"
  by (simp add: exec_silent_def)

lemma exec_round_one:
  assumes "provider_exec E F policy g (RoundOneOp seed c now) = (evs, g')"
  shows "evs = [] \<and> exec_silent g g'
    \<or> evs = [CommitEv c now] \<and> exec_accepted g c now g'
      \<and> reserved g' = (reserved g)(rc_operation_id c \<mapsto> reservation_for E c)"
proof (cases "authorize_context g c now")
  case (Pair r g1)
  show ?thesis
  proof (cases r)
    case (Inl e)
    with Pair have "g1 = g" using authorize_context_refused by blast
    with Pair Inl assms show ?thesis by (auto simp: round_one_def silent_refl Let_def split: if_splits)
  next
    case (Inr u)
    obtain res b where rb: "reserve_nonce_and_commit E F policy seed (gp_backend g1) c = (res, b)" by fastforce
    have "snd (round_one E F policy seed g c now) = g1\<lparr>gp_backend := b\<rparr>"
      using Pair Inr rb by (cases res) (simp_all add: round_one_def)
    moreover have "g' = snd (round_one E F policy seed g c now)" and evs: "evs = (if reserved g (rc_operation_id c) = None
        \<and> reserved g' (rc_operation_id c) \<noteq> None then [CommitEv c now] else [])"
      using assms by (auto simp: Let_def)
    ultimately have g': "g' = g1\<lparr>gp_backend := b\<rparr>" by simp
    note acc = accepted_step [OF Pair [unfolded Inr] g']
    from reserve_effect [OF rb] show ?thesis
    proof
      assume "map_of (lb_reservations b) = map_of (lb_reservations (gp_backend g1))"
      then have "reserved g' = reserved g" using g' acc(2) by simp
      with evs acc(1) show ?thesis by (auto intro: accepted_silent)
    next
      assume "map_of (lb_reservations (gp_backend g1)) (rc_operation_id c) = None
        \<and> map_of (lb_reservations b) = (map_of (lb_reservations (gp_backend g1)))(rc_operation_id c \<mapsto> reservation_for E c)"
      with evs acc g' show ?thesis by simp
    qed
  qed
qed

lemma exec_round_two:
  assumes "provider_exec E F policy g (RoundTwoOp rq now) = (evs, g')"
  shows "evs = [] \<and> exec_silent g g'
    \<or> (\<exists>pkg. evs = [ShareEv (r2_context rq) now pkg] \<and> exec_accepted g (r2_context rq) now g'
        \<and> sp_message pkg = rc_taproot_sighash (r2_context rq) \<and> reserved g' \<subseteq>\<^sub>m reserved g
        \<and> reserved g (rc_operation_id (r2_context rq)) = Some (reservation_for E (r2_context rq))
        \<and> reserved g' (rc_operation_id (r2_context rq)) = None)"
proof (cases "authorize_context g (r2_context rq) now")
  case (Pair r g1)
  let ?c = "r2_context rq"
  show ?thesis
  proof (cases r)
    case (Inl e)
    with Pair have "g1 = g" using authorize_context_refused by blast
    with Pair Inl assms show ?thesis by (auto simp: round_two_def silent_refl)
  next
    case (Inr u)
    note acc1 = accepted_step [OF Pair [unfolded Inr] refl]
    show ?thesis
    proof (cases "round_two_package E F rq")
      case (Inl e)
      with Pair Inr assms have "evs = []" "g' = g1" by (auto simp: round_two_def)
      moreover have "exec_silent g g1" using accepted_step [OF Pair [unfolded Inr], of g1 "gp_backend g1"]
        by (auto intro: accepted_silent)
      ultimately show ?thesis by simp
    next
      case pkg: (Inr pkg)
      obtain res b where rb: "sign_reserved_share E F policy (gp_backend g1) ?c pkg = (res, b)" by fastforce
      have g': "g' = g1\<lparr>gp_backend := b\<rparr>"
        and evs: "evs = (if is_ok res then [ShareEv ?c now pkg] else [])"
        using Pair Inr pkg rb assms by (cases res; auto simp: round_two_def)+
      note acc = accepted_step [OF Pair [unfolded Inr] g']
      have le: "reserved g' \<subseteq>\<^sub>m reserved g" using sign_effect(1) [OF rb] g' acc(2) by simp
      have msg: "sp_message pkg = rc_taproot_sighash ?c"
        using pkg by (auto simp: round_two_package_def Let_def result_simps split: if_splits)
      show ?thesis
      proof (cases res)
        case (Inl e)
        with evs le acc(1) show ?thesis by (auto intro: accepted_silent)
      next
        case (Inr share)
        with evs le acc msg g' sign_effect(2) [OF rb Inr] show ?thesis by auto
      qed
    qed
  qed
qed

lemma exec_abort:
  assumes "provider_exec E F policy g (AbortOp rq now) = (evs, g')"
  shows "evs = [] \<and> exec_silent g g'"
proof (cases "authorize_context g (ab_context rq) now")
  case (Pair r g1)
  show ?thesis
  proof (cases r)
    case (Inl e)
    with Pair have "g1 = g" using authorize_context_refused by blast
    with Pair Inl assms show ?thesis by (auto simp: provider_abort_def silent_refl)
  next
    case (Inr u)
    obtain res b where rb: "burn_reservation (gp_backend g1) (rc_operation_id (ab_context rq)) (rc_session_id (ab_context rq)) = (res, b)"
      by fastforce
    have "g' = g1\<lparr>gp_backend := gp_backend g1\<rparr> \<or> g' = g1\<lparr>gp_backend := b\<rparr>" and "evs = []"
      using Pair Inr rb assms by (auto simp: provider_abort_def Let_def split: if_splits)
    with accepted_step [OF Pair [unfolded Inr]] burn_effect [OF rb] show ?thesis
      by (metis accepted_silent guarded_provider.select_convs(2) guarded_provider.surjective
          guarded_provider.update_convs(2) map_le_refl)
  qed
qed

lemmas exec_cases = exec_round_one exec_round_two exec_abort

text \<open>The reservation of an operation is the last thing logged for it.\<close>

definition open_commit :: "bitcoin_env \<Rightarrow> provider_event list \<Rightarrow> bytes \<Rightarrow> reservation_binding \<Rightarrow> bool" where
  "open_commit E log op rb \<longleftrightarrow>
     (\<exists>us c t vs. log = us @ [CommitEv c t] @ vs \<and> rc_operation_id c = op \<and> reservation_for E c = rb
        \<and> (\<forall>c' t' pkg. ShareEv c' t' pkg \<in> set vs \<longrightarrow> rc_operation_id c' \<noteq> op))"

definition share_justified :: "bitcoin_env \<Rightarrow> provider_event list \<Rightarrow> bool" where
  "share_justified E log \<longleftrightarrow>
     (\<forall>us c t pkg vs. log = us @ [ShareEv c t pkg] @ vs \<longrightarrow>
        sp_message pkg = rc_taproot_sighash c \<and> open_commit E us (rc_operation_id c) (reservation_for E c))"

definition log_inv :: "bitcoin_env \<Rightarrow> provider_identity \<Rightarrow> provider_event list \<Rightarrow> 'z guarded_provider \<Rightarrow> bool" where
  "log_inv E i log g \<longleftrightarrow> gp_identity g = i
     \<and> distinct (map (\<lambda>ev. rc_request_nonce (ev_context ev)) log)
     \<and> (\<forall>ev \<in> set log. rc_request_nonce (ev_context ev) \<in> consumed (gp_replay_store g)
          \<and> context_matches i (ev_context ev) \<and> ev_time ev \<le> rc_expires_at (ev_context ev))
     \<and> (\<forall>op rb. reserved g op = Some rb \<longrightarrow> open_commit E log op rb) \<and> share_justified E log"

lemma open_commit_snoc_other:
  assumes "open_commit E log op rb" and "\<And>c t pkg. ev = ShareEv c t pkg \<Longrightarrow> rc_operation_id c \<noteq> op"
  shows "open_commit E (log @ [ev]) op rb"
proof -
  obtain us c t vs where log: "log = us @ [CommitEv c t] @ vs" and c: "rc_operation_id c = op" "reservation_for E c = rb"
    and vs: "\<forall>c' t' pkg. ShareEv c' t' pkg \<in> set vs \<longrightarrow> rc_operation_id c' \<noteq> op"
    using assms(1) unfolding open_commit_def by blast
  have "log @ [ev] = us @ [CommitEv c t] @ (vs @ [ev])" using log by simp
  moreover have "\<forall>c' t' pkg. ShareEv c' t' pkg \<in> set (vs @ [ev]) \<longrightarrow> rc_operation_id c' \<noteq> op"
    using vs assms(2) by fastforce
  ultimately show ?thesis unfolding open_commit_def using c by blast
qed

lemma open_commit_snoc: "open_commit E (log @ [CommitEv c t]) (rc_operation_id c) (reservation_for E c)"
  unfolding open_commit_def by (rule exI [of _ log]) auto

lemma share_justified_snoc:
  "share_justified E (log @ [ev]) \<longleftrightarrow> share_justified E log
     \<and> (\<forall>c t pkg. ev = ShareEv c t pkg \<longrightarrow>
          sp_message pkg = rc_taproot_sighash c \<and> open_commit E log (rc_operation_id c) (reservation_for E c))"
    (is "?l \<longleftrightarrow> ?r")
proof
  assume l: ?l
  have "sp_message pkg = rc_taproot_sighash c \<and> open_commit E us (rc_operation_id c) (reservation_for E c)"
    if "log = us @ [ShareEv c t pkg] @ vs" for us c t pkg vs
    using l [unfolded share_justified_def, rule_format, of us c t pkg "vs @ [ev]"] that by simp
  moreover have "sp_message pkg = rc_taproot_sighash c \<and> open_commit E log (rc_operation_id c) (reservation_for E c)"
    if "ev = ShareEv c t pkg" for c t pkg
    using l [unfolded share_justified_def, rule_format, of log c t pkg "[]"] that by simp
  ultimately show ?r by (simp add: share_justified_def)
next
  assume r: ?r
  have "sp_message pkg = rc_taproot_sighash c \<and> open_commit E us (rc_operation_id c) (reservation_for E c)"
    if "log @ [ev] = us @ [ShareEv c t pkg] @ vs" for us c t pkg vs
  proof (cases vs rule: rev_cases)
    case Nil
    with that r show ?thesis by simp
  next
    case (snoc ws x)
    with that have "log = us @ [ShareEv c t pkg] @ ws" by simp
    with r show ?thesis unfolding share_justified_def by blast
  qed
  then show ?l by (simp add: share_justified_def)
qed

lemma map_leD: "f \<subseteq>\<^sub>m g \<Longrightarrow> f x = Some y \<Longrightarrow> g x = Some y"
  by (metis domI map_le_def)

lemma silent_log_inv:
  assumes "exec_silent g g'" and "log_inv E i log g"
  shows "log_inv E i log g'"
proof -
  have "open_commit E log op rb" if "reserved g' op = Some rb" for op rb
  proof -
    have "reserved g op = Some rb" using assms(1) that unfolding exec_silent_def by (blast dest: map_leD)
    with assms(2) show ?thesis unfolding log_inv_def by blast
  qed
  with assms show ?thesis unfolding log_inv_def exec_silent_def by (simp add: subset_iff)
qed

lemma accepted_log_inv:
  assumes acc: "exec_accepted g (ev_context ev) (ev_time ev) g'" and inv: "log_inv E i log g"
    and "share_justified E (log @ [ev])" and "\<And>op rb. reserved g' op = Some rb \<Longrightarrow> open_commit E (log @ [ev]) op rb"
  shows "log_inv E i (log @ [ev]) g'"
proof -
  have "rc_request_nonce (ev_context ev) \<notin> set (map (\<lambda>ev. rc_request_nonce (ev_context ev)) log)"
    using acc inv by (auto simp: log_inv_def exec_accepted_def)
  with assms show ?thesis unfolding log_inv_def exec_accepted_def by simp
qed

lemma exec_log_inv:
  assumes "provider_exec E F policy g op = (evs, g')" and inv: "log_inv E i log g"
  shows "log_inv E i (log @ evs) g'"
proof (cases op)
  case (RoundOneOp seed c now)
  from exec_round_one [OF assms(1) [unfolded RoundOneOp]] show ?thesis
  proof
    assume "evs = [] \<and> exec_silent g g'"
    with inv show ?thesis by (auto intro: silent_log_inv)
  next
    assume a: "evs = [CommitEv c now] \<and> exec_accepted g c now g'
      \<and> reserved g' = (reserved g)(rc_operation_id c \<mapsto> reservation_for E c)"
    have "log_inv E i (log @ [CommitEv c now]) g'"
      using a inv open_commit_snoc [of E log c now]
      by (intro accepted_log_inv) (auto simp: share_justified_snoc log_inv_def intro: open_commit_snoc_other split: if_splits)
    with a show ?thesis by simp
  qed
next
  case (RoundTwoOp rq now)
  let ?c = "r2_context rq"
  from exec_round_two [OF assms(1) [unfolded RoundTwoOp]] show ?thesis
  proof
    assume "evs = [] \<and> exec_silent g g'"
    with inv show ?thesis by (auto intro: silent_log_inv)
  next
    assume "\<exists>pkg. evs = [ShareEv ?c now pkg] \<and> exec_accepted g ?c now g'
        \<and> sp_message pkg = rc_taproot_sighash ?c \<and> reserved g' \<subseteq>\<^sub>m reserved g
        \<and> reserved g (rc_operation_id ?c) = Some (reservation_for E ?c) \<and> reserved g' (rc_operation_id ?c) = None"
    then obtain pkg where a: "evs = [ShareEv ?c now pkg]" "exec_accepted g ?c now g'"
      "sp_message pkg = rc_taproot_sighash ?c" "reserved g' \<subseteq>\<^sub>m reserved g"
      "reserved g (rc_operation_id ?c) = Some (reservation_for E ?c)" "reserved g' (rc_operation_id ?c) = None" by blast
    have "open_commit E (log @ [ShareEv ?c now pkg]) op' rb" if "reserved g' op' = Some rb" for op' rb
    proof (rule open_commit_snoc_other)
      have "reserved g op' = Some rb" using a(4) that by (rule map_leD)
      then show "open_commit E log op' rb" using inv by (simp add: log_inv_def)
    qed (use a(6) that in auto)
    moreover have "share_justified E (log @ [ShareEv ?c now pkg])"
      using inv a(3,5) by (simp add: share_justified_snoc log_inv_def)
    ultimately show ?thesis using accepted_log_inv [of g "ShareEv ?c now pkg"] a(1,2) inv by simp
  qed
next
  case (AbortOp rq now)
  with exec_abort assms inv show ?thesis by (metis append_Nil2 silent_log_inv)
qed

lemma provider_run_inv:
  assumes "provider_run E F policy (provider_new i (backend_new p pk z)) log g"
  shows "log_inv E i log g"
  using assms
proof (induction rule: provider_run.induct)
  case run_start
  show ?case by (simp add: log_inv_def provider_new_def backend_new_def share_justified_def)
next
  case (run_step log g op evs g')
  then show ?case using exec_log_inv by blast
qed

text \<open>
  C10: a guarded provider signs at most once per reservation.  In every run of a fresh provider,
  all logged requests carry different request nonces, match the configured identity and were not
  expired; and every share was made for a package over the digest of its request, after a round
  one for the same operation with the same session, digest and operation binding, with no other
  share for that operation in between.
\<close>

theorem provider_shares_are_reserved:
  assumes "provider_run E F policy (provider_new identity (backend_new p pk z)) log g"
  shows "distinct (map (\<lambda>ev. rc_request_nonce (ev_context ev)) log)
    \<and> (\<forall>ev \<in> set log. context_matches identity (ev_context ev) \<and> ev_time ev \<le> rc_expires_at (ev_context ev))
    \<and> (\<forall>us c t pkg vs. log = us @ [ShareEv c t pkg] @ vs \<longrightarrow> sp_message pkg = rc_taproot_sighash c
        \<and> (\<exists>us\<^sub>1 c' t' us\<^sub>2. us = us\<^sub>1 @ [CommitEv c' t'] @ us\<^sub>2 \<and> rc_operation_id c' = rc_operation_id c
            \<and> reservation_for E c' = reservation_for E c
            \<and> (\<forall>d u q. ShareEv d u q \<in> set us\<^sub>2 \<longrightarrow> rc_operation_id d \<noteq> rc_operation_id c)))"
  using provider_run_inv [OF assms] unfolding log_inv_def share_justified_def open_commit_def by blast

section \<open>A sample run\<close>

definition sample_context :: "bytes \<Rightarrow> signer_request_context" where
  "sample_context nonce = \<lparr>rc_protocol_version = 1, rc_wallet_id = [1], rc_signer_set_id = [2], rc_signer_epoch = 1,
     rc_signer_id = 1, rc_device_id = [3], rc_device_generation = 1, rc_operation_id = [4], rc_intent_id = [5],
     rc_session_id = [1], rc_taproot_sighash = [2], rc_policy_digest = [6], rc_group_pubkey_xonly = [7],
     rc_verifying_share_digest = [8], rc_min_signers = 1, rc_max_signers = 1, rc_chain_snapshot_digest = [9],
     rc_request_nonce = nonce, rc_expires_at = 100\<rparr>"

definition sample_identity :: provider_identity where
  "sample_identity = \<lparr>pi_wallet_id = [1], pi_signer_set_id = [2], pi_signer_epoch = 1, pi_signer_id = 1,
     pi_device_id = [3], pi_device_generation = 1, pi_group_pubkey_xonly = [7], pi_verifying_share_digest = [8]\<rparr>"

definition sample_hex_env :: bitcoin_env where
  "sample_hex_env = sample_env\<lparr>hex_decode := (\<lambda>s. Some [2])\<rparr>"

definition sample_signer :: local_frost_participant where
  "sample_signer = \<lparr>pa_signer_id = 1, pa_key_package = u16_be 1, pa_nonce_guard = nonce_guard_new, pa_pending = []\<rparr>"

lemma sample_frost_provider:
  "commitment_serialize sample_frost c = Some c" "share_serialize sample_frost s = s"
  "package_deserialize sample_frost bs = Some \<lparr>sp_commitments = [(u16_be 1, [0x11])], sp_message = bs\<rparr>"
  "identifier_of sample_frost 1 = Some (u16_be 1)" "hex_decode sample_hex_env h = Some [2]"
  by (simp_all add: sample_frost_def sample_hex_env_def)

lemma sample_context_matches: "context_matches sample_identity (sample_context n)"
  by (simp add: context_matches_def sample_identity_def sample_context_def SIGNER_PROVIDER_PROTOCOL_VERSION_def)

lemma sample_context_fields:
  "rc_operation_id (sample_context n) = [4]" "rc_session_id (sample_context n) = [1]"
  "rc_taproot_sighash (sample_context n) = [2]" "rc_signer_id (sample_context n) = 1"
  "rc_expires_at (sample_context n) = 100" "rc_request_nonce (sample_context n) = n"
  by (simp_all add: sample_context_def)

lemma sample_reservation: "reservation_for E (sample_context n) = reservation_for E (sample_context n')"
  by (simp add: reservation_for_def operation_binding_digest_def common_binding_def sample_context_def)

lemma sample_provider_run:
  obtains g where "provider_run sample_hex_env sample_frost (\<lambda>z c r. (Inr (), z))
      (provider_new sample_identity (backend_new sample_signer [4] ()))
      [CommitEv (sample_context [1]) 0, ShareEv (sample_context [2]) 1 \<lparr>sp_commitments = [(u16_be 1, [0x11])], sp_message = [2]\<rparr>] g"
proof -
  let ?g = "provider_new sample_identity (backend_new sample_signer [4] ())"
  let ?p = "\<lambda>z (c :: signer_request_context) (r :: provider_round). (Inr () :: (provider_error, unit) rresult, z :: unit)"
  let ?c1 = "sample_context [1]" and ?rq = "\<lparr>r2_context = sample_context [2], r2_signing_package_hex = []\<rparr>"
  have b: "reserved ?g [4] = None" by (simp add: provider_new_def backend_new_def)
  obtain g1 where 1: "provider_exec sample_hex_env sample_frost ?p ?g (RoundOneOp [0x11] ?c1 0) = ([CommitEv ?c1 0], g1)"
    and g1: "lb_reservations (gp_backend g1) = [([4], reservation_for sample_hex_env ?c1)]"
      "gp_identity g1 = sample_identity" "consumed (gp_replay_store g1) = {[1]}" "gp_max_session_lifetime_seconds g1 = None"
      "lb_participant (gp_backend g1)
        = sample_signer\<lparr>pa_pending := [([1], \<lparr>pr_message = [2], pr_nonces = [0x11], pr_commitments = [0x11]\<rparr>)]\<rparr>"
    by (auto simp: provider_new_def backend_new_def round_one_def authorize_context_def sample_context_matches
        sample_context_fields claim_request_nonce_def reserve_nonce_and_commit_def round1_def bt_contains_def
        sample_signer_def sample_frost_simps sample_frost_provider Let_def)
  obtain g2 where 2: "provider_exec sample_hex_env sample_frost ?p g1 (RoundTwoOp ?rq 1)
      = ([ShareEv (sample_context [2]) 1 \<lparr>sp_commitments = [(u16_be 1, [0x11])], sp_message = [2]\<rparr>], g2)"
    by (auto simp: round_two_def authorize_context_def sample_context_matches sample_context_fields g1
        claim_request_nonce_def round_two_package_def MAX_SIGNING_PACKAGE_BYTES_def sample_frost_provider bt_contains_def
        sign_reserved_share_def sample_reservation [of _ "[2]" "[1]"] round2_def sign_share_def exact_authorize_def
        claim_def fingerprint_def claim_fingerprint_def nonce_guard_new_def sample_signer_def sample_frost_simps Let_def)
  from run_step [OF run_step [OF run_start 1] 2] that show thesis by simp
qed

theorem provider_shares_are_reserved_witness:
  "\<exists>log g. provider_run sample_hex_env sample_frost (\<lambda>z c r. (Inr (), z))
      (provider_new sample_identity (backend_new sample_signer [4] ())) log g \<and> length log = 2
     \<and> distinct (map (\<lambda>ev. rc_request_nonce (ev_context ev)) log)"
proof -
  obtain g where r: "provider_run sample_hex_env sample_frost (\<lambda>z c r. (Inr (), z))
      (provider_new sample_identity (backend_new sample_signer [4] ()))
      [CommitEv (sample_context [1]) 0, ShareEv (sample_context [2]) 1 \<lparr>sp_commitments = [(u16_be 1, [0x11])], sp_message = [2]\<rparr>] g"
    by (rule sample_provider_run)
  from provider_shares_are_reserved [OF r] r show ?thesis by force
qed

end
