(* ===== verification/Frost_Registry.thy ===== *)
theory Frost_Registry
  imports Frost_Provider
begin

text \<open>
  \<open>crates/threshold-signer/src/provider.rs\<close>, second part: the authority-side registry of signer
  devices (registration, rotation, revocation, request authorisation and health).  The random
  challenge identifier and nonce are arguments.
\<close>

section \<open>Records\<close>

definition REGISTRATION_DOMAIN :: bytes where
  "REGISTRATION_DOMAIN = ascii ''catomicals/signer-device-registration/v1'' @ [0]"

datatype device_status = StatusUnconfigured | StatusActive | StatusRevoked

definition default_health :: device_health where
  "default_health = \<lparr>online = False, checked_at = None, last_success_at = None, last_error_code = None\<rparr>"

record signer_device_record =
  dr_signer_id :: u16
  dr_device_id :: "bytes option"
  dr_generation :: u64
  dr_provider :: "signer_provider_kind option"
  dr_identity_public_key_hex :: "string option"
  dr_mtls_spki_sha256_hex :: "string option"
  dr_status :: device_status
  dr_registered_at :: "i64 option"
  dr_rotated_at :: "i64 option"
  dr_revoked_at :: "i64 option"
  dr_health :: device_health

definition unconfigured :: "u16 \<Rightarrow> signer_device_record" where
  "unconfigured signer_id =
     \<lparr>dr_signer_id = signer_id, dr_device_id = None, dr_generation = 0, dr_provider = None,
      dr_identity_public_key_hex = None, dr_mtls_spki_sha256_hex = None, dr_status = StatusUnconfigured,
      dr_registered_at = None, dr_rotated_at = None, dr_revoked_at = None, dr_health = default_health\<rparr>"

record device_registration_challenge =
  dc_challenge_id :: bytes
  dc_signer_set_id :: bytes
  dc_signer_epoch :: u64
  dc_signer_id :: u16
  dc_next_generation :: u64
  dc_nonce :: bytes
  dc_expires_at :: i64

record device_registration_proof =
  dp_challenge_id :: bytes
  dp_device_id :: bytes
  dp_provider :: signer_provider_kind
  dp_identity_public_key_hex :: string
  dp_mtls_spki_sha256_hex :: "string option"
  dp_signature_hex :: string
  dp_previous_device_signature_hex :: "string option"

record signer_device_registry =
  sr_signer_set_id :: bytes
  sr_signer_epoch :: u64
  sr_devices :: "(u16, signer_device_record) btree"
  sr_challenges :: "(bytes, device_registration_challenge) btree"
  sr_consumed_request_nonces :: "(bytes \<times> u64 \<times> bytes) set"

section \<open>Proofs of possession\<close>

definition parse_hex32 :: "bitcoin_env \<Rightarrow> string \<Rightarrow> (provider_error, bytes) rresult" where
  "parse_hex32 E s =
     rbind (ok_or InvalidEncoding (hex_decode E s)) (\<lambda>bs. if length bs = 32 then Inr bs else Inl InvalidEncoding)"

definition parse_hex64 :: "bitcoin_env \<Rightarrow> string \<Rightarrow> (provider_error, bytes) rresult" where
  "parse_hex64 E s =
     rbind (ok_or InvalidEncoding (hex_decode E s)) (\<lambda>bs. if length bs = 64 then Inr bs else Inl InvalidEncoding)"

definition parse_optional_hex32 :: "bitcoin_env \<Rightarrow> string option \<Rightarrow> (provider_error, bytes option) rresult" where
  "parse_optional_hex32 E s = (case s of None \<Rightarrow> Inr None | Some h \<Rightarrow> rbind (parse_hex32 E h) (\<lambda>bs. Inr (Some bs)))"

fun provider_kind_byte :: "signer_provider_kind \<Rightarrow> u8" where
  "provider_kind_byte LocalEncrypted = 1"
| "provider_kind_byte RemoteMtls = 2"
| "provider_kind_byte HsmAdapter = 3"

definition registration_digest ::
    "bitcoin_env \<Rightarrow> device_registration_challenge \<Rightarrow> device_registration_proof \<Rightarrow> bytes option \<Rightarrow>
     (provider_error, bytes) rresult" where
  "registration_digest E challenge prf spki =
     rbind (parse_hex32 E (dp_identity_public_key_hex prf)) (\<lambda>public_key.
       Inr (sha256 E (REGISTRATION_DOMAIN @ dc_challenge_id challenge @ dc_signer_set_id challenge
         @ u64_be (dc_signer_epoch challenge) @ u16_be (dc_signer_id challenge)
         @ u64_be (dc_next_generation challenge) @ dc_nonce challenge @ i64_be (dc_expires_at challenge)
         @ dp_device_id prf @ [provider_kind_byte (dp_provider prf)] @ public_key
         @ (case spki of None \<Rightarrow> replicate 32 0 | Some s \<Rightarrow> s))))"

definition verify_registration_signature ::
    "bitcoin_env \<Rightarrow> string \<Rightarrow> string \<Rightarrow> device_registration_challenge \<Rightarrow> device_registration_proof \<Rightarrow> bytes option \<Rightarrow>
     (provider_error, unit) rresult" where
  "verify_registration_signature E key_hex signature_hex challenge prf spki =
     rbind (parse_hex32 E key_hex) (\<lambda>kb.
     rbind (ok_or InvalidEncoding (xonly_from_slice E kb)) (\<lambda>key.
     rbind (parse_hex64 E signature_hex) (\<lambda>sb.
     rbind (ok_or InvalidEncoding (schnorr_from_slice E sb)) (\<lambda>sig.
     rbind (registration_digest E challenge prf spki) (\<lambda>m.
       if schnorr_verify E sig m key then Inr () else Inl InvalidProof)))))"

definition verify_registration_proof ::
    "bitcoin_env \<Rightarrow> device_registration_challenge \<Rightarrow> device_registration_proof \<Rightarrow> bytes option \<Rightarrow> (provider_error, unit) rresult" where
  "verify_registration_proof E challenge prf spki =
     verify_registration_signature E (dp_identity_public_key_hex prf) (dp_signature_hex prf) challenge prf spki"

definition verify_rotation_authorization ::
    "bitcoin_env \<Rightarrow> signer_device_record \<Rightarrow> device_registration_challenge \<Rightarrow> device_registration_proof \<Rightarrow> bytes option \<Rightarrow>
     (provider_error, unit) rresult" where
  "verify_rotation_authorization E current challenge prf spki =
     rbind (ok_or RotationAuthorizationRequired (dr_identity_public_key_hex current)) (\<lambda>current_key.
     rbind (ok_or RotationAuthorizationRequired (dp_previous_device_signature_hex prf)) (\<lambda>signature_hex.
       verify_registration_signature E current_key signature_hex challenge prf spki))"

section \<open>Registry operations\<close>

type_synonym 'a registry_result = "(provider_error, 'a) rresult \<times> signer_device_registry"

definition registry_new :: "bytes \<Rightarrow> u64 \<Rightarrow> u16 \<Rightarrow> signer_device_registry" where
  "registry_new signer_set_id signer_epoch max_signers =
     \<lparr>sr_signer_set_id = signer_set_id, sr_signer_epoch = signer_epoch,
      sr_devices = bt_collect (map (\<lambda>n. let i = word_of_nat n in (i, unconfigured i)) [1..<Suc (unat max_signers)]),
      sr_challenges = [], sr_consumed_request_nonces = {}\<rparr>"

definition registry_devices :: "signer_device_registry \<Rightarrow> signer_device_record list" where
  "registry_devices r = map snd (sr_devices r)"

text \<open>The body of the restore loop, and the loop with its set of seen signers.\<close>

definition check_restored_record ::
    "bitcoin_env \<Rightarrow> (u16, signer_device_record) btree \<Rightarrow> u16 set \<Rightarrow> signer_device_record \<Rightarrow> (provider_error, unit) rresult" where
  "check_restored_record E restored seen rec =
     (if dr_signer_id rec \<in> seen \<or> dr_generation rec = 0 \<or> dr_device_id rec = None
         \<or> dr_status rec \<notin> {StatusActive, StatusRevoked}
         \<or> dr_provider rec \<notin> {Some RemoteMtls, Some HsmAdapter}
      then Inl InvalidEncoding
      else rbind (ok_or InvalidEncoding (dr_identity_public_key_hex rec)) (\<lambda>key.
        rbind (parse_hex32 E key) (\<lambda>_.
        rbind (parse_optional_hex32 E (dr_mtls_spki_sha256_hex rec)) (\<lambda>certificate.
          if dr_provider rec = Some RemoteMtls \<and> certificate = None then Inl SpkiMismatch
          else if \<not> bt_contains (dr_signer_id rec) restored then Inl ProviderUnknownParticipant
          else Inr ()))))"

fun restore_loop ::
    "bitcoin_env \<Rightarrow> (u16, signer_device_record) btree \<Rightarrow> u16 set \<Rightarrow> signer_device_record list \<Rightarrow>
     (provider_error, (u16, signer_device_record) btree) rresult" where
  "restore_loop E restored seen [] = Inr restored"
| "restore_loop E restored seen (rec # recs) =
     rbind (check_restored_record E restored seen rec) (\<lambda>_.
       restore_loop E (bt_insert (dr_signer_id rec) (rec\<lparr>dr_health := default_health\<rparr>) restored)
         (insert (dr_signer_id rec) seen) recs)"

definition restore_device_records ::
    "bitcoin_env \<Rightarrow> signer_device_registry \<Rightarrow> signer_device_record list \<Rightarrow> unit registry_result" where
  "restore_device_records E r records =
     (if list_ex (\<lambda>(_, rec). dr_status rec \<noteq> StatusUnconfigured) (sr_devices r) then (Inl ProviderIdentityDrift, r)
      else case restore_loop E (sr_devices r) {} records of
        Inl e \<Rightarrow> (Inl e, r)
      | Inr restored \<Rightarrow> (Inr (), r\<lparr>sr_devices := restored\<rparr>))"

definition issue_registration_challenge ::
    "signer_device_registry \<Rightarrow> bytes \<Rightarrow> bytes \<Rightarrow> u16 \<Rightarrow> i64 \<Rightarrow> i64 \<Rightarrow> device_registration_challenge registry_result" where
  "issue_registration_challenge r challenge_id nonce signer_id now ttl_seconds =
     (if ttl_seconds \<le> 0 then (Inl InvalidChallenge, r)
      else case map_of (sr_devices r) signer_id of
        None \<Rightarrow> (Inl ProviderUnknownParticipant, r)
      | Some rec \<Rightarrow>
          (case checked_add_i64 now ttl_seconds of
             None \<Rightarrow> (Inl InvalidChallenge, r)
           | Some expires_at \<Rightarrow>
               let challenge = \<lparr>dc_challenge_id = challenge_id, dc_signer_set_id = sr_signer_set_id r,
                     dc_signer_epoch = sr_signer_epoch r, dc_signer_id = signer_id,
                     dc_next_generation = dr_generation rec + 1, dc_nonce = nonce, dc_expires_at = expires_at\<rparr>
               in (Inr challenge, r\<lparr>sr_challenges := bt_insert challenge_id challenge (sr_challenges r)\<rparr>)))"

text \<open>\<open>to_ascii_lowercase\<close>.\<close>

definition ascii_lowercase :: "string \<Rightarrow> string" where
  "ascii_lowercase s = map (\<lambda>c. let n = (of_char c :: nat) in if 65 \<le> n \<and> n \<le> 90 then char_of (n + 32) else c) s"

definition registration_record ::
    "bitcoin_env \<Rightarrow> signer_device_record \<Rightarrow> device_registration_challenge \<Rightarrow> device_registration_proof \<Rightarrow> bytes option \<Rightarrow> i64 \<Rightarrow>
     signer_device_record" where
  "registration_record E current challenge prf certificate now =
     \<lparr>dr_signer_id = dc_signer_id challenge, dr_device_id = Some (dp_device_id prf),
      dr_generation = dc_next_generation challenge, dr_provider = Some (dp_provider prf),
      dr_identity_public_key_hex = Some (ascii_lowercase (dp_identity_public_key_hex prf)),
      dr_mtls_spki_sha256_hex = map_option (hex_encode E) certificate, dr_status = StatusActive,
      dr_registered_at = (case dr_registered_at current of None \<Rightarrow> Some now | Some t \<Rightarrow> Some t),
      dr_rotated_at = (if dr_generation current > 0 then Some now else None),
      dr_revoked_at = None, dr_health = default_health\<rparr>"

definition check_registration ::
    "bitcoin_env \<Rightarrow> signer_device_registry \<Rightarrow> device_registration_challenge \<Rightarrow> device_registration_proof \<Rightarrow> i64 \<Rightarrow>
     (provider_error, signer_device_record) rresult" where
  "check_registration E r challenge prf now =
     (if now > dc_expires_at challenge \<or> dc_signer_set_id challenge \<noteq> sr_signer_set_id r
         \<or> dc_signer_epoch challenge \<noteq> sr_signer_epoch r then Inl InvalidChallenge
      else if dp_provider prf = LocalEncrypted then Inl InvalidProvider
      else rbind (case dp_provider prf of
            RemoteMtls \<Rightarrow> rbind (ok_or SpkiMismatch (dp_mtls_spki_sha256_hex prf)) (\<lambda>h.
              rbind (parse_hex32 E h) (\<lambda>bs. Inr (Some bs)))
          | _ \<Rightarrow> parse_optional_hex32 E (dp_mtls_spki_sha256_hex prf)) (\<lambda>certificate.
        rbind (ok_or ProviderUnknownParticipant (map_of (sr_devices r) (dc_signer_id challenge))) (\<lambda>current.
        if dc_next_generation challenge \<noteq> dr_generation current + 1 then Inl ProviderIdentityDrift
        else if dr_status current = StatusRevoked then Inl Revoked
        else rbind (verify_registration_proof E challenge prf certificate) (\<lambda>_.
          rbind (if dr_status current = StatusActive
                 then verify_rotation_authorization E current challenge prf certificate else Inr ()) (\<lambda>_.
            Inr (registration_record E current challenge prf certificate now))))))"

definition register ::
    "bitcoin_env \<Rightarrow> signer_device_registry \<Rightarrow> device_registration_proof \<Rightarrow> i64 \<Rightarrow> signer_device_record registry_result" where
  "register E r prf now =
     (case map_of (sr_challenges r) (dp_challenge_id prf) of
        None \<Rightarrow> (Inl InvalidChallenge, r)
      | Some challenge \<Rightarrow>
          let r' = r\<lparr>sr_challenges := bt_remove (dp_challenge_id prf) (sr_challenges r)\<rparr> in
          (case check_registration E r' challenge prf now of
             Inl e \<Rightarrow> (Inl e, r')
           | Inr rec \<Rightarrow> (Inr rec, r'\<lparr>sr_devices := bt_insert (dc_signer_id challenge) rec (sr_devices r')\<rparr>)))"

definition revoke ::
    "signer_device_registry \<Rightarrow> u16 \<Rightarrow> bytes \<Rightarrow> u64 \<Rightarrow> i64 \<Rightarrow> signer_device_record registry_result" where
  "revoke r signer_id expected_device_id expected_generation now =
     (case map_of (sr_devices r) signer_id of
        None \<Rightarrow> (Inl ProviderUnknownParticipant, r)
      | Some rec \<Rightarrow>
          if dr_status rec = StatusUnconfigured then (Inl Unconfigured, r)
          else if dr_device_id rec \<noteq> Some expected_device_id \<or> dr_generation rec \<noteq> expected_generation
          then (Inl ProviderIdentityDrift, r)
          else let rec' = rec\<lparr>dr_status := StatusRevoked, dr_revoked_at := Some now,
                 dr_health := \<lparr>online = False, checked_at = Some now,
                   last_success_at = last_success_at (dr_health rec), last_error_code = Some ''revoked''\<rparr>\<rparr>
            in (Inr rec', r\<lparr>sr_devices := bt_insert signer_id rec' (sr_devices r)\<rparr>))"

definition authorize_request ::
    "bitcoin_env \<Rightarrow> signer_device_registry \<Rightarrow> signer_request_context \<Rightarrow> bytes option \<Rightarrow> i64 \<Rightarrow> unit registry_result" where
  "authorize_request E r context presented now =
     (if rc_protocol_version context \<noteq> SIGNER_PROVIDER_PROTOCOL_VERSION
         \<or> rc_signer_set_id context \<noteq> sr_signer_set_id r \<or> rc_signer_epoch context \<noteq> sr_signer_epoch r
         \<or> rc_min_signers context = 0 \<or> rc_min_signers context > rc_max_signers context
      then (Inl WrongSignerSet, r)
      else if now > rc_expires_at context then (Inl ProviderExpired, r)
      else case map_of (sr_devices r) (rc_signer_id context) of
        None \<Rightarrow> (Inl ProviderUnknownParticipant, r)
      | Some rec \<Rightarrow>
          (case dr_status rec of
             StatusUnconfigured \<Rightarrow> (Inl Unconfigured, r)
           | StatusRevoked \<Rightarrow> (Inl Revoked, r)
           | StatusActive \<Rightarrow>
               if dr_device_id rec \<noteq> Some (rc_device_id context) \<or> dr_generation rec \<noteq> rc_device_generation context
               then (Inl ProviderIdentityDrift, r)
               else and_then (parse_optional_hex32 E (dr_mtls_spki_sha256_hex rec), r) (\<lambda>expected r.
                 let key = (rc_device_id context, rc_device_generation context, rc_request_nonce context) in
                 if expected \<noteq> presented then (Inl SpkiMismatch, r)
                 else if key \<in> sr_consumed_request_nonces r then (Inl Replay, r)
                 else (Inr (), r\<lparr>sr_consumed_request_nonces := insert key (sr_consumed_request_nonces r),
                   sr_devices := bt_insert (rc_signer_id context) (rec\<lparr>dr_health := backend_health now\<rparr>) (sr_devices r)\<rparr>))))"

definition mark_unavailable ::
    "signer_device_registry \<Rightarrow> u16 \<Rightarrow> bytes \<Rightarrow> u64 \<Rightarrow> string \<Rightarrow> i64 \<Rightarrow> unit registry_result" where
  "mark_unavailable r signer_id expected_device_id expected_generation error_code now =
     (case map_of (sr_devices r) signer_id of
        None \<Rightarrow> (Inl ProviderUnknownParticipant, r)
      | Some rec \<Rightarrow>
          if dr_device_id rec \<noteq> Some expected_device_id \<or> dr_generation rec \<noteq> expected_generation
          then (Inl ProviderIdentityDrift, r)
          else (Inr (), r\<lparr>sr_devices := bt_insert signer_id (rec\<lparr>dr_health := \<lparr>online = False, checked_at = Some now,
            last_success_at = last_success_at (dr_health rec), last_error_code = Some error_code\<rparr>\<rparr>) (sr_devices r)\<rparr>))"

section \<open>Revocation\<close>

inductive registry_step :: "bitcoin_env \<Rightarrow> signer_device_registry \<Rightarrow> signer_device_registry \<Rightarrow> bool" for E where
  step_restore: "restore_device_records E r recs = (res, r') \<Longrightarrow> registry_step E r r'"
| step_issue: "issue_registration_challenge r cid n i now ttl = (res', r') \<Longrightarrow> registry_step E r r'"
| step_register: "register E r prf now = (res'', r') \<Longrightarrow> registry_step E r r'"
| step_revoke: "revoke r i d g now = (res'', r') \<Longrightarrow> registry_step E r r'"
| step_authorize: "authorize_request E r c spki now = (res, r') \<Longrightarrow> registry_step E r r'"
| step_unavailable: "mark_unavailable r i d g code now = (res, r') \<Longrightarrow> registry_step E r r'"

inductive_cases registry_stepE: "registry_step E r r'"

text \<open>What identifies a revoked device: its status, generation and device id.\<close>

definition revoked_as :: "signer_device_registry \<Rightarrow> u16 \<Rightarrow> bytes option \<Rightarrow> u64 \<Rightarrow> bool" where
  "revoked_as r i device generation \<longleftrightarrow>
     (\<exists>rec. map_of (sr_devices r) i = Some rec \<and> dr_status rec = StatusRevoked
        \<and> dr_device_id rec = device \<and> dr_generation rec = generation)"

lemma check_registration_Inr:
  assumes "check_registration E r ch prf now = Inr rec"
  obtains current certificate where "map_of (sr_devices r) (dc_signer_id ch) = Some current"
    "now \<le> dc_expires_at ch" "dr_status current \<noteq> StatusRevoked" "dc_next_generation ch = dr_generation current + 1"
    "parse_optional_hex32 E (dp_mtls_spki_sha256_hex prf) = Inr certificate"
    "verify_registration_proof E ch prf certificate = Inr ()"
    "dr_status current = StatusActive \<Longrightarrow> verify_rotation_authorization E current ch prf certificate = Inr ()"
    "rec = registration_record E current ch prf certificate now"
proof -
  obtain certificate current where "map_of (sr_devices r) (dc_signer_id ch) = Some current"
    "\<not> now > dc_expires_at ch" "dr_status current \<noteq> StatusRevoked" "dc_next_generation ch = dr_generation current + 1"
    "parse_optional_hex32 E (dp_mtls_spki_sha256_hex prf) = Inr certificate"
    "verify_registration_proof E ch prf certificate = Inr ()"
    "(if dr_status current = StatusActive then verify_rotation_authorization E current ch prf certificate else Inr ()) = Inr ()"
    "rec = registration_record E current ch prf certificate now"
    using assms unfolding check_registration_def guard_Inr rbind_Inr ok_or_Inr
    by (auto simp: parse_optional_hex32_def rbind_Inr ok_or_Inr split: signer_provider_kind.splits)
  then show thesis by (intro that [of current certificate]) (simp_all add: not_less)
qed

lemma restore_no_revoked: "restore_device_records E r recs = (res, r') \<Longrightarrow> revoked_as r i d g \<Longrightarrow> r' = r"
  by (auto simp: restore_device_records_def revoked_as_def list_ex_iff dest!: map_of_SomeD split: if_splits)

lemma register_revoked:
  assumes "register E r prf now = (res, r')" and "revoked_as r i d g"
  shows "revoked_as r' i d g"
proof (cases "map_of (sr_challenges r) (dp_challenge_id prf)")
  case None
  with assms show ?thesis by (simp add: register_def)
next
  case (Some ch)
  let ?r = "r\<lparr>sr_challenges := bt_remove (dp_challenge_id prf) (sr_challenges r)\<rparr>"
  show ?thesis
  proof (cases "check_registration E ?r ch prf now")
    case (Inl e)
    with Some assms show ?thesis by (auto simp: register_def revoked_as_def)
  next
    case (Inr rec)
    obtain current where "map_of (sr_devices r) (dc_signer_id ch) = Some current" "dr_status current \<noteq> StatusRevoked"
      by (rule check_registration_Inr [OF Inr]) simp
    with assms(2) have "dc_signer_id ch \<noteq> i" by (auto simp: revoked_as_def)
    with Some Inr assms show ?thesis by (auto simp: register_def revoked_as_def)
  qed
qed

lemma registry_step_revoked:
  assumes "registry_step E r r'" and "revoked_as r i d g"
  shows "revoked_as r' i d g"
  using assms(1)
proof (cases rule: registry_step.cases)
  case (step_restore recs res)
  with assms restore_no_revoked show ?thesis by blast
next
  case (step_issue cid n j now ttl res)
  with assms(2) show ?thesis
    by (auto simp: issue_registration_challenge_def revoked_as_def Let_def split: if_splits option.splits)
next
  case (step_register p now res)
  with assms register_revoked show ?thesis by blast
next
  case (step_revoke j dev gen now res)
  with assms(2) show ?thesis by (auto simp: revoke_def revoked_as_def Let_def split: if_splits option.splits)
next
  case (step_authorize c spki now res)
  with assms(2) show ?thesis
    by (auto simp: authorize_request_def revoked_as_def Let_def elim!: and_then_state
        split: if_splits option.splits device_status.splits)
next
  case (step_unavailable j dev gen code now res)
  with assms(2) show ?thesis by (auto simp: mark_unavailable_def revoked_as_def split: if_splits option.splits)
qed

lemma registry_steps_revoked: "(registry_step E)\<^sup>*\<^sup>* r r' \<Longrightarrow> revoked_as r i d g \<Longrightarrow> revoked_as r' i d g"
  by (induction rule: rtranclp_induct) (auto intro: registry_step_revoked)

lemma authorize_request_revoked:
  "revoked_as r (rc_signer_id c) d g \<Longrightarrow> fst (authorize_request E r c spki now) \<noteq> Inr ()"
  by (auto simp: authorize_request_def revoked_as_def)

text \<open>
  C30: revocation is permanent.  After a device has been revoked, no sequence of registry
  operations (restoring, registering and rotating included) changes its status, identity or
  generation, and no request for its signer is authorised again.
\<close>

theorem revocation_is_permanent:
  assumes "map_of (sr_devices r) i = Some rec" and "dr_status rec = StatusRevoked"
    and "(registry_step E)\<^sup>*\<^sup>* r r'" and "rc_signer_id c = i"
  shows "(\<exists>rec'. map_of (sr_devices r') i = Some rec' \<and> dr_status rec' = StatusRevoked
      \<and> dr_device_id rec' = dr_device_id rec \<and> dr_generation rec' = dr_generation rec)
    \<and> fst (authorize_request E r' c spki now) \<noteq> Inr ()"
proof -
  have "revoked_as r i (dr_device_id rec) (dr_generation rec)" using assms(1,2) by (simp add: revoked_as_def)
  from registry_steps_revoked [OF assms(3) this] show ?thesis
    using authorize_request_revoked assms(4) unfolding revoked_as_def by blast
qed

section \<open>Registration\<close>

text \<open>
  \<open>signed_by E m key sig\<close>: the two hex strings decode to a 32-byte x-only public key and a 64-byte Schnorr
  signature, and the signature verifies for the message \<open>m\<close> under the key.
\<close>

definition signed_by :: "bitcoin_env \<Rightarrow> bytes \<Rightarrow> string \<Rightarrow> string \<Rightarrow> bool" where
  "signed_by E m key_hex signature_hex \<longleftrightarrow>
     (\<exists>kb key sb sig. hex_decode E key_hex = Some kb \<and> length kb = 32 \<and> xonly_from_slice E kb = Some key
        \<and> hex_decode E signature_hex = Some sb \<and> length sb = 64 \<and> schnorr_from_slice E sb = Some sig
        \<and> schnorr_verify E sig m key)"

lemma verify_registration_signature_Inr:
  "verify_registration_signature E key sig ch prf certificate = Inr () \<longleftrightarrow>
     (\<exists>m. registration_digest E ch prf certificate = Inr m \<and> signed_by E m key sig)"
proof -
  have "parse_hex32 E key = Inr kb \<longleftrightarrow> hex_decode E key = Some kb \<and> length kb = 32" for kb
    by (auto simp: parse_hex32_def rbind_Inr ok_or_Inr)
  moreover have "parse_hex64 E sig = Inr sb \<longleftrightarrow> hex_decode E sig = Some sb \<and> length sb = 64" for sb
    by (auto simp: parse_hex64_def rbind_Inr ok_or_Inr)
  ultimately show ?thesis
    by (simp add: verify_registration_signature_def signed_by_def rbind_Inr ok_or_Inr guard_Inr) blast
qed

text \<open>
  C31: a device is registered only with proof of possession.  A successful registration consumes a
  pending, unexpired challenge for the next generation of its signer; the digest of the challenge and the
  proof (with the certificate pin the proof names) has a valid Schnorr signature under the new device key and,
  when a device is active, another one under the key of that device; a revoked signer cannot register.
\<close>

theorem registration_needs_possession:
  assumes "register E r prf now = (Inr rec, r')"
  shows "\<exists>ch current certificate m. map_of (sr_challenges r) (dp_challenge_id prf) = Some ch
    \<and> now \<le> dc_expires_at ch \<and> map_of (sr_challenges r') (dp_challenge_id prf) = None
    \<and> map_of (sr_devices r) (dc_signer_id ch) = Some current \<and> dr_status current \<noteq> StatusRevoked
    \<and> dr_generation rec = dr_generation current + 1 \<and> map_of (sr_devices r') (dc_signer_id ch) = Some rec
    \<and> dr_identity_public_key_hex rec = Some (ascii_lowercase (dp_identity_public_key_hex prf))
    \<and> parse_optional_hex32 E (dp_mtls_spki_sha256_hex prf) = Inr certificate
    \<and> registration_digest E ch prf certificate = Inr m
    \<and> signed_by E m (dp_identity_public_key_hex prf) (dp_signature_hex prf)
    \<and> (dr_status current = StatusActive \<longrightarrow>
        (\<exists>key sig. dr_identity_public_key_hex current = Some key \<and> dp_previous_device_signature_hex prf = Some sig
           \<and> signed_by E m key sig))"
proof -
  let ?r = "r\<lparr>sr_challenges := bt_remove (dp_challenge_id prf) (sr_challenges r)\<rparr>"
  from assms obtain ch where ch: "map_of (sr_challenges r) (dp_challenge_id prf) = Some ch"
    and c: "check_registration E ?r ch prf now = Inr rec"
    and r': "r' = ?r\<lparr>sr_devices := bt_insert (dc_signer_id ch) rec (sr_devices r)\<rparr>"
    by (auto simp: register_def Let_def split: option.splits sum.splits)
  show ?thesis
    by (rule check_registration_Inr [OF c])
      (use ch r' in \<open>auto simp: registration_record_def verify_registration_proof_def verify_rotation_authorization_def
        verify_registration_signature_Inr rbind_Inr ok_or_Inr\<close>)
qed

section \<open>Sample devices\<close>

definition sample_revoked :: signer_device_record where
  "sample_revoked = (unconfigured 1)\<lparr>dr_status := StatusRevoked, dr_device_id := Some [3], dr_generation := 1\<rparr>"

definition sample_registry :: signer_device_registry where
  "sample_registry = (registry_new [2] 1 1)\<lparr>sr_devices := [(1, sample_revoked)]\<rparr>"

theorem revocation_is_permanent_witness:
  "\<exists>r' rec'. mark_unavailable sample_registry 1 [3] 1 ''offline'' 5 = (Inr (), r')
     \<and> map_of (sr_devices r') 1 = Some rec' \<and> dr_status rec' = StatusRevoked
     \<and> fst (authorize_request sample_env r' (sample_context [1]) None 5) \<noteq> Inr ()"
proof -
  have d: "map_of (sr_devices sample_registry) 1 = Some sample_revoked" "dr_status sample_revoked = StatusRevoked"
    by (simp_all add: sample_registry_def sample_revoked_def)
  obtain r' where r': "mark_unavailable sample_registry 1 [3] 1 ''offline'' 5 = (Inr (), r')"
    by (auto simp: mark_unavailable_def d(1)) (simp add: sample_revoked_def unconfigured_def)
  then have "(registry_step sample_env)\<^sup>*\<^sup>* sample_registry r'" using step_unavailable by blast
  from revocation_is_permanent [OF d this, of "sample_context [1]" None 5] r' show ?thesis
    by (auto simp: sample_context_def)
qed

definition sample_device_env :: bitcoin_env where
  "sample_device_env = sample_env\<lparr>hex_decode := (\<lambda>s. Some (replicate (if s = ''sig'' then 64 else 32) 1))\<rparr>"

definition sample_proof :: device_registration_proof where
  "sample_proof = \<lparr>dp_challenge_id = [9], dp_device_id = [3], dp_provider = HsmAdapter,
     dp_identity_public_key_hex = ''key'', dp_mtls_spki_sha256_hex = None, dp_signature_hex = ''sig'',
     dp_previous_device_signature_hex = None\<rparr>"

lemma sample_registered:
  obtains r ch rec r' where "issue_registration_challenge (registry_new [2] 1 1) [9] [8] 1 0 30 = (Inr ch, r)"
    "register sample_device_env r sample_proof 10 = (Inr rec, r')"
proof -
  have d: "sr_devices (registry_new [2] 1 1) = [(1, unconfigured 1)]"
    "sr_signer_set_id (registry_new [2] 1 1) = [2]" "sr_signer_epoch (registry_new [2] 1 1) = 1"
    "sr_challenges (registry_new [2] 1 1) = []"
    by (simp_all add: registry_new_def bt_collect_def Let_def)
  let ?ch = "\<lparr>dc_challenge_id = [9], dc_signer_set_id = [2], dc_signer_epoch = 1, dc_signer_id = 1,
    dc_next_generation = 1, dc_nonce = [8], dc_expires_at = 30\<rparr>"
  let ?r = "(registry_new [2] 1 1)\<lparr>sr_challenges := [([9], ?ch)]\<rparr>"
  have "issue_registration_challenge (registry_new [2] 1 1) [9] [8] 1 0 30 = (Inr ?ch, ?r)"
    by (simp add: issue_registration_challenge_def d checked_add_i64_def unconfigured_def Let_def)
  moreover have "\<exists>rec r'. register sample_device_env ?r sample_proof 10 = (Inr rec, r')"
    by (simp add: register_def sample_proof_def check_registration_def d unconfigured_def parse_optional_hex32_def
        verify_registration_proof_def verify_registration_signature_def registration_digest_def
        parse_hex32_def parse_hex64_def sample_device_env_def) (simp add: sample_env_def)
  ultimately show thesis using that by blast
qed

theorem registration_needs_possession_witness:
  "\<exists>r rec r' m. register sample_device_env r sample_proof 10 = (Inr rec, r')
     \<and> map_of (sr_challenges r') (dp_challenge_id sample_proof) = None \<and> signed_by sample_device_env m ''key'' ''sig''"
proof -
  obtain r rec r' where "register sample_device_env r sample_proof 10 = (Inr rec, r')"
    by (rule sample_registered)
  with registration_needs_possession [OF this] show ?thesis by (auto simp: sample_proof_def)
qed

end
