(* ===== verification/Storage_Tables.thy ===== *)
theory Storage_Tables
  imports Signing_Domain Frost_Registry
begin

text \<open>
  The data of \<open>crates/wallet-storage\<close>: \<open>models.rs\<close>, \<open>error.rs\<close>, the tables of \<open>migrations/*.sql\<close> and the
  helpers of \<open>sqlite.rs\<close> that every operation starts and ends with.

  A table is the list of its rows in insertion order.  \<open>INSERT\<close> appends a row, or fails when a \<open>CHECK\<close>, a
  trigger or a unique key refuses it; \<open>UPDATE ... WHERE\<close> maps over the table and its result is the number of
  selected rows; \<open>SELECT\<close> is \<open>find\<close> or \<open>filter\<close>.  A mutating operation is one immediate transaction of
  the only writer, and an early return drops the transaction: an operation maps a database to an error or to
  a result and the new database, so a failure changes nothing.  I/O failures of SQLite are not modelled.

  A column that holds the text of an identifier or of an enumeration is modelled by the identifier (its 16
  bytes) or the enumeration; \<open>as_str\<close> and \<open>parse\<close> below are inverse to each other.  JSON text is produced and
  read by \<open>serde_json\<close> and by SQLite's \<open>json_valid\<close>, which are parameters.  Columns that the statements of
  \<open>sqlite.rs\<close> only ever set together (those of version two intents, Passkey records and bound nonce claims)
  are one optional field.
\<close>

named_theorems storage_defs \<open>definitions of storage statements\<close>

section \<open>Errors\<close>

datatype sqlite_failure = ConstraintViolation | ConversionFailure

datatype storage_error =
    Sqlite sqlite_failure
  | NotInitialized
  | AlreadyInitialized
  | ImmutableConflict string
  | InvalidStoredValue string
  | InvalidSecretHandle string
  | AuthorizationUnavailable
  | ApprovalCeremonyUnavailable
  | ApprovalCeremonyExpired
  | IntentExpiredError
  | ApprovalCeremonyExceedsIntentExpiry
  | AuthorizationExpiresBeforeApproval
  | AuthorizationExceedsIntentExpiry
  | IntentNotApprovable
  | AuthorizationAlreadyExists
  | CredentialCounterRollback
  | WebauthnProfileMismatch
  | CredentialVersionConflict
  | CredentialUnavailable
  | ApprovalBindingMismatch
  | IntentMaterialMismatch
  | InvalidV2Intent string
  | LegacyApiRejectedForV2
  | MutationBlocked string
  | NonceAlreadyClaimed
  | SignerOperationBindingDrift
  | PersonalSigningOperationBindingDrift
  | InvalidPersonalSigningOperation
  | PersonalSigningOperationConflict
  | PersonalSigningReceiptConflict
  | InvalidSignerProfile
  | InvalidSigningJob
  | SigningJobConflict
  | SigningJobBindingDrift
  | StaleEpoch u64 u64
  | InvalidRestoreTransition string string
  | InvalidIntentTransition string string
  | IntentTransitionConflict

section \<open>Enumerations\<close>

datatype restore_state = Normal | Snapshotting | RestorePrecheck | Cutover | Recovering

fun restore_as_str :: "restore_state \<Rightarrow> string" where
  "restore_as_str Normal = ''normal''"
| "restore_as_str Snapshotting = ''snapshotting''"
| "restore_as_str RestorePrecheck = ''restore_precheck''"
| "restore_as_str Cutover = ''cutover''"
| "restore_as_str Recovering = ''recovering''"

definition restore_parse :: "string \<Rightarrow> restore_state option" where
  "restore_parse value =
     (if value = ''normal'' then Some Normal else
      if value = ''snapshotting'' then Some Snapshotting else
      if value = ''restore_precheck'' then Some RestorePrecheck else
      if value = ''cutover'' then Some Cutover else
      if value = ''recovering'' then Some Recovering else None)"

datatype tx_status = TxPending | TxApproved | TxSigning | TxSigned | TxCancelled | TxExpired | TxInvalidated

fun tx_status_as_str :: "tx_status \<Rightarrow> string" where
  "tx_status_as_str TxPending = ''pending''"
| "tx_status_as_str TxApproved = ''approved''"
| "tx_status_as_str TxSigning = ''signing''"
| "tx_status_as_str TxSigned = ''signed''"
| "tx_status_as_str TxCancelled = ''cancelled''"
| "tx_status_as_str TxExpired = ''expired''"
| "tx_status_as_str TxInvalidated = ''invalidated''"

definition tx_status_parse :: "string \<Rightarrow> tx_status option" where
  "tx_status_parse value =
     (if value = ''pending'' then Some TxPending else
      if value = ''approved'' then Some TxApproved else
      if value = ''signing'' then Some TxSigning else
      if value = ''signed'' then Some TxSigned else
      if value = ''cancelled'' then Some TxCancelled else
      if value = ''expired'' then Some TxExpired else
      if value = ''invalidated'' then Some TxInvalidated else None)"

fun may_transition_to :: "tx_status \<Rightarrow> tx_status \<Rightarrow> bool" where
  "may_transition_to TxPending next = (next \<in> {TxCancelled, TxExpired, TxInvalidated})"
| "may_transition_to TxApproved next = (next \<in> {TxSigning, TxCancelled, TxExpired, TxInvalidated})"
| "may_transition_to TxSigning next = (next \<in> {TxSigned, TxInvalidated})"
| "may_transition_to _ next = False"

datatype stored_network = StoredMainnet | StoredTestnet | StoredSignet | StoredRegtest

fun stored_network_as_str :: "stored_network \<Rightarrow> string" where
  "stored_network_as_str StoredMainnet = ''mainnet''"
| "stored_network_as_str StoredTestnet = ''testnet''"
| "stored_network_as_str StoredSignet = ''signet''"
| "stored_network_as_str StoredRegtest = ''regtest''"

definition stored_network_parse :: "string \<Rightarrow> stored_network option" where
  "stored_network_parse value =
     (if value = ''mainnet'' then Some StoredMainnet else
      if value = ''testnet'' then Some StoredTestnet else
      if value = ''signet'' then Some StoredSignet else
      if value = ''regtest'' then Some StoredRegtest else None)"

datatype stored_action = StoredIssue | StoredMint | StoredTransfer | StoredSwap | StoredSpend

fun stored_action_as_str :: "stored_action \<Rightarrow> string" where
  "stored_action_as_str StoredIssue = ''issue''"
| "stored_action_as_str StoredMint = ''mint''"
| "stored_action_as_str StoredTransfer = ''transfer''"
| "stored_action_as_str StoredSwap = ''swap''"
| "stored_action_as_str StoredSpend = ''spend''"

definition stored_action_parse :: "string \<Rightarrow> stored_action option" where
  "stored_action_parse value =
     (if value = ''issue'' then Some StoredIssue else
      if value = ''mint'' then Some StoredMint else
      if value = ''transfer'' then Some StoredTransfer else
      if value = ''swap'' then Some StoredSwap else
      if value = ''spend'' then Some StoredSpend else None)"

datatype intent_material_kind = UnsignedTransaction | PolicyInput | NodeSnapshot

fun material_kind_as_str :: "intent_material_kind \<Rightarrow> string" where
  "material_kind_as_str UnsignedTransaction = ''unsigned_transaction''"
| "material_kind_as_str PolicyInput = ''policy_input''"
| "material_kind_as_str NodeSnapshot = ''node_snapshot''"

definition material_kind_parse :: "string \<Rightarrow> intent_material_kind option" where
  "material_kind_parse value =
     (if value = ''unsigned_transaction'' then Some UnsignedTransaction else
      if value = ''policy_input'' then Some PolicyInput else
      if value = ''node_snapshot'' then Some NodeSnapshot else None)"

datatype credential_state = CredentialActive | LegacyUnusable | CredentialDisabled

fun credential_state_as_str :: "credential_state \<Rightarrow> string" where
  "credential_state_as_str CredentialActive = ''active''"
| "credential_state_as_str LegacyUnusable = ''legacy_unusable''"
| "credential_state_as_str CredentialDisabled = ''disabled''"

definition credential_state_parse :: "string \<Rightarrow> credential_state option" where
  "credential_state_parse value =
     (if value = ''active'' then Some CredentialActive else
      if value = ''legacy_unusable'' then Some LegacyUnusable else
      if value = ''disabled'' then Some CredentialDisabled else None)"

datatype secret_backend = OsKeychain | Hsm | EncryptedFile

fun secret_backend_as_str :: "secret_backend \<Rightarrow> string" where
  "secret_backend_as_str OsKeychain = ''os_keychain''"
| "secret_backend_as_str Hsm = ''hsm''"
| "secret_backend_as_str EncryptedFile = ''encrypted_file''"

definition secret_backend_parse :: "string \<Rightarrow> secret_backend option" where
  "secret_backend_parse value =
     (if value = ''os_keychain'' then Some OsKeychain else
      if value = ''hsm'' then Some Hsm else
      if value = ''encrypted_file'' then Some EncryptedFile else None)"

fun required_prefix :: "secret_backend \<Rightarrow> string" where
  "required_prefix OsKeychain = ''keychain://''"
| "required_prefix Hsm = ''hsm://''"
| "required_prefix EncryptedFile = ''encrypted-file://''"

datatype personal_status =
  CollectingCommitments | CollectingShares | PersonalFinalized | PersonalAborted | PersonalExpired | PersonalFailed

fun personal_status_as_str :: "personal_status \<Rightarrow> string" where
  "personal_status_as_str CollectingCommitments = ''collecting_commitments''"
| "personal_status_as_str CollectingShares = ''collecting_shares''"
| "personal_status_as_str PersonalFinalized = ''finalized''"
| "personal_status_as_str PersonalAborted = ''aborted''"
| "personal_status_as_str PersonalExpired = ''expired''"
| "personal_status_as_str PersonalFailed = ''failed''"

definition personal_status_parse :: "string \<Rightarrow> personal_status option" where
  "personal_status_parse value =
     (if value = ''collecting_commitments'' then Some CollectingCommitments else
      if value = ''collecting_shares'' then Some CollectingShares else
      if value = ''finalized'' then Some PersonalFinalized else
      if value = ''aborted'' then Some PersonalAborted else
      if value = ''expired'' then Some PersonalExpired else
      if value = ''failed'' then Some PersonalFailed else None)"

definition personal_is_terminal :: "personal_status \<Rightarrow> bool" where
  "personal_is_terminal s \<longleftrightarrow> s \<in> {PersonalFinalized, PersonalAborted, PersonalExpired, PersonalFailed}"

datatype personal_round = RoundCommitment | RoundSignatureShare

fun personal_round_as_str :: "personal_round \<Rightarrow> string" where
  "personal_round_as_str RoundCommitment = ''commitment''"
| "personal_round_as_str RoundSignatureShare = ''signature_share''"

definition personal_round_parse :: "string \<Rightarrow> personal_round option" where
  "personal_round_parse value =
     (if value = ''commitment'' then Some RoundCommitment else
      if value = ''signature_share'' then Some RoundSignatureShare else None)"

datatype job_status = JobPrepared | JobSigning | JobFinalized | JobAborted | JobExpired | JobFailed

definition job_status_parse :: "string \<Rightarrow> job_status option" where
  "job_status_parse value =
     (if value = ''prepared'' then Some JobPrepared else
      if value = ''signing'' then Some JobSigning else
      if value = ''finalized'' then Some JobFinalized else
      if value = ''aborted'' then Some JobAborted else
      if value = ''expired'' then Some JobExpired else
      if value = ''failed'' then Some JobFailed else None)"

text \<open>Every name is parsed back to exactly the value that prints it.\<close>

lemma restore_names: "restore_parse s = Some v \<longleftrightarrow> s = restore_as_str v"
  by (cases v) (auto simp: restore_parse_def)

lemma tx_status_names: "tx_status_parse s = Some v \<longleftrightarrow> s = tx_status_as_str v"
  by (cases v) (auto simp: tx_status_parse_def)

lemma stored_network_names: "stored_network_parse s = Some v \<longleftrightarrow> s = stored_network_as_str v"
  by (cases v) (auto simp: stored_network_parse_def)

lemma stored_action_names: "stored_action_parse s = Some v \<longleftrightarrow> s = stored_action_as_str v"
  by (cases v) (auto simp: stored_action_parse_def)

lemma material_kind_names: "material_kind_parse s = Some v \<longleftrightarrow> s = material_kind_as_str v"
  by (cases v) (auto simp: material_kind_parse_def)

lemma credential_state_names: "credential_state_parse s = Some v \<longleftrightarrow> s = credential_state_as_str v"
  by (cases v) (auto simp: credential_state_parse_def)

lemma secret_backend_names: "secret_backend_parse s = Some v \<longleftrightarrow> s = secret_backend_as_str v"
  by (cases v) (auto simp: secret_backend_parse_def)

lemma personal_status_names: "personal_status_parse s = Some v \<longleftrightarrow> s = personal_status_as_str v"
  by (cases v) (auto simp: personal_status_parse_def)

lemma personal_round_names: "personal_round_parse s = Some v \<longleftrightarrow> s = personal_round_as_str v"
  by (cases v) (auto simp: personal_round_parse_def)

end
