(* ===== verification/Storage_Core.thy ===== *)
theory Storage_Core
  imports Storage_Tables
begin

text \<open>
  The rows and the database of \<open>crates/wallet-storage\<close>, the SQL statements as operations on lists of rows,
  and the helpers of \<open>sqlite.rs\<close> that every operation uses: reading the wallet metadata, the check that
  mutations are allowed, and the audit trail.
\<close>

section \<open>Input records and rows\<close>

record wallet_metadata =
  wm_wallet_id :: bytes
  wm_epoch :: u64
  wm_restore_state :: restore_state
  wm_created_at :: i64
  wm_updated_at :: i64

record new_transaction_intent =
  ni_id :: bytes
  ni_tx_digest :: bytes
  ni_policy_hash :: bytes
  ni_session_id :: bytes
  ni_expires_at :: i64
  ni_created_at :: i64

record intent_v2 =
  v2_network :: stored_network
  v2_protocol_version :: u32
  v2_action :: stored_action
  v2_signer_id :: string
  v2_approval_nonce :: bytes

record new_transaction_intent_v2 = new_transaction_intent +
  ni_v2 :: intent_v2
  ni_schema_version :: u32

record intent_row =
  it_intent :: new_transaction_intent
  it_wallet_id :: bytes
  it_epoch :: u64
  it_v2 :: "intent_v2 option"
  it_status :: tx_status
  it_updated_at :: i64

record intent_cursor =
  cu_created_at :: i64
  cu_id :: bytes

record intent_material =
  im_intent_id :: bytes
  im_kind :: intent_material_kind
  im_payload_json :: string
  im_payload_hash :: bytes
  im_node_snapshot_id :: string

record passkey_data =
  pk_json :: string
  pk_format :: string
  pk_record_version :: u64
  pk_state :: credential_state

record credential_metadata =
  cm_credential_id :: string
  cm_label :: string
  cm_cose_public_key :: string
  cm_sign_count :: u64
  cm_enrolled_at :: i64
  cm_updated_at :: i64

record credential_row = credential_metadata +
  cm_wallet_id :: bytes
  cm_passkey :: "passkey_data option"

record new_passkey_record =
  np_credential_id :: string
  np_label :: string
  np_passkey_json :: string
  np_format :: string
  np_credential_state :: credential_state
  np_enrolled_at :: i64

record webauthn_profile =
  wp_wallet_id :: bytes
  wp_user_id :: string
  wp_rp_id :: string
  wp_rp_origin :: string
  wp_record_version :: u64
  wp_updated_at :: i64

record new_approval_ceremony =
  ce_id :: bytes
  ce_intent_id :: bytes
  ce_expires_at :: i64
  ce_started_at :: i64

record new_passkey_ceremony = new_approval_ceremony +
  ce_credential_id :: string
  ce_binding_digest :: bytes

record ceremony_row =
  cy_ceremony :: new_approval_ceremony
  cy_wallet_id :: bytes
  cy_epoch :: u64
  cy_passkey :: "(string \<times> bytes) option"
  cy_completed_at :: "i64 option"
  cy_invalidated_at :: "i64 option"

record authorization_row =
  az_id :: bytes
  az_wallet_id :: bytes
  az_intent_id :: bytes
  az_epoch :: u64
  az_binding_digest :: bytes
  az_expires_at :: i64
  az_issued_at :: i64
  az_consumed_at :: "i64 option"
  az_invalidated_at :: "i64 option"

record approval_decision =
  ad_ceremony_id :: bytes
  ad_authorization_id :: bytes
  ad_binding_digest :: bytes
  ad_authorization_expires_at :: i64
  ad_approved_at :: i64

record passkey_completion = approval_decision +
  pc_intent_id :: bytes
  pc_credential_id :: string
  pc_expected_record_version :: u64
  pc_updated_passkey_json :: string
  pc_rp_id :: string
  pc_rp_origin :: string

record new_nonce_claim =
  nn_fingerprint :: bytes
  nn_session_id :: bytes
  nn_claimed_at :: i64

record nonce_row =
  nc_claim :: new_nonce_claim
  nc_wallet_id :: bytes
  nc_epoch :: u64
  nc_binding :: "(bytes \<times> bytes \<times> string) option"
  nc_invalidated_at :: "i64 option"

record frost_nonce_claim = new_nonce_claim +
  fc_authorization_id :: bytes
  fc_intent_id :: bytes
  fc_signer_id :: string

record secret_ref =
  sf_id :: bytes
  sf_backend :: secret_backend
  sf_handle :: string
  sf_created_at :: i64
  sf_updated_at :: i64

record secret_row = secret_ref +
  sf_wallet_id :: bytes

datatype audit_subject = SubjectId bytes | SubjectText string

datatype audit_actor = ActorSystem | ActorLocalUser | ActorPasskeyFingerprint bytes | ActorAgentSession bytes

record audit_context =
  ax_component_version :: string
  ax_node_snapshot_id :: "string option"
  ax_actor :: audit_actor

record audit_row =
  au_wallet_id :: bytes
  au_epoch :: u64
  au_event_type :: string
  au_subject_id :: "audit_subject option"
  au_intent_id :: "bytes option"
  au_policy_hash :: "bytes option"
  au_context :: audit_context
  au_created_at :: i64

record new_signer_profile =
  sp_profile_id :: bytes
  sp_wallet_id :: bytes
  sp_chain_scope :: chain_scope
  sp_signing_suite_id :: signing_suite_id
  sp_backend_requirement :: signer_backend_requirement
  sp_signer_set_id :: string
  sp_authorization_signer_id :: string
  sp_signer_epoch :: u64
  sp_threshold :: u16
  sp_max_signers :: u16
  sp_verification_key :: bytes
  sp_secret_ref_id :: bytes
  sp_created_at :: i64

record new_address_binding =
  sa_binding_id :: bytes
  sa_profile_id :: bytes
  sa_chain_scope :: chain_scope
  sa_address :: string
  sa_verification_key_digest :: bytes
  sa_created_at :: i64

record signer_catalog_entry =
  sc_secret_ref :: secret_ref
  sc_profile :: new_signer_profile
  sc_address_bindings :: "new_address_binding list"

datatype catalog_outcome = Installed | AlreadyPresent

record signer_inventory =
  si_profile :: new_signer_profile
  si_secret_ref :: string
  si_address_bindings :: "new_address_binding list"

record new_signing_job =
  nj_job_id :: bytes
  nj_wallet_id :: bytes
  nj_profile_id :: bytes
  nj_intent_id :: bytes
  nj_chain_scope :: chain_scope
  nj_signing_suite_id :: signing_suite_id
  nj_backend_requirement :: signer_backend_requirement
  nj_review_schema_version :: u16
  nj_review_artifact :: review_artifact
  nj_review_digest :: bytes
  nj_signing_message_digest :: bytes
  nj_policy_snapshot_digest :: bytes
  nj_chain_snapshot_digest :: bytes
  nj_session_id :: bytes
  nj_selected_parties :: "string \<times> string"
  nj_receiver :: string
  nj_expires_at :: i64
  nj_created_at :: i64

record job_row =
  jb_job :: new_signing_job
  jb_operation_binding_digest :: "bytes option"
  jb_status :: job_status
  jb_final_signature :: "bytes option"
  jb_terminal_reason :: "string option"
  jb_updated_at :: i64

record chain_executor_claim =
  ec_wallet_id :: bytes
  ec_profile_id :: bytes
  ec_signing_suite_id :: signing_suite_id
  ec_backend_requirement :: signer_backend_requirement
  ec_session_id :: bytes
  ec_review_domain_digest :: bytes
  ec_signing_message_digest :: bytes
  ec_operation_binding_digest :: bytes
  ec_claimed_at :: i64

record new_personal_operation =
  no_operation_id :: bytes
  no_wallet_id :: bytes
  no_profile_id :: bytes
  no_signer_set_id :: bytes
  no_signer_epoch :: u64
  no_intent_id :: bytes
  no_session_id :: bytes
  no_taproot_sighash :: bytes
  no_policy_digest :: bytes
  no_chain_snapshot_digest :: bytes
  no_group_pubkey_xonly :: bytes
  no_profile_binding_digest :: bytes
  no_operation_binding_digest :: bytes
  no_allowed_participants :: "u16 list"
  no_selected_participants :: "u16 list"
  no_threshold :: u16
  no_max_signers :: u16
  no_expires_at :: i64
  no_created_at :: i64

record operation_row =
  op_new :: new_personal_operation
  op_status :: personal_status
  op_signing_package :: "bytes option"
  op_final_signature :: "bytes option"
  op_terminal_reason :: "string option"
  op_updated_at :: i64

record personal_receipt =
  pr_operation_id :: bytes
  pr_signer_id :: u16
  pr_round :: personal_round
  pr_device_id :: bytes
  pr_device_generation :: u64
  pr_request_binding_digest :: bytes
  pr_payload :: bytes
  pr_received_at :: i64

record request_nonce_row =
  rn_identity :: provider_identity
  rn_context :: signer_request_context
  rn_operation_binding_digest :: bytes
  rn_claimed_at :: i64

datatype device_event_type = DeviceRegistered | DeviceRotated | DeviceRevoked

record device_event =
  de_wallet_id :: bytes
  de_signer_set_id :: bytes
  de_signer_epoch :: u64
  de_signer_id :: u16
  de_device_id :: bytes
  de_device_generation :: u64
  de_provider :: signer_provider_kind
  de_identity_public_key :: bytes
  de_mtls_spki_sha256 :: "bytes option"
  de_event_type :: device_event_type
  de_occurred_at :: i64

section \<open>The database\<close>

record storage =
  db_metadata :: "wallet_metadata option"
  db_intents :: "intent_row list"
  db_materials :: "intent_material list"
  db_credentials :: "credential_row list"
  db_webauthn :: "webauthn_profile list"
  db_ceremonies :: "ceremony_row list"
  db_authorizations :: "authorization_row list"
  db_nonces :: "nonce_row list"
  db_secrets :: "secret_row list"
  db_audit :: "audit_row list"
  db_profiles :: "new_signer_profile list"
  db_bindings :: "new_address_binding list"
  db_jobs :: "job_row list"
  db_claims :: "(bytes \<times> chain_executor_claim) list"
  db_request_nonces :: "request_nonce_row list"
  db_device_events :: "device_event list"
  db_operations :: "operation_row list"
  db_receipts :: "personal_receipt list"

definition empty_storage :: storage where
  "empty_storage = \<lparr>db_metadata = None, db_intents = [], db_materials = [], db_credentials = [], db_webauthn = [],
     db_ceremonies = [], db_authorizations = [], db_nonces = [], db_secrets = [], db_audit = [], db_profiles = [],
     db_bindings = [], db_jobs = [], db_claims = [], db_request_nonces = [], db_device_events = [],
     db_operations = [], db_receipts = []\<rparr>"

text \<open>
  \<open>serde_json\<close> (parsing of any value, and of the policy part of a stored intent) and SQLite's
  \<open>json_valid\<close>, with the name and version the audit context carries.
\<close>

record persisted_policy =
  qp_profile_id :: bytes
  qp_signer_set_id :: bytes
  qp_signer_epoch :: u64
  qp_group_pubkey_xonly :: string
  qp_allowed_participants :: "u16 list"
  qp_threshold :: u16
  qp_policy_digest :: string
  qp_chain_snapshot_digest :: string

record storage_env =
  serde_valid :: "string \<Rightarrow> bool"
  json_valid :: "string \<Rightarrow> bool"
  persisted_policy_of :: "string \<Rightarrow> persisted_policy option"
  pkg_version :: string

type_synonym 'a storage_result = "(storage_error, 'a \<times> storage) rresult"

end
