(* ===== verification/Storage_Base.thy ===== *)
theory Storage_Base
  imports Storage_Core
begin

text \<open>
  SQL statements on lists of rows, the helpers of \<open>sqlite.rs\<close> that every operation shares, and the relation
  \<open>table_le\<close> that describes how a table may change: rows are appended, and old rows change only within a
  given reflexive and transitive relation.
\<close>

section \<open>Statements\<close>

definition sql_insert :: "('r \<Rightarrow> bool) \<Rightarrow> ('r \<Rightarrow> 'r \<Rightarrow> bool) \<Rightarrow> 'r \<Rightarrow> 'r list \<Rightarrow> (storage_error, 'r list) rresult" where
  "sql_insert check clash row t =
     (if check row \<and> \<not> list_ex (\<lambda>r. clash r row) t then Inr (t @ [row]) else Inl (Sqlite ConstraintViolation))"

definition sql_update :: "('r \<Rightarrow> bool) \<Rightarrow> ('r \<Rightarrow> 'r) \<Rightarrow> 'r list \<Rightarrow> 'r list" where
  "sql_update p f t = map (\<lambda>r. if p r then f r else r) t"

definition sql_count :: "('r \<Rightarrow> bool) \<Rightarrow> 'r list \<Rightarrow> nat" where
  "sql_count p t = length (filter p t)"

text \<open>A \<open>u64\<close> parameter is bound as an SQLite integer, which is an \<open>i64\<close>.\<close>

definition sql_u64 :: "u64 \<Rightarrow> (storage_error, unit) rresult" where
  "sql_u64 w = require (unat w < 2 ^ 63) (Sqlite ConversionFailure)"

text \<open>\<open>map_err\<close> of a constraint violation to an error of the operation.\<close>

definition on_constraint :: "storage_error \<Rightarrow> (storage_error, 'a) rresult \<Rightarrow> (storage_error, 'a) rresult" where
  "on_constraint e m = map_err (\<lambda>x. if x = Sqlite ConstraintViolation then e else x) m"

lemma sql_insert_Inr: "sql_insert check clash row t = Inr t' \<longleftrightarrow> check row \<and> (\<forall>r \<in> set t. \<not> clash r row) \<and> t' = t @ [row]"
  by (auto simp: sql_insert_def list_ex_iff)

lemma on_constraint_Inr [result_simps]: "on_constraint e m = Inr x \<longleftrightarrow> m = Inr x"
  by (simp add: on_constraint_def map_err_Inr)

lemma sql_u64_Inr [result_simps]: "sql_u64 w = Inr u \<longleftrightarrow> unat w < 2 ^ 63"
  by (simp add: sql_u64_def require_Inr)

lemma length_sql_update [simp]: "length (sql_update p f t) = length t"
  by (simp add: sql_update_def)

lemma set_sql_update: "set (sql_update p f t) = f ` {r \<in> set t. p r} \<union> {r \<in> set t. \<not> p r}"
  by (auto simp: sql_update_def)

lemma map_sql_update: "(\<And>r. p r \<Longrightarrow> g (f r) = g r) \<Longrightarrow> map g (sql_update p f t) = map g t"
  by (simp add: sql_update_def)

lemma filter_sql_update: "(\<And>r. p r \<Longrightarrow> q (f r) = q r) \<Longrightarrow> length (filter q (sql_update p f t)) = length (filter q t)"
  by (induction t) (auto simp: sql_update_def)

lemma sql_count_pos: "0 < sql_count p t \<longleftrightarrow> (\<exists>r \<in> set t. p r)"
  by (auto simp: sql_count_def filter_empty_conv)

lemma sql_count_1: "sql_count p t = 1 \<Longrightarrow> \<exists>r \<in> set t. p r"
  using sql_count_pos [of p t] by simp

lemma find_SomeD: "List.find p t = Some r \<Longrightarrow> r \<in> set t \<and> p r"
  by (auto simp: find_Some_iff)

text \<open>With a unique key, the row that a query finds is the only one with that key.\<close>

lemma distinct_key: "distinct (map key t) \<Longrightarrow> r \<in> set t \<Longrightarrow> s \<in> set t \<Longrightarrow> key r = key s \<Longrightarrow> r = s"
  by (metis distinct_map inj_onD)

section \<open>Tables that only grow\<close>

definition table_le :: "('r \<Rightarrow> 'r \<Rightarrow> bool) \<Rightarrow> 'r list \<Rightarrow> 'r list \<Rightarrow> bool" where
  "table_le R t t' \<longleftrightarrow> (\<exists>old new. t' = old @ new \<and> list_all2 R t old)"

lemma table_leI: "list_all2 R t old \<Longrightarrow> table_le R t (old @ new)"
  by (auto simp: table_le_def)

lemma table_le_append: "reflp R \<Longrightarrow> table_le R t (t @ rows)"
  by (auto simp: reflp_def intro!: table_leI list_all2_refl)

lemma table_le_refl: "reflp R \<Longrightarrow> table_le R t t"
  using table_le_append [of R t "[]"] by simp

lemma table_le_update:
  assumes "reflp R" and "\<And>r. r \<in> set t \<Longrightarrow> p r \<Longrightarrow> R r (f r)"
  shows "table_le R t (sql_update p f t)"
proof -
  have "list_all2 R t (sql_update p f t)"
    using assms by (auto simp: sql_update_def list.rel_map reflp_def intro!: list.rel_refl_strong)
  from table_leI [OF this, of "[]"] show ?thesis by simp
qed

lemma table_le_trans:
  assumes "transp R" and "table_le R a b" and "table_le R b c"
  shows "table_le R a c"
proof -
  obtain old new where b: "b = old @ new" "list_all2 R a old" using assms(2) by (auto simp: table_le_def)
  obtain old' new' where c: "c = old' @ new'" "list_all2 R b old'" using assms(3) by (auto simp: table_le_def)
  obtain u v where uv: "old' = u @ v" "list_all2 R old u" using c(2) b(1) by (auto simp: list_all2_append1)
  have "list_all2 R a u"
    using list_all2_trans [of R R R a old u] b(2) uv(2) assms(1) by (auto dest: transpD)
  then show ?thesis using c(1) uv(1) by (auto simp: table_le_def)
qed

lemma table_leD: "table_le R t t' \<Longrightarrow> r \<in> set t \<Longrightarrow> \<exists>r' \<in> set t'. R r r'"
  by (fastforce simp: table_le_def list_all2_conv_all_nth in_set_conv_nth [of r] dest: nth_mem)

lemma table_le_eq: "table_le (=) t t' \<longleftrightarrow> (\<exists>new. t' = t @ new)"
  by (auto simp: table_le_def list.rel_eq)

section \<open>Metadata\<close>

definition metadata_in :: "storage \<Rightarrow> (storage_error, wallet_metadata) rresult" where
  "metadata_in db = ok_or NotInitialized (db_metadata db)"

definition ensure_mutations_allowed :: "wallet_metadata \<Rightarrow> (storage_error, unit) rresult" where
  "ensure_mutations_allowed md =
     (if wm_restore_state md \<in> {Normal, Snapshotting} then Inr ()
      else Inl (MutationBlocked (restore_as_str (wm_restore_state md))))"

definition require_restore_state :: "restore_state \<Rightarrow> restore_state \<Rightarrow> restore_state \<Rightarrow> (storage_error, unit) rresult" where
  "require_restore_state actual expected next =
     (if actual = expected then Inr () else Inl (InvalidRestoreTransition (restore_as_str actual) (restore_as_str next)))"

text \<open>How a mutating operation starts: the metadata of an initialised wallet that is not being restored.\<close>

definition mutation_metadata :: "storage \<Rightarrow> (storage_error, wallet_metadata) rresult" where
  "mutation_metadata db = rbind (metadata_in db) (\<lambda>md. rbind (ensure_mutations_allowed md) (\<lambda>_. Inr md))"

lemma metadata_in_Inr [result_simps]: "metadata_in db = Inr md \<longleftrightarrow> db_metadata db = Some md"
  by (simp add: metadata_in_def ok_or_Inr)

lemma mutation_metadata_Inr [result_simps]:
  "mutation_metadata db = Inr md \<longleftrightarrow> db_metadata db = Some md \<and> wm_restore_state md \<in> {Normal, Snapshotting}"
  by (auto simp: mutation_metadata_def ensure_mutations_allowed_def rbind_Inr metadata_in_Inr)

lemma require_restore_state_Inr [result_simps]: "require_restore_state a e n = Inr u \<longleftrightarrow> a = e"
  by (simp add: require_restore_state_def)

section \<open>Audit trail\<close>

definition default_context :: "storage_env \<Rightarrow> audit_context" where
  "default_context J = \<lparr>ax_component_version = pkg_version J, ax_node_snapshot_id = None, ax_actor = ActorSystem\<rparr>"

definition append_audit_with_context ::
    "wallet_metadata \<Rightarrow> string \<Rightarrow> audit_subject option \<Rightarrow> i64 \<Rightarrow> bytes option \<Rightarrow> bytes option \<Rightarrow> audit_context \<Rightarrow>
     storage \<Rightarrow> storage" where
  "append_audit_with_context md event_type subject_id now intent_id policy_hash context db =
     db\<lparr>db_audit := db_audit db @
       [\<lparr>au_wallet_id = wm_wallet_id md, au_epoch = wm_epoch md, au_event_type = event_type, au_subject_id = subject_id,
         au_intent_id = intent_id, au_policy_hash = policy_hash, au_context = context, au_created_at = now\<rparr>]\<rparr>"

definition append_audit ::
    "storage_env \<Rightarrow> wallet_metadata \<Rightarrow> string \<Rightarrow> audit_subject option \<Rightarrow> i64 \<Rightarrow> storage \<Rightarrow> storage" where
  "append_audit J md event_type subject_id now db =
     append_audit_with_context md event_type subject_id now None None (default_context J) db"

text \<open>The sequence number of an event is its position: rows are never deleted.\<close>

definition audit_events :: "storage \<Rightarrow> nat \<Rightarrow> (nat \<times> audit_row) list" where
  "audit_events db limit = take limit (enumerate 1 (db_audit db))"

definition recent_audit_events :: "storage \<Rightarrow> nat \<Rightarrow> (nat \<times> audit_row) list" where
  "recent_audit_events db limit = rev (take limit (rev (enumerate 1 (db_audit db))))"

lemma append_audit_with_context_simps [simp]:
  "db_metadata (append_audit_with_context md e s n i p c db) = db_metadata db"
  "db_intents (append_audit_with_context md e s n i p c db) = db_intents db"
  "db_materials (append_audit_with_context md e s n i p c db) = db_materials db"
  "db_credentials (append_audit_with_context md e s n i p c db) = db_credentials db"
  "db_webauthn (append_audit_with_context md e s n i p c db) = db_webauthn db"
  "db_ceremonies (append_audit_with_context md e s n i p c db) = db_ceremonies db"
  "db_authorizations (append_audit_with_context md e s n i p c db) = db_authorizations db"
  "db_nonces (append_audit_with_context md e s n i p c db) = db_nonces db"
  "db_secrets (append_audit_with_context md e s n i p c db) = db_secrets db"
  "db_profiles (append_audit_with_context md e s n i p c db) = db_profiles db"
  "db_bindings (append_audit_with_context md e s n i p c db) = db_bindings db"
  "db_jobs (append_audit_with_context md e s n i p c db) = db_jobs db"
  "db_claims (append_audit_with_context md e s n i p c db) = db_claims db"
  "db_request_nonces (append_audit_with_context md e s n i p c db) = db_request_nonces db"
  "db_device_events (append_audit_with_context md e s n i p c db) = db_device_events db"
  "db_operations (append_audit_with_context md e s n i p c db) = db_operations db"
  "db_receipts (append_audit_with_context md e s n i p c db) = db_receipts db"
  by (simp_all add: append_audit_with_context_def)

lemma db_audit_append_context [simp]:
  "\<exists>row. db_audit (append_audit_with_context md e s n i p c db) = db_audit db @ [row]"
  by (simp add: append_audit_with_context_def)

end
