(* ===== verification/Storage_Intents.thy ===== *)
theory Storage_Intents
  imports Storage_Base "HOL-Library.Product_Lexorder"
begin

text \<open>
  Transaction intents and their material (\<open>crates/wallet-storage/src/sqlite.rs\<close>): creation in the legacy and
  the version two form, lookup, ordered listing and paging, and the guarded status transition.
\<close>

section \<open>Tables\<close>

abbreviation it_id :: "intent_row \<Rightarrow> bytes" where "it_id r \<equiv> ni_id (it_intent r)"

abbreviation is_v2 :: "intent_row \<Rightarrow> bool" where "is_v2 r \<equiv> it_v2 r \<noteq> None"

definition v2_check :: "intent_v2 \<Rightarrow> bool" where
  "v2_check v \<longleftrightarrow> v2_protocol_version v > 0 \<and> v2_signer_id v \<noteq> [] \<and> is_array 32 (v2_approval_nonce v)"

definition intent_check :: "intent_row \<Rightarrow> bool" where
  "intent_check r \<longleftrightarrow> it_epoch r > 0 \<and> is_array 32 (ni_tx_digest (it_intent r)) \<and> is_array 32 (ni_policy_hash (it_intent r))
     \<and> is_array 32 (ni_session_id (it_intent r)) \<and> (case it_v2 r of None \<Rightarrow> True | Some v \<Rightarrow> v2_check v)"

definition intent_clash :: "intent_row \<Rightarrow> intent_row \<Rightarrow> bool" where
  "intent_clash r s \<longleftrightarrow> it_id r = it_id s
     \<or> (is_v2 r \<and> is_v2 s \<and> it_wallet_id r = it_wallet_id s
        \<and> map_option v2_approval_nonce (it_v2 r) = map_option v2_approval_nonce (it_v2 s))"

definition insert_intent :: "intent_row \<Rightarrow> storage \<Rightarrow> (storage_error, storage) rresult" where
  "insert_intent row db = rbind (sql_insert intent_check intent_clash row (db_intents db)) (\<lambda>t. Inr (db\<lparr>db_intents := t\<rparr>))"

definition material_check :: "storage_env \<Rightarrow> storage \<Rightarrow> intent_material \<Rightarrow> bool" where
  "material_check J db m \<longleftrightarrow> json_valid J (im_payload_json m) \<and> is_array 32 (im_payload_hash m)
     \<and> im_node_snapshot_id m \<noteq> [] \<and> list_ex (\<lambda>r. it_id r = im_intent_id m) (db_intents db)"

definition insert_material :: "storage_env \<Rightarrow> intent_material \<Rightarrow> storage \<Rightarrow> (storage_error, storage) rresult" where
  "insert_material J m db =
     rbind (sql_insert (material_check J db) (\<lambda>a b. im_intent_id a = im_intent_id b \<and> im_kind a = im_kind b) m (db_materials db))
       (\<lambda>t. Inr (db\<lparr>db_materials := t\<rparr>))"

definition set_intent_status :: "(intent_row \<Rightarrow> bool) \<Rightarrow> tx_status \<Rightarrow> i64 \<Rightarrow> storage \<Rightarrow> storage" where
  "set_intent_status p status now db =
     db\<lparr>db_intents := sql_update p (\<lambda>r. r\<lparr>it_status := status, it_updated_at := now\<rparr>) (db_intents db)\<rparr>"

section \<open>Operations\<close>

definition create_transaction_intent_with_audit ::
    "new_transaction_intent \<Rightarrow> audit_context \<Rightarrow> storage \<Rightarrow> unit storage_result" where
  "create_transaction_intent_with_audit intent context db =
     rbind (mutation_metadata db) (\<lambda>md.
     rbind (insert_intent \<lparr>it_intent = intent, it_wallet_id = wm_wallet_id md, it_epoch = wm_epoch md, it_v2 = None,
         it_status = TxPending, it_updated_at = ni_created_at intent\<rparr> db) (\<lambda>db.
       Inr ((), append_audit_with_context md ''transaction_intent.created'' (Some (SubjectId (ni_id intent)))
         (ni_created_at intent) (Some (ni_id intent)) (Some (ni_policy_hash intent)) context db)))"

definition create_transaction_intent :: "storage_env \<Rightarrow> new_transaction_intent \<Rightarrow> storage \<Rightarrow> unit storage_result" where
  "create_transaction_intent J intent db = create_transaction_intent_with_audit intent (default_context J) db"

definition transaction_intent :: "storage \<Rightarrow> bytes \<Rightarrow> intent_row option" where
  "transaction_intent db intent_id = List.find (\<lambda>r. it_id r = intent_id) (db_intents db)"

definition intent_order :: "intent_row \<Rightarrow> i64 \<times> bytes" where
  "intent_order r = (ni_created_at (it_intent r), it_id r)"

definition list_transaction_intents :: "storage \<Rightarrow> intent_row list" where
  "list_transaction_intents db = sort_key intent_order (db_intents db)"

definition validate_new_v2_intent ::
    "new_transaction_intent_v2 \<Rightarrow> intent_material \<Rightarrow> (storage_error, unit) rresult" where
  "validate_new_v2_intent intent material =
     (if ni_schema_version intent \<noteq> 2 then Inl (InvalidV2Intent ''intent_schema_version must be 2'')
      else if v2_protocol_version (ni_v2 intent) = 0 \<or> v2_signer_id (ni_v2 intent) = []
      then Inl (InvalidV2Intent ''protocol_version and signer_id are required'')
      else if ni_expires_at intent \<le> ni_created_at intent then Inl (InvalidV2Intent ''intent expiry must follow creation'')
      else if im_intent_id material \<noteq> ni_id intent \<or> im_node_snapshot_id material = [] then Inl IntentMaterialMismatch
      else Inr ())"

definition create_transaction_intent_v2 ::
    "storage_env \<Rightarrow> new_transaction_intent_v2 \<Rightarrow> intent_material \<Rightarrow> storage \<Rightarrow> unit storage_result" where
  "create_transaction_intent_v2 J intent material db =
     rbind (validate_new_v2_intent intent material) (\<lambda>_.
     rbind (mutation_metadata db) (\<lambda>md.
     rbind (insert_intent \<lparr>it_intent = new_transaction_intent.truncate intent, it_wallet_id = wm_wallet_id md,
         it_epoch = wm_epoch md, it_v2 = Some (ni_v2 intent), it_status = TxPending,
         it_updated_at = ni_created_at intent\<rparr> db) (\<lambda>db.
     rbind (insert_material J material db) (\<lambda>db.
       Inr ((), append_audit_with_context md ''transaction_intent.v2_created'' (Some (SubjectId (ni_id intent)))
         (ni_created_at intent) (Some (ni_id intent)) (Some (ni_policy_hash intent))
         ((default_context J)\<lparr>ax_node_snapshot_id := Some (im_node_snapshot_id material)\<rparr>) db)))))"

definition transaction_intent_v2 :: "storage \<Rightarrow> bytes \<Rightarrow> intent_row option" where
  "transaction_intent_v2 db intent_id = List.find (\<lambda>r. it_id r = intent_id \<and> is_v2 r) (db_intents db)"

definition current_v2 :: "wallet_metadata \<Rightarrow> intent_row \<Rightarrow> bool" where
  "current_v2 md r \<longleftrightarrow> it_wallet_id r = wm_wallet_id md \<and> it_epoch r = wm_epoch md \<and> is_v2 r"

definition list_transaction_intents_v2 :: "storage \<Rightarrow> (storage_error, intent_row list) rresult" where
  "list_transaction_intents_v2 db =
     rbind (metadata_in db) (\<lambda>md. Inr (sort_key intent_order (filter (current_v2 md) (db_intents db))))"

definition latest_transaction_intent_v2 :: "storage \<Rightarrow> (storage_error, intent_row option) rresult" where
  "latest_transaction_intent_v2 db =
     rbind (metadata_in db) (\<lambda>md.
       let rows = sort_key intent_order (filter (current_v2 md) (db_intents db)) in
       Inr (if rows = [] then None else Some (last rows)))"

text \<open>The kinds in the order of their names.\<close>

fun kind_rank :: "intent_material_kind \<Rightarrow> nat" where
  "kind_rank NodeSnapshot = 0"
| "kind_rank PolicyInput = 1"
| "kind_rank UnsignedTransaction = 2"

definition intent_material_of :: "storage \<Rightarrow> bytes \<Rightarrow> intent_material option" where
  "intent_material_of db intent_id =
     (case sort_key (\<lambda>m. kind_rank (im_kind m)) (filter (\<lambda>m. im_intent_id m = intent_id) (db_materials db)) of
        [] \<Rightarrow> None | m # _ \<Rightarrow> Some m)"

definition list_intent_materials :: "storage \<Rightarrow> intent_material_kind \<Rightarrow> (storage_error, intent_material list) rresult" where
  "list_intent_materials db kind =
     rbind (list_transaction_intents_v2 db) (\<lambda>rows.
       Inr (concat (map (\<lambda>r. filter (\<lambda>m. im_intent_id m = it_id r \<and> im_kind m = kind) (db_materials db)) rows)))"

definition after_cursor :: "(i64 \<times> bytes) option \<Rightarrow> intent_row \<Rightarrow> bool" where
  "after_cursor cursor r = (case cursor of None \<Rightarrow> True | Some c \<Rightarrow> c < intent_order r)"

definition transaction_intents_v2_page ::
    "storage \<Rightarrow> tx_status \<Rightarrow> (i64 \<times> bytes) option \<Rightarrow> nat \<Rightarrow> (storage_error, intent_row list) rresult" where
  "transaction_intents_v2_page db status cursor limit =
     (if limit = 0 \<or> limit > 500 then Inl (InvalidV2Intent ''page limit must be between 1 and 500'')
      else rbind (metadata_in db) (\<lambda>md.
        Inr (take limit (sort_key intent_order
          (filter (\<lambda>r. current_v2 md r \<and> it_status r = status \<and> after_cursor cursor r) (db_intents db))))))"

definition transition_transaction_intent ::
    "storage_env \<Rightarrow> bytes \<Rightarrow> tx_status \<Rightarrow> tx_status \<Rightarrow> i64 \<Rightarrow> storage \<Rightarrow> unit storage_result" where
  "transition_transaction_intent J intent_id expected next now db =
     (if \<not> may_transition_to expected next
      then Inl (InvalidIntentTransition (tx_status_as_str expected) (tx_status_as_str next))
      else rbind (mutation_metadata db) (\<lambda>md.
        let current = (\<lambda>r. it_id r = intent_id \<and> it_wallet_id r = wm_wallet_id md \<and> it_epoch r = wm_epoch md);
            selected = (\<lambda>r. current r \<and> it_status r = expected)
        in if expected = TxApproved \<and> next = TxSigning \<and> list_ex (\<lambda>r. current r \<and> is_v2 r) (db_intents db)
           then Inl LegacyApiRejectedForV2
           else if sql_count selected (db_intents db) \<noteq> 1 then Inl IntentTransitionConflict
           else Inr ((), append_audit J md (''transaction_intent.'' @ tx_status_as_str next) (Some (SubjectId intent_id)) now
             (set_intent_status selected next now db))))"

section \<open>Paging\<close>

text \<open>
  Following the cursor of the last row of a page gives the next page: the rows after a cursor, in order.
\<close>

lemma sorted_after:
  fixes f :: "'a \<Rightarrow> 'b::linorder"
  assumes "sorted (map f xs)" and "distinct (map f xs)" and "n < length xs"
  shows "filter (\<lambda>x. f (xs ! n) < f x) xs = drop (Suc n) xs"
proof -
  have strict: "f (xs ! i) < f (xs ! j) \<longleftrightarrow> i < j" if "i < length xs" "j < length xs" for i j
    using assms(1,2) that
    by (metis length_map linorder_neqE_nat not_less_iff_gr_or_eq nth_map sorted_wrt_nth_less strict_sorted_iff)
  have "filter (\<lambda>x. f (xs ! n) < f x) (take (Suc n) xs) = []"
    using assms(3) by (auto simp: filter_empty_conv in_set_conv_nth strict)
  moreover have "filter (\<lambda>x. f (xs ! n) < f x) (drop (Suc n) xs) = drop (Suc n) xs"
    using assms(3) by (auto simp: filter_id_conv in_set_conv_nth strict)
  ultimately show ?thesis by (metis append_Nil append_take_drop_id filter_append)
qed

lemma distinct_intent_order: "distinct (map it_id t) \<Longrightarrow> distinct (map intent_order t)"
  by (auto simp: distinct_map intent_order_def inj_on_def)

lemma page_rows:
  assumes "db_metadata db = Some md" and "distinct (map it_id (db_intents db))" and "0 < limit" "limit \<le> 500"
    and rows: "rows = sort_key intent_order (filter (\<lambda>r. current_v2 md r \<and> it_status r = st) (db_intents db))"
  shows "transaction_intents_v2_page db st None limit = Inr (take limit rows)"
    and "n < length rows \<Longrightarrow> transaction_intents_v2_page db st (Some (intent_order (rows ! n))) limit = Inr (take limit (drop (Suc n) rows))"
proof -
  have page: "transaction_intents_v2_page db st c limit = Inr (take limit (filter (after_cursor c) rows))" for c
    using assms by (simp add: transaction_intents_v2_page_def metadata_in_def filter_sort conj_commute conj_left_commute)
  show "transaction_intents_v2_page db st None limit = Inr (take limit rows)"
    unfolding page by (simp add: after_cursor_def)
  have "distinct (map it_id (filter (\<lambda>r. current_v2 md r \<and> it_status r = st) (db_intents db)))"
    using assms(2) by (simp add: distinct_map_filter)
  then have d: "distinct (map intent_order rows)"
    unfolding rows distinct_map using distinct_intent_order [of "filter (\<lambda>r. current_v2 md r \<and> it_status r = st) (db_intents db)"]
    by (simp add: distinct_map)
  have s: "sorted (map intent_order rows)" unfolding rows by simp
  show "transaction_intents_v2_page db st (Some (intent_order (rows ! n))) limit = Inr (take limit (drop (Suc n) rows))"
    if "n < length rows"
    unfolding page using sorted_after [OF s d that] by (simp add: after_cursor_def [abs_def])
qed

end
