(* ===== verification/Storage_Credentials.thy ===== *)
theory Storage_Credentials
  imports Storage_Base
begin

text \<open>
  Credentials, the WebAuthn profile and opaque secret references
  (\<open>crates/wallet-storage/src/sqlite.rs\<close> and \<open>SecretRef\<close> of \<open>models.rs\<close>).
\<close>

section \<open>Legacy credentials\<close>

definition upsert_credential :: "storage_env \<Rightarrow> credential_metadata \<Rightarrow> storage \<Rightarrow> unit storage_result" where
  "upsert_credential J credential db =
     rbind (mutation_metadata db) (\<lambda>md.
     let key = cm_credential_id credential;
         prior = map_option cm_sign_count (List.find (\<lambda>r. cm_credential_id r = key) (db_credentials db))
     in if (case prior of None \<Rightarrow> False | Some n \<Rightarrow> cm_sign_count credential < n) then Inl CredentialCounterRollback
        else rbind (sql_u64 (cm_sign_count credential)) (\<lambda>_.
          let t = (if prior = None
                   then db_credentials db @ [credential_metadata.extend credential \<lparr>cm_wallet_id = wm_wallet_id md, cm_passkey = None\<rparr>]
                   else sql_update (\<lambda>r. cm_credential_id r = key)
                     (\<lambda>r. r\<lparr>cm_label := cm_label credential, cm_cose_public_key := cm_cose_public_key credential,
                       cm_sign_count := cm_sign_count credential, cm_updated_at := cm_updated_at credential\<rparr>) (db_credentials db))
          in Inr ((), append_audit J md ''credential.upserted'' (Some (SubjectText key)) (cm_updated_at credential)
            (db\<lparr>db_credentials := t\<rparr>))))"

definition credential_of :: "storage \<Rightarrow> string \<Rightarrow> credential_metadata option" where
  "credential_of db credential_id =
     map_option credential_metadata.truncate (List.find (\<lambda>r. cm_credential_id r = credential_id) (db_credentials db))"

section \<open>WebAuthn profile\<close>

definition set_webauthn_profile :: "storage_env \<Rightarrow> webauthn_profile \<Rightarrow> storage \<Rightarrow> unit storage_result" where
  "set_webauthn_profile J profile db =
     rbind (mutation_metadata db) (\<lambda>md.
     if wp_wallet_id profile \<noteq> wm_wallet_id md then Inl WebauthnProfileMismatch
     else rbind
       (case List.find (\<lambda>r. wp_wallet_id r = wm_wallet_id md) (db_webauthn db) of
          Some old \<Rightarrow>
            if wp_user_id old \<noteq> wp_user_id profile \<or> wp_rp_id old \<noteq> wp_rp_id profile
               \<or> wp_rp_origin old \<noteq> wp_rp_origin profile \<or> wp_record_version profile \<le> wp_record_version old
            then Inl WebauthnProfileMismatch
            else rbind (sql_u64 (wp_record_version profile)) (\<lambda>_.
              Inr (sql_update (\<lambda>r. wp_wallet_id r = wm_wallet_id md \<and> wp_record_version r = wp_record_version old)
                (\<lambda>r. r\<lparr>wp_record_version := wp_record_version profile, wp_updated_at := wp_updated_at profile\<rparr>) (db_webauthn db)))
        | None \<Rightarrow>
            if wp_record_version profile \<noteq> 1 \<or> wp_user_id profile = [] \<or> wp_rp_id profile = [] \<or> wp_rp_origin profile = []
            then Inl WebauthnProfileMismatch
            else Inr (db_webauthn db @ [profile]))
       (\<lambda>t. Inr ((), append_audit J md ''webauthn.profile_persisted'' (Some (SubjectId (wm_wallet_id md)))
         (wp_updated_at profile) (db\<lparr>db_webauthn := t\<rparr>))))"

definition webauthn_profile_of :: "storage \<Rightarrow> webauthn_profile option" where
  "webauthn_profile_of db = (case db_webauthn db of [] \<Rightarrow> None | p # _ \<Rightarrow> Some p)"

section \<open>Passkey records\<close>

text \<open>The trigger on active Passkey records.\<close>

definition passkey_check :: "storage_env \<Rightarrow> credential_row \<Rightarrow> bool" where
  "passkey_check J r = (case cm_passkey r of None \<Rightarrow> True | Some p \<Rightarrow>
     pk_state p = CredentialActive \<longrightarrow> json_valid J (pk_json p) \<and> pk_format p \<noteq> [] \<and> pk_record_version p > 0)"

definition insert_passkey_record :: "storage_env \<Rightarrow> new_passkey_record \<Rightarrow> storage \<Rightarrow> unit storage_result" where
  "insert_passkey_record J record db =
     (if np_credential_state record \<noteq> CredentialActive \<or> np_credential_id record = [] \<or> np_format record = []
         \<or> \<not> serde_valid J (np_passkey_json record)
      then Inl CredentialUnavailable
      else rbind (mutation_metadata db) (\<lambda>md.
        if \<not> list_ex (\<lambda>p. wp_wallet_id p = wm_wallet_id md) (db_webauthn db) then Inl WebauthnProfileMismatch
        else rbind (sql_insert (passkey_check J) (\<lambda>a b. cm_credential_id a = cm_credential_id b)
            \<lparr>cm_credential_id = np_credential_id record, cm_label = np_label record, cm_cose_public_key = [],
             cm_sign_count = 0, cm_enrolled_at = np_enrolled_at record, cm_updated_at = np_enrolled_at record,
             cm_wallet_id = wm_wallet_id md, cm_passkey = Some \<lparr>pk_json = np_passkey_json record,
               pk_format = np_format record, pk_record_version = 1, pk_state = np_credential_state record\<rparr>\<rparr>
            (db_credentials db)) (\<lambda>t.
          Inr ((), append_audit J md ''credential.passkey_enrolled'' (Some (SubjectText (np_credential_id record)))
            (np_enrolled_at record) (db\<lparr>db_credentials := t\<rparr>)))))"

definition active_at_version :: "string \<Rightarrow> u64 \<Rightarrow> credential_row \<Rightarrow> bool" where
  "active_at_version credential_id version r \<longleftrightarrow> cm_credential_id r = credential_id
     \<and> (case cm_passkey r of None \<Rightarrow> False | Some p \<Rightarrow> pk_state p = CredentialActive \<and> pk_record_version p = version)"

definition passkey_updated :: "string \<Rightarrow> i64 \<Rightarrow> credential_row \<Rightarrow> credential_row" where
  "passkey_updated json now r =
     r\<lparr>cm_passkey := map_option (\<lambda>p. p\<lparr>pk_json := json, pk_record_version := pk_record_version p + 1\<rparr>) (cm_passkey r),
       cm_updated_at := now\<rparr>"

text \<open>The new version of a record has to fit into an SQLite integer as well.\<close>

definition update_passkey_record_in ::
    "storage_env \<Rightarrow> string \<Rightarrow> u64 \<Rightarrow> string \<Rightarrow> i64 \<Rightarrow> storage \<Rightarrow> nat storage_result" where
  "update_passkey_record_in J credential_id version json now db =
     rbind (sql_u64 version) (\<lambda>_.
     let selected = active_at_version credential_id version;
         t = sql_update selected (passkey_updated json now) (db_credentials db)
     in if list_ex selected (db_credentials db) \<and> (\<not> json_valid J json \<or> unat version + 1 \<ge> 2 ^ 63)
        then Inl (Sqlite ConstraintViolation)
        else Inr (sql_count selected (db_credentials db), db\<lparr>db_credentials := t\<rparr>))"

definition update_passkey_record_cas ::
    "storage_env \<Rightarrow> string \<Rightarrow> u64 \<Rightarrow> string \<Rightarrow> i64 \<Rightarrow> storage \<Rightarrow> unit storage_result" where
  "update_passkey_record_cas J credential_id version json now db =
     (if \<not> serde_valid J json then Inl CredentialUnavailable
      else rbind (mutation_metadata db) (\<lambda>md.
        rbind (update_passkey_record_in J credential_id version json now db) (\<lambda>(changed, db).
          if changed \<noteq> 1 then Inl CredentialVersionConflict
          else Inr ((), append_audit J md ''credential.passkey_updated'' (Some (SubjectText credential_id)) now db))))"

definition is_active_passkey :: "credential_row \<Rightarrow> bool" where
  "is_active_passkey r = (case cm_passkey r of None \<Rightarrow> False | Some p \<Rightarrow> pk_state p = CredentialActive)"

definition passkey_record :: "storage \<Rightarrow> string \<Rightarrow> credential_row option" where
  "passkey_record db credential_id =
     List.find (\<lambda>r. cm_credential_id r = credential_id \<and> is_active_passkey r) (db_credentials db)"

definition list_passkey_records :: "storage \<Rightarrow> (storage_error, credential_row list) rresult" where
  "list_passkey_records db =
     rbind (metadata_in db) (\<lambda>md.
       Inr (sort_key (\<lambda>r. ascii (cm_credential_id r))
         (filter (\<lambda>r. cm_wallet_id r = wm_wallet_id md \<and> is_active_passkey r) (db_credentials db))))"

section \<open>Secret references\<close>

definition starts_with :: "string \<Rightarrow> string \<Rightarrow> bool" where
  "starts_with prefix s \<longleftrightarrow> take (length prefix) s = prefix"

definition secret_ref_new :: "bytes \<Rightarrow> secret_backend \<Rightarrow> string \<Rightarrow> i64 \<Rightarrow> (storage_error, secret_ref) rresult" where
  "secret_ref_new secret_id backend handle now =
     (if \<not> starts_with (required_prefix backend) handle \<or> length handle = length (required_prefix backend)
      then Inl (InvalidSecretHandle (secret_backend_as_str backend))
      else Inr \<lparr>sf_id = secret_id, sf_backend = backend, sf_handle = handle, sf_created_at = now, sf_updated_at = now\<rparr>)"

definition validate_secret_handle :: "secret_backend \<Rightarrow> string \<Rightarrow> (storage_error, unit) rresult" where
  "validate_secret_handle backend handle =
     (if starts_with (required_prefix backend) handle \<and> length handle > length (required_prefix backend)
      then Inr () else Inl (InvalidSecretHandle (secret_backend_as_str backend)))"

definition put_secret_ref :: "storage_env \<Rightarrow> secret_ref \<Rightarrow> storage \<Rightarrow> unit storage_result" where
  "put_secret_ref J secret db =
     rbind (validate_secret_handle (sf_backend secret) (sf_handle secret)) (\<lambda>_.
     rbind (mutation_metadata db) (\<lambda>md.
       let t = (if list_ex (\<lambda>r. sf_id r = sf_id secret) (db_secrets db)
                then sql_update (\<lambda>r. sf_id r = sf_id secret)
                  (\<lambda>r. r\<lparr>sf_backend := sf_backend secret, sf_handle := sf_handle secret, sf_updated_at := sf_updated_at secret\<rparr>)
                  (db_secrets db)
                else db_secrets db @ [secret_ref.extend secret \<lparr>sf_wallet_id = wm_wallet_id md\<rparr>])
       in Inr ((), append_audit J md ''secret_ref.upserted'' (Some (SubjectId (sf_id secret))) (sf_updated_at secret)
         (db\<lparr>db_secrets := t\<rparr>))))"

definition secret_ref_of :: "storage \<Rightarrow> bytes \<Rightarrow> secret_ref option" where
  "secret_ref_of db secret_id = map_option secret_ref.truncate (List.find (\<lambda>r. sf_id r = secret_id) (db_secrets db))"

text \<open>Both handle checks accept the same handles.\<close>

lemma secret_handle_checks_agree:
  "is_ok (secret_ref_new i b h now) \<longleftrightarrow> is_ok (validate_secret_handle b h)"
  by (auto simp: secret_ref_new_def validate_secret_handle_def starts_with_def is_ok_def split: if_splits)
    (metis length_take less_le min.absorb_iff2 min.commute)+

end
