(* ===== verification/Storage_Approvals.thy ===== *)
theory Storage_Approvals
  imports Storage_Intents Storage_Credentials
begin

text \<open>
  Approval ceremonies, one-time authorizations and nonce claims (\<open>crates/wallet-storage/src/sqlite.rs\<close>):
  starting and completing a ceremony, issuing the authorization, and consuming it together with the claim
  of a nonce fingerprint.
\<close>

section \<open>Tables\<close>

abbreviation cy_id :: "ceremony_row \<Rightarrow> bytes" where "cy_id r \<equiv> ce_id (cy_ceremony r)"
abbreviation cy_intent_id :: "ceremony_row \<Rightarrow> bytes" where "cy_intent_id r \<equiv> ce_intent_id (cy_ceremony r)"
abbreviation nc_fingerprint :: "nonce_row \<Rightarrow> bytes" where "nc_fingerprint r \<equiv> nn_fingerprint (nc_claim r)"

definition ceremony_check :: "storage \<Rightarrow> ceremony_row \<Rightarrow> bool" where
  "ceremony_check db r \<longleftrightarrow> cy_epoch r > 0 \<and> ce_expires_at (cy_ceremony r) > ce_started_at (cy_ceremony r)
     \<and> (case transaction_intent db (cy_intent_id r) of
          None \<Rightarrow> False
        | Some intent \<Rightarrow> is_v2 intent \<longrightarrow>
            (case cy_passkey r of None \<Rightarrow> False | Some (credential, digest) \<Rightarrow> is_array 32 digest \<and> credential \<noteq> []))"

definition insert_ceremony :: "ceremony_row \<Rightarrow> storage \<Rightarrow> (storage_error, storage) rresult" where
  "insert_ceremony row db =
     rbind (sql_insert (ceremony_check db) (\<lambda>a b. cy_id a = cy_id b) row (db_ceremonies db))
       (\<lambda>t. Inr (db\<lparr>db_ceremonies := t\<rparr>))"

definition authorization_check :: "authorization_row \<Rightarrow> bool" where
  "authorization_check r \<longleftrightarrow> az_epoch r > 0 \<and> is_array 32 (az_binding_digest r)"

definition insert_authorization :: "authorization_row \<Rightarrow> storage \<Rightarrow> (storage_error, storage) rresult" where
  "insert_authorization row db =
     rbind (sql_insert authorization_check (\<lambda>a b. az_id a = az_id b \<or> az_intent_id a = az_intent_id b) row (db_authorizations db))
       (\<lambda>t. Inr (db\<lparr>db_authorizations := t\<rparr>))"

definition nonce_binding_check :: "storage \<Rightarrow> nonce_row \<Rightarrow> bool" where
  "nonce_binding_check db r = (case nc_binding r of
       None \<Rightarrow> True
     | Some (authorization_id, intent_id, signer_id) \<Rightarrow> signer_id \<noteq> []
         \<and> list_ex (\<lambda>a. az_id a = authorization_id \<and> az_wallet_id a = nc_wallet_id r \<and> az_epoch a = nc_epoch r
             \<and> az_intent_id a = intent_id) (db_authorizations db)
         \<and> list_ex (\<lambda>i. it_id i = intent_id \<and> it_wallet_id i = nc_wallet_id r \<and> it_epoch i = nc_epoch r
             \<and> map_option v2_signer_id (it_v2 i) = Some signer_id
             \<and> ni_session_id (it_intent i) = nn_session_id (nc_claim r)) (db_intents db))"

definition nonce_check :: "storage \<Rightarrow> nonce_row \<Rightarrow> bool" where
  "nonce_check db r \<longleftrightarrow> nc_epoch r > 0 \<and> is_array 32 (nc_fingerprint r) \<and> is_array 32 (nn_session_id (nc_claim r))
     \<and> nonce_binding_check db r"

definition insert_nonce :: "nonce_row \<Rightarrow> storage \<Rightarrow> (storage_error, storage) rresult" where
  "insert_nonce row db =
     rbind (sql_insert (nonce_check db) (\<lambda>a b. nc_fingerprint a = nc_fingerprint b) row (db_nonces db))
       (\<lambda>t. Inr (db\<lparr>db_nonces := t\<rparr>))"

definition usable :: "i64 \<Rightarrow> authorization_row \<Rightarrow> bool" where
  "usable now a \<longleftrightarrow> az_consumed_at a = None \<and> az_invalidated_at a = None \<and> az_expires_at a \<ge> now"

text \<open>The update that consumes an authorization; it has to change exactly one row.\<close>

definition consume_where :: "(authorization_row \<Rightarrow> bool) \<Rightarrow> i64 \<Rightarrow> storage \<Rightarrow> (storage_error, storage) rresult" where
  "consume_where p now db =
     (let selected = (\<lambda>a. p a \<and> usable now a) in
      if sql_count selected (db_authorizations db) \<noteq> 1 then Inl AuthorizationUnavailable
      else Inr (db\<lparr>db_authorizations := sql_update selected (\<lambda>a. a\<lparr>az_consumed_at := Some now\<rparr>) (db_authorizations db)\<rparr>))"

definition complete_ceremony_where :: "bytes \<Rightarrow> u64 \<Rightarrow> i64 \<Rightarrow> ceremony_row \<Rightarrow> bool" where
  "complete_ceremony_where ceremony_id epoch now c \<longleftrightarrow> cy_id c = ceremony_id \<and> cy_epoch c = epoch
     \<and> cy_completed_at c = None \<and> cy_invalidated_at c = None \<and> ce_expires_at (cy_ceremony c) \<ge> now"

definition set_completed :: "(ceremony_row \<Rightarrow> bool) \<Rightarrow> i64 \<Rightarrow> storage \<Rightarrow> storage" where
  "set_completed p now db =
     db\<lparr>db_ceremonies := sql_update p (\<lambda>c. c\<lparr>cy_completed_at := Some now\<rparr>) (db_ceremonies db)\<rparr>"

section \<open>Ceremonies\<close>

definition pending_intent_facts :: "storage \<Rightarrow> bytes \<Rightarrow> u64 \<Rightarrow> i64 \<Rightarrow> (storage_error, i64 \<times> bytes) rresult" where
  "pending_intent_facts db intent_id current_epoch now =
     rbind (ok_or IntentNotApprovable (List.find (\<lambda>r. it_id r = intent_id \<and> it_epoch r = current_epoch) (db_intents db))) (\<lambda>r.
       if it_status r \<noteq> TxPending then Inl IntentNotApprovable
       else if now > ni_expires_at (it_intent r) then Inl IntentExpiredError
       else Inr (ni_expires_at (it_intent r), ni_policy_hash (it_intent r)))"

definition check_ceremony_times :: "new_approval_ceremony \<Rightarrow> i64 \<Rightarrow> (storage_error, unit) rresult" where
  "check_ceremony_times c intent_expires_at =
     (if ce_expires_at c \<le> ce_started_at c then Inl ApprovalCeremonyExpired
      else if ce_expires_at c > intent_expires_at then Inl ApprovalCeremonyExceedsIntentExpiry else Inr ())"

definition begin_approval_ceremony_atomic :: "storage_env \<Rightarrow> new_approval_ceremony \<Rightarrow> storage \<Rightarrow> unit storage_result" where
  "begin_approval_ceremony_atomic J c db =
     rbind (mutation_metadata db) (\<lambda>md.
     rbind (pending_intent_facts db (ce_intent_id c) (wm_epoch md) (ce_started_at c)) (\<lambda>(intent_expires_at, _).
     rbind (check_ceremony_times c intent_expires_at) (\<lambda>_.
     rbind (insert_ceremony \<lparr>cy_ceremony = c, cy_wallet_id = wm_wallet_id md, cy_epoch = wm_epoch md, cy_passkey = None,
         cy_completed_at = None, cy_invalidated_at = None\<rparr> db) (\<lambda>db.
       Inr ((), append_audit J md ''approval_ceremony.started'' (Some (SubjectId (ce_id c))) (ce_started_at c) db)))))"

definition begin_passkey_approval :: "storage_env \<Rightarrow> new_passkey_ceremony \<Rightarrow> storage \<Rightarrow> unit storage_result" where
  "begin_passkey_approval J c db =
     rbind (mutation_metadata db) (\<lambda>md.
     rbind (pending_intent_facts db (ce_intent_id c) (wm_epoch md) (ce_started_at c)) (\<lambda>(intent_expires_at, policy_hash).
     rbind (check_ceremony_times (new_approval_ceremony.truncate c) intent_expires_at) (\<lambda>_.
     if \<not> list_ex (\<lambda>r. cm_credential_id r = ce_credential_id c \<and> cm_wallet_id r = wm_wallet_id md \<and> is_active_passkey r)
          (db_credentials db)
     then Inl CredentialUnavailable
     else rbind (insert_ceremony \<lparr>cy_ceremony = new_approval_ceremony.truncate c, cy_wallet_id = wm_wallet_id md,
         cy_epoch = wm_epoch md, cy_passkey = Some (ce_credential_id c, ce_binding_digest c),
         cy_completed_at = None, cy_invalidated_at = None\<rparr> db) (\<lambda>db.
       Inr ((), append_audit_with_context md ''approval.passkey_started'' (Some (SubjectId (ce_id c))) (ce_started_at c)
         (Some (ce_intent_id c)) (Some policy_hash) (default_context J) db)))))"

definition approval_ceremony :: "storage \<Rightarrow> bytes \<Rightarrow> ceremony_row option" where
  "approval_ceremony db ceremony_id = List.find (\<lambda>c. cy_id c = ceremony_id) (db_ceremonies db)"

section \<open>Issuing authorizations\<close>

definition check_authorization_times :: "approval_decision \<Rightarrow> i64 \<Rightarrow> (storage_error, unit) rresult" where
  "check_authorization_times d intent_expires_at =
     (if ad_authorization_expires_at d < ad_approved_at d then Inl AuthorizationExpiresBeforeApproval
      else if ad_authorization_expires_at d > intent_expires_at then Inl AuthorizationExceedsIntentExpiry else Inr ())"

definition new_authorization :: "wallet_metadata \<Rightarrow> approval_decision \<Rightarrow> bytes \<Rightarrow> authorization_row" where
  "new_authorization md d intent_id =
     \<lparr>az_id = ad_authorization_id d, az_wallet_id = wm_wallet_id md, az_intent_id = intent_id, az_epoch = wm_epoch md,
      az_binding_digest = ad_binding_digest d, az_expires_at = ad_authorization_expires_at d,
      az_issued_at = ad_approved_at d, az_consumed_at = None, az_invalidated_at = None\<rparr>"

definition approve_and_issue_authorization ::
    "approval_decision \<Rightarrow> audit_context \<Rightarrow> storage \<Rightarrow> unit storage_result" where
  "approve_and_issue_authorization d context db =
     rbind (mutation_metadata db) (\<lambda>md.
     rbind (ok_or ApprovalCeremonyUnavailable (approval_ceremony db (ad_ceremony_id d))) (\<lambda>c.
     rbind (ok_or ApprovalCeremonyUnavailable (transaction_intent db (cy_intent_id c))) (\<lambda>intent.
     if is_v2 intent then Inl LegacyApiRejectedForV2
     else if list_ex (\<lambda>a. az_intent_id a = cy_intent_id c) (db_authorizations db) then Inl AuthorizationAlreadyExists
     else if cy_epoch c \<noteq> wm_epoch md \<or> cy_completed_at c \<noteq> None \<or> cy_invalidated_at c \<noteq> None
     then Inl ApprovalCeremonyUnavailable
     else rbind (pending_intent_facts db (cy_intent_id c) (wm_epoch md) (ad_approved_at d)) (\<lambda>(intent_expires_at, policy_hash).
     if ad_approved_at d > ce_expires_at (cy_ceremony c) then Inl ApprovalCeremonyExpired
     else rbind (check_authorization_times d intent_expires_at) (\<lambda>_.
     let ceremony = complete_ceremony_where (ad_ceremony_id d) (wm_epoch md) (ad_approved_at d);
         pending = (\<lambda>r. it_id r = cy_intent_id c \<and> it_epoch r = wm_epoch md \<and> it_status r = TxPending)
     in if sql_count ceremony (db_ceremonies db) \<noteq> 1 \<or> sql_count pending (db_intents db) \<noteq> 1 then Inl IntentNotApprovable
        else rbind (on_constraint AuthorizationAlreadyExists (insert_authorization (new_authorization md d (cy_intent_id c))
            (set_intent_status pending TxApproved (ad_approved_at d) (set_completed ceremony (ad_approved_at d) db)))) (\<lambda>db.
          Inr ((), append_audit_with_context md ''approval.completed'' (Some (SubjectId (ad_ceremony_id d)))
            (ad_approved_at d) (Some (cy_intent_id c)) (Some policy_hash) context db)))))))"

definition complete_passkey_approval_atomic ::
    "storage_env \<Rightarrow> passkey_completion \<Rightarrow> storage \<Rightarrow> authorization_row storage_result" where
  "complete_passkey_approval_atomic J d db =
     (if \<not> serde_valid J (pc_updated_passkey_json d) then Inl CredentialUnavailable
      else rbind (mutation_metadata db) (\<lambda>md.
      if \<not> list_ex (\<lambda>p. wp_wallet_id p = wm_wallet_id md \<and> wp_rp_id p = pc_rp_id d \<and> wp_rp_origin p = pc_rp_origin d) (db_webauthn db)
      then Inl WebauthnProfileMismatch
      else rbind (ok_or ApprovalCeremonyUnavailable (approval_ceremony db (ad_ceremony_id d))) (\<lambda>c.
      rbind (ok_or (Sqlite ConversionFailure) (cy_passkey c)) (\<lambda>(credential_id, digest).
      if cy_intent_id c \<noteq> pc_intent_id d \<or> cy_epoch c \<noteq> wm_epoch md \<or> cy_completed_at c \<noteq> None \<or> cy_invalidated_at c \<noteq> None
      then Inl ApprovalCeremonyUnavailable
      else if digest \<noteq> ad_binding_digest d \<or> credential_id \<noteq> pc_credential_id d then Inl ApprovalBindingMismatch
      else if ad_approved_at d > ce_expires_at (cy_ceremony c) then Inl ApprovalCeremonyExpired
      else rbind (pending_intent_facts db (pc_intent_id d) (wm_epoch md) (ad_approved_at d)) (\<lambda>(intent_expires_at, policy_hash).
      rbind (check_authorization_times (approval_decision.truncate d) intent_expires_at) (\<lambda>_.
      rbind (update_passkey_record_in J (pc_credential_id d) (pc_expected_record_version d) (pc_updated_passkey_json d)
          (ad_approved_at d) db) (\<lambda>(changed, db).
      if changed \<noteq> 1 then Inl CredentialVersionConflict
      else let ceremony = complete_ceremony_where (ad_ceremony_id d) (wm_epoch md) (ad_approved_at d);
               pending = (\<lambda>r. it_id r = pc_intent_id d \<and> it_epoch r = wm_epoch md \<and> it_status r = TxPending \<and> is_v2 r)
      in if sql_count ceremony (db_ceremonies db) \<noteq> 1 then Inl ApprovalCeremonyUnavailable
         else if sql_count pending (db_intents db) \<noteq> 1 then Inl IntentNotApprovable
         else let authorization = new_authorization md (approval_decision.truncate d) (pc_intent_id d)
         in rbind (on_constraint AuthorizationAlreadyExists (insert_authorization authorization
              (set_intent_status pending TxApproved (ad_approved_at d) (set_completed ceremony (ad_approved_at d) db)))) (\<lambda>db.
            Inr (authorization, append_audit_with_context md ''approval.passkey_completed'' (Some (SubjectId (ad_ceremony_id d)))
              (ad_approved_at d) (Some (pc_intent_id d)) (Some policy_hash) (default_context J) db)))))))))"

section \<open>Reading authorizations and nonces\<close>

definition available_authorization :: "storage \<Rightarrow> bytes \<Rightarrow> i64 \<Rightarrow> (storage_error, authorization_row option) rresult" where
  "available_authorization db intent_id now =
     rbind (metadata_in db) (\<lambda>md.
       Inr (List.find (\<lambda>a. az_wallet_id a = wm_wallet_id md \<and> az_epoch a = wm_epoch md \<and> az_intent_id a = intent_id
         \<and> usable now a) (db_authorizations db)))"

definition list_available_authorizations :: "storage \<Rightarrow> i64 \<Rightarrow> (storage_error, authorization_row list) rresult" where
  "list_available_authorizations db now =
     rbind (metadata_in db) (\<lambda>md.
       Inr (sort_key (\<lambda>a. (az_issued_at a, az_id a))
         (filter (\<lambda>a. az_wallet_id a = wm_wallet_id md \<and> az_epoch a = wm_epoch md \<and> usable now a) (db_authorizations db))))"

definition nonce_claim :: "storage \<Rightarrow> bytes \<Rightarrow> nonce_row option" where
  "nonce_claim db fp = List.find (\<lambda>n. nc_fingerprint n = fp) (db_nonces db)"

definition list_nonce_claims :: "storage \<Rightarrow> (storage_error, nonce_row list) rresult" where
  "list_nonce_claims db =
     rbind (metadata_in db) (\<lambda>md.
       Inr (sort_key (\<lambda>n. (nn_claimed_at (nc_claim n), nc_fingerprint n))
         (filter (\<lambda>n. nc_wallet_id n = wm_wallet_id md \<and> nc_epoch n = wm_epoch md) (db_nonces db))))"

section \<open>Consuming authorizations\<close>

definition consume_authorization :: "storage_env \<Rightarrow> bytes \<Rightarrow> u64 \<Rightarrow> i64 \<Rightarrow> storage \<Rightarrow> unit storage_result" where
  "consume_authorization J authorization_id epoch now db =
     rbind (mutation_metadata db) (\<lambda>md.
     if epoch \<noteq> wm_epoch md then Inl (StaleEpoch (wm_epoch md) epoch)
     else if list_ex (\<lambda>a. az_id a = authorization_id \<and> az_epoch a = epoch
          \<and> list_ex (\<lambda>i. it_id i = az_intent_id a \<and> is_v2 i) (db_intents db)) (db_authorizations db)
     then Inl LegacyApiRejectedForV2
     else rbind (consume_where (\<lambda>a. az_id a = authorization_id \<and> az_epoch a = epoch) now db) (\<lambda>db.
       Inr ((), append_audit J md ''authorization.consumed'' (Some (SubjectId authorization_id)) now db)))"

definition claim_nonce :: "storage_env \<Rightarrow> new_nonce_claim \<Rightarrow> storage \<Rightarrow> unit storage_result" where
  "claim_nonce J c db =
     rbind (mutation_metadata db) (\<lambda>md.
     rbind (on_constraint NonceAlreadyClaimed (insert_nonce \<lparr>nc_claim = c, nc_wallet_id = wm_wallet_id md,
         nc_epoch = wm_epoch md, nc_binding = None, nc_invalidated_at = None\<rparr> db)) (\<lambda>db.
       Inr ((), append_audit J md ''nonce.claimed'' None (nn_claimed_at c) db)))"

text \<open>
  The last three statements of every operation that starts signing: consume the authorization, claim the
  fingerprint for it, and move the approved intent to signing.
\<close>

definition start_signing ::
    "wallet_metadata \<Rightarrow> (authorization_row \<Rightarrow> bool) \<Rightarrow> (storage_error \<Rightarrow> storage_error) \<Rightarrow> bytes \<Rightarrow> bytes \<Rightarrow> bytes \<Rightarrow> bytes \<Rightarrow> string \<Rightarrow>
     (intent_row \<Rightarrow> bool) \<Rightarrow> i64 \<Rightarrow> storage \<Rightarrow> (storage_error, storage) rresult" where
  "start_signing md p on_claim fp session_id authorization_id intent_id signer_id q now db =
     rbind (consume_where p now db) (\<lambda>db.
     rbind (map_err on_claim (insert_nonce
         \<lparr>nc_claim = \<lparr>nn_fingerprint = fp, nn_session_id = session_id, nn_claimed_at = now\<rparr>,
          nc_wallet_id = wm_wallet_id md, nc_epoch = wm_epoch md,
          nc_binding = Some (authorization_id, intent_id, signer_id), nc_invalidated_at = None\<rparr> db)) (\<lambda>db.
     let approved = (\<lambda>r. it_id r = intent_id \<and> q r \<and> it_epoch r = wm_epoch md \<and> it_status r = TxApproved \<and> is_v2 r)
     in if sql_count approved (db_intents db) \<noteq> 1 then Inl IntentTransitionConflict
        else Inr (set_intent_status approved TxSigning now db)))"

definition claim_error :: "storage_error \<Rightarrow> storage_error" where
  "claim_error e = (if e = Sqlite ConstraintViolation then NonceAlreadyClaimed else e)"

definition consume_authorization_and_claim_frost_nonce ::
    "storage_env \<Rightarrow> frost_nonce_claim \<Rightarrow> storage \<Rightarrow> unit storage_result" where
  "consume_authorization_and_claim_frost_nonce J c db =
     rbind (mutation_metadata db) (\<lambda>md.
     rbind (ok_or AuthorizationUnavailable (List.find (\<lambda>a. az_id a = fc_authorization_id c \<and> az_wallet_id a = wm_wallet_id md
         \<and> az_epoch a = wm_epoch md) (db_authorizations db))) (\<lambda>a.
     if az_intent_id a \<noteq> fc_intent_id c \<or> \<not> usable (nn_claimed_at c) a then Inl AuthorizationUnavailable
     else rbind (ok_or IntentTransitionConflict (List.find (\<lambda>r. it_id r = fc_intent_id c \<and> it_wallet_id r = wm_wallet_id md
         \<and> it_epoch r = wm_epoch md \<and> is_v2 r) (db_intents db))) (\<lambda>intent.
     if map_option v2_signer_id (it_v2 intent) \<noteq> Some (fc_signer_id c) \<or> ni_session_id (it_intent intent) \<noteq> nn_session_id c
        \<or> it_status intent \<noteq> TxApproved
     then Inl IntentTransitionConflict
     else rbind (start_signing md (\<lambda>a. az_id a = fc_authorization_id c \<and> az_epoch a = wm_epoch md) claim_error
         (nn_fingerprint c) (nn_session_id c) (fc_authorization_id c) (fc_intent_id c) (fc_signer_id c) (\<lambda>_. True)
         (nn_claimed_at c) db) (\<lambda>db.
       Inr ((), append_audit_with_context md ''authorization.consumed_nonce_claimed'' (Some (SubjectId (fc_authorization_id c)))
         (nn_claimed_at c) (Some (fc_intent_id c)) None (default_context J) db)))))"

end
