(* ===== verification/Storage_Signers.thy ===== *)
theory Storage_Signers
  imports Storage_Credentials "HOL-Library.Product_Lexorder"
begin

text \<open>
  Signer profiles, address bindings and the signer catalog (\<open>crates/wallet-storage/src/sqlite.rs\<close>).
  A nil \<open>Uuid\<close> is 16 zero bytes.
\<close>

definition nil_uuid :: bytes where "nil_uuid = replicate 16 0"

section \<open>Tables\<close>

definition profile_check :: "storage \<Rightarrow> new_signer_profile \<Rightarrow> bool" where
  "profile_check db p \<longleftrightarrow> 1 \<le> length (sp_signer_set_id p) \<and> length (sp_signer_set_id p) \<le> 128
     \<and> 1 \<le> length (sp_authorization_signer_id p) \<and> length (sp_authorization_signer_id p) \<le> 128
     \<and> sp_signer_epoch p > 0 \<and> sp_threshold p > 0 \<and> sp_max_signers p \<ge> sp_threshold p
     \<and> 1 \<le> length (sp_verification_key p) \<and> length (sp_verification_key p) \<le> 256
     \<and> list_ex (\<lambda>s. sf_id s = sp_secret_ref_id p) (db_secrets db)"

definition profile_clash :: "new_signer_profile \<Rightarrow> new_signer_profile \<Rightarrow> bool" where
  "profile_clash p q \<longleftrightarrow> sp_profile_id p = sp_profile_id q
     \<or> (sp_wallet_id p = sp_wallet_id q \<and> sp_chain_scope p = sp_chain_scope q \<and> sp_signing_suite_id p = sp_signing_suite_id q
        \<and> sp_signer_set_id p = sp_signer_set_id q \<and> sp_signer_epoch p = sp_signer_epoch q)"

definition insert_profile :: "new_signer_profile \<Rightarrow> storage \<Rightarrow> (storage_error, storage) rresult" where
  "insert_profile p db =
     rbind (sql_u64 (sp_signer_epoch p)) (\<lambda>_.
     rbind (sql_insert (profile_check db) profile_clash p (db_profiles db)) (\<lambda>t. Inr (db\<lparr>db_profiles := t\<rparr>)))"

definition binding_check :: "storage \<Rightarrow> new_address_binding \<Rightarrow> bool" where
  "binding_check db b \<longleftrightarrow> 1 \<le> length (sa_address b) \<and> length (sa_address b) \<le> 512 \<and> is_array 32 (sa_verification_key_digest b)
     \<and> list_ex (\<lambda>p. sp_profile_id p = sa_profile_id b) (db_profiles db)"

definition insert_binding :: "new_address_binding \<Rightarrow> storage \<Rightarrow> (storage_error, storage) rresult" where
  "insert_binding b db =
     rbind (sql_insert (binding_check db)
         (\<lambda>x y. sa_binding_id x = sa_binding_id y \<or> (sa_profile_id x = sa_profile_id y \<and> sa_address x = sa_address y)) b (db_bindings db))
       (\<lambda>t. Inr (db\<lparr>db_bindings := t\<rparr>))"

definition insert_secret :: "wallet_metadata \<Rightarrow> secret_ref \<Rightarrow> storage \<Rightarrow> (storage_error, storage) rresult" where
  "insert_secret md s db =
     rbind (sql_insert (\<lambda>r. is_ok (validate_secret_handle (sf_backend r) (sf_handle r))) (\<lambda>a b. sf_id a = sf_id b)
         (secret_ref.extend s \<lparr>sf_wallet_id = wm_wallet_id md\<rparr>) (db_secrets db)) (\<lambda>t. Inr (db\<lparr>db_secrets := t\<rparr>))"

section \<open>Profiles and bindings\<close>

definition validate_new_signer_profile :: "new_signer_profile \<Rightarrow> (storage_error, unit) rresult" where
  "validate_new_signer_profile p =
     rbind (map_err (\<lambda>_. InvalidSignerProfile) (require_executable_suite (sp_chain_scope p) (sp_signing_suite_id p))) (\<lambda>descriptor.
       if sd_backend_requirement descriptor \<noteq> sp_backend_requirement p \<or> sp_signer_set_id p = [] \<or> length (sp_signer_set_id p) > 128
          \<or> sp_authorization_signer_id p = [] \<or> length (sp_authorization_signer_id p) > 128 \<or> sp_signer_epoch p = 0
          \<or> sp_threshold p = 0 \<or> sp_threshold p > sp_max_signers p \<or> sp_verification_key p = [] \<or> length (sp_verification_key p) > 256
       then Inl InvalidSignerProfile else Inr ())"

definition register_signer_profile :: "storage_env \<Rightarrow> new_signer_profile \<Rightarrow> storage \<Rightarrow> unit storage_result" where
  "register_signer_profile J p db =
     rbind (validate_new_signer_profile p) (\<lambda>_.
     rbind (mutation_metadata db) (\<lambda>md.
     if wm_wallet_id md \<noteq> sp_wallet_id p then Inl InvalidSignerProfile
     else if map_option sf_wallet_id (List.find (\<lambda>s. sf_id s = sp_secret_ref_id p) (db_secrets db)) \<noteq> Some (wm_wallet_id md)
     then Inl InvalidSignerProfile
     else rbind (on_constraint (ImmutableConflict ''signer_profile'') (insert_profile p db)) (\<lambda>db.
       Inr ((), append_audit J md ''signer_profile.registered'' (Some (SubjectId (sp_profile_id p))) (sp_created_at p) db))))"

definition signer_profile :: "storage \<Rightarrow> bytes \<Rightarrow> new_signer_profile option" where
  "signer_profile db profile_id = List.find (\<lambda>p. sp_profile_id p = profile_id) (db_profiles db)"

definition bind_signer_address :: "bitcoin_env \<Rightarrow> storage_env \<Rightarrow> new_address_binding \<Rightarrow> storage \<Rightarrow> unit storage_result" where
  "bind_signer_address E J b db =
     (if sa_address b = [] \<or> length (sa_address b) > 512 then Inl InvalidSignerProfile
      else rbind (mutation_metadata db) (\<lambda>md.
      rbind (ok_or InvalidSignerProfile (List.find (\<lambda>p. sp_profile_id p = sa_profile_id b \<and> sp_wallet_id p = wm_wallet_id md)
          (db_profiles db))) (\<lambda>p.
      if sp_chain_scope p \<noteq> sa_chain_scope b \<or> sa_verification_key_digest b \<noteq> sha256 E (sp_verification_key p)
      then Inl InvalidSignerProfile
      else rbind (on_constraint (ImmutableConflict ''signer_address_binding'') (insert_binding b db)) (\<lambda>db.
        Inr ((), append_audit J md ''signer_address.bound'' (Some (SubjectId (sa_binding_id b))) (sa_created_at b) db)))))"

definition binding_order :: "new_address_binding \<Rightarrow> i64 \<times> bytes" where
  "binding_order b = (sa_created_at b, sa_binding_id b)"

definition address_bindings :: "storage \<Rightarrow> bytes \<Rightarrow> new_address_binding list" where
  "address_bindings db profile_id =
     sort_key binding_order (filter (\<lambda>b. sa_profile_id b = profile_id) (db_bindings db))"

section \<open>The catalog\<close>

text \<open>
  The profiles of the wallet whose secret reference belongs to the wallet too, in order, each with its handle
  and its bindings.
\<close>

definition signer_profile_inventory :: "storage \<Rightarrow> bytes \<Rightarrow> (storage_error, signer_inventory list) rresult" where
  "signer_profile_inventory db wallet_id =
     rbind (metadata_in db) (\<lambda>md.
     if wallet_id \<noteq> wm_wallet_id md then Inl InvalidSignerProfile
     else Inr (concat (map (\<lambda>p.
         map (\<lambda>s. \<lparr>si_profile = p, si_secret_ref = sf_handle s, si_address_bindings = address_bindings db (sp_profile_id p)\<rparr>)
           (filter (\<lambda>s. sf_id s = sp_secret_ref_id p \<and> sf_wallet_id s = sp_wallet_id p) (db_secrets db)))
       (sort_key (\<lambda>p. (sp_created_at p, sp_profile_id p)) (filter (\<lambda>p. sp_wallet_id p = wallet_id) (db_profiles db))))))"

fun check_catalog_bindings ::
    "bitcoin_env \<Rightarrow> new_signer_profile \<Rightarrow> bytes set \<Rightarrow> new_address_binding list \<Rightarrow> (storage_error, bytes set) rresult" where
  "check_catalog_bindings E p binding_ids [] = Inr binding_ids"
| "check_catalog_bindings E p binding_ids (b # bs) =
     (if sa_binding_id b = nil_uuid \<or> sa_profile_id b \<noteq> sp_profile_id p \<or> sa_chain_scope b \<noteq> sp_chain_scope p
         \<or> sa_address b = [] \<or> length (sa_address b) > 512 \<or> sa_verification_key_digest b \<noteq> sha256 E (sp_verification_key p)
         \<or> sa_binding_id b \<in> binding_ids
      then Inl InvalidSignerProfile else check_catalog_bindings E p (insert (sa_binding_id b) binding_ids) bs)"

text \<open>The loop over the entries; \<open>seen\<close> are the earlier entries, whose keys the hash sets hold.\<close>

fun check_catalog ::
    "bitcoin_env \<Rightarrow> bytes \<Rightarrow> signer_catalog_entry list \<Rightarrow> bytes set \<Rightarrow> signer_catalog_entry list \<Rightarrow> (storage_error, unit) rresult" where
  "check_catalog E wallet_id seen binding_ids [] = Inr ()"
| "check_catalog E wallet_id seen binding_ids (entry # entries) =
     rbind (validate_secret_handle (sf_backend (sc_secret_ref entry)) (sf_handle (sc_secret_ref entry))) (\<lambda>_.
     rbind (validate_new_signer_profile (sc_profile entry)) (\<lambda>_.
     if sf_id (sc_secret_ref entry) = nil_uuid \<or> sp_profile_id (sc_profile entry) = nil_uuid
        \<or> sp_wallet_id (sc_profile entry) \<noteq> wallet_id \<or> sp_secret_ref_id (sc_profile entry) \<noteq> sf_id (sc_secret_ref entry)
        \<or> sc_address_bindings entry = []
        \<or> list_ex (\<lambda>e. sf_id (sc_secret_ref e) = sf_id (sc_secret_ref entry)) seen
        \<or> list_ex (\<lambda>e. sf_handle (sc_secret_ref e) = sf_handle (sc_secret_ref entry)) seen
        \<or> list_ex (\<lambda>e. sp_profile_id (sc_profile e) = sp_profile_id (sc_profile entry)) seen
        \<or> list_ex (\<lambda>e. sp_signer_set_id (sc_profile e) = sp_signer_set_id (sc_profile entry)) seen
        \<or> list_ex (\<lambda>e. sp_verification_key (sc_profile e) = sp_verification_key (sc_profile entry)) seen
        \<or> list_ex (\<lambda>e. sp_chain_scope (sc_profile e) = sp_chain_scope (sc_profile entry)) seen
     then Inl InvalidSignerProfile
     else rbind (check_catalog_bindings E (sc_profile entry) binding_ids (sc_address_bindings entry)) (\<lambda>binding_ids.
       check_catalog E wallet_id (seen @ [entry]) binding_ids entries)))"

definition validate_signer_catalog ::
    "bitcoin_env \<Rightarrow> signer_catalog_entry list \<Rightarrow> bytes \<Rightarrow> (storage_error, unit) rresult" where
  "validate_signer_catalog E catalog wallet_id =
     (if catalog = [] then Inl InvalidSignerProfile else check_catalog E wallet_id [] {} catalog)"

definition catalog_entry_matches :: "storage \<Rightarrow> signer_inventory list \<Rightarrow> signer_catalog_entry \<Rightarrow> bool" where
  "catalog_entry_matches db existing entry =
     (case List.find (\<lambda>stored. sp_profile_id (si_profile stored) = sp_profile_id (sc_profile entry)) existing of
        None \<Rightarrow> False
      | Some stored \<Rightarrow> si_profile stored = sc_profile entry \<and> si_secret_ref stored = sf_handle (sc_secret_ref entry)
          \<and> secret_ref_of db (sf_id (sc_secret_ref entry)) = Some (sc_secret_ref entry)
          \<and> si_address_bindings stored = sort_key binding_order (sc_address_bindings entry))"

definition signer_catalog_matches :: "storage \<Rightarrow> signer_catalog_entry list \<Rightarrow> signer_inventory list \<Rightarrow> bool" where
  "signer_catalog_matches db catalog existing \<longleftrightarrow>
     length existing = length catalog \<and> list_all (catalog_entry_matches db existing) catalog"

fun insert_bindings :: "new_address_binding list \<Rightarrow> storage \<Rightarrow> (storage_error, storage) rresult" where
  "insert_bindings [] db = Inr db"
| "insert_bindings (b # bs) db =
     rbind (on_constraint (ImmutableConflict ''signer_address_binding'') (insert_binding b db)) (insert_bindings bs)"

fun insert_catalog :: "wallet_metadata \<Rightarrow> signer_catalog_entry list \<Rightarrow> storage \<Rightarrow> (storage_error, storage) rresult" where
  "insert_catalog md [] db = Inr db"
| "insert_catalog md (entry # entries) db =
     rbind (on_constraint (ImmutableConflict ''secret_ref'') (insert_secret md (sc_secret_ref entry) db)) (\<lambda>db.
     rbind (on_constraint (ImmutableConflict ''signer_profile'') (insert_profile (sc_profile entry) db)) (\<lambda>db.
     rbind (insert_bindings (sc_address_bindings entry) db) (insert_catalog md entries)))"

definition install_signer_catalog ::
    "bitcoin_env \<Rightarrow> storage_env \<Rightarrow> signer_catalog_entry list \<Rightarrow> storage \<Rightarrow> catalog_outcome storage_result" where
  "install_signer_catalog E J catalog db =
     rbind (metadata_in db) (\<lambda>md.
     rbind (validate_signer_catalog E catalog (wm_wallet_id md)) (\<lambda>_.
     rbind (signer_profile_inventory db (wm_wallet_id md)) (\<lambda>existing.
     if sql_count (\<lambda>s. sf_wallet_id s = wm_wallet_id md) (db_secrets db) \<noteq> length existing
     then Inl (ImmutableConflict ''signer_catalog'')
     else if existing \<noteq> [] then
       if signer_catalog_matches db catalog existing then Inr (AlreadyPresent, db) else Inl (ImmutableConflict ''signer_catalog'')
     else if list_ex (\<lambda>entry. secret_ref_of db (sf_id (sc_secret_ref entry)) \<noteq> None) catalog
     then Inl (ImmutableConflict ''signer_catalog'')
     else rbind (mutation_metadata db) (\<lambda>md.
       rbind (insert_catalog md catalog db) (\<lambda>db.
         Inr (Installed, append_audit J md ''signer_catalog.installed'' None (sp_created_at (sc_profile (hd catalog))) db))))))"

end
