(* ===== verification/Storage_Jobs.thy ===== *)
theory Storage_Jobs
  imports Storage_Approvals Storage_Signers
begin

text \<open>
  Chain signing jobs (\<open>crates/wallet-storage/src/sqlite.rs\<close>): creation by consuming an authorization, the
  one-time executor claim, completion and termination.
\<close>

section \<open>Tables\<close>

abbreviation jb_id :: "job_row \<Rightarrow> bytes" where "jb_id r \<equiv> nj_job_id (jb_job r)"

definition job_state_check :: "job_row \<Rightarrow> bool" where
  "job_state_check r =
     (case jb_status r of
        JobPrepared \<Rightarrow> jb_operation_binding_digest r = None \<and> jb_final_signature r = None \<and> jb_terminal_reason r = None
      | JobSigning \<Rightarrow> jb_operation_binding_digest r \<noteq> None \<and> jb_final_signature r = None \<and> jb_terminal_reason r = None
      | JobFinalized \<Rightarrow> jb_operation_binding_digest r \<noteq> None \<and> jb_final_signature r \<noteq> None \<and> jb_terminal_reason r = None
      | _ \<Rightarrow> jb_final_signature r = None \<and> jb_terminal_reason r \<noteq> None)"

definition job_check :: "storage \<Rightarrow> job_row \<Rightarrow> bool" where
  "job_check db r \<longleftrightarrow> (let j = jb_job r in
     list_ex (\<lambda>p. sp_profile_id p = nj_profile_id j) (db_profiles db) \<and> list_ex (\<lambda>i. it_id i = nj_intent_id j) (db_intents db)
     \<and> nj_review_schema_version j > 0 \<and> is_array 32 (nj_review_digest j) \<and> is_array 32 (nj_signing_message_digest j)
     \<and> is_array 32 (nj_policy_snapshot_digest j) \<and> is_array 32 (nj_chain_snapshot_digest j) \<and> is_array 32 (nj_session_id j)
     \<and> 1 \<le> length (nj_receiver j) \<and> length (nj_receiver j) \<le> 64
     \<and> (case jb_operation_binding_digest r of None \<Rightarrow> True | Some d \<Rightarrow> is_array 32 d)
     \<and> nj_expires_at j > nj_created_at j \<and> job_state_check r)"

definition job_clash :: "job_row \<Rightarrow> job_row \<Rightarrow> bool" where
  "job_clash r s \<longleftrightarrow> jb_id r = jb_id s \<or> nj_session_id (jb_job r) = nj_session_id (jb_job s)"

definition insert_job :: "job_row \<Rightarrow> storage \<Rightarrow> (storage_error, storage) rresult" where
  "insert_job row db =
     rbind (sql_insert (job_check db) job_clash row (db_jobs db)) (\<lambda>t. Inr (db\<lparr>db_jobs := t\<rparr>))"

section \<open>Creation\<close>

definition validate_new_signing_job :: "new_signing_job \<Rightarrow> (storage_error, unit) rresult" where
  "validate_new_signing_job j =
     rbind (map_err (\<lambda>_. InvalidSigningJob) (require_executable_suite (nj_chain_scope j) (nj_signing_suite_id j))) (\<lambda>descriptor.
     let (a, b) = nj_selected_parties j in
       if sd_backend_requirement descriptor \<noteq> nj_backend_requirement j \<or> nj_review_schema_version j = 0
          \<or> ra_schema_version (nj_review_artifact j) \<noteq> nj_review_schema_version j \<or> ra_scope (nj_review_artifact j) \<noteq> nj_chain_scope j
          \<or> ra_review_digest (nj_review_artifact j) \<noteq> nj_review_digest j
          \<or> ra_signing_message_digest (nj_review_artifact j) \<noteq> nj_signing_message_digest j
          \<or> a = [] \<or> b = [] \<or> a = b \<or> nj_receiver j \<notin> {a, b} \<or> length (nj_receiver j) > 64 \<or> nj_expires_at j \<le> nj_created_at j
       then Inl InvalidSigningJob else Inr ())"

text \<open>The signer that the authorization has to name: the one of the profile the job runs under.\<close>

definition job_authorization_signer :: "new_signing_job \<Rightarrow> storage \<Rightarrow> (storage_error, string) rresult" where
  "job_authorization_signer j db =
     rbind (ok_or InvalidSigningJob (List.find (\<lambda>p. sp_profile_id p = nj_profile_id j \<and> sp_wallet_id p = nj_wallet_id j
         \<and> sp_chain_scope p = nj_chain_scope j \<and> sp_signing_suite_id p = nj_signing_suite_id j
         \<and> sp_backend_requirement p = nj_backend_requirement j) (db_profiles db))) (\<lambda>p.
       if sp_authorization_signer_id p = [] then Inl InvalidSigningJob else Inr (sp_authorization_signer_id p))"

text \<open>The authorization of the current epoch joined with its version two intent.\<close>

definition bound_authorization ::
    "wallet_metadata \<Rightarrow> bytes \<Rightarrow> bytes \<Rightarrow> storage \<Rightarrow> (storage_error, authorization_row \<times> intent_row) rresult" where
  "bound_authorization md authorization_id intent_id db =
     rbind (ok_or AuthorizationUnavailable (List.find (\<lambda>a. az_id a = authorization_id \<and> az_intent_id a = intent_id
         \<and> az_wallet_id a = wm_wallet_id md \<and> az_epoch a = wm_epoch md) (db_authorizations db))) (\<lambda>a.
     rbind (ok_or AuthorizationUnavailable (transaction_intent_v2 db intent_id)) (\<lambda>i. Inr (a, i)))"

definition job_authorized ::
    "new_signing_job \<Rightarrow> bytes \<Rightarrow> string \<Rightarrow> i64 \<Rightarrow> authorization_row \<Rightarrow> intent_row \<Rightarrow> bool" where
  "job_authorized j digest signer_id now a i \<longleftrightarrow>
     az_binding_digest a = digest \<and> usable now a \<and> ni_session_id (it_intent i) = nj_session_id j \<and> it_status i = TxApproved
     \<and> map_option v2_signer_id (it_v2 i) = Some signer_id \<and> ni_tx_digest (it_intent i) = nj_signing_message_digest j
     \<and> ni_policy_hash (it_intent i) = nj_policy_snapshot_digest j \<and> ni_expires_at (it_intent i) = nj_expires_at j"

definition signing_job :: "storage \<Rightarrow> bytes \<Rightarrow> job_row option" where
  "signing_job db job_id = List.find (\<lambda>r. jb_id r = job_id) (db_jobs db)"

definition new_job_row :: "new_signing_job \<Rightarrow> bytes \<Rightarrow> job_row" where
  "new_job_row j digest = \<lparr>jb_job = j, jb_operation_binding_digest = Some digest, jb_status = JobSigning,
     jb_final_signature = None, jb_terminal_reason = None, jb_updated_at = nj_created_at j\<rparr>"

definition create_signing_job ::
    "storage_env \<Rightarrow> bytes \<Rightarrow> new_signing_job \<Rightarrow> bytes \<Rightarrow> i64 \<Rightarrow> storage \<Rightarrow> job_row storage_result" where
  "create_signing_job J authorization_id j digest now db =
     rbind (validate_new_signing_job j) (\<lambda>_.
     if nj_created_at j \<noteq> now \<or> now > nj_expires_at j then Inl InvalidSigningJob
     else rbind (mutation_metadata db) (\<lambda>md.
     if wm_wallet_id md \<noteq> nj_wallet_id j then Inl InvalidSigningJob
     else rbind (job_authorization_signer j db) (\<lambda>signer_id.
     rbind (bound_authorization md authorization_id (nj_intent_id j) db) (\<lambda>(a, i).
     if \<not> job_authorized j digest signer_id now a i then Inl AuthorizationUnavailable
     else rbind (on_constraint SigningJobConflict (insert_job (new_job_row j digest) db)) (\<lambda>db.
     rbind (start_signing md (\<lambda>a. az_id a = authorization_id) claim_error digest (nj_session_id j) authorization_id
         (nj_intent_id j) signer_id (\<lambda>r. it_wallet_id r = wm_wallet_id md) now db) (\<lambda>db.
     let db = append_audit J md ''chain_signing.authorized_started'' (Some (SubjectId (nj_job_id j))) now db in
     rbind (ok_or SigningJobConflict (signing_job db (nj_job_id j))) (\<lambda>row. Inr (row, db))))))))"

section \<open>Execution\<close>

definition claim_matches_job :: "chain_executor_claim \<Rightarrow> job_row \<Rightarrow> bool" where
  "claim_matches_job c r \<longleftrightarrow> (let j = jb_job r in
     nj_wallet_id j = ec_wallet_id c \<and> nj_profile_id j = ec_profile_id c \<and> nj_signing_suite_id j = ec_signing_suite_id c
     \<and> nj_backend_requirement j = ec_backend_requirement c \<and> nj_session_id j = ec_session_id c
     \<and> nj_signing_message_digest j = ec_signing_message_digest c
     \<and> jb_operation_binding_digest r = Some (ec_operation_binding_digest c) \<and> jb_status r = JobSigning
     \<and> nj_expires_at j \<ge> ec_claimed_at c)"

definition executor_claim_check :: "storage \<Rightarrow> bytes \<times> chain_executor_claim \<Rightarrow> bool" where
  "executor_claim_check db = (\<lambda>(job_id, c). list_ex (\<lambda>r. jb_id r = job_id) (db_jobs db)
     \<and> list_ex (\<lambda>p. sp_profile_id p = ec_profile_id c) (db_profiles db) \<and> is_array 32 (ec_session_id c)
     \<and> is_array 32 (ec_review_domain_digest c) \<and> is_array 32 (ec_signing_message_digest c) \<and> is_array 32 (ec_operation_binding_digest c))"

definition claim_chain_executor :: "storage_env \<Rightarrow> chain_executor_claim \<Rightarrow> storage \<Rightarrow> unit storage_result" where
  "claim_chain_executor J c db =
     (if ec_wallet_id c = nil_uuid \<or> ec_profile_id c = nil_uuid \<or> ec_session_id c = replicate 32 0
         \<or> ec_review_domain_digest c = replicate 32 0 \<or> ec_signing_message_digest c = replicate 32 0
         \<or> ec_operation_binding_digest c = replicate 32 0
      then Inl InvalidSigningJob
      else rbind (mutation_metadata db) (\<lambda>md.
      if wm_wallet_id md \<noteq> ec_wallet_id c then Inl SigningJobBindingDrift
      else rbind (ok_or SigningJobBindingDrift (List.find (claim_matches_job c) (db_jobs db))) (\<lambda>r.
      rbind (on_constraint SigningJobConflict (sql_insert (executor_claim_check db)
          (\<lambda>a b. fst a = fst b \<or> ec_session_id (snd a) = ec_session_id (snd b)) (jb_id r, c) (db_claims db))) (\<lambda>t.
        Inr ((), append_audit J md ''chain_executor.claimed'' (Some (SubjectId (jb_id r))) (ec_claimed_at c)
          (db\<lparr>db_claims := t\<rparr>))))))"

text \<open>The signing job and its intent leave the signing state together.\<close>

definition close_job ::
    "wallet_metadata \<Rightarrow> bytes \<Rightarrow> (job_row \<Rightarrow> job_row) \<Rightarrow> bytes \<Rightarrow> tx_status \<Rightarrow> i64 \<Rightarrow> storage \<Rightarrow> (storage_error, storage) rresult" where
  "close_job md job_id f intent_id status now db =
     (let running = (\<lambda>r. jb_id r = job_id \<and> jb_status r = JobSigning);
          signing = (\<lambda>r. it_id r = intent_id \<and> it_wallet_id r = wm_wallet_id md \<and> it_epoch r = wm_epoch md \<and> it_status r = TxSigning)
      in if sql_count running (db_jobs db) \<noteq> 1 then Inl SigningJobConflict
         else if sql_count signing (db_intents db) \<noteq> 1 then Inl IntentTransitionConflict
         else Inr (set_intent_status signing status now (db\<lparr>db_jobs := sql_update running f (db_jobs db)\<rparr>)))"

definition running_job :: "wallet_metadata \<Rightarrow> bytes \<Rightarrow> bytes \<Rightarrow> job_row \<Rightarrow> bool" where
  "running_job md job_id digest r \<longleftrightarrow> jb_id r = job_id \<and> nj_wallet_id (jb_job r) = wm_wallet_id md
     \<and> jb_operation_binding_digest r = Some digest \<and> jb_status r = JobSigning"

definition complete_signing_job ::
    "storage_env \<Rightarrow> bytes \<Rightarrow> bytes \<Rightarrow> bytes \<Rightarrow> i64 \<Rightarrow> storage \<Rightarrow> unit storage_result" where
  "complete_signing_job J job_id digest final_signature now db =
     (if final_signature = [] \<or> length final_signature > 4096 then Inl InvalidSigningJob
      else rbind (mutation_metadata db) (\<lambda>md.
      rbind (ok_or SigningJobBindingDrift (List.find (\<lambda>r. running_job md job_id digest r \<and> nj_expires_at (jb_job r) \<ge> now) (db_jobs db))) (\<lambda>r.
      rbind (close_job md job_id (\<lambda>r. r\<lparr>jb_status := JobFinalized, jb_final_signature := Some final_signature, jb_updated_at := now\<rparr>)
          (nj_intent_id (jb_job r)) TxSigned now db) (\<lambda>db.
        Inr ((), append_audit J md ''chain_signing.finalized'' (Some (SubjectId job_id)) now db)))))"

definition terminate_signing_job ::
    "storage_env \<Rightarrow> bytes \<Rightarrow> bytes \<Rightarrow> job_status \<Rightarrow> string \<Rightarrow> i64 \<Rightarrow> storage \<Rightarrow> unit storage_result" where
  "terminate_signing_job J job_id digest status reason now db =
     (if status \<notin> {JobAborted, JobExpired, JobFailed} \<or> reason = [] \<or> length reason > 128 then Inl InvalidSigningJob
      else rbind (mutation_metadata db) (\<lambda>md.
      rbind (ok_or SigningJobBindingDrift (List.find (running_job md job_id digest) (db_jobs db))) (\<lambda>r.
      rbind (close_job md job_id (\<lambda>r. r\<lparr>jb_status := status, jb_terminal_reason := Some reason, jb_updated_at := now\<rparr>)
          (nj_intent_id (jb_job r)) TxInvalidated now db) (\<lambda>db.
        Inr ((), append_audit J md ''chain_signing.terminated'' (Some (SubjectId job_id)) now db)))))"

end
