(* ===== verification/Storage_Personal.thy ===== *)
theory Storage_Personal
  imports Storage_Jobs
begin

text \<open>
  Personal signing operations and their receipts (\<open>crates/wallet-storage/src/sqlite.rs\<close>).  The participant
  arrays are lists of \<open>u16\<close>; the columns hold their big-endian encoding.
\<close>

section \<open>Participants\<close>

definition encode_participants :: "u16 list \<Rightarrow> bytes" where
  "encode_participants participants = concat (map u16_be participants)"

fun read_participants :: "bytes \<Rightarrow> u16 list" where
  "read_participants (a # b # rest) = word_of_nat (unat a * 256 + unat b) # read_participants rest"
| "read_participants _ = []"

definition decode_participants :: "nat \<Rightarrow> bytes \<Rightarrow> (storage_error, u16 list) rresult" where
  "decode_participants n value =
     (if length value \<noteq> n * 2 then Inl (Sqlite ConversionFailure) else Inr (read_participants value))"

lemma read_u16_be: "read_participants (u16_be w @ rest) = w # read_participants rest"
proof -
  have "unat w < 65536" using unat_bound [of w] by simp
  then have "unat w div 256 mod 256 * 256 + unat w mod 256 = unat w" by simp
  then have "(word_of_nat (unat w div 256 mod 256 * 256 + unat w mod 256) :: u16) = w" by simp
  then show ?thesis by (simp add: u16_be_def be_bytes_def numeral_2_eq_2)
qed

lemma decode_encode_participants: "decode_participants (length ps) (encode_participants ps) = Inr ps"
proof -
  have "read_participants (encode_participants ps) = ps"
    by (induction ps) (simp_all add: encode_participants_def read_u16_be)
  moreover have "length (encode_participants ps) = length ps * 2"
    by (induction ps) (simp_all add: encode_participants_def)
  ultimately show ?thesis by (simp add: decode_participants_def)
qed

section \<open>Tables\<close>

abbreviation op_id :: "operation_row \<Rightarrow> bytes" where "op_id r \<equiv> no_operation_id (op_new r)"

definition operation_state_check :: "operation_row \<Rightarrow> bool" where
  "operation_state_check r =
     (case op_status r of
        CollectingCommitments \<Rightarrow> op_signing_package r = None \<and> op_final_signature r = None \<and> op_terminal_reason r = None
      | CollectingShares \<Rightarrow> op_signing_package r \<noteq> None \<and> op_final_signature r = None \<and> op_terminal_reason r = None
      | PersonalFinalized \<Rightarrow> op_signing_package r \<noteq> None \<and> op_final_signature r \<noteq> None \<and> op_terminal_reason r = None
      | _ \<Rightarrow> op_final_signature r = None \<and> op_terminal_reason r \<noteq> None)"

definition operation_check :: "operation_row \<Rightarrow> bool" where
  "operation_check r \<longleftrightarrow> (let opr = op_new r in
     no_signer_epoch opr > 0 \<and> is_array 32 (no_session_id opr) \<and> is_array 32 (no_taproot_sighash opr) \<and> is_array 32 (no_policy_digest opr)
     \<and> is_array 32 (no_chain_snapshot_digest opr) \<and> is_array 32 (no_group_pubkey_xonly opr) \<and> is_array 32 (no_profile_binding_digest opr)
     \<and> is_array 32 (no_operation_binding_digest opr) \<and> length (no_allowed_participants opr) = 3 \<and> length (no_selected_participants opr) = 2
     \<and> no_threshold opr = 2 \<and> no_max_signers opr = 3 \<and> no_expires_at opr > no_created_at opr
     \<and> (case op_signing_package r of None \<Rightarrow> True | Some p \<Rightarrow> p \<noteq> [] \<and> length p \<le> 16384)
     \<and> (case op_final_signature r of None \<Rightarrow> True | Some s \<Rightarrow> is_array 64 s)
     \<and> (case op_terminal_reason r of None \<Rightarrow> True | Some t \<Rightarrow> 1 \<le> length t \<and> length t \<le> 64)
     \<and> operation_state_check r)"

definition insert_operation :: "operation_row \<Rightarrow> storage \<Rightarrow> (storage_error, storage) rresult" where
  "insert_operation row db =
     rbind (sql_insert operation_check (\<lambda>a b. op_id a = op_id b) row (db_operations db)) (\<lambda>t. Inr (db\<lparr>db_operations := t\<rparr>))"

text \<open>An update of the table is refused when a changed row violates its constraints.\<close>

definition update_operations ::
    "(operation_row \<Rightarrow> bool) \<Rightarrow> (operation_row \<Rightarrow> operation_row) \<Rightarrow> storage \<Rightarrow> (storage_error, storage) rresult" where
  "update_operations p f db =
     (if list_ex (\<lambda>r. p r \<and> \<not> operation_check (f r)) (db_operations db) then Inl (Sqlite ConstraintViolation)
      else if sql_count p (db_operations db) \<noteq> 1 then Inl PersonalSigningOperationConflict
      else Inr (db\<lparr>db_operations := sql_update p f (db_operations db)\<rparr>))"

definition receipt_check :: "storage \<Rightarrow> personal_receipt \<Rightarrow> bool" where
  "receipt_check db r \<longleftrightarrow> list_ex (\<lambda>opr. op_id opr = pr_operation_id r) (db_operations db) \<and> 0 < pr_signer_id r \<and> pr_signer_id r \<le> 3
     \<and> pr_device_generation r > 0 \<and> is_array 32 (pr_request_binding_digest r) \<and> pr_payload r \<noteq> [] \<and> length (pr_payload r) \<le> 16384"

definition receipt_clash :: "personal_receipt \<Rightarrow> personal_receipt \<Rightarrow> bool" where
  "receipt_clash a b \<longleftrightarrow> pr_operation_id a = pr_operation_id b \<and> pr_signer_id a = pr_signer_id b \<and> pr_round a = pr_round b"

section \<open>Creation\<close>

definition validate_new_personal_operation :: "new_personal_operation \<Rightarrow> (storage_error, unit) rresult" where
  "validate_new_personal_operation opr =
     (if no_signer_epoch opr = 0 \<or> no_threshold opr \<noteq> 2 \<or> no_max_signers opr \<noteq> 3 \<or> no_allowed_participants opr \<noteq> [1, 2, 3]
         \<or> no_selected_participants opr ! 0 \<ge> no_selected_participants opr ! 1
         \<or> list_ex (\<lambda>i. \<not> (1 \<le> i \<and> i \<le> 3)) (no_selected_participants opr) \<or> no_expires_at opr \<le> no_created_at opr
      then Inl InvalidPersonalSigningOperation else Inr ())"

definition decode_hex32 :: "bitcoin_env \<Rightarrow> string \<Rightarrow> string \<Rightarrow> (storage_error, bytes) rresult" where
  "decode_hex32 E value field =
     rbind (ok_or (InvalidStoredValue (field @ '' is not hexadecimal'')) (hex_decode E value)) (\<lambda>bs.
       if length bs = 32 then Inr bs else Inl (InvalidStoredValue (field @ '' must be 32 bytes'')))"

definition validate_personal_operation_material ::
    "bitcoin_env \<Rightarrow> storage_env \<Rightarrow> string \<Rightarrow> bytes \<Rightarrow> new_personal_operation \<Rightarrow> (storage_error, unit) rresult" where
  "validate_personal_operation_material E J payload_json payload_hash opr =
     (if sha256 E (ascii payload_json) \<noteq> payload_hash then Inl InvalidPersonalSigningOperation
      else map_err (\<lambda>_. InvalidPersonalSigningOperation)
        (rbind (ok_or InvalidPersonalSigningOperation (persisted_policy_of J payload_json)) (\<lambda>policy.
        rbind (decode_hex32 E (qp_group_pubkey_xonly policy) ''group_pubkey_xonly'') (\<lambda>group.
        rbind (decode_hex32 E (qp_policy_digest policy) ''policy_digest'') (\<lambda>policy_digest.
        rbind (decode_hex32 E (qp_chain_snapshot_digest policy) ''chain_snapshot_digest'') (\<lambda>snapshot.
          if qp_profile_id policy \<noteq> no_profile_id opr \<or> qp_signer_set_id policy \<noteq> no_signer_set_id opr
             \<or> qp_signer_epoch policy \<noteq> no_signer_epoch opr \<or> group \<noteq> no_group_pubkey_xonly opr
             \<or> qp_allowed_participants policy \<noteq> no_allowed_participants opr \<or> qp_threshold policy \<noteq> no_threshold opr
             \<or> policy_digest \<noteq> no_policy_digest opr \<or> snapshot \<noteq> no_chain_snapshot_digest opr
          then Inl InvalidPersonalSigningOperation else Inr ()))))))"

definition personal_authorized :: "new_personal_operation \<Rightarrow> i64 \<Rightarrow> authorization_row \<Rightarrow> intent_row \<Rightarrow> bool" where
  "personal_authorized opr now a i \<longleftrightarrow> usable now a \<and> ni_session_id (it_intent i) = no_session_id opr \<and> it_status i = TxApproved
     \<and> map_option v2_signer_id (it_v2 i) = Some ''frost:participant-0'' \<and> ni_tx_digest (it_intent i) = no_taproot_sighash opr
     \<and> ni_policy_hash (it_intent i) = no_policy_digest opr \<and> ni_expires_at (it_intent i) = no_expires_at opr"

definition personal_signing_operation :: "storage \<Rightarrow> bytes \<Rightarrow> operation_row option" where
  "personal_signing_operation db operation_id = List.find (\<lambda>r. op_id r = operation_id) (db_operations db)"

definition new_operation_row :: "new_personal_operation \<Rightarrow> operation_row" where
  "new_operation_row opr = \<lparr>op_new = opr, op_status = CollectingCommitments, op_signing_package = None,
     op_final_signature = None, op_terminal_reason = None, op_updated_at = no_created_at opr\<rparr>"

definition create_personal_signing_operation ::
    "bitcoin_env \<Rightarrow> storage_env \<Rightarrow> bytes \<Rightarrow> new_personal_operation \<Rightarrow> i64 \<Rightarrow> storage \<Rightarrow> operation_row storage_result" where
  "create_personal_signing_operation E J authorization_id opr now db =
     rbind (validate_new_personal_operation opr) (\<lambda>_.
     rbind (mutation_metadata db) (\<lambda>md.
     if wm_wallet_id md \<noteq> no_wallet_id opr \<or> no_created_at opr \<noteq> now \<or> now > no_expires_at opr then Inl InvalidPersonalSigningOperation
     else case personal_signing_operation db (no_operation_id opr) of
       Some existing \<Rightarrow>
         if no_operation_binding_digest (op_new existing) = no_operation_binding_digest opr
         then Inl PersonalSigningOperationConflict else Inl PersonalSigningOperationBindingDrift
     | None \<Rightarrow>
     rbind (bound_authorization md authorization_id (no_intent_id opr) db) (\<lambda>(a, i).
     rbind (ok_or AuthorizationUnavailable (List.find (\<lambda>m. im_intent_id m = no_intent_id opr \<and> im_kind m = PolicyInput) (db_materials db))) (\<lambda>m.
     if \<not> personal_authorized opr now a i then Inl AuthorizationUnavailable
     else rbind (validate_personal_operation_material E J (im_payload_json m) (im_payload_hash m) opr) (\<lambda>_.
     rbind (sql_u64 (no_signer_epoch opr)) (\<lambda>_.
     rbind (insert_operation (new_operation_row opr) db) (\<lambda>db.
     rbind (start_signing md (\<lambda>a. az_id a = authorization_id) (\<lambda>e. e) (no_operation_binding_digest opr) (no_session_id opr)
         authorization_id (no_intent_id opr) ''frost:participant-0'' (\<lambda>r. it_wallet_id r = wm_wallet_id md) now db) (\<lambda>db.
     let db = append_audit J md ''personal_signing.authorized_started'' (Some (SubjectId (no_operation_id opr))) now db in
     rbind (ok_or PersonalSigningOperationConflict (personal_signing_operation db (no_operation_id opr))) (\<lambda>row. Inr (row, db))))))))))"

section \<open>Progress\<close>

fun round_rank :: "personal_round \<Rightarrow> nat" where
  "round_rank RoundCommitment = 1"
| "round_rank RoundSignatureShare = 2"

definition personal_signing_receipts :: "storage \<Rightarrow> bytes \<Rightarrow> personal_receipt list" where
  "personal_signing_receipts db operation_id =
     sort_key (\<lambda>r. (round_rank (pr_round r), pr_signer_id r)) (filter (\<lambda>r. pr_operation_id r = operation_id) (db_receipts db))"

fun round_status :: "personal_round \<Rightarrow> personal_status" where
  "round_status RoundCommitment = CollectingCommitments"
| "round_status RoundSignatureShare = CollectingShares"

fun receipt_event :: "personal_round \<Rightarrow> string" where
  "receipt_event RoundCommitment = ''personal_signing.commitment_received''"
| "receipt_event RoundSignatureShare = ''personal_signing.share_received''"

definition record_personal_signing_receipt :: "storage_env \<Rightarrow> personal_receipt \<Rightarrow> storage \<Rightarrow> unit storage_result" where
  "record_personal_signing_receipt J r db =
     (if pr_signer_id r = 0 \<or> pr_signer_id r > 3 \<or> pr_device_generation r = 0 \<or> pr_payload r = [] \<or> length (pr_payload r) > 16 * 1024
      then Inl InvalidPersonalSigningOperation
      else case List.find (\<lambda>x. pr_signer_id x = pr_signer_id r \<and> pr_round x = pr_round r) (personal_signing_receipts db (pr_operation_id r)) of
        Some existing \<Rightarrow>
          if existing\<lparr>pr_received_at := pr_received_at r\<rparr> = r then Inr ((), db) else Inl PersonalSigningReceiptConflict
      | None \<Rightarrow>
          rbind (mutation_metadata db) (\<lambda>md.
          rbind (ok_or InvalidPersonalSigningOperation (List.find (\<lambda>opr. op_id opr = pr_operation_id r
              \<and> no_wallet_id (op_new opr) = wm_wallet_id md) (db_operations db))) (\<lambda>opr.
          if op_status opr \<noteq> round_status (pr_round r) \<or> pr_signer_id r \<notin> set (no_selected_participants (op_new opr))
             \<or> pr_received_at r > no_expires_at (op_new opr)
          then Inl PersonalSigningOperationConflict
          else rbind (sql_u64 (pr_device_generation r)) (\<lambda>_.
          rbind (sql_insert (receipt_check db) receipt_clash r (db_receipts db)) (\<lambda>t.
            Inr ((), append_audit J md (receipt_event (pr_round r)) (Some (SubjectId (pr_operation_id r))) (pr_received_at r)
              (db\<lparr>db_receipts := t\<rparr>)))))))"

definition receipt_count :: "storage \<Rightarrow> bytes \<Rightarrow> personal_round \<Rightarrow> nat" where
  "receipt_count db operation_id rnd = sql_count (\<lambda>r. pr_operation_id r = operation_id \<and> pr_round r = rnd) (db_receipts db)"

definition open_operation :: "wallet_metadata \<Rightarrow> bytes \<Rightarrow> bytes \<Rightarrow> operation_row \<Rightarrow> bool" where
  "open_operation md operation_id digest opr \<longleftrightarrow> op_id opr = operation_id \<and> no_wallet_id (op_new opr) = wm_wallet_id md
     \<and> no_operation_binding_digest (op_new opr) = digest"

definition freeze_personal_signing_operation ::
    "storage_env \<Rightarrow> bytes \<Rightarrow> bytes \<Rightarrow> bytes \<Rightarrow> i64 \<Rightarrow> storage \<Rightarrow> unit storage_result" where
  "freeze_personal_signing_operation J operation_id digest package now db =
     (if package = [] \<or> length package > 16 * 1024 then Inl InvalidPersonalSigningOperation
      else rbind (mutation_metadata db) (\<lambda>md.
      if receipt_count db operation_id RoundCommitment < 2 then Inl PersonalSigningOperationConflict
      else rbind (update_operations (\<lambda>opr. open_operation md operation_id digest opr \<and> op_status opr = CollectingCommitments
            \<and> no_expires_at (op_new opr) \<ge> now)
          (\<lambda>opr. opr\<lparr>op_status := CollectingShares, op_signing_package := Some package, op_updated_at := now\<rparr>) db) (\<lambda>db.
        Inr ((), append_audit J md ''personal_signing.commitments_frozen'' (Some (SubjectId operation_id)) now db))))"

definition complete_personal_signing_operation ::
    "storage_env \<Rightarrow> bytes \<Rightarrow> bytes \<Rightarrow> bytes \<Rightarrow> i64 \<Rightarrow> storage \<Rightarrow> unit storage_result" where
  "complete_personal_signing_operation J operation_id digest signature now db =
     rbind (mutation_metadata db) (\<lambda>md.
     if receipt_count db operation_id RoundSignatureShare < 2 then Inl PersonalSigningOperationConflict
     else rbind (update_operations (\<lambda>opr. open_operation md operation_id digest opr \<and> op_status opr = CollectingShares
           \<and> no_expires_at (op_new opr) \<ge> now)
         (\<lambda>opr. opr\<lparr>op_status := PersonalFinalized, op_final_signature := Some signature, op_updated_at := now\<rparr>) db) (\<lambda>db.
       Inr ((), append_audit J md ''personal_signing.finalized'' (Some (SubjectId operation_id)) now db)))"

definition terminate_personal_signing_operation ::
    "storage_env \<Rightarrow> bytes \<Rightarrow> bytes \<Rightarrow> personal_status \<Rightarrow> string \<Rightarrow> i64 \<Rightarrow> storage \<Rightarrow> unit storage_result" where
  "terminate_personal_signing_operation J operation_id digest status reason now db =
     (if status \<notin> {PersonalAborted, PersonalExpired, PersonalFailed} \<or> reason = [] \<or> length reason > 64 \<or> \<not> list_all reason_char_ok reason
      then Inl InvalidPersonalSigningOperation
      else rbind (mutation_metadata db) (\<lambda>md.
      rbind (update_operations (\<lambda>opr. open_operation md operation_id digest opr \<and> op_status opr \<in> {CollectingCommitments, CollectingShares})
          (\<lambda>opr. opr\<lparr>op_status := status, op_terminal_reason := Some reason, op_updated_at := now\<rparr>) db) (\<lambda>db.
        Inr ((), append_audit J md ''personal_signing.terminated'' (Some (SubjectId operation_id)) now db))))"

end
