(* ===== verification/Storage_Devices.thy ===== *)
theory Storage_Devices
  imports Storage_Personal
begin

text \<open>
  Replay protection of signer requests and the log of signer devices
  (\<open>crates/wallet-storage/src/sqlite.rs\<close>).
\<close>

section \<open>Request nonces\<close>

definition identity_matches :: "provider_identity \<Rightarrow> signer_request_context \<Rightarrow> bool" where
  "identity_matches i c \<longleftrightarrow> pi_wallet_id i = rc_wallet_id c \<and> pi_signer_set_id i = rc_signer_set_id c
     \<and> pi_signer_epoch i = rc_signer_epoch c \<and> pi_signer_id i = rc_signer_id c \<and> pi_device_id i = rc_device_id c
     \<and> pi_device_generation i = rc_device_generation c \<and> pi_group_pubkey_xonly i = rc_group_pubkey_xonly c
     \<and> pi_verifying_share_digest i = rc_verifying_share_digest c"

definition same_operation :: "provider_identity \<Rightarrow> signer_request_context \<Rightarrow> request_nonce_row \<Rightarrow> bool" where
  "same_operation i c r \<longleftrightarrow> pi_wallet_id (rn_identity r) = pi_wallet_id i \<and> pi_signer_set_id (rn_identity r) = pi_signer_set_id i
     \<and> pi_signer_epoch (rn_identity r) = pi_signer_epoch i \<and> pi_signer_id (rn_identity r) = pi_signer_id i
     \<and> rc_operation_id (rn_context r) = rc_operation_id c"

definition request_nonce_check :: "storage \<Rightarrow> request_nonce_row \<Rightarrow> bool" where
  "request_nonce_check db r \<longleftrightarrow> (let i = rn_identity r; c = rn_context r in
     pi_signer_epoch i > 0 \<and> pi_signer_id i > 0 \<and> pi_device_generation i > 0 \<and> is_array 32 (rc_request_nonce c)
     \<and> is_array 32 (rc_session_id c) \<and> is_array 32 (rc_taproot_sighash c) \<and> is_array 32 (rc_policy_digest c)
     \<and> is_array 32 (rn_operation_binding_digest r)
     \<and> list_all (\<lambda>p. same_operation i c p \<longrightarrow> rn_operation_binding_digest p = rn_operation_binding_digest r) (db_request_nonces db))"

definition request_nonce_clash :: "request_nonce_row \<Rightarrow> request_nonce_row \<Rightarrow> bool" where
  "request_nonce_clash a b \<longleftrightarrow> (let i = rn_identity a; k = rn_identity b in
     pi_wallet_id i = pi_wallet_id k \<and> pi_signer_set_id i = pi_signer_set_id k \<and> pi_signer_epoch i = pi_signer_epoch k
     \<and> pi_signer_id i = pi_signer_id k \<and> pi_device_id i = pi_device_id k \<and> pi_device_generation i = pi_device_generation k
     \<and> rc_request_nonce (rn_context a) = rc_request_nonce (rn_context b))"

definition claim_signer_request_nonce ::
    "bitcoin_env \<Rightarrow> storage_env \<Rightarrow> provider_identity \<Rightarrow> signer_request_context \<Rightarrow> i64 \<Rightarrow> storage \<Rightarrow> unit storage_result" where
  "claim_signer_request_nonce E J i c claimed_at db =
     (if \<not> identity_matches i c then Inl (InvalidStoredValue ''signer provider identity drift'')
      else rbind (mutation_metadata db) (\<lambda>md.
      if wm_wallet_id md \<noteq> pi_wallet_id i then Inl (InvalidStoredValue ''signer provider belongs to a different wallet'')
      else rbind (sql_u64 (pi_signer_epoch i)) (\<lambda>_.
      let digest = operation_binding_digest E c;
          prior = map_option rn_operation_binding_digest (List.find (same_operation i c) (db_request_nonces db))
      in if prior \<noteq> None \<and> prior \<noteq> Some digest then Inl SignerOperationBindingDrift
         else rbind (sql_u64 (pi_device_generation i)) (\<lambda>_.
         rbind (on_constraint NonceAlreadyClaimed (sql_insert (request_nonce_check db) request_nonce_clash
             \<lparr>rn_identity = i, rn_context = c, rn_operation_binding_digest = digest, rn_claimed_at = claimed_at\<rparr> (db_request_nonces db))) (\<lambda>t.
           Inr ((), append_audit J md ''signer.request_nonce_claimed'' (Some (SubjectId (rc_operation_id c))) claimed_at
             (db\<lparr>db_request_nonces := t\<rparr>)))))))"

text \<open>The wallet database as the replay store of a signer provider.\<close>

definition storage_claim_request_nonce ::
    "bitcoin_env \<Rightarrow> storage_env \<Rightarrow> provider_identity \<Rightarrow> signer_request_context \<Rightarrow> i64 \<Rightarrow> storage \<Rightarrow>
     (provider_error, unit) rresult \<times> storage" where
  "storage_claim_request_nonce E J i c claimed_at db =
     (case claim_signer_request_nonce E J i c claimed_at db of
        Inr (_, db') \<Rightarrow> (Inr (), db')
      | Inl NonceAlreadyClaimed \<Rightarrow> (Inl Replay, db)
      | Inl SignerOperationBindingDrift \<Rightarrow> (Inl ProviderBindingMismatch, db)
      | Inl _ \<Rightarrow> (Inl BackendUnavailable, db))"

section \<open>Device events\<close>

definition of_signer :: "bytes \<Rightarrow> bytes \<Rightarrow> u64 \<Rightarrow> u16 \<Rightarrow> device_event \<Rightarrow> bool" where
  "of_signer wallet_id signer_set_id signer_epoch signer_id e \<longleftrightarrow> de_wallet_id e = wallet_id
     \<and> de_signer_set_id e = signer_set_id \<and> de_signer_epoch e = signer_epoch \<and> de_signer_id e = signer_id"

definition signer_events :: "storage \<Rightarrow> bytes \<Rightarrow> bytes \<Rightarrow> u64 \<Rightarrow> u16 \<Rightarrow> device_event list" where
  "signer_events db wallet_id signer_set_id signer_epoch signer_id =
     filter (of_signer wallet_id signer_set_id signer_epoch signer_id) (db_device_events db)"

definition device_event_check :: "device_event \<Rightarrow> bool" where
  "device_event_check e \<longleftrightarrow> de_signer_epoch e > 0 \<and> de_signer_id e > 0 \<and> de_device_generation e > 0
     \<and> de_provider e \<in> {RemoteMtls, HsmAdapter} \<and> is_array 32 (de_identity_public_key e)
     \<and> (case de_mtls_spki_sha256 e of None \<Rightarrow> True | Some d \<Rightarrow> is_array 32 d)
     \<and> (case de_event_type e of
          DeviceRegistered \<Rightarrow> de_device_generation e = 1 | DeviceRotated \<Rightarrow> de_device_generation e > 1 | DeviceRevoked \<Rightarrow> True)"

definition device_event_clash :: "device_event \<Rightarrow> device_event \<Rightarrow> bool" where
  "device_event_clash a b \<longleftrightarrow> of_signer (de_wallet_id b) (de_signer_set_id b) (de_signer_epoch b) (de_signer_id b) a
     \<and> de_device_generation a = de_device_generation b \<and> de_event_type a = de_event_type b"

fun device_event_name :: "device_event_type \<Rightarrow> string" where
  "device_event_name DeviceRegistered = ''registered''"
| "device_event_name DeviceRotated = ''rotated''"
| "device_event_name DeviceRevoked = ''revoked''"

definition next_device_event ::
    "device_event list \<Rightarrow> u64 \<Rightarrow> bytes \<Rightarrow> signer_device_record \<Rightarrow> (storage_error, device_event_type) rresult" where
  "next_device_event events expected_generation device_id rec =
     (let drift = Inl (InvalidStoredValue ''signer device generation or lifecycle transition drifted'') in
      if events = [] then
        if expected_generation = 0 \<and> dr_generation rec = 1 \<and> dr_status rec = StatusActive then Inr DeviceRegistered else drift
      else let prior = last events in
        if de_event_type prior = DeviceRevoked
        then Inl (InvalidStoredValue ''revoked signer device cannot be replaced in the same signer epoch'')
        else if de_device_generation prior = expected_generation \<and> dr_generation rec = de_device_generation prior + 1
           \<and> dr_status rec = StatusActive then Inr DeviceRotated
        else if de_device_generation prior = expected_generation \<and> dr_generation rec = de_device_generation prior
           \<and> de_device_id prior = device_id \<and> dr_status rec = StatusRevoked then Inr DeviceRevoked
        else drift)"

definition persist_signer_device_transition ::
    "bitcoin_env \<Rightarrow> storage_env \<Rightarrow> bytes \<Rightarrow> bytes \<Rightarrow> u64 \<Rightarrow> u64 \<Rightarrow> signer_device_record \<Rightarrow> i64 \<Rightarrow> storage \<Rightarrow> unit storage_result" where
  "persist_signer_device_transition E J wallet_id signer_set_id signer_epoch expected_generation rec now db =
     rbind (ok_or (InvalidStoredValue ''configured signer device id is missing'') (dr_device_id rec)) (\<lambda>device_id.
     rbind (case dr_provider rec of Some RemoteMtls \<Rightarrow> Inr RemoteMtls | Some HsmAdapter \<Rightarrow> Inr HsmAdapter
         | _ \<Rightarrow> Inl (InvalidStoredValue ''remote signer provider kind is invalid'')) (\<lambda>provider.
     rbind (ok_or (InvalidStoredValue ''configured signer identity key is missing'') (dr_identity_public_key_hex rec)) (\<lambda>key_hex.
     rbind (decode_hex32 E key_hex ''signer identity key'') (\<lambda>identity_key.
     rbind (case dr_mtls_spki_sha256_hex rec of None \<Rightarrow> Inr None
         | Some h \<Rightarrow> rbind (decode_hex32 E h ''signer mTLS SPKI digest'') (\<lambda>bs. Inr (Some bs))) (\<lambda>certificate.
     if provider = RemoteMtls \<and> certificate = None then Inl (InvalidStoredValue ''remote signer SPKI digest is missing'')
     else rbind (mutation_metadata db) (\<lambda>md.
     if wm_wallet_id md \<noteq> wallet_id \<or> signer_epoch = 0
     then Inl (InvalidStoredValue ''signer device belongs to a different wallet or epoch'')
     else rbind (sql_u64 signer_epoch) (\<lambda>_.
     rbind (next_device_event (signer_events db wallet_id signer_set_id signer_epoch (dr_signer_id rec)) expected_generation device_id rec) (\<lambda>event.
     rbind (sql_u64 (dr_generation rec)) (\<lambda>_.
     rbind (sql_insert device_event_check device_event_clash
         \<lparr>de_wallet_id = wallet_id, de_signer_set_id = signer_set_id, de_signer_epoch = signer_epoch, de_signer_id = dr_signer_id rec,
          de_device_id = device_id, de_device_generation = dr_generation rec, de_provider = provider,
          de_identity_public_key = identity_key, de_mtls_spki_sha256 = certificate, de_event_type = event, de_occurred_at = now\<rparr>
         (db_device_events db)) (\<lambda>t.
       Inr ((), append_audit J md (''signer.device_'' @ device_event_name event) (Some (SubjectId device_id)) now
         (db\<lparr>db_device_events := t\<rparr>))))))))))))"

definition max_time :: "device_event list \<Rightarrow> i64 option" where
  "max_time es = (if es = [] then None else Some (Max (de_occurred_at ` set es)))"

definition device_record_of :: "bitcoin_env \<Rightarrow> device_event list \<Rightarrow> signer_device_record" where
  "device_record_of E es =
     (let e = last es in
      \<lparr>dr_signer_id = de_signer_id e, dr_device_id = Some (de_device_id e), dr_generation = de_device_generation e,
       dr_provider = Some (de_provider e), dr_identity_public_key_hex = Some (hex_encode E (de_identity_public_key e)),
       dr_mtls_spki_sha256_hex = map_option (hex_encode E) (de_mtls_spki_sha256 e),
       dr_status = (if de_event_type e = DeviceRevoked then StatusRevoked else StatusActive),
       dr_registered_at = Some (Min (de_occurred_at ` set es)),
       dr_rotated_at = max_time (filter (\<lambda>e. de_event_type e = DeviceRotated) es),
       dr_revoked_at = max_time (filter (\<lambda>e. de_event_type e = DeviceRevoked) es), dr_health = default_health\<rparr>)"

definition signer_device_records ::
    "bitcoin_env \<Rightarrow> storage \<Rightarrow> bytes \<Rightarrow> bytes \<Rightarrow> u64 \<Rightarrow> (storage_error, signer_device_record list) rresult" where
  "signer_device_records E db wallet_id signer_set_id signer_epoch =
     rbind (metadata_in db) (\<lambda>md.
     if wm_wallet_id md \<noteq> wallet_id then Inl (InvalidStoredValue ''signer device inventory belongs to a different wallet'')
     else rbind (sql_u64 signer_epoch) (\<lambda>_.
       Inr (map (\<lambda>i. device_record_of E (signer_events db wallet_id signer_set_id signer_epoch i))
         (sort (remdups (map de_signer_id
           (filter (\<lambda>e. of_signer wallet_id signer_set_id signer_epoch (de_signer_id e) e) (db_device_events db))))))))"

end
