(* ===== verification/Storage_Restore.thy ===== *)
theory Storage_Restore
  imports Storage_Devices
begin

text \<open>
  Initialisation, start-up and the restore state machine (\<open>crates/wallet-storage/src/sqlite.rs\<close>), with the
  outcome that \<open>backup.rs\<close> reports after an interrupted cutover.
\<close>

section \<open>Initialisation and start-up\<close>

definition initialize :: "storage_env \<Rightarrow> bytes \<Rightarrow> i64 \<Rightarrow> storage \<Rightarrow> unit storage_result" where
  "initialize J wallet_id now db =
     (let md = \<lparr>wm_wallet_id = wallet_id, wm_epoch = 1, wm_restore_state = Normal, wm_created_at = now, wm_updated_at = now\<rparr> in
      if db_metadata db \<noteq> None then Inl AlreadyInitialized
      else Inr ((), append_audit J md ''wallet.initialized'' (Some (SubjectId wallet_id)) now (db\<lparr>db_metadata := Some md\<rparr>)))"

definition invalidate_ceremonies :: "(ceremony_row \<Rightarrow> bool) \<Rightarrow> i64 \<Rightarrow> storage \<Rightarrow> storage" where
  "invalidate_ceremonies p now db =
     db\<lparr>db_ceremonies := sql_update (\<lambda>c. p c \<and> cy_completed_at c = None \<and> cy_invalidated_at c = None)
       (\<lambda>c. c\<lparr>cy_invalidated_at := Some now\<rparr>) (db_ceremonies db)\<rparr>"

definition invalidate_unfinished_ceremonies_on_startup :: "storage_env \<Rightarrow> i64 \<Rightarrow> storage \<Rightarrow> nat storage_result" where
  "invalidate_unfinished_ceremonies_on_startup J now db =
     rbind (metadata_in db) (\<lambda>md.
     let current = (\<lambda>c. cy_wallet_id c = wm_wallet_id md \<and> cy_epoch c = wm_epoch md);
         changed = sql_count (\<lambda>c. current c \<and> cy_completed_at c = None \<and> cy_invalidated_at c = None) (db_ceremonies db);
         db' = invalidate_ceremonies current now db
     in Inr (changed, if changed > 0 then append_audit J md ''approval.startup_invalidated'' None now db' else db'))"

datatype crash_recovery_kind = RolledBack | Continued | CleanedOrphan

record crash_recovery_outcome =
  cr_kind :: crash_recovery_kind
  cr_recovery_id :: "bytes option"
  cr_occurred_at :: i64

fun recovery_event_type :: "crash_recovery_kind \<Rightarrow> string" where
  "recovery_event_type RolledBack = ''restore.crash_rolled_back''"
| "recovery_event_type Continued = ''restore.crash_continued''"
| "recovery_event_type CleanedOrphan = ''restore.orphan_cleaned''"

definition set_restore_state :: "wallet_metadata \<Rightarrow> restore_state \<Rightarrow> i64 \<Rightarrow> wallet_metadata" where
  "set_restore_state md state now = md\<lparr>wm_restore_state := state, wm_updated_at := now\<rparr>"

definition record_cutover_recovery :: "storage_env \<Rightarrow> crash_recovery_outcome \<Rightarrow> storage \<Rightarrow> unit storage_result" where
  "record_cutover_recovery J recovery db =
     rbind (metadata_in db) (\<lambda>md.
     let event = recovery_event_type (cr_kind recovery); now = cr_occurred_at recovery;
         subject = map_option SubjectId (cr_recovery_id recovery)
     in if subject \<noteq> None \<and> list_ex (\<lambda>a. au_event_type a = event \<and> au_subject_id a = subject) (db_audit db) then Inr ((), db)
        else let md' = (if cr_kind recovery = RolledBack \<and> wm_restore_state md = RestorePrecheck
                        then set_restore_state md Normal now else md)
        in Inr ((), append_audit J md' event subject now (db\<lparr>db_metadata := Some md'\<rparr>)))"

section \<open>The restore state machine\<close>

definition transition_restore :: "storage_env \<Rightarrow> restore_state \<Rightarrow> restore_state \<Rightarrow> i64 \<Rightarrow> storage \<Rightarrow> unit storage_result" where
  "transition_restore J source target now db =
     rbind (metadata_in db) (\<lambda>md.
     rbind (require_restore_state (wm_restore_state md) source target) (\<lambda>_.
     let md' = set_restore_state md target now
     in Inr ((), append_audit J md' (''restore.'' @ restore_as_str target) None now (db\<lparr>db_metadata := Some md'\<rparr>))))"

definition begin_snapshot :: "storage_env \<Rightarrow> i64 \<Rightarrow> storage \<Rightarrow> unit storage_result" where
  "begin_snapshot J now db = transition_restore J Normal Snapshotting now db"

definition finish_snapshot :: "storage_env \<Rightarrow> i64 \<Rightarrow> storage \<Rightarrow> unit storage_result" where
  "finish_snapshot J now db = transition_restore J Snapshotting Normal now db"

definition begin_recovering :: "storage_env \<Rightarrow> i64 \<Rightarrow> storage \<Rightarrow> unit storage_result" where
  "begin_recovering J now db = transition_restore J Cutover Recovering now db"

definition finish_recovery :: "storage_env \<Rightarrow> i64 \<Rightarrow> storage \<Rightarrow> unit storage_result" where
  "finish_recovery J now db = transition_restore J Recovering Normal now db"

definition begin_restore_precheck :: "storage_env \<Rightarrow> i64 \<Rightarrow> storage \<Rightarrow> unit storage_result" where
  "begin_restore_precheck J now db =
     rbind (metadata_in db) (\<lambda>md.
     rbind (require_restore_state (wm_restore_state md) Normal RestorePrecheck) (\<lambda>_.
     let db' = invalidate_ceremonies (\<lambda>c. cy_epoch c = wm_epoch md) now db; md' = set_restore_state md RestorePrecheck now
     in Inr ((), append_audit J md' ''restore.restore_precheck'' None now (db'\<lparr>db_metadata := Some md'\<rparr>))))"

definition cutover_restore :: "storage_env \<Rightarrow> i64 \<Rightarrow> storage \<Rightarrow> u64 storage_result" where
  "cutover_restore J now db =
     rbind (metadata_in db) (\<lambda>old.
     rbind (require_restore_state (wm_restore_state old) RestorePrecheck Cutover) (\<lambda>_.
     rbind (ok_or (InvalidStoredValue ''wallet epoch overflow'') (checked_add (wm_epoch old) 1)) (\<lambda>epoch.
     rbind (sql_u64 epoch) (\<lambda>_.
     let md = old\<lparr>wm_epoch := epoch, wm_restore_state := Cutover, wm_updated_at := now\<rparr>;
         db = invalidate_ceremonies (\<lambda>c. cy_epoch c < epoch) now (db\<lparr>db_metadata := Some md\<rparr>);
         db = db\<lparr>db_authorizations := sql_update (\<lambda>a. az_epoch a < epoch \<and> az_consumed_at a = None \<and> az_invalidated_at a = None)
           (\<lambda>a. a\<lparr>az_invalidated_at := Some now\<rparr>) (db_authorizations db)\<rparr>;
         db = db\<lparr>db_nonces := sql_update (\<lambda>n. nc_epoch n < epoch \<and> nc_invalidated_at n = None)
           (\<lambda>n. n\<lparr>nc_invalidated_at := Some now\<rparr>) (db_nonces db)\<rparr>;
         db = set_intent_status (\<lambda>r. it_epoch r < epoch \<and> it_status r \<in> {TxPending, TxApproved, TxSigning}) TxInvalidated now db;
         db = db\<lparr>db_materials := filter (\<lambda>m. im_kind m \<noteq> NodeSnapshot) (db_materials db)\<rparr>
     in Inr (epoch, append_audit J md ''restore.cutover'' None now db)))))"

end
