(* ===== verification/Storage_History.thy ===== *)
theory Storage_History
  imports Storage_Restore
begin

text \<open>
  How the wallet database may change: the relation \<open>evolves\<close> bounds the effect of every operation, table by
  table.  Statements are shown to stay within it first, operations by composition.
\<close>

section \<open>Row relations\<close>

definition status_step :: "tx_status \<Rightarrow> tx_status \<Rightarrow> bool" where
  "status_step s t \<longleftrightarrow> may_transition_to s t \<or> (s = TxPending \<and> t = TxApproved)"

definition intent_le :: "intent_row \<Rightarrow> intent_row \<Rightarrow> bool" where
  "intent_le r s \<longleftrightarrow> it_intent s = it_intent r \<and> it_wallet_id s = it_wallet_id r \<and> it_epoch s = it_epoch r \<and> it_v2 s = it_v2 r
     \<and> status_step\<^sup>*\<^sup>* (it_status r) (it_status s)"

definition spent :: "authorization_row \<Rightarrow> bool" where
  "spent a \<longleftrightarrow> az_consumed_at a \<noteq> None \<or> az_invalidated_at a \<noteq> None"

definition authorization_le :: "authorization_row \<Rightarrow> authorization_row \<Rightarrow> bool" where
  "authorization_le a b \<longleftrightarrow> az_id b = az_id a \<and> az_wallet_id b = az_wallet_id a \<and> az_intent_id b = az_intent_id a
     \<and> az_epoch b = az_epoch a \<and> az_binding_digest b = az_binding_digest a \<and> az_expires_at b = az_expires_at a
     \<and> az_issued_at b = az_issued_at a \<and> (spent a \<longrightarrow> b = a)"

definition ceremony_le :: "ceremony_row \<Rightarrow> ceremony_row \<Rightarrow> bool" where
  "ceremony_le c d \<longleftrightarrow> cy_ceremony d = cy_ceremony c \<and> cy_wallet_id d = cy_wallet_id c \<and> cy_epoch d = cy_epoch c
     \<and> cy_passkey d = cy_passkey c \<and> (cy_completed_at c \<noteq> None \<or> cy_invalidated_at c \<noteq> None \<longrightarrow> d = c)"

definition nonce_le :: "nonce_row \<Rightarrow> nonce_row \<Rightarrow> bool" where
  "nonce_le m n \<longleftrightarrow> nc_claim n = nc_claim m \<and> nc_wallet_id n = nc_wallet_id m \<and> nc_epoch n = nc_epoch m
     \<and> nc_binding n = nc_binding m \<and> (nc_invalidated_at m \<noteq> None \<longrightarrow> n = m)"

definition job_le :: "job_row \<Rightarrow> job_row \<Rightarrow> bool" where
  "job_le r s \<longleftrightarrow> jb_job s = jb_job r \<and> jb_operation_binding_digest s = jb_operation_binding_digest r
     \<and> (jb_status r \<noteq> JobSigning \<longrightarrow> s = r)"

definition operation_le :: "operation_row \<Rightarrow> operation_row \<Rightarrow> bool" where
  "operation_le r s \<longleftrightarrow> op_new s = op_new r \<and> (op_status r \<noteq> CollectingCommitments \<longrightarrow> op_signing_package s = op_signing_package r)
     \<and> (op_status r = CollectingShares \<longrightarrow> op_status s \<noteq> CollectingCommitments) \<and> (personal_is_terminal (op_status r) \<longrightarrow> s = r)"

definition passkey_le :: "passkey_data \<Rightarrow> passkey_data \<Rightarrow> bool" where
  "passkey_le p q \<longleftrightarrow> pk_format q = pk_format p \<and> pk_state q = pk_state p \<and> pk_record_version p \<le> pk_record_version q"

definition credential_le :: "credential_row \<Rightarrow> credential_row \<Rightarrow> bool" where
  "credential_le r s \<longleftrightarrow> cm_credential_id s = cm_credential_id r \<and> cm_wallet_id s = cm_wallet_id r
     \<and> cm_enrolled_at s = cm_enrolled_at r \<and> cm_sign_count r \<le> cm_sign_count s \<and> rel_option passkey_le (cm_passkey r) (cm_passkey s)"

definition webauthn_le :: "webauthn_profile \<Rightarrow> webauthn_profile \<Rightarrow> bool" where
  "webauthn_le p q \<longleftrightarrow> wp_wallet_id q = wp_wallet_id p \<and> wp_user_id q = wp_user_id p \<and> wp_rp_id q = wp_rp_id p
     \<and> wp_rp_origin q = wp_rp_origin p \<and> wp_record_version p \<le> wp_record_version q"

definition secret_le :: "secret_row \<Rightarrow> secret_row \<Rightarrow> bool" where
  "secret_le r s \<longleftrightarrow> sf_id s = sf_id r \<and> sf_wallet_id s = sf_wallet_id r \<and> sf_created_at s = sf_created_at r"

definition metadata_le :: "wallet_metadata \<Rightarrow> wallet_metadata \<Rightarrow> bool" where
  "metadata_le m n \<longleftrightarrow> wm_wallet_id n = wm_wallet_id m \<and> wm_created_at n = wm_created_at m \<and> wm_epoch m \<le> wm_epoch n"

lemma row_relations_refl [simp]:
  "reflp intent_le" "reflp authorization_le" "reflp ceremony_le" "reflp nonce_le" "reflp job_le" "reflp operation_le"
  "reflp credential_le" "reflp webauthn_le" "reflp secret_le" "reflp ((=) :: 'a \<Rightarrow> 'a \<Rightarrow> bool)" "reflp metadata_le"
  by (auto simp: reflp_def intent_le_def authorization_le_def ceremony_le_def nonce_le_def job_le_def operation_le_def
      credential_le_def webauthn_le_def secret_le_def metadata_le_def passkey_le_def intro!: option.rel_refl)

lemma transp_credential_le: "transp credential_le"
proof -
  have p: "passkey_le a b \<Longrightarrow> passkey_le b c \<Longrightarrow> passkey_le a c" for a b c by (auto simp: passkey_le_def)
  have "rel_option passkey_le x y \<Longrightarrow> rel_option passkey_le y z \<Longrightarrow> rel_option passkey_le x z" for x y z
    by (cases x; cases y; cases z) (auto intro: p)
  then show ?thesis by (auto simp: transp_def credential_le_def)
qed

lemma transp_operation_le: "transp operation_le"
proof (rule transpI)
  fix r s t
  assume "operation_le r s" "operation_le s t"
  then show "operation_le r t" by (cases "op_status r"; cases "op_status s") (auto simp: operation_le_def personal_is_terminal_def)
qed

lemma row_relations_trans [simp]:
  "transp intent_le" "transp authorization_le" "transp ceremony_le" "transp nonce_le" "transp job_le" "transp operation_le"
  "transp credential_le" "transp webauthn_le" "transp secret_le" "transp ((=) :: 'a \<Rightarrow> 'a \<Rightarrow> bool)" "transp metadata_le"
proof -
  show "transp intent_le" by (auto simp: transp_def intent_le_def intro: rtranclp_trans)
  show "transp authorization_le" by (auto simp: transp_def authorization_le_def)
  show "transp ceremony_le" by (auto simp: transp_def ceremony_le_def)
  show "transp nonce_le" by (auto simp: transp_def nonce_le_def)
  show "transp job_le" by (auto simp: transp_def job_le_def)
  show "transp operation_le" by (rule transp_operation_le)
  show "transp credential_le" by (rule transp_credential_le)
qed (auto simp: transp_def webauthn_le_def secret_le_def metadata_le_def)

section \<open>Evolution of the database\<close>

definition kept_materials :: "storage \<Rightarrow> intent_material list" where
  "kept_materials db = filter (\<lambda>m. im_kind m \<noteq> NodeSnapshot) (db_materials db)"

definition credential_keys :: "storage \<Rightarrow> bool" where
  "credential_keys db \<longleftrightarrow> distinct (map cm_credential_id (db_credentials db))"

definition evolves :: "storage \<Rightarrow> storage \<Rightarrow> bool" where
  "evolves db db' \<longleftrightarrow>
     (credential_keys db \<longrightarrow> credential_keys db')
     \<and> (\<forall>md. db_metadata db = Some md \<longrightarrow> (\<exists>md'. db_metadata db' = Some md' \<and> metadata_le md md'))
     \<and> table_le intent_le (db_intents db) (db_intents db') \<and> table_le (=) (kept_materials db) (kept_materials db')
     \<and> table_le credential_le (db_credentials db) (db_credentials db') \<and> table_le webauthn_le (db_webauthn db) (db_webauthn db')
     \<and> table_le ceremony_le (db_ceremonies db) (db_ceremonies db')
     \<and> table_le authorization_le (db_authorizations db) (db_authorizations db') \<and> table_le nonce_le (db_nonces db) (db_nonces db')
     \<and> table_le secret_le (db_secrets db) (db_secrets db') \<and> table_le (=) (db_audit db) (db_audit db')
     \<and> table_le (=) (db_profiles db) (db_profiles db') \<and> table_le (=) (db_bindings db) (db_bindings db')
     \<and> table_le job_le (db_jobs db) (db_jobs db') \<and> table_le (=) (db_claims db) (db_claims db')
     \<and> table_le (=) (db_request_nonces db) (db_request_nonces db') \<and> table_le (=) (db_device_events db) (db_device_events db')
     \<and> table_le operation_le (db_operations db) (db_operations db') \<and> table_le (=) (db_receipts db) (db_receipts db')"

lemma metadata_le_refl [simp]: "metadata_le m m"
  by (simp add: metadata_le_def)

lemma evolves_refl: "evolves db db"
  by (simp add: evolves_def table_le_refl)

lemma evolves_trans:
  assumes "evolves a b" and "evolves b c"
  shows "evolves a c"
proof -
  have "\<exists>md'. db_metadata c = Some md' \<and> metadata_le md md'" if "db_metadata a = Some md" for md
    using assms that transpD [OF row_relations_trans(11)] by (simp add: evolves_def) blast
  with assms show ?thesis
    unfolding evolves_def
    by (elim conjE, intro conjI) (blast, blast, (rule table_le_trans, simp, assumption, assumption)+)
qed

named_theorems evolve_intros \<open>statements that stay within the evolution relation\<close>

lemma evolves_step: "evolves b c \<Longrightarrow> evolves a b \<Longrightarrow> evolves a c"
  by (rule evolves_trans)

lemma evolves_audit [evolve_intros]: "evolves a b \<Longrightarrow> evolves a (append_audit_with_context md e s n i p x b)"
  by (erule evolves_trans)
    (simp add: evolves_def credential_keys_def table_le_refl kept_materials_def append_audit_with_context_def table_le_append)

lemma evolves_append_audit [evolve_intros]: "evolves a b \<Longrightarrow> evolves a (append_audit J md e s n b)"
  by (simp add: append_audit_def evolves_audit)

section \<open>Statements\<close>

lemmas evolves_simps = evolves_def credential_keys_def table_le_refl table_le_append kept_materials_def rbind_Inr sql_insert_Inr

lemma insert_intent_evolves [evolve_intros]: "insert_intent r b = Inr c \<Longrightarrow> evolves a b \<Longrightarrow> evolves a c"
  by (erule evolves_step [rotated]) (auto simp: insert_intent_def evolves_simps)

lemma insert_material_evolves [evolve_intros]: "insert_material J m b = Inr c \<Longrightarrow> evolves a b \<Longrightarrow> evolves a c"
  by (erule evolves_step [rotated]) (auto simp: insert_material_def evolves_simps)

lemma set_intent_status_evolves:
  assumes "\<And>r. p r \<Longrightarrow> status_step (it_status r) s" and "evolves a b"
  shows "evolves a (set_intent_status p s now b)"
proof -
  have "table_le intent_le (db_intents b) (sql_update p (\<lambda>r. r\<lparr>it_status := s, it_updated_at := now\<rparr>) (db_intents b))"
    by (rule table_le_update) (simp_all add: intent_le_def r_into_rtranclp assms(1))
  then have "evolves b (set_intent_status p s now b)" by (simp add: set_intent_status_def evolves_simps)
  with assms(2) show ?thesis by (rule evolves_trans)
qed

lemma insert_ceremony_evolves [evolve_intros]: "insert_ceremony r b = Inr c \<Longrightarrow> evolves a b \<Longrightarrow> evolves a c"
  by (erule evolves_step [rotated]) (auto simp: insert_ceremony_def evolves_simps)

lemma ceremony_update_evolves:
  assumes "\<And>c. p c \<Longrightarrow> cy_completed_at c = None \<and> cy_invalidated_at c = None"
    and "\<And>c. cy_ceremony (f c) = cy_ceremony c \<and> cy_wallet_id (f c) = cy_wallet_id c \<and> cy_epoch (f c) = cy_epoch c \<and> cy_passkey (f c) = cy_passkey c"
    and "evolves a b"
  shows "evolves a (b\<lparr>db_ceremonies := sql_update p f (db_ceremonies b)\<rparr>)"
proof -
  have "table_le ceremony_le (db_ceremonies b) (sql_update p f (db_ceremonies b))"
    by (rule table_le_update) (auto simp: ceremony_le_def assms(2) dest: assms(1))
  then have "evolves b (b\<lparr>db_ceremonies := sql_update p f (db_ceremonies b)\<rparr>)" by (simp add: evolves_simps)
  with assms(3) show ?thesis by (rule evolves_trans)
qed

lemma set_completed_evolves [evolve_intros]:
  "evolves a b \<Longrightarrow> evolves a (set_completed (complete_ceremony_where i e t) now b)"
  unfolding set_completed_def by (rule ceremony_update_evolves) (auto simp: complete_ceremony_where_def)

lemma invalidate_ceremonies_evolves [evolve_intros]: "evolves a b \<Longrightarrow> evolves a (invalidate_ceremonies p now b)"
  unfolding invalidate_ceremonies_def by (rule ceremony_update_evolves) auto

lemma insert_authorization_evolves [evolve_intros]: "insert_authorization r b = Inr c \<Longrightarrow> evolves a b \<Longrightarrow> evolves a c"
  by (erule evolves_step [rotated]) (auto simp: insert_authorization_def evolves_simps)

lemma authorization_update_evolves:
  assumes "\<And>x. p x \<Longrightarrow> \<not> spent x"
    and "\<And>x. authorization_le (x\<lparr>az_consumed_at := None, az_invalidated_at := None\<rparr>) (f x)" and "evolves a b"
  shows "evolves a (b\<lparr>db_authorizations := sql_update p f (db_authorizations b)\<rparr>)"
proof -
  have "table_le authorization_le (db_authorizations b) (sql_update p f (db_authorizations b))"
    using assms(2) by (intro table_le_update) (auto simp: authorization_le_def dest: assms(1))
  then have "evolves b (b\<lparr>db_authorizations := sql_update p f (db_authorizations b)\<rparr>)" by (simp add: evolves_simps)
  with assms(3) show ?thesis by (rule evolves_trans)
qed

lemma consume_where_evolves [evolve_intros]: "consume_where p now b = Inr c \<Longrightarrow> evolves a b \<Longrightarrow> evolves a c"
  by (auto simp: consume_where_def Let_def usable_def spent_def authorization_le_def split: if_splits
      intro!: authorization_update_evolves)

lemma insert_nonce_evolves [evolve_intros]: "insert_nonce r b = Inr c \<Longrightarrow> evolves a b \<Longrightarrow> evolves a c"
  by (erule evolves_step [rotated]) (auto simp: insert_nonce_def evolves_simps)

lemma start_signing_evolves [evolve_intros]:
  "start_signing md p h fp sid aid iid signer q now b = Inr c \<Longrightarrow> evolves a b \<Longrightarrow> evolves a c"
  by (auto simp: start_signing_def rbind_Inr map_err_Inr Let_def status_step_def split: if_splits
      intro!: set_intent_status_evolves intro: insert_nonce_evolves consume_where_evolves)

lemma update_passkey_evolves [evolve_intros]:
  assumes "update_passkey_record_in J cid v json now b = Inr (n, c)" and "evolves a b"
  shows "evolves a c"
proof -
  have c: "c = b\<lparr>db_credentials := sql_update (active_at_version cid v) (passkey_updated json now) (db_credentials b)\<rparr>"
    and v: "\<not> (list_ex (active_at_version cid v) (db_credentials b) \<and> unat v + 1 \<ge> 2 ^ 63)"
    using assms(1) by (auto simp: update_passkey_record_in_def rbind_Inr Let_def split: if_splits)
  have "credential_le r (passkey_updated json now r)" if "r \<in> set (db_credentials b)" "active_at_version cid v r" for r
  proof -
    from that obtain p where p: "cm_passkey r = Some p" "pk_record_version p = v" by (auto simp: active_at_version_def split: option.splits)
    have "unat v + 1 < 2 ^ 63" using v that by (auto simp: list_ex_iff)
    then have "v \<le> v + 1" by (simp add: word_le_nat_alt unat_word_ariths)
    with p show ?thesis by (simp add: credential_le_def passkey_updated_def passkey_le_def)
  qed
  then have "table_le credential_le (db_credentials b) (db_credentials c)" unfolding c by (auto intro: table_le_update)
  then have "evolves b c" unfolding c by (simp add: evolves_simps map_sql_update passkey_updated_def)
  with assms(2) show ?thesis by (rule evolves_trans)
qed

lemma insert_profile_evolves [evolve_intros]: "insert_profile p b = Inr c \<Longrightarrow> evolves a b \<Longrightarrow> evolves a c"
  by (erule evolves_step [rotated]) (auto simp: insert_profile_def evolves_simps)

lemma insert_binding_evolves [evolve_intros]: "insert_binding p b = Inr c \<Longrightarrow> evolves a b \<Longrightarrow> evolves a c"
  by (erule evolves_step [rotated]) (auto simp: insert_binding_def evolves_simps)

lemma insert_secret_evolves [evolve_intros]: "insert_secret md p b = Inr c \<Longrightarrow> evolves a b \<Longrightarrow> evolves a c"
  by (erule evolves_step [rotated]) (auto simp: insert_secret_def evolves_simps)

lemma insert_bindings_evolves [evolve_intros]: "insert_bindings bs b = Inr c \<Longrightarrow> evolves a b \<Longrightarrow> evolves a c"
  by (induction bs arbitrary: b) (auto simp: rbind_Inr on_constraint_Inr intro: insert_binding_evolves)

lemma insert_catalog_evolves [evolve_intros]: "insert_catalog md es b = Inr c \<Longrightarrow> evolves a b \<Longrightarrow> evolves a c"
  by (induction es arbitrary: b)
    (auto simp: rbind_Inr on_constraint_Inr, metis insert_bindings_evolves insert_profile_evolves insert_secret_evolves)

lemma insert_job_evolves [evolve_intros]: "insert_job r b = Inr c \<Longrightarrow> evolves a b \<Longrightarrow> evolves a c"
  by (erule evolves_step [rotated]) (auto simp: insert_job_def evolves_simps)

lemma close_job_evolves:
  assumes "close_job md i f j s now b = Inr c" and "evolves a b" and "s \<in> {TxSigned, TxInvalidated}"
    and f: "\<And>r. jb_job (f r) = jb_job r \<and> jb_operation_binding_digest (f r) = jb_operation_binding_digest r"
  shows "evolves a c"
proof -
  let ?p = "\<lambda>r. jb_id r = i \<and> jb_status r = JobSigning"
  have "table_le job_le (db_jobs b) (sql_update ?p f (db_jobs b))"
    using f by (intro table_le_update) (auto simp: job_le_def)
  then have "evolves b (b\<lparr>db_jobs := sql_update ?p f (db_jobs b)\<rparr>)" by (simp add: evolves_simps)
  with assms(2) have "evolves a (b\<lparr>db_jobs := sql_update ?p f (db_jobs b)\<rparr>)" by (rule evolves_trans)
  with assms(1,3) show ?thesis
    by (auto simp: close_job_def Let_def status_step_def split: if_splits intro!: set_intent_status_evolves)
qed

lemma insert_operation_evolves [evolve_intros]: "insert_operation r b = Inr c \<Longrightarrow> evolves a b \<Longrightarrow> evolves a c"
  by (erule evolves_step [rotated]) (auto simp: insert_operation_def evolves_simps)

lemma update_operations_evolves:
  assumes "update_operations p f b = Inr c" and "evolves a b" and "\<And>r. p r \<Longrightarrow> operation_le r (f r)"
  shows "evolves a c"
proof -
  have "table_le operation_le (db_operations b) (sql_update p f (db_operations b))" by (rule table_le_update) (auto intro: assms(3))
  with assms(1) have "evolves b c" by (auto simp: update_operations_def evolves_simps split: if_splits)
  with assms(2) show ?thesis by (rule evolves_trans)
qed

text \<open>Replacing one table by one that only grew.\<close>

lemma credentials_evolve:
  assumes "table_le credential_le (db_credentials b) t" and "credential_keys b \<Longrightarrow> distinct (map cm_credential_id t)" and "evolves a b"
  shows "evolves a (b\<lparr>db_credentials := t\<rparr>)"
proof -
  have "evolves b (b\<lparr>db_credentials := t\<rparr>)" using assms(1,2) by (simp add: evolves_simps)
  with assms(3) show ?thesis by (rule evolves_trans)
qed

lemma webauthn_evolves:
  assumes "table_le webauthn_le (db_webauthn b) t" and "evolves a b"
  shows "evolves a (b\<lparr>db_webauthn := t\<rparr>)"
  using assms(1) by (intro evolves_trans [OF assms(2)]) (simp add: evolves_simps)

lemma secrets_evolve:
  assumes "table_le secret_le (db_secrets b) t" and "evolves a b"
  shows "evolves a (b\<lparr>db_secrets := t\<rparr>)"
  using assms(1) by (intro evolves_trans [OF assms(2)]) (simp add: evolves_simps)

lemma append_evolves [evolve_intros]:
  "sql_insert k x r (db_claims b) = Inr t1 \<Longrightarrow> evolves a b \<Longrightarrow> evolves a (b\<lparr>db_claims := t1\<rparr>)"
  "sql_insert k2 x2 r2 (db_receipts b) = Inr t2 \<Longrightarrow> evolves a b \<Longrightarrow> evolves a (b\<lparr>db_receipts := t2\<rparr>)"
  "sql_insert k3 x3 r3 (db_request_nonces b) = Inr t3 \<Longrightarrow> evolves a b \<Longrightarrow> evolves a (b\<lparr>db_request_nonces := t3\<rparr>)"
  "sql_insert k4 x4 r4 (db_device_events b) = Inr t4 \<Longrightarrow> evolves a b \<Longrightarrow> evolves a (b\<lparr>db_device_events := t4\<rparr>)"
  by (erule evolves_step [rotated]; simp add: evolves_simps)+

lemma metadata_evolves:
  assumes "db_metadata b = Some md" and "metadata_le md md'" and "evolves a b"
  shows "evolves a (b\<lparr>db_metadata := Some md'\<rparr>)"
  using assms(1,2) by (intro evolves_trans [OF assms(3)]) (simp add: evolves_simps)

end
