(* ===== verification/Storage_Steps.thy ===== *)
theory Storage_Steps
  imports Storage_History
begin

text \<open>
  Every operation of the wallet storage stays within \<open>evolves\<close>, and the step relation of the storage.
\<close>

section \<open>Operations\<close>

lemma create_transaction_intent_with_audit_evolves: "create_transaction_intent_with_audit i x db = Inr (r, db') \<Longrightarrow> evolves db db'"
  by (auto simp: create_transaction_intent_with_audit_def rbind_Inr on_constraint_Inr Let_def split: if_splits option.splits prod.splits
      intro!: evolves_audit evolves_append_audit intro: evolve_intros evolves_refl)

lemma transition_transaction_intent_evolves: "transition_transaction_intent J i e n t db = Inr (r, db') \<Longrightarrow> evolves db db'"
  by (auto simp: transition_transaction_intent_def rbind_Inr on_constraint_Inr Let_def status_step_def split: if_splits option.splits prod.splits
      intro!: evolves_append_audit set_intent_status_evolves evolves_refl)

lemma sql_insert_distinct: "sql_insert k (\<lambda>a b. f a = f b) row t = Inr t' \<Longrightarrow> distinct (map f t) \<Longrightarrow> distinct (map f t')"
  by (auto simp: sql_insert_Inr)

lemma sql_insert_table_le: "reflp R \<Longrightarrow> sql_insert k x row t = Inr t' \<Longrightarrow> table_le R t t'"
  by (auto simp: sql_insert_Inr intro: table_le_append)

lemma insert_passkey_record_evolves: "insert_passkey_record J r db = Inr (u, db') \<Longrightarrow> evolves db db'"
  by (auto simp: insert_passkey_record_def rbind_Inr credential_keys_def split: if_splits
      intro!: evolves_append_audit credentials_evolve evolves_refl elim: sql_insert_distinct sql_insert_table_le [rotated])

lemma update_passkey_record_cas_evolves: "update_passkey_record_cas J i v j t db = Inr (r, db') \<Longrightarrow> evolves db db'"
  by (auto simp: update_passkey_record_cas_def rbind_Inr on_constraint_Inr Let_def split: if_splits option.splits prod.splits
      intro!: evolves_audit evolves_append_audit intro: evolve_intros evolves_refl)

lemma register_signer_profile_evolves: "register_signer_profile J p db = Inr (r, db') \<Longrightarrow> evolves db db'"
  by (auto simp: register_signer_profile_def rbind_Inr on_constraint_Inr Let_def split: if_splits option.splits prod.splits
      intro!: evolves_audit evolves_append_audit intro: evolve_intros evolves_refl)

lemma bind_signer_address_evolves: "bind_signer_address E J p db = Inr (r, db') \<Longrightarrow> evolves db db'"
  by (auto simp: bind_signer_address_def rbind_Inr on_constraint_Inr Let_def split: if_splits option.splits prod.splits
      intro!: evolves_audit evolves_append_audit intro: evolve_intros evolves_refl)

lemma install_signer_catalog_evolves: "install_signer_catalog E J p db = Inr (r, db') \<Longrightarrow> evolves db db'"
  by (auto simp: install_signer_catalog_def rbind_Inr on_constraint_Inr Let_def split: if_splits option.splits prod.splits
      intro!: evolves_audit evolves_append_audit intro: evolve_intros evolves_refl)

lemma claim_chain_executor_evolves: "claim_chain_executor J c db = Inr (r, db') \<Longrightarrow> evolves db db'"
  by (auto simp: claim_chain_executor_def rbind_Inr on_constraint_Inr Let_def split: if_splits option.splits
      intro!: evolves_append_audit append_evolves evolves_refl)

lemma complete_signing_job_evolves: "complete_signing_job J i d s t db = Inr (r, db') \<Longrightarrow> evolves db db'"
  by (auto simp: complete_signing_job_def rbind_Inr on_constraint_Inr Let_def split: if_splits option.splits prod.splits intro!: evolves_append_audit
      elim!: close_job_evolves intro: evolves_refl)

lemma terminate_signing_job_evolves: "terminate_signing_job J i d s x t db = Inr (r, db') \<Longrightarrow> evolves db db'"
  by (auto simp: terminate_signing_job_def rbind_Inr on_constraint_Inr Let_def split: if_splits option.splits prod.splits intro!: evolves_append_audit
      elim!: close_job_evolves intro: evolves_refl)

lemma consume_authorization_evolves: "consume_authorization J i e t db = Inr (r, db') \<Longrightarrow> evolves db db'"
  by (auto simp: consume_authorization_def rbind_Inr on_constraint_Inr Let_def split: if_splits option.splits prod.splits
      intro!: evolves_audit evolves_append_audit intro: evolve_intros evolves_refl)

lemma claim_nonce_evolves: "claim_nonce J c db = Inr (r, db') \<Longrightarrow> evolves db db'"
  by (auto simp: claim_nonce_def rbind_Inr on_constraint_Inr Let_def split: if_splits option.splits prod.splits
      intro!: evolves_audit evolves_append_audit intro: evolve_intros evolves_refl)

lemma record_personal_signing_receipt_evolves: "record_personal_signing_receipt J r db = Inr (u, db') \<Longrightarrow> evolves db db'"
  by (auto simp: record_personal_signing_receipt_def rbind_Inr on_constraint_Inr Let_def split: if_splits option.splits
      intro!: evolves_append_audit append_evolves evolves_refl)

lemma freeze_personal_signing_operation_evolves: "freeze_personal_signing_operation J i d p t db = Inr (r, db') \<Longrightarrow> evolves db db'"
  by (auto simp: freeze_personal_signing_operation_def rbind_Inr on_constraint_Inr Let_def split: if_splits option.splits prod.splits intro!: evolves_append_audit
      elim!: update_operations_evolves intro: evolves_refl simp: operation_le_def personal_is_terminal_def)

lemma complete_personal_signing_operation_evolves: "complete_personal_signing_operation J i d p t db = Inr (r, db') \<Longrightarrow> evolves db db'"
  by (auto simp: complete_personal_signing_operation_def rbind_Inr on_constraint_Inr Let_def split: if_splits option.splits prod.splits intro!: evolves_append_audit
      elim!: update_operations_evolves intro: evolves_refl simp: operation_le_def personal_is_terminal_def)

lemma terminate_personal_signing_operation_evolves: "terminate_personal_signing_operation J i d s x t db = Inr (r, db') \<Longrightarrow> evolves db db'"
  by (auto simp: terminate_personal_signing_operation_def rbind_Inr on_constraint_Inr Let_def split: if_splits option.splits prod.splits intro!: evolves_append_audit
      elim!: update_operations_evolves intro: evolves_refl simp: operation_le_def personal_is_terminal_def)

lemma claim_signer_request_nonce_evolves: "claim_signer_request_nonce E J i c t db = Inr (r, db') \<Longrightarrow> evolves db db'"
  by (auto simp: claim_signer_request_nonce_def rbind_Inr on_constraint_Inr Let_def split: if_splits option.splits
      intro!: evolves_append_audit append_evolves evolves_refl)

lemma persist_signer_device_transition_evolves: "persist_signer_device_transition E J w s e g r t db = Inr (u, db') \<Longrightarrow> evolves db db'"
  by (auto simp: persist_signer_device_transition_def rbind_Inr on_constraint_Inr Let_def split: if_splits option.splits
      intro!: evolves_append_audit append_evolves evolves_refl)

lemma begin_approval_ceremony_atomic_evolves: "begin_approval_ceremony_atomic J c db = Inr (r, db') \<Longrightarrow> evolves db db'"
  by (auto simp: begin_approval_ceremony_atomic_def rbind_Inr on_constraint_Inr Let_def split: if_splits option.splits prod.splits
      intro!: evolves_audit evolves_append_audit intro: evolve_intros evolves_refl)

lemma begin_passkey_approval_evolves: "begin_passkey_approval J c db = Inr (r, db') \<Longrightarrow> evolves db db'"
  by (auto simp: begin_passkey_approval_def rbind_Inr on_constraint_Inr Let_def split: if_splits option.splits prod.splits
      intro!: evolves_audit evolves_append_audit intro: evolve_intros evolves_refl)

lemma consume_authorization_and_claim_frost_nonce_evolves: "consume_authorization_and_claim_frost_nonce J c db = Inr (r, db') \<Longrightarrow> evolves db db'"
  by (auto simp: consume_authorization_and_claim_frost_nonce_def rbind_Inr on_constraint_Inr Let_def split: if_splits option.splits prod.splits
      intro!: evolves_audit evolves_append_audit intro: evolve_intros evolves_refl)

lemma create_transaction_intent_v2_evolves: "create_transaction_intent_v2 J i m db = Inr (r, db') \<Longrightarrow> evolves db db'"
  by (auto simp: create_transaction_intent_v2_def rbind_Inr intro!: evolves_audit)
    (metis insert_material_evolves insert_intent_evolves evolves_refl)

lemma create_signing_job_Inr:
  assumes "create_signing_job J aid j d t db = Inr (u, db')"
  obtains md signer a i db1 db2 where "db_metadata db = Some md" "wm_restore_state md \<in> {Normal, Snapshotting}"
    "wm_wallet_id md = nj_wallet_id j" "nj_created_at j = t" "t \<le> nj_expires_at j"
    "bound_authorization md aid (nj_intent_id j) db = Inr (a, i)" "job_authorized j d signer t a i"
    "insert_job (new_job_row j d) db = Inr db1"
    "start_signing md (\<lambda>a. az_id a = aid) claim_error d (nj_session_id j) aid (nj_intent_id j) signer
       (\<lambda>r. it_wallet_id r = wm_wallet_id md) t db1 = Inr db2"
    "db' = append_audit J md ''chain_signing.authorized_started'' (Some (SubjectId (nj_job_id j))) t db2"
  using assms unfolding create_signing_job_def Let_def
  by (clarsimp simp only: rbind_Inr guard_Inr ok_or_Inr on_constraint_Inr mutation_metadata_Inr prod.case
      split_paired_all split_paired_Ex sum.inject prod.inject de_Morgan_disj not_not not_less)

lemma create_signing_job_evolves: "create_signing_job J i j d t db = Inr (u, db') \<Longrightarrow> evolves db db'"
  by (erule create_signing_job_Inr) (simp only:, rule evolves_append_audit, erule start_signing_evolves, erule insert_job_evolves, rule evolves_refl)

lemma create_personal_signing_operation_Inr:
  assumes "create_personal_signing_operation E J aid n t db = Inr (u, db')"
  obtains md a i m db1 db2 where "db_metadata db = Some md" "wm_restore_state md \<in> {Normal, Snapshotting}"
    "validate_new_personal_operation n = Inr ()" "wm_wallet_id md = no_wallet_id n" "no_created_at n = t" "t \<le> no_expires_at n"
    "bound_authorization md aid (no_intent_id n) db = Inr (a, i)" "personal_authorized n t a i"
    "m \<in> set (db_materials db)" "validate_personal_operation_material E J (im_payload_json m) (im_payload_hash m) n = Inr ()"
    "insert_operation (new_operation_row n) db = Inr db1"
    "start_signing md (\<lambda>a. az_id a = aid) (\<lambda>e. e) (no_operation_binding_digest n) (no_session_id n) aid (no_intent_id n)
       ''frost:participant-0'' (\<lambda>r. it_wallet_id r = wm_wallet_id md) t db1 = Inr db2"
    "db' = append_audit J md ''personal_signing.authorized_started'' (Some (SubjectId (no_operation_id n))) t db2"
proof -
  from assms have "personal_signing_operation db (no_operation_id n) = None"
    by (auto simp: create_personal_signing_operation_def rbind_Inr split: if_splits option.splits)
  with assms show ?thesis
    unfolding create_personal_signing_operation_def Let_def
    by (clarsimp simp only: rbind_Inr guard_Inr ok_or_Inr on_constraint_Inr mutation_metadata_Inr prod.case option.case
        split_paired_all split_paired_Ex sum.inject prod.inject de_Morgan_disj not_not not_less)
      (auto dest!: find_SomeD intro: that)
qed

lemma create_personal_signing_operation_evolves: "create_personal_signing_operation E J i n t db = Inr (u, db') \<Longrightarrow> evolves db db'"
  by (erule create_personal_signing_operation_Inr) (simp only:, rule evolves_append_audit, erule start_signing_evolves, erule insert_operation_evolves, rule evolves_refl)

lemma approve_and_issue_authorization_Inr:
  assumes "approve_and_issue_authorization d x db = Inr (u, db')"
  obtains md c i e p v db1 where "db_metadata db = Some md" "wm_restore_state md \<in> {Normal, Snapshotting}"
    "approval_ceremony db (ad_ceremony_id d) = Some c" "transaction_intent db (cy_intent_id c) = Some i" "it_v2 i = None"
    "pending_intent_facts db (cy_intent_id c) (wm_epoch md) (ad_approved_at d) = Inr (e, p)"
    "check_authorization_times d e = Inr v"
    "sql_count (\<lambda>r. it_id r = cy_intent_id c \<and> it_epoch r = wm_epoch md \<and> it_status r = TxPending) (db_intents db) = 1"
    "insert_authorization (new_authorization md d (cy_intent_id c))
       (set_intent_status (\<lambda>r. it_id r = cy_intent_id c \<and> it_epoch r = wm_epoch md \<and> it_status r = TxPending) TxApproved (ad_approved_at d)
         (set_completed (complete_ceremony_where (ad_ceremony_id d) (wm_epoch md) (ad_approved_at d)) (ad_approved_at d) db)) = Inr db1"
    "db' = append_audit_with_context md ''approval.completed'' (Some (SubjectId (ad_ceremony_id d))) (ad_approved_at d)
       (Some (cy_intent_id c)) (Some p) x db1"
  using assms unfolding approve_and_issue_authorization_def Let_def
  by (clarsimp simp only: rbind_Inr guard_Inr ok_or_Inr on_constraint_Inr mutation_metadata_Inr prod.case
      split_paired_all split_paired_Ex sum.inject prod.inject de_Morgan_disj not_not)

lemma approve_and_issue_authorization_evolves: "approve_and_issue_authorization d x db = Inr (u, db') \<Longrightarrow> evolves db db'"
  by (erule approve_and_issue_authorization_Inr)
    (auto simp: status_step_def intro!: evolves_audit elim!: insert_authorization_evolves
      intro!: set_intent_status_evolves set_completed_evolves evolves_refl)

lemma complete_passkey_approval_atomic_Inr:
  assumes "complete_passkey_approval_atomic J d db = Inr (a, db')"
  obtains md c e p n v db1 db2 where "db_metadata db = Some md" "wm_restore_state md \<in> {Normal, Snapshotting}"
    "approval_ceremony db (ad_ceremony_id d) = Some c" "cy_passkey c = Some (pc_credential_id d, ad_binding_digest d)"
    "cy_intent_id c = pc_intent_id d" "cy_epoch c = wm_epoch md" "cy_completed_at c = None" "cy_invalidated_at c = None"
    "ad_approved_at d \<le> ce_expires_at (cy_ceremony c)"
    "pending_intent_facts db (pc_intent_id d) (wm_epoch md) (ad_approved_at d) = Inr (e, p)"
    "check_authorization_times (approval_decision.truncate d) e = Inr v"
    "update_passkey_record_in J (pc_credential_id d) (pc_expected_record_version d) (pc_updated_passkey_json d) (ad_approved_at d) db = Inr (1, db1)"
    "sql_count (\<lambda>r. it_id r = pc_intent_id d \<and> it_epoch r = wm_epoch md \<and> it_status r = TxPending \<and> is_v2 r) (db_intents db1) = 1"
    "a = new_authorization md (approval_decision.truncate d) (pc_intent_id d)"
    "insert_authorization a
       (set_intent_status (\<lambda>r. it_id r = pc_intent_id d \<and> it_epoch r = wm_epoch md \<and> it_status r = TxPending \<and> is_v2 r) TxApproved (ad_approved_at d)
         (set_completed (complete_ceremony_where (ad_ceremony_id d) (wm_epoch md) (ad_approved_at d)) (ad_approved_at d) db1)) = Inr db2"
    "db' = append_audit_with_context md ''approval.passkey_completed'' (Some (SubjectId (ad_ceremony_id d))) (ad_approved_at d)
       (Some (pc_intent_id d)) (Some p) (default_context J) db2"
  using assms unfolding complete_passkey_approval_atomic_def Let_def
  by (clarsimp simp only: rbind_Inr guard_Inr ok_or_Inr on_constraint_Inr mutation_metadata_Inr prod.case
      split_paired_all split_paired_Ex sum.inject prod.inject de_Morgan_disj not_not not_less)

lemma complete_passkey_approval_atomic_evolves: "complete_passkey_approval_atomic J d db = Inr (a, db') \<Longrightarrow> evolves db db'"
  by (erule complete_passkey_approval_atomic_Inr)
    (auto simp: status_step_def intro!: evolves_audit elim!: insert_authorization_evolves
      intro!: set_intent_status_evolves set_completed_evolves elim: update_passkey_evolves intro: evolves_refl)

lemma upsert_credential_evolves:
  assumes "upsert_credential J x db = Inr (u, db')" and keys: "credential_keys db"
  shows "evolves db db'"
proof -
  let ?p = "\<lambda>r. cm_credential_id r = cm_credential_id x"
  let ?f = "\<lambda>r. r\<lparr>cm_label := cm_label x, cm_cose_public_key := cm_cose_public_key x, cm_sign_count := cm_sign_count x,
    cm_updated_at := cm_updated_at x\<rparr>"
  show ?thesis
  proof (cases "List.find ?p (db_credentials db)")
    case None
    then have "cm_credential_id x \<notin> cm_credential_id ` set (db_credentials db)" by (auto simp: find_None_iff)
    then show ?thesis
      using assms None by (auto simp: upsert_credential_def rbind_Inr Let_def credential_metadata.defs credential_keys_def
          intro!: evolves_append_audit credentials_evolve table_le_append evolves_refl)
  next
    case (Some r)
    then have r: "r \<in> set (db_credentials db)" "?p r" "\<not> cm_sign_count x < cm_sign_count r"
      using assms by (auto simp: upsert_credential_def rbind_Inr split: if_splits dest: find_SomeD)
    have "credential_le s (?f s)" if "s \<in> set (db_credentials db)" "?p s" for s
      using distinct_key [OF keys [unfolded credential_keys_def] that(1) r(1)] that r
      by (auto simp: credential_le_def passkey_le_def intro!: option.rel_refl)
    then have "table_le credential_le (db_credentials db) (sql_update ?p ?f (db_credentials db))" by (auto intro: table_le_update)
    then show ?thesis
      using assms Some by (auto simp: upsert_credential_def rbind_Inr Let_def credential_keys_def map_sql_update split: if_splits
          intro!: evolves_append_audit credentials_evolve evolves_refl)
  qed
qed

lemma set_webauthn_profile_evolves: "set_webauthn_profile J x db = Inr (u, db') \<Longrightarrow> evolves db db'"
  by (auto simp: set_webauthn_profile_def rbind_Inr webauthn_le_def split: if_splits option.splits
      intro!: evolves_append_audit webauthn_evolves table_le_append table_le_update evolves_refl)

lemma put_secret_ref_evolves: "put_secret_ref J x db = Inr (u, db') \<Longrightarrow> evolves db db'"
  by (auto simp: put_secret_ref_def rbind_Inr Let_def secret_le_def
      intro!: evolves_append_audit secrets_evolve table_le_append table_le_update evolves_refl)

lemma startup_evolves: "invalidate_unfinished_ceremonies_on_startup J now db = Inr (n, db') \<Longrightarrow> evolves db db'"
  by (auto simp: invalidate_unfinished_ceremonies_on_startup_def rbind_Inr Let_def split: if_splits
      intro!: evolves_append_audit invalidate_ceremonies_evolves evolves_refl)

lemma record_cutover_recovery_evolves: "record_cutover_recovery J x db = Inr (u, db') \<Longrightarrow> evolves db db'"
  by (auto simp: record_cutover_recovery_def rbind_Inr Let_def metadata_in_Inr set_restore_state_def metadata_le_def split: if_splits
      intro!: evolves_append_audit metadata_evolves evolves_refl)

lemma transition_restore_evolves: "transition_restore J x y now db = Inr (u, db') \<Longrightarrow> evolves db db'"
  by (auto simp: transition_restore_def rbind_Inr Let_def metadata_in_Inr set_restore_state_def metadata_le_def
      intro!: evolves_append_audit metadata_evolves evolves_refl)

lemma begin_restore_precheck_evolves: "begin_restore_precheck J now db = Inr (u, db') \<Longrightarrow> evolves db db'"
  by (auto simp: begin_restore_precheck_def rbind_Inr Let_def metadata_in_Inr set_restore_state_def metadata_le_def
      invalidate_ceremonies_def intro!: evolves_append_audit metadata_evolves invalidate_ceremonies_evolves [unfolded invalidate_ceremonies_def] evolves_refl)

lemma authorization_evolves:
  assumes "\<And>x. p x \<Longrightarrow> authorization_le x (f x)" and "evolves a b"
  shows "evolves a (b\<lparr>db_authorizations := sql_update p f (db_authorizations b)\<rparr>)"
  using assms(1) by (intro evolves_trans [OF assms(2)]) (auto simp: evolves_simps intro: table_le_update)

lemma nonces_evolve:
  assumes "\<And>x. p x \<Longrightarrow> nonce_le x (f x)" and "evolves a b"
  shows "evolves a (b\<lparr>db_nonces := sql_update p f (db_nonces b)\<rparr>)"
  using assms(1) by (intro evolves_trans [OF assms(2)]) (auto simp: evolves_simps intro: table_le_update)

lemma snapshots_evolve:
  assumes "evolves a b"
  shows "evolves a (b\<lparr>db_materials := filter (\<lambda>m. im_kind m \<noteq> NodeSnapshot) (db_materials b)\<rparr>)"
  by (intro evolves_trans [OF assms]) (simp add: evolves_simps kept_materials_def)

lemma cutover_restore_evolves: "cutover_restore J now db = Inr (e, db') \<Longrightarrow> evolves db db'"
  unfolding cutover_restore_def Let_def
  apply (clarsimp simp only: rbind_Inr ok_or_Inr metadata_in_Inr prod.inject sum.inject)
  apply (intro evolves_append_audit snapshots_evolve set_intent_status_evolves nonces_evolve authorization_evolves
      invalidate_ceremonies_evolves metadata_evolves evolves_refl)
  apply (auto simp: metadata_le_def nonce_le_def authorization_le_def spent_def status_step_def checked_add_Some word_le_nat_alt)
  done

section \<open>Runs\<close>

text \<open>
  One step is one successful mutating call, at any time and with any arguments; a failing call rolls its transaction
  back and is no step.
\<close>

inductive storage_step :: "bitcoin_env \<Rightarrow> storage_env \<Rightarrow> storage \<Rightarrow> storage \<Rightarrow> bool" for E J where
  st_create_intent: "create_transaction_intent_with_audit i x db = Inr (u, db') \<Longrightarrow> storage_step E J db db'"
| st_create_intent_v2: "create_transaction_intent_v2 J i2 m db = Inr (u, db') \<Longrightarrow> storage_step E J db db'"
| st_transition_intent: "transition_transaction_intent J k e n t db = Inr (u, db') \<Longrightarrow> storage_step E J db db'"
| st_upsert_credential: "upsert_credential J cm db = Inr (u, db') \<Longrightarrow> storage_step E J db db'"
| st_set_webauthn: "set_webauthn_profile J wp db = Inr (u, db') \<Longrightarrow> storage_step E J db db'"
| st_insert_passkey: "insert_passkey_record J np db = Inr (u, db') \<Longrightarrow> storage_step E J db db'"
| st_update_passkey: "update_passkey_record_cas J s v j t db = Inr (u, db') \<Longrightarrow> storage_step E J db db'"
| st_put_secret: "put_secret_ref J sr db = Inr (u, db') \<Longrightarrow> storage_step E J db db'"
| st_begin_approval: "begin_approval_ceremony_atomic J c db = Inr (u, db') \<Longrightarrow> storage_step E J db db'"
| st_begin_passkey: "begin_passkey_approval J pc db = Inr (u, db') \<Longrightarrow> storage_step E J db db'"
| st_approve: "approve_and_issue_authorization d x db = Inr (u, db') \<Longrightarrow> storage_step E J db db'"
| st_complete_passkey: "complete_passkey_approval_atomic J pd db = Inr (a, db') \<Longrightarrow> storage_step E J db db'"
| st_consume: "consume_authorization J k ep t db = Inr (u, db') \<Longrightarrow> storage_step E J db db'"
| st_claim_nonce: "claim_nonce J nn db = Inr (u, db') \<Longrightarrow> storage_step E J db db'"
| st_claim_frost: "consume_authorization_and_claim_frost_nonce J fc db = Inr (u, db') \<Longrightarrow> storage_step E J db db'"
| st_register_profile: "register_signer_profile J sp db = Inr (u, db') \<Longrightarrow> storage_step E J db db'"
| st_bind_address: "bind_signer_address E J ab db = Inr (u, db') \<Longrightarrow> storage_step E J db db'"
| st_install_catalog: "install_signer_catalog E J cs db = Inr (oc, db') \<Longrightarrow> storage_step E J db db'"
| st_create_job: "create_signing_job J k sj dg t db = Inr (jr, db') \<Longrightarrow> storage_step E J db db'"
| st_claim_executor: "claim_chain_executor J cl db = Inr (u, db') \<Longrightarrow> storage_step E J db db'"
| st_complete_job: "complete_signing_job J k dg sg t db = Inr (u, db') \<Longrightarrow> storage_step E J db db'"
| st_terminate_job: "terminate_signing_job J k dg js rs t db = Inr (u, db') \<Longrightarrow> storage_step E J db db'"
| st_create_personal: "create_personal_signing_operation E J k po t db = Inr (orow, db') \<Longrightarrow> storage_step E J db db'"
| st_record_receipt: "record_personal_signing_receipt J rc db = Inr (u, db') \<Longrightarrow> storage_step E J db db'"
| st_freeze: "freeze_personal_signing_operation J k dg pkg t db = Inr (u, db') \<Longrightarrow> storage_step E J db db'"
| st_complete_personal: "complete_personal_signing_operation J k dg rd t db = Inr (u, db') \<Longrightarrow> storage_step E J db db'"
| st_terminate_personal: "terminate_personal_signing_operation J k dg ps rs t db = Inr (u, db') \<Longrightarrow> storage_step E J db db'"
| st_request_nonce: "claim_signer_request_nonce E J pi rq t db = Inr (u, db') \<Longrightarrow> storage_step E J db db'"
| st_device: "persist_signer_device_transition E J w k ep gen dr t db = Inr (u, db') \<Longrightarrow> storage_step E J db db'"
| st_startup: "invalidate_unfinished_ceremonies_on_startup J t db = Inr (cnt, db') \<Longrightarrow> storage_step E J db db'"
| st_recovery: "record_cutover_recovery J oc2 db = Inr (u, db') \<Longrightarrow> storage_step E J db db'"
| st_begin_snapshot: "begin_snapshot J t db = Inr (u, db') \<Longrightarrow> storage_step E J db db'"
| st_finish_snapshot: "finish_snapshot J t db = Inr (u, db') \<Longrightarrow> storage_step E J db db'"
| st_precheck: "begin_restore_precheck J t db = Inr (u, db') \<Longrightarrow> storage_step E J db db'"
| st_cutover: "cutover_restore J t db = Inr (ep, db') \<Longrightarrow> storage_step E J db db'"
| st_begin_recovering: "begin_recovering J t db = Inr (u, db') \<Longrightarrow> storage_step E J db db'"
| st_finish_recovery: "finish_recovery J t db = Inr (u, db') \<Longrightarrow> storage_step E J db db'"

lemmas operations_evolve =
  create_transaction_intent_with_audit_evolves create_transaction_intent_v2_evolves transition_transaction_intent_evolves
  set_webauthn_profile_evolves insert_passkey_record_evolves update_passkey_record_cas_evolves put_secret_ref_evolves
  begin_approval_ceremony_atomic_evolves begin_passkey_approval_evolves approve_and_issue_authorization_evolves
  complete_passkey_approval_atomic_evolves consume_authorization_evolves claim_nonce_evolves
  consume_authorization_and_claim_frost_nonce_evolves register_signer_profile_evolves bind_signer_address_evolves
  install_signer_catalog_evolves create_signing_job_evolves claim_chain_executor_evolves complete_signing_job_evolves
  terminate_signing_job_evolves create_personal_signing_operation_evolves record_personal_signing_receipt_evolves
  freeze_personal_signing_operation_evolves complete_personal_signing_operation_evolves
  terminate_personal_signing_operation_evolves claim_signer_request_nonce_evolves persist_signer_device_transition_evolves
  startup_evolves record_cutover_recovery_evolves transition_restore_evolves begin_restore_precheck_evolves cutover_restore_evolves

lemma storage_step_evolves: "storage_step E J db db' \<Longrightarrow> credential_keys db \<Longrightarrow> evolves db db'"
  by (induction rule: storage_step.induct)
    (auto simp: begin_snapshot_def finish_snapshot_def begin_recovering_def finish_recovery_def
      intro: operations_evolve upsert_credential_evolves)

lemma storage_run_evolves: "(storage_step E J)\<^sup>*\<^sup>* db db' \<Longrightarrow> credential_keys db \<Longrightarrow> evolves db db'"
proof (induction rule: rtranclp_induct)
  case base
  then show ?case by (simp add: evolves_refl)
next
  case (step b c)
  then have "credential_keys b" by (simp add: evolves_def)
  with step show ?case by (blast intro: evolves_trans storage_step_evolves)
qed

text \<open>A store that was opened on a new database and has been used since.\<close>

definition storage_reachable :: "bitcoin_env \<Rightarrow> storage_env \<Rightarrow> storage \<Rightarrow> bool" where
  "storage_reachable E J db \<longleftrightarrow> (\<exists>w t u db0. initialize J w t empty_storage = Inr (u, db0) \<and> (storage_step E J)\<^sup>*\<^sup>* db0 db)"

lemma initialize_Inr:
  "initialize J w t empty_storage = Inr (u, db) \<longleftrightarrow> (\<exists>md. md = \<lparr>wm_wallet_id = w, wm_epoch = 1, wm_restore_state = Normal,
     wm_created_at = t, wm_updated_at = t\<rparr>
     \<and> db = append_audit J md ''wallet.initialized'' (Some (SubjectId w)) t (empty_storage\<lparr>db_metadata := Some md\<rparr>))"
  by (auto simp: initialize_def empty_storage_def Let_def)

lemma reachable_credential_keys: "storage_reachable E J db \<Longrightarrow> credential_keys db"
proof -
  assume "storage_reachable E J db"
  then obtain w t u db0 where i: "initialize J w t empty_storage = Inr (u, db0)" and r: "(storage_step E J)\<^sup>*\<^sup>* db0 db"
    by (auto simp: storage_reachable_def)
  have "credential_keys db0"
    using i unfolding initialize_Inr by (auto simp: credential_keys_def append_audit_def append_audit_with_context_def empty_storage_def Let_def)
  with storage_run_evolves [OF r] show ?thesis by (simp add: evolves_def)
qed

end
