(* ===== verification/Storage_Ledger.thy ===== *)
theory Storage_Ledger
  imports Storage_Steps "HOL-Library.Multiset"
begin

text \<open>
  What the tables of the wallet database say about each other: an authorization rests on an approved intent and,
  for version two intents, on a completed Passkey ceremony with the same binding digest; a bound nonce claim rests
  on a consumed authorization; work and signing intents rest on a bound claim; and live rows carry the current
  epoch.  The statements are about the lists of rows, one lemma per way a statement changes them.
\<close>

section \<open>The invariant\<close>

definition bound_intent :: "nonce_row \<Rightarrow> bytes option" where
  "bound_intent n = map_option (\<lambda>(authorization_id, intent_id, signer_id). intent_id) (nc_binding n)"

definition bound_intents :: "nonce_row list \<Rightarrow> bytes list" where
  "bound_intents ns = List.map_filter bound_intent ns"

definition passkey_approved :: "ceremony_row list \<Rightarrow> authorization_row \<Rightarrow> bool" where
  "passkey_approved cs a \<longleftrightarrow> (\<exists>c \<in> set cs. cy_intent_id c = az_intent_id a \<and> cy_completed_at c \<noteq> None
     \<and> map_option snd (cy_passkey c) = Some (az_binding_digest a))"

definition authorization_backed :: "intent_row list \<Rightarrow> ceremony_row list \<Rightarrow> authorization_row \<Rightarrow> bool" where
  "authorization_backed is cs a \<longleftrightarrow>
     (\<exists>i \<in> set is. it_id i = az_intent_id a \<and> it_status i \<noteq> TxPending \<and> az_expires_at a \<le> ni_expires_at (it_intent i)
        \<and> (is_v2 i \<longrightarrow> passkey_approved cs a))
     \<and> (\<forall>t. az_consumed_at a = Some t \<longrightarrow> t \<le> az_expires_at a)"

definition claim_backed :: "intent_row list \<Rightarrow> authorization_row list \<Rightarrow> nonce_row \<Rightarrow> bool" where
  "claim_backed is as n \<longleftrightarrow> (\<forall>authorization_id intent_id signer_id. nc_binding n = Some (authorization_id, intent_id, signer_id) \<longrightarrow>
     (\<exists>a \<in> set as. az_id a = authorization_id \<and> az_intent_id a = intent_id \<and> az_consumed_at a = Some (nn_claimed_at (nc_claim n)))
     \<and> (\<exists>i \<in> set is. it_id i = intent_id \<and> map_option v2_signer_id (it_v2 i) = Some signer_id
          \<and> ni_session_id (it_intent i) = nn_session_id (nc_claim n)))"

definition work_backed :: "nonce_row list \<Rightarrow> bytes \<times> bytes option \<Rightarrow> bool" where
  "work_backed ns = (\<lambda>(intent_id, digest). \<exists>n \<in> set ns. bound_intent n = Some intent_id \<and> digest = Some (nc_fingerprint n))"

definition open_status :: "tx_status \<Rightarrow> bool" where
  "open_status s \<longleftrightarrow> s \<in> {TxPending, TxApproved, TxSigning}"

definition ceremony_open :: "ceremony_row \<Rightarrow> bool" where
  "ceremony_open c \<longleftrightarrow> cy_completed_at c = None \<and> cy_invalidated_at c = None"

definition all_current :: "u64 \<Rightarrow> intent_row list \<Rightarrow> ceremony_row list \<Rightarrow> authorization_row list \<Rightarrow> nonce_row list \<Rightarrow> bool" where
  "all_current e is cs as ns \<longleftrightarrow>
     (\<forall>i \<in> set is. open_status (it_status i) \<longrightarrow> it_epoch i = e) \<and> (\<forall>c \<in> set cs. ceremony_open c \<longrightarrow> cy_epoch c = e)
     \<and> (\<forall>a \<in> set as. \<not> spent a \<longrightarrow> az_epoch a = e) \<and> (\<forall>n \<in> set ns. nc_invalidated_at n = None \<longrightarrow> nc_epoch n = e)"

definition signing_claimed :: "nonce_row list \<Rightarrow> intent_row \<Rightarrow> bool" where
  "signing_claimed ns i \<longleftrightarrow> (is_v2 i \<and> it_status i \<in> {TxSigning, TxSigned} \<longrightarrow> it_id i \<in> set (bound_intents ns))"

definition ledger_ok ::
    "u64 \<Rightarrow> intent_row list \<Rightarrow> ceremony_row list \<Rightarrow> authorization_row list \<Rightarrow> nonce_row list \<Rightarrow> (bytes \<times> bytes option) list \<Rightarrow> bool" where
  "ledger_ok e is cs as ns work \<longleftrightarrow>
     distinct (map it_id is) \<and> distinct (map az_id as) \<and> distinct (map az_intent_id as) \<and> all_current e is cs as ns
     \<and> (\<forall>a \<in> set as. authorization_backed is cs a) \<and> (\<forall>n \<in> set ns. claim_backed is as n) \<and> distinct (bound_intents ns)
     \<and> (\<forall>i \<in> set is. signing_claimed ns i) \<and> distinct (map fst work) \<and> (\<forall>w \<in> set work. work_backed ns w)"

lemma bound_intents_append: "bound_intents (ns @ ms) = bound_intents ns @ bound_intents ms"
  by (simp add: bound_intents_def map_filter_def)

lemma bound_intents_single: "bound_intents [n] = (case bound_intent n of None \<Rightarrow> [] | Some i \<Rightarrow> [i])"
  by (simp add: bound_intents_def map_filter_def split: option.split)

lemma set_bound_intents: "i \<in> set (bound_intents ns) \<longleftrightarrow> (\<exists>n \<in> set ns. bound_intent n = Some i)"
  by (force simp: bound_intents_def map_filter_def)

lemma bound_intents_update:
  assumes "\<And>n. p n \<Longrightarrow> nc_binding (f n) = nc_binding n"
  shows "bound_intents (sql_update p f ns) = bound_intents ns"
proof (induction ns)
  case (Cons n ns)
  then show ?case
    using assms by (simp add: sql_update_def bound_intents_def map_filter_def bound_intent_def)
qed (simp add: sql_update_def)

lemma authorization_backed_mono:
  "authorization_backed is cs a \<Longrightarrow> set is \<subseteq> set is' \<Longrightarrow> set cs \<subseteq> set cs' \<Longrightarrow> authorization_backed is' cs' a"
  unfolding authorization_backed_def passkey_approved_def by (meson subsetD)

lemma claim_backed_mono: "claim_backed is as n \<Longrightarrow> set is \<subseteq> set is' \<Longrightarrow> set as \<subseteq> set as' \<Longrightarrow> claim_backed is' as' n"
  unfolding claim_backed_def by (meson subsetD)

section \<open>Changes that keep it\<close>

lemma bex_sql_update:
  assumes "\<exists>r \<in> set t. P r" and "\<And>r. r \<in> set t \<Longrightarrow> p r \<Longrightarrow> P r \<Longrightarrow> P (f r)"
  shows "\<exists>r \<in> set (sql_update p f t). P r"
proof -
  obtain r where r: "r \<in> set t" "P r" using assms(1) by blast
  show ?thesis
  proof (cases "p r")
    case True
    with r assms(2) have "P (f r)" "f r \<in> set (sql_update p f t)" by (auto simp: set_sql_update)
    then show ?thesis ..
  next
    case False
    with r have "r \<in> set (sql_update p f t)" by (simp add: set_sql_update)
    with r(2) show ?thesis ..
  qed
qed

lemma ball_sql_update:
  assumes "\<forall>r \<in> set t. P r" and "\<And>r. r \<in> set t \<Longrightarrow> p r \<Longrightarrow> P (f r)"
  shows "\<forall>r \<in> set (sql_update p f t). P r"
  using assms by (auto simp: set_sql_update)

text \<open>A new intent is pending, so nothing refers to it.\<close>

lemma ledger_new_intent:
  assumes "ledger_ok e is cs as ns work" and "it_status r = TxPending" and "it_epoch r = e"
    and "\<forall>i \<in> set is. it_id i \<noteq> it_id r"
  shows "ledger_ok e (is @ [r]) cs as ns work"
proof -
  have "all_current e (is @ [r]) cs as ns" using assms by (simp add: ledger_ok_def all_current_def)
  moreover have "\<forall>i \<in> set (is @ [r]). signing_claimed ns i" using assms by (auto simp: ledger_ok_def signing_claimed_def)
  moreover have "distinct (map it_id (is @ [r]))" using assms by (auto simp: ledger_ok_def)
  ultimately show ?thesis
    using assms(1) authorization_backed_mono [of "is" cs _ "is @ [r]" cs] claim_backed_mono [of "is" as _ "is @ [r]" as]
    by (simp add: ledger_ok_def subset_insertI)
qed

text \<open>A status change never leads back to pending, opens nothing from an old epoch, and starts signing only with a claim.\<close>

lemma backed_status:
  assumes "s \<noteq> TxPending"
  shows "authorization_backed is cs a \<Longrightarrow> authorization_backed (sql_update p (\<lambda>r. r\<lparr>it_status := s, it_updated_at := t\<rparr>) is) cs a"
    and "claim_backed is as n \<Longrightarrow> claim_backed (sql_update p (\<lambda>r. r\<lparr>it_status := s, it_updated_at := t\<rparr>) is) as n"
proof -
  assume "authorization_backed is cs a"
  then show "authorization_backed (sql_update p (\<lambda>r. r\<lparr>it_status := s, it_updated_at := t\<rparr>) is) cs a"
    unfolding authorization_backed_def by (elim conjE, intro conjI) (erule bex_sql_update, simp add: assms, assumption)
next
  assume c: "claim_backed is as n"
  show "claim_backed (sql_update p (\<lambda>r. r\<lparr>it_status := s, it_updated_at := t\<rparr>) is) as n"
    unfolding claim_backed_def
  proof (intro allI impI)
    fix aid iid sid
    assume "nc_binding n = Some (aid, iid, sid)"
    with c have a: "\<exists>a \<in> set as. az_id a = aid \<and> az_intent_id a = iid \<and> az_consumed_at a = Some (nn_claimed_at (nc_claim n))"
      and i: "\<exists>i \<in> set is. it_id i = iid \<and> map_option v2_signer_id (it_v2 i) = Some sid \<and> ni_session_id (it_intent i) = nn_session_id (nc_claim n)"
      unfolding claim_backed_def by blast+
    from i have "\<exists>i \<in> set (sql_update p (\<lambda>r. r\<lparr>it_status := s, it_updated_at := t\<rparr>) is).
        it_id i = iid \<and> map_option v2_signer_id (it_v2 i) = Some sid \<and> ni_session_id (it_intent i) = nn_session_id (nc_claim n)"
      by (rule bex_sql_update) simp
    with a show "(\<exists>a \<in> set as. az_id a = aid \<and> az_intent_id a = iid \<and> az_consumed_at a = Some (nn_claimed_at (nc_claim n)))
        \<and> (\<exists>i \<in> set (sql_update p (\<lambda>r. r\<lparr>it_status := s, it_updated_at := t\<rparr>) is). it_id i = iid
          \<and> map_option v2_signer_id (it_v2 i) = Some sid \<and> ni_session_id (it_intent i) = nn_session_id (nc_claim n))" ..
  qed
qed

lemma ledger_status:
  assumes ok: "ledger_ok e is cs as ns work" and "s \<noteq> TxPending"
    and cur: "\<And>i. i \<in> set is \<Longrightarrow> p i \<Longrightarrow> open_status s \<Longrightarrow> it_epoch i = e"
    and claim: "\<And>i. i \<in> set is \<Longrightarrow> p i \<Longrightarrow> is_v2 i \<Longrightarrow> s \<in> {TxSigning, TxSigned} \<Longrightarrow> it_id i \<in> set (bound_intents ns)"
  shows "ledger_ok e (sql_update p (\<lambda>r. r\<lparr>it_status := s, it_updated_at := t\<rparr>) is) cs as ns work"
proof -
  let ?is = "sql_update p (\<lambda>r. r\<lparr>it_status := s, it_updated_at := t\<rparr>) is"
  have "map it_id ?is = map it_id is" by (rule map_sql_update) simp
  moreover have "\<forall>i \<in> set ?is. open_status (it_status i) \<longrightarrow> it_epoch i = e"
    using ok cur by (intro ball_sql_update) (simp_all add: ledger_ok_def all_current_def)
  then have "all_current e ?is cs as ns" using ok by (simp add: ledger_ok_def all_current_def)
  moreover have "\<forall>i \<in> set ?is. signing_claimed ns i"
    using ok claim by (intro ball_sql_update) (simp_all add: ledger_ok_def signing_claimed_def)
  ultimately show ?thesis
    using ok backed_status [OF assms(2)] by (simp add: ledger_ok_def)
qed

lemma ledger_new_ceremony:
  assumes "ledger_ok e is cs as ns work" and "cy_epoch c = e"
  shows "ledger_ok e is (cs @ [c]) as ns work"
proof -
  have "all_current e is (cs @ [c]) as ns" using assms by (simp add: ledger_ok_def all_current_def)
  then show ?thesis
    using assms(1) authorization_backed_mono [of "is" cs _ "is" "cs @ [c]"] by (simp add: ledger_ok_def subset_insertI)
qed

text \<open>Closing ceremonies.\<close>

definition closes :: "ceremony_row \<Rightarrow> ceremony_row \<Rightarrow> bool" where
  "closes c d \<longleftrightarrow> ceremony_le c d \<and> \<not> ceremony_open d"

lemma backed_ceremonies:
  assumes "authorization_backed is cs a" and le: "\<And>c. c \<in> set cs \<Longrightarrow> p c \<Longrightarrow> closes c (f c)"
  shows "authorization_backed is (sql_update p f cs) a"
proof -
  have "passkey_approved (sql_update p f cs) a" if "passkey_approved cs a"
    using that unfolding passkey_approved_def
  proof (rule bex_sql_update)
    fix c assume "c \<in> set cs" "p c" and
      c: "cy_intent_id c = az_intent_id a \<and> cy_completed_at c \<noteq> None \<and> map_option snd (cy_passkey c) = Some (az_binding_digest a)"
    then have "f c = c" using le [of c] unfolding closes_def ceremony_le_def by metis
    with c show "cy_intent_id (f c) = az_intent_id a \<and> cy_completed_at (f c) \<noteq> None
        \<and> map_option snd (cy_passkey (f c)) = Some (az_binding_digest a)" by simp
  qed
  with assms(1) show ?thesis unfolding authorization_backed_def by blast
qed

lemma ledger_close_ceremonies:
  assumes "ledger_ok e is cs as ns work" and "\<And>c. c \<in> set cs \<Longrightarrow> p c \<Longrightarrow> closes c (f c)"
  shows "ledger_ok e is (sql_update p f cs) as ns work"
proof -
  have "\<forall>c \<in> set (sql_update p f cs). ceremony_open c \<longrightarrow> cy_epoch c = e"
    using assms by (intro ball_sql_update) (simp_all add: ledger_ok_def all_current_def closes_def)
  with assms(1) have "all_current e is (sql_update p f cs) as ns" by (simp add: ledger_ok_def all_current_def)
  with assms(1) show ?thesis using backed_ceremonies [OF _ assms(2)] by (simp add: ledger_ok_def)
qed

lemma ledger_new_authorization:
  assumes "ledger_ok e is cs as ns work" and "az_epoch a = e" and "authorization_backed is cs a"
    and "\<forall>b \<in> set as. az_id b \<noteq> az_id a \<and> az_intent_id b \<noteq> az_intent_id a"
  shows "ledger_ok e is cs (as @ [a]) ns work"
proof -
  have "all_current e is cs (as @ [a]) ns" using assms(1,2) by (simp add: ledger_ok_def all_current_def)
  moreover have "distinct (map az_id (as @ [a]))" "distinct (map az_intent_id (as @ [a]))"
    using assms(1,4) by (auto simp: ledger_ok_def)
  ultimately show ?thesis
    using assms(1,3) claim_backed_mono [of "is" as _ "is" "as @ [a]"] by (simp add: ledger_ok_def subset_insertI)
qed

text \<open>Spending an authorization: only live rows change, and they keep what they authorize.\<close>

definition spends :: "authorization_row \<Rightarrow> authorization_row \<Rightarrow> bool" where
  "spends a b \<longleftrightarrow> authorization_le a b \<and> spent b \<and> (\<forall>t. az_consumed_at b = Some t \<longrightarrow> t \<le> az_expires_at a)"

lemma backed_spend:
  assumes "authorization_backed is cs a" and "spends a b"
  shows "authorization_backed is cs b"
  using assms unfolding authorization_backed_def spends_def authorization_le_def passkey_approved_def by simp

lemma claim_spend:
  assumes "claim_backed is as n" and le: "\<And>a. a \<in> set as \<Longrightarrow> p a \<Longrightarrow> spends a (f a)"
  shows "claim_backed is (sql_update p f as) n"
  unfolding claim_backed_def
proof (intro allI impI conjI)
  fix aid iid sid
  assume b: "nc_binding n = Some (aid, iid, sid)"
  with assms(1) have "\<exists>a \<in> set as. az_id a = aid \<and> az_intent_id a = iid \<and> az_consumed_at a = Some (nn_claimed_at (nc_claim n))"
    unfolding claim_backed_def by blast
  then show "\<exists>a \<in> set (sql_update p f as). az_id a = aid \<and> az_intent_id a = iid \<and> az_consumed_at a = Some (nn_claimed_at (nc_claim n))"
  proof (rule bex_sql_update)
    fix a assume a: "a \<in> set as" "p a" "az_id a = aid \<and> az_intent_id a = iid \<and> az_consumed_at a = Some (nn_claimed_at (nc_claim n))"
    then have "f a = a" using le [of a] by (simp add: spends_def authorization_le_def spent_def)
    with a(3) show "az_id (f a) = aid \<and> az_intent_id (f a) = iid \<and> az_consumed_at (f a) = Some (nn_claimed_at (nc_claim n))" by simp
  qed
  show "\<exists>i \<in> set is. it_id i = iid \<and> map_option v2_signer_id (it_v2 i) = Some sid \<and> ni_session_id (it_intent i) = nn_session_id (nc_claim n)"
    using assms(1) b unfolding claim_backed_def by blast
qed

lemma ledger_spend:
  assumes ok: "ledger_ok e is cs as ns work" and le: "\<And>a. a \<in> set as \<Longrightarrow> p a \<Longrightarrow> spends a (f a)"
  shows "ledger_ok e is cs (sql_update p f as) ns work"
proof -
  let ?as = "sql_update p f as"
  have keys: "map az_id ?as = map az_id as" "map az_intent_id ?as = map az_intent_id as"
    using le by (auto simp: sql_update_def spends_def authorization_le_def)
  have "\<forall>a \<in> set ?as. \<not> spent a \<longrightarrow> az_epoch a = e"
    using ok le by (intro ball_sql_update) (simp_all add: ledger_ok_def all_current_def spends_def)
  then have "all_current e is cs ?as ns" using ok by (simp add: ledger_ok_def all_current_def)
  moreover have "\<forall>a \<in> set ?as. authorization_backed is cs a"
    using ok backed_spend le by (intro ball_sql_update) (auto simp: ledger_ok_def)
  ultimately show ?thesis using ok keys claim_spend [OF _ le] by (simp add: ledger_ok_def)
qed

text \<open>Nonce claims.\<close>

lemma ledger_new_claim:
  assumes ok: "ledger_ok e is cs as ns work" and "nc_epoch n = e" and "claim_backed is as n"
    and "\<And>i. bound_intent n = Some i \<Longrightarrow> i \<notin> set (bound_intents ns)"
  shows "ledger_ok e is cs as (ns @ [n]) work"
proof -
  have "distinct (bound_intents (ns @ [n]))"
    using ok assms(4) by (auto simp: ledger_ok_def bound_intents_append bound_intents_single split: option.split)
  moreover have "\<forall>w \<in> set work. work_backed (ns @ [n]) w" using ok by (auto simp: ledger_ok_def work_backed_def)
  moreover have "\<forall>i \<in> set is. signing_claimed (ns @ [n]) i"
    using ok by (auto simp: ledger_ok_def signing_claimed_def bound_intents_append)
  ultimately show ?thesis using ok assms(2,3) by (auto simp: ledger_ok_def all_current_def)
qed

definition retires :: "nonce_row \<Rightarrow> nonce_row \<Rightarrow> bool" where
  "retires n m \<longleftrightarrow> nonce_le n m \<and> \<not> nc_invalidated_at m = None"

lemma ledger_close_claims:
  assumes ok: "ledger_ok e is cs as ns work" and le: "\<And>n. p n \<Longrightarrow> retires n (f n)"
  shows "ledger_ok e is cs as (sql_update p f ns) work"
proof -
  have b: "nc_binding (f n) = nc_binding n" if "p n" for n using le [OF that] by (simp add: retires_def nonce_le_def)
  note eq = bound_intents_update [of p f, OF b]
  have "\<forall>n \<in> set (sql_update p f ns). nc_invalidated_at n = None \<longrightarrow> nc_epoch n = e"
    using ok le unfolding ledger_ok_def all_current_def retires_def by (intro ball_sql_update) blast+
  then have "all_current e is cs as (sql_update p f ns)" using ok by (simp add: ledger_ok_def all_current_def)
  moreover have "claim_backed is as (f n)" if "claim_backed is as n" "p n" for n
    using that le [of n] by (simp add: claim_backed_def retires_def nonce_le_def)
  then have "\<forall>n \<in> set (sql_update p f ns). claim_backed is as n"
    using ok by (intro ball_sql_update) (auto simp: ledger_ok_def)
  moreover have "work_backed (sql_update p f ns) w" if "work_backed ns w" for w
    using that le unfolding work_backed_def split_def
    by (elim bex_sql_update) (simp add: bound_intent_def retires_def nonce_le_def)
  ultimately show ?thesis using ok by (simp add: ledger_ok_def eq signing_claimed_def)
qed

lemma ledger_new_work:
  assumes "ledger_ok e is cs as ns work" and "mset work' = mset (w # work)" and "work_backed ns w" and "fst w \<notin> fst ` set work"
  shows "ledger_ok e is cs as ns work'"
proof -
  have "set work' = insert w (set work)" using mset_eq_setD [OF assms(2)] by simp
  moreover have "mset (map fst work') = mset (map fst (w # work))" using assms(2) by (simp only: mset_map)
  then have "distinct (map fst work') = distinct (map fst (w # work))" by (rule mset_eq_imp_distinct_iff)
  ultimately show ?thesis using assms(1,3,4) by (simp add: ledger_ok_def)
qed

text \<open>A new epoch starts when nothing is open.\<close>

lemma ledger_new_epoch:
  assumes "ledger_ok e is cs as ns work" and "\<forall>i \<in> set is. \<not> open_status (it_status i)" and "\<forall>c \<in> set cs. \<not> ceremony_open c"
    and "\<forall>a \<in> set as. spent a" and "\<forall>n \<in> set ns. \<not> nc_invalidated_at n = None"
  shows "ledger_ok e' is cs as ns work"
proof -
  have "all_current e' is cs as ns" using assms(2-5) unfolding all_current_def by blast
  with assms(1) show ?thesis unfolding ledger_ok_def by blast
qed

end
