(* ===== verification/Storage_Signing.thy ===== *)
theory Storage_Signing
  imports Storage_Ledger
begin

text \<open>
  Every operation of the wallet storage keeps the ledger invariant, so it holds in every reachable database.
\<close>

section \<open>The invariant of the database\<close>

text \<open>The work started for an intent: chain signing jobs and personal signing operations, with their binding digests.\<close>

definition signings :: "storage \<Rightarrow> (bytes \<times> bytes option) list" where
  "signings db = map (\<lambda>r. (nj_intent_id (jb_job r), jb_operation_binding_digest r)) (db_jobs db)
     @ map (\<lambda>r. (no_intent_id (op_new r), Some (no_operation_binding_digest (op_new r)))) (db_operations db)"

definition storage_ok :: "storage \<Rightarrow> bool" where
  "storage_ok db \<longleftrightarrow> (\<exists>md. db_metadata db = Some md
     \<and> ledger_ok (wm_epoch md) (db_intents db) (db_ceremonies db) (db_authorizations db) (db_nonces db) (signings db))"

lemma storage_ok_ledger:
  "storage_ok db \<Longrightarrow> db_metadata db = Some md \<Longrightarrow>
    ledger_ok (wm_epoch md) (db_intents db) (db_ceremonies db) (db_authorizations db) (db_nonces db) (signings db)"
  by (simp add: storage_ok_def)

text \<open>Tables the invariant does not look at.\<close>

lemma storage_ok_frame [simp]:
  "storage_ok (db\<lparr>db_materials := t1\<rparr>) = storage_ok db" "storage_ok (db\<lparr>db_credentials := t2\<rparr>) = storage_ok db"
  "storage_ok (db\<lparr>db_webauthn := t3\<rparr>) = storage_ok db" "storage_ok (db\<lparr>db_secrets := t4\<rparr>) = storage_ok db"
  "storage_ok (db\<lparr>db_profiles := t5\<rparr>) = storage_ok db" "storage_ok (db\<lparr>db_bindings := t6\<rparr>) = storage_ok db"
  "storage_ok (db\<lparr>db_claims := t7\<rparr>) = storage_ok db" "storage_ok (db\<lparr>db_request_nonces := t8\<rparr>) = storage_ok db"
  "storage_ok (db\<lparr>db_device_events := t9\<rparr>) = storage_ok db" "storage_ok (db\<lparr>db_receipts := t10\<rparr>) = storage_ok db"
  by (simp_all add: storage_ok_def signings_def)

lemma storage_ok_audit [simp]:
  "storage_ok (append_audit_with_context md e s n i p c db) = storage_ok db"
  "storage_ok (append_audit J md e s n db) = storage_ok db"
  by (simp_all add: storage_ok_def signings_def append_audit_def)

lemma storage_ok_metadata: "storage_ok db \<Longrightarrow> db_metadata db = Some md \<Longrightarrow> wm_epoch md' = wm_epoch md \<Longrightarrow> storage_ok (db\<lparr>db_metadata := Some md'\<rparr>)"
  by (simp add: storage_ok_def signings_def)

section \<open>Statements\<close>

lemma insert_intent_ok:
  assumes "insert_intent r db = Inr db'" and "storage_ok db" and "db_metadata db = Some md"
    and "it_status r = TxPending" and "it_epoch r = wm_epoch md"
  shows "storage_ok db'"
  using assms ledger_new_intent [OF storage_ok_ledger [OF assms(2,3)] assms(4,5)]
  by (auto simp: insert_intent_def rbind_Inr sql_insert_Inr intent_clash_def storage_ok_def signings_def)

lemma insert_material_ok: "insert_material J m db = Inr db' \<Longrightarrow> storage_ok db' = storage_ok db"
  by (auto simp: insert_material_def rbind_Inr)

lemma set_intent_status_ok:
  assumes "storage_ok db" and "db_metadata db = Some md" and "s \<noteq> TxPending"
    and "\<And>i. i \<in> set (db_intents db) \<Longrightarrow> p i \<Longrightarrow> open_status s \<Longrightarrow> it_epoch i = wm_epoch md"
    and "\<And>i. i \<in> set (db_intents db) \<Longrightarrow> p i \<Longrightarrow> is_v2 i \<Longrightarrow> s \<in> {TxSigning, TxSigned} \<Longrightarrow> it_id i \<in> set (bound_intents (db_nonces db))"
  shows "storage_ok (set_intent_status p s t db)"
  using ledger_status [OF storage_ok_ledger [OF assms(1,2)] assms(3) assms(4,5)] assms(2)
  by (simp add: set_intent_status_def storage_ok_def signings_def)

lemma insert_ceremony_ok:
  assumes "insert_ceremony c db = Inr db'" and "storage_ok db" and "db_metadata db = Some md" and "cy_epoch c = wm_epoch md"
  shows "storage_ok db'"
  using assms(1) ledger_new_ceremony [OF storage_ok_ledger [OF assms(2,3)] assms(4)] assms(3)
  by (auto simp: insert_ceremony_def rbind_Inr sql_insert_Inr storage_ok_def signings_def)

lemma close_ceremonies_ok:
  assumes "storage_ok db" and "\<And>c. p c \<Longrightarrow> closes c (f c)"
  shows "storage_ok (db\<lparr>db_ceremonies := sql_update p f (db_ceremonies db)\<rparr>)"
proof -
  obtain md where md: "db_metadata db = Some md" using assms(1) by (auto simp: storage_ok_def)
  from ledger_close_ceremonies [OF storage_ok_ledger [OF assms(1) md] assms(2)] md show ?thesis
    by (simp add: storage_ok_def signings_def)
qed

lemma set_completed_ok: "storage_ok db \<Longrightarrow> storage_ok (set_completed (complete_ceremony_where i e n) t db)"
  unfolding set_completed_def
  by (erule close_ceremonies_ok) (simp add: closes_def ceremony_le_def ceremony_open_def complete_ceremony_where_def)

lemma invalidate_ceremonies_ok: "storage_ok db \<Longrightarrow> storage_ok (invalidate_ceremonies p t db)"
  unfolding invalidate_ceremonies_def
  by (erule close_ceremonies_ok) (simp add: closes_def ceremony_le_def ceremony_open_def)

lemma insert_authorization_ok:
  assumes "insert_authorization a db = Inr db'" and "storage_ok db" and "db_metadata db = Some md"
    and "az_epoch a = wm_epoch md" and "authorization_backed (db_intents db) (db_ceremonies db) a"
  shows "storage_ok db'"
  using assms(1) ledger_new_authorization [OF storage_ok_ledger [OF assms(2,3)] assms(4,5)] assms(3)
  by (auto simp: insert_authorization_def rbind_Inr sql_insert_Inr storage_ok_def signings_def)

lemma spend_ok:
  assumes "storage_ok db" and "\<And>a. p a \<Longrightarrow> spends a (f a)"
  shows "storage_ok (db\<lparr>db_authorizations := sql_update p f (db_authorizations db)\<rparr>)"
proof -
  obtain md where md: "db_metadata db = Some md" using assms(1) by (auto simp: storage_ok_def)
  from ledger_spend [OF storage_ok_ledger [OF assms(1) md] assms(2)] md show ?thesis
    by (simp add: storage_ok_def signings_def)
qed

lemma spends_consumed: "p a \<and> usable t a \<Longrightarrow> spends a (a\<lparr>az_consumed_at := Some t\<rparr>)"
  by (simp add: spends_def authorization_le_def spent_def usable_def)

lemma consume_where_ok: "consume_where p t db = Inr db' \<Longrightarrow> storage_ok db \<Longrightarrow> storage_ok db'"
  by (auto simp: consume_where_def Let_def split: if_splits intro!: spend_ok spends_consumed)

lemma insert_nonce_ok:
  assumes "insert_nonce n db = Inr db'" and "storage_ok db" and "db_metadata db = Some md" and "nc_epoch n = wm_epoch md"
    and "claim_backed (db_intents db) (db_authorizations db) n"
    and "\<And>i. bound_intent n = Some i \<Longrightarrow> i \<notin> set (bound_intents (db_nonces db))"
  shows "storage_ok db'"
  using assms(1) ledger_new_claim [OF storage_ok_ledger [OF assms(2,3)] assms(4,5,6)] assms(3)
  by (auto simp: insert_nonce_def rbind_Inr sql_insert_Inr storage_ok_def signings_def)

lemma update_operations_ok:
  assumes "update_operations p f db = Inr db'" and "storage_ok db" and "\<And>r. p r \<Longrightarrow> op_new (f r) = op_new r"
  shows "storage_ok db'"
proof -
  have "signings (db\<lparr>db_operations := sql_update p f (db_operations db)\<rparr>) = signings db"
    using assms(3) by (simp add: signings_def map_sql_update)
  then show ?thesis using assms(1,2) by (auto simp: update_operations_def storage_ok_def split: if_splits)
qed

section \<open>Starting to sign\<close>

text \<open>
  The heart of the protocol: the authorization was not consumed before, so no claim and no work exists for its
  intent, and the three statements make the claim and the signing intent rest on the consumed authorization.
\<close>

lemma unclaimed_intent:
  assumes ok: "ledger_ok e is cs as ns work" and a: "a \<in> set as" "az_consumed_at a = None"
  shows "az_intent_id a \<notin> set (bound_intents ns)" and "az_intent_id a \<notin> fst ` set work"
proof -
  show free: "az_intent_id a \<notin> set (bound_intents ns)"
  proof
    assume "az_intent_id a \<in> set (bound_intents ns)"
    then obtain n aid sid where n: "n \<in> set ns" "nc_binding n = Some (aid, az_intent_id a, sid)"
      by (auto simp: set_bound_intents bound_intent_def)
    then have "claim_backed is as n" using ok by (simp add: ledger_ok_def)
    with n obtain b where b: "b \<in> set as" "az_intent_id b = az_intent_id a" "az_consumed_at b = Some (nn_claimed_at (nc_claim n))"
      unfolding claim_backed_def by blast
    have "b = a" using ok a(1) b(1,2) by (auto simp: ledger_ok_def intro: distinct_key)
    with a(2) b(3) show False by simp
  qed
  show "az_intent_id a \<notin> fst ` set work"
    using ok free by (auto simp: ledger_ok_def work_backed_def set_bound_intents)
qed

lemma start_signing_Inr:
  assumes "start_signing md p on_claim fp session aid iid signer q now db = Inr db'"
  obtains sel ap n where "sel = (\<lambda>a. p a \<and> usable now a)" "sql_count sel (db_authorizations db) = 1"
    "n = \<lparr>nc_claim = \<lparr>nn_fingerprint = fp, nn_session_id = session, nn_claimed_at = now\<rparr>, nc_wallet_id = wm_wallet_id md,
       nc_epoch = wm_epoch md, nc_binding = Some (aid, iid, signer), nc_invalidated_at = None\<rparr>"
    "ap = (\<lambda>r. it_id r = iid \<and> q r \<and> it_epoch r = wm_epoch md \<and> it_status r = TxApproved \<and> is_v2 r)"
    "nonce_check (db\<lparr>db_authorizations := sql_update sel (\<lambda>a. a\<lparr>az_consumed_at := Some now\<rparr>) (db_authorizations db)\<rparr>) n"
    "db' = set_intent_status ap TxSigning now (db\<lparr>db_authorizations := sql_update sel (\<lambda>a. a\<lparr>az_consumed_at := Some now\<rparr>) (db_authorizations db),
       db_nonces := db_nonces db @ [n]\<rparr>)"
  using assms unfolding start_signing_def consume_where_def insert_nonce_def Let_def
  by (clarsimp simp only: rbind_Inr guard_Inr map_err_Inr sql_insert_Inr sum.inject not_not) simp

lemma start_signing_ok:
  assumes start: "start_signing md p on_claim fp session aid iid signer q now db1 = Inr db2"
    and ok: "storage_ok db" and md: "db_metadata db = Some md"
    and same: "db_metadata db1 = db_metadata db" "db_intents db1 = db_intents db" "db_ceremonies db1 = db_ceremonies db"
      "db_authorizations db1 = db_authorizations db" "db_nonces db1 = db_nonces db"
    and work: "signings db1 = signings db \<or> mset (signings db1) = mset ((iid, Some fp) # signings db)"
    and p: "\<And>a. p a \<Longrightarrow> az_id a = aid"
  shows "storage_ok db2"
proof -
  obtain sel ap n where sel: "sel = (\<lambda>a. p a \<and> usable now a)" "sql_count sel (db_authorizations db1) = 1"
    and n: "n = \<lparr>nc_claim = \<lparr>nn_fingerprint = fp, nn_session_id = session, nn_claimed_at = now\<rparr>, nc_wallet_id = wm_wallet_id md,
       nc_epoch = wm_epoch md, nc_binding = Some (aid, iid, signer), nc_invalidated_at = None\<rparr>"
    and ap: "ap = (\<lambda>r. it_id r = iid \<and> q r \<and> it_epoch r = wm_epoch md \<and> it_status r = TxApproved \<and> is_v2 r)"
    and check: "nonce_check (db1\<lparr>db_authorizations := sql_update sel (\<lambda>a. a\<lparr>az_consumed_at := Some now\<rparr>) (db_authorizations db1)\<rparr>) n"
    and db2: "db2 = set_intent_status ap TxSigning now (db1\<lparr>db_authorizations := sql_update sel (\<lambda>a. a\<lparr>az_consumed_at := Some now\<rparr>) (db_authorizations db1),
       db_nonces := db_nonces db1 @ [n]\<rparr>)"
    by (rule start_signing_Inr [OF start])
  let ?as = "sql_update sel (\<lambda>a. a\<lparr>az_consumed_at := Some now\<rparr>) (db_authorizations db)" and ?e = "wm_epoch md"
  note L0 = storage_ok_ledger [OF ok md]
  obtain a where a: "a \<in> set (db_authorizations db)" "p a" "usable now a" using sql_count_1 [OF sel(2)] sel(1) same by auto
  have L1: "ledger_ok ?e (db_intents db) (db_ceremonies db) ?as (db_nonces db) (signings db)"
    by (rule ledger_spend [OF L0]) (simp add: sel(1) spends_consumed)
  have a': "a\<lparr>az_consumed_at := Some now\<rparr> \<in> set ?as" using a sel(1) by (force simp: set_sql_update)
  obtain b where b: "b \<in> set ?as" "az_id b = aid" "az_intent_id b = iid"
    using check same n by (auto simp: nonce_check_def nonce_binding_check_def list_ex_iff)
  have "b = a\<lparr>az_consumed_at := Some now\<rparr>"
    using distinct_key [of az_id ?as b "a\<lparr>az_consumed_at := Some now\<rparr>"] L1 a' b(1,2) p [OF a(2)] by (simp add: ledger_ok_def)
  with b have iid: "az_intent_id a = iid" by simp
  have free: "iid \<notin> set (bound_intents (db_nonces db))" "iid \<notin> fst ` set (signings db)"
    using unclaimed_intent [OF L0 a(1)] a(3) iid by (simp_all add: usable_def)
  have "claim_backed (db_intents db) ?as n"
    using check a' same n p [OF a(2)] iid
    by (auto simp: claim_backed_def nonce_check_def nonce_binding_check_def list_ex_iff intro!: bexI [of _ "a\<lparr>az_consumed_at := Some now\<rparr>"])
  then have L2: "ledger_ok ?e (db_intents db) (db_ceremonies db) ?as (db_nonces db @ [n]) (signings db)"
    using free(1) n by (intro ledger_new_claim [OF L1]) (simp_all add: bound_intent_def)
  have L3: "ledger_ok ?e (sql_update ap (\<lambda>r. r\<lparr>it_status := TxSigning, it_updated_at := now\<rparr>) (db_intents db)) (db_ceremonies db) ?as
      (db_nonces db @ [n]) (signings db)"
    using n ap by (intro ledger_status [OF L2]) (auto simp: bound_intents_append bound_intents_single bound_intent_def)
  have "work_backed (db_nonces db @ [n]) (iid, Some fp)" using n by (simp add: work_backed_def bound_intent_def)
  with work free(2) ledger_new_work [OF L3, of "signings db1" "(iid, Some fp)"] L3
  have "ledger_ok ?e (sql_update ap (\<lambda>r. r\<lparr>it_status := TxSigning, it_updated_at := now\<rparr>) (db_intents db)) (db_ceremonies db) ?as
      (db_nonces db @ [n]) (signings db1)" by auto
  then show ?thesis using md same by (simp add: db2 storage_ok_def set_intent_status_def signings_def)
qed

section \<open>Approvals\<close>

lemma approved_backed:
  assumes keys: "distinct (map it_id is)" and r: "r \<in> set is" "it_id r = az_intent_id a" "pending r"
    and "az_consumed_at a = None" and "az_expires_at a \<le> ni_expires_at (it_intent r)" and "is_v2 r \<longrightarrow> passkey_approved cs a"
  shows "authorization_backed (sql_update pending (\<lambda>r. r\<lparr>it_status := TxApproved, it_updated_at := t\<rparr>) is) cs a"
proof -
  have "r\<lparr>it_status := TxApproved, it_updated_at := t\<rparr> \<in> set (sql_update pending (\<lambda>r. r\<lparr>it_status := TxApproved, it_updated_at := t\<rparr>) is)"
    using r by (auto simp: set_sql_update)
  then show ?thesis using assms unfolding authorization_backed_def by (intro conjI bexI) simp_all
qed

lemma pending_intent_facts_Inr:
  assumes "pending_intent_facts db i ep now = Inr (x, h)"
  obtains r where "r \<in> set (db_intents db)" "it_id r = i" "it_epoch r = ep" "it_status r = TxPending"
    "x = ni_expires_at (it_intent r)" "h = ni_policy_hash (it_intent r)" "now \<le> x"
  using assms by (auto simp: pending_intent_facts_def rbind_Inr ok_or_Inr split: if_splits dest!: find_SomeD)

text \<open>Both ways to approve end in the same three statements.\<close>

lemma approval_ok:
  assumes ok: "storage_ok db" and md: "db_metadata db = Some md" and r: "r \<in> set (db_intents db)" "it_id r = az_intent_id a" "pending r"
    and pend: "\<And>r. pending r \<Longrightarrow> it_epoch r = wm_epoch md"
    and a: "az_epoch a = wm_epoch md" "az_consumed_at a = None" "az_expires_at a \<le> ni_expires_at (it_intent r)"
    and pk: "is_v2 r \<longrightarrow> passkey_approved (db_ceremonies (set_completed (complete_ceremony_where cid ep t) t db)) a"
    and ins: "insert_authorization a (set_intent_status pending TxApproved t (set_completed (complete_ceremony_where cid ep t) t db)) = Inr db'"
  shows "storage_ok db'"
proof -
  let ?db = "set_completed (complete_ceremony_where cid ep t) t db"
  have ok1: "storage_ok ?db" using ok by (rule set_completed_ok)
  have md1: "db_metadata ?db = Some md" and is1: "db_intents ?db = db_intents db" using md by (simp_all add: set_completed_def)
  have ok2: "storage_ok (set_intent_status pending TxApproved t ?db)"
    using pend by (intro set_intent_status_ok [OF ok1 md1]) simp_all
  have "distinct (map it_id (db_intents db))" using storage_ok_ledger [OF ok md] by (simp add: ledger_ok_def)
  from approved_backed [where pending = pending and r = r, OF this r a(2,3) pk, of t] is1
  have "authorization_backed (db_intents (set_intent_status pending TxApproved t ?db)) (db_ceremonies (set_intent_status pending TxApproved t ?db)) a"
    by (simp add: set_intent_status_def)
  then show ?thesis using md1 by (intro insert_authorization_ok [OF ins ok2 _ a(1)]) (simp_all add: set_intent_status_def)
qed

lemma completed_passkey:
  assumes "c \<in> set (db_ceremonies db)" and "complete_ceremony_where cid ep t c" and "cy_passkey c = Some (cred, az_binding_digest a)"
    and "cy_intent_id c = az_intent_id a"
  shows "passkey_approved (db_ceremonies (set_completed (complete_ceremony_where cid ep t) t db)) a"
proof -
  have "c\<lparr>cy_completed_at := Some t\<rparr> \<in> set (sql_update (complete_ceremony_where cid ep t) (\<lambda>c. c\<lparr>cy_completed_at := Some t\<rparr>) (db_ceremonies db))"
    using assms(1,2) by (auto simp: set_sql_update)
  then show ?thesis using assms(3,4) unfolding passkey_approved_def set_completed_def by (intro bexI) simp_all
qed

lemma complete_passkey_approval_ok:
  assumes "complete_passkey_approval_atomic J d db = Inr (a, db')" and ok: "storage_ok db"
  shows "storage_ok db'"
proof -
  obtain md c e h v db1 db2 where md: "db_metadata db = Some md"
    and c: "approval_ceremony db (ad_ceremony_id d) = Some c" "cy_passkey c = Some (pc_credential_id d, ad_binding_digest d)"
      "cy_intent_id c = pc_intent_id d" "cy_epoch c = wm_epoch md" "cy_completed_at c = None" "cy_invalidated_at c = None"
      "ad_approved_at d \<le> ce_expires_at (cy_ceremony c)"
    and times: "check_authorization_times (approval_decision.truncate d) e = Inr v"
    and facts: "pending_intent_facts db (pc_intent_id d) (wm_epoch md) (ad_approved_at d) = Inr (e, h)"
    and up: "update_passkey_record_in J (pc_credential_id d) (pc_expected_record_version d) (pc_updated_passkey_json d) (ad_approved_at d) db = Inr (1, db1)"
    and cnt: "sql_count (\<lambda>r. it_id r = pc_intent_id d \<and> it_epoch r = wm_epoch md \<and> it_status r = TxPending \<and> is_v2 r) (db_intents db1) = 1"
    and a: "a = new_authorization md (approval_decision.truncate d) (pc_intent_id d)"
    and ins: "insert_authorization a
       (set_intent_status (\<lambda>r. it_id r = pc_intent_id d \<and> it_epoch r = wm_epoch md \<and> it_status r = TxPending \<and> is_v2 r) TxApproved (ad_approved_at d)
         (set_completed (complete_ceremony_where (ad_ceremony_id d) (wm_epoch md) (ad_approved_at d)) (ad_approved_at d) db1)) = Inr db2"
    and db': "db' = append_audit_with_context md ''approval.passkey_completed'' (Some (SubjectId (ad_ceremony_id d))) (ad_approved_at d)
       (Some (pc_intent_id d)) (Some h) (default_context J) db2"
    by (rule complete_passkey_approval_atomic_Inr [OF assms(1)])
  have db1: "db_intents db1 = db_intents db" "db_ceremonies db1 = db_ceremonies db" "db_metadata db1 = Some md" "storage_ok db1"
    using up md ok by (auto simp: update_passkey_record_in_def rbind_Inr Let_def split: if_splits)
  obtain r where r: "r \<in> set (db_intents db)" "it_id r = pc_intent_id d" "e = ni_expires_at (it_intent r)"
    using facts by (rule pending_intent_facts_Inr)
  obtain q where q: "q \<in> set (db_intents db)" "it_id q = pc_intent_id d" "it_epoch q = wm_epoch md" "it_status q = TxPending" "is_v2 q"
    using sql_count_1 [OF cnt] db1(1) by auto
  have "q = r" using storage_ok_ledger [OF ok md] q(1,2) r(1,2) by (auto simp: ledger_ok_def intro: distinct_key)
  have ceremony: "c \<in> set (db_ceremonies db1)" "complete_ceremony_where (ad_ceremony_id d) (wm_epoch md) (ad_approved_at d) c"
    using c db1(2) by (auto simp: approval_ceremony_def complete_ceremony_where_def dest: find_SomeD)
  have "storage_ok db2"
  proof (rule approval_ok [OF db1(4,3), where r = q, OF _ _ _ _ _ _ _ _ ins])
    show "is_v2 q \<longrightarrow> passkey_approved (db_ceremonies (set_completed (complete_ceremony_where (ad_ceremony_id d) (wm_epoch md) (ad_approved_at d))
        (ad_approved_at d) db1)) a"
      using c(2,3) by (intro impI completed_passkey [OF ceremony]) (simp_all add: a new_authorization_def approval_decision.defs)
    show "az_expires_at a \<le> ni_expires_at (it_intent q)"
      using times r(3) \<open>q = r\<close> by (auto simp: a new_authorization_def check_authorization_times_def split: if_splits)
  qed (use q db1(1) in \<open>simp_all add: a new_authorization_def\<close>)
  then show ?thesis by (simp add: db')
qed

lemma approve_and_issue_ok:
  assumes "approve_and_issue_authorization d x db = Inr (u, db')" and ok: "storage_ok db"
  shows "storage_ok db'"
proof -
  obtain md c i e h v db1 where md: "db_metadata db = Some md" and i: "transaction_intent db (cy_intent_id c) = Some i" "it_v2 i = None"
    and facts: "pending_intent_facts db (cy_intent_id c) (wm_epoch md) (ad_approved_at d) = Inr (e, h)"
    and times: "check_authorization_times d e = Inr v"
    and cnt: "sql_count (\<lambda>r. it_id r = cy_intent_id c \<and> it_epoch r = wm_epoch md \<and> it_status r = TxPending) (db_intents db) = 1"
    and ins: "insert_authorization (new_authorization md d (cy_intent_id c))
       (set_intent_status (\<lambda>r. it_id r = cy_intent_id c \<and> it_epoch r = wm_epoch md \<and> it_status r = TxPending) TxApproved (ad_approved_at d)
         (set_completed (complete_ceremony_where (ad_ceremony_id d) (wm_epoch md) (ad_approved_at d)) (ad_approved_at d) db)) = Inr db1"
    and db': "db' = append_audit_with_context md ''approval.completed'' (Some (SubjectId (ad_ceremony_id d))) (ad_approved_at d)
       (Some (cy_intent_id c)) (Some h) x db1"
    by (rule approve_and_issue_authorization_Inr [OF assms(1)])
  have keys: "distinct (map it_id (db_intents db))" using storage_ok_ledger [OF ok md] by (simp add: ledger_ok_def)
  obtain r where r: "r \<in> set (db_intents db)" "it_id r = cy_intent_id c" "e = ni_expires_at (it_intent r)"
    using facts by (rule pending_intent_facts_Inr)
  obtain q where q: "q \<in> set (db_intents db)" "it_id q = cy_intent_id c" "it_epoch q = wm_epoch md" "it_status q = TxPending"
    using sql_count_1 [OF cnt] by auto
  have "q = r" "q = i" using q(1,2) r(1,2) i by (auto simp: transaction_intent_def dest!: find_SomeD intro: distinct_key [OF keys])
  have "storage_ok db1"
  proof (rule approval_ok [OF ok md, where r = q, OF _ _ _ _ _ _ _ _ ins])
    show "az_expires_at (new_authorization md d (cy_intent_id c)) \<le> ni_expires_at (it_intent q)"
      using times r(3) \<open>q = r\<close> by (auto simp: new_authorization_def check_authorization_times_def split: if_splits)
  qed (use q i(2) \<open>q = i\<close> in \<open>simp_all add: new_authorization_def\<close>)
  then show ?thesis by (simp add: db')
qed

section \<open>The other operations\<close>

lemma create_intent_ok: "create_transaction_intent_with_audit i x db = Inr (u, db') \<Longrightarrow> storage_ok db \<Longrightarrow> storage_ok db'"
  by (auto simp: create_transaction_intent_with_audit_def rbind_Inr mutation_metadata_Inr elim!: insert_intent_ok)

lemma create_intent_v2_ok: "create_transaction_intent_v2 J i m db = Inr (u, db') \<Longrightarrow> storage_ok db \<Longrightarrow> storage_ok db'"
  by (auto simp: create_transaction_intent_v2_def rbind_Inr mutation_metadata_Inr insert_material_ok elim!: insert_intent_ok)

lemma transition_intent_ok:
  assumes "transition_transaction_intent J i e n t db = Inr (u, db')" and ok: "storage_ok db"
  shows "storage_ok db'"
proof -
  obtain md where md: "db_metadata db = Some md" and step: "may_transition_to e n"
    and v2: "\<not> (e = TxApproved \<and> n = TxSigning \<and> list_ex (\<lambda>r. (it_id r = i \<and> it_wallet_id r = wm_wallet_id md \<and> it_epoch r = wm_epoch md) \<and> is_v2 r) (db_intents db))"
    and db': "db' = append_audit J md (''transaction_intent.'' @ tx_status_as_str n) (Some (SubjectId i)) t
      (set_intent_status (\<lambda>r. (it_id r = i \<and> it_wallet_id r = wm_wallet_id md \<and> it_epoch r = wm_epoch md) \<and> it_status r = e) n t db)"
    using assms(1) by (auto simp: transition_transaction_intent_def rbind_Inr mutation_metadata_Inr Let_def split: if_splits)
  have signed: "e = TxSigning" if "n = TxSigned" using step that by (cases e) auto
  have signing: "e = TxApproved" if "n = TxSigning" using step that by (cases e) auto
  have "\<forall>r \<in> set (db_intents db). signing_claimed (db_nonces db) r" using storage_ok_ledger [OF ok md] by (simp add: ledger_ok_def)
  moreover have "n \<noteq> TxPending" using step by (cases e) auto
  ultimately show ?thesis
    unfolding db' storage_ok_audit using v2 signed signing
    by (intro set_intent_status_ok [OF ok md]) (auto simp: signing_claimed_def list_ex_iff)
qed

lemma credentials_ok:
  "upsert_credential J c db = Inr (u, db') \<Longrightarrow> storage_ok db \<Longrightarrow> storage_ok db'"
  "insert_passkey_record J p db = Inr (u, db') \<Longrightarrow> storage_ok db \<Longrightarrow> storage_ok db'"
  "update_passkey_record_cas J s v j t db = Inr (u, db') \<Longrightarrow> storage_ok db \<Longrightarrow> storage_ok db'"
  "set_webauthn_profile J w db = Inr (u, db') \<Longrightarrow> storage_ok db \<Longrightarrow> storage_ok db'"
  "put_secret_ref J r db = Inr (u, db') \<Longrightarrow> storage_ok db \<Longrightarrow> storage_ok db'"
  by (auto simp: upsert_credential_def insert_passkey_record_def update_passkey_record_cas_def update_passkey_record_in_def
      set_webauthn_profile_def put_secret_ref_def rbind_Inr Let_def split: if_splits)

lemma ceremonies_ok:
  "begin_approval_ceremony_atomic J c db = Inr (u, db') \<Longrightarrow> storage_ok db \<Longrightarrow> storage_ok db'"
  "begin_passkey_approval J pc db = Inr (u, db') \<Longrightarrow> storage_ok db \<Longrightarrow> storage_ok db'"
  by (auto simp: begin_approval_ceremony_atomic_def begin_passkey_approval_def rbind_Inr mutation_metadata_Inr split: if_splits
      elim!: insert_ceremony_ok)

lemma consume_authorization_ok: "consume_authorization J i e t db = Inr (u, db') \<Longrightarrow> storage_ok db \<Longrightarrow> storage_ok db'"
  by (auto simp: consume_authorization_def rbind_Inr split: if_splits elim: consume_where_ok)

lemma claim_nonce_ok: "claim_nonce J c db = Inr (u, db') \<Longrightarrow> storage_ok db \<Longrightarrow> storage_ok db'"
  by (auto simp: claim_nonce_def rbind_Inr on_constraint_Inr mutation_metadata_Inr claim_backed_def bound_intent_def elim!: insert_nonce_ok)

lemma claim_frost_nonce_ok:
  assumes "consume_authorization_and_claim_frost_nonce J c db = Inr (u, db')" and ok: "storage_ok db"
  shows "storage_ok db'"
proof -
  obtain md db1 where md: "db_metadata db = Some md"
    and start: "start_signing md (\<lambda>a. az_id a = fc_authorization_id c \<and> az_epoch a = wm_epoch md) claim_error (nn_fingerprint c) (nn_session_id c)
      (fc_authorization_id c) (fc_intent_id c) (fc_signer_id c) (\<lambda>_. True) (nn_claimed_at c) db = Inr db1"
    and db': "storage_ok db' = storage_ok db1"
    using assms(1) by (auto simp: consume_authorization_and_claim_frost_nonce_def rbind_Inr mutation_metadata_Inr split: if_splits)
  show ?thesis unfolding db' by (rule start_signing_ok [OF start ok md]) simp_all
qed

lemma create_job_ok:
  assumes "create_signing_job J aid j d t db = Inr (r, db')" and ok: "storage_ok db"
  shows "storage_ok db'"
proof -
  obtain md signer db1 db2 where md: "db_metadata db = Some md" and ins: "insert_job (new_job_row j d) db = Inr db1"
    and start: "start_signing md (\<lambda>a. az_id a = aid) claim_error d (nj_session_id j) aid (nj_intent_id j) signer
       (\<lambda>r. it_wallet_id r = wm_wallet_id md) t db1 = Inr db2"
    and db': "db' = append_audit J md ''chain_signing.authorized_started'' (Some (SubjectId (nj_job_id j))) t db2"
    by (rule create_signing_job_Inr [OF assms(1)])
  have "storage_ok db2"
    using ins by (intro start_signing_ok [OF start ok md]) (auto simp: insert_job_def rbind_Inr sql_insert_Inr signings_def new_job_row_def)
  then show ?thesis by (simp add: db')
qed

lemma create_personal_ok:
  assumes "create_personal_signing_operation E J aid n t db = Inr (r, db')" and ok: "storage_ok db"
  shows "storage_ok db'"
proof -
  obtain md db1 db2 where md: "db_metadata db = Some md" and ins: "insert_operation (new_operation_row n) db = Inr db1"
    and start: "start_signing md (\<lambda>a. az_id a = aid) (\<lambda>e. e) (no_operation_binding_digest n) (no_session_id n) aid (no_intent_id n)
       ''frost:participant-0'' (\<lambda>r. it_wallet_id r = wm_wallet_id md) t db1 = Inr db2"
    and db': "db' = append_audit J md ''personal_signing.authorized_started'' (Some (SubjectId (no_operation_id n))) t db2"
    by (rule create_personal_signing_operation_Inr [OF assms(1)])
  have "storage_ok db2"
    using ins by (intro start_signing_ok [OF start ok md]) (auto simp: insert_operation_def rbind_Inr sql_insert_Inr signings_def new_operation_row_def)
  then show ?thesis by (simp add: db')
qed

lemma close_job_ok:
  assumes "close_job md jid f i s t db = Inr db'" and ok: "storage_ok db" and md: "db_metadata db = Some md" and "s \<in> {TxSigned, TxInvalidated}"
    and f: "\<And>r. jb_job (f r) = jb_job r \<and> jb_operation_binding_digest (f r) = jb_operation_binding_digest r"
  shows "storage_ok db'"
proof -
  let ?db = "db\<lparr>db_jobs := sql_update (\<lambda>r. jb_id r = jid \<and> jb_status r = JobSigning) f (db_jobs db)\<rparr>"
  have "signings ?db = signings db" using f by (simp add: signings_def map_sql_update)
  then have ok1: "storage_ok ?db" using ok by (simp add: storage_ok_def)
  have "\<forall>r \<in> set (db_intents db). signing_claimed (db_nonces db) r" using storage_ok_ledger [OF ok md] by (simp add: ledger_ok_def)
  then have "storage_ok (set_intent_status (\<lambda>r. it_id r = i \<and> it_wallet_id r = wm_wallet_id md \<and> it_epoch r = wm_epoch md \<and> it_status r = TxSigning) s t ?db)"
    using assms(4) md by (intro set_intent_status_ok [OF ok1, of md]) (auto simp: signing_claimed_def)
  then show ?thesis using assms(1) by (auto simp: close_job_def Let_def split: if_splits)
qed

lemma jobs_ok:
  "complete_signing_job J i d sg t db = Inr (u, db') \<Longrightarrow> storage_ok db \<Longrightarrow> storage_ok db'"
  "terminate_signing_job J i d st rs t db = Inr (u, db') \<Longrightarrow> storage_ok db \<Longrightarrow> storage_ok db'"
  "claim_chain_executor J c db = Inr (u, db') \<Longrightarrow> storage_ok db \<Longrightarrow> storage_ok db'"
  by (auto simp: complete_signing_job_def terminate_signing_job_def claim_chain_executor_def rbind_Inr on_constraint_Inr mutation_metadata_Inr
      split: if_splits elim!: close_job_ok)

lemma personal_ok:
  "record_personal_signing_receipt J r db = Inr (u, db') \<Longrightarrow> storage_ok db \<Longrightarrow> storage_ok db'"
  "freeze_personal_signing_operation J i d p t db = Inr (u, db') \<Longrightarrow> storage_ok db \<Longrightarrow> storage_ok db'"
  "complete_personal_signing_operation J i d p t db = Inr (u, db') \<Longrightarrow> storage_ok db \<Longrightarrow> storage_ok db'"
  "terminate_personal_signing_operation J i d st rs t db = Inr (u, db') \<Longrightarrow> storage_ok db \<Longrightarrow> storage_ok db'"
  by (auto simp: record_personal_signing_receipt_def freeze_personal_signing_operation_def complete_personal_signing_operation_def
      terminate_personal_signing_operation_def rbind_Inr split: if_splits option.splits elim!: update_operations_ok)

lemma insert_catalog_rows_ok:
  "insert_secret md r db = Inr db' \<Longrightarrow> storage_ok db' = storage_ok db"
  "insert_profile p db = Inr db' \<Longrightarrow> storage_ok db' = storage_ok db"
  "insert_binding b db = Inr db' \<Longrightarrow> storage_ok db' = storage_ok db"
  by (auto simp: insert_secret_def insert_profile_def insert_binding_def rbind_Inr)

lemma insert_bindings_ok: "insert_bindings bs db = Inr db' \<Longrightarrow> storage_ok db' = storage_ok db"
  by (induction bs arbitrary: db) (fastforce simp: rbind_Inr on_constraint_Inr dest: insert_catalog_rows_ok)+

lemma insert_catalog_ok: "insert_catalog md es db = Inr db' \<Longrightarrow> storage_ok db' = storage_ok db"
  by (induction es arbitrary: db) (fastforce simp: rbind_Inr on_constraint_Inr dest: insert_catalog_rows_ok insert_bindings_ok)+

lemma signers_ok:
  "register_signer_profile J p db = Inr (u, db') \<Longrightarrow> storage_ok db \<Longrightarrow> storage_ok db'"
  "bind_signer_address E J ab db = Inr (u, db') \<Longrightarrow> storage_ok db \<Longrightarrow> storage_ok db'"
  "install_signer_catalog E J cs db = Inr (oc, db') \<Longrightarrow> storage_ok db \<Longrightarrow> storage_ok db'"
  by (auto simp: register_signer_profile_def bind_signer_address_def install_signer_catalog_def rbind_Inr on_constraint_Inr
      insert_catalog_rows_ok insert_catalog_ok split: if_splits option.splits)

lemma devices_ok:
  "claim_signer_request_nonce E J i c t db = Inr (u, db') \<Longrightarrow> storage_ok db \<Longrightarrow> storage_ok db'"
  "persist_signer_device_transition E J w s e g r t db = Inr (u, db') \<Longrightarrow> storage_ok db \<Longrightarrow> storage_ok db'"
  by (auto simp: claim_signer_request_nonce_def persist_signer_device_transition_def rbind_Inr on_constraint_Inr Let_def
      split: if_splits option.splits)

lemma restore_ok:
  "invalidate_unfinished_ceremonies_on_startup J t db = Inr (n, db') \<Longrightarrow> storage_ok db \<Longrightarrow> storage_ok db'"
  "record_cutover_recovery J oc db = Inr (u, db') \<Longrightarrow> storage_ok db \<Longrightarrow> storage_ok db'"
  "transition_restore J x y t db = Inr (u, db') \<Longrightarrow> storage_ok db \<Longrightarrow> storage_ok db'"
  "begin_restore_precheck J t db = Inr (u, db') \<Longrightarrow> storage_ok db \<Longrightarrow> storage_ok db'"
  by (auto simp: invalidate_unfinished_ceremonies_on_startup_def record_cutover_recovery_def transition_restore_def
      begin_restore_precheck_def rbind_Inr metadata_in_Inr Let_def set_restore_state_def split: if_splits
      intro!: storage_ok_metadata [OF invalidate_ceremonies_ok] storage_ok_metadata invalidate_ceremonies_ok)
    (simp_all add: invalidate_ceremonies_def)

text \<open>A cutover closes everything that is open, because open rows carry the old epoch.\<close>

lemma cutover_ok:
  assumes "cutover_restore J t db = Inr (e, db')" and ok: "storage_ok db"
  shows "storage_ok db'"
proof -
  obtain md where md: "db_metadata db = Some md" and e: "checked_add (wm_epoch md) 1 = Some e"
    using assms(1) by (auto simp: cutover_restore_def rbind_Inr metadata_in_Inr ok_or_Inr Let_def)
  have less: "wm_epoch md < e" using e by (simp add: checked_add_Some word_less_nat_alt)
  let ?cs = "sql_update (\<lambda>c. cy_epoch c < e \<and> cy_completed_at c = None \<and> cy_invalidated_at c = None) (\<lambda>c. c\<lparr>cy_invalidated_at := Some t\<rparr>) (db_ceremonies db)"
  let ?as = "sql_update (\<lambda>a. az_epoch a < e \<and> az_consumed_at a = None \<and> az_invalidated_at a = None) (\<lambda>a. a\<lparr>az_invalidated_at := Some t\<rparr>) (db_authorizations db)"
  let ?ns = "sql_update (\<lambda>n. nc_epoch n < e \<and> nc_invalidated_at n = None) (\<lambda>n. n\<lparr>nc_invalidated_at := Some t\<rparr>) (db_nonces db)"
  let ?is = "sql_update (\<lambda>r. it_epoch r < e \<and> it_status r \<in> {TxPending, TxApproved, TxSigning}) (\<lambda>r. r\<lparr>it_status := TxInvalidated, it_updated_at := t\<rparr>) (db_intents db)"
  note L = storage_ok_ledger [OF ok md]
  have cur: "all_current (wm_epoch md) (db_intents db) (db_ceremonies db) (db_authorizations db) (db_nonces db)" using L by (simp add: ledger_ok_def)
  have "ledger_ok (wm_epoch md) ?is ?cs ?as ?ns (signings db)"
    by (intro ledger_status ledger_close_ceremonies ledger_spend ledger_close_claims L)
      (simp_all add: open_status_def closes_def ceremony_le_def ceremony_open_def spends_def authorization_le_def spent_def retires_def nonce_le_def)
  then have "ledger_ok e ?is ?cs ?as ?ns (signings db)"
  proof (rule ledger_new_epoch)
    show "\<forall>i \<in> set ?is. \<not> open_status (it_status i)" using cur less by (auto simp: set_sql_update all_current_def open_status_def)
    show "\<forall>c \<in> set ?cs. \<not> ceremony_open c" using cur less by (auto simp: set_sql_update all_current_def ceremony_open_def)
    show "\<forall>a \<in> set ?as. spent a" using cur less by (auto simp: set_sql_update all_current_def spent_def)
    show "\<forall>n \<in> set ?ns. \<not> nc_invalidated_at n = None" using cur less by (auto simp: set_sql_update all_current_def)
  qed
  then show ?thesis
    using assms(1) md e
    by (auto simp: cutover_restore_def rbind_Inr metadata_in_Inr ok_or_Inr Let_def invalidate_ceremonies_def set_intent_status_def
        storage_ok_def signings_def append_audit_def)
qed

section \<open>Reachable databases\<close>

lemma storage_step_ok: "storage_step E J db db' \<Longrightarrow> storage_ok db \<Longrightarrow> storage_ok db'"
  by (induction rule: storage_step.induct)
    (auto simp: begin_snapshot_def finish_snapshot_def begin_recovering_def finish_recovery_def
      intro: create_intent_ok create_intent_v2_ok transition_intent_ok credentials_ok ceremonies_ok approve_and_issue_ok complete_passkey_approval_ok
        consume_authorization_ok claim_nonce_ok claim_frost_nonce_ok signers_ok create_job_ok jobs_ok create_personal_ok personal_ok devices_ok
        restore_ok cutover_ok)

lemma storage_run_ok: "(storage_step E J)\<^sup>*\<^sup>* db db' \<Longrightarrow> storage_ok db \<Longrightarrow> storage_ok db'"
  by (induction rule: rtranclp_induct) (auto intro: storage_step_ok)

lemma initialize_ok: "initialize J w t empty_storage = Inr (u, db) \<Longrightarrow> storage_ok db"
  unfolding initialize_Inr
  by (auto simp: storage_ok_def empty_storage_def signings_def ledger_ok_def all_current_def bound_intents_def map_filter_def append_audit_def)

lemma reachable_ok: "storage_reachable E J db \<Longrightarrow> storage_ok db"
  by (auto simp: storage_reachable_def intro: storage_run_ok initialize_ok)

end
