(* ===== verification/Storage_Properties.thy ===== *)
theory Storage_Properties
  imports Storage_Signing
begin

text \<open>
  Properties of the wallet storage in every reachable database, with a sample run from an empty database through
  enrolment, approval and the start of signing on which they are evaluated.
\<close>

section \<open>A sample run\<close>

definition uuid :: "u8 \<Rightarrow> bytes" where "uuid n = replicate 16 n"

definition sample_policy :: persisted_policy where
  "sample_policy = \<lparr>qp_profile_id = uuid 20, qp_signer_set_id = uuid 21, qp_signer_epoch = 1, qp_group_pubkey_xonly = ''x'',
     qp_allowed_participants = [1, 2, 3], qp_threshold = 2, qp_policy_digest = ''xxxx'', qp_chain_snapshot_digest = ''xxx''\<rparr>"

definition sample_store :: storage_env where
  "sample_store = \<lparr>serde_valid = (\<lambda>_. True), json_valid = (\<lambda>_. True), persisted_policy_of = (\<lambda>_. Some sample_policy),
     pkg_version = ''0.1.0''\<rparr>"

definition sample_intent :: new_transaction_intent_v2 where
  "sample_intent = \<lparr>ni_id = uuid 2, ni_tx_digest = replicate 32 3, ni_policy_hash = replicate 32 4, ni_session_id = replicate 32 5,
     ni_expires_at = 100, ni_created_at = 1,
     ni_v2 = \<lparr>v2_network = StoredRegtest, v2_protocol_version = 1, v2_action = StoredIssue, v2_signer_id = ''frost:participant-0'', v2_approval_nonce = replicate 32 6\<rparr>,
     ni_schema_version = 2\<rparr>"

definition sample_material :: intent_material where
  "sample_material = \<lparr>im_intent_id = uuid 2, im_kind = PolicyInput, im_payload_json = ''{}'', im_payload_hash = replicate 32 1,
     im_node_snapshot_id = ''node''\<rparr>"


definition sample_opened :: "(storage_error, storage) rresult" where
  "sample_opened =
     rbind (initialize sample_store (uuid 1) 0 empty_storage) (\<lambda>(_, db).
     rbind (set_webauthn_profile sample_store \<lparr>wp_wallet_id = uuid 1, wp_user_id = ''user'', wp_rp_id = ''rp'', wp_rp_origin = ''origin'',
       wp_record_version = 1, wp_updated_at = 0\<rparr> db) (\<lambda>(_, db).
     rbind (insert_passkey_record sample_store \<lparr>np_credential_id = ''key'', np_label = ''label'', np_passkey_json = ''{}'', np_format = ''v1'',
       np_credential_state = CredentialActive, np_enrolled_at = 0\<rparr> db) (\<lambda>(_, db).
     rbind (create_transaction_intent_v2 sample_store sample_intent sample_material db) (\<lambda>(_, db).
     rbind (begin_passkey_approval sample_store \<lparr>ce_id = uuid 8, ce_intent_id = uuid 2, ce_expires_at = 50, ce_started_at = 2,
       ce_credential_id = ''key'', ce_binding_digest = replicate 32 9\<rparr> db) (\<lambda>(_, db).
     rbind (complete_passkey_approval_atomic sample_store \<lparr>ad_ceremony_id = uuid 8, ad_authorization_id = uuid 10, ad_binding_digest = replicate 32 9,
       ad_authorization_expires_at = 60, ad_approved_at = 3, pc_intent_id = uuid 2, pc_credential_id = ''key'', pc_expected_record_version = 1,
       pc_updated_passkey_json = ''{}'', pc_rp_id = ''rp'', pc_rp_origin = ''origin''\<rparr> db) (\<lambda>(_, db). Inr db))))))"

definition sample_signing :: "(storage_error, storage) rresult" where
  "sample_signing =
     rbind sample_opened (\<lambda>db.
     rbind (consume_authorization_and_claim_frost_nonce sample_store \<lparr>nn_fingerprint = replicate 32 11, nn_session_id = replicate 32 5, nn_claimed_at = 4,
       fc_authorization_id = uuid 10, fc_intent_id = uuid 2, fc_signer_id = ''frost:participant-0''\<rparr> db) (\<lambda>(_, db). Inr db))"

lemmas sample_simps = Let_def usable_def consume_where_def start_signing_def insert_nonce_def nonce_check_def nonce_binding_check_def
   consume_authorization_and_claim_frost_nonce_def initialize_def empty_storage_def append_audit_def append_audit_with_context_def set_webauthn_profile_def insert_passkey_record_def mutation_metadata_def metadata_in_def ensure_mutations_allowed_def
   ok_or_def sample_store_def sql_insert_def passkey_check_def create_transaction_intent_v2_def sample_intent_def sample_material_def validate_new_v2_intent_def
   insert_intent_def insert_material_def intent_check_def intent_clash_def v2_check_def material_check_def begin_passkey_approval_def
   pending_intent_facts_def check_ceremony_times_def insert_ceremony_def ceremony_check_def transaction_intent_def is_active_passkey_def
   complete_passkey_approval_atomic_def approval_ceremony_def check_authorization_times_def update_passkey_record_in_def active_at_version_def passkey_updated_def
   sql_u64_def require_def sql_update_def sql_count_def set_intent_status_def set_completed_def complete_ceremony_where_def insert_authorization_def authorization_check_def
   new_authorization_def on_constraint_def new_transaction_intent.defs new_approval_ceremony.defs approval_decision.defs default_context_def
   uuid_def


lemma sample_opened_state:
  "\<exists>db a. sample_opened = Inr db \<and> db_authorizations db = [a] \<and> az_id a = uuid 10 \<and> \<not> spent a
    \<and> (\<exists>md. db_metadata db = Some md \<and> wm_restore_state md = Normal \<and> wm_epoch md = 1)"
  by (simp add: sample_opened_def sample_simps spent_def)

lemma sample_signing_state:
  "\<exists>db i a. sample_signing = Inr db \<and> db_intents db = [i] \<and> is_v2 i \<and> it_status i = TxSigning \<and> db_authorizations db = [a] \<and> spent a"
  by (simp add: sample_signing_def sample_opened_def sample_simps spent_def)

lemma reachable_initialize: "initialize J w t empty_storage = Inr (u, db) \<Longrightarrow> storage_reachable E J db"
  by (auto simp: storage_reachable_def)

lemma reachable_step: "storage_reachable E J db \<Longrightarrow> storage_step E J db db' \<Longrightarrow> storage_reachable E J db'"
  by (auto simp: storage_reachable_def intro: rtranclp.rtrancl_into_rtrancl)

lemma reachable_run: "storage_reachable E J db \<Longrightarrow> (storage_step E J)\<^sup>*\<^sup>* db db' \<Longrightarrow> storage_reachable E J db'"
  by (auto simp: storage_reachable_def intro: rtranclp_trans)

lemma sample_opened_reachable: "sample_opened = Inr db \<Longrightarrow> storage_reachable E sample_store db"
  unfolding sample_opened_def
  by (clarsimp simp only: rbind_Inr split_paired_Ex prod.case sum.inject)
    (drule reachable_initialize, drule (1) reachable_step [OF _ st_set_webauthn], drule (1) reachable_step [OF _ st_insert_passkey],
     drule (1) reachable_step [OF _ st_create_intent_v2], drule (1) reachable_step [OF _ st_begin_passkey],
     drule (1) reachable_step [OF _ st_complete_passkey])

lemma sample_signing_reachable:
  assumes "sample_signing = Inr db"
  shows "\<exists>db0. sample_opened = Inr db0 \<and> storage_reachable E sample_store db0 \<and> storage_step E sample_store db0 db"
  using assms sample_opened_reachable [of _ E] by (auto simp: sample_signing_def rbind_Inr intro!: st_claim_frost)

section \<open>History\<close>

lemma table_le_frozen:
  assumes "table_le R t t'" and "\<And>r s. R r s \<Longrightarrow> p r \<Longrightarrow> s = r"
  shows "{r \<in> set t. p r} \<subseteq> set t'"
proof
  fix r assume "r \<in> {r \<in> set t. p r}"
  with table_leD [OF assms(1), of r] assms(2) [of r] show "r \<in> set t'" by auto
qed

text \<open>
  C35: whatever is done with a reachable wallet database, its history is kept.  The audit log, signer profiles, address
  bindings, executor claims, request nonces, device events and receipts only grow; every intent keeps its content,
  epoch and version two binding, and its status only follows the status machine; spent authorizations, closed
  ceremonies, finished jobs and terminal personal operations never change again; and the wallet keeps its identity
  while its epoch never decreases.
\<close>

theorem storage_history_is_kept:
  assumes "storage_reachable E J db" and "(storage_step E J)\<^sup>*\<^sup>* db db'"
  shows "(\<exists>rows. db_audit db' = db_audit db @ rows) \<and> (\<exists>rows. db_profiles db' = db_profiles db @ rows)
    \<and> (\<exists>rows. db_bindings db' = db_bindings db @ rows) \<and> (\<exists>rows. db_claims db' = db_claims db @ rows)
    \<and> (\<exists>rows. db_request_nonces db' = db_request_nonces db @ rows) \<and> (\<exists>rows. db_device_events db' = db_device_events db @ rows)
    \<and> (\<exists>rows. db_receipts db' = db_receipts db @ rows)
    \<and> (\<forall>r \<in> set (db_intents db). \<exists>s \<in> set (db_intents db'). it_intent s = it_intent r \<and> it_v2 s = it_v2 r \<and> it_epoch s = it_epoch r
         \<and> (\<lambda>x y. may_transition_to x y \<or> x = TxPending \<and> y = TxApproved)\<^sup>*\<^sup>* (it_status r) (it_status s))
    \<and> {a \<in> set (db_authorizations db). spent a} \<subseteq> set (db_authorizations db')
    \<and> {c \<in> set (db_ceremonies db). \<not> ceremony_open c} \<subseteq> set (db_ceremonies db')
    \<and> {r \<in> set (db_jobs db). jb_status r \<noteq> JobSigning} \<subseteq> set (db_jobs db')
    \<and> {r \<in> set (db_operations db). personal_is_terminal (op_status r)} \<subseteq> set (db_operations db')
    \<and> (\<exists>md md'. db_metadata db = Some md \<and> db_metadata db' = Some md' \<and> wm_wallet_id md' = wm_wallet_id md \<and> wm_epoch md \<le> wm_epoch md')"
proof -
  have ev: "evolves db db'" using assms by (intro storage_run_evolves reachable_credential_keys)
  then have t: "table_le authorization_le (db_authorizations db) (db_authorizations db')" "table_le ceremony_le (db_ceremonies db) (db_ceremonies db')"
      "table_le job_le (db_jobs db) (db_jobs db')" "table_le operation_le (db_operations db) (db_operations db')"
      "table_le intent_le (db_intents db) (db_intents db')"
    by (simp_all add: evolves_def)
  have a: "{a \<in> set (db_authorizations db). spent a} \<subseteq> set (db_authorizations db')"
    by (rule table_le_frozen [OF t(1)]) (simp add: authorization_le_def)
  have c: "{c \<in> set (db_ceremonies db). \<not> ceremony_open c} \<subseteq> set (db_ceremonies db')"
    by (rule table_le_frozen [OF t(2)]) (auto simp: ceremony_le_def ceremony_open_def)
  have j: "{r \<in> set (db_jobs db). jb_status r \<noteq> JobSigning} \<subseteq> set (db_jobs db')"
    by (rule table_le_frozen [OF t(3)]) (simp add: job_le_def)
  have p: "{r \<in> set (db_operations db). personal_is_terminal (op_status r)} \<subseteq> set (db_operations db')"
    by (rule table_le_frozen [OF t(4)]) (simp add: operation_le_def)
  have status: "(\<lambda>x y. may_transition_to x y \<or> x = TxPending \<and> y = TxApproved) = status_step" by (auto simp: status_step_def fun_eq_iff)
  have i: "\<forall>r \<in> set (db_intents db). \<exists>s \<in> set (db_intents db'). it_intent s = it_intent r \<and> it_v2 s = it_v2 r \<and> it_epoch s = it_epoch r
      \<and> status_step\<^sup>*\<^sup>* (it_status r) (it_status s)"
    using table_leD [OF t(5)] unfolding intent_le_def by blast
  obtain md where "db_metadata db = Some md" using reachable_ok [OF assms(1)] by (auto simp: storage_ok_def)
  then have m: "\<exists>md md'. db_metadata db = Some md \<and> db_metadata db' = Some md' \<and> wm_wallet_id md' = wm_wallet_id md \<and> wm_epoch md \<le> wm_epoch md'"
    using ev by (auto simp: evolves_def metadata_le_def)
  show ?thesis
    unfolding status using ev by (intro conjI a c j p i m) (simp_all add: evolves_def table_le_eq)
qed

theorem storage_history_is_kept_witness:
  "\<exists>db db'. storage_step sample_env sample_store db db' \<and> (\<exists>a \<in> set (db_authorizations db). \<not> spent a)
    \<and> (\<exists>rows. db_audit db' = db_audit db @ rows) \<and> (\<exists>rows. db_receipts db' = db_receipts db @ rows)"
proof -
  obtain db' where s: "sample_signing = Inr db'" using sample_signing_state by blast
  then obtain db where db: "sample_opened = Inr db" "storage_reachable sample_env sample_store db" "storage_step sample_env sample_store db db'"
    using sample_signing_reachable by blast
  have "(storage_step sample_env sample_store)\<^sup>*\<^sup>* db db'" using db(3) by (rule r_into_rtranclp)
  note kept = storage_history_is_kept [OF db(2) this]
  have "\<exists>a \<in> set (db_authorizations db). \<not> spent a" using sample_opened_state by (auto simp: db(1))
  moreover have "\<exists>rows. db_audit db' = db_audit db @ rows" using kept by (rule conjunct1)
  moreover have "\<exists>rows. db_receipts db' = db_receipts db @ rows" using kept by (elim conjE)
  ultimately show ?thesis using db(3) by (intro exI [of _ db] exI [of _ db'] conjI)
qed

section \<open>Signing\<close>

lemma filter_bound_single:
  assumes "distinct (bound_intents ns)" and "n \<in> set ns" and "bound_intent n = Some i"
  shows "filter (\<lambda>m. bound_intent m = Some i) ns = [n]"
  using assms
proof (induction ns)
  case (Cons m ns)
  have none: "filter (\<lambda>m. bound_intent m = Some i) ns = []" if "i \<notin> set (bound_intents ns)"
    using that by (auto simp: filter_empty_conv set_bound_intents)
  have m: "bound_intents (m # ns) = bound_intents [m] @ bound_intents ns" using bound_intents_append [of "[m]" ns] by simp
  show ?case
  proof (cases "bound_intent m = Some i")
    case True
    with Cons.prems m have "i \<notin> set (bound_intents ns)" by (simp add: bound_intents_single)
    with none Cons.prems True show ?thesis by (auto simp: set_bound_intents)
  next
    case False
    with Cons m show ?thesis by auto
  qed
qed simp

lemma filter_distinct_fst: "distinct (map fst xs) \<Longrightarrow> length (filter (\<lambda>x. fst x = k) xs) \<le> 1"
  by (induction xs) (auto simp: filter_empty_conv rev_image_eqI)

text \<open>
  C2: in every reachable wallet database, a version two intent that is being signed or was signed rests on exactly one
  approval.  There is exactly one bound nonce claim for it, made under the signer and the session of the intent; the
  claim consumed an authorization of this intent, before the authorization and the intent expired; that authorization was issued
  by a completed Passkey ceremony for the same binding digest; and at most one chain signing job or personal signing
  operation was ever created for the intent.
\<close>

theorem signing_rests_on_one_approval:
  assumes "storage_reachable E J db" and i: "i \<in> set (db_intents db)" "it_v2 i = Some v" "it_status i \<in> {TxSigning, TxSigned}"
  shows "\<exists>n a c. filter (\<lambda>m. bound_intent m = Some (it_id i)) (db_nonces db) = [n]
    \<and> nc_binding n = Some (az_id a, it_id i, v2_signer_id v) \<and> nn_session_id (nc_claim n) = ni_session_id (it_intent i)
    \<and> a \<in> set (db_authorizations db) \<and> az_intent_id a = it_id i \<and> az_consumed_at a = Some (nn_claimed_at (nc_claim n))
    \<and> nn_claimed_at (nc_claim n) \<le> az_expires_at a \<and> az_expires_at a \<le> ni_expires_at (it_intent i)
    \<and> c \<in> set (db_ceremonies db) \<and> cy_intent_id c = it_id i \<and> cy_completed_at c \<noteq> None
    \<and> map_option snd (cy_passkey c) = Some (az_binding_digest a)
    \<and> length (filter (\<lambda>w. fst w = it_id i) (signings db)) \<le> 1"
proof -
  obtain md where md: "db_metadata db = Some md" using reachable_ok [OF assms(1)] by (auto simp: storage_ok_def)
  note L = storage_ok_ledger [OF reachable_ok [OF assms(1)] md, unfolded ledger_ok_def]
  obtain n where n: "n \<in> set (db_nonces db)" "bound_intent n = Some (it_id i)"
    using L i by (auto simp: signing_claimed_def set_bound_intents)
  then obtain aid sid where b: "nc_binding n = Some (aid, it_id i, sid)" by (auto simp: bound_intent_def)
  obtain a j where a: "a \<in> set (db_authorizations db)" "az_id a = aid" "az_intent_id a = it_id i" "az_consumed_at a = Some (nn_claimed_at (nc_claim n))"
    and j: "j \<in> set (db_intents db)" "it_id j = it_id i" "map_option v2_signer_id (it_v2 j) = Some sid"
      "ni_session_id (it_intent j) = nn_session_id (nc_claim n)"
    using L n(1) b unfolding claim_backed_def by metis
  have "j = i" using L i(1) j(1,2) by (auto intro: distinct_key)
  obtain k where k: "k \<in> set (db_intents db)" "it_id k = az_intent_id a" "az_expires_at a \<le> ni_expires_at (it_intent k)"
      "is_v2 k \<longrightarrow> passkey_approved (db_ceremonies db) a" and t: "nn_claimed_at (nc_claim n) \<le> az_expires_at a"
    using L a(1,4) unfolding authorization_backed_def by metis
  have "k = i" using L i(1) k(1,2) a(3) by (auto intro: distinct_key)
  then obtain c where c: "c \<in> set (db_ceremonies db)" "cy_intent_id c = it_id i" "cy_completed_at c \<noteq> None"
      "map_option snd (cy_passkey c) = Some (az_binding_digest a)"
    using k(4) i(2) a(3) unfolding passkey_approved_def by auto
  have "filter (\<lambda>m. bound_intent m = Some (it_id i)) (db_nonces db) = [n]"
    using L n by (intro filter_bound_single) simp_all
  moreover have "length (filter (\<lambda>w. fst w = it_id i) (signings db)) \<le> 1" using L by (intro filter_distinct_fst) simp
  ultimately show ?thesis using a b c j \<open>j = i\<close> k(3) \<open>k = i\<close> t i(2) by (intro exI [of _ n] exI [of _ a] exI [of _ c]) simp
qed

theorem signing_rests_on_one_approval_witness:
  "\<exists>db i n. storage_reachable sample_env sample_store db \<and> i \<in> set (db_intents db) \<and> it_status i = TxSigning
    \<and> filter (\<lambda>m. bound_intent m = Some (it_id i)) (db_nonces db) = [n]"
proof -
  obtain db i where s: "sample_signing = Inr db" and i: "i \<in> set (db_intents db)" "is_v2 i" "it_status i = TxSigning"
    using sample_signing_state by auto
  then obtain v where v: "it_v2 i = Some v" by blast
  have r: "storage_reachable sample_env sample_store db" using sample_signing_reachable [OF s] reachable_step by blast
  have "it_status i \<in> {TxSigning, TxSigned}" using i(3) by simp
  from signing_rests_on_one_approval [OF r i(1) v this] r i show ?thesis by blast
qed

section \<open>Restore\<close>

lemma spent_not_consumed:
  assumes "distinct (map az_id as)" and "a \<in> set as" and "spent a" and "\<And>x. p x \<Longrightarrow> az_id x = az_id a"
  shows "sql_count (\<lambda>x. p x \<and> usable t x) as \<noteq> 1"
proof
  assume "sql_count (\<lambda>x. p x \<and> usable t x) as = 1"
  then obtain x where x: "x \<in> set as" "p x" "usable t x" using sql_count_1 by blast
  then have "x = a" using assms by (auto intro: distinct_key)
  with x(3) assms(3) show False by (auto simp: usable_def spent_def)
qed

text \<open>No operation that spends an authorization succeeds on a spent one.\<close>

lemma spent_is_useless:
  assumes ok: "storage_ok db" and a: "a \<in> set (db_authorizations db)" "spent a"
  shows "\<not> is_ok (consume_authorization J (az_id a) e t db)" and "\<not> is_ok (create_signing_job J (az_id a) j d t db)"
    and "\<not> is_ok (create_personal_signing_operation E J (az_id a) n t db)"
    and "fc_authorization_id c = az_id a \<Longrightarrow> \<not> is_ok (consume_authorization_and_claim_frost_nonce J c db)"
proof -
  have keys: "distinct (map az_id (db_authorizations db))" using ok by (auto simp: storage_ok_def ledger_ok_def)
  note none = spent_not_consumed [OF keys a]
  have consume: "consume_where p t db \<noteq> Inr db'" if "\<And>x. p x \<Longrightarrow> az_id x = az_id a" for p t db'
    using none [OF that] by (simp add: consume_where_def Let_def)
  show "\<not> is_ok (consume_authorization J (az_id a) e t db)"
    using consume [of "\<lambda>x. az_id x = az_id a \<and> az_epoch x = e"] by (auto simp: is_ok_iff consume_authorization_def rbind_Inr split: if_splits)
  have start: "start_signing md p oc fp s aid i sg q now db1 \<noteq> Inr db2"
    if "db_authorizations db1 = db_authorizations db" "\<And>x. p x \<Longrightarrow> az_id x = az_id a" for md p oc fp s aid i sg q now db1 db2
    using none [of p now] that by (auto elim: start_signing_Inr)
  show "\<not> is_ok (create_signing_job J (az_id a) j d t db)"
    using start [of _ "\<lambda>x. az_id x = az_id a"] by (auto simp: is_ok_iff insert_job_def rbind_Inr elim!: create_signing_job_Inr)
  show "\<not> is_ok (create_personal_signing_operation E J (az_id a) n t db)"
    using start [of _ "\<lambda>x. az_id x = az_id a"] by (auto simp: is_ok_iff insert_operation_def rbind_Inr elim!: create_personal_signing_operation_Inr)
  show "\<not> is_ok (consume_authorization_and_claim_frost_nonce J c db)" if "fc_authorization_id c = az_id a"
    using start [of db "\<lambda>x. az_id x = az_id a \<and> az_epoch x = e" for e] that by (auto simp: is_ok_iff consume_authorization_and_claim_frost_nonce_def rbind_Inr split: if_splits)
qed

lemma cutover_spends_all:
  assumes "cutover_restore J t db = Inr (e, db')" and ok: "storage_ok db"
  shows "unat e = Suc (unat (wm_epoch (the (db_metadata db))))" and "\<forall>a \<in> set (db_authorizations db'). spent a"
    and "map az_id (db_authorizations db') = map az_id (db_authorizations db)"
proof -
  obtain md where md: "db_metadata db = Some md" and e: "checked_add (wm_epoch md) 1 = Some e"
    and as: "db_authorizations db' = sql_update (\<lambda>a. az_epoch a < e \<and> az_consumed_at a = None \<and> az_invalidated_at a = None)
      (\<lambda>a. a\<lparr>az_invalidated_at := Some t\<rparr>) (db_authorizations db)"
    using assms(1) by (auto simp: cutover_restore_def rbind_Inr metadata_in_Inr ok_or_Inr Let_def append_audit_def set_intent_status_def
        invalidate_ceremonies_def)
  show "unat e = Suc (unat (wm_epoch (the (db_metadata db))))" using md e by (simp add: checked_add_Some)
  then have less: "wm_epoch md < e" using md by (simp add: word_less_nat_alt)
  have "\<forall>a \<in> set (db_authorizations db). \<not> spent a \<longrightarrow> az_epoch a = wm_epoch md"
    using storage_ok_ledger [OF ok md] by (simp add: ledger_ok_def all_current_def)
  then show "\<forall>a \<in> set (db_authorizations db'). spent a" using less by (auto simp: as set_sql_update spent_def)
  show "map az_id (db_authorizations db') = map az_id (db_authorizations db)" unfolding as by (rule map_sql_update) simp
qed

text \<open>
  C8: a restore cutover ends the epoch.  It raises the epoch by exactly one, and every authorization that existed then is
  useless from there on: in no database that is reached afterwards can it be consumed on its own, by the claim of a nonce, or by
  the creation of a chain signing job or of a personal signing operation.
\<close>

theorem cutover_ends_authorizations:
  assumes "storage_reachable E J db" and "cutover_restore J t db = Inr (e, db')" and "(storage_step E J)\<^sup>*\<^sup>* db' db''"
    and "a \<in> set (db_authorizations db)"
  shows "unat e = Suc (unat (wm_epoch (the (db_metadata db)))) \<and> \<not> is_ok (consume_authorization J (az_id a) ep now db'')
    \<and> (fc_authorization_id c = az_id a \<longrightarrow> \<not> is_ok (consume_authorization_and_claim_frost_nonce J c db''))
    \<and> \<not> is_ok (create_signing_job J (az_id a) j d now db'') \<and> \<not> is_ok (create_personal_signing_operation E J (az_id a) n now db'')"
proof -
  note ok = reachable_ok [OF assms(1)]
  have r: "storage_reachable E J db'" using reachable_step [OF assms(1) st_cutover [OF assms(2)]] .
  have ok'': "storage_ok db''" using reachable_ok reachable_run [OF r assms(3)] by blast
  have "az_id a \<in> az_id ` set (db_authorizations db')" using cutover_spends_all(3) [OF assms(2) ok] assms(4) by (metis image_eqI list.set_map)
  then obtain b where b: "b \<in> set (db_authorizations db')" "az_id b = az_id a" "spent b"
    using cutover_spends_all(2) [OF assms(2) ok] by auto
  have "evolves db' db''" using assms(3) r by (intro storage_run_evolves reachable_credential_keys)
  then have "table_le authorization_le (db_authorizations db') (db_authorizations db'')" by (simp add: evolves_def)
  from table_leD [OF this b(1)] b(3) have "b \<in> set (db_authorizations db'')" by (auto simp: authorization_le_def)
  from spent_is_useless [OF ok'' this b(3)] b(2) cutover_spends_all(1) [OF assms(2) ok] show ?thesis by simp
qed

lemma sample_cutover:
  "\<exists>db db1 db2 a. sample_opened = Inr db \<and> begin_restore_precheck sample_store 5 db = Inr ((), db1) \<and> cutover_restore sample_store 6 db1 = Inr (2, db2)
    \<and> a \<in> set (db_authorizations db1) \<and> az_id a = uuid 10"
  by (simp add: sample_opened_def sample_simps begin_restore_precheck_def cutover_restore_def require_restore_state_def set_restore_state_def
      invalidate_ceremonies_def checked_add_def)

theorem cutover_ends_authorizations_witness:
  "\<exists>db db'. cutover_restore sample_store 6 db = Inr (2, db') \<and> db_authorizations db \<noteq> []
    \<and> \<not> is_ok (consume_authorization sample_store (uuid 10) 1 7 db')"
proof -
  obtain db0 db db' a where s: "sample_opened = Inr db0" "begin_restore_precheck sample_store 5 db0 = Inr ((), db)"
      "cutover_restore sample_store 6 db = Inr (2, db')" and a: "a \<in> set (db_authorizations db)" "az_id a = uuid 10"
    using sample_cutover by blast
  have "storage_reachable sample_env sample_store db" using reachable_step [OF sample_opened_reachable [OF s(1)] st_precheck [OF s(2)]] .
  from cutover_ends_authorizations [OF this s(3) rtranclp.rtrancl_refl a(1), of 1 7]
  have "\<not> is_ok (consume_authorization sample_store (uuid 10) 1 7 db')" unfolding a(2) by blast
  moreover have "db_authorizations db \<noteq> []" using a(1) by auto
  ultimately show ?thesis using s(3) by blast
qed

end
