(* ===== verification/Storage_Lifecycle.thy ===== *)
theory Storage_Lifecycle
  imports Storage_Properties
begin

text \<open>
  The life of personal signing operations with their receipts, and of the signer devices in the device log, in
  every reachable database.
\<close>

section \<open>Operations and receipts\<close>

definition receipts_for :: "personal_receipt list \<Rightarrow> bytes \<Rightarrow> personal_round \<Rightarrow> personal_receipt list" where
  "receipts_for rs operation_id rnd = filter (\<lambda>r. pr_operation_id r = operation_id \<and> pr_round r = rnd) rs"

definition receipt_key :: "personal_receipt \<Rightarrow> bytes \<times> u16 \<times> personal_round" where
  "receipt_key r = (pr_operation_id r, pr_signer_id r, pr_round r)"

definition receipt_backed :: "operation_row list \<Rightarrow> personal_receipt \<Rightarrow> bool" where
  "receipt_backed os r \<longleftrightarrow> (\<exists>opr \<in> set os. op_id opr = pr_operation_id r
     \<and> pr_signer_id r \<in> set (no_selected_participants (op_new opr)) \<and> pr_received_at r \<le> no_expires_at (op_new opr))"

definition operation_ok :: "personal_receipt list \<Rightarrow> operation_row \<Rightarrow> bool" where
  "operation_ok rs opr \<longleftrightarrow> operation_check opr \<and> distinct (no_selected_participants (op_new opr))
     \<and> set (no_selected_participants (op_new opr)) \<subseteq> {1, 2, 3}
     \<and> (op_status opr \<in> {CollectingShares, PersonalFinalized} \<longrightarrow> 2 \<le> length (receipts_for rs (op_id opr) RoundCommitment))
     \<and> (op_status opr = PersonalFinalized \<longrightarrow> 2 \<le> length (receipts_for rs (op_id opr) RoundSignatureShare))"

definition operations_ok :: "operation_row list \<Rightarrow> personal_receipt list \<Rightarrow> bool" where
  "operations_ok os rs \<longleftrightarrow> distinct (map op_id os) \<and> distinct (map receipt_key rs)
     \<and> (\<forall>opr \<in> set os. operation_ok rs opr) \<and> (\<forall>r \<in> set rs. receipt_backed os r)"

lemma receipt_count_eq: "receipt_count db i rnd = length (receipts_for (db_receipts db) i rnd)"
  by (simp add: receipt_count_def receipts_for_def sql_count_def)

lemma receipts_for_append: "receipts_for (rs @ [r]) i rnd = receipts_for rs i rnd @ receipts_for [r] i rnd"
  by (simp add: receipts_for_def)

lemma operations_new:
  assumes "operations_ok os rs" and "operation_check opr" and "op_status opr = CollectingCommitments"
    and "distinct (no_selected_participants (op_new opr))" and "set (no_selected_participants (op_new opr)) \<subseteq> {1, 2, 3}" and "\<forall>q \<in> set os. op_id q \<noteq> op_id opr"
  shows "operations_ok (os @ [opr]) rs"
  using assms by (auto simp: operations_ok_def operation_ok_def receipt_backed_def)

lemma receipts_new:
  assumes "operations_ok os rs" and "receipt_backed os r" and "\<forall>q \<in> set rs. \<not> receipt_clash q r"
  shows "operations_ok os (rs @ [r])"
proof -
  have "distinct (map receipt_key (rs @ [r]))" using assms by (auto simp: operations_ok_def receipt_clash_def receipt_key_def)
  moreover have "\<forall>opr \<in> set os. operation_ok (rs @ [r]) opr"
    using assms(1) by (auto simp: operations_ok_def operation_ok_def receipts_for_append)
  ultimately show ?thesis using assms(1,2) by (simp add: operations_ok_def)
qed

lemma operations_update:
  assumes ok: "operations_ok os rs" and "\<And>opr. opr \<in> set os \<Longrightarrow> p opr \<Longrightarrow> op_new (f opr) = op_new opr \<and> operation_ok rs (f opr)"
  shows "operations_ok (sql_update p f os) rs"
proof -
  have ids: "map op_id (sql_update p f os) = map op_id os" using assms(2) by (simp add: sql_update_def)
  have "receipt_backed (sql_update p f os) r" if "receipt_backed os r" for r
    using that unfolding receipt_backed_def by (rule bex_sql_update) (simp add: assms(2))
  moreover have "\<forall>opr \<in> set (sql_update p f os). operation_ok rs opr"
    using ok assms(2) by (intro ball_sql_update) (simp_all add: operations_ok_def)
  ultimately show ?thesis using ok ids by (simp add: operations_ok_def)
qed

section \<open>Device events\<close>

definition lifecycle :: "device_event list \<Rightarrow> bool" where
  "lifecycle es \<longleftrightarrow> (\<forall>k < length es.
     (k = 0 \<longleftrightarrow> de_event_type (es ! k) = DeviceRegistered)
     \<and> (de_event_type (es ! k) = DeviceRevoked \<longrightarrow> Suc k = length es \<and> de_device_id (es ! k) = de_device_id (es ! (k - 1)))
     \<and> unat (de_device_generation (es ! k)) = (if de_event_type (es ! k) = DeviceRevoked then k else Suc k)
     \<and> unat (de_device_generation (es ! k)) < 2 ^ 63)"

lemma lifecycle_next:
  assumes ok: "lifecycle es" and next_event: "next_device_event es g device_id rec = Inr t" and bound: "unat (dr_generation rec) < 2 ^ 63"
    and e: "de_device_id e = device_id" "de_device_generation e = dr_generation rec" "de_event_type e = t"
  shows "lifecycle (es @ [e])"
proof (cases "es = []")
  case True
  then show ?thesis using next_event e by (auto simp: lifecycle_def next_device_event_def Let_def split: if_splits)
next
  case False
  define n where "n = length es - 1"
  have n: "n < length es" "last es = es ! n" "length es = Suc n" using False by (auto simp: n_def last_conv_nth)
  have prior: "de_event_type (es ! n) \<noteq> DeviceRevoked" and t: "t = DeviceRotated \<and> dr_generation rec = de_device_generation (es ! n) + 1
      \<or> t = DeviceRevoked \<and> dr_generation rec = de_device_generation (es ! n) \<and> de_device_id (es ! n) = device_id"
    using next_event False n(2) by (auto simp: next_device_event_def Let_def split: if_splits)
  have at: "unat (de_device_generation (es ! k)) = (if de_event_type (es ! k) = DeviceRevoked then k else Suc k)"
      "unat (de_device_generation (es ! k)) < 2 ^ 63" if "k < length es" for k
    using ok that unfolding lifecycle_def by blast+
  have g: "unat (de_device_generation (es ! n)) = Suc n" "Suc n < 2 ^ 63" using at [OF n(1)] prior by simp_all
  have gen: "unat (dr_generation rec) = (if t = DeviceRevoked then Suc n else Suc (Suc n))"
    using t g by (auto simp: unat_word_ariths)
  have old: "(k = 0 \<longleftrightarrow> de_event_type (es ! k) = DeviceRegistered) \<and> de_event_type (es ! k) \<noteq> DeviceRevoked
      \<and> unat (de_device_generation (es ! k)) = Suc k \<and> Suc k < 2 ^ 63" if "k < length es" for k
  proof (cases "k = n")
    case True
    then show ?thesis using ok that prior g unfolding lifecycle_def by blast
  next
    case False
    then have "Suc k \<noteq> length es" using that n(3) by simp
    with ok that have "de_event_type (es ! k) \<noteq> DeviceRevoked" "(k = 0) = (de_event_type (es ! k) = DeviceRegistered)"
      unfolding lifecycle_def by blast+
    with at [OF that] show ?thesis by simp
  qed
  show ?thesis
    unfolding lifecycle_def
  proof (intro allI impI)
    fix k assume "k < length (es @ [e])"
    then consider "k < length es" | "k = length es" by force
    then show "(k = 0 \<longleftrightarrow> de_event_type ((es @ [e]) ! k) = DeviceRegistered)
      \<and> (de_event_type ((es @ [e]) ! k) = DeviceRevoked \<longrightarrow> Suc k = length (es @ [e]) \<and> de_device_id ((es @ [e]) ! k) = de_device_id ((es @ [e]) ! (k - 1)))
      \<and> unat (de_device_generation ((es @ [e]) ! k)) = (if de_event_type ((es @ [e]) ! k) = DeviceRevoked then k else Suc k)
      \<and> unat (de_device_generation ((es @ [e]) ! k)) < 2 ^ 63"
      using old t gen e n bound by cases (auto simp: nth_append)
  qed
qed

definition devices_ok_log :: "device_event list \<Rightarrow> bool" where
  "devices_ok_log es \<longleftrightarrow> (\<forall>w s e i. lifecycle (filter (of_signer w s e i) es))"

lemma devices_log_next:
  assumes "devices_ok_log es" and "next_device_event (filter (of_signer w s ep i) es) g d rec = Inr t" and "unat (dr_generation rec) < 2 ^ 63"
    and "of_signer w s ep i e" and "de_device_id e = d" "de_device_generation e = dr_generation rec" "de_event_type e = t"
  shows "devices_ok_log (es @ [e])"
  unfolding devices_ok_log_def
proof (intro allI)
  fix w' s' ep' i'
  have "of_signer w' s' ep' i' e \<Longrightarrow> w' = w \<and> s' = s \<and> ep' = ep \<and> i' = i" using assms(4) by (auto simp: of_signer_def)
  then show "lifecycle (filter (of_signer w' s' ep' i') (es @ [e]))"
    using assms(1) lifecycle_next [OF _ assms(2,3,5,6,7)] by (auto simp: devices_ok_log_def)
qed

section \<open>Every operation keeps both\<close>

definition lifecycles_ok :: "storage \<Rightarrow> bool" where
  "lifecycles_ok db \<longleftrightarrow> operations_ok (db_operations db) (db_receipts db) \<and> devices_ok_log (db_device_events db)"

lemma lifecycles_frame [simp]:
  "lifecycles_ok (db\<lparr>db_metadata := t0\<rparr>) = lifecycles_ok db" "lifecycles_ok (db\<lparr>db_intents := t1\<rparr>) = lifecycles_ok db"
  "lifecycles_ok (db\<lparr>db_materials := t2\<rparr>) = lifecycles_ok db" "lifecycles_ok (db\<lparr>db_credentials := t3\<rparr>) = lifecycles_ok db"
  "lifecycles_ok (db\<lparr>db_webauthn := t4\<rparr>) = lifecycles_ok db" "lifecycles_ok (db\<lparr>db_ceremonies := t5\<rparr>) = lifecycles_ok db"
  "lifecycles_ok (db\<lparr>db_authorizations := t6\<rparr>) = lifecycles_ok db" "lifecycles_ok (db\<lparr>db_nonces := t7\<rparr>) = lifecycles_ok db"
  "lifecycles_ok (db\<lparr>db_secrets := t8\<rparr>) = lifecycles_ok db" "lifecycles_ok (db\<lparr>db_profiles := t9\<rparr>) = lifecycles_ok db"
  "lifecycles_ok (db\<lparr>db_bindings := t10\<rparr>) = lifecycles_ok db" "lifecycles_ok (db\<lparr>db_jobs := t11\<rparr>) = lifecycles_ok db"
  "lifecycles_ok (db\<lparr>db_claims := t12\<rparr>) = lifecycles_ok db" "lifecycles_ok (db\<lparr>db_request_nonces := t13\<rparr>) = lifecycles_ok db"
  "lifecycles_ok (append_audit_with_context md e sb n i p c db) = lifecycles_ok db"
  "lifecycles_ok (append_audit J md e sb n db) = lifecycles_ok db" "lifecycles_ok (set_intent_status q st n db) = lifecycles_ok db"
  "lifecycles_ok (set_completed cp n db) = lifecycles_ok db" "lifecycles_ok (invalidate_ceremonies cp n db) = lifecycles_ok db"
  by (simp_all add: lifecycles_ok_def append_audit_def set_intent_status_def set_completed_def invalidate_ceremonies_def)

lemma statements_lifecycles:
  "insert_intent r1 db = Inr db' \<Longrightarrow> lifecycles_ok db' = lifecycles_ok db" "insert_material J m db = Inr db' \<Longrightarrow> lifecycles_ok db' = lifecycles_ok db"
  "insert_ceremony c db = Inr db' \<Longrightarrow> lifecycles_ok db' = lifecycles_ok db" "insert_authorization a db = Inr db' \<Longrightarrow> lifecycles_ok db' = lifecycles_ok db"
  "insert_nonce n db = Inr db' \<Longrightarrow> lifecycles_ok db' = lifecycles_ok db" "consume_where ap t db = Inr db' \<Longrightarrow> lifecycles_ok db' = lifecycles_ok db"
  "insert_job jr db = Inr db' \<Longrightarrow> lifecycles_ok db' = lifecycles_ok db" "insert_secret md sr db = Inr db' \<Longrightarrow> lifecycles_ok db' = lifecycles_ok db"
  "insert_profile sp db = Inr db' \<Longrightarrow> lifecycles_ok db' = lifecycles_ok db" "insert_binding ab db = Inr db' \<Longrightarrow> lifecycles_ok db' = lifecycles_ok db"
  by (auto simp: insert_intent_def insert_material_def insert_ceremony_def insert_authorization_def insert_nonce_def consume_where_def
      insert_job_def insert_secret_def insert_profile_def insert_binding_def rbind_Inr Let_def split: if_splits)

lemma close_job_lifecycles: "close_job md jid f i s t db = Inr db' \<Longrightarrow> lifecycles_ok db' = lifecycles_ok db"
  by (auto simp: close_job_def Let_def split: if_splits)

lemma update_passkey_lifecycles: "update_passkey_record_in J cid v j t db = Inr (n, db') \<Longrightarrow> lifecycles_ok db' = lifecycles_ok db"
  by (auto simp: update_passkey_record_in_def Let_def rbind_Inr split: if_splits)

lemma start_signing_lifecycles: "start_signing md p oc fp s aid iid sg q t db = Inr db' \<Longrightarrow> lifecycles_ok db' = lifecycles_ok db"
  by (erule start_signing_Inr) simp

lemma insert_bindings_lifecycles: "insert_bindings bs db = Inr db' \<Longrightarrow> lifecycles_ok db' = lifecycles_ok db"
  by (induction bs arbitrary: db) (fastforce simp: rbind_Inr on_constraint_Inr dest: statements_lifecycles)+

lemma insert_catalog_lifecycles: "insert_catalog md es db = Inr db' \<Longrightarrow> lifecycles_ok db' = lifecycles_ok db"
  by (induction es arbitrary: db)
    (fastforce simp: rbind_Inr on_constraint_Inr dest: statements_lifecycles insert_bindings_lifecycles)+

lemmas statement_frames = statements_lifecycles close_job_lifecycles update_passkey_lifecycles start_signing_lifecycles
  insert_catalog_lifecycles

lemma intents_lifecycles:
  "create_transaction_intent_with_audit i x db = Inr (u, db') \<Longrightarrow> lifecycles_ok db' = lifecycles_ok db"
  "create_transaction_intent_v2 J i2 m db = Inr (u, db') \<Longrightarrow> lifecycles_ok db' = lifecycles_ok db"
  "transition_transaction_intent J k e n t db = Inr (u, db') \<Longrightarrow> lifecycles_ok db' = lifecycles_ok db"
  "begin_approval_ceremony_atomic J c db = Inr (u, db') \<Longrightarrow> lifecycles_ok db' = lifecycles_ok db"
  "begin_passkey_approval J pc db = Inr (u, db') \<Longrightarrow> lifecycles_ok db' = lifecycles_ok db"
  "consume_authorization J k ep t db = Inr (u, db') \<Longrightarrow> lifecycles_ok db' = lifecycles_ok db"
  "claim_nonce J nn db = Inr (u, db') \<Longrightarrow> lifecycles_ok db' = lifecycles_ok db"
  "consume_authorization_and_claim_frost_nonce J fc db = Inr (u, db') \<Longrightarrow> lifecycles_ok db' = lifecycles_ok db"
  by (auto simp: create_transaction_intent_with_audit_def create_transaction_intent_v2_def transition_transaction_intent_def
      begin_approval_ceremony_atomic_def begin_passkey_approval_def consume_authorization_def claim_nonce_def
      consume_authorization_and_claim_frost_nonce_def rbind_Inr on_constraint_Inr Let_def split: if_splits dest: statement_frames)

lemma approvals_lifecycles:
  "approve_and_issue_authorization d x db = Inr (u, db') \<Longrightarrow> lifecycles_ok db' = lifecycles_ok db"
  "complete_passkey_approval_atomic J pd db = Inr (a, db') \<Longrightarrow> lifecycles_ok db' = lifecycles_ok db"
  by (erule approve_and_issue_authorization_Inr complete_passkey_approval_atomic_Inr; auto dest!: statement_frames)+

lemma credentials_lifecycles:
  "upsert_credential J cm db = Inr (u, db') \<Longrightarrow> lifecycles_ok db' = lifecycles_ok db"
  "set_webauthn_profile J wp db = Inr (u, db') \<Longrightarrow> lifecycles_ok db' = lifecycles_ok db"
  "insert_passkey_record J np db = Inr (u, db') \<Longrightarrow> lifecycles_ok db' = lifecycles_ok db"
  "update_passkey_record_cas J s v j t db = Inr (u, db') \<Longrightarrow> lifecycles_ok db' = lifecycles_ok db"
  "put_secret_ref J sr db = Inr (u, db') \<Longrightarrow> lifecycles_ok db' = lifecycles_ok db"
  by (auto simp: upsert_credential_def insert_passkey_record_def update_passkey_record_cas_def set_webauthn_profile_def put_secret_ref_def
      rbind_Inr Let_def split: if_splits dest: statement_frames)

lemma signers_lifecycles:
  "register_signer_profile J sp db = Inr (u, db') \<Longrightarrow> lifecycles_ok db' = lifecycles_ok db"
  "bind_signer_address E J ab db = Inr (u, db') \<Longrightarrow> lifecycles_ok db' = lifecycles_ok db"
  "install_signer_catalog E J cs db = Inr (oc, db') \<Longrightarrow> lifecycles_ok db' = lifecycles_ok db"
  "claim_chain_executor J cl db = Inr (u, db') \<Longrightarrow> lifecycles_ok db' = lifecycles_ok db"
  "complete_signing_job J k dg sg t db = Inr (u, db') \<Longrightarrow> lifecycles_ok db' = lifecycles_ok db"
  "terminate_signing_job J k dg js rs t db = Inr (u, db') \<Longrightarrow> lifecycles_ok db' = lifecycles_ok db"
  "claim_signer_request_nonce E J pid rq t db = Inr (u, db') \<Longrightarrow> lifecycles_ok db' = lifecycles_ok db"
  by (auto simp: register_signer_profile_def bind_signer_address_def install_signer_catalog_def claim_chain_executor_def
      complete_signing_job_def terminate_signing_job_def claim_signer_request_nonce_def rbind_Inr on_constraint_Inr Let_def
      split: if_splits option.splits dest: statement_frames)

lemma create_job_lifecycles: "create_signing_job J k sj dg t db = Inr (jr, db') \<Longrightarrow> lifecycles_ok db' = lifecycles_ok db"
  by (erule create_signing_job_Inr) (auto dest!: statement_frames)

lemma restore_lifecycles:
  "invalidate_unfinished_ceremonies_on_startup J t db = Inr (cnt, db') \<Longrightarrow> lifecycles_ok db' = lifecycles_ok db"
  "record_cutover_recovery J oc db = Inr (u, db') \<Longrightarrow> lifecycles_ok db' = lifecycles_ok db"
  "transition_restore J x y t db = Inr (u, db') \<Longrightarrow> lifecycles_ok db' = lifecycles_ok db"
  "begin_restore_precheck J t db = Inr (u, db') \<Longrightarrow> lifecycles_ok db' = lifecycles_ok db"
  "cutover_restore J t db = Inr (ep, db') \<Longrightarrow> lifecycles_ok db' = lifecycles_ok db"
  by (auto simp: invalidate_unfinished_ceremonies_on_startup_def record_cutover_recovery_def transition_restore_def
      begin_restore_precheck_def cutover_restore_def rbind_Inr Let_def split: if_splits)

lemma selected_pair:
  assumes "validate_new_personal_operation n = Inr u" and "length (no_selected_participants n) = 2"
  shows "distinct (no_selected_participants n) \<and> set (no_selected_participants n) \<subseteq> {1, 2, 3}"
proof -
  obtain a b where ab: "no_selected_participants n = [a, b]" using assms(2) by (auto simp: length_Suc_conv numeral_2_eq_2)
  have "a < b" "a \<noteq> 0" "\<not> 3 < a" "b \<noteq> 0" "\<not> 3 < b"
    using assms(1) ab by (auto simp: validate_new_personal_operation_def not_le split: if_splits)
  moreover have "x \<in> {1, 2, 3}" if "x \<noteq> 0" "\<not> 3 < x" for x :: u16
  proof -
    have "unat x = 1 \<or> unat x = 2 \<or> unat x = 3" using that by (auto simp: word_less_nat_alt unat_eq_0 [symmetric])
    then have "x = of_nat 1 \<or> x = of_nat 2 \<or> x = of_nat 3" by (metis of_nat_unat ucast_id)
    then show ?thesis by simp
  qed
  ultimately show ?thesis using ab by auto
qed

lemma create_personal_lifecycles:
  assumes "create_personal_signing_operation E J aid n t db = Inr (r, db')" and ok: "lifecycles_ok db"
  shows "lifecycles_ok db'"
proof -
  obtain md db1 db2 where v: "validate_new_personal_operation n = Inr ()" and ins: "insert_operation (new_operation_row n) db = Inr db1"
    and start: "start_signing md (\<lambda>a. az_id a = aid) (\<lambda>e. e) (no_operation_binding_digest n) (no_session_id n) aid (no_intent_id n)
       ''frost:participant-0'' (\<lambda>r. it_wallet_id r = wm_wallet_id md) t db1 = Inr db2"
    and db': "db' = append_audit J md ''personal_signing.authorized_started'' (Some (SubjectId (no_operation_id n))) t db2"
    by (rule create_personal_signing_operation_Inr [OF assms(1)])
  have check: "operation_check (new_operation_row n)" and fresh: "\<forall>q \<in> set (db_operations db). op_id q \<noteq> op_id (new_operation_row n)"
    and db1: "db1 = db\<lparr>db_operations := db_operations db @ [new_operation_row n]\<rparr>"
    using ins by (auto simp: insert_operation_def rbind_Inr sql_insert_Inr)
  have "distinct (no_selected_participants n) \<and> set (no_selected_participants n) \<subseteq> {1, 2, 3}"
    using check by (intro selected_pair [OF v]) (simp add: operation_check_def new_operation_row_def Let_def)
  then have "operations_ok (db_operations db @ [new_operation_row n]) (db_receipts db)"
    using ok check fresh by (intro operations_new) (simp_all add: lifecycles_ok_def new_operation_row_def)
  then have "lifecycles_ok db1" using ok by (simp add: db1 lifecycles_ok_def)
  then show ?thesis using start_signing_lifecycles [OF start] by (simp add: db')
qed

lemma record_receipt_lifecycles:
  assumes "record_personal_signing_receipt J r db = Inr (u, db')" and ok: "lifecycles_ok db"
  shows "lifecycles_ok db'"
proof (cases "db' = db")
  case False
  then obtain md opr t where opr: "opr \<in> set (db_operations db)" "op_id opr = pr_operation_id r"
      "pr_signer_id r \<in> set (no_selected_participants (op_new opr))" "pr_received_at r \<le> no_expires_at (op_new opr)"
    and ins: "sql_insert (receipt_check db) receipt_clash r (db_receipts db) = Inr t"
    and db': "db' = append_audit J md (receipt_event (pr_round r)) (Some (SubjectId (pr_operation_id r))) (pr_received_at r) (db\<lparr>db_receipts := t\<rparr>)"
    using assms(1) by (auto simp: record_personal_signing_receipt_def rbind_Inr ok_or_Inr split: if_splits option.splits dest!: find_SomeD)
  have "operations_ok (db_operations db) (db_receipts db @ [r])"
    using ok ins opr by (intro receipts_new) (auto simp: lifecycles_ok_def receipt_backed_def sql_insert_Inr)
  then show ?thesis using ok ins by (simp add: db' lifecycles_ok_def sql_insert_Inr append_audit_def)
qed (use ok in simp)

lemma update_operations_lifecycles:
  assumes "update_operations p f db = Inr db'" and ok: "lifecycles_ok db"
    and keep: "\<And>opr. p opr \<Longrightarrow> op_new (f opr) = op_new opr"
    and c: "\<And>opr. p opr \<Longrightarrow> operation_ok (db_receipts db) opr \<Longrightarrow> op_status (f opr) \<in> {CollectingShares, PersonalFinalized} \<Longrightarrow>
      2 \<le> length (receipts_for (db_receipts db) (op_id opr) RoundCommitment)"
    and s: "\<And>opr. p opr \<Longrightarrow> op_status (f opr) = PersonalFinalized \<Longrightarrow> 2 \<le> length (receipts_for (db_receipts db) (op_id opr) RoundSignatureShare)"
  shows "lifecycles_ok db'"
proof -
  have check: "\<And>opr. opr \<in> set (db_operations db) \<Longrightarrow> p opr \<Longrightarrow> operation_check (f opr)"
    and db': "db' = db\<lparr>db_operations := sql_update p f (db_operations db)\<rparr>"
    using assms(1) by (auto simp: update_operations_def list_ex_iff split: if_splits)
  have "operations_ok (sql_update p f (db_operations db)) (db_receipts db)"
  proof (rule operations_update)
    show "operations_ok (db_operations db) (db_receipts db)" using ok by (simp add: lifecycles_ok_def)
    fix opr assume o: "opr \<in> set (db_operations db)" "p opr"
    then have old: "operation_ok (db_receipts db) opr" using ok by (simp add: lifecycles_ok_def operations_ok_def)
    then show "op_new (f opr) = op_new opr \<and> operation_ok (db_receipts db) (f opr)"
      using keep [OF o(2)] check [OF o] c [OF o(2) old] s [OF o(2)] unfolding operation_ok_def by simp
  qed
  then show ?thesis using ok by (simp add: db' lifecycles_ok_def)
qed

lemma personal_lifecycles:
  "freeze_personal_signing_operation J i d p t db = Inr (u, db') \<Longrightarrow> lifecycles_ok db \<Longrightarrow> lifecycles_ok db'"
  "complete_personal_signing_operation J i d p t db = Inr (u, db') \<Longrightarrow> lifecycles_ok db \<Longrightarrow> lifecycles_ok db'"
  "terminate_personal_signing_operation J i d st rs t db = Inr (u, db') \<Longrightarrow> lifecycles_ok db \<Longrightarrow> lifecycles_ok db'"
  by (auto simp: freeze_personal_signing_operation_def complete_personal_signing_operation_def terminate_personal_signing_operation_def
      rbind_Inr receipt_count_eq open_operation_def not_less operation_ok_def split: if_splits elim!: update_operations_lifecycles)

lemma device_lifecycles:
  assumes "persist_signer_device_transition E J w s e g r t db = Inr (u, db')" and ok: "lifecycles_ok db"
  shows "lifecycles_ok db'"
proof -
  obtain d ty pv ik ct where n: "next_device_event (signer_events db w s e (dr_signer_id r)) g d r = Inr ty" "unat (dr_generation r) < 2 ^ 63"
    and db': "db_operations db' = db_operations db" "db_receipts db' = db_receipts db" "db_device_events db' = db_device_events db @
      [\<lparr>de_wallet_id = w, de_signer_set_id = s, de_signer_epoch = e, de_signer_id = dr_signer_id r, de_device_id = d, de_device_generation = dr_generation r,
        de_provider = pv, de_identity_public_key = ik, de_mtls_spki_sha256 = ct, de_event_type = ty, de_occurred_at = t\<rparr>]" (is "_ = _ @ [?ev]")
    using assms(1)
    by (auto simp: persist_signer_device_transition_def rbind_Inr sql_insert_Inr sql_u64_Inr append_audit_def split: if_splits)
  have ev: "of_signer w s e (dr_signer_id r) ?ev" "de_device_id ?ev = d" "de_device_generation ?ev = dr_generation r" "de_event_type ?ev = ty"
    by (simp_all add: of_signer_def)
  have "devices_ok_log (db_device_events db @ [?ev])"
    using ok by (intro devices_log_next [OF _ n(1) [unfolded signer_events_def] n(2) ev]) (simp add: lifecycles_ok_def)
  then show ?thesis using ok by (simp add: lifecycles_ok_def db')
qed

lemma storage_step_lifecycles: "storage_step E J db db' \<Longrightarrow> lifecycles_ok db \<Longrightarrow> lifecycles_ok db'"
  by (induction rule: storage_step.induct)
    (auto simp: begin_snapshot_def finish_snapshot_def begin_recovering_def finish_recovery_def
      dest: intents_lifecycles approvals_lifecycles credentials_lifecycles signers_lifecycles create_job_lifecycles restore_lifecycles
      intro: create_personal_lifecycles record_receipt_lifecycles personal_lifecycles device_lifecycles)

lemma reachable_lifecycles: "storage_reachable E J db \<Longrightarrow> lifecycles_ok db"
proof -
  have run: "(storage_step E J)\<^sup>*\<^sup>* db0 db \<Longrightarrow> lifecycles_ok db0 \<Longrightarrow> lifecycles_ok db" for db0 db
    by (induction rule: rtranclp_induct) (auto intro: storage_step_lifecycles)
  have "lifecycles_ok db0" if "initialize J w t empty_storage = Inr (u, db0)" for w t u db0
    using that unfolding initialize_Inr
    by (auto simp: lifecycles_ok_def empty_storage_def operations_ok_def devices_ok_log_def lifecycle_def append_audit_def)
  with run show "storage_reachable E J db \<Longrightarrow> lifecycles_ok db" by (auto simp: storage_reachable_def)
qed

section \<open>Properties\<close>

lemma both_signers:
  assumes ok: "operations_ok os rs" and o: "opr \<in> set os" and two: "2 \<le> length (receipts_for rs (op_id opr) rnd)"
  shows "set (map pr_signer_id (receipts_for rs (op_id opr) rnd)) = set (no_selected_participants (op_new opr))
    \<and> length (receipts_for rs (op_id opr) rnd) = 2"
proof -
  let ?rs = "receipts_for rs (op_id opr) rnd" and ?sel = "no_selected_participants (op_new opr)"
  have "distinct (map receipt_key ?rs)" using ok by (simp add: operations_ok_def receipts_for_def distinct_map_filter)
  moreover have "inj_on receipt_key (set ?rs) \<longleftrightarrow> inj_on pr_signer_id (set ?rs)"
    by (auto simp: inj_on_def receipts_for_def receipt_key_def)
  ultimately have d: "distinct (map pr_signer_id ?rs)" by (auto simp: distinct_map)
  have sub: "set (map pr_signer_id ?rs) \<subseteq> set ?sel"
  proof
    fix x assume "x \<in> set (map pr_signer_id ?rs)"
    then obtain r where r: "r \<in> set rs" "pr_operation_id r = op_id opr" "x = pr_signer_id r" by (auto simp: receipts_for_def)
    then obtain q where q: "q \<in> set os" "op_id q = op_id opr" "x \<in> set (no_selected_participants (op_new q))"
      using ok by (auto simp: operations_ok_def receipt_backed_def)
    then have "q = opr" using ok o by (auto simp: operations_ok_def intro: distinct_key)
    with q(3) show "x \<in> set ?sel" by simp
  qed
  have "operation_ok rs opr" using ok o by (simp add: operations_ok_def)
  then have "card (set ?sel) = 2" by (simp add: operation_ok_def operation_check_def Let_def distinct_card)
  moreover have "card (set (map pr_signer_id ?rs)) = length ?rs" using distinct_card [OF d] by simp
  ultimately show ?thesis using sub two card_mono [OF _ sub] card_seteq [OF _ sub] by simp
qed

text \<open>
  C36: in every reachable wallet database, a finalized personal signing operation has a 64 byte signature and a frozen signing
  package, and in each of the two rounds exactly two receipts: one of each of the two signers that were selected among the three
  allowed ones, all received before the operation expired.
\<close>

theorem finalized_operations_have_both_signers:
  assumes "storage_reachable E J db" and opr: "opr \<in> set (db_operations db)" "op_status opr = PersonalFinalized"
  shows "(\<exists>package signature. op_signing_package opr = Some package \<and> op_final_signature opr = Some signature \<and> length signature = 64)
    \<and> card (set (no_selected_participants (op_new opr))) = 2 \<and> set (no_selected_participants (op_new opr)) \<subseteq> {1, 2, 3}
    \<and> (\<forall>rnd. length (receipts_for (db_receipts db) (op_id opr) rnd) = 2
         \<and> set (map pr_signer_id (receipts_for (db_receipts db) (op_id opr) rnd)) = set (no_selected_participants (op_new opr)))
    \<and> (\<forall>r \<in> set (db_receipts db). pr_operation_id r = op_id opr \<longrightarrow> pr_received_at r \<le> no_expires_at (op_new opr))"
proof -
  have ok: "operations_ok (db_operations db) (db_receipts db)" using reachable_lifecycles [OF assms(1)] by (simp add: lifecycles_ok_def)
  then have o: "operation_ok (db_receipts db) opr" using opr(1) by (simp add: operations_ok_def)
  have "2 \<le> length (receipts_for (db_receipts db) (op_id opr) rnd)" for rnd
    using o opr(2) by (cases rnd) (simp_all add: operation_ok_def)
  note both = both_signers [OF ok opr(1) this]
  have "pr_received_at r \<le> no_expires_at (op_new opr)" if r: "r \<in> set (db_receipts db)" "pr_operation_id r = op_id opr" for r
  proof -
    obtain q where "q \<in> set (db_operations db)" "op_id q = op_id opr" "pr_received_at r \<le> no_expires_at (op_new q)"
      using ok r by (auto simp: operations_ok_def receipt_backed_def)
    moreover then have "q = opr" using ok opr(1) by (auto simp: operations_ok_def intro: distinct_key)
    ultimately show ?thesis by simp
  qed
  moreover have "card (set (no_selected_participants (op_new opr))) = 2"
    using o by (simp add: operation_ok_def operation_check_def Let_def distinct_card)
  ultimately show ?thesis
    using o opr(2) both by (auto simp: operation_ok_def operation_check_def operation_state_check_def Let_def split: option.splits)
qed

text \<open>
  C37: the device log of a signer is a life: in every reachable wallet database the first event of a signer is its registration
  with generation one, every later event is a rotation whose generation is its position in the log, or the revocation of the
  last device at its own generation, after which nothing follows.  Generations stay below the largest SQLite integer, so they
  never wrap around.
\<close>

theorem device_log_is_a_life:
  assumes "storage_reachable E J db" and "es = signer_events db w s e i" and "k < length es"
  shows "(k = 0 \<longleftrightarrow> de_event_type (es ! k) = DeviceRegistered)
    \<and> (de_event_type (es ! k) = DeviceRevoked \<longrightarrow> Suc k = length es \<and> de_device_id (es ! k) = de_device_id (es ! (k - 1)))
    \<and> unat (de_device_generation (es ! k)) = (if de_event_type (es ! k) = DeviceRevoked then k else Suc k)
    \<and> unat (de_device_generation (es ! k)) < 2 ^ 63"
proof -
  have "lifecycle es" using reachable_lifecycles [OF assms(1)] by (simp add: assms(2) lifecycles_ok_def devices_ok_log_def signer_events_def)
  with assms(3) show ?thesis unfolding lifecycle_def by blast
qed

section \<open>Sample runs\<close>

definition sample_signature_env :: bitcoin_env where
  "sample_signature_env = sample_env\<lparr>hex_decode := (\<lambda>s. Some (replicate 32 (word_of_nat (length s))))\<rparr>"

definition sample_operation :: new_personal_operation where
  "sample_operation = \<lparr>no_operation_id = uuid 22, no_wallet_id = uuid 1, no_profile_id = uuid 20, no_signer_set_id = uuid 21, no_signer_epoch = 1,
     no_intent_id = uuid 2, no_session_id = replicate 32 5, no_taproot_sighash = replicate 32 3, no_policy_digest = replicate 32 4,
     no_chain_snapshot_digest = replicate 32 3, no_group_pubkey_xonly = replicate 32 1, no_profile_binding_digest = replicate 32 7,
     no_operation_binding_digest = replicate 32 8, no_allowed_participants = [1, 2, 3], no_selected_participants = [1, 3], no_threshold = 2,
     no_max_signers = 3, no_expires_at = 100, no_created_at = 4\<rparr>"

definition sample_receipt :: "u16 \<Rightarrow> personal_round \<Rightarrow> personal_receipt" where
  "sample_receipt signer rnd = \<lparr>pr_operation_id = uuid 22, pr_signer_id = signer, pr_round = rnd, pr_device_id = uuid 23, pr_device_generation = 1,
     pr_request_binding_digest = replicate 32 9, pr_payload = [1], pr_received_at = 5\<rparr>"

definition sample_started :: "(storage_error, storage) rresult" where
  "sample_started = rbind sample_opened (\<lambda>db.
     rbind (create_personal_signing_operation sample_signature_env sample_store (uuid 10) sample_operation 4 db) (\<lambda>(_, db). Inr db))"

definition sample_finished :: "storage \<Rightarrow> (storage_error, storage) rresult" where
  "sample_finished db =
     rbind (record_personal_signing_receipt sample_store (sample_receipt 1 RoundCommitment) db) (\<lambda>(_, db).
     rbind (record_personal_signing_receipt sample_store (sample_receipt 3 RoundCommitment) db) (\<lambda>(_, db).
     rbind (freeze_personal_signing_operation sample_store (uuid 22) (replicate 32 8) [1] 6 db) (\<lambda>(_, db).
     rbind (record_personal_signing_receipt sample_store (sample_receipt 3 RoundSignatureShare) db) (\<lambda>(_, db).
     rbind (record_personal_signing_receipt sample_store (sample_receipt 1 RoundSignatureShare) db) (\<lambda>(_, db).
     rbind (complete_personal_signing_operation sample_store (uuid 22) (replicate 32 8) (replicate 64 1) 7 db) (\<lambda>(_, db). Inr db))))))"

lemma sample_started_state:
  "\<exists>db md. sample_started = Inr db \<and> db_metadata db = Some md \<and> md = \<lparr>wm_wallet_id = uuid 1, wm_epoch = 1, wm_restore_state = Normal,
     wm_created_at = 0, wm_updated_at = 0\<rparr> \<and> db_operations db = [new_operation_row sample_operation] \<and> db_receipts db = []"
  by (simp add: sample_started_def sample_opened_def sample_simps create_personal_signing_operation_def validate_new_personal_operation_def
      sample_operation_def personal_signing_operation_def bound_authorization_def transaction_intent_v2_def personal_authorized_def
      validate_personal_operation_material_def sample_signature_env_def sample_env_def decode_hex32_def sample_policy_def insert_operation_def
      operation_check_def operation_state_check_def new_operation_row_def map_err_def)
    (simp add: word_le_nat_alt)

lemma sample_finished_state:
  assumes "db_metadata db = Some \<lparr>wm_wallet_id = uuid 1, wm_epoch = 1, wm_restore_state = Normal, wm_created_at = 0, wm_updated_at = 0\<rparr>"
    and "db_operations db = [new_operation_row sample_operation]" and "db_receipts db = []"
  shows "\<exists>db' opr. sample_finished db = Inr db' \<and> db_operations db' = [opr] \<and> op_status opr = PersonalFinalized"
  using assms
  by (simp add: sample_finished_def sample_receipt_def sample_operation_def new_operation_row_def record_personal_signing_receipt_def
      personal_signing_receipts_def mutation_metadata_def metadata_in_def ensure_mutations_allowed_def ok_or_def sql_u64_def require_def
      sql_insert_def receipt_check_def receipt_clash_def freeze_personal_signing_operation_def complete_personal_signing_operation_def
      receipt_count_def sql_count_def update_operations_def open_operation_def operation_check_def operation_state_check_def sql_update_def
      append_audit_def uuid_def Let_def)

lemma sample_started_reachable: "sample_started = Inr db \<Longrightarrow> storage_reachable sample_signature_env sample_store db"
  using sample_opened_reachable [of _ sample_signature_env]
  by (auto simp: sample_started_def rbind_Inr intro: reachable_step [OF _ st_create_personal])

lemma sample_finished_reachable:
  "sample_finished db = Inr db' \<Longrightarrow> storage_reachable E sample_store db \<Longrightarrow> storage_reachable E sample_store db'"
  unfolding sample_finished_def
  by (clarsimp simp only: rbind_Inr split_paired_Ex prod.case sum.inject)
    (drule (1) reachable_step [OF _ st_record_receipt], drule (1) reachable_step [OF _ st_record_receipt], drule (1) reachable_step [OF _ st_freeze],
     drule (1) reachable_step [OF _ st_record_receipt], drule (1) reachable_step [OF _ st_record_receipt], drule (1) reachable_step [OF _ st_complete_personal])

theorem finalized_operations_have_both_signers_witness:
  "\<exists>db opr. storage_reachable sample_signature_env sample_store db \<and> opr \<in> set (db_operations db) \<and> op_status opr = PersonalFinalized
    \<and> (\<forall>rnd. length (receipts_for (db_receipts db) (op_id opr) rnd) = 2)"
proof -
  obtain db0 md where s: "sample_started = Inr db0" "db_metadata db0 = Some md" "md = \<lparr>wm_wallet_id = uuid 1, wm_epoch = 1, wm_restore_state = Normal,
      wm_created_at = 0, wm_updated_at = 0\<rparr>" "db_operations db0 = [new_operation_row sample_operation]" "db_receipts db0 = []"
    using sample_started_state by blast
  obtain db opr where f: "sample_finished db0 = Inr db" "db_operations db = [opr]" "op_status opr = PersonalFinalized"
    using sample_finished_state [of db0] s by blast
  have r: "storage_reachable sample_signature_env sample_store db" using sample_finished_reachable [OF f(1) sample_started_reachable [OF s(1)]] .
  have o: "opr \<in> set (db_operations db)" using f(2) by simp
  from finalized_operations_have_both_signers [OF r o f(3)] r o f(3) show ?thesis by blast
qed

definition sample_device :: "u64 \<Rightarrow> signer_device_record" where
  "sample_device g = \<lparr>dr_signer_id = 1, dr_device_id = Some (uuid 30), dr_generation = g, dr_provider = Some HsmAdapter,
     dr_identity_public_key_hex = Some ''x'', dr_mtls_spki_sha256_hex = None, dr_status = StatusActive, dr_registered_at = None,
     dr_rotated_at = None, dr_revoked_at = None, dr_health = default_health\<rparr>"

lemma sample_device_state:
  "\<exists>db0 db1 db2. initialize sample_store (uuid 1) 0 empty_storage = Inr ((), db0)
    \<and> persist_signer_device_transition sample_signature_env sample_store (uuid 1) (uuid 21) 1 0 (sample_device 1) 1 db0 = Inr ((), db1)
    \<and> persist_signer_device_transition sample_signature_env sample_store (uuid 1) (uuid 21) 1 1 (sample_device 2) 2 db1 = Inr ((), db2)
    \<and> length (signer_events db2 (uuid 1) (uuid 21) 1 1) = 2"
  by (simp add: sample_simps persist_signer_device_transition_def sample_device_def decode_hex32_def sample_signature_env_def signer_events_def
      of_signer_def next_device_event_def device_event_check_def device_event_clash_def)

theorem device_log_is_a_life_witness:
  "\<exists>db. length (signer_events db (uuid 1) (uuid 21) 1 1) = 2 \<and> unat (de_device_generation (signer_events db (uuid 1) (uuid 21) 1 1 ! 1)) < 2 ^ 63"
proof -
  obtain db0 db1 db2 where s: "initialize sample_store (uuid 1) 0 empty_storage = Inr ((), db0)"
      "persist_signer_device_transition sample_signature_env sample_store (uuid 1) (uuid 21) 1 0 (sample_device 1) 1 db0 = Inr ((), db1)"
      "persist_signer_device_transition sample_signature_env sample_store (uuid 1) (uuid 21) 1 1 (sample_device 2) 2 db1 = Inr ((), db2)"
      "length (signer_events db2 (uuid 1) (uuid 21) 1 1) = 2"
    using sample_device_state by blast
  have "storage_reachable sample_signature_env sample_store db2"
    using reachable_step [OF reachable_step [OF reachable_initialize [OF s(1)] st_device [OF s(2)]] st_device [OF s(3)]] .
  from device_log_is_a_life [OF this refl, of 1 "uuid 1" "uuid 21" 1 1] s(4) show ?thesis by auto
qed

end
