(* ===== verification/Replay_Store.thy ===== *)
theory Replay_Store
  imports Storage_Lifecycle
begin

text \<open>
  The interface \<open>ProviderReplayStore\<close> of \<open>crates/threshold-signer/src/provider.rs\<close> as a locale, what a guarded
  provider may rely on, and its two implementations: the in-memory store and the wallet database.
\<close>

section \<open>Interface\<close>

definition device_key :: "provider_identity \<Rightarrow> bytes \<times> bytes \<times> u64 \<times> u16 \<times> bytes \<times> u64" where
  "device_key i = (pi_wallet_id i, pi_signer_set_id i, pi_signer_epoch i, pi_signer_id i, pi_device_id i, pi_device_generation i)"

definition signer_key :: "provider_identity \<Rightarrow> bytes \<times> bytes \<times> u64 \<times> u16" where
  "signer_key i = (pi_wallet_id i, pi_signer_set_id i, pi_signer_epoch i, pi_signer_id i)"

type_synonym 's claim_operation =
  "provider_identity \<Rightarrow> signer_request_context \<Rightarrow> i64 \<Rightarrow> 's \<Rightarrow> (provider_error, unit) rresult \<times> 's"

text \<open>The requests that a sequence of claims lets through.\<close>

fun served :: "'s claim_operation \<Rightarrow> (provider_identity \<times> signer_request_context \<times> i64) list \<Rightarrow> 's \<Rightarrow>
    (provider_identity \<times> signer_request_context) list" where
  "served grant [] s = []"
| "served grant ((i, c, t) # requests) s =
     (case grant i c t s of
        (Inr _, s') \<Rightarrow> (i, c) # served grant requests s'
      | (Inl _, s') \<Rightarrow> served grant requests s')"

definition request_key :: "provider_identity \<times> signer_request_context \<Rightarrow> (bytes \<times> bytes \<times> u64 \<times> u16 \<times> bytes \<times> u64) \<times> bytes" where
  "request_key = (\<lambda>(i, c). (device_key i, rc_request_nonce c))"

locale replay_store =
  fixes grant :: "'s claim_operation"
    and taken :: "'s \<Rightarrow> provider_identity \<Rightarrow> bytes \<Rightarrow> bool"
  assumes claim_fresh: "grant i c t s = (Inr u, s') \<Longrightarrow> \<not> taken s i (rc_request_nonce c)"
    and claim_takes: "grant i c t s = (Inr u, s') \<Longrightarrow> device_key j = device_key i \<Longrightarrow> taken s' j (rc_request_nonce c)"
    and claim_keeps: "grant i c t s = (r, s') \<Longrightarrow> taken s j n \<Longrightarrow> taken s' j n"
begin

lemma served_not_taken: "(i, c) \<in> set (served grant requests s) \<Longrightarrow> \<not> taken s i (rc_request_nonce c)"
proof (induction requests arbitrary: s)
  case (Cons q requests)
  obtain j d t where q: "q = (j, d, t)" by (cases q)
  obtain r s' where step: "grant j d t s = (r, s')" by (cases "grant j d t s")
  have later: "(i, c) \<in> set (served grant requests s') \<Longrightarrow> \<not> taken s i (rc_request_nonce c)"
    using Cons.IH [of s'] claim_keeps [OF step] by blast
  show ?case
  proof (cases r)
    case (Inr u)
    then show ?thesis using Cons.prems q step later claim_fresh [of j d t s u s'] by auto
  qed (use Cons.prems q step later in auto)
qed simp

lemma served_once: "distinct (map request_key (served grant requests s))"
proof (induction requests arbitrary: s)
  case (Cons q requests)
  obtain i c t where q: "q = (i, c, t)" by (cases q)
  obtain r s' where step: "grant i c t s = (r, s')" by (cases "grant i c t s")
  show ?case
  proof (cases r)
    case (Inr u)
    have "request_key (i, c) \<notin> request_key ` set (served grant requests s')"
    proof
      assume "request_key (i, c) \<in> request_key ` set (served grant requests s')"
      then obtain j d where jd: "(j, d) \<in> set (served grant requests s')" "device_key j = device_key i"
          "rc_request_nonce d = rc_request_nonce c"
        by (auto simp: request_key_def)
      with claim_takes [of i c t s u s' j] step Inr served_not_taken [OF jd(1)] show False by simp
    qed
    then show ?thesis using Cons.IH q step Inr by simp
  qed (use Cons.IH q step in simp)
qed simp

end

text \<open>A store that also binds every operation of a signer to one digest.\<close>

locale binding_replay_store = replay_store grant taken for grant :: "'s claim_operation" and taken +
  fixes digest :: "signer_request_context \<Rightarrow> bytes"
    and bound :: "'s \<Rightarrow> provider_identity \<Rightarrow> bytes \<Rightarrow> bytes \<Rightarrow> bool"
  assumes claim_agrees: "grant i c t s = (Inr u, s') \<Longrightarrow> bound s i (rc_operation_id c) d \<Longrightarrow> d = digest c"
    and claim_binds: "grant i c t s = (Inr u, s') \<Longrightarrow> signer_key j = signer_key i \<Longrightarrow> bound s' j (rc_operation_id c) (digest c)"
    and bound_kept: "grant i c t s = (r, s') \<Longrightarrow> bound s j n d \<Longrightarrow> bound s' j n d"
begin

lemma served_agree_with_bound:
  "(i, c) \<in> set (served grant requests s) \<Longrightarrow> bound s i (rc_operation_id c) d \<Longrightarrow> d = digest c"
proof (induction requests arbitrary: s)
  case (Cons q requests)
  obtain j e t where q: "q = (j, e, t)" by (cases q)
  obtain r s' where step: "grant j e t s = (r, s')" by (cases "grant j e t s")
  have later: "(i, c) \<in> set (served grant requests s') \<Longrightarrow> d = digest c"
    using Cons.IH [of s'] Cons.prems(2) bound_kept [OF step] by blast
  show ?case
  proof (cases r)
    case (Inr u)
    then show ?thesis using Cons.prems q step later claim_agrees [of j e t s u s'] by auto
  qed (use Cons.prems q step later in auto)
qed simp

lemma served_bound:
  "(i, c) \<in> set (served grant requests s) \<Longrightarrow> (j, d) \<in> set (served grant requests s) \<Longrightarrow> signer_key i = signer_key j \<Longrightarrow>
    rc_operation_id c = rc_operation_id d \<Longrightarrow> digest c = digest d"
proof (induction requests arbitrary: s)
  case (Cons q requests)
  obtain k e t where q: "q = (k, e, t)" by (cases q)
  obtain r s' where step: "grant k e t s = (r, s')" by (cases "grant k e t s")
  show ?case
  proof (cases r)
    case (Inr u)
    have later: "digest e = digest x" if "(y, x) \<in> set (served grant requests s')" "signer_key y = signer_key k"
        "rc_operation_id x = rc_operation_id e" for x y
      using served_agree_with_bound [OF that(1), of "digest e"] claim_binds [of k e t s u s' y] step Inr that(2,3) by simp
    from Cons q step Inr later show ?thesis by (auto dest: sym)
  qed (use Cons q step in simp)
qed simp

end

section \<open>Implementations\<close>

interpretation memory_store: replay_store "\<lambda>i c t s. claim_request_nonce s c" "\<lambda>s i n. n \<in> consumed s"
  by unfold_locales (auto simp: claim_request_nonce_def Let_def split: if_splits)

definition nonce_taken :: "storage \<Rightarrow> provider_identity \<Rightarrow> bytes \<Rightarrow> bool" where
  "nonce_taken db i n \<longleftrightarrow> (\<exists>r \<in> set (db_request_nonces db). device_key (rn_identity r) = device_key i \<and> rc_request_nonce (rn_context r) = n)"

definition operation_bound :: "storage \<Rightarrow> provider_identity \<Rightarrow> bytes \<Rightarrow> bytes \<Rightarrow> bool" where
  "operation_bound db i n d \<longleftrightarrow> (\<exists>r \<in> set (db_request_nonces db). signer_key (rn_identity r) = signer_key i
     \<and> rc_operation_id (rn_context r) = n \<and> rn_operation_binding_digest r = d)"

lemma claim_signer_request_nonce_Inr:
  assumes "claim_signer_request_nonce E J i c t db = Inr (u, db')"
  obtains r where "r = \<lparr>rn_identity = i, rn_context = c, rn_operation_binding_digest = operation_binding_digest E c, rn_claimed_at = t\<rparr>"
    "db_request_nonces db' = db_request_nonces db @ [r]" "request_nonce_check db r" "\<forall>q \<in> set (db_request_nonces db). \<not> request_nonce_clash q r"
  using assms
  by (auto simp: claim_signer_request_nonce_def rbind_Inr on_constraint_Inr sql_insert_Inr Let_def append_audit_def split: if_splits)

lemma storage_claim_cases:
  assumes "storage_claim_request_nonce E J i c t db = (r, db')"
  shows "db' = db \<and> \<not> is_ok r \<or> claim_signer_request_nonce E J i c t db = Inr ((), db') \<and> r = Inr ()"
  using assms by (auto simp: storage_claim_request_nonce_def split: sum.splits storage_error.splits prod.splits)

interpretation wallet_store: binding_replay_store "storage_claim_request_nonce E J" nonce_taken "operation_binding_digest E" operation_bound
  for E J
proof
  fix i c t s u s' j n d r
  assume "storage_claim_request_nonce E J i c t s = (Inr u, s')"
  then have "claim_signer_request_nonce E J i c t s = Inr ((), s')" using storage_claim_cases by fastforce
  then obtain row where row: "row = \<lparr>rn_identity = i, rn_context = c, rn_operation_binding_digest = operation_binding_digest E c, rn_claimed_at = t\<rparr>"
      "db_request_nonces s' = db_request_nonces s @ [row]" "request_nonce_check s row" "\<forall>q \<in> set (db_request_nonces s). \<not> request_nonce_clash q row"
    by (rule claim_signer_request_nonce_Inr)
  show "\<not> nonce_taken s i (rc_request_nonce c)"
    using row(1,4) by (auto simp: nonce_taken_def request_nonce_clash_def device_key_def Let_def)
  show "nonce_taken s' j (rc_request_nonce c)" if "device_key j = device_key i"
    using row(1,2) that by (simp add: nonce_taken_def)
  show "d = operation_binding_digest E c" if "operation_bound s i (rc_operation_id c) d"
    using row(1,3) that by (auto simp: operation_bound_def request_nonce_check_def same_operation_def signer_key_def list_all_iff Let_def)
  show "operation_bound s' j (rc_operation_id c) (operation_binding_digest E c)" if "signer_key j = signer_key i"
    using row(1,2) that by (simp add: operation_bound_def)
next
  fix i c t s s' j n d and r :: "(provider_error, unit) rresult"
  assume "storage_claim_request_nonce E J i c t s = (r, s')"
  then have rows: "\<exists>rows. db_request_nonces s' = db_request_nonces s @ rows"
    using storage_claim_cases by (metis append_Nil2 claim_signer_request_nonce_Inr)
  then show "nonce_taken s j n \<Longrightarrow> nonce_taken s' j n" "operation_bound s j n d \<Longrightarrow> operation_bound s' j n d"
    by (auto simp: nonce_taken_def operation_bound_def)
qed

text \<open>
  C38: the wallet database refuses replays.  In any sequence of signer requests, whatever the database contains, the requests that
  its replay store lets through never repeat a request nonce of a device, and all requests it lets through for one operation of a
  signer have the same operation binding digest.  The in-memory store never lets a nonce of a device through twice either.
\<close>

theorem replayed_requests_are_refused:
  "distinct (map request_key (served (storage_claim_request_nonce E J) requests db))
   \<and> (\<forall>i c j d. (i, c) \<in> set (served (storage_claim_request_nonce E J) requests db)
        \<and> (j, d) \<in> set (served (storage_claim_request_nonce E J) requests db)
        \<and> signer_key i = signer_key j \<and> rc_operation_id c = rc_operation_id d \<longrightarrow> operation_binding_digest E c = operation_binding_digest E d)
   \<and> distinct (map request_key (served (\<lambda>i c t s. claim_request_nonce s c) requests memory))"
  using wallet_store.served_once memory_store.served_once wallet_store.served_bound by blast

definition sample_request :: "u8 \<Rightarrow> signer_request_context" where
  "sample_request n = (sample_context (replicate 32 n))\<lparr>rc_wallet_id := uuid 1, rc_session_id := replicate 32 1, rc_taproot_sighash := replicate 32 2,
     rc_policy_digest := replicate 32 3\<rparr>"

definition sample_requester :: provider_identity where
  "sample_requester = sample_identity\<lparr>pi_wallet_id := uuid 1\<rparr>"

lemma sample_served:
  assumes "initialize sample_store (uuid 1) 0 empty_storage = Inr (u, db)"
  shows "served (storage_claim_request_nonce sample_env sample_store)
      [(sample_requester, sample_request 1, 1), (sample_requester, sample_request 1, 2), (sample_requester, sample_request 2, 3)] db
    = [(sample_requester, sample_request 1), (sample_requester, sample_request 2)]"
proof -
  have "db_metadata db = Some \<lparr>wm_wallet_id = uuid 1, wm_epoch = 1, wm_restore_state = Normal, wm_created_at = 0, wm_updated_at = 0\<rparr>"
      "db_request_nonces db = []"
    using assms unfolding initialize_Inr by (auto simp: append_audit_def empty_storage_def)
  then show ?thesis
    by (simp add: storage_claim_request_nonce_def claim_signer_request_nonce_def identity_matches_def sample_request_def sample_requester_def
        sample_identity_def sample_context_def mutation_metadata_def metadata_in_def ensure_mutations_allowed_def ok_or_def sql_u64_def require_def
        sql_insert_def request_nonce_check_def request_nonce_clash_def same_operation_def operation_binding_digest_def sample_env_def
        append_audit_def on_constraint_def map_err_def Let_def)
qed

theorem replayed_requests_are_refused_witness:
  "\<exists>db. length (served (storage_claim_request_nonce sample_env sample_store)
      [(sample_requester, sample_request 1, 1), (sample_requester, sample_request 1, 2), (sample_requester, sample_request 2, 3)] db) = 2
    \<and> operation_binding_digest sample_env (sample_request 1) = operation_binding_digest sample_env (sample_request 2)"
proof -
  obtain u db where "initialize sample_store (uuid 1) 0 empty_storage = Inr (u, db)" by (simp add: initialize_Inr)
  note s = sample_served [OF this]
  have "rc_operation_id (sample_request 1) = rc_operation_id (sample_request 2)" by (simp add: sample_request_def sample_context_def)
  then have "operation_binding_digest sample_env (sample_request 1) = operation_binding_digest sample_env (sample_request 2)"
    using replayed_requests_are_refused [of sample_env sample_store
        "[(sample_requester, sample_request 1, 1), (sample_requester, sample_request 1, 2), (sample_requester, sample_request 2, 3)]" db]
    unfolding s by (metis list.set_intros)
  then show ?thesis using s by (intro exI [of _ db]) simp
qed

end
