(* ===== verification/Frost_Dkg.thy ===== *)
theory Frost_Dkg
  imports Frost_Participant
begin

text \<open>
  \<open>crates/threshold-signer/src/dkg.rs\<close>: the in-process run of the distributed key generation.  The
  three protocol parts are functions of the FROST crate, hence the parameter \<open>dkg_env\<close>; the
  randomness of part one is one seed per participant.
\<close>

record dkg_env =
  dkg_part1 :: "bytes \<Rightarrow> u16 \<Rightarrow> u16 \<Rightarrow> bytes \<Rightarrow> (frost_error, bytes \<times> bytes) rresult"
  dkg_part2 :: "bytes \<Rightarrow> (bytes, bytes) btree \<Rightarrow> (frost_error, bytes \<times> (bytes, bytes) btree) rresult"
  dkg_part3 :: "bytes \<Rightarrow> (bytes, bytes) btree \<Rightarrow> (bytes, bytes) btree \<Rightarrow> (frost_error, bytes \<times> bytes) rresult"

record local_dkg_output =
  dk_min_signers :: u16
  dk_max_signers :: u16
  dk_key_packages :: "(bytes, bytes) btree"
  dk_public_key_package :: bytes

type_synonym mailbox = "(bytes, (bytes, bytes) btree) btree"

text \<open>The range \<open>1..=n\<close>, and \<open>entry(k).or_default().insert(from, package)\<close>.\<close>

definition signer_ids :: "u16 \<Rightarrow> u16 list" where
  "signer_ids n = map word_of_nat [1..<Suc (unat n)]"

definition deliver :: "bytes \<Rightarrow> bytes \<Rightarrow> bytes \<Rightarrow> mailbox \<Rightarrow> mailbox" where
  "deliver receiver sender package box =
     bt_insert receiver (bt_insert sender package (case map_of box receiver of None \<Rightarrow> [] | Some m \<Rightarrow> m)) box"

section \<open>The three parts\<close>

fun broadcast_round1 ::
    "frost_env \<Rightarrow> u16 \<Rightarrow> bytes \<Rightarrow> bytes \<Rightarrow> u16 list \<Rightarrow> mailbox \<Rightarrow> (frost_error, mailbox) rresult" where
  "broadcast_round1 F raw_id sender package [] received = Inr received"
| "broadcast_round1 F raw_id sender package (r # rs) received =
     (if r = raw_id then broadcast_round1 F raw_id sender package rs received
      else rbind (participant_identifier F r) (\<lambda>receiver.
        broadcast_round1 F raw_id sender package rs (deliver receiver sender package received)))"

fun dkg_round1 ::
    "frost_env \<Rightarrow> dkg_env \<Rightarrow> (u16 \<Rightarrow> bytes) \<Rightarrow> u16 \<Rightarrow> u16 \<Rightarrow> u16 list \<Rightarrow> (bytes, bytes) btree \<Rightarrow> mailbox \<Rightarrow>
     (frost_error, (bytes, bytes) btree \<times> mailbox) rresult" where
  "dkg_round1 F D seeds max_signers min_signers [] secrets received = Inr (secrets, received)"
| "dkg_round1 F D seeds max_signers min_signers (raw_id # ids) secrets received =
     rbind (participant_identifier F raw_id) (\<lambda>i.
     rbind (dkg_part1 D i max_signers min_signers (seeds raw_id)) (\<lambda>(secret, package).
     rbind (broadcast_round1 F raw_id i package (signer_ids max_signers) received) (\<lambda>received'.
       dkg_round1 F D seeds max_signers min_signers ids (bt_insert i secret secrets) received')))"

fun dkg_round2 ::
    "frost_env \<Rightarrow> dkg_env \<Rightarrow> mailbox \<Rightarrow> u16 list \<Rightarrow> (bytes, bytes) btree \<Rightarrow> (bytes, bytes) btree \<Rightarrow> mailbox \<Rightarrow>
     (frost_error, (bytes, bytes) btree \<times> mailbox) rresult" where
  "dkg_round2 F D received1 [] secrets secrets2 received2 = Inr (secrets2, received2)"
| "dkg_round2 F D received1 (raw_id # ids) secrets secrets2 received2 =
     rbind (participant_identifier F raw_id) (\<lambda>i.
     rbind (ok_or UnknownIdentifier (map_of secrets i)) (\<lambda>secret.
     rbind (ok_or UnknownIdentifier (map_of received1 i)) (\<lambda>packages.
     rbind (dkg_part2 D secret packages) (\<lambda>(secret2, outgoing).
       dkg_round2 F D received1 ids (bt_remove i secrets) (bt_insert i secret2 secrets2)
         (fold (\<lambda>(receiver, package). deliver receiver i package) outgoing received2)))))"

fun dkg_round3 ::
    "frost_env \<Rightarrow> dkg_env \<Rightarrow> mailbox \<Rightarrow> mailbox \<Rightarrow> (bytes, bytes) btree \<Rightarrow> u16 list \<Rightarrow> (bytes, bytes) btree \<Rightarrow> bytes option \<Rightarrow>
     (frost_error, (bytes, bytes) btree \<times> bytes option) rresult" where
  "dkg_round3 F D received1 received2 secrets2 [] keys common = Inr (keys, common)"
| "dkg_round3 F D received1 received2 secrets2 (raw_id # ids) keys common =
     rbind (participant_identifier F raw_id) (\<lambda>i.
     rbind (ok_or UnknownIdentifier (map_of secrets2 i)) (\<lambda>secret2.
     rbind (ok_or UnknownIdentifier (map_of received1 i)) (\<lambda>round1.
     rbind (ok_or UnknownIdentifier (map_of received2 i)) (\<lambda>round2.
     rbind (dkg_part3 D secret2 round1 round2) (\<lambda>(key, public).
       if common \<noteq> None \<and> common \<noteq> Some public then Inl IncorrectPackage
       else dkg_round3 F D received1 received2 secrets2 ids (bt_insert i key keys) (Some public))))))"

definition run_local_dkg ::
    "frost_env \<Rightarrow> dkg_env \<Rightarrow> (u16 \<Rightarrow> bytes) \<Rightarrow> u16 \<Rightarrow> u16 \<Rightarrow> (frost_error, local_dkg_output) rresult" where
  "run_local_dkg F D seeds max_signers min_signers =
     rbind (dkg_round1 F D seeds max_signers min_signers (signer_ids max_signers) [] []) (\<lambda>(secrets, received1).
     rbind (dkg_round2 F D received1 (signer_ids max_signers) secrets [] []) (\<lambda>(secrets2, received2).
     rbind (dkg_round3 F D received1 received2 secrets2 (signer_ids max_signers) [] None) (\<lambda>(keys, common).
     rbind (ok_or InvalidMaxSigners common) (\<lambda>public.
       Inr \<lparr>dk_min_signers = min_signers, dk_max_signers = max_signers, dk_key_packages = keys,
            dk_public_key_package = public\<rparr>))))"

section \<open>The inventory of key packages\<close>

text \<open>A pair of key and public package that part three produced.\<close>

definition dkg_result :: "dkg_env \<Rightarrow> bytes \<Rightarrow> bytes \<Rightarrow> bool" where
  "dkg_result D key public \<longleftrightarrow> (\<exists>s r1 r2. dkg_part3 D s r1 r2 = Inr (key, public))"

lemma set_signer_ids: "set (signer_ids n) = {i. 0 < i \<and> i \<le> n}"
proof -
  have "i \<in> set (signer_ids n)" if "0 < i" "i \<le> n" for i
  proof -
    have "unat i \<in> {1..<Suc (unat n)}" using that by (simp add: word_le_nat_alt word_less_nat_alt)
    then have "word_of_nat (unat i) \<in> set (signer_ids n)" by (simp only: signer_ids_def set_map set_upt imageI)
    then show ?thesis by simp
  qed
  moreover have "0 < i \<and> i \<le> n" if "i \<in> set (signer_ids n)" for i
  proof -
    from that obtain k where k: "i = word_of_nat k" "1 \<le> k" "k \<le> unat n" by (auto simp: signer_ids_def simp del: upt_Suc)
    then have "unat i = k" using unat_bound [of n] by (simp add: unat_of_nat)
    with k show ?thesis by (simp add: word_le_nat_alt word_less_nat_alt)
  qed
  ultimately show ?thesis by blast
qed

lemma dkg_round3_inventory:
  assumes "dkg_round3 F D received1 received2 secrets2 ids keys common = Inr (keys', common')"
    and "\<forall>i k. map_of keys i = Some k \<longrightarrow> (\<exists>p. common = Some p \<and> dkg_result D k p)" and "bt_ok keys"
  shows "bt_ok keys' \<and> dom (map_of keys') = dom (map_of keys) \<union> {i. \<exists>r \<in> set ids. participant_identifier F r = Inr i}
    \<and> (\<forall>r \<in> set ids. \<exists>i. participant_identifier F r = Inr i)
    \<and> (\<forall>p. common = Some p \<longrightarrow> common' = Some p)
    \<and> (\<forall>i k. map_of keys' i = Some k \<longrightarrow> (\<exists>p. common' = Some p \<and> dkg_result D k p))"
  using assms
proof (induction ids arbitrary: keys common)
  case (Cons r ids)
  obtain i s r1 r2 key public where step: "participant_identifier F r = Inr i"
      "dkg_part3 D s r1 r2 = Inr (key, public)" "common = None \<or> common = Some public"
      "dkg_round3 F D received1 received2 secrets2 ids (bt_insert i key keys) (Some public) = Inr (keys', common')"
    using Cons.prems(1) by (auto simp: result_simps split: if_splits)
  have "\<forall>j k. map_of (bt_insert i key keys) j = Some k \<longrightarrow> (\<exists>p. Some public = Some p \<and> dkg_result D k p)"
    using Cons.prems(2) step(2,3) by (auto simp: dkg_result_def)
  note IH = Cons.IH [OF step(4) this bt_ok_insert [OF Cons.prems(3)], unfolded map_of_bt_insert dom_fun_upd]
  then have "bt_ok keys'" "dom (map_of keys') = insert i (dom (map_of keys)) \<union> {i. \<exists>r \<in> set ids. participant_identifier F r = Inr i}"
    "\<forall>r \<in> set ids. \<exists>i. participant_identifier F r = Inr i" "common' = Some public"
    "\<forall>i k. map_of keys' i = Some k \<longrightarrow> (\<exists>p. common' = Some p \<and> dkg_result D k p)" by auto
  with step(1,3) show ?case by auto
qed simp

lemma run_local_dkg_inventory:
  assumes "run_local_dkg F D seeds max_signers min_signers = Inr out"
  shows "dk_min_signers out = min_signers" "dk_max_signers out = max_signers" "bt_ok (dk_key_packages out)"
    and "dom (map_of (dk_key_packages out)) = {i. \<exists>r. 0 < r \<and> r \<le> max_signers \<and> participant_identifier F r = Inr i}"
    and "map_of (dk_key_packages out) i = Some k \<Longrightarrow> dkg_result D k (dk_public_key_package out)"
proof -
  obtain secrets2 received1 received2 keys public
    where r: "dkg_round3 F D received1 received2 secrets2 (signer_ids max_signers) [] None = Inr (keys, Some public)"
      and out: "out = \<lparr>dk_min_signers = min_signers, dk_max_signers = max_signers, dk_key_packages = keys,
        dk_public_key_package = public\<rparr>"
    using assms by (auto simp: run_local_dkg_def result_simps)
  have inv: "bt_ok keys" "dom (map_of keys) = {i. \<exists>r \<in> set (signer_ids max_signers). participant_identifier F r = Inr i}"
    "\<forall>i k. map_of keys i = Some k \<longrightarrow> (\<exists>p. Some public = Some p \<and> dkg_result D k p)"
    using dkg_round3_inventory [OF r] by auto
  show "dk_min_signers out = min_signers" "dk_max_signers out = max_signers" "bt_ok (dk_key_packages out)"
    "dom (map_of (dk_key_packages out)) = {i. \<exists>r. 0 < r \<and> r \<le> max_signers \<and> participant_identifier F r = Inr i}"
    "map_of (dk_key_packages out) i = Some k \<Longrightarrow> dkg_result D k (dk_public_key_package out)"
    using inv by (auto simp: out set_signer_ids)
qed

end
