(* ===== verification/Personal_Profile.thy ===== *)
theory Personal_Profile
  imports Frost_Dkg
begin

text \<open>
  \<open>crates/threshold-signer/src/personal.rs\<close>: the public profile of a personal 2-of-3 signer set and
  the secret package of each participant.  The key packages of the FROST crate and the JSON codec
  of the two package types are third-party code, the parameter \<open>package_env\<close>.  Erasing key
  material has no functional content.
\<close>

section \<open>Data\<close>

definition PERSONAL_PROFILE_FORMAT_VERSION :: u16 where "PERSONAL_PROFILE_FORMAT_VERSION = 1"
definition PERSONAL_SECRET_PACKAGE_FORMAT_VERSION :: u16 where "PERSONAL_SECRET_PACKAGE_FORMAT_VERSION = 1"
definition PERSONAL_PROFILE_MAX_BYTES :: nat where "PERSONAL_PROFILE_MAX_BYTES = 64 * 1024"
definition PERSONAL_SECRET_PACKAGE_MAX_BYTES :: nat where "PERSONAL_SECRET_PACKAGE_MAX_BYTES = 64 * 1024"
definition PERSONAL_MIN_SIGNERS :: u16 where "PERSONAL_MIN_SIGNERS = 2"
definition PERSONAL_MAX_SIGNERS :: u16 where "PERSONAL_MAX_SIGNERS = 3"

definition PROFILE_BINDING_DOMAIN :: bytes where
  "PROFILE_BINDING_DOMAIN = ascii ''catomicals/personal-signer-profile/v1'' @ [0]"

datatype personal_profile_error =
    UnsupportedVersion
  | InvalidEpoch
  | InvalidThreshold
  | InvalidParticipantInventory
  | InvalidPublicPackage
  | InvalidKeyPackage
  | PackageTooLarge
  | PackageEncoding
  | ProfileBindingMismatch
  | ParticipantMismatch
  | KeyPackageMismatch

datatype personal_participant_role = WalletNode | DesktopOnePassword | PhoneRecovery

definition role_for_signer :: "u16 \<Rightarrow> (personal_profile_error, personal_participant_role) rresult" where
  "role_for_signer signer_id =
     (if signer_id = 1 then Inr WalletNode
      else if signer_id = 2 then Inr DesktopOnePassword
      else if signer_id = 3 then Inr PhoneRecovery
      else Inl InvalidParticipantInventory)"

fun role_binding_tag :: "personal_participant_role \<Rightarrow> u8" where
  "role_binding_tag WalletNode = 1"
| "role_binding_tag DesktopOnePassword = 2"
| "role_binding_tag PhoneRecovery = 3"

record personal_participant_descriptor =
  pd_signer_id :: u16
  pd_role :: personal_participant_role
  pd_identifier_hex :: string
  pd_verifying_share_digest :: bytes

record personal_signer_profile =
  pf_format_version :: u16
  pf_profile_id :: bytes
  pf_wallet_id :: bytes
  pf_signer_set_id :: bytes
  pf_signer_epoch :: u64
  pf_min_signers :: u16
  pf_max_signers :: u16
  pf_group_pubkey_xonly :: bytes
  pf_public_key_package :: bytes
  pf_participants :: "personal_participant_descriptor list"

record personal_secret_package =
  sk_format_version :: u16
  sk_profile_id :: bytes
  sk_wallet_id :: bytes
  sk_signer_set_id :: bytes
  sk_signer_epoch :: u64
  sk_signer_id :: u16
  sk_min_signers :: u16
  sk_max_signers :: u16
  sk_group_pubkey_xonly :: bytes
  sk_profile_binding_digest :: bytes
  sk_key_package :: bytes

record opened_key_package =
  ok_signer_id :: u16
  ok_key_package :: bytes

record package_env =
  pk_serialize :: "bytes \<Rightarrow> bytes option"
  pk_deserialize :: "bytes \<Rightarrow> bytes option"
  pk_share_count :: "bytes \<Rightarrow> nat"
  pk_verifying_key :: "bytes \<Rightarrow> bytes"
  share_point_serialize :: "bytes \<Rightarrow> bytes option"
  identifier_serialize :: "bytes \<Rightarrow> bytes"
  kp_min_signers :: "bytes \<Rightarrow> u16"
  kp_verifying_key :: "bytes \<Rightarrow> bytes"
  kp_verifying_share :: "bytes \<Rightarrow> bytes"
  kp_serialize :: "bytes \<Rightarrow> bytes option"
  kp_deserialize :: "bytes \<Rightarrow> bytes option"
  profile_to_json :: "personal_signer_profile \<Rightarrow> bytes option"
  profile_from_json :: "bytes \<Rightarrow> personal_signer_profile option"
  secret_to_json :: "personal_secret_package \<Rightarrow> bytes option"
  secret_from_json :: "bytes \<Rightarrow> personal_secret_package option"

text \<open>Every codec decodes what it encoded.\<close>

definition package_codecs :: "package_env \<Rightarrow> bool" where
  "package_codecs P \<longleftrightarrow>
     (\<forall>p bs. pk_serialize P p = Some bs \<longrightarrow> pk_deserialize P bs = Some p)
     \<and> (\<forall>k bs. kp_serialize P k = Some bs \<longrightarrow> kp_deserialize P bs = Some k)
     \<and> (\<forall>p bs. profile_to_json P p = Some bs \<longrightarrow> profile_from_json P bs = Some p)
     \<and> (\<forall>s bs. secret_to_json P s = Some bs \<longrightarrow> secret_from_json P bs = Some s)"

section \<open>Profiles\<close>

definition participant_descriptor ::
    "bitcoin_env \<Rightarrow> frost_env \<Rightarrow> package_env \<Rightarrow> bytes \<Rightarrow> u16 \<Rightarrow> (personal_profile_error, personal_participant_descriptor) rresult" where
  "participant_descriptor E F P public signer_id =
     rbind (map_err (\<lambda>_. InvalidParticipantInventory) (participant_identifier F signer_id)) (\<lambda>i.
     rbind (ok_or InvalidParticipantInventory (verifying_shares F public i)) (\<lambda>share.
     rbind (ok_or InvalidPublicPackage (share_point_serialize P share)) (\<lambda>bs.
     rbind (role_for_signer signer_id) (\<lambda>role.
       Inr \<lparr>pd_signer_id = signer_id, pd_role = role, pd_identifier_hex = hex_encode E (identifier_serialize P i),
            pd_verifying_share_digest = sha256 E bs\<rparr>))))"

definition participant_descriptors ::
    "bitcoin_env \<Rightarrow> frost_env \<Rightarrow> package_env \<Rightarrow> bytes \<Rightarrow> (personal_profile_error, personal_participant_descriptor list) rresult" where
  "participant_descriptors E F P public =
     (if pk_share_count P public \<noteq> unat PERSONAL_MAX_SIGNERS then Inl InvalidParticipantInventory
      else rmap (participant_descriptor E F P public) (signer_ids PERSONAL_MAX_SIGNERS))"

definition profile_public_key_package :: "package_env \<Rightarrow> personal_signer_profile \<Rightarrow> (personal_profile_error, bytes) rresult" where
  "profile_public_key_package P profile = ok_or InvalidPublicPackage (pk_deserialize P (pf_public_key_package profile))"

definition profile_validate ::
    "bitcoin_env \<Rightarrow> frost_env \<Rightarrow> package_env \<Rightarrow> personal_signer_profile \<Rightarrow> (personal_profile_error, unit) rresult" where
  "profile_validate E F P profile =
     (if pf_format_version profile \<noteq> PERSONAL_PROFILE_FORMAT_VERSION then Inl UnsupportedVersion
      else if pf_signer_epoch profile = 0 then Inl InvalidEpoch
      else if pf_min_signers profile \<noteq> PERSONAL_MIN_SIGNERS \<or> pf_max_signers profile \<noteq> PERSONAL_MAX_SIGNERS
      then Inl InvalidThreshold
      else if length (pf_public_key_package profile) > PERSONAL_PROFILE_MAX_BYTES then Inl PackageTooLarge
      else rbind (profile_public_key_package P profile) (\<lambda>public.
        if pk_share_count P public \<noteq> unat (pf_max_signers profile) then Inl InvalidPublicPackage
        else rbind (map_err (\<lambda>_. InvalidPublicPackage) (group_pubkey_xonly_of F public)) (\<lambda>group.
          if group \<noteq> pf_group_pubkey_xonly profile then Inl InvalidPublicPackage
          else rbind (participant_descriptors E F P public) (\<lambda>expected.
            if expected \<noteq> pf_participants profile then Inl InvalidParticipantInventory else Inr ()))))"

definition descriptor_bytes :: "personal_participant_descriptor \<Rightarrow> bytes" where
  "descriptor_bytes d =
     u16_be (pd_signer_id d) @ [role_binding_tag (pd_role d)] @ len_prefixed (ascii (pd_identifier_hex d))
     @ pd_verifying_share_digest d"

definition profile_bytes :: "personal_signer_profile \<Rightarrow> bytes" where
  "profile_bytes p =
     PROFILE_BINDING_DOMAIN @ u16_be (pf_format_version p) @ pf_profile_id p @ pf_wallet_id p @ pf_signer_set_id p
     @ u64_be (pf_signer_epoch p) @ u16_be (pf_min_signers p) @ u16_be (pf_max_signers p) @ pf_group_pubkey_xonly p
     @ len_prefixed (pf_public_key_package p) @ u64_be (word_of_nat (length (pf_participants p)))
     @ concat (map descriptor_bytes (pf_participants p))"

definition profile_binding_digest :: "bitcoin_env \<Rightarrow> personal_signer_profile \<Rightarrow> bytes" where
  "profile_binding_digest E p = sha256 E (profile_bytes p)"

definition profile_to_bytes ::
    "bitcoin_env \<Rightarrow> frost_env \<Rightarrow> package_env \<Rightarrow> personal_signer_profile \<Rightarrow> (personal_profile_error, bytes) rresult" where
  "profile_to_bytes E F P profile =
     rbind (profile_validate E F P profile) (\<lambda>_.
     rbind (ok_or PackageEncoding (profile_to_json P profile)) (\<lambda>bs.
       if length bs > PERSONAL_PROFILE_MAX_BYTES then Inl PackageTooLarge else Inr bs))"

definition profile_from_bytes ::
    "bitcoin_env \<Rightarrow> frost_env \<Rightarrow> package_env \<Rightarrow> bytes \<Rightarrow> (personal_profile_error, personal_signer_profile) rresult" where
  "profile_from_bytes E F P bs =
     (if length bs > PERSONAL_PROFILE_MAX_BYTES then Inl PackageTooLarge
      else rbind (ok_or PackageEncoding (profile_from_json P bs)) (\<lambda>profile.
        rbind (profile_validate E F P profile) (\<lambda>_. Inr profile)))"

section \<open>Secret packages\<close>

definition validate_key_package ::
    "frost_env \<Rightarrow> package_env \<Rightarrow> bytes \<Rightarrow> bytes \<Rightarrow> personal_signer_profile \<Rightarrow> (personal_profile_error, unit) rresult" where
  "validate_key_package F P key_package i profile =
     rbind (profile_public_key_package P profile) (\<lambda>public.
       if key_identifier F key_package \<noteq> i \<or> kp_min_signers P key_package \<noteq> pf_min_signers profile
          \<or> kp_verifying_key P key_package \<noteq> pk_verifying_key P public
          \<or> verifying_shares F public i \<noteq> Some (kp_verifying_share P key_package)
       then Inl KeyPackageMismatch else Inr ())"

definition validate_serialize_key_package ::
    "frost_env \<Rightarrow> package_env \<Rightarrow> bytes \<Rightarrow> u16 \<Rightarrow> personal_signer_profile \<Rightarrow> (personal_profile_error, bytes) rresult" where
  "validate_serialize_key_package F P key_package signer_id profile =
     rbind (map_err (\<lambda>_. ParticipantMismatch) (participant_identifier F signer_id)) (\<lambda>i.
     rbind (validate_key_package F P key_package i profile) (\<lambda>_.
       ok_or InvalidKeyPackage (kp_serialize P key_package)))"

definition secret_package_of :: "bitcoin_env \<Rightarrow> personal_signer_profile \<Rightarrow> u16 \<Rightarrow> bytes \<Rightarrow> personal_secret_package" where
  "secret_package_of E p signer_id key_package =
     \<lparr>sk_format_version = PERSONAL_SECRET_PACKAGE_FORMAT_VERSION, sk_profile_id = pf_profile_id p,
      sk_wallet_id = pf_wallet_id p, sk_signer_set_id = pf_signer_set_id p, sk_signer_epoch = pf_signer_epoch p,
      sk_signer_id = signer_id, sk_min_signers = pf_min_signers p, sk_max_signers = pf_max_signers p,
      sk_group_pubkey_xonly = pf_group_pubkey_xonly p, sk_profile_binding_digest = profile_binding_digest E p,
      sk_key_package = key_package\<rparr>"

definition secret_open ::
    "bitcoin_env \<Rightarrow> frost_env \<Rightarrow> package_env \<Rightarrow> personal_secret_package \<Rightarrow> personal_signer_profile \<Rightarrow>
     (personal_profile_error, opened_key_package) rresult" where
  "secret_open E F P s profile =
     rbind (profile_validate E F P profile) (\<lambda>_.
     if sk_format_version s \<noteq> PERSONAL_SECRET_PACKAGE_FORMAT_VERSION then Inl UnsupportedVersion
     else if sk_profile_id s \<noteq> pf_profile_id profile \<or> sk_wallet_id s \<noteq> pf_wallet_id profile
        \<or> sk_signer_set_id s \<noteq> pf_signer_set_id profile \<or> sk_signer_epoch s \<noteq> pf_signer_epoch profile
        \<or> sk_min_signers s \<noteq> pf_min_signers profile \<or> sk_max_signers s \<noteq> pf_max_signers profile
        \<or> sk_group_pubkey_xonly s \<noteq> pf_group_pubkey_xonly profile
        \<or> sk_profile_binding_digest s \<noteq> profile_binding_digest E profile
     then Inl ProfileBindingMismatch
     else rbind (map_err (\<lambda>_. ParticipantMismatch) (participant_identifier F (sk_signer_id s))) (\<lambda>i.
       if list_all (\<lambda>d. pd_signer_id d \<noteq> sk_signer_id s) (pf_participants profile) then Inl ParticipantMismatch
       else rbind (ok_or InvalidKeyPackage (kp_deserialize P (sk_key_package s))) (\<lambda>key_package.
         if \<not> is_ok (validate_key_package F P key_package i profile) then Inl KeyPackageMismatch
         else Inr \<lparr>ok_signer_id = sk_signer_id s, ok_key_package = key_package\<rparr>)))"

definition secret_validate ::
    "bitcoin_env \<Rightarrow> frost_env \<Rightarrow> package_env \<Rightarrow> personal_secret_package \<Rightarrow> personal_signer_profile \<Rightarrow>
     (personal_profile_error, unit) rresult" where
  "secret_validate E F P s profile = rbind (secret_open E F P s profile) (\<lambda>_. Inr ())"

definition secret_to_bytes :: "package_env \<Rightarrow> personal_secret_package \<Rightarrow> (personal_profile_error, bytes) rresult" where
  "secret_to_bytes P s =
     rbind (ok_or PackageEncoding (secret_to_json P s)) (\<lambda>bs.
       if length bs > PERSONAL_SECRET_PACKAGE_MAX_BYTES then Inl PackageTooLarge else Inr bs)"

definition secret_from_bytes ::
    "bitcoin_env \<Rightarrow> frost_env \<Rightarrow> package_env \<Rightarrow> bytes \<Rightarrow> personal_signer_profile \<Rightarrow>
     (personal_profile_error, personal_secret_package) rresult" where
  "secret_from_bytes E F P bs profile =
     (if length bs > PERSONAL_SECRET_PACKAGE_MAX_BYTES then Inl PackageTooLarge
      else rbind (ok_or PackageEncoding (secret_from_json P bs)) (\<lambda>package.
        if sk_format_version package \<noteq> PERSONAL_SECRET_PACKAGE_FORMAT_VERSION then Inl UnsupportedVersion
        else if sk_signer_epoch package = 0 then Inl InvalidEpoch
        else if sk_min_signers package \<noteq> PERSONAL_MIN_SIGNERS \<or> sk_max_signers package \<noteq> PERSONAL_MAX_SIGNERS
        then Inl InvalidThreshold
        else if \<not> (1 \<le> sk_signer_id package \<and> sk_signer_id package \<le> PERSONAL_MAX_SIGNERS) then Inl ParticipantMismatch
        else rbind (secret_open E F P package profile) (\<lambda>_. Inr package)))"

definition into_participant ::
    "frost_env \<Rightarrow> opened_key_package \<Rightarrow> nonce_guard \<Rightarrow> (personal_profile_error, local_frost_participant) rresult" where
  "into_participant F opened guard =
     map_err (\<lambda>_. InvalidKeyPackage) (participant_new F (ok_signer_id opened) (ok_key_package opened) guard)"

section \<open>Bootstrap from a key generation\<close>

text \<open>The loop over the participants, with the key packages that are left.\<close>

fun bootstrap_packages ::
    "bitcoin_env \<Rightarrow> frost_env \<Rightarrow> package_env \<Rightarrow> personal_signer_profile \<Rightarrow> u16 list \<Rightarrow> (bytes, bytes) btree \<Rightarrow>
     (u16, personal_secret_package) btree \<Rightarrow>
     (personal_profile_error, (bytes, bytes) btree \<times> (u16, personal_secret_package) btree) rresult" where
  "bootstrap_packages E F P profile [] key_packages packages = Inr (key_packages, packages)"
| "bootstrap_packages E F P profile (signer_id # ids) key_packages packages =
     rbind (map_err (\<lambda>_. InvalidParticipantInventory) (participant_identifier F signer_id)) (\<lambda>i.
     rbind (ok_or InvalidParticipantInventory (map_of key_packages i)) (\<lambda>key_package.
     rbind (validate_serialize_key_package F P key_package signer_id profile) (\<lambda>bs.
       bootstrap_packages E F P profile ids (bt_remove i key_packages)
         (bt_insert signer_id (secret_package_of E profile signer_id bs) packages))))"

definition bootstrap ::
    "bitcoin_env \<Rightarrow> frost_env \<Rightarrow> package_env \<Rightarrow> bytes \<Rightarrow> bytes \<Rightarrow> bytes \<Rightarrow> u64 \<Rightarrow> local_dkg_output \<Rightarrow>
     (personal_profile_error, personal_signer_profile \<times> (u16, personal_secret_package) btree) rresult" where
  "bootstrap E F P profile_id wallet_id signer_set_id signer_epoch dkg =
     (if signer_epoch = 0 then Inl InvalidEpoch
      else if dk_min_signers dkg \<noteq> PERSONAL_MIN_SIGNERS \<or> dk_max_signers dkg \<noteq> PERSONAL_MAX_SIGNERS
         \<or> length (dk_key_packages dkg) \<noteq> unat PERSONAL_MAX_SIGNERS then Inl InvalidThreshold
      else rbind (ok_or InvalidPublicPackage (pk_serialize P (dk_public_key_package dkg))) (\<lambda>public.
      rbind (map_err (\<lambda>_. InvalidPublicPackage) (group_pubkey_xonly_of F (dk_public_key_package dkg))) (\<lambda>group.
      rbind (participant_descriptors E F P (dk_public_key_package dkg)) (\<lambda>participants.
      let profile = \<lparr>pf_format_version = PERSONAL_PROFILE_FORMAT_VERSION, pf_profile_id = profile_id,
            pf_wallet_id = wallet_id, pf_signer_set_id = signer_set_id, pf_signer_epoch = signer_epoch,
            pf_min_signers = dk_min_signers dkg, pf_max_signers = dk_max_signers dkg,
            pf_group_pubkey_xonly = group, pf_public_key_package = public, pf_participants = participants\<rparr> in
      rbind (profile_validate E F P profile) (\<lambda>_.
      rbind (bootstrap_packages E F P profile (signer_ids PERSONAL_MAX_SIGNERS) (dk_key_packages dkg) []) (\<lambda>(left, packages).
        if left \<noteq> [] then Inl InvalidParticipantInventory else Inr (profile, packages)))))))"

section \<open>Bootstrapped packages open\<close>

lemma bootstrap_packages_result:
  assumes "bootstrap_packages E F P profile ids kps packages = Inr (left, packages')" and "distinct ids"
  shows "(\<forall>j \<in> set ids. \<exists>i k bs. participant_identifier F j = Inr i \<and> map_of kps i = Some k
      \<and> validate_key_package F P k i profile = Inr () \<and> kp_serialize P k = Some bs
      \<and> map_of packages' j = Some (secret_package_of E profile j bs))
    \<and> (\<forall>j. j \<notin> set ids \<longrightarrow> map_of packages' j = map_of packages j)"
  using assms
proof (induction ids arbitrary: kps packages)
  case (Cons j ids)
  obtain i k bs where step: "participant_identifier F j = Inr i" "map_of kps i = Some k"
      "validate_key_package F P k i profile = Inr ()" "kp_serialize P k = Some bs"
      "bootstrap_packages E F P profile ids (bt_remove i kps)
         (bt_insert j (secret_package_of E profile j bs) packages) = Inr (left, packages')"
    using Cons.prems(1) by (auto simp: validate_serialize_key_package_def result_simps)
  note IH = Cons.IH [OF step(5)]
  have "map_of packages' j = Some (secret_package_of E profile j bs)"
    using IH Cons.prems(2) by simp
  moreover have "map_of kps i' = Some k'" if "map_of (bt_remove i kps) i' = Some k'" for i' k'
    using that by (auto split: if_splits)
  ultimately show ?case using IH Cons.prems(2) step by fastforce
qed simp

lemma signer_ids_personal: "signer_ids PERSONAL_MAX_SIGNERS = [1, 2, 3]"
  by (simp add: signer_ids_def PERSONAL_MAX_SIGNERS_def upt_rec)

lemma descriptors_signers:
  assumes "participant_descriptors E F P public = Inr ds"
  shows "map pd_signer_id ds = [1, 2, 3]"
  using assms
  by (auto simp: participant_descriptors_def signer_ids_personal result_simps list_all2_Cons1
      participant_descriptor_def split: if_splits)

lemma profile_validate_fields:
  assumes "profile_validate E F P profile = Inr ()"
  shows "pf_format_version profile = PERSONAL_PROFILE_FORMAT_VERSION" "pf_signer_epoch profile \<noteq> 0"
    "pf_min_signers profile = PERSONAL_MIN_SIGNERS" "pf_max_signers profile = PERSONAL_MAX_SIGNERS"
    "map pd_signer_id (pf_participants profile) = [1, 2, 3]"
    "length (pf_public_key_package profile) \<le> PERSONAL_PROFILE_MAX_BYTES"
  using assms by (auto simp: profile_validate_def result_simps guard_Inr dest: descriptors_signers split: if_splits)

lemma secret_open_bootstrapped:
  assumes "package_codecs P" and "profile_validate E F P profile = Inr ()" and "j \<in> {1, 2, 3}"
    and "participant_identifier F j = Inr i" and "validate_key_package F P k i profile = Inr ()"
    and "kp_serialize P k = Some bs"
  shows "secret_open E F P (secret_package_of E profile j bs) profile = Inr \<lparr>ok_signer_id = j, ok_key_package = k\<rparr>"
proof -
  have "j \<in> pd_signer_id ` set (pf_participants profile)"
    using profile_validate_fields(5) [OF assms(2)] assms(3) by (metis list.set_map list.set(1,2))
  then have "\<not> list_all (\<lambda>d. pd_signer_id d \<noteq> j) (pf_participants profile)"
    by (auto simp: list_all_iff)
  moreover have "kp_deserialize P bs = Some k" using assms(1,6) by (simp add: package_codecs_def)
  ultimately show ?thesis
    using assms by (simp add: secret_open_def secret_package_of_def)
qed

lemma secret_bytes_bootstrapped:
  assumes "package_codecs P" and "profile_validate E F P profile = Inr ()" and "j \<in> {1, 2, 3}"
    and "secret_open E F P (secret_package_of E profile j bs) profile = Inr k"
    and "secret_to_bytes P (secret_package_of E profile j bs) = Inr wire"
  shows "secret_from_bytes E F P wire profile = Inr (secret_package_of E profile j bs)"
proof -
  let ?s = "secret_package_of E profile j bs"
  have wire: "secret_from_json P wire = Some ?s" "length wire \<le> PERSONAL_SECRET_PACKAGE_MAX_BYTES"
    using assms(1,5) by (auto simp: package_codecs_def secret_to_bytes_def result_simps split: if_splits)
  have "sk_format_version ?s = PERSONAL_SECRET_PACKAGE_FORMAT_VERSION" "sk_signer_epoch ?s \<noteq> 0"
    "sk_min_signers ?s = PERSONAL_MIN_SIGNERS" "sk_max_signers ?s = PERSONAL_MAX_SIGNERS" "sk_signer_id ?s = j"
    using profile_validate_fields [OF assms(2)] by (simp_all add: secret_package_of_def)
  moreover have "1 \<le> j" "j \<le> PERSONAL_MAX_SIGNERS" using assms(3) by (auto simp: PERSONAL_MAX_SIGNERS_def)
  ultimately show ?thesis using wire assms(4) by (simp add: secret_from_bytes_def)
qed

lemma bootstrap_result:
  assumes "package_codecs P" and "bootstrap E F P pid wid sid epoch dkg = Inr (profile, packages)"
  shows "profile_validate E F P profile = Inr ()"
    and "profile_to_bytes E F P profile = Inr bs \<Longrightarrow> profile_from_bytes E F P bs = Inr profile"
    and "dom (map_of packages) = {1, 2, 3}"
    and "map_of packages j = Some s \<Longrightarrow>
      \<exists>i k. participant_identifier F j = Inr i \<and> map_of (dk_key_packages dkg) i = Some k
        \<and> secret_open E F P s profile = Inr \<lparr>ok_signer_id = j, ok_key_package = k\<rparr>
        \<and> (\<forall>wire. secret_to_bytes P s = Inr wire \<longrightarrow> secret_from_bytes E F P wire profile = Inr s)"
proof -
  obtain left where valid: "profile_validate E F P profile = Inr ()"
    and r: "bootstrap_packages E F P profile [1, 2, 3] (dk_key_packages dkg) [] = Inr (left, packages)"
    using assms(2) by (auto simp: bootstrap_def result_simps Let_def signer_ids_personal split: if_splits)
  note result = bootstrap_packages_result [OF r, simplified]
  show "profile_validate E F P profile = Inr ()" by (rule valid)
  show "profile_from_bytes E F P bs = Inr profile" if "profile_to_bytes E F P profile = Inr bs"
    using that valid assms(1)
    by (auto simp: profile_to_bytes_def profile_from_bytes_def result_simps package_codecs_def split: if_splits)
  show dom: "dom (map_of packages) = {1, 2, 3}"
  proof (intro set_eqI)
    fix j show "j \<in> dom (map_of packages) \<longleftrightarrow> j \<in> {1, 2, 3}"
      using result by (cases "j = 1 \<or> j = 2 \<or> j = 3") (auto simp: domIff)
  qed
  show "\<exists>i k. participant_identifier F j = Inr i \<and> map_of (dk_key_packages dkg) i = Some k
      \<and> secret_open E F P s profile = Inr \<lparr>ok_signer_id = j, ok_key_package = k\<rparr>
      \<and> (\<forall>wire. secret_to_bytes P s = Inr wire \<longrightarrow> secret_from_bytes E F P wire profile = Inr s)"
    if s: "map_of packages j = Some s"
  proof -
    have j: "j \<in> {1, 2, 3}" using dom s by blast
    then obtain i k kb where k: "participant_identifier F j = Inr i" "map_of (dk_key_packages dkg) i = Some k"
        "validate_key_package F P k i profile = Inr ()" "kp_serialize P k = Some kb" "s = secret_package_of E profile j kb"
      using result s by auto
    note open_s = secret_open_bootstrapped [OF assms(1) valid j k(1,3,4)]
    show ?thesis using k(1,2,5) open_s secret_bytes_bootstrapped [OF assms(1) valid j open_s] by auto
  qed
qed

text \<open>
  C33: a bootstrapped signer set is usable.  When bootstrap from a key generation succeeds, the
  profile is valid and survives its byte encoding, there is a secret package for exactly the
  signers 1, 2 and 3, each opens against the profile to the key package the key generation made
  for that signer, and each survives its byte encoding.
\<close>

theorem bootstrap_packages_open:
  assumes "package_codecs P" and "bootstrap E F P pid wid sid epoch dkg = Inr (profile, packages)"
  shows "profile_validate E F P profile = Inr ()
    \<and> (\<forall>bs. profile_to_bytes E F P profile = Inr bs \<longrightarrow> profile_from_bytes E F P bs = Inr profile)
    \<and> dom (map_of packages) = {1, 2, 3}
    \<and> (\<forall>j s. map_of packages j = Some s \<longrightarrow>
      (\<exists>i k. participant_identifier F j = Inr i \<and> map_of (dk_key_packages dkg) i = Some k
        \<and> secret_open E F P s profile = Inr \<lparr>ok_signer_id = j, ok_key_package = k\<rparr>
        \<and> (\<forall>wire. secret_to_bytes P s = Inr wire \<longrightarrow> secret_from_bytes E F P wire profile = Inr s)))"
  using bootstrap_result [OF assms] by simp

section \<open>A secret package belongs to one profile\<close>

definition wf_profile :: "personal_signer_profile \<Rightarrow> bool" where
  "wf_profile p \<longleftrightarrow> is_array 16 (pf_profile_id p) \<and> is_array 16 (pf_wallet_id p) \<and> is_array 16 (pf_signer_set_id p)
     \<and> is_array 32 (pf_group_pubkey_xonly p)
     \<and> (\<forall>d \<in> set (pf_participants p). is_array 32 (pd_verifying_share_digest d) \<and> length (pd_identifier_hex d) < 2 ^ 64)"

lemma role_binding_tag_inject: "role_binding_tag a = role_binding_tag b \<longleftrightarrow> a = b"
  by (cases a; cases b) simp_all

lemma descriptor_bytes_split:
  assumes "descriptor_bytes d @ xs = descriptor_bytes e @ ys"
    and "is_array 32 (pd_verifying_share_digest d)" "length (pd_identifier_hex d) < 2 ^ 64"
    and "is_array 32 (pd_verifying_share_digest e)" "length (pd_identifier_hex e) < 2 ^ 64"
  shows "d = e \<and> xs = ys"
proof -
  have "pd_signer_id d = pd_signer_id e" "pd_role d = pd_role e"
    and "len_prefixed (ascii (pd_identifier_hex d)) @ pd_verifying_share_digest d @ xs
      = len_prefixed (ascii (pd_identifier_hex e)) @ pd_verifying_share_digest e @ ys"
    using assms(1) by (auto simp: descriptor_bytes_def role_binding_tag_inject)
  moreover from this(3) have "ascii (pd_identifier_hex d) = ascii (pd_identifier_hex e)"
    "pd_verifying_share_digest d @ xs = pd_verifying_share_digest e @ ys"
    using len_prefixed_split [of "ascii (pd_identifier_hex d)" _ "ascii (pd_identifier_hex e)"] assms(3,5) by auto
  ultimately show ?thesis
    using assms(2,4) by (auto simp: ascii_inject intro: personal_participant_descriptor.equality)
qed

lemma descriptors_inject:
  assumes "concat (map descriptor_bytes ds) = concat (map descriptor_bytes es)" and "length ds = length es"
    and "\<forall>d \<in> set ds \<union> set es. is_array 32 (pd_verifying_share_digest d) \<and> length (pd_identifier_hex d) < 2 ^ 64"
  shows "ds = es"
  using assms
proof (induction ds es rule: list_induct2')
  case (4 d ds e es)
  then have "d = e \<and> concat (map descriptor_bytes ds) = concat (map descriptor_bytes es)"
    by (intro descriptor_bytes_split) auto
  with 4 show ?case by auto
qed auto

lemma profile_bytes_inject:
  assumes "profile_bytes p = profile_bytes q" and "wf_profile p" "wf_profile q"
    and "length (pf_participants p) = length (pf_participants q)"
    and "length (pf_public_key_package p) < 2 ^ 64" "length (pf_public_key_package q) < 2 ^ 64"
  shows "p = q"
proof -
  have "pf_format_version p = pf_format_version q" "pf_profile_id p = pf_profile_id q" "pf_wallet_id p = pf_wallet_id q"
    "pf_signer_set_id p = pf_signer_set_id q" "pf_signer_epoch p = pf_signer_epoch q"
    "pf_min_signers p = pf_min_signers q" "pf_max_signers p = pf_max_signers q"
    "pf_group_pubkey_xonly p = pf_group_pubkey_xonly q"
    and rest: "len_prefixed (pf_public_key_package p) @ u64_be (word_of_nat (length (pf_participants p)))
        @ concat (map descriptor_bytes (pf_participants p))
      = len_prefixed (pf_public_key_package q) @ u64_be (word_of_nat (length (pf_participants q)))
        @ concat (map descriptor_bytes (pf_participants q))"
    using assms(1-3) by (auto simp: profile_bytes_def wf_profile_def)
  moreover from len_prefixed_split [OF rest assms(5,6)]
  have "pf_public_key_package p = pf_public_key_package q"
    "concat (map descriptor_bytes (pf_participants p)) = concat (map descriptor_bytes (pf_participants q))"
    using assms(4) by simp_all
  moreover from this(2) have "pf_participants p = pf_participants q"
    by (rule descriptors_inject [OF _ assms(4)]) (use assms(2,3) in \<open>auto simp: wf_profile_def\<close>)
  ultimately show ?thesis by (intro personal_signer_profile.equality) auto
qed

text \<open>
  A secret package opens against one profile only.  If a package opens against two
  (well-formed) profiles, they are the same profile or their encodings are a SHA-256 collision.
\<close>

theorem secret_package_single_profile:
  assumes "wf_profile p" "wf_profile q" and "secret_open E F P s p = Inr k" "secret_open E F P s q = Inr l"
  shows "p = q \<or> sha_collision E (profile_bytes p) (profile_bytes q)"
proof -
  have v: "profile_validate E F P p = Inr ()" "profile_validate E F P q = Inr ()"
    and "sk_profile_binding_digest s = profile_binding_digest E p" "sk_profile_binding_digest s = profile_binding_digest E q"
    using assms(3,4) by (auto simp: secret_open_def result_simps split: if_splits)
  then have eq: "sha256 E (profile_bytes p) = sha256 E (profile_bytes q)" by (simp add: profile_binding_digest_def)
  have "length (pf_participants p) = length (pf_participants q)"
    using profile_validate_fields(5) [OF v(1)] profile_validate_fields(5) [OF v(2)] by (metis length_map)
  moreover have "length (pf_public_key_package p) < 2 ^ 64" "length (pf_public_key_package q) < 2 ^ 64"
    using profile_validate_fields(6) [OF v(1)] profile_validate_fields(6) [OF v(2)]
    by (simp_all add: PERSONAL_PROFILE_MAX_BYTES_def)
  ultimately show ?thesis
    using eq profile_bytes_inject [OF _ assms(1,2)] by (auto simp: sha_collision_def)
qed

section \<open>A sample signer set\<close>

definition sample_profile :: personal_signer_profile where
  "sample_profile = \<lparr>pf_format_version = 1, pf_profile_id = replicate 16 1, pf_wallet_id = replicate 16 2,
     pf_signer_set_id = replicate 16 3, pf_signer_epoch = 1, pf_min_signers = 2, pf_max_signers = 3,
     pf_group_pubkey_xonly = replicate 32 4, pf_public_key_package = replicate 32 4,
     pf_participants = map (\<lambda>(i, role). \<lparr>pd_signer_id = i, pd_role = role, pd_identifier_hex = [],
       pd_verifying_share_digest = replicate 32 1\<rparr>) [(1, WalletNode), (2, DesktopOnePassword), (3, PhoneRecovery)]\<rparr>"

definition sample_packages :: package_env where
  "sample_packages = \<lparr>pk_serialize = Some, pk_deserialize = Some, pk_share_count = (\<lambda>_. 3),
     pk_verifying_key = (\<lambda>_. replicate 32 4), share_point_serialize = Some, identifier_serialize = (\<lambda>i. i),
     kp_min_signers = (\<lambda>_. 2), kp_verifying_key = (\<lambda>_. replicate 32 4), kp_verifying_share = (\<lambda>k. k),
     kp_serialize = Some, kp_deserialize = Some,
     profile_to_json = (\<lambda>p. if p = sample_profile then Some [1] else None),
     profile_from_json = (\<lambda>bs. if bs = [1] then Some sample_profile else None),
     secret_to_json = (\<lambda>s. None), secret_from_json = (\<lambda>_. None)\<rparr>"

definition sample_dkg :: local_dkg_output where
  "sample_dkg = \<lparr>dk_min_signers = 2, dk_max_signers = 3,
     dk_key_packages = [(u16_be 1, u16_be 1), (u16_be 2, u16_be 2), (u16_be 3, u16_be 3)],
     dk_public_key_package = replicate 32 4\<rparr>"

lemma sample_packages_codecs: "package_codecs sample_packages"
  by (simp add: package_codecs_def sample_packages_def)

text \<open>The same signer set with the public package in compressed form.\<close>

definition sample_twin :: personal_signer_profile where
  "sample_twin = sample_profile\<lparr>pf_public_key_package := 2 # replicate 32 4\<rparr>"

lemma sample_descriptors:
  "participant_descriptors sample_env sample_frost sample_packages pk = Inr (pf_participants sample_profile)"
proof -
  have "participant_descriptor sample_env sample_frost sample_packages pk j
      = rbind (role_for_signer j) (\<lambda>role. Inr \<lparr>pd_signer_id = j, pd_role = role, pd_identifier_hex = [],
          pd_verifying_share_digest = replicate 32 1\<rparr>)" if "j \<noteq> 0" for j
    using that by (simp add: participant_descriptor_def participant_identifier_def sample_frost_def sample_packages_def
        sample_env_def)
  moreover have "pk_share_count sample_packages pk = unat PERSONAL_MAX_SIGNERS"
    by (simp add: sample_packages_def PERSONAL_MAX_SIGNERS_def)
  ultimately show ?thesis
    by (simp add: participant_descriptors_def signer_ids_personal role_for_signer_def) (simp add: sample_profile_def)
qed

lemma sample_profiles_valid:
  assumes "q \<in> {sample_profile, sample_twin}"
  shows "profile_validate sample_env sample_frost sample_packages q = Inr ()"
proof -
  obtain pk where q: "q = sample_profile\<lparr>pf_public_key_package := pk\<rparr>" and pk: "pk \<in> {replicate 32 4, 2 # replicate 32 4}"
    using assms by (auto simp: sample_twin_def sample_profile_def)
  have "group_pubkey_xonly_of sample_frost pk = Inr (replicate 32 4)"
    using pk by (auto simp: group_pubkey_xonly_of_def sample_frost_def)
  moreover have "profile_public_key_package sample_packages q = Inr pk" "pk_share_count sample_packages pk = 3"
    by (simp_all add: profile_public_key_package_def sample_packages_def q)
  moreover have "length pk \<le> PERSONAL_PROFILE_MAX_BYTES" using pk by (auto simp: PERSONAL_PROFILE_MAX_BYTES_def)
  moreover have "pf_format_version q = PERSONAL_PROFILE_FORMAT_VERSION" "pf_signer_epoch q = 1" "pf_min_signers q = PERSONAL_MIN_SIGNERS"
    "pf_max_signers q = PERSONAL_MAX_SIGNERS" "pf_group_pubkey_xonly q = replicate 32 4" "pf_public_key_package q = pk"
    "pf_participants q = pf_participants sample_profile"
    by (simp_all add: q sample_profile_def PERSONAL_PROFILE_FORMAT_VERSION_def PERSONAL_MIN_SIGNERS_def PERSONAL_MAX_SIGNERS_def)
  moreover have "unat PERSONAL_MAX_SIGNERS = 3" by (simp add: PERSONAL_MAX_SIGNERS_def)
  ultimately show ?thesis unfolding profile_validate_def by (simp add: sample_descriptors)
qed

lemmas sample_profile_valid = sample_profiles_valid [of sample_profile, simplified]

lemma sample_key_valid:
  "j \<in> {1, 2, 3} \<Longrightarrow> validate_serialize_key_package sample_frost sample_packages (u16_be j) j sample_profile = Inr (u16_be j)"
  by (auto simp: validate_serialize_key_package_def validate_key_package_def participant_identifier_def sample_frost_def
      sample_packages_def profile_public_key_package_def sample_profile_def)

lemma sample_bootstrap:
  "bootstrap sample_env sample_frost sample_packages (replicate 16 1) (replicate 16 2) (replicate 16 3) 1 sample_dkg
     = Inr (sample_profile, map (\<lambda>j. (j, secret_package_of sample_env sample_profile j (u16_be j))) [1, 2, 3])"
proof -
  have ids: "participant_identifier sample_frost 1 = Inr (u16_be 1)" "participant_identifier sample_frost 2 = Inr (u16_be 2)"
    "participant_identifier sample_frost 3 = Inr (u16_be 3)"
    by (simp_all add: participant_identifier_def sample_frost_def)
  have "bootstrap_packages sample_env sample_frost sample_packages sample_profile [1, 2, 3] (dk_key_packages sample_dkg) []
      = Inr ([], map (\<lambda>j. (j, secret_package_of sample_env sample_profile j (u16_be j))) [1, 2, 3])"
    by (simp add: sample_dkg_def ids sample_key_valid bt_remove_def)
  moreover have "group_pubkey_xonly_of sample_frost (replicate 32 4) = Inr (replicate 32 4)"
    by (simp add: group_pubkey_xonly_of_def sample_frost_def)
  moreover have "\<lparr>pf_format_version = PERSONAL_PROFILE_FORMAT_VERSION, pf_profile_id = replicate 16 1,
      pf_wallet_id = replicate 16 2, pf_signer_set_id = replicate 16 3, pf_signer_epoch = 1,
      pf_min_signers = dk_min_signers sample_dkg, pf_max_signers = dk_max_signers sample_dkg,
      pf_group_pubkey_xonly = replicate 32 4, pf_public_key_package = replicate 32 4,
      pf_participants = pf_participants sample_profile\<rparr> = sample_profile"
    by (simp add: sample_profile_def sample_dkg_def PERSONAL_PROFILE_FORMAT_VERSION_def)
  moreover have "pk_serialize sample_packages (replicate 32 4) = Some (replicate 32 4)" by (simp add: sample_packages_def)
  moreover have "dk_public_key_package sample_dkg = replicate 32 4" "dk_min_signers sample_dkg = PERSONAL_MIN_SIGNERS"
    "dk_max_signers sample_dkg = PERSONAL_MAX_SIGNERS" "length (dk_key_packages sample_dkg) = unat PERSONAL_MAX_SIGNERS"
    by (simp_all add: sample_dkg_def PERSONAL_MIN_SIGNERS_def PERSONAL_MAX_SIGNERS_def)
  ultimately show ?thesis
    unfolding bootstrap_def Let_def by (simp add: signer_ids_personal sample_descriptors sample_profile_valid)
qed

theorem bootstrap_packages_open_witness:
  "secret_open sample_env sample_frost sample_packages (secret_package_of sample_env sample_profile 2 (u16_be 2)) sample_profile
     = Inr \<lparr>ok_signer_id = 2, ok_key_package = u16_be 2\<rparr>
   \<and> profile_from_bytes sample_env sample_frost sample_packages [1] = Inr sample_profile"
proof -
  have "profile_to_bytes sample_env sample_frost sample_packages sample_profile = Inr [1]"
    by (simp add: profile_to_bytes_def sample_profile_valid) (simp add: sample_packages_def PERSONAL_PROFILE_MAX_BYTES_def)
  with bootstrap_packages_open [OF sample_packages_codecs sample_bootstrap] show ?thesis
    by (auto simp: participant_identifier_def sample_frost_def sample_dkg_def split: if_splits)
qed

lemma sample_package_opens:
  assumes "q \<in> {sample_profile, sample_twin}"
  shows "secret_open sample_env sample_frost sample_packages (secret_package_of sample_env sample_profile 2 (u16_be 2)) q
    = Inr \<lparr>ok_signer_id = 2, ok_key_package = u16_be 2\<rparr>"
proof -
  have "validate_key_package sample_frost sample_packages (u16_be 2) (u16_be 2) q = Inr ()"
    using assms by (auto simp: validate_key_package_def profile_public_key_package_def sample_packages_def sample_frost_def
        sample_profile_def sample_twin_def)
  moreover have "secret_package_of sample_env sample_profile 2 (u16_be 2) = secret_package_of sample_env q 2 (u16_be 2)"
    using assms by (auto simp: secret_package_of_def sample_twin_def profile_binding_digest_def sample_env_def)
  ultimately show ?thesis
    using secret_open_bootstrapped [OF sample_packages_codecs sample_profiles_valid [OF assms], of 2 "u16_be 2" "u16_be 2" "u16_be 2"]
    by (simp add: participant_identifier_def sample_frost_def sample_packages_def)
qed

theorem secret_package_single_profile_witness:
  "sha_collision sample_env (profile_bytes sample_profile) (profile_bytes sample_twin)"
proof -
  have "wf_profile sample_profile" "wf_profile sample_twin" "sample_profile \<noteq> sample_twin"
    by (simp_all add: wf_profile_def sample_profile_def sample_twin_def)
  then show ?thesis
    using secret_package_single_profile [OF _ _ sample_package_opens sample_package_opens, of sample_profile sample_twin]
    by simp
qed

end
