(* ===== verification/Wallet_Gate.thy ===== *)
theory Wallet_Gate
  imports Wallet_Intent Personal_Profile
begin

text \<open>
  \<open>crates/wallet-core/src/gate.rs\<close>: the gate that turns a Passkey approval into a one-time signing
  authorization, and the personal (2-of-3) authorization derived from it.  The entry point modelled
  is \<open>authorize_verified\<close>; \<open>authorize\<close> exists in test builds only.  The token drawn from the system
  randomness is an argument.
\<close>

section \<open>Authorizations\<close>

datatype gate_error =
    NotPending intent_status
  | GateExpired
  | ApprovalMismatch
  | NonceReused
  | UnsupportedProtocolVersion u16
  | PersonalPolicyMismatch
  | PersonalOperationMismatch
  | GatePanic

definition policy_from_profile :: "personal_signer_profile \<Rightarrow> bytes \<Rightarrow> bytes \<Rightarrow> personal_signing_policy" where
  "policy_from_profile profile policy_digest chain_snapshot_digest =
     \<lparr>pp_profile_id = pf_profile_id profile, pp_signer_set_id = pf_signer_set_id profile,
      pp_signer_epoch = pf_signer_epoch profile, pp_group_pubkey_xonly = pf_group_pubkey_xonly profile,
      pp_allowed_participants = [1, 2, 3], pp_threshold = pf_min_signers profile,
      pp_policy_digest = policy_digest, pp_chain_snapshot_digest = chain_snapshot_digest\<rparr>"

record gate_authorization =
  ga_token :: bytes
  ga_intent_id :: bytes
  ga_network :: intent_network
  ga_protocol_version :: u16
  ga_action :: signing_action
  ga_wallet_id :: bytes
  ga_signer_id :: u16
  ga_personal_signing_policy :: "personal_signing_policy option"
  ga_tx_digest :: bytes
  ga_session_id :: bytes
  ga_nonce :: bytes
  ga_expiry :: i64
  ga_issued_at :: i64
  ga_consumed :: bool

definition gate_authorization_new :: "bytes \<Rightarrow> signing_intent \<Rightarrow> i64 \<Rightarrow> gate_authorization" where
  "gate_authorization_new token i issued_at =
     \<lparr>ga_token = token, ga_intent_id = si_id i, ga_network = si_network i, ga_protocol_version = si_protocol_version i,
      ga_action = si_action i, ga_wallet_id = si_wallet_id i, ga_signer_id = si_signer_id i,
      ga_personal_signing_policy = si_personal_signing_policy i, ga_tx_digest = si_tx_digest i,
      ga_session_id = si_session_id i, ga_nonce = si_nonce i, ga_expiry = si_expiry i, ga_issued_at = issued_at,
      ga_consumed = False\<rparr>"

text \<open>The implementation of the signer's \<open>SigningAuthorization\<close> interface.\<close>

definition gate_token_authorize :: "gate_authorization authorizer" where
  "gate_token_authorize a session_id message signer_id now =
     (if ga_consumed a then (Inl AlreadyConsumed, a)
      else if ga_personal_signing_policy a \<noteq> None then (Inl WrongSigner, a)
      else if ga_session_id a \<noteq> session_id then (Inl WrongSession, a)
      else if ga_tx_digest a \<noteq> message then (Inl WrongMessage, a)
      else if ga_signer_id a \<noteq> signer_id then (Inl WrongSigner, a)
      else if now > ga_expiry a then (Inl AuthorizationExpired, a)
      else (Inr (), a\<lparr>ga_consumed := True\<rparr>))"

section \<open>Personal operations\<close>

record begin_personal_operation =
  bo_operation_id :: bytes
  bo_intent_id :: bytes
  bo_session_id :: bytes
  bo_taproot_sighash :: bytes
  bo_policy_digest :: bytes
  bo_chain_snapshot_digest :: bytes
  bo_selected_participants :: "u16 list"
  bo_expires_at :: i64

definition PERSONAL_OPERATION_TAG :: bytes where
  "PERSONAL_OPERATION_TAG = ascii ''catomicals/personal-signing-operation/v1'' @ [0]"

definition personal_operation_bytes :: "bitcoin_env \<Rightarrow> personal_signer_profile \<Rightarrow> begin_personal_operation \<Rightarrow> bytes" where
  "personal_operation_bytes E p r =
     PERSONAL_OPERATION_TAG @ profile_binding_digest E p @ pf_wallet_id p @ pf_profile_id p @ pf_signer_set_id p
     @ u64_be (pf_signer_epoch p) @ pf_group_pubkey_xonly p @ bo_operation_id r @ bo_intent_id r @ bo_session_id r
     @ bo_taproot_sighash r @ bo_policy_digest r @ bo_chain_snapshot_digest r
     @ concat (map u16_be [1, 2, 3]) @ concat (map u16_be (bo_selected_participants r))
     @ u16_be (pf_min_signers p) @ u16_be (pf_max_signers p) @ i64_be (bo_expires_at r)"

definition personal_operation_binding_digest ::
    "bitcoin_env \<Rightarrow> personal_signer_profile \<Rightarrow> begin_personal_operation \<Rightarrow> bytes" where
  "personal_operation_binding_digest E p r = sha256 E (personal_operation_bytes E p r)"

record personal_operation_authorization =
  po_authorization_id :: bytes
  po_operation_binding_digest :: bytes
  po_consumed :: bool

definition personal_authorization_validate ::
    "personal_operation_authorization \<Rightarrow> bytes \<Rightarrow> (gate_error, unit) rresult" where
  "personal_authorization_validate a expected =
     (if po_consumed a then Inl NonceReused
      else if po_operation_binding_digest a \<noteq> expected then Inl PersonalOperationMismatch
      else Inr ())"

definition consume_after_commit :: "personal_operation_authorization \<Rightarrow> personal_operation_authorization" where
  "consume_after_commit a = a\<lparr>po_consumed := True\<rparr>"

definition authorize_personal_operation ::
    "bitcoin_env \<Rightarrow> gate_authorization \<Rightarrow> personal_signer_profile \<Rightarrow> begin_personal_operation \<Rightarrow> bytes \<Rightarrow> i64 \<Rightarrow>
     (gate_error, personal_operation_authorization) rresult" where
  "authorize_personal_operation E a profile request authorization_id now =
     (if ga_consumed a then Inl NonceReused
      else if now > ga_expiry a then Inl GateExpired
      else rbind (ok_or PersonalPolicyMismatch (ga_personal_signing_policy a)) (\<lambda>policy.
        if ga_wallet_id a \<noteq> pf_wallet_id profile \<or> pp_profile_id policy \<noteq> pf_profile_id profile
           \<or> pp_signer_set_id policy \<noteq> pf_signer_set_id profile \<or> pp_signer_epoch policy \<noteq> pf_signer_epoch profile
           \<or> pp_group_pubkey_xonly policy \<noteq> pf_group_pubkey_xonly profile
           \<or> pp_allowed_participants policy \<noteq> [1, 2, 3] \<or> pp_threshold policy \<noteq> pf_min_signers profile
           \<or> pf_max_signers profile \<noteq> 3
        then Inl PersonalPolicyMismatch
        else if bo_intent_id request \<noteq> ga_intent_id a \<or> bo_session_id request \<noteq> ga_session_id a
           \<or> bo_taproot_sighash request \<noteq> ga_tx_digest a \<or> bo_expires_at request \<noteq> ga_expiry a
           \<or> bo_policy_digest request \<noteq> pp_policy_digest policy
           \<or> bo_chain_snapshot_digest request \<noteq> pp_chain_snapshot_digest policy
           \<or> list_ex (\<lambda>s. s \<notin> set (pp_allowed_participants policy)) (bo_selected_participants request)
        then Inl PersonalOperationMismatch
        else Inr \<lparr>po_authorization_id = authorization_id,
                  po_operation_binding_digest = personal_operation_binding_digest E profile request,
                  po_consumed = False\<rparr>))"

section \<open>The gate\<close>

record authorization_gate =
  used_nonces :: "bytes set"

definition gate_new :: authorization_gate where
  "gate_new = \<lparr>used_nonces = {}\<rparr>"

definition has_nonce_been_used :: "authorization_gate \<Rightarrow> bytes \<Rightarrow> bool" where
  "has_nonce_been_used g nonce \<longleftrightarrow> nonce \<in> used_nonces g"

definition authorize_verified ::
    "bitcoin_env \<Rightarrow> bytes \<Rightarrow> authorization_gate \<Rightarrow> signing_intent \<Rightarrow> bytes \<Rightarrow> i64 \<Rightarrow>
     (gate_error, gate_authorization) rresult \<times> authorization_gate" where
  "authorize_verified E token g i approved_digest now =
     (if si_status i \<noteq> IntentPending then (Inl (NotPending (si_status i)), g)
      else if si_protocol_version i \<noteq> SIGNING_PROTOCOL_VERSION
      then (Inl (UnsupportedProtocolVersion (si_protocol_version i)), g)
      else if intent_is_expired i now then (Inl GateExpired, g)
      else case intent_digest E i of
        Inl _ \<Rightarrow> (Inl GatePanic, g)
      | Inr digest \<Rightarrow>
          if digest \<noteq> approved_digest then (Inl ApprovalMismatch, g)
          else if has_nonce_been_used g (si_nonce i) then (Inl NonceReused, g)
          else (Inr (gate_authorization_new token i now), g\<lparr>used_nonces := insert (si_nonce i) (used_nonces g)\<rparr>))"

section \<open>Tokens of the gate are one-time\<close>

definition token_binds :: "gate_authorization \<Rightarrow> bytes \<Rightarrow> bytes \<Rightarrow> u16 \<Rightarrow> int \<Rightarrow> bool" where
  "token_binds a s m i now \<longleftrightarrow>
     ga_personal_signing_policy a = None \<and> ga_session_id a = s \<and> ga_tx_digest a = m \<and> ga_signer_id a = i \<and> now \<le> ga_expiry a"

interpretation gate_token: signing_authorization gate_token_authorize ga_consumed token_binds
  by unfold_locales (auto simp: gate_token_authorize_def token_binds_def split: if_splits)

lemma authorize_verified_cases:
  assumes "authorize_verified E token g i d now = (r, g')"
  shows "(\<exists>e. r = Inl e \<and> g' = g)
    \<or> r = Inr (gate_authorization_new token i now) \<and> g' = g\<lparr>used_nonces := insert (si_nonce i) (used_nonces g)\<rparr>
      \<and> si_status i = IntentPending \<and> si_protocol_version i = SIGNING_PROTOCOL_VERSION \<and> now \<le> si_expiry i
      \<and> intent_digest E i = Inr d \<and> si_nonce i \<notin> used_nonces g"
  using assms
  by (auto simp: authorize_verified_def intent_is_expired_def has_nonce_been_used_def split: if_splits sum.splits)

lemma sign_share_token:
  assumes "sign_share E F gate_token_authorize session i n k guard a now = (r, guard', a')"
  shows "a' = a \<or> a' = a\<lparr>ga_consumed := True\<rparr>"
  using assms
  by (auto simp: sign_share_def gate_token_authorize_def split: if_splits prod.splits sum.splits)

section \<open>From approval to share\<close>

text \<open>
  The gate and the signer together: an approval appends the token it yields, a signing call hands
  one of the tokens to \<open>sign_share\<close>, which keeps what it makes of it.  The log records the approved
  intents in the order of their tokens, and the shares.
\<close>

record approval =
  ap_intent :: signing_intent
  ap_digest :: bytes
  ap_at :: i64

record signed_share =
  sh_token :: nat
  sh_session :: frost_session
  sh_signer :: u16
  sh_at :: i64

record wallet_state =
  ws_gate :: authorization_gate
  ws_guard :: nonce_guard
  ws_tokens :: "gate_authorization list"
  ws_approvals :: "approval list"
  ws_shares :: "signed_share list"

definition wallet_init :: "nonce_guard \<Rightarrow> wallet_state" where
  "wallet_init guard = \<lparr>ws_gate = gate_new, ws_guard = guard, ws_tokens = [], ws_approvals = [], ws_shares = []\<rparr>"

datatype wallet_op =
    Approve bytes signing_intent bytes i64
  | SignWith nat frost_session u16 bytes bytes i64

fun wallet_exec :: "bitcoin_env \<Rightarrow> frost_env \<Rightarrow> wallet_op \<Rightarrow> wallet_state \<Rightarrow> wallet_state" where
  "wallet_exec E F (Approve token i digest now) w =
     (case authorize_verified E token (ws_gate w) i digest now of
        (Inl _, g) \<Rightarrow> w\<lparr>ws_gate := g\<rparr>
      | (Inr a, g) \<Rightarrow> w\<lparr>ws_gate := g, ws_tokens := ws_tokens w @ [a],
          ws_approvals := ws_approvals w @ [\<lparr>ap_intent = i, ap_digest = digest, ap_at = now\<rparr>]\<rparr>)"
| "wallet_exec E F (SignWith k session signer nonces key now) w =
     (if length (ws_tokens w) \<le> k then w
      else case sign_share E F gate_token_authorize session signer nonces key (ws_guard w) (ws_tokens w ! k) now of
        (r, guard, a) \<Rightarrow> w\<lparr>ws_guard := guard, ws_tokens := (ws_tokens w)[k := a],
          ws_shares := ws_shares w @ (if is_ok r then [\<lparr>sh_token = k, sh_session = session, sh_signer = signer, sh_at = now\<rparr>] else [])\<rparr>)"

text \<open>The approval a token was issued for, and the approval a share was made under.\<close>

definition token_for :: "bitcoin_env \<Rightarrow> approval \<Rightarrow> gate_authorization \<Rightarrow> bool" where
  "token_for E ap a \<longleftrightarrow>
     a = (gate_authorization_new (ga_token a) (ap_intent ap) (ap_at ap))\<lparr>ga_consumed := ga_consumed a\<rparr>
     \<and> si_status (ap_intent ap) = IntentPending \<and> si_protocol_version (ap_intent ap) = SIGNING_PROTOCOL_VERSION
     \<and> ap_at ap \<le> si_expiry (ap_intent ap) \<and> intent_digest E (ap_intent ap) = Inr (ap_digest ap)"

definition share_under :: "approval \<Rightarrow> signed_share \<Rightarrow> bool" where
  "share_under ap sh \<longleftrightarrow>
     fs_id (sh_session sh) = si_session_id (ap_intent ap) \<and> fs_message (sh_session sh) = si_tx_digest (ap_intent ap)
     \<and> sh_signer sh = si_signer_id (ap_intent ap) \<and> sh_at sh \<le> si_expiry (ap_intent ap)
     \<and> si_personal_signing_policy (ap_intent ap) = None"

definition wallet_inv :: "bitcoin_env \<Rightarrow> wallet_state \<Rightarrow> bool" where
  "wallet_inv E w \<longleftrightarrow>
     list_all2 (token_for E) (ws_approvals w) (ws_tokens w)
     \<and> distinct (map ga_nonce (ws_tokens w)) \<and> set (map ga_nonce (ws_tokens w)) \<subseteq> used_nonces (ws_gate w)
     \<and> distinct (map sh_token (ws_shares w))
     \<and> (\<forall>sh \<in> set (ws_shares w). sh_token sh < length (ws_tokens w) \<and> ga_consumed (ws_tokens w ! sh_token sh)
          \<and> share_under (ws_approvals w ! sh_token sh) sh)"

lemma token_for_new:
  "si_status i = IntentPending \<Longrightarrow> si_protocol_version i = SIGNING_PROTOCOL_VERSION \<Longrightarrow> now \<le> si_expiry i \<Longrightarrow>
   intent_digest E i = Inr d \<Longrightarrow>
   token_for E \<lparr>ap_intent = i, ap_digest = d, ap_at = now\<rparr> (gate_authorization_new token i now)"
  by (simp add: token_for_def gate_authorization_new_def)

lemma token_for_consumed: "token_for E ap a \<Longrightarrow> token_for E ap (a\<lparr>ga_consumed := c\<rparr>)"
  by (cases a) (simp add: token_for_def gate_authorization_new_def)

lemma token_for_binds:
  "token_for E ap a \<Longrightarrow> token_binds a s m i now \<Longrightarrow>
   s = si_session_id (ap_intent ap) \<and> m = si_tx_digest (ap_intent ap) \<and> i = si_signer_id (ap_intent ap)
   \<and> now \<le> si_expiry (ap_intent ap) \<and> si_personal_signing_policy (ap_intent ap) = None"
  by (cases a) (simp add: token_for_def token_binds_def gate_authorization_new_def)

lemma wallet_inv_approve:
  assumes "wallet_inv E w"
  shows "wallet_inv E (wallet_exec E F (Approve token i d now) w)"
proof -
  obtain r g where auth: "authorize_verified E token (ws_gate w) i d now = (r, g)" by fastforce
  have len: "length (ws_approvals w) = length (ws_tokens w)"
    using assms by (auto simp: wallet_inv_def dest: list_all2_lengthD)
  from authorize_verified_cases [OF auth] show ?thesis
  proof (elim disjE exE conjE)
    fix e assume "r = Inl e" "g = ws_gate w"
    with auth assms show ?thesis by (simp add: wallet_inv_def)
  next
    assume new: "r = Inr (gate_authorization_new token i now)"
        "g = (ws_gate w)\<lparr>used_nonces := insert (si_nonce i) (used_nonces (ws_gate w))\<rparr>"
        "si_nonce i \<notin> used_nonces (ws_gate w)"
      and ok: "si_status i = IntentPending" "si_protocol_version i = SIGNING_PROTOCOL_VERSION" "now \<le> si_expiry i"
        "intent_digest E i = Inr d"
    have "ga_nonce (gate_authorization_new token i now) = si_nonce i" by (simp add: gate_authorization_new_def)
    with new auth assms len token_for_new [OF ok] show ?thesis
      by (auto simp: wallet_inv_def list_all2_appendI nth_append)
  qed
qed

lemma wallet_inv_sign:
  assumes inv: "wallet_inv E w"
  shows "wallet_inv E (wallet_exec E F (SignWith k session signer nonces key now) w)"
proof (cases "length (ws_tokens w) \<le> k")
  case True
  with inv show ?thesis by simp
next
  case False
  let ?a = "ws_tokens w ! k"
  obtain r guard a where sign: "sign_share E F gate_token_authorize session signer nonces key (ws_guard w) ?a now = (r, guard, a)"
    by (metis prod_cases3)
  have k: "k < length (ws_tokens w)" and tok: "token_for E (ws_approvals w ! k) ?a"
    using inv False by (auto simp: wallet_inv_def list_all2_conv_all_nth)
  have a: "a = ?a\<lparr>ga_consumed := ga_consumed a\<rparr>" "ga_consumed ?a \<Longrightarrow> ga_consumed a"
    using sign_share_token [OF sign] by (cases ?a; auto)+
  have nonces: "map ga_nonce ((ws_tokens w)[k := a]) = map ga_nonce (ws_tokens w)"
    using k by (subst a(1)) (simp add: map_update list_update_same_conv)
  have toks: "list_all2 (token_for E) (ws_approvals w) ((ws_tokens w)[k := a])"
    using inv k token_for_consumed [OF tok, of "ga_consumed a"] a(1)
    by (auto simp: wallet_inv_def list_all2_conv_all_nth nth_list_update)
  have old: "sh_token sh < length (ws_tokens w) \<and> ga_consumed ((ws_tokens w)[k := a] ! sh_token sh)
      \<and> share_under (ws_approvals w ! sh_token sh) sh" if "sh \<in> set (ws_shares w)" for sh
    using inv that a(2) k by (auto simp: wallet_inv_def nth_list_update)
  show ?thesis
  proof (cases r)
    case (Inl e)
    with sign False inv nonces toks old show ?thesis by (simp add: wallet_inv_def)
  next
    case (Inr share)
    note ok = gate_token.sign_share_ok [OF sign [unfolded Inr]]
    have "share_under (ws_approvals w ! k) \<lparr>sh_token = k, sh_session = session, sh_signer = signer, sh_at = now\<rparr>"
      using token_for_binds [OF tok ok(2)] by (simp add: share_under_def)
    moreover have "k \<notin> set (map sh_token (ws_shares w))"
      using inv ok(1) by (auto simp: wallet_inv_def)
    ultimately show ?thesis
      using sign Inr False inv nonces toks old k ok(3) by (auto simp: wallet_inv_def)
  qed
qed

lemma wallet_inv_run: "wallet_inv E w \<Longrightarrow> wallet_inv E (fold (wallet_exec E F) ops w)"
proof (induction ops arbitrary: w)
  case (Cons op ops)
  then show ?case using wallet_inv_approve wallet_inv_sign by (cases op) simp_all
qed simp

lemma wallet_inv_init: "wallet_inv E (wallet_init guard)"
  by (simp add: wallet_inv_def wallet_init_def)

text \<open>
  C6: an approval yields at most one signature share, and only the approved one.  In any sequence
  of approvals and signing calls, every token stems from a pending, unexpired intent of the
  supported version whose digest is the approved one; no two tokens share a nonce; no token yields
  two shares; and every share is for the session, transaction digest and signer of its approved
  intent, made no later than the intent's expiry and not under a group policy.
\<close>

theorem approval_yields_one_share:
  assumes "w = fold (wallet_exec E F) ops (wallet_init guard)"
  shows "list_all2 (token_for E) (ws_approvals w) (ws_tokens w)
    \<and> distinct (map ga_nonce (ws_tokens w)) \<and> distinct (map sh_token (ws_shares w))
    \<and> (\<forall>sh \<in> set (ws_shares w). sh_token sh < length (ws_approvals w) \<and> share_under (ws_approvals w ! sh_token sh) sh)"
proof -
  have inv: "wallet_inv E w" unfolding assms by (rule wallet_inv_run [OF wallet_inv_init])
  moreover have "length (ws_approvals w) = length (ws_tokens w)"
    using inv by (auto simp: wallet_inv_def dest: list_all2_lengthD)
  ultimately show ?thesis by (auto simp: wallet_inv_def)
qed

definition sample_ops :: "wallet_op list" where
  "sample_ops = [Approve [9] sample_intent (replicate 32 1) 50, Approve [8] sample_intent (replicate 32 1) 50,
     SignWith 0 (build_session (replicate 32 4) (replicate 32 3) 1 [] []) 1 [7] (u16_be 1) 60,
     SignWith 0 (build_session (replicate 32 4) (replicate 32 3) 1 [] []) 1 [6] (u16_be 1) 60]"

lemma sample_ops_run:
  "length (ws_tokens (fold (wallet_exec sample_env sample_frost) sample_ops (wallet_init nonce_guard_new))) = 1
   \<and> length (ws_shares (fold (wallet_exec sample_env sample_frost) sample_ops (wallet_init nonce_guard_new))) = 1"
proof -
  have "intent_digest sample_env sample_intent = Inr (replicate 32 1)"
    by (simp add: intent_digest_def intent_canonical_bytes_def sample_intent_def sample_env_def)
  then have "authorize_verified sample_env t g sample_intent (replicate 32 1) 50 =
      (if replicate 32 5 \<in> used_nonces g then (Inl NonceReused, g)
       else (Inr (gate_authorization_new t sample_intent 50), g\<lparr>used_nonces := insert (replicate 32 5) (used_nonces g)\<rparr>))" for t g
    by (simp add: authorize_verified_def has_nonce_been_used_def)
      (simp add: sample_intent_def intent_is_expired_def SIGNING_PROTOCOL_VERSION_def)
  then show ?thesis
    by (simp add: sample_ops_def wallet_init_def gate_new_def sign_share_def gate_token_authorize_def
        gate_authorization_new_def sample_intent_def build_session_def claim_def fingerprint_def claim_fingerprint_def
        nonce_guard_new_def sample_frost_simps)
qed

theorem approval_yields_one_share_witness:
  "\<exists>w. w = fold (wallet_exec sample_env sample_frost) sample_ops (wallet_init nonce_guard_new)
     \<and> length (ws_tokens w) = 1 \<and> length (ws_shares w) = 1
     \<and> (\<forall>sh \<in> set (ws_shares w). share_under (ws_approvals w ! sh_token sh) sh)"
  using sample_ops_run approval_yields_one_share [OF refl, of sample_env sample_frost sample_ops nonce_guard_new] by blast

end
