(* ===== verification/Cash_Transaction.thy ===== *)
theory Cash_Transaction
  imports Bitcoin_Env Chain_Domain
begin

text \<open>
  The Bitcoin Cash transaction of \<open>crates/chain-bitcoin-cash/src/transaction.rs\<close>: the wire
  format with its bounded reader, and the replay protected signature digest (\<open>SIGHASH_FORKID\<close>).
  The locale \<open>codec\<close> is the contract of a writer and a reader that are exact inverses; it is
  interpreted on variable-length integers, byte strings, inputs and outputs, and gives the
  loops that read a counted list.
\<close>

unbundle bit_operations_syntax

type_synonym i32 = "32 word"

section \<open>Errors and transactions\<close>

datatype cash_error =
    MixedCaseAddress
  | InvalidChecksum
  | InvalidAddressEncoding
  | InvalidAddressPayload
  | CashWrongNetwork bitcoin_cash_network string
  | AmbiguousAddressNetwork
  | CashInvalidPublicKey
  | InvalidChange u32
  | InvalidDerivationIndex string u32
  | InvalidDerivationPath
  | TransactionTooLarge nat
  | MalformedTransaction
  | NonCanonicalVarInt
  | TrailingTransactionData
  | TooManyTransactionElements string
  | InputIndexOutOfBounds nat nat
  | MissingForkId
  | UnsupportedSighashType u32
  | UnsafeReviewSighashType u32
  | UnsupportedForkId u32
  | CashInvalidSecretKey
  | InvalidSignatureEncoding
  | SignatureHashTypeMismatch u8 u8
  | CashInvalidSignature
  | InvalidSchnorrSignatureLength nat
  | InvalidSigningRequest
  | UnknownSigningRequestNetwork u8

definition MAX_TRANSACTION_BYTES :: nat where "MAX_TRANSACTION_BYTES = 32 * 1024 * 1024"
definition MAX_TRANSACTION_ELEMENTS :: nat where "MAX_TRANSACTION_ELEMENTS = 1000000"
definition ZERO_HASH :: bytes where "ZERO_HASH = replicate 32 0"

record cash_out_point =
  co_txid :: bytes
  co_output_index :: u32

record cash_tx_in =
  ci_previous_output :: cash_out_point
  ci_script_sig :: bytes
  ci_sequence :: u32

record cash_tx_out =
  ct_value :: u64
  ct_script_pubkey :: bytes

record cash_transaction =
  cx_version :: i32
  cx_inputs :: "cash_tx_in list"
  cx_outputs :: "cash_tx_out list"
  cx_lock_time :: u32

section \<open>Writing\<close>

definition u16_le :: "u16 \<Rightarrow> bytes" where "u16_le w = le_bytes 2 (unat w)"
definition u16_from_le :: "bytes \<Rightarrow> u16" where "u16_from_le bs = word_of_nat (of_le_bytes bs)"

definition write_var_int :: "u64 \<Rightarrow> bytes" where
  "write_var_int v =
     (if v \<le> 0xfc then [ucast v]
      else if v \<le> 0xffff then 0xfd # u16_le (ucast v)
      else if v \<le> 0xffffffff then 0xfe # u32_le (ucast v)
      else 0xff # u64_le v)"

definition write_var_bytes :: "bytes \<Rightarrow> bytes" where
  "write_var_bytes bs = write_var_int (word_of_nat (length bs)) @ bs"

definition encode_outpoint :: "cash_out_point \<Rightarrow> bytes" where
  "encode_outpoint p = co_txid p @ u32_le (co_output_index p)"

definition encode_output :: "cash_tx_out \<Rightarrow> bytes" where
  "encode_output out = u64_le (ct_value out) @ write_var_bytes (ct_script_pubkey out)"

definition encode_input :: "cash_tx_in \<Rightarrow> bytes" where
  "encode_input i = encode_outpoint (ci_previous_output i) @ write_var_bytes (ci_script_sig i) @ u32_le (ci_sequence i)"

definition cash_encode :: "cash_transaction \<Rightarrow> bytes" where
  "cash_encode tx = u32_le (cx_version tx)
     @ write_var_int (word_of_nat (length (cx_inputs tx))) @ concat (map encode_input (cx_inputs tx))
     @ write_var_int (word_of_nat (length (cx_outputs tx))) @ concat (map encode_output (cx_outputs tx))
     @ u32_le (cx_lock_time tx)"

section \<open>Reading\<close>

text \<open>
  A reader is the bytes that are left from its position.  Lengths are compared as naturals:
  the position plus a length that overflows \<open>usize\<close> and one that lies behind the end are the
  same error in the source.
\<close>

type_synonym 'a reader = "bytes \<Rightarrow> (cash_error, 'a \<times> bytes) rresult"

definition read_array :: "nat \<Rightarrow> bytes reader" where
  "read_array n bs = (if n \<le> length bs then Inr (take n bs, drop n bs) else Inl MalformedTransaction)"

definition read_u8 :: "u8 reader" where
  "read_u8 bs = rbind (read_array 1 bs) (\<lambda>(a, bs). Inr (hd a, bs))"

definition read_u16 :: "u16 reader" where
  "read_u16 bs = rbind (read_array 2 bs) (\<lambda>(a, bs). Inr (u16_from_le a, bs))"

definition read_u32 :: "u32 reader" where
  "read_u32 bs = rbind (read_array 4 bs) (\<lambda>(a, bs). Inr (u32_from_le a, bs))"

definition read_i32 :: "i32 reader" where
  "read_i32 bs = rbind (read_array 4 bs) (\<lambda>(a, bs). Inr (u32_from_le a, bs))"

definition read_u64 :: "u64 reader" where
  "read_u64 bs = rbind (read_array 8 bs) (\<lambda>(a, bs). Inr (u64_from_le a, bs))"

definition read_var_int :: "u64 reader" where
  "read_var_int bs = rbind (read_u8 bs) (\<lambda>(b, bs).
     if b \<le> 0xfc then Inr (ucast b, bs)
     else if b = 0xfd then rbind (read_u16 bs) (\<lambda>(w, bs).
       let v = ucast w :: u64 in if v < 0xfd then Inl NonCanonicalVarInt else Inr (v, bs))
     else if b = 0xfe then rbind (read_u32 bs) (\<lambda>(w, bs).
       let v = ucast w :: u64 in if v \<le> 0xffff then Inl NonCanonicalVarInt else Inr (v, bs))
     else rbind (read_u64 bs) (\<lambda>(v, bs).
       if v \<le> 0xffffffff then Inl NonCanonicalVarInt else Inr (v, bs)))"

definition read_count :: "string \<Rightarrow> nat reader" where
  "read_count field bs = rbind (read_var_int bs) (\<lambda>(v, bs).
     if unat v > MAX_TRANSACTION_ELEMENTS then Inl (TooManyTransactionElements field) else Inr (unat v, bs))"

definition read_var_bytes :: "bytes reader" where
  "read_var_bytes bs = rbind (read_var_int bs) (\<lambda>(v, bs). read_array (unat v) bs)"

text \<open>The bodies of the two loops of \<open>Transaction::decode\<close>, and the loop over a counter.\<close>

definition read_input :: "cash_tx_in reader" where
  "read_input bs =
     rbind (read_array 32 bs) (\<lambda>(txid, bs).
     rbind (read_u32 bs) (\<lambda>(output_index, bs).
     rbind (read_var_bytes bs) (\<lambda>(script, bs).
     rbind (read_u32 bs) (\<lambda>(sq, bs).
     Inr (\<lparr>ci_previous_output = \<lparr>co_txid = txid, co_output_index = output_index\<rparr>, ci_script_sig = script, ci_sequence = sq\<rparr>, bs)))))"

definition read_output :: "cash_tx_out reader" where
  "read_output bs =
     rbind (read_u64 bs) (\<lambda>(v, bs).
     rbind (read_var_bytes bs) (\<lambda>(script, bs).
     Inr (\<lparr>ct_value = v, ct_script_pubkey = script\<rparr>, bs)))"

primrec read_many :: "'a reader \<Rightarrow> nat \<Rightarrow> 'a list reader" where
  "read_many read 0 bs = Inr ([], bs)"
| "read_many read (Suc n) bs = rbind (read bs) (\<lambda>(x, bs). rbind (read_many read n bs) (\<lambda>(xs, bs). Inr (x # xs, bs)))"

definition cash_decode :: "bytes \<Rightarrow> (cash_error, cash_transaction) rresult" where
  "cash_decode bytes =
     (if length bytes > MAX_TRANSACTION_BYTES then Inl (TransactionTooLarge MAX_TRANSACTION_BYTES)
      else rbind (read_i32 bytes) (\<lambda>(version, bs).
      rbind (read_count ''inputs'' bs) (\<lambda>(input_count, bs).
      rbind (read_many read_input input_count bs) (\<lambda>(inputs, bs).
      rbind (read_count ''outputs'' bs) (\<lambda>(output_count, bs).
      rbind (read_many read_output output_count bs) (\<lambda>(outputs, bs).
      rbind (read_u32 bs) (\<lambda>(locktime, bs).
      if bs \<noteq> [] then Inl TrailingTransactionData
      else Inr \<lparr>cx_version = version, cx_inputs = inputs, cx_outputs = outputs, cx_lock_time = locktime\<rparr>)))))))"

section \<open>The signature digest\<close>

type_synonym sighash_type = u32

definition SIGHASH_ALL_FORKID :: sighash_type where "SIGHASH_ALL_FORKID = 0x41"

definition sighash_base :: "sighash_type \<Rightarrow> u32" where
  "sighash_base t = t AND 0x1f"

definition anyone_can_pay :: "sighash_type \<Rightarrow> bool" where
  "anyone_can_pay t \<longleftrightarrow> t AND 0x80 \<noteq> 0"

definition fork_id :: "sighash_type \<Rightarrow> u32" where
  "fork_id t = drop_bit 8 t"

definition signature_byte :: "sighash_type \<Rightarrow> (cash_error, u8) rresult" where
  "signature_byte t = (if fork_id t \<noteq> 0 then Inl (UnsupportedForkId (fork_id t)) else Inr (ucast t))"

definition from_consensus :: "u32 \<Rightarrow> (cash_error, sighash_type) rresult" where
  "from_consensus raw =
     (if raw AND 0x40 = 0 then Inl MissingForkId
      else let base = raw AND 0x1f; allowed_low = base OR 0x40 OR (raw AND 0x80) in
        if base \<notin> {1, 2, 3} \<or> raw AND 0xff \<noteq> allowed_low then Inl (UnsupportedSighashType raw) else Inr raw)"

definition double_sha256 :: "bitcoin_env \<Rightarrow> bytes \<Rightarrow> bytes" where
  "double_sha256 E bs = sha256 E (sha256 E bs)"

definition hash_prevouts :: "bitcoin_env \<Rightarrow> cash_transaction \<Rightarrow> sighash_type \<Rightarrow> bytes" where
  "hash_prevouts E tx t =
     (if anyone_can_pay t then ZERO_HASH
      else double_sha256 E (concat (map (\<lambda>i. encode_outpoint (ci_previous_output i)) (cx_inputs tx))))"

definition hash_sequence :: "bitcoin_env \<Rightarrow> cash_transaction \<Rightarrow> sighash_type \<Rightarrow> bytes" where
  "hash_sequence E tx t =
     (if anyone_can_pay t \<or> sighash_base t \<in> {2, 3} then ZERO_HASH
      else double_sha256 E (concat (map (\<lambda>i. u32_le (ci_sequence i)) (cx_inputs tx))))"

definition hash_outputs :: "bitcoin_env \<Rightarrow> cash_transaction \<Rightarrow> nat \<Rightarrow> sighash_type \<Rightarrow> (cash_error, bytes) rresult" where
  "hash_outputs E tx input_index t =
     (if sighash_base t = 1 then Inr (double_sha256 E (concat (map encode_output (cx_outputs tx))))
      else if sighash_base t = 3 \<and> input_index < length (cx_outputs tx)
      then Inr (double_sha256 E (encode_output (cx_outputs tx ! input_index)))
      else if sighash_base t \<in> {2, 3} then Inr ZERO_HASH
      else Inl (UnsupportedSighashType t))"

definition sighash_preimage ::
    "cash_transaction \<Rightarrow> cash_tx_in \<Rightarrow> bytes \<Rightarrow> u64 \<Rightarrow> sighash_type \<Rightarrow> bytes \<Rightarrow> bytes \<Rightarrow> bytes \<Rightarrow> bytes" where
  "sighash_preimage tx input script_code input_value t prevouts sequences outputs =
     u32_le (cx_version tx) @ prevouts @ sequences @ encode_outpoint (ci_previous_output input)
     @ write_var_bytes script_code @ u64_le input_value @ u32_le (ci_sequence input) @ outputs
     @ u32_le (cx_lock_time tx) @ u32_le t"

definition fork_id_sighash ::
    "bitcoin_env \<Rightarrow> cash_transaction \<Rightarrow> nat \<Rightarrow> bytes \<Rightarrow> u64 \<Rightarrow> sighash_type \<Rightarrow> (cash_error, bytes) rresult" where
  "fork_id_sighash E tx input_index script_code input_value t =
     rbind (if input_index < length (cx_inputs tx) then Inr (cx_inputs tx ! input_index)
            else Inl (InputIndexOutOfBounds input_index (length (cx_inputs tx)))) (\<lambda>input.
     rbind (hash_outputs E tx input_index t) (\<lambda>outputs.
     Inr (double_sha256 E (sighash_preimage tx input script_code input_value t (hash_prevouts E tx t) (hash_sequence E tx t) outputs))))"

section \<open>Writers and readers are inverse\<close>

text \<open>
  The contract of a wire format: the reader accepts exactly the encodings of valid values, followed by
  anything.  A counted list of such values has the same contract, and an encoding determines the value
  and what follows it.
\<close>

locale codec =
  fixes enc :: "'a \<Rightarrow> bytes" and dec :: "'a reader" and valid :: "'a \<Rightarrow> bool"
  assumes exact: "dec bs = Inr (x, rest) \<longleftrightarrow> valid x \<and> bs = enc x @ rest"
begin

lemma read_many_exact:
  "read_many dec n bs = Inr (xs, rest) \<longleftrightarrow> length xs = n \<and> list_all valid xs \<and> bs = concat (map enc xs) @ rest"
proof (induction n arbitrary: bs xs)
  case 0
  show ?case by auto
next
  case (Suc n)
  show ?case by (cases xs) (auto simp: rbind_Inr exact Suc.IH split_paired_Ex)
qed

lemma enc_split: "valid x \<Longrightarrow> valid y \<Longrightarrow> enc x @ a = enc y @ b \<longleftrightarrow> x = y \<and> a = b"
  by (metis exact prod.inject sum.inject(2))

end

text \<open>Encodings that are not empty and delimit themselves can be concatenated without loss.\<close>

locale prefix_free =
  fixes enc :: "'a \<Rightarrow> bytes" and valid :: "'a \<Rightarrow> bool"
  assumes split: "valid x \<Longrightarrow> valid y \<Longrightarrow> enc x @ a = enc y @ b \<Longrightarrow> x = y \<and> a = b"
    and nonempty: "valid x \<Longrightarrow> enc x \<noteq> []"
begin

lemma concat_inject:
  assumes "list_all valid xs" "list_all valid ys" "concat (map enc xs) = concat (map enc ys)"
  shows "xs = ys"
  using assms
proof (induction xs arbitrary: ys)
  case Nil
  then show ?case using nonempty by (cases ys) auto
next
  case (Cons x xs)
  then obtain y zs where ys: "ys = y # zs" using nonempty by (cases ys) auto
  have "x = y \<and> concat (map enc xs) = concat (map enc zs)" using Cons.prems ys split [of x y "concat (map enc xs)" "concat (map enc zs)"] by simp
  with Cons ys show ?case by simp
qed

end

lemma read_array_Inr: "read_array n bs = Inr (a, rest) \<longleftrightarrow> length a = n \<and> bs = a @ rest"
  by (auto simp: read_array_def)

lemma u16_le_simps [simp]: "length (u16_le w) = 2" "u16_from_le (u16_le w) = w"
  using unat_bound [of w] by (simp_all add: u16_le_def u16_from_le_def of_le_bytes_le_bytes)

lemma u16_le_inject [simp]: "u16_le a = u16_le b \<longleftrightarrow> a = b"
  by (metis u16_le_simps(2))

lemma u16_le_u16_from_le: "length bs = 2 \<Longrightarrow> u16_le (u16_from_le bs) = bs"
  using of_le_bytes_bound [of bs] by (simp add: u16_le_def u16_from_le_def unat_of_nat le_bytes_of_le_bytes)

lemma read_u8_Inr: "read_u8 bs = Inr (b, rest) \<longleftrightarrow> bs = b # rest"
  by (auto simp: read_u8_def rbind_Inr read_array_Inr length_Suc_conv)

lemma read_u16_Inr: "read_u16 bs = Inr (w, rest) \<longleftrightarrow> bs = u16_le w @ rest"
  by (auto simp: read_u16_def rbind_Inr read_array_Inr u16_le_u16_from_le)

lemma read_u32_Inr: "read_u32 bs = Inr (w, rest) \<longleftrightarrow> bs = u32_le w @ rest"
  by (auto simp: read_u32_def rbind_Inr read_array_Inr u32_le_u32_from_le)

lemma read_i32_Inr: "read_i32 bs = Inr (w, rest) \<longleftrightarrow> bs = u32_le w @ rest"
  by (auto simp: read_i32_def rbind_Inr read_array_Inr u32_le_u32_from_le)

lemma read_u64_Inr: "read_u64 bs = Inr (w, rest) \<longleftrightarrow> bs = u64_le w @ rest"
  by (auto simp: read_u64_def rbind_Inr read_array_Inr u64_le_u64_from_le)

lemmas read_int_Inr = read_u8_Inr read_u16_Inr read_u32_Inr read_i32_Inr read_u64_Inr

text \<open>Narrowing and widening of the integers of a variable-length encoding.\<close>

lemma ucast_narrow:
  fixes v :: u64
  shows "v \<le> 0xfc \<Longrightarrow> ucast (ucast v :: u8) = v" "v \<le> 0xfc \<Longrightarrow> (ucast v :: u8) \<le> 0xfc"
    "v \<le> 0xffff \<Longrightarrow> ucast (ucast v :: u16) = v" "v \<le> 0xffffffff \<Longrightarrow> ucast (ucast v :: u32) = v"
  by (simp_all add: word_unat_eq_iff word_le_nat_alt unsigned_ucast_eq unsigned_take_bit_eq take_bit_nat_eq_self)

lemma ucast_widen:
  "ucast (ucast b :: u64) = b" "(ucast b :: u64) \<le> 0xfc \<longleftrightarrow> b \<le> 0xfc"
  "ucast (ucast w :: u64) = w" "(ucast w :: u64) \<le> 0xffff" "(ucast w :: u64) < 0xfd \<longleftrightarrow> (ucast w :: u64) \<le> 0xfc"
  "ucast (ucast d :: u64) = d" "(ucast d :: u64) \<le> 0xffffffff"
  for b :: u8 and w :: u16 and d :: u32
  using unat_bound [of b] unat_bound [of w] unat_bound [of d]
  by (auto simp: word_unat_eq_iff word_le_nat_alt word_less_nat_alt unsigned_ucast_eq unsigned_take_bit_eq take_bit_nat_eq_self)

lemma var_int_ranges:
  fixes v :: u64 and b :: u8
  shows "v \<le> 0xfc \<Longrightarrow> v \<le> 0xffff" "v \<le> 0xffff \<Longrightarrow> v \<le> 0xffffffff" "b \<le> 0xfc \<or> b = 0xfd \<or> b = 0xfe \<or> b = 0xff"
    "v < 0xfd \<longleftrightarrow> v \<le> 0xfc"
  using unat_bound [of b] by (auto simp: word_le_nat_alt word_less_nat_alt word_unat_eq_iff)

lemma read_var_int_Inr: "read_var_int bs = Inr (v, rest) \<longleftrightarrow> bs = write_var_int v @ rest"
proof
  assume r: "read_var_int bs = Inr (v, rest)"
  then obtain b tl where bs: "bs = b # tl" by (auto simp: read_var_int_def rbind_Inr read_u8_Inr)
  consider "b \<le> 0xfc" | "b = 0xfd" | "b = 0xfe" | "b = 0xff" using var_int_ranges(3) by blast
  then show "bs = write_var_int v @ rest"
    using r bs var_int_ranges(1,2) [of v]
    by cases (auto simp: read_var_int_def rbind_Inr read_int_Inr write_var_int_def Let_def ucast_widen split: if_splits)
next
  assume "bs = write_var_int v @ rest"
  moreover consider "v \<le> 0xfc" | "\<not> v \<le> 0xfc" "v \<le> 0xffff" | "\<not> v \<le> 0xffff" "v \<le> 0xffffffff" | "\<not> v \<le> 0xffffffff" by blast
  ultimately show "read_var_int bs = Inr (v, rest)"
    using var_int_ranges(1,2,4) [of v] ucast_narrow [of v]
    by cases (auto simp: read_var_int_def rbind_Inr read_int_Inr write_var_int_def Let_def split_paired_Ex)
qed

lemma read_var_bytes_Inr: "read_var_bytes bs = Inr (a, rest) \<longleftrightarrow> length a < 2 ^ 64 \<and> bs = write_var_bytes a @ rest"
proof
  assume "read_var_bytes bs = Inr (a, rest)"
  then obtain v where v: "bs = write_var_int v @ a @ rest" "length a = unat v"
    by (auto simp: read_var_bytes_def rbind_Inr read_var_int_Inr read_array_Inr)
  then show "length a < 2 ^ 64 \<and> bs = write_var_bytes a @ rest"
    using unat_bound [of v] by (simp add: write_var_bytes_def)
next
  assume "length a < 2 ^ 64 \<and> bs = write_var_bytes a @ rest"
  then show "read_var_bytes bs = Inr (a, rest)"
    by (auto simp: read_var_bytes_def rbind_Inr read_var_int_Inr read_array_Inr write_var_bytes_def unat_of_nat split_paired_Ex)
qed

definition input_ok :: "cash_tx_in \<Rightarrow> bool" where
  "input_ok i \<longleftrightarrow> is_array 32 (co_txid (ci_previous_output i)) \<and> length (ci_script_sig i) < 2 ^ 64"

definition output_ok :: "cash_tx_out \<Rightarrow> bool" where
  "output_ok out \<longleftrightarrow> length (ct_script_pubkey out) < 2 ^ 64"

interpretation cash_bytes: codec write_var_bytes read_var_bytes "\<lambda>bs. length bs < 2 ^ 64"
  by unfold_locales (rule read_var_bytes_Inr)

interpretation cash_input: codec encode_input read_input input_ok
proof
  fix bs x rest
  show "read_input bs = Inr (x, rest) \<longleftrightarrow> input_ok x \<and> bs = encode_input x @ rest"
    by (cases x; cases "ci_previous_output x")
      (auto simp: read_input_def rbind_Inr read_array_Inr read_int_Inr read_var_bytes_Inr input_ok_def encode_input_def encode_outpoint_def split_paired_Ex)
qed

interpretation cash_output: codec encode_output read_output output_ok
proof
  fix bs x rest
  show "read_output bs = Inr (x, rest) \<longleftrightarrow> output_ok x \<and> bs = encode_output x @ rest"
    by (cases x)
      (auto simp: read_output_def rbind_Inr read_int_Inr read_var_bytes_Inr output_ok_def encode_output_def split_paired_Ex)
qed

lemma read_count_Inr:
  "read_count field bs = Inr (n, rest) \<longleftrightarrow> n \<le> MAX_TRANSACTION_ELEMENTS \<and> bs = write_var_int (word_of_nat n) @ rest"
proof
  assume "read_count field bs = Inr (n, rest)"
  then show "n \<le> MAX_TRANSACTION_ELEMENTS \<and> bs = write_var_int (word_of_nat n) @ rest"
    by (auto simp: read_count_def rbind_Inr read_var_int_Inr split: if_splits)
next
  assume n: "n \<le> MAX_TRANSACTION_ELEMENTS \<and> bs = write_var_int (word_of_nat n) @ rest"
  then have "unat (word_of_nat n :: u64) = n" by (simp add: MAX_TRANSACTION_ELEMENTS_def unat_of_nat)
  moreover have "read_var_int bs = Inr (word_of_nat n, rest)" using n by (simp add: read_var_int_Inr)
  ultimately show "read_count field bs = Inr (n, rest)" using n by (simp add: read_count_def)
qed

definition cash_transaction_ok :: "cash_transaction \<Rightarrow> bool" where
  "cash_transaction_ok tx \<longleftrightarrow> length (cx_inputs tx) \<le> MAX_TRANSACTION_ELEMENTS \<and> length (cx_outputs tx) \<le> MAX_TRANSACTION_ELEMENTS
     \<and> list_all input_ok (cx_inputs tx) \<and> list_all output_ok (cx_outputs tx)"

lemma cash_decode_Inr:
  "cash_decode bs = Inr tx \<longleftrightarrow> length bs \<le> MAX_TRANSACTION_BYTES \<and> cash_transaction_ok tx \<and> bs = cash_encode tx"
  by (cases tx) (auto simp: cash_decode_def guard_Inr rbind_Inr read_int_Inr read_count_Inr cash_input.read_many_exact
      cash_output.read_many_exact cash_transaction_ok_def cash_encode_def split_paired_Ex)

lemma concat_length_le: "x \<in> set xs \<Longrightarrow> length (f x) \<le> length (concat (map f xs))"
  by (induction xs) auto

lemma write_var_int_nonempty: "1 \<le> length (write_var_int v)"
  by (simp add: write_var_int_def)

lemma inputs_length:
  "list_all (\<lambda>i. is_array 32 (co_txid (ci_previous_output i))) inputs \<Longrightarrow> 41 * length inputs \<le> length (concat (map encode_input inputs))"
proof (induction inputs)
  case (Cons i inputs)
  then have "41 \<le> length (encode_input i)"
    using write_var_int_nonempty [of "word_of_nat (length (ci_script_sig i))"]
    by (simp add: encode_input_def encode_outpoint_def write_var_bytes_def)
  with Cons show ?case by simp
qed simp

lemma cash_encode_bounds:
  assumes "length (cash_encode tx) \<le> MAX_TRANSACTION_BYTES" and txids: "list_all (\<lambda>i. is_array 32 (co_txid (ci_previous_output i))) (cx_inputs tx)"
  shows "list_all input_ok (cx_inputs tx)" "list_all output_ok (cx_outputs tx)" "length (cx_inputs tx) \<le> MAX_TRANSACTION_ELEMENTS"
proof -
  have ins: "length (concat (map encode_input (cx_inputs tx))) \<le> MAX_TRANSACTION_BYTES"
    and outs: "length (concat (map encode_output (cx_outputs tx))) \<le> MAX_TRANSACTION_BYTES"
    using assms(1) by (simp_all add: cash_encode_def)
  have "length (ci_script_sig i) \<le> MAX_TRANSACTION_BYTES" if "i \<in> set (cx_inputs tx)" for i
    using concat_length_le [OF that, of encode_input] ins by (simp add: encode_input_def write_var_bytes_def)
  then show "list_all input_ok (cx_inputs tx)"
    using txids by (fastforce simp: list_all_iff input_ok_def MAX_TRANSACTION_BYTES_def)
  have "length (ct_script_pubkey out) \<le> MAX_TRANSACTION_BYTES" if "out \<in> set (cx_outputs tx)" for out
    using concat_length_le [OF that, of encode_output] outs by (simp add: encode_output_def write_var_bytes_def)
  then show "list_all output_ok (cx_outputs tx)"
    by (fastforce simp: list_all_iff output_ok_def MAX_TRANSACTION_BYTES_def)
  have "41 * length (cx_inputs tx) \<le> length (concat (map encode_input (cx_inputs tx)))"
    using txids by (rule inputs_length)
  then show "length (cx_inputs tx) \<le> MAX_TRANSACTION_ELEMENTS"
    using ins by (simp add: MAX_TRANSACTION_BYTES_def MAX_TRANSACTION_ELEMENTS_def)
qed

text \<open>
  C39: the wire format of Bitcoin Cash transactions is canonical.  Decoding accepts exactly the encodings of
  transactions, of at most 32 MiB and with at most a million outputs, and returns the transaction that was encoded: no
  transaction has two accepted encodings, and no input, trailing byte or non-minimal length is silently dropped.
\<close>

theorem cash_transaction_codec_exact:
  "cash_decode bs = Inr tx \<longleftrightarrow> bs = cash_encode tx \<and> length bs \<le> MAX_TRANSACTION_BYTES
     \<and> length (cx_outputs tx) \<le> MAX_TRANSACTION_ELEMENTS \<and> list_all (\<lambda>i. is_array 32 (co_txid (ci_previous_output i))) (cx_inputs tx)"
  using cash_encode_bounds [of tx] unfolding cash_decode_Inr cash_transaction_ok_def by (auto simp: list_all_iff input_ok_def)

section \<open>What a signature commits to\<close>

lemma int_bytes_nonempty: "u32_le w \<noteq> []" "u64_le x \<noteq> []"
  by (metis length_int_bytes(4) list.size(3) zero_neq_numeral, metis length_int_bytes(5) list.size(3) zero_neq_numeral)

interpretation outpoints: prefix_free encode_outpoint "\<lambda>p. is_array 32 (co_txid p)"
  by unfold_locales (auto simp: encode_outpoint_def intro: cash_out_point.equality)

interpretation sequences: prefix_free u32_le "\<lambda>_. True"
  by unfold_locales (simp_all add: int_bytes_nonempty)

interpretation outputs: prefix_free encode_output output_ok
  by unfold_locales (simp add: cash_output.enc_split, simp add: encode_output_def int_bytes_nonempty)

definition cash_collision :: "bitcoin_env \<Rightarrow> bytes \<Rightarrow> bytes \<Rightarrow> bool" where
  "cash_collision E x y \<longleftrightarrow> x \<noteq> y \<and> double_sha256 E x = double_sha256 E y"

abbreviation outpoint_bytes :: "cash_transaction \<Rightarrow> bytes" where
  "outpoint_bytes tx \<equiv> concat (map encode_outpoint (map ci_previous_output (cx_inputs tx)))"

abbreviation sequence_bytes :: "cash_transaction \<Rightarrow> bytes" where
  "sequence_bytes tx \<equiv> concat (map u32_le (map ci_sequence (cx_inputs tx)))"

abbreviation output_bytes :: "cash_transaction \<Rightarrow> bytes" where
  "output_bytes tx \<equiv> concat (map encode_output (cx_outputs tx))"

definition cash_wf :: "cash_transaction \<Rightarrow> bool" where
  "cash_wf tx \<longleftrightarrow> list_all input_ok (cx_inputs tx) \<and> list_all output_ok (cx_outputs tx)"

lemma digest_lengths:
  assumes "sha256_32 E"
  shows "length (hash_prevouts E tx t) = 32" "length (hash_sequence E tx t) = 32" "hash_outputs E tx i t = Inr h \<Longrightarrow> length h = 32"
  using assms by (auto simp: hash_prevouts_def hash_sequence_def hash_outputs_def ZERO_HASH_def double_sha256_def sha256_32_def split: if_splits)

lemma sighash_all_fields [simp]: "\<not> anyone_can_pay SIGHASH_ALL_FORKID" "sighash_base SIGHASH_ALL_FORKID = 1"
  by (simp_all add: anyone_can_pay_def sighash_base_def SIGHASH_ALL_FORKID_def)

lemma sighash_preimage_inject:
  assumes "sighash_preimage tx i script_code v t p s outs = sighash_preimage tx' i' script_code' v' t' p' s' outs'"
    and "length p = 32" "length p' = 32" "length s = 32" "length s' = 32" "length outs = 32" "length outs' = 32"
    and "input_ok i" "input_ok i'" "length script_code < 2 ^ 64" "length script_code' < 2 ^ 64"
  shows "cx_version tx = cx_version tx' \<and> p = p' \<and> s = s' \<and> ci_previous_output i = ci_previous_output i' \<and> script_code = script_code'
    \<and> v = v' \<and> ci_sequence i = ci_sequence i' \<and> outs = outs' \<and> cx_lock_time tx = cx_lock_time tx' \<and> t = t'"
proof -
  have "encode_outpoint (ci_previous_output i) @ write_var_bytes script_code @ u64_le v @ u32_le (ci_sequence i) @ outs @ u32_le (cx_lock_time tx) @ u32_le t
      = encode_outpoint (ci_previous_output i') @ write_var_bytes script_code' @ u64_le v' @ u32_le (ci_sequence i') @ outs' @ u32_le (cx_lock_time tx') @ u32_le t'"
    and head: "cx_version tx = cx_version tx'" "p = p'" "s = s'"
    using assms(1-5) by (simp_all add: sighash_preimage_def)
  then have "ci_previous_output i = ci_previous_output i'" and rest:
      "write_var_bytes script_code @ u64_le v @ u32_le (ci_sequence i) @ outs @ u32_le (cx_lock_time tx) @ u32_le t
       = write_var_bytes script_code' @ u64_le v' @ u32_le (ci_sequence i') @ outs' @ u32_le (cx_lock_time tx') @ u32_le t'"
    using outpoints.split [of "ci_previous_output i" "ci_previous_output i'"] assms(8,9) unfolding input_ok_def by blast+
  moreover have "script_code = script_code'"
    and "u64_le v @ u32_le (ci_sequence i) @ outs @ u32_le (cx_lock_time tx) @ u32_le t
       = u64_le v' @ u32_le (ci_sequence i') @ outs' @ u32_le (cx_lock_time tx') @ u32_le t'"
    using cash_bytes.enc_split [OF assms(10,11)] rest by blast+
  ultimately show ?thesis using head assms(6,7) by simp
qed

text \<open>
  C40: a signature digest of type \<open>ALL|FORKID\<close> commits to the whole payment.  If any request has the same digest, it has the
  same type, version, lock time, spent outpoints and sequences, outputs, script code and input value, or two of the hashed
  strings are a collision of double SHA-256.
\<close>

theorem fork_id_sighash_commits:
  assumes sha: "sha256_32 E" and wf: "cash_wf tx" "cash_wf tx'" "length script_code < 2 ^ 64" "length script_code' < 2 ^ 64"
    and d: "fork_id_sighash E tx i script_code v SIGHASH_ALL_FORKID = Inr d" "fork_id_sighash E tx' i' script_code' v' t' = Inr d"
  shows "(t' = SIGHASH_ALL_FORKID \<and> cx_version tx' = cx_version tx \<and> cx_lock_time tx' = cx_lock_time tx
      \<and> map ci_previous_output (cx_inputs tx') = map ci_previous_output (cx_inputs tx) \<and> map ci_sequence (cx_inputs tx') = map ci_sequence (cx_inputs tx)
      \<and> cx_outputs tx' = cx_outputs tx \<and> script_code' = script_code \<and> v' = v
      \<and> ci_previous_output (cx_inputs tx' ! i') = ci_previous_output (cx_inputs tx ! i))
    \<or> cash_collision E (outpoint_bytes tx) (outpoint_bytes tx') \<or> cash_collision E (sequence_bytes tx) (sequence_bytes tx')
    \<or> cash_collision E (output_bytes tx) (output_bytes tx')
    \<or> (\<exists>h h'. hash_outputs E tx i SIGHASH_ALL_FORKID = Inr h \<and> hash_outputs E tx' i' t' = Inr h' \<and> cash_collision E
        (sighash_preimage tx (cx_inputs tx ! i) script_code v SIGHASH_ALL_FORKID (hash_prevouts E tx SIGHASH_ALL_FORKID) (hash_sequence E tx SIGHASH_ALL_FORKID) h)
        (sighash_preimage tx' (cx_inputs tx' ! i') script_code' v' t' (hash_prevouts E tx' t') (hash_sequence E tx' t') h'))"
proof -
  obtain h h' where h: "hash_outputs E tx i SIGHASH_ALL_FORKID = Inr h" "hash_outputs E tx' i' t' = Inr h'"
    and i: "i < length (cx_inputs tx)" "i' < length (cx_inputs tx')"
    and eq: "double_sha256 E (sighash_preimage tx (cx_inputs tx ! i) script_code v SIGHASH_ALL_FORKID (hash_prevouts E tx SIGHASH_ALL_FORKID) (hash_sequence E tx SIGHASH_ALL_FORKID) h)
      = double_sha256 E (sighash_preimage tx' (cx_inputs tx' ! i') script_code' v' t' (hash_prevouts E tx' t') (hash_sequence E tx' t') h')"
    using d by (auto simp: fork_id_sighash_def rbind_Inr split: if_splits)
  have ok: "input_ok (cx_inputs tx ! i)" "input_ok (cx_inputs tx' ! i')"
    using wf(1,2) i by (auto simp: cash_wf_def list_all_length)
  show ?thesis
  proof (cases "cash_collision E (outpoint_bytes tx) (outpoint_bytes tx') \<or> cash_collision E (sequence_bytes tx) (sequence_bytes tx')
      \<or> cash_collision E (output_bytes tx) (output_bytes tx')
      \<or> sighash_preimage tx (cx_inputs tx ! i) script_code v SIGHASH_ALL_FORKID (hash_prevouts E tx SIGHASH_ALL_FORKID) (hash_sequence E tx SIGHASH_ALL_FORKID) h
        \<noteq> sighash_preimage tx' (cx_inputs tx' ! i') script_code' v' t' (hash_prevouts E tx' t') (hash_sequence E tx' t') h'")
    case True
    then show ?thesis using h eq unfolding cash_collision_def by blast
  next
    case False
    then have f: "cx_version tx = cx_version tx' \<and> hash_prevouts E tx SIGHASH_ALL_FORKID = hash_prevouts E tx' t'
        \<and> hash_sequence E tx SIGHASH_ALL_FORKID = hash_sequence E tx' t' \<and> ci_previous_output (cx_inputs tx ! i) = ci_previous_output (cx_inputs tx' ! i')
        \<and> script_code = script_code' \<and> v = v' \<and> ci_sequence (cx_inputs tx ! i) = ci_sequence (cx_inputs tx' ! i') \<and> h = h'
        \<and> cx_lock_time tx = cx_lock_time tx' \<and> SIGHASH_ALL_FORKID = t'"
      using sighash_preimage_inject digest_lengths [OF sha] h ok wf(3,4) by (metis (no_types, lifting))
    have "outpoint_bytes tx = outpoint_bytes tx'" "sequence_bytes tx = sequence_bytes tx'" "output_bytes tx = output_bytes tx'"
      using False f h by (auto simp: cash_collision_def hash_prevouts_def hash_sequence_def hash_outputs_def comp_def)
    then show ?thesis
      using f outpoints.concat_inject sequences.concat_inject outputs.concat_inject wf(1,2)
      by (simp add: cash_wf_def list_all_iff input_ok_def)
  qed
qed

definition sample_cash :: "bytes \<Rightarrow> cash_transaction" where
  "sample_cash sig = \<lparr>cx_version = 2, cx_inputs = [\<lparr>ci_previous_output = \<lparr>co_txid = replicate 32 7, co_output_index = 1\<rparr>, ci_script_sig = sig, ci_sequence = - 1\<rparr>],
     cx_outputs = [\<lparr>ct_value = 900, ct_script_pubkey = [0x51]\<rparr>], cx_lock_time = 0\<rparr>"

theorem fork_id_sighash_commits_witness:
  "\<exists>d. fork_id_sighash sample_env (sample_cash []) 0 [0xac] 1000 SIGHASH_ALL_FORKID = Inr d
     \<and> fork_id_sighash sample_env (sample_cash [0x00]) 0 [0xac] 1000 SIGHASH_ALL_FORKID = Inr d
     \<and> (cx_outputs (sample_cash []) = cx_outputs (sample_cash [0x00])
        \<or> cash_collision sample_env (output_bytes (sample_cash [])) (output_bytes (sample_cash [0x00])))"
proof -
  have wf: "cash_wf (sample_cash [])" "cash_wf (sample_cash [0x00])"
    by (simp_all add: cash_wf_def sample_cash_def input_ok_def output_ok_def)
  obtain d where "fork_id_sighash sample_env (sample_cash []) 0 [0xac] 1000 SIGHASH_ALL_FORKID = Inr d"
    by (simp add: fork_id_sighash_def sample_cash_def hash_outputs_def)
  moreover from this have "fork_id_sighash sample_env (sample_cash [0x00]) 0 [0xac] 1000 SIGHASH_ALL_FORKID = Inr d"
    by (simp add: fork_id_sighash_def sample_cash_def hash_outputs_def hash_prevouts_def hash_sequence_def sighash_preimage_def)
  ultimately show ?thesis
    using fork_id_sighash_commits [OF sample_env_hyps(1) wf, of "[0xac]" "[0xac]" 0 1000 d 0 1000 SIGHASH_ALL_FORKID]
    by (auto simp: sample_cash_def)
qed

end
