(* ===== verification/Cash_Address.thy ===== *)
theory Cash_Address
  imports Cash_Transaction
begin

text \<open>
  Bitcoin Cash addresses of \<open>crates/chain-bitcoin-cash/src/address.rs\<close>: the CashAddr format with its
  base 32 digits and its 40 bit checksum, and the legacy format.  A \<open>&str\<close> is the list of its UTF-8 bytes.
  Base58Check, RIPEMD-160 and the elliptic curve are third-party code and fields of \<open>cash_env\<close>.
\<close>

unbundle bit_operations_syntax

section \<open>Third-party functions\<close>

datatype bs58_error = Bs58InvalidChecksum | Bs58Other

record cash_env =
  ripemd160 :: "bytes \<Rightarrow> bytes"
  bs58_encode_check :: "bytes \<Rightarrow> bytes"
  bs58_decode_check :: "bytes \<Rightarrow> (bs58_error, bytes) rresult"
  public_key_from_slice :: "bytes \<Rightarrow> bytes option"
  ecdsa_from_der :: "bytes \<Rightarrow> bytes option"
  ecdsa_serialize_der :: "bytes \<Rightarrow> bytes"
  ecdsa_normalize_s :: "bytes \<Rightarrow> bytes"
  ecdsa_verify :: "bytes \<Rightarrow> bytes \<Rightarrow> bytes \<Rightarrow> bool"
  affine_from_encoded :: "bytes \<Rightarrow> bytes option"
  field_element_valid :: "bytes \<Rightarrow> bool"
  scalar_from_repr :: "bytes \<Rightarrow> bytes option"
  scalar_reduce :: "bytes \<Rightarrow> bytes"
  schnorr_commitment :: "bytes \<Rightarrow> bytes \<Rightarrow> bytes \<Rightarrow> (bytes \<times> bytes) option"
  field_has_sqrt :: "bytes \<Rightarrow> bool"

text \<open>
  \<^item> \<open>bs58_encode_check\<close> and \<open>bs58_decode_check\<close> are \<open>bs58\<close> with \<open>with_check\<close>.
  \<^item> \<open>public_key_from_slice\<close> returns the compressed serialisation of the key; a signature is
    represented by its compact serialisation; \<open>ecdsa_verify digest signature key\<close>.
  \<^item> \<open>affine_from_encoded\<close> parses a SEC1 point and returns its compressed encoding, and
    \<open>schnorr_commitment s key e\<close> is the point \<open>s G - e P\<close> as its coordinates, \<open>None\<close> for the identity.
\<close>

text \<open>Decoding what was encoded returns the payload.\<close>

definition bs58_inverse :: "cash_env \<Rightarrow> bool" where
  "bs58_inverse C \<longleftrightarrow> (\<forall>bs. bs58_decode_check C (bs58_encode_check C bs) = Inr bs)"

section \<open>Addresses\<close>

datatype address_kind = P2pkh | P2sh

datatype address_network = AddrMainnet | AddrTestFamily | AddrRegtest | AddrLegacyNonMainnet

record cash_address =
  ca_network :: address_network
  ca_kind :: address_kind
  ca_hash :: bytes

fun address_network_of :: "bitcoin_cash_network \<Rightarrow> address_network" where
  "address_network_of BchMainnet = AddrMainnet"
| "address_network_of BchRegtest = AddrRegtest"
| "address_network_of BchTestnet3 = AddrTestFamily"
| "address_network_of BchTestnet4 = AddrTestFamily"
| "address_network_of BchScalenet = AddrTestFamily"
| "address_network_of BchChipnet = AddrTestFamily"

fun cashaddr_prefix :: "address_network \<Rightarrow> bytes option" where
  "cashaddr_prefix AddrMainnet = Some (ascii ''bitcoincash'')"
| "cashaddr_prefix AddrTestFamily = Some (ascii ''bchtest'')"
| "cashaddr_prefix AddrRegtest = Some (ascii ''bchreg'')"
| "cashaddr_prefix AddrLegacyNonMainnet = None"

fun address_network_name :: "address_network \<Rightarrow> string" where
  "address_network_name AddrMainnet = ''mainnet''"
| "address_network_name AddrTestFamily = ''test-family''"
| "address_network_name AddrRegtest = ''regtest''"
| "address_network_name AddrLegacyNonMainnet = ''legacy non-mainnet family''"

definition require_cashaddr_network :: "bitcoin_cash_network \<Rightarrow> bytes \<Rightarrow> (cash_error, address_network) rresult" where
  "require_cashaddr_network expected_network actual_prefix =
     rbind (if actual_prefix = ascii ''bitcoincash'' then Inr AddrMainnet
            else if actual_prefix = ascii ''bchtest'' then Inr AddrTestFamily
            else if actual_prefix = ascii ''bchreg'' then Inr AddrRegtest
            else Inl (CashWrongNetwork expected_network ''unknown'')) (\<lambda>actual_network.
     if actual_network = address_network_of expected_network then Inr actual_network
     else Inl (CashWrongNetwork expected_network (address_network_name actual_network)))"

fun legacy_version :: "address_network \<Rightarrow> address_kind \<Rightarrow> u8" where
  "legacy_version AddrMainnet P2pkh = 0"
| "legacy_version AddrMainnet P2sh = 5"
| "legacy_version _ P2pkh = 111"
| "legacy_version _ P2sh = 196"

definition cash_address_new :: "bitcoin_cash_network \<Rightarrow> address_kind \<Rightarrow> bytes \<Rightarrow> cash_address" where
  "cash_address_new network kind hash = \<lparr>ca_network = address_network_of network, ca_kind = kind, ca_hash = hash\<rparr>"

definition hash160 :: "bitcoin_env \<Rightarrow> cash_env \<Rightarrow> bytes \<Rightarrow> bytes" where
  "hash160 E C bs = ripemd160 C (sha256 E bs)"

definition p2pkh_from_public_key ::
    "bitcoin_env \<Rightarrow> cash_env \<Rightarrow> bitcoin_cash_network \<Rightarrow> bytes \<Rightarrow> (cash_error, cash_address) rresult" where
  "p2pkh_from_public_key E C network public_key =
     (if public_key_from_slice C public_key = None then Inl CashInvalidPublicKey
      else Inr (cash_address_new network P2pkh (hash160 E C public_key)))"

definition p2sh_from_redeem_script :: "bitcoin_env \<Rightarrow> cash_env \<Rightarrow> bitcoin_cash_network \<Rightarrow> bytes \<Rightarrow> cash_address" where
  "p2sh_from_redeem_script E C network redeem_script = cash_address_new network P2sh (hash160 E C redeem_script)"

definition require_exact_network :: "cash_address \<Rightarrow> bitcoin_cash_network \<Rightarrow> (cash_error, cash_address) rresult" where
  "require_exact_network a expected =
     (if ca_network a = AddrTestFamily \<and> address_network_of expected = AddrTestFamily \<or> ca_network a = AddrLegacyNonMainnet
      then Inl AmbiguousAddressNetwork
      else if ca_network a = address_network_of expected then Inr a
      else Inl (CashWrongNetwork expected (address_network_name (ca_network a))))"

section \<open>Checksum and base conversion\<close>

definition CASHADDR_CHARSET :: bytes where
  "CASHADDR_CHARSET = ascii ''qpzry9x8gf2tvdw0s3jn54khce6mua7l''"

definition prefix_expand :: "bytes \<Rightarrow> bytes" where
  "prefix_expand prefix = map (\<lambda>b. b AND 31) prefix @ [0]"

definition GENERATORS :: "u64 list" where
  "GENERATORS = [0x98f2bc8e61, 0x79b76d99e2, 0xf33e5fb3c4, 0xae2eabe2a8, 0x1e4f43e470]"

definition polymod_step :: "u8 \<Rightarrow> u64 \<Rightarrow> u64" where
  "polymod_step value checksum =
     (let high = drop_bit 35 checksum;
          checksum = push_bit 5 (checksum AND 0x7ffffffff) XOR ucast value
      in fold (\<lambda>(i, generator) c. if drop_bit i high AND 1 \<noteq> 0 then c XOR generator else c) (enumerate 0 GENERATORS) checksum)"

definition polymod :: "bytes \<Rightarrow> u64" where
  "polymod values = fold polymod_step values 1 XOR 1"

text \<open>
  The inner loop of \<open>convert_bits\<close> moves the complete groups of \<open>to_bits\<close> bits from the accumulator to the result.  The
  function is called with group sizes five and eight only; a size of zero would loop forever.
\<close>

function drain :: "nat \<Rightarrow> u32 \<Rightarrow> nat \<Rightarrow> bytes \<Rightarrow> nat \<times> bytes" where
  "drain to_bits accumulator bits result =
     (if 0 < to_bits \<and> to_bits \<le> bits
      then drain to_bits accumulator (bits - to_bits) (result @ [ucast (drop_bit (bits - to_bits) accumulator AND (2 ^ to_bits - 1))])
      else (bits, result))"
  by auto
termination
  by (relation "measure (\<lambda>(_, _, bits, _). bits)") auto

declare drain.simps [simp del]

fun convert_loop :: "nat \<Rightarrow> nat \<Rightarrow> bytes \<Rightarrow> u32 \<Rightarrow> nat \<Rightarrow> bytes \<Rightarrow> (cash_error, u32 \<times> nat \<times> bytes) rresult" where
  "convert_loop from_bits to_bits [] accumulator bits result = Inr (accumulator, bits, result)"
| "convert_loop from_bits to_bits (v # data) accumulator bits result =
     (if drop_bit from_bits (ucast v :: u32) \<noteq> 0 then Inl InvalidAddressPayload
      else let accumulator = (push_bit from_bits accumulator OR ucast v) AND (2 ^ (from_bits + to_bits - 1) - 1);
               (bits, result) = drain to_bits accumulator (bits + from_bits) result
           in convert_loop from_bits to_bits data accumulator bits result)"

definition convert_bits :: "bytes \<Rightarrow> nat \<Rightarrow> nat \<Rightarrow> bool \<Rightarrow> (cash_error, bytes) rresult" where
  "convert_bits data from_bits to_bits pad =
     rbind (convert_loop from_bits to_bits data 0 0 []) (\<lambda>(accumulator, bits, result).
     let last = push_bit (to_bits - bits) accumulator AND (2 ^ to_bits - 1) in
     if pad then Inr (if bits \<noteq> 0 then result @ [ucast last] else result)
     else if bits \<ge> from_bits \<or> last \<noteq> 0 then Inl InvalidAddressPayload
     else Inr result)"

section \<open>CashAddr\<close>

fun kind_version :: "address_kind \<Rightarrow> u8" where
  "kind_version P2pkh = 0"
| "kind_version P2sh = 8"

definition checksum_digits :: "u64 \<Rightarrow> bytes" where
  "checksum_digits checksum = map (\<lambda>shift. ucast (drop_bit (5 * (7 - shift)) checksum AND 31)) [0..<8]"

definition to_cashaddr :: "cash_address \<Rightarrow> (cash_error, bytes) rresult" where
  "to_cashaddr a =
     rbind (ok_or AmbiguousAddressNetwork (cashaddr_prefix (ca_network a))) (\<lambda>prefix.
     rbind (convert_bits (kind_version (ca_kind a) # ca_hash a) 8 5 True) (\<lambda>payload.
     let checksum = polymod (prefix_expand prefix @ payload @ replicate 8 0)
     in Inr (prefix @ ascii '':'' @ map (\<lambda>v. CASHADDR_CHARSET ! unat v) (payload @ checksum_digits checksum))))"

definition is_ascii_lowercase :: "u8 \<Rightarrow> bool" where "is_ascii_lowercase b \<longleftrightarrow> 0x61 \<le> b \<and> b \<le> 0x7a"
definition is_ascii_uppercase :: "u8 \<Rightarrow> bool" where "is_ascii_uppercase b \<longleftrightarrow> 0x41 \<le> b \<and> b \<le> 0x5a"
definition to_ascii_lowercase :: "u8 \<Rightarrow> u8" where "to_ascii_lowercase b = (if is_ascii_uppercase b then b + 0x20 else b)"

definition colon :: u8 where "colon = 0x3a"

definition split_cashaddr :: "bitcoin_cash_network \<Rightarrow> bytes \<Rightarrow> (cash_error, bytes \<times> bytes) rresult" where
  "split_cashaddr expected_network normalized =
     (if colon \<in> set normalized
      then let prefix = takeWhile (\<lambda>b. b \<noteq> colon) normalized; payload = drop (Suc (length prefix)) normalized in
        if colon \<notin> set payload then Inr (prefix, payload) else Inl InvalidAddressEncoding
      else rbind (ok_or InvalidAddressEncoding (cashaddr_prefix (address_network_of expected_network))) (\<lambda>prefix. Inr (prefix, normalized)))"

definition charset_digit :: "u8 \<Rightarrow> (cash_error, u8) rresult" where
  "charset_digit b = ok_or InvalidAddressEncoding (map_option word_of_nat (position (\<lambda>c. c = b) CASHADDR_CHARSET))"

definition version_kind :: "u8 \<Rightarrow> (cash_error, address_kind) rresult" where
  "version_kind v = (if v = 0 then Inr P2pkh else if v = 8 then Inr P2sh else Inl InvalidAddressPayload)"

definition parse_cashaddr :: "bitcoin_cash_network \<Rightarrow> bytes \<Rightarrow> (cash_error, cash_address) rresult" where
  "parse_cashaddr expected_network encoded =
     (if list_ex is_ascii_lowercase encoded \<and> list_ex is_ascii_uppercase encoded then Inl MixedCaseAddress
      else if \<not> list_all (\<lambda>b. b < 0x80) encoded then Inl InvalidAddressEncoding
      else rbind (split_cashaddr expected_network (map to_ascii_lowercase encoded)) (\<lambda>(prefix, payload_text).
      if prefix = [] \<or> length payload_text < 8 then Inl InvalidAddressEncoding
      else rbind (require_cashaddr_network expected_network prefix) (\<lambda>network.
      rbind (rmap charset_digit payload_text) (\<lambda>payload.
      if polymod (prefix_expand prefix @ payload) \<noteq> 0 then Inl InvalidChecksum
      else rbind (convert_bits (take (length payload - 8) payload) 5 8 False) (\<lambda>data.
      if length data \<noteq> 21 then Inl InvalidAddressPayload
      else rbind (version_kind (hd data)) (\<lambda>kind.
      Inr \<lparr>ca_network = network, ca_kind = kind, ca_hash = tl data\<rparr>))))))"

section \<open>Legacy addresses\<close>

definition to_legacy :: "cash_env \<Rightarrow> cash_address \<Rightarrow> bytes" where
  "to_legacy C a = bs58_encode_check C (legacy_version (ca_network a) (ca_kind a) # ca_hash a)"

definition legacy_identity :: "u8 \<Rightarrow> (cash_error, address_kind \<times> address_network) rresult" where
  "legacy_identity v =
     (if v = 0 then Inr (P2pkh, AddrMainnet) else if v = 5 then Inr (P2sh, AddrMainnet)
      else if v = 111 then Inr (P2pkh, AddrLegacyNonMainnet) else if v = 196 then Inr (P2sh, AddrLegacyNonMainnet)
      else Inl InvalidAddressPayload)"

definition parse_legacy :: "cash_env \<Rightarrow> bitcoin_cash_network \<Rightarrow> bytes \<Rightarrow> (cash_error, cash_address) rresult" where
  "parse_legacy C expected_network encoded =
     rbind (map_err (\<lambda>e. case e of Bs58InvalidChecksum \<Rightarrow> InvalidChecksum | Bs58Other \<Rightarrow> InvalidAddressEncoding)
       (bs58_decode_check C encoded)) (\<lambda>payload.
     if length payload \<noteq> 21 then Inl InvalidAddressPayload
     else rbind (legacy_identity (hd payload)) (\<lambda>(kind, network).
     let expected = address_network_of expected_network;
         compatible = network = expected \<or> network = AddrLegacyNonMainnet \<and> expected \<noteq> AddrMainnet
     in if \<not> compatible then Inl (CashWrongNetwork expected_network (address_network_name network))
        else Inr \<lparr>ca_network = network, ca_kind = kind, ca_hash = tl payload\<rparr>))"

end
