(* ===== verification/Cash_Properties.thy ===== *)
theory Cash_Properties
  imports Cash_Address
begin

text \<open>
  CashAddr is exact: the base conversion preserves the sequence of bits, the checksum is linear and
  determines its eight digits, and therefore parsing accepts exactly the printed addresses.
\<close>

unbundle bit_operations_syntax

section \<open>Bits of words and digits\<close>

text \<open>The lowest \<open>n\<close> bits of a word, the highest one first, and the bits of a list of digits.\<close>

primrec low :: "'a::len word \<Rightarrow> nat \<Rightarrow> bool list" where
  "low x 0 = []"
| "low x (Suc n) = bit x n # low x n"

definition bits_of :: "nat \<Rightarrow> bytes \<Rightarrow> bool list" where
  "bits_of w ds = concat (map (\<lambda>d. low d w) ds)"

lemma length_low [simp]: "length (low x n) = n"
  by (induction n) simp_all

lemma bits_of_simps [simp]: "bits_of w [] = []" "bits_of w (d # ds) = low d w @ bits_of w ds" "bits_of w (ds @ es) = bits_of w ds @ bits_of w es"
  by (simp_all add: bits_of_def)

lemma length_bits_of [simp]: "length (bits_of w ds) = w * length ds"
  by (induction ds) simp_all

lemma low_cong: "low x n = low y n \<longleftrightarrow> (\<forall>j < n. bit x j = bit y j)"
  by (induction n) (auto simp: less_Suc_eq)

lemma low_replicate: "low x n = replicate n False \<longleftrightarrow> (\<forall>j < n. \<not> bit x j)"
  by (induction n) (auto simp: less_Suc_eq)

lemma low_append: "low x (k + n) = low (drop_bit k x) n @ low x k" for x :: "'a::len word"
  by (induction n) (simp_all add: bit_drop_bit_eq)

lemma low_word: "take_bit n x = x \<Longrightarrow> take_bit n y = y \<Longrightarrow> low x n = low y n \<longleftrightarrow> x = y" for x y :: "'a::len word"
  unfolding low_cong by (metis bit_take_bit_iff bit_eqI)

abbreviation digits :: "nat \<Rightarrow> bytes \<Rightarrow> bool" where
  "digits w \<equiv> list_all (\<lambda>d. take_bit w d = d)"

lemma bits_of_inject:
  assumes "digits w ds" "digits w es" "0 < w" "bits_of w ds = bits_of w es"
  shows "ds = es"
  using assms
proof (induction ds arbitrary: es)
  case Nil
  from arg_cong [OF Nil.prems(4), of length] have "w * length es = 0" by simp
  then show ?case using Nil.prems(3) by simp
next
  case (Cons d ds)
  from arg_cong [OF Cons.prems(4), of length] have "w * Suc (length ds) = w * length es" by simp
  then obtain e fs where es: "es = e # fs" using Cons.prems(3) by (cases es) auto
  have "low d w = low e w" "bits_of w ds = bits_of w fs" using Cons.prems(4) es by simp_all
  moreover have "d = e" using low_word [of w d e] Cons.prems(1,2) es calculation(1) by simp
  moreover have "ds = fs" using Cons.IH [of fs] Cons.prems(1-3) es calculation(2) by simp
  ultimately show ?case using es by simp
qed

section \<open>Base conversion\<close>

lemma bit_group: "j < to_bits \<Longrightarrow> to_bits \<le> 8 \<Longrightarrow> bit (ucast (drop_bit k x AND (2 ^ to_bits - 1) :: u32) :: u8) j = bit x (k + j)" for x :: u32
  by (simp add: bit_ucast_iff bit_and_iff bit_drop_bit_eq bit_mask_iff flip: mask_eq_exp_minus_1)

lemma group_digit: "to_bits \<le> 8 \<Longrightarrow> take_bit to_bits (ucast (y AND (2 ^ to_bits - 1) :: u32) :: u8) = ucast (y AND (2 ^ to_bits - 1))" for y :: u32
  by (rule bit_eqI) (auto simp: bit_take_bit_iff bit_ucast_iff bit_and_iff bit_mask_iff simp flip: mask_eq_exp_minus_1)

lemma drain_bits:
  assumes "drain to_bits x n r = (n', r')" "0 < to_bits" "to_bits \<le> 8" "digits to_bits r"
  shows "n' < to_bits \<and> digits to_bits r' \<and> bits_of to_bits r' @ low x n' = bits_of to_bits r @ low x n"
  using assms
proof (induction to_bits x n r rule: drain.induct)
  case (1 to_bits x n r)
  show ?case
  proof (cases "to_bits \<le> n")
    case True
    define d where "d = (ucast (drop_bit (n - to_bits) x AND (2 ^ to_bits - 1)) :: u8)"
    have "drain to_bits x (n - to_bits) (r @ [d]) = (n', r')"
      using 1(2,3) True by (subst (asm) drain.simps) (simp add: d_def)
    moreover have "digits to_bits (r @ [d])" using 1(4,5) by (simp add: d_def group_digit)
    moreover have "low d to_bits = low (drop_bit (n - to_bits) x) to_bits"
      unfolding low_cong using 1(4) by (simp add: d_def bit_group bit_drop_bit_eq)
    moreover have "low x n = low (drop_bit (n - to_bits) x) to_bits @ low x (n - to_bits)"
      using low_append [of x "n - to_bits" to_bits] True by simp
    ultimately show ?thesis using 1(1) [folded d_def] 1(3,4) True by simp
  qed (use 1(2-) in \<open>simp add: drain.simps [of to_bits x n r]\<close>)
qed

text \<open>One more digit in the accumulator.\<close>

lemma accumulate_bits:
  fixes x :: u32 and v :: u8
  assumes "n < to_bits" "to_bits \<le> 8" "from_bits \<le> 8" "take_bit from_bits v = v"
  shows "low ((push_bit from_bits x OR ucast v) AND (2 ^ (from_bits + to_bits - 1) - 1)) (n + from_bits) = low x n @ low v from_bits"
proof -
  define y where "y = (push_bit from_bits x OR ucast v) AND mask (from_bits + to_bits - 1)"
  have v: "\<not> bit v (from_bits + j)" for j using assms(4) by (metis bit_take_bit_iff less_irrefl not_add_less1)
  have "low (drop_bit from_bits y) n = low x n"
    unfolding low_cong using assms(1-3) v by (auto simp: y_def bit_drop_bit_eq bit_and_iff bit_or_iff bit_push_bit_iff bit_mask_iff bit_ucast_iff)
  moreover have "low y from_bits = low v from_bits"
    unfolding low_cong using assms(1-3) by (auto simp: y_def bit_and_iff bit_or_iff bit_push_bit_iff bit_mask_iff bit_ucast_iff)
  ultimately show ?thesis using low_append [of y from_bits n] by (simp add: y_def mask_eq_exp_minus_1 add.commute)
qed

lemma drop_bit_zero: "drop_bit k x = 0 \<longleftrightarrow> (\<forall>j. \<not> bit x (k + j))" for x :: "'a::len word"
  using bit_imp_le_length [of x] by (auto simp: bit_eq_iff bit_drop_bit_eq) (metis add_lessD1 add.commute)

lemma word_zero_bits: "x = 0 \<longleftrightarrow> (\<forall>j. \<not> bit x j)" for x :: "'a::len word"
  using drop_bit_zero [of 0 x] by simp

lemma narrow_digit: "drop_bit from_bits (ucast v :: u32) = 0 \<longleftrightarrow> take_bit from_bits v = v" for v :: u8
  using bit_imp_le_length [of v] by (fastforce simp: take_bit_eq_self_iff_drop_bit_eq_0 drop_bit_zero bit_ucast_iff)

lemma convert_loop_bits:
  assumes "0 < to_bits" "to_bits \<le> 8" "from_bits \<le> 8" "n < to_bits" "digits to_bits r"
  shows "(digits from_bits data \<longrightarrow> (\<exists>x' n' r'. convert_loop from_bits to_bits data x n r = Inr (x', n', r') \<and> n' < to_bits \<and> digits to_bits r'
      \<and> bits_of to_bits r' @ low x' n' = bits_of to_bits r @ low x n @ bits_of from_bits data))
    \<and> (\<not> digits from_bits data \<longrightarrow> \<not> is_ok (convert_loop from_bits to_bits data x n r))"
  using assms(4,5)
proof (induction data arbitrary: x n r)
  case Nil
  then show ?case by simp
next
  case (Cons v data)
  define y where "y = (push_bit from_bits x OR ucast v) AND (2 ^ (from_bits + to_bits - 1) - 1)"
  obtain n' r' where d: "drain to_bits y (n + from_bits) r = (n', r')" by (cases "drain to_bits y (n + from_bits) r")
  note db = drain_bits [OF d assms(1,2) Cons.prems(2)]
  show ?case
  proof (cases "take_bit from_bits v = v")
    case True
    then have "low y (n + from_bits) = low x n @ low v from_bits"
      using accumulate_bits Cons.prems(1) assms(2,3) by (simp add: y_def)
    moreover have "convert_loop from_bits to_bits (v # data) x n r = convert_loop from_bits to_bits data y n' r'"
      using True d assms(3) by (simp add: narrow_digit Let_def del: One_nat_def flip: y_def)
    ultimately show ?thesis using Cons.IH [of n' r' y] db True by auto
  qed (use assms(3) in \<open>simp add: narrow_digit\<close>)
qed

text \<open>
  What the conversion computes: with padding, the digits of the same bits followed by fewer zeros than a digit has; without
  padding, the digits whose bits are followed by such zeros.  The two directions are inverse to each other.
\<close>

lemma padded_unique:
  assumes "digits w r" "digits w r'" "0 < w" "k < w" "k' < w" "bits_of w r = bs @ replicate k False" "bits_of w r' = bs @ replicate k' False"
  shows "r = r'"
proof -
  have l: "w * length r = length bs + k" "w * length r' = length bs + k'"
    using arg_cong [OF assms(6), of length] arg_cong [OF assms(7), of length] by simp_all
  have "length r = length r'"
  proof (rule ccontr)
    assume "length r \<noteq> length r'"
    then consider "Suc (length r) \<le> length r'" | "Suc (length r') \<le> length r" by linarith
    then show False
      using l assms(4,5) mult_le_mono2 [of "Suc (length r)" "length r'" w] mult_le_mono2 [of "Suc (length r')" "length r" w] by cases auto
  qed
  then have "k = k'" using l by simp
  then show ?thesis using bits_of_inject [OF assms(1-3)] assms(6,7) by simp
qed

lemma convert_bits_pad:
  assumes "0 < to_bits" "to_bits \<le> 8" "from_bits \<le> 8"
  shows "convert_bits data from_bits to_bits True = Inr r \<longleftrightarrow> digits from_bits data \<and> digits to_bits r
    \<and> (\<exists>k < to_bits. bits_of to_bits r = bits_of from_bits data @ replicate k False)"
proof (cases "digits from_bits data")
  case True
  then obtain x n r' where loop: "convert_loop from_bits to_bits data 0 0 [] = Inr (x, n, r')" and n: "n < to_bits" and dr: "digits to_bits r'"
    and bits: "bits_of to_bits r' @ low x n = bits_of from_bits data"
    using convert_loop_bits [OF assms, of 0 "[]" data 0] assms(1) by auto
  define d where "d = (ucast (push_bit (to_bits - n) x AND (2 ^ to_bits - 1)) :: u8)"
  define res where "res = (if n \<noteq> 0 then r' @ [d] else r')"
  have d: "bit d j \<longleftrightarrow> to_bits - n \<le> j \<and> bit x (j - (to_bits - n))" if "j < to_bits" for j
    using bit_group [of j to_bits 0 "push_bit (to_bits - n) x"] that assms(2) by (simp add: d_def bit_push_bit_iff)
  have "bit d (to_bits - n + j) = bit x j" if "j < n" for j using d [of "to_bits - n + j"] n that by (simp del: add_diff_assoc2)
  then have "low (drop_bit (to_bits - n) d) n = low x n"
    unfolding low_cong bit_drop_bit_eq comp_def by blast
  moreover have "low d (to_bits - n) = replicate (to_bits - n) False"
    unfolding low_replicate by (simp add: d)
  ultimately have "low d to_bits = low x n @ replicate (to_bits - n) False"
    using low_append [of d "to_bits - n" n] n by simp
  then have "bits_of to_bits res = bits_of from_bits data @ replicate (if n = 0 then 0 else to_bits - n) False"
    using n by (simp add: res_def flip: bits)
  moreover have "(if n = 0 then 0 else to_bits - n) < to_bits" using assms(1) by simp
  ultimately obtain k where k: "k < to_bits" "bits_of to_bits res = bits_of from_bits data @ replicate k False" by blast
  have dres: "digits to_bits res" using dr assms(2) by (simp add: res_def d_def group_digit)
  have "r = res" if "digits to_bits r" "k' < to_bits" "bits_of to_bits r = bits_of from_bits data @ replicate k' False" for k'
    using padded_unique [OF that(1) dres assms(1) that(2) k(1) that(3) k(2)] .
  moreover have "convert_bits data from_bits to_bits True = Inr res"
    by (simp add: convert_bits_def loop Let_def res_def d_def)
  ultimately show ?thesis using True dres k by auto
next
  case False
  then have "\<not> is_ok (convert_loop from_bits to_bits data 0 0 [])" using convert_loop_bits [OF assms, of 0 "[]"] assms(1) by auto
  then show ?thesis using False by (auto simp: convert_bits_def rbind_Inr)
qed

lemma convert_bits_strict:
  assumes "0 < to_bits" "to_bits \<le> 8" "from_bits \<le> 8"
  shows "convert_bits data from_bits to_bits False = Inr r \<longleftrightarrow> digits from_bits data \<and> digits to_bits r
    \<and> (\<exists>k < min from_bits to_bits. bits_of from_bits data = bits_of to_bits r @ replicate k False)"
proof (cases "digits from_bits data")
  case True
  then obtain x n r' where loop: "convert_loop from_bits to_bits data 0 0 [] = Inr (x, n, r')" and n: "n < to_bits" and dr: "digits to_bits r'"
    and bits: "bits_of to_bits r' @ low x n = bits_of from_bits data"
    using convert_loop_bits [OF assms, of 0 "[]" data 0] assms(1) by auto
  have zero: "push_bit (to_bits - n) x AND (2 ^ to_bits - 1) = 0 \<longleftrightarrow> low x n = replicate n False"
  proof -
    have lt: "j < 32" if "j < to_bits" for j using that assms(2) by simp
    have "push_bit (to_bits - n) x AND mask to_bits = 0 \<longleftrightarrow> (\<forall>j. \<not> (to_bits - n \<le> j \<and> j < to_bits \<and> bit x (j - (to_bits - n))))"
      unfolding word_zero_bits bit_and_iff bit_push_bit_iff bit_mask_iff using lt by (simp add: conj_comms) blast
    also have "\<dots> \<longleftrightarrow> (\<forall>j < n. \<not> bit x j)"
    proof
      assume a: "\<forall>j. \<not> (to_bits - n \<le> j \<and> j < to_bits \<and> bit x (j - (to_bits - n)))"
      have "\<not> bit x j" if "j < n" for j using spec [OF a, of "j + (to_bits - n)"] that n by simp
      then show "\<forall>j < n. \<not> bit x j" by blast
    qed (use n in auto)
    finally show ?thesis by (simp add: low_replicate mask_eq_exp_minus_1)
  qed
  have conv: "convert_bits data from_bits to_bits False = Inr r \<longleftrightarrow> n < from_bits \<and> low x n = replicate n False \<and> r = r'"
    by (auto simp: convert_bits_def loop Let_def zero)
  have unique: "r = r' \<and> n = k" if "digits to_bits r" "k < to_bits" "bits_of from_bits data = bits_of to_bits r @ replicate k False" for k
  proof -
    have l: "to_bits * length r' + n = to_bits * length r + k"
      using arg_cong [OF bits, of length] arg_cong [OF that(3), of length] by simp
    then have "(to_bits * length r' + n) mod to_bits = (to_bits * length r + k) mod to_bits" by simp
    then have "n = k" using n that(2) by simp
    then have "bits_of to_bits r' = bits_of to_bits r" using bits that(3) l by (metis add_right_cancel append_eq_append_conv length_bits_of)
    then show ?thesis using bits_of_inject dr that(1) assms(1) \<open>n = k\<close> by blast
  qed
  show ?thesis
  proof
    assume "convert_bits data from_bits to_bits False = Inr r"
    then have "n < min from_bits to_bits" "r = r'" "bits_of from_bits data = bits_of to_bits r @ replicate n False"
      using conv n bits by simp_all
    then show "digits from_bits data \<and> digits to_bits r \<and> (\<exists>k < min from_bits to_bits. bits_of from_bits data = bits_of to_bits r @ replicate k False)"
      using True dr by blast
  next
    assume "digits from_bits data \<and> digits to_bits r \<and> (\<exists>k < min from_bits to_bits. bits_of from_bits data = bits_of to_bits r @ replicate k False)"
    then obtain k where k: "digits to_bits r" "k < from_bits" "k < to_bits" "bits_of from_bits data = bits_of to_bits r @ replicate k False" by auto
    then have "r = r' \<and> n = k" using unique by blast
    then show "convert_bits data from_bits to_bits False = Inr r" using conv k bits by simp
  qed
next
  case False
  then have "\<not> is_ok (convert_loop from_bits to_bits data 0 0 [])" using convert_loop_bits [OF assms, of 0 "[]"] assms(1) by auto
  then show ?thesis using False by (auto simp: convert_bits_def rbind_Inr)
qed

lemma convert_bits_inverse: "convert_bits ds 5 8 False = Inr bs \<longleftrightarrow> convert_bits bs 8 5 True = Inr ds"
  by (auto simp: convert_bits_pad convert_bits_strict)

section \<open>The checksum\<close>

text \<open>The correction by the generators is a function of the high digit, and one step is linear.\<close>

definition correction :: "u64 \<Rightarrow> u64" where
  "correction high = fold (\<lambda>(i, generator) c. if drop_bit i high AND 1 \<noteq> 0 then c XOR generator else c) (enumerate 0 GENERATORS) 0"

lemma fold_correction:
  "fold (\<lambda>(i, generator) c. if drop_bit i high AND 1 \<noteq> 0 then c XOR generator else c) gs x
     = x XOR fold (\<lambda>(i, generator) c. if drop_bit i high AND 1 \<noteq> 0 then c XOR generator else c) gs 0" for x :: u64
proof (induction gs arbitrary: x)
  case (Cons g gs)
  obtain i generator where g: "g = (i, generator)" by (cases g)
  show ?case
  proof (cases "drop_bit i high AND 1 = 0")
    case False
    then show ?thesis using Cons.IH [of "x XOR generator"] Cons.IH [of generator] g by (simp add: xor.assoc)
  next
    case True
    then show ?thesis using Cons.IH [of x] g by simp
  qed
qed simp

lemma polymod_step_eq: "polymod_step v c = (push_bit 5 (c AND 0x7ffffffff) XOR ucast v) XOR correction (drop_bit 35 c)"
  unfolding polymod_step_def Let_def correction_def by (rule fold_correction)

lemma mask_35: "(0x7ffffffff :: u64) = mask 35"
  by (simp add: mask_eq_exp_minus_1)

lemma polymod_step_linear:
  assumes "take_bit 35 d = d"
  shows "polymod_step v (c XOR d) = polymod_step 0 c XOR (push_bit 5 d XOR ucast v)"
proof -
  have "drop_bit 35 (c XOR d) = drop_bit 35 c"
    using assms by (simp add: take_bit_eq_self_iff_drop_bit_eq_0)
  moreover have "(c XOR d) AND mask 35 = (c AND mask 35) XOR d"
    using assms by (simp flip: take_bit_eq_mask)
  ultimately show ?thesis by (simp add: polymod_step_eq mask_35 ac_simps)
qed

text \<open>Digits packed into a word, the first one highest.\<close>

definition pack :: "bytes \<Rightarrow> u64 \<Rightarrow> u64" where
  "pack = fold (\<lambda>v p. push_bit 5 p XOR ucast v)"

lemma pack_simps [simp]: "pack [] p = p" "pack (v # ds) p = pack ds (push_bit 5 p XOR ucast v)"
  by (simp_all add: pack_def)

lemma digit_above: "take_bit k x = x \<Longrightarrow> k \<le> j \<Longrightarrow> \<not> bit x j" for x :: "'a::len word"
  by (metis bit_take_bit_iff not_le)

lemma digit_bound: "take_bit k x = x \<Longrightarrow> bit x j \<Longrightarrow> j < k" for x :: "'a::len word"
  by (metis bit_take_bit_iff)

lemma take_bit_widen: "take_bit k x = x \<Longrightarrow> k \<le> m \<Longrightarrow> take_bit m x = x" for x :: "'a::len word"
  by (metis min.absorb2 take_bit_take_bit)

lemma pack_digit:
  fixes p :: u64 and v :: u8
  assumes "take_bit 5 v = v" "k + 5 \<le> 64"
  shows "low (push_bit 5 p XOR ucast v) (k + 5) = low p k @ low v 5"
    and "take_bit k p = p \<Longrightarrow> take_bit (k + 5) (push_bit 5 p XOR ucast v) = push_bit 5 p XOR ucast v"
proof -
  note v = digit_above [OF assms(1)]
  have "low (drop_bit 5 (push_bit 5 p XOR ucast v)) k = low p k"
    unfolding low_cong using assms(2) v by (auto simp: bit_drop_bit_eq bit_xor_iff bit_push_bit_iff bit_ucast_iff)
  moreover have "low (push_bit 5 p XOR ucast v) 5 = low v 5"
    unfolding low_cong by (auto simp: bit_xor_iff bit_push_bit_iff bit_ucast_iff)
  ultimately show "low (push_bit 5 p XOR ucast v) (k + 5) = low p k @ low v 5"
    using low_append [of "push_bit 5 p XOR ucast v" 5 k] by (simp add: add.commute)
  assume p: "take_bit k p = p"
  have "j < k + 5" if "bit (push_bit 5 p XOR ucast v) j" for j
  proof (cases "bit (ucast v :: u64) j")
    case True
    then have "j < 5" using digit_bound [OF assms(1)] by (simp add: bit_ucast_iff)
    then show ?thesis by simp
  next
    case False
    then have "5 \<le> j" "bit p (j - 5)" using that by (simp_all add: bit_xor_iff bit_push_bit_iff)
    then show ?thesis using digit_bound [OF p, of "j - 5"] by simp
  qed
  then show "take_bit (k + 5) (push_bit 5 p XOR ucast v) = push_bit 5 p XOR ucast v"
    by (intro bit_eqI) (auto simp: bit_take_bit_iff simp del: take_bit_xor)
qed

lemma pack_bits:
  assumes "digits 5 ds" "take_bit k p = p" "k + 5 * length ds \<le> 64"
  shows "low (pack ds p) (k + 5 * length ds) = low p k @ bits_of 5 ds \<and> take_bit (k + 5 * length ds) (pack ds p) = pack ds p"
  using assms
proof (induction ds arbitrary: k p)
  case (Cons v ds)
  then have v: "take_bit 5 v = v" "k + 5 \<le> 64" by simp_all
  from Cons.IH [of "k + 5" "push_bit 5 p XOR ucast v"] pack_digit [OF v, of p] Cons.prems show ?case by (simp add: algebra_simps)
qed simp

lemma polymod_run_linear:
  assumes "digits 5 ds" "take_bit k d = d" "k + 5 * length ds \<le> 40"
  shows "fold polymod_step ds (c XOR d) = fold polymod_step (replicate (length ds) 0) c XOR pack ds d"
  using assms
proof (induction ds arbitrary: k d c)
  case (Cons v ds)
  have "take_bit 35 d = d" using take_bit_widen [of k d 35] Cons.prems by simp
  then have "polymod_step v (c XOR d) = polymod_step 0 c XOR (push_bit 5 d XOR ucast v)" by (rule polymod_step_linear)
  moreover have "take_bit (k + 5) (push_bit 5 d XOR ucast v) = push_bit 5 d XOR ucast v" using Cons.prems by (intro pack_digit(2)) simp_all
  ultimately show ?case using Cons.IH [of "k + 5" "push_bit 5 d XOR ucast v" "polymod_step 0 c"] Cons.prems by simp
qed simp

lemma fold_correction_bound:
  fixes x :: u64
  assumes "list_all (\<lambda>(i, generator). take_bit 40 generator = generator) gs" "take_bit 40 x = x"
  shows "take_bit 40 (fold (\<lambda>(i, generator) c. if drop_bit i high AND 1 \<noteq> 0 then c XOR generator else c) gs x)
    = fold (\<lambda>(i, generator) c. if drop_bit i high AND 1 \<noteq> 0 then c XOR generator else c) gs x"
  using assms
proof (induction gs arbitrary: x)
  case (Cons g gs)
  obtain i generator where g: "g = (i, generator)" by (cases g)
  have "take_bit 40 (x XOR generator) = x XOR generator" using Cons.prems g by simp
  then show ?case using Cons.IH [of x] Cons.IH [of "x XOR generator"] Cons.prems g by (cases "drop_bit i high AND 1 = 0") simp_all
qed simp

lemma correction_bound: "take_bit 40 (correction high) = correction high"
  unfolding correction_def by (rule fold_correction_bound) (simp_all add: GENERATORS_def take_bit_eq_mask mask_eq_exp_minus_1)

lemma polymod_step_bound: "take_bit 40 (polymod_step v c) = polymod_step v c"
proof -
  have "take_bit 40 (ucast v :: u64) = ucast v"
    by (rule bit_eqI) (auto simp: bit_take_bit_iff bit_ucast_iff dest: bit_imp_le_length)
  moreover have "take_bit 40 (push_bit 5 (take_bit 35 c)) = push_bit 5 (take_bit 35 c)" by (simp add: take_bit_push_bit)
  ultimately show ?thesis by (simp add: polymod_step_eq mask_35 correction_bound flip: take_bit_eq_mask)
qed

lemma polymod_append_bound: "ds \<noteq> [] \<Longrightarrow> take_bit 40 (polymod ds) = polymod ds"
  by (cases ds rule: rev_cases) (simp_all add: polymod_def polymod_step_bound)

lemma checksum_digits_bits: "digits 5 (checksum_digits c) \<and> bits_of 5 (checksum_digits c) = low c 40 \<and> length (checksum_digits c) = 8"
proof -
  have g: "take_bit 5 (ucast (drop_bit k c AND 31) :: u8) = ucast (drop_bit k c AND 31)" "low (ucast (drop_bit k c AND 31) :: u8) 5 = low (drop_bit k c) 5" for k
  proof -
    have m: "(31 :: u64) = mask 5" by (simp add: mask_eq_exp_minus_1)
    show "take_bit 5 (ucast (drop_bit k c AND 31) :: u8) = ucast (drop_bit k c AND 31)"
      unfolding m by (rule bit_eqI) (auto simp: bit_take_bit_iff bit_ucast_iff bit_and_iff bit_mask_iff)
    show "low (ucast (drop_bit k c AND 31) :: u8) 5 = low (drop_bit k c) 5"
      unfolding m low_cong by (auto simp: bit_ucast_iff bit_and_iff bit_mask_iff)
  qed
  have "low c 40 = low (drop_bit 35 c) 5 @ low (drop_bit 30 c) 5 @ low (drop_bit 25 c) 5 @ low (drop_bit 20 c) 5
      @ low (drop_bit 15 c) 5 @ low (drop_bit 10 c) 5 @ low (drop_bit 5 c) 5 @ low c 5"
    using low_append [of c 35 5] low_append [of c 30 5] low_append [of c 25 5] low_append [of c 20 5]
      low_append [of c 15 5] low_append [of c 10 5] low_append [of c 5 5] by simp
  moreover have "[0..<8] = [0, 1, 2, 3, 4, 5, 6, 7::nat]" by (simp add: upt_rec)
  ultimately show ?thesis using g(1) g(1) [of 0] g(2) [of 0] by (simp add: checksum_digits_def g(2))
qed

lemma xor_one_zero: "(c XOR p) XOR 1 = 0 \<longleftrightarrow> p = c XOR 1" for c p :: u64
  unfolding word_zero_bits bit_eq_iff bit_xor_iff by auto

text \<open>The checksum accepts exactly the digits that printing appends.\<close>

lemma polymod_zero_iff:
  assumes "digits 5 cs" "length cs = 8"
  shows "polymod (vs @ cs) = 0 \<longleftrightarrow> cs = checksum_digits (polymod (vs @ replicate 8 0))"
proof -
  define c where "c = fold polymod_step (replicate 8 0) (fold polymod_step vs 1)"
  have run: "fold polymod_step cs (fold polymod_step vs 1) = c XOR pack cs 0"
    using polymod_run_linear [of cs 0 0 "fold polymod_step vs 1"] assms by (simp add: c_def)
  have chk: "polymod (vs @ replicate 8 0) = c XOR 1" by (simp add: polymod_def c_def)
  have "polymod (vs @ cs) = 0 \<longleftrightarrow> pack cs 0 = c XOR 1"
    unfolding polymod_def fold_append comp_def run by (rule xor_one_zero)
  also have "\<dots> \<longleftrightarrow> low (pack cs 0) 40 = low (c XOR 1) 40"
    using pack_bits [of cs 0 0] polymod_append_bound [of "vs @ replicate 8 0"] assms chk by (intro low_word [symmetric]) auto
  also have "\<dots> \<longleftrightarrow> bits_of 5 cs = bits_of 5 (checksum_digits (c XOR 1))"
    using pack_bits [of cs 0 0] assms checksum_digits_bits [of "c XOR 1"] by simp
  also have "\<dots> \<longleftrightarrow> cs = checksum_digits (c XOR 1)"
    using bits_of_inject [of 5 cs "checksum_digits (c XOR 1)"] assms checksum_digits_bits [of "c XOR 1"] by auto
  finally show ?thesis by (simp only: chk)
qed

section \<open>Printing and parsing\<close>

lemma colon_ascii: "ascii '':'' = [colon]"
  by (simp add: ascii_def colon_def)

lemma charset_list: "CASHADDR_CHARSET = [0x71, 0x70, 0x7a, 0x72, 0x79, 0x39, 0x78, 0x38, 0x67, 0x66, 0x32, 0x74, 0x76, 0x64, 0x77, 0x30,
    0x73, 0x33, 0x6a, 0x6e, 0x35, 0x34, 0x6b, 0x68, 0x63, 0x65, 0x36, 0x6d, 0x75, 0x61, 0x37, 0x6c]"
  by (simp add: CASHADDR_CHARSET_def ascii_def)

lemma charset_facts: "length CASHADDR_CHARSET = 32" "distinct CASHADDR_CHARSET" "colon \<notin> set CASHADDR_CHARSET"
  unfolding charset_list colon_def by simp_all

definition cash_text :: "bytes \<Rightarrow> bytes" where
  "cash_text ds = map (\<lambda>v. CASHADDR_CHARSET ! unat v) ds"

lemma digit_5: "take_bit 5 d = d \<longleftrightarrow> unat d < 32" for d :: u8
  by (simp add: word_unat_eq_iff unsigned_take_bit_eq take_bit_nat_eq_self_iff)

lemma charset_digit_Inr: "charset_digit b = Inr d \<longleftrightarrow> take_bit 5 d = d \<and> b = CASHADDR_CHARSET ! unat d"
proof -
  have "position (\<lambda>c. c = b) CASHADDR_CHARSET = Some i \<longleftrightarrow> i < 32 \<and> CASHADDR_CHARSET ! i = b" for i
    unfolding position_Some charset_facts(1) using charset_facts(1,2) by (metis less_trans nat_neq_iff nth_eq_iff_index_eq)
  moreover have "(\<exists>i < 32. d = word_of_nat i \<and> CASHADDR_CHARSET ! i = b) \<longleftrightarrow> unat d < 32 \<and> CASHADDR_CHARSET ! unat d = b"
    by (auto simp: unat_of_nat intro!: exI [of _ "unat d"])
  ultimately show ?thesis unfolding charset_digit_def ok_or_Inr digit_5 by (auto simp: eq_commute [of b])
qed

lemma digits_of_text: "rmap charset_digit text = Inr ds \<longleftrightarrow> digits 5 ds \<and> text = cash_text ds"
  unfolding rmap_Inr cash_text_def list_all2_conv_all_nth charset_digit_Inr list_all_length
  by (auto intro: nth_equalityI)

lemma cash_text_colon: "digits 5 ds \<Longrightarrow> colon \<notin> set (cash_text ds)"
  using charset_facts(1,3) by (auto simp: cash_text_def list_all_iff digit_5) (metis nth_mem)

lemma prefix_facts: "cashaddr_prefix net = Some p \<Longrightarrow> p \<noteq> [] \<and> colon \<notin> set p"
  by (cases net) (auto simp: ascii_def colon_def)

lemma require_cashaddr_network_Inr:
  "require_cashaddr_network n p = Inr net \<longleftrightarrow> net = address_network_of n \<and> cashaddr_prefix net = Some p"
  by (cases n) (auto simp: require_cashaddr_network_def ascii_inject)

lemma version_kind_Inr: "version_kind v = Inr k \<longleftrightarrow> v = kind_version k"
  by (cases k) (auto simp: version_kind_def)

lemma first_colon: "colon \<notin> set p \<Longrightarrow> takeWhile (\<lambda>b. b \<noteq> colon) (p @ colon # t) = p"
  by (induction p) auto

lemma split_cashaddr_Inr:
  "split_cashaddr n text = Inr (p, t) \<longleftrightarrow> (text = p @ colon # t \<and> colon \<notin> set p \<and> colon \<notin> set t)
     \<or> (colon \<notin> set text \<and> cashaddr_prefix (address_network_of n) = Some p \<and> t = text)"
proof (cases "colon \<in> set text")
  case True
  then obtain xs ys where t: "text = xs @ colon # ys" "colon \<notin> set xs" by (metis split_list_first)
  then have w: "takeWhile (\<lambda>b. b \<noteq> colon) text = xs" by (simp add: first_colon)
  moreover have "text = p @ colon # t \<and> colon \<notin> set p \<longleftrightarrow> p = xs \<and> t = ys"
    using t w first_colon [of p t] by (metis append_same_eq list.inject same_append_eq)
  ultimately show ?thesis using True t by (auto simp: split_cashaddr_def Let_def)
qed (auto simp: split_cashaddr_def rbind_Inr ok_or_Inr)

text \<open>What is parsed after the prefix.\<close>

lemma cashaddr_body:
  assumes p: "cashaddr_prefix (ca_network a) = Some p" and len: "8 \<le> length t"
  shows "(\<exists>payload data. rmap charset_digit t = Inr payload \<and> polymod (prefix_expand p @ payload) = 0
      \<and> convert_bits (take (length payload - 8) payload) 5 8 False = Inr data \<and> length data = 21
      \<and> version_kind (hd data) = Inr (ca_kind a) \<and> tl data = ca_hash a)
    \<longleftrightarrow> is_array 20 (ca_hash a) \<and> to_cashaddr a = Inr (p @ ascii '':'' @ t)"
proof
  assume "\<exists>payload data. rmap charset_digit t = Inr payload \<and> polymod (prefix_expand p @ payload) = 0
      \<and> convert_bits (take (length payload - 8) payload) 5 8 False = Inr data \<and> length data = 21
      \<and> version_kind (hd data) = Inr (ca_kind a) \<and> tl data = ca_hash a"
  then obtain payload data where d: "digits 5 payload" "t = cash_text payload" "polymod (prefix_expand p @ payload) = 0"
      "convert_bits (take (length payload - 8) payload) 5 8 False = Inr data" "length data = 21"
      "hd data = kind_version (ca_kind a)" "tl data = ca_hash a"
    unfolding digits_of_text version_kind_Inr by blast
  define ds cs where dc: "ds = take (length payload - 8) payload" "cs = drop (length payload - 8) payload"
  have data: "data = kind_version (ca_kind a) # ca_hash a" using d(5-7) by (cases data) auto
  have "payload = ds @ cs" "length cs = 8" "digits 5 cs"
    using d(1,2) len by (auto simp: dc cash_text_def list_all_iff dest: in_set_dropD)
  moreover have "cs = checksum_digits (polymod (prefix_expand p @ ds @ replicate 8 0))"
    using polymod_zero_iff [of cs "prefix_expand p @ ds"] d(3) calculation by simp
  moreover have "convert_bits (kind_version (ca_kind a) # ca_hash a) 8 5 True = Inr ds"
    using d(4) data convert_bits_inverse dc(1) by simp
  ultimately show "is_array 20 (ca_hash a) \<and> to_cashaddr a = Inr (p @ ascii '':'' @ t)"
    using d(2,5) data p by (simp add: to_cashaddr_def cash_text_def)
next
  assume r: "is_array 20 (ca_hash a) \<and> to_cashaddr a = Inr (p @ ascii '':'' @ t)"
  then obtain ds where c: "convert_bits (kind_version (ca_kind a) # ca_hash a) 8 5 True = Inr ds"
      and t: "t = cash_text (ds @ checksum_digits (polymod (prefix_expand p @ ds @ replicate 8 0)))"
    using p by (auto simp: to_cashaddr_def rbind_Inr Let_def cash_text_def)
  define cs where "cs = checksum_digits (polymod (prefix_expand p @ ds @ replicate 8 0))"
  have cs: "digits 5 cs" "length cs = 8" using checksum_digits_bits by (simp_all add: cs_def)
  have "digits 5 ds" using c by (simp add: convert_bits_pad)
  moreover have "polymod ((prefix_expand p @ ds) @ cs) = 0" using polymod_zero_iff [OF cs, of "prefix_expand p @ ds"] by (simp add: cs_def)
  ultimately show "\<exists>payload data. rmap charset_digit t = Inr payload \<and> polymod (prefix_expand p @ payload) = 0
      \<and> convert_bits (take (length payload - 8) payload) 5 8 False = Inr data \<and> length data = 21
      \<and> version_kind (hd data) = Inr (ca_kind a) \<and> tl data = ca_hash a"
    using r t cs c by (intro exI [of _ "ds @ cs"] exI [of _ "kind_version (ca_kind a) # ca_hash a"])
      (simp add: digits_of_text version_kind_Inr convert_bits_inverse flip: cs_def)
qed

lemma to_cashaddr_shape:
  assumes "to_cashaddr a = Inr s"
  shows "\<exists>p ds. cashaddr_prefix (ca_network a) = Some p \<and> digits 5 ds \<and> 8 \<le> length ds \<and> s = p @ colon # cash_text ds"
proof -
  obtain p ds where p: "cashaddr_prefix (ca_network a) = Some p" and c: "convert_bits (kind_version (ca_kind a) # ca_hash a) 8 5 True = Inr ds"
    and s: "s = p @ colon # cash_text (ds @ checksum_digits (polymod (prefix_expand p @ ds @ replicate 8 0)))"
    using assms by (auto simp: to_cashaddr_def rbind_Inr ok_or_Inr Let_def cash_text_def colon_ascii)
  have "digits 5 ds" using c by (simp add: convert_bits_pad)
  then show ?thesis using p s checksum_digits_bits
    by (intro exI [of _ p] exI [of _ "ds @ checksum_digits (polymod (prefix_expand p @ ds @ replicate 8 0))"]) simp
qed

lemma parse_cashaddr_Inr:
  "parse_cashaddr n s = Inr a \<longleftrightarrow> \<not> (list_ex is_ascii_lowercase s \<and> list_ex is_ascii_uppercase s) \<and> list_all (\<lambda>b. b < 0x80) s
     \<and> (\<exists>p t. split_cashaddr n (map to_ascii_lowercase s) = Inr (p, t) \<and> p \<noteq> [] \<and> 8 \<le> length t
        \<and> ca_network a = address_network_of n \<and> cashaddr_prefix (ca_network a) = Some p
        \<and> is_array 20 (ca_hash a) \<and> to_cashaddr a = Inr (p @ ascii '':'' @ t))"
proof -
  have body: "(\<exists>payload data. rmap charset_digit t = Inr payload \<and> polymod (prefix_expand p @ payload) = 0
      \<and> convert_bits (take (length payload - 8) payload) 5 8 False = Inr data \<and> length data = 21
      \<and> version_kind (hd data) = Inr (ca_kind a) \<and> tl data = ca_hash a)
    \<longleftrightarrow> is_array 20 (ca_hash a) \<and> to_cashaddr a = Inr (p @ ascii '':'' @ t)"
    if "cashaddr_prefix (ca_network a) = Some p" "8 \<le> length t" for p t
    using cashaddr_body [OF that] .
  have "parse_cashaddr n s = Inr a \<longleftrightarrow> \<not> (list_ex is_ascii_lowercase s \<and> list_ex is_ascii_uppercase s) \<and> list_all (\<lambda>b. b < 0x80) s
     \<and> (\<exists>p t. split_cashaddr n (map to_ascii_lowercase s) = Inr (p, t) \<and> p \<noteq> [] \<and> 8 \<le> length t
        \<and> ca_network a = address_network_of n \<and> cashaddr_prefix (ca_network a) = Some p
        \<and> (\<exists>payload data. rmap charset_digit t = Inr payload \<and> polymod (prefix_expand p @ payload) = 0
          \<and> convert_bits (take (length payload - 8) payload) 5 8 False = Inr data \<and> length data = 21
          \<and> version_kind (hd data) = Inr (ca_kind a) \<and> tl data = ca_hash a))"
    by (cases a) (simp only: parse_cashaddr_def guard_Inr rbind_Inr split_paired_Ex prod.case require_cashaddr_network_Inr, auto simp: not_less)
  with body show ?thesis by blast
qed

text \<open>
  C24: CashAddr parsing is exact.  An address is accepted, for the network that is asked for, exactly when it is ASCII of one
  case and its lower case form is the printed address, with or without its prefix: every printed address is read back, and no
  second spelling, no other network, no wrong digit that the checksum covers and no non-zero padding is accepted.
\<close>

theorem parse_cashaddr_exact:
  "parse_cashaddr n s = Inr a \<longleftrightarrow>
     \<not> (list_ex is_ascii_lowercase s \<and> list_ex is_ascii_uppercase s) \<and> list_all (\<lambda>b. b < 0x80) s
     \<and> ca_network a = address_network_of n \<and> is_array 20 (ca_hash a)
     \<and> (to_cashaddr a = Inr (map to_ascii_lowercase s)
        \<or> (\<exists>p. cashaddr_prefix (ca_network a) = Some p \<and> to_cashaddr a = Inr (p @ ascii '':'' @ map to_ascii_lowercase s)))"
  (is "_ \<longleftrightarrow> ?case \<and> ?ascii \<and> ?network \<and> ?hash \<and> ?text")
proof
  assume "parse_cashaddr n s = Inr a"
  then obtain p t where "?case" "?ascii" "?network" "?hash" "split_cashaddr n (map to_ascii_lowercase s) = Inr (p, t)"
      "cashaddr_prefix (ca_network a) = Some p" "to_cashaddr a = Inr (p @ ascii '':'' @ t)"
    unfolding parse_cashaddr_Inr by blast
  then show "?case \<and> ?ascii \<and> ?network \<and> ?hash \<and> ?text" unfolding split_cashaddr_Inr colon_ascii by auto
next
  assume r: "?case \<and> ?ascii \<and> ?network \<and> ?hash \<and> ?text"
  then obtain s' where s': "to_cashaddr a = Inr s'" by blast
  then obtain p ds where p: "cashaddr_prefix (ca_network a) = Some p" "digits 5 ds" "8 \<le> length ds" "to_cashaddr a = Inr (p @ colon # cash_text ds)"
    using to_cashaddr_shape [OF s'] by blast
  have "split_cashaddr n l = Inr (p, cash_text ds)" if "l = p @ colon # cash_text ds \<or> l = cash_text ds" for l
    unfolding split_cashaddr_Inr using that cash_text_colon [OF p(2)] prefix_facts [OF p(1)] p(1) r by auto
  moreover have "map to_ascii_lowercase s = p @ colon # cash_text ds \<or> map to_ascii_lowercase s = cash_text ds" using r p by (auto simp: colon_ascii)
  ultimately have "split_cashaddr n (map to_ascii_lowercase s) = Inr (p, cash_text ds)" by blast
  moreover have "8 \<le> length (cash_text ds)" using p(3) by (simp add: cash_text_def)
  ultimately show "parse_cashaddr n s = Inr a"
    unfolding parse_cashaddr_Inr using p r prefix_facts [OF p(1)] by (auto simp: colon_ascii)
qed

end
