(* ===== verification/Spec2Isabelle.thy ===== *)
theory Spec2Isabelle
  imports Tapscript Issuance_Models Index_Properties Trading_Properties Frost_Orchestrator Replay_Store Wallet_Gate Cash_Properties
begin

text \<open>
  \<^bold>\<open>Catomicals\<close> issues digital items on Bitcoin by proof of work, indexes them, trades them, and signs for a
  wallet whose key is split over several devices.  This development models the Rust crates under
  \<open>src/crates\<close> that decide whether something is accepted, recorded or signed.

  \<^bold>\<open>Parts and how they interact.\<close>
  An issuer output commits to a state (terms, lane, sequence number, remaining supply) in a tapscript.  A mint spends it with a
  proof of work, creates an item output and, while supply is left, the successor issuer output; the wallet checks the
  whole transaction.  The indexer attaches and detaches blocks, keeps the unspent outputs, and records a mint when the
  verifier accepts it.  Items are listed, bought and cancelled through transactions that an agent and the wallet verify
  independently.  Signatures come from threshold participants: a session collects nonce commitments and shares under an audited
  coordinator, each participant stands behind a guarded provider, and devices are kept in a registry.  What is signed is described by an intent;
  a Passkey approval of its digest gives a one-time authorization.  Intents, approvals, claims, jobs and devices
  are stored in the wallet database, which also implements the replay store of the providers.

  \<^bold>\<open>Conventions.\<close>
  A struct is a \<open>record\<close>, an enum a \<open>datatype\<close>, an integer a word of its width, a byte array or \<open>Vec<u8>\<close> a list of bytes, a
  \<open>BTreeMap\<close> a sorted association list.  \<open>Result\<close> is the sum type \<open>rresult\<close> with \<open>rbind\<close> for \<open>?\<close>; a panic is an error value, and where
  the error type of the source has no room for it, a constructor is added.  A method with \<open>&mut self\<close> returns its result with the new state.
  Functions of third-party crates (hashes, curves, FROST, JSON, Base58) are fields of the environment parameters
  \<open>bitcoin_env\<close>, \<open>frost_env\<close>, \<open>dkg_env\<close>, \<open>package_env\<close>, \<open>storage_env\<close> and \<open>cash_env\<close>; what the code relies on of them is a named hypothesis such
  as \<open>sha256_32\<close> or \<open>txid_32\<close>, and \<open>sample_env\<close> satisfies them.  Randomness and the clock are arguments.

  \<^bold>\<open>Theories.\<close>

  \<^item> \<open>Catomicals_Prelude\<close>, \<open>Bitcoin_Env\<close>: results, encodings, ordered maps, checked arithmetic; transactions and the environment.

  \<^item> \<open>Issuance_Terms\<close>, \<open>_State\<close>, \<open>_Pow\<close>, \<open>_Script\<close>, \<open>_Verify\<close>, \<open>_Discovery\<close>, \<open>_Models\<close>: \<open>issuance/src/terms.rs\<close>, \<open>state.rs\<close>, \<open>pow.rs\<close>,
    \<open>script.rs\<close>, \<open>verify.rs\<close>, \<open>indexer.rs\<close>, \<open>models.rs\<close>.  \<open>verify_mint\<close> accepts exactly the mints of the specification \<open>mint_spec\<close>; accepted mints conserve
    value and supply; the script parser inverts the script builder, and the scripts on which it panics are characterised; a lane mints
    exactly its supply; \<open>build_mint_tx\<close> is related to \<open>verify_mint\<close> for every amount.

  \<^item> \<open>Tapscript\<close>: the locale \<open>tapscript\<close> states the documented opcodes for an arbitrary evaluator, and the issuer script is proved against it.

  \<^item> \<open>Index_Types\<close>, \<open>Index_Store\<close>, \<open>Index_Rollback\<close>, \<open>Index_Chain\<close>, \<open>Index_Utxo\<close>, \<open>Index_Properties\<close>: \<open>indexer/src/types.rs\<close> and \<open>store.rs\<close>.  Column families are
    partial maps and a write batch is a list of operations.  \<open>rollback_tip_locked\<close> inverts \<open>apply_block_locked\<close> (locale \<open>undoable\<close>); after any \<open>index_run\<close> the database
    is the replay of a chain; the indexed outputs implement the abstract \<open>ledger\<close>; recorded transitions were verified.

  \<^item> \<open>Trading_Listing\<close>, \<open>Trading_Verify\<close>, \<open>Trading_Competition\<close>, \<open>Trading_Properties\<close>: \<open>trading/src/lib.rs\<close>.  The agent and the wallet verifier implement one policy (locale
    \<open>trade_verifier\<close>); accepted purchases settle as listed; finalisation is checked exactly; the competition tracker has at most one
    winner.

  \<^item> \<open>Frost_Session\<close>, \<open>Frost_Participant\<close>, \<open>Frost_Orchestrator\<close>, \<open>Frost_Dkg\<close>, \<open>Personal_Profile\<close>: \<open>threshold-signer/src/nonce_guard.rs\<close>, \<open>session.rs\<close>, \<open>participant.rs\<close>, \<open>orchestrator.rs\<close>,
    \<open>dkg.rs\<close>, \<open>personal.rs\<close>.  Nonces are used once; the audit chain verifies and terminal sessions stay; a signature needs a threshold of verified
    contributions; bootstrapped packages open.

  \<^item> \<open>Frost_Provider\<close>, \<open>Frost_Registry\<close>: \<open>threshold-signer/src/provider.rs\<close>.  Shares are signed only for reserved sessions; registration needs Schnorr
    signatures over its digest; revocation is permanent.  The locale \<open>signing_authorization\<close> is the contract of one-time tokens.

  \<^item> \<open>Chain_Domain\<close>, \<open>Signing_Domain\<close>, \<open>Wallet_Intent\<close>, \<open>Wallet_Gate\<close>: \<open>chain-domain/src/network.rs\<close> and \<open>review.rs\<close>, \<open>signing-domain/src\<close>, \<open>wallet-core/src/intent.rs\<close>, \<open>covhub.rs\<close>,
    \<open>gate.rs\<close>.  What digests and domain separators bind, and that an approval yields at most one share.

  \<^item> \<open>Storage_Tables\<close> to \<open>Storage_Lifecycle\<close>, \<open>Replay_Store\<close>: \<open>wallet-storage/src/models.rs\<close>, \<open>error.rs\<close>, \<open>sqlite.rs\<close> and the tables of its migrations.  A table is the list of its rows with
    the checks, unique keys and triggers of the SQL.  \<open>Storage_History\<close> and \<open>Storage_Steps\<close> bound what each operation changes, \<open>Storage_Ledger\<close> and \<open>Storage_Signing\<close> relate
    the tables to each other, \<open>Storage_Properties\<close> and \<open>Storage_Lifecycle\<close> draw the consequences for every reachable database.  \<open>Replay_Store\<close> is the trait
    \<open>ProviderReplayStore\<close> as a locale with its two implementations.

  \<^item> \<open>Cash_Transaction\<close>, \<open>Cash_Address\<close>, \<open>Cash_Properties\<close>: \<open>chain-bitcoin-cash/src/transaction.rs\<close> and \<open>address.rs\<close>.  Decoders accept exactly the encodings (locale \<open>codec\<close>), the
    signature digest commits to what it signs (locale \<open>prefix_free\<close>), and CashAddr parsing accepts exactly the printed addresses.

  \<^bold>\<open>Bounds and loops.\<close>
  There is no fuel.  Two loops without a bound of their own are partial functions in which not returning is \<open>None\<close>: \<open>find_nonce\<close>, which may run forever, and
  \<open>rollback_loop\<close>, which is shown to return on every replayed chain.  All other loops are recursive functions with a termination
  proof.  Sums of output values wrap at \<open>2^64\<close> as in a release build, so value conservation over the natural
  numbers assumes outputs of at most 21 million coins.  The statements on the index exclude blocks handed in at the height \<open>u32::MAX\<close>: the expected height saturates there,
  a second block is accepted at the same height, and detaching it removes the height entry of the first.  The operations
  themselves carry no such condition; it is a hypothesis where it is needed.

  \<^bold>\<open>Not modelled.\<close>
  Serialisation and I/O failures of RocksDB and SQLite.  \<open>HsmSignerAdapter\<close> of \<open>provider.rs\<close>, which forwards to a hardware driver that is not in the sources.  The services of \<open>wallet-core\<close>
  (HTTP, chat, WebAuthn verification, node calls) and \<open>node-client\<close>, \<open>signer-transport\<close>, the command line, the desktop and web clients: asynchronous input and output.
  \<open>secret-store\<close>, \<open>signer-recovery\<close>, \<open>cb-mpc-signer\<close> and the backup files of \<open>wallet-storage\<close>: sealed files, key chains and foreign functions.  \<open>policy-registry\<close>: canonical JSON around the issuance and
  listing functions.  The chain suites other than the Bitcoin Cash transaction and address formats: adapters
  that decode with the libraries of the chain, and requests in JSON whose signatures those libraries check.
\<close>

end
